(* ===== verification/Prelude.thy ===== *)
theory Prelude
  imports Complex_Main "HOL-Library.Multiset" "HOL-Library.Product_Lexorder" "HOL-Library.List_Lexorder" "HOL-Library.Char_ord"
begin

text \<open>
  Shared vocabulary of the development: the result type of fallible code, JSON documents as
  \<^verbatim>\<open>json.load\<close> returns them, the Python list and string operations the sources use
  (\<^verbatim>\<open>sorted(set(..))\<close>, \<^verbatim>\<open>zip(xs, xs[1:])\<close>, \<^verbatim>\<open>bisect_left\<close>,
  \<^verbatim>\<open>str.strip\<close>, \<^verbatim>\<open>int(text)\<close>), and the generic lemmas on them.

  A Python string is a list of characters; a character is a code point below 256, so the
  Unicode-aware \<^verbatim>\<open>\d\<close>, \<^verbatim>\<open>lower\<close> and \<^verbatim>\<open>strip\<close> reduce to the byte tables below.
\<close>

named_theorems result_simps "rewriting of results of fallible code"
named_theorems time_simps "arithmetic of slots and instants"
named_theorems ledger_simps "what an operation leaves unchanged in the ledger"


section \<open>Results\<close>

type_synonym ('e, 'a) result = "'e + 'a"

definition res_bind :: "('e, 'a) result \<Rightarrow> ('a \<Rightarrow> ('e, 'b) result) \<Rightarrow> ('e, 'b) result" where
  "res_bind r f = (case r of Inl e \<Rightarrow> Inl e | Inr x \<Rightarrow> f x)"

definition res_map :: "('a \<Rightarrow> 'b) \<Rightarrow> ('e, 'a) result \<Rightarrow> ('e, 'b) result" where
  "res_map f r = res_bind r (\<lambda>x. Inr (f x))"

text \<open>\<open>raise_if c e k\<close> is \<^verbatim>\<open>if c: raise e\<close> followed by \<open>k\<close>.\<close>

definition raise_if :: "bool \<Rightarrow> 'e \<Rightarrow> ('e, 'a) result \<Rightarrow> ('e, 'a) result" where
  "raise_if c e k = (if c then Inl e else k)"

lemma res_bind_Inl [simp, result_simps]: "res_bind (Inl e) f = Inl e"
  by (simp add: res_bind_def)

lemma res_bind_Inr [simp, result_simps]: "res_bind (Inr x) f = f x"
  by (simp add: res_bind_def)

lemma res_bind_eq_Inr [result_simps]:
  "res_bind r f = Inr y \<longleftrightarrow> (\<exists>x. r = Inr x \<and> f x = Inr y)"
  by (cases r) simp_all

lemma res_bind_eq_Inl [result_simps]:
  "res_bind r f = Inl e \<longleftrightarrow> r = Inl e \<or> (\<exists>x. r = Inr x \<and> f x = Inl e)"
  by (cases r) simp_all

lemma res_bindE:
  "res_bind r f = Inr y \<Longrightarrow> (\<And>x. r = Inr x \<Longrightarrow> f x = Inr y \<Longrightarrow> P) \<Longrightarrow> P"
  by (cases r) simp_all

lemma res_bind_pairE:
  "res_bind r (\<lambda>(a, b). f a b) = Inr y \<Longrightarrow> (\<And>a b. r = Inr (a, b) \<Longrightarrow> f a b = Inr y \<Longrightarrow> P) \<Longrightarrow> P"
  by (cases r) auto

lemma res_map_simps [simp]: "res_map f (Inl e) = Inl e" "res_map f (Inr x) = Inr (f x)"
  by (simp_all add: res_map_def)

lemma res_map_eq_Inr: "res_map f r = Inr y \<longleftrightarrow> (\<exists>x. r = Inr x \<and> y = f x)"
  by (cases r) auto

lemma raise_if_eq_Inr [simp, result_simps]: "raise_if c e k = Inr y \<longleftrightarrow> \<not> c \<and> k = Inr y"
  by (simp add: raise_if_def)

lemma raise_ifE: "raise_if c e k = Inr y \<Longrightarrow> (\<not> c \<Longrightarrow> k = Inr y \<Longrightarrow> P) \<Longrightarrow> P"
  by simp

lemma raise_if_simps [simp]: "raise_if True e k = Inl e" "raise_if False e k = k"
  by (simp_all add: raise_if_def)

text \<open>A \<^verbatim>\<open>for\<close> loop whose body may raise, threading an accumulator.\<close>

fun res_fold :: "('a \<Rightarrow> 's \<Rightarrow> ('e, 's) result) \<Rightarrow> 'a list \<Rightarrow> 's \<Rightarrow> ('e, 's) result" where
  "res_fold f [] s = Inr s"
| "res_fold f (x # xs) s = res_bind (f x s) (res_fold f xs)"

lemma res_fold_append:
  "res_fold f (xs @ ys) s = res_bind (res_fold f xs s) (res_fold f ys)"
proof (induction xs arbitrary: s)
  case Nil
  show ?case by simp
next
  case (Cons x xs)
  then show ?case by (cases "f x s") simp_all
qed


section \<open>JSON documents\<close>

text \<open>
  What \<^verbatim>\<open>json.load\<close> can return: an object is kept as its association list of items (a
  Python dict holds one entry per key; the reader keeps the last of repeated keys), a finite
  float as the rational it denotes, and the non-finite floats Python's reader accepts apart.
\<close>

datatype json =
    JNull
  | JBool bool
  | JInt int
  | JFloat rat
  | JNonFinite string
  | JStr string
  | JArr "json list"
  | JObj "(string \<times> json) list"

text \<open>\<^verbatim>\<open>d.get(key)\<close>: the value, or \<^verbatim>\<open>None\<close> when the key is absent.\<close>

definition jget :: "(string \<times> json) list \<Rightarrow> string \<Rightarrow> json" where
  "jget d k = (case map_of d k of None \<Rightarrow> JNull | Some v \<Rightarrow> v)"

definition jget_default :: "(string \<times> json) list \<Rightarrow> string \<Rightarrow> json \<Rightarrow> json" where
  "jget_default d k v0 = (case map_of d k of None \<Rightarrow> v0 | Some v \<Rightarrow> v)"


section \<open>Lists\<close>

text \<open>\<^verbatim>\<open>sorted(set(xs))\<close>\<close>

definition sorted_set :: "'a::linorder list \<Rightarrow> 'a list" where
  "sorted_set xs = sort (remdups xs)"

lemma set_sorted_set [simp]: "set (sorted_set xs) = set xs"
  by (simp add: sorted_set_def)

lemma sorted_sorted_set [simp]: "sorted (sorted_set xs)"
  by (simp add: sorted_set_def)

lemma distinct_sorted_set [simp]: "distinct (sorted_set xs)"
  by (simp add: sorted_set_def)

lemma sorted_set_id: "sorted xs \<Longrightarrow> distinct xs \<Longrightarrow> sorted_set xs = xs"
  by (simp add: sorted_set_def distinct_remdups_id sorted_sort_id)

lemma sorted_set_idem [simp]: "sorted_set (sorted_set xs) = sorted_set xs"
  by (rule sorted_set_id) simp_all

lemma sorted_set_cong: "set xs = set ys \<Longrightarrow> sorted_set xs = sorted_set ys"
  by (rule sorted_distinct_set_unique) simp_all

lemma length_sorted_set_le: "length (sorted_set xs) \<le> length xs"
  by (simp add: sorted_set_def)

text \<open>\<^verbatim>\<open>zip(xs, xs[1:])\<close>\<close>

definition adjacent :: "'a list \<Rightarrow> ('a \<times> 'a) list" where
  "adjacent xs = zip xs (drop 1 xs)"

lemma adjacent_simps [simp]:
  "adjacent [] = []"
  "adjacent [x] = []"
  "adjacent (x # y # zs) = (x, y) # adjacent (y # zs)"
  by (simp_all add: adjacent_def)

lemma adjacent_subset: "(a, b) \<in> set (adjacent xs) \<Longrightarrow> a \<in> set xs \<and> b \<in> set xs"
  by (induction xs rule: induct_list012) auto

lemma adjacent_sorted_le:
  "sorted xs \<Longrightarrow> (a, b) \<in> set (adjacent xs) \<Longrightarrow> a \<le> b"
  by (induction xs rule: induct_list012) auto

lemma adjacent_strict:
  "sorted xs \<Longrightarrow> distinct xs \<Longrightarrow> (a, b) \<in> set (adjacent xs) \<Longrightarrow> a < (b :: 'a :: linorder)"
  by (induction xs rule: induct_list012) (auto simp: less_le)

text \<open>
  Consecutive members of a sorted list leave no member strictly between them, and the pairs
  cover every instant between the least and the greatest member: what makes a sweep over the
  boundary points of a set of intervals exhaustive.
\<close>

lemma adjacent_gap:
  assumes "sorted xs" and "(a, b) \<in> set (adjacent xs)" and "c \<in> set xs"
  shows "c \<le> a \<or> b \<le> (c :: 'a :: linorder)"
  using assms
proof (induction xs rule: induct_list012)
  case (3 x y zs)
  show ?case
  proof (cases "(a, b) = (x, y)")
    case True
    with "3.prems"(1,3) show ?thesis by auto
  next
    case False
    with "3.prems"(2) have ab: "(a, b) \<in> set (adjacent (y # zs))" by auto
    from ab have "a \<in> set (y # zs)" by (rule adjacent_subset [THEN conjunct1])
    with "3.prems"(1) have "x \<le> a" by auto
    with "3.IH"(2) ab "3.prems"(1,3) show ?thesis by auto
  qed
qed simp_all

lemma adjacent_cover:
  assumes "sorted xs" and "lo \<in> set xs" and "hi \<in> set xs" and "lo \<le> t" and "t < (hi :: 'a :: linorder)"
  shows "\<exists>a b. (a, b) \<in> set (adjacent xs) \<and> a \<le> t \<and> t < b"
  using assms
proof (induction xs arbitrary: lo rule: induct_list012)
  case (3 x y zs)
  show ?case
  proof (cases "t < y")
    case True
    with 3 show ?thesis by (intro exI [of _ x] exI [of _ y]) auto
  next
    case False
    have "\<exists>a b. (a, b) \<in> set (adjacent (y # zs)) \<and> a \<le> t \<and> t < b"
      by (rule "3.IH"(2) [of y]) (use False 3 in auto)
    then show ?thesis by auto
  qed
qed auto

text \<open>
  \<^verbatim>\<open>bisect.bisect_left(xs, x)\<close>: the library's binary search, on the window
  \<open>lo..hi\<close>. Both bounds stay within the list for the calls the sources make.
\<close>

function bisect_loop :: "'a::linorder list \<Rightarrow> 'a \<Rightarrow> nat \<Rightarrow> nat \<Rightarrow> nat" where
  "bisect_loop xs x lo hi =
     (if lo < hi then
        let mid = (lo + hi) div 2 in
        if xs ! mid < x then bisect_loop xs x (mid + 1) hi else bisect_loop xs x lo mid
      else lo)"
  by pat_completeness auto
termination
  by (relation "measure (\<lambda>(xs, x, lo, hi). hi - lo)") auto

declare bisect_loop.simps [simp del]

definition bisect_left :: "'a::linorder list \<Rightarrow> 'a \<Rightarrow> nat" where
  "bisect_left xs x = bisect_loop xs x 0 (length xs)"

lemma bisect_loop_correct:
  assumes "sorted xs" and "lo \<le> hi" and "hi \<le> length xs"
    and "\<forall>i < lo. xs ! i < x" and "\<forall>i. hi \<le> i \<and> i < length xs \<longrightarrow> x \<le> xs ! i"
  shows "bisect_loop xs x lo hi \<le> length xs
    \<and> (\<forall>i < bisect_loop xs x lo hi. xs ! i < x)
    \<and> (\<forall>i. bisect_loop xs x lo hi \<le> i \<and> i < length xs \<longrightarrow> x \<le> xs ! i)"
  using assms
proof (induction xs x lo hi rule: bisect_loop.induct)
  case (1 xs x lo hi)
  let ?mid = "(lo + hi) div 2"
  show ?case
  proof (cases "lo < hi")
    case False
    then have "bisect_loop xs x lo hi = lo" by (simp add: bisect_loop.simps [of xs x lo hi])
    with "1.prems" False show ?thesis by simp
  next
    case True
    then have mid: "lo \<le> ?mid" "?mid < hi" by auto
    show ?thesis
    proof (cases "xs ! ?mid < x")
      case less: True
      have "xs ! i < x" if "i < ?mid + 1" for i
      proof -
        have "xs ! i \<le> xs ! ?mid"
          by (rule sorted_nth_mono) (use that "1.prems"(1,3) mid in auto)
        then show ?thesis using less by (rule le_less_trans)
      qed
      then have "\<forall>i < ?mid + 1. xs ! i < x" by blast
      with "1.IH"(1) [OF True refl less] "1.prems" mid show ?thesis
        by (simp add: bisect_loop.simps [of xs x lo hi] True less Let_def)
    next
      case ge: False
      have "\<forall>i. ?mid \<le> i \<and> i < length xs \<longrightarrow> x \<le> xs ! i"
        using "1.prems"(1) ge by (meson leI order_trans sorted_nth_mono)
      with "1.IH"(2) [OF True refl ge] "1.prems" mid show ?thesis
        by (simp add: bisect_loop.simps [of xs x lo hi] True ge Let_def)
    qed
  qed
qed

lemma bisect_left_correct:
  assumes "sorted xs"
  shows "bisect_left xs x \<le> length xs
    \<and> (\<forall>i < bisect_left xs x. xs ! i < x)
    \<and> (\<forall>i. bisect_left xs x \<le> i \<and> i < length xs \<longrightarrow> x \<le> xs ! i)"
  unfolding bisect_left_def by (rule bisect_loop_correct [OF assms]) auto

lemma take_bisect_left:
  assumes "sorted (map f xs)"
  shows "take (bisect_left (map f xs) x) xs = filter (\<lambda>y. f y < x) xs"
proof -
  let ?n = "bisect_left (map f xs) x"
  note b = bisect_left_correct [OF assms, where x = x]
  have lt: "f y < x" if "y \<in> set (take ?n xs)" for y
    using that b by (auto simp: in_set_conv_nth)
  have ge: "\<not> f y < x" if "y \<in> set (drop ?n xs)" for y
  proof -
    from that obtain i where i: "i < length xs - ?n" "y = xs ! (?n + i)"
      by (auto simp: in_set_conv_nth)
    with b have "x \<le> map f xs ! (?n + i)" by simp
    with i show ?thesis by simp
  qed
  have "filter (\<lambda>y. f y < x) xs = filter (\<lambda>y. f y < x) (take ?n xs @ drop ?n xs)"
    by simp
  also have "\<dots> = take ?n xs"
    unfolding filter_append using lt ge by (simp add: filter_True filter_False del: append_take_drop_id)
  finally show ?thesis by simp
qed

text \<open>A \<^verbatim>\<open>for\<close> loop that returns from its body: the first item for which it does.\<close>

fun first_some :: "('a \<Rightarrow> 'b option) \<Rightarrow> 'a list \<Rightarrow> 'b option" where
  "first_some f [] = None"
| "first_some f (x # xs) = (case f x of Some y \<Rightarrow> Some y | None \<Rightarrow> first_some f xs)"

lemma first_some_None: "first_some f xs = None \<longleftrightarrow> (\<forall>x \<in> set xs. f x = None)"
  by (induction xs) (auto split: option.splits)

lemma first_some_Some: "first_some f xs = Some y \<Longrightarrow> \<exists>x \<in> set xs. f x = Some y"
  by (induction xs) (auto split: option.splits)

text \<open>The returned item is the first: the body does not return on any item before it.\<close>

lemma first_some_first:
  assumes "first_some f xs = Some y"
  shows "\<exists>us x vs. xs = us @ x # vs \<and> f x = Some y \<and> (\<forall>u \<in> set us. f u = None)"
  using assms
proof (induction xs)
  case (Cons a xs)
  show ?case
  proof (cases "f a")
    case None
    with Cons obtain us x vs
      where "xs = us @ x # vs" "f x = Some y" "\<forall>u \<in> set us. f u = None" by auto
    with None show ?thesis by (intro exI [of _ "a # us"]) auto
  next
    case (Some b)
    with Cons.prems show ?thesis by (intro exI [of _ "[]"]) auto
  qed
qed simp

lemma set_map_filter: "set (List.map_filter f xs) = {y. \<exists>x \<in> set xs. f x = Some y}"
  by (induction xs) (auto simp: map_filter_simps split: option.splits)

lemma sum_list_filter_le:
  "(\<And>x. x \<in> set xs \<Longrightarrow> P x \<Longrightarrow> 0 \<le> f x) \<Longrightarrow> (\<And>x. x \<in> set xs \<Longrightarrow> Q x \<Longrightarrow> P x) \<Longrightarrow>
   sum_list (map f (filter Q xs)) \<le> (sum_list (map f (filter P xs)) :: int)"
  by (induction xs) (fastforce intro: add_mono)+

lemma sum_list_filter_sort_key [simp]:
  "sum_list (map f (filter P (sort_key k xs))) = (sum_list (map f (filter P xs)) :: int)"
proof -
  have "mset (map f (filter P (sort_key k xs))) = mset (map f (filter P xs))"
    by simp
  then show ?thesis by (metis sum_mset_sum_list)
qed

text \<open>Sorting by a key of an image.\<close>

lemma insort_key_map: "insort_key f (h x) (map h xs) = map h (insort_key (\<lambda>x. f (h x)) x xs)"
  by (induction xs) auto

lemma sort_key_map: "sort_key f (map h xs) = map h (sort_key (\<lambda>x. f (h x)) xs)"
  by (induction xs) (auto simp: insort_key_map)

end
