(* ===== verification/Pytext.thy ===== *)
theory Pytext
  imports Prelude
begin

text \<open>
  The text primitives of Python the sources call on short tokens: \<^verbatim>\<open>str.strip\<close>,
  \<^verbatim>\<open>str.lower\<close>, decimal printing, and the grammar of \<^verbatim>\<open>int(text)\<close>
  (surrounding blanks, one sign, digits with single underscores between them).
\<close>

definition py_isspace :: "char \<Rightarrow> bool" where
  "py_isspace c \<longleftrightarrow> (let n = of_char c :: nat in
     (9 \<le> n \<and> n \<le> 13) \<or> (28 \<le> n \<and> n \<le> 32) \<or> n = 133 \<or> n = 160)"

definition py_strip :: "string \<Rightarrow> string" where
  "py_strip s = rev (dropWhile py_isspace (rev (dropWhile py_isspace s)))"

text \<open>Code points 192..222 except 215 are the Latin-1 capitals.\<close>

definition py_lower_char :: "char \<Rightarrow> char" where
  "py_lower_char c = (let n = of_char c :: nat in
     if (65 \<le> n \<and> n \<le> 90) \<or> (192 \<le> n \<and> n \<le> 222 \<and> n \<noteq> 215) then char_of (n + 32) else c)"

definition py_lower :: "string \<Rightarrow> string" where
  "py_lower s = map py_lower_char s"

definition is_digit :: "char \<Rightarrow> bool" where
  "is_digit c \<longleftrightarrow> (let n = of_char c :: nat in 48 \<le> n \<and> n \<le> 57)"

definition digit_value :: "char \<Rightarrow> int" where
  "digit_value c = int (of_char c) - 48"

text \<open>\<^verbatim>\<open>any(ord(ch) < 32 for ch in s)\<close>\<close>

definition has_control :: "string \<Rightarrow> bool" where
  "has_control s \<longleftrightarrow> (\<exists>c \<in> set s. (of_char c :: nat) < 32)"

text \<open>Decimal value of a run of digits, as \<^verbatim>\<open>int(match.group("num"))\<close>.\<close>

fun digits_value :: "int \<Rightarrow> string \<Rightarrow> int" where
  "digits_value acc [] = acc"
| "digits_value acc (c # cs) = digits_value (acc * 10 + digit_value c) cs"

text \<open>The digits of \<^verbatim>\<open>int(text)\<close>; \<open>prev\<close> says that the last character was a digit.\<close>

fun int_digits :: "bool \<Rightarrow> int \<Rightarrow> string \<Rightarrow> int option" where
  "int_digits prev acc [] = (if prev then Some acc else None)"
| "int_digits prev acc (c # cs) =
     (if c = CHR ''_'' then (if prev then int_digits False acc cs else None)
      else if is_digit c then int_digits True (acc * 10 + digit_value c) cs
      else None)"

definition py_int :: "string \<Rightarrow> int option" where
  "py_int s = (case py_strip s of
       [] \<Rightarrow> None
     | c # cs \<Rightarrow>
         if c = CHR ''-'' then map_option uminus (int_digits False 0 cs)
         else if c = CHR ''+'' then int_digits False 0 cs
         else int_digits False 0 (c # cs))"

text \<open>
  \<^verbatim>\<open>int(text, base)\<close> for the bases 8 and 16: a sign, an optional prefix \<^verbatim>\<open>0o\<close>
  or \<^verbatim>\<open>0x\<close> (an underscore may follow it), digits with single underscores between them.
\<close>

definition base_digit :: "char \<Rightarrow> int" where
  "base_digit c = (let n = of_char c :: nat in
     if 48 \<le> n \<and> n \<le> 57 then int n - 48
     else if 97 \<le> n \<and> n \<le> 122 then int n - 87
     else if 65 \<le> n \<and> n \<le> 90 then int n - 55
     else 99)"

fun base_digits :: "int \<Rightarrow> bool \<Rightarrow> int \<Rightarrow> string \<Rightarrow> int option" where
  "base_digits b prev acc [] = (if prev then Some acc else None)"
| "base_digits b prev acc (c # cs) =
     (if c = CHR ''_'' then (if prev then base_digits b False acc cs else None)
      else if base_digit c < b then base_digits b True (acc * b + base_digit c) cs
      else None)"

definition base_body :: "int \<Rightarrow> string \<Rightarrow> int option" where
  "base_body b s =
     (if take 2 s \<in> (if b = 8 then {''0o'', ''0O''} else {''0x'', ''0X''})
      then base_digits b False 0 (case drop 2 s of c # cs \<Rightarrow> (if c = CHR ''_'' then cs else c # cs) | [] \<Rightarrow> [])
      else base_digits b False 0 s)"

definition py_int_base :: "int \<Rightarrow> string \<Rightarrow> int option" where
  "py_int_base b s =
     (case py_strip s of
        [] \<Rightarrow> None
      | c # cs \<Rightarrow>
          if c = CHR ''-'' then map_option uminus (base_body b cs)
          else if c = CHR ''+'' then base_body b cs
          else base_body b (c # cs))"

text \<open>\<^verbatim>\<open>re.fullmatch(r"[+-]?\d+", s)\<close>\<close>

definition is_signed_digits :: "string \<Rightarrow> bool" where
  "is_signed_digits s = (case s of
       [] \<Rightarrow> False
     | c # cs \<Rightarrow> (if c = CHR ''-'' \<or> c = CHR ''+'' then cs \<noteq> [] \<and> list_all is_digit cs
                   else list_all is_digit s))"

text \<open>\<^verbatim>\<open>s.split(sep)\<close> on one character, and \<^verbatim>\<open>s.split()\<close> on blanks.\<close>

fun split_on :: "char \<Rightarrow> string \<Rightarrow> string list" where
  "split_on c [] = [[]]"
| "split_on c (x # xs) =
     (if x = c then [] # split_on c xs
      else case split_on c xs of [] \<Rightarrow> [[x]] | w # ws \<Rightarrow> (x # w) # ws)"

definition py_split :: "string \<Rightarrow> string list" where
  "py_split s = filter (\<lambda>w. w \<noteq> []) (split_on (CHR '' '') (map (\<lambda>c. if py_isspace c then CHR '' '' else c) s))"

text \<open>Decimal printing, \<^verbatim>\<open>str(n)\<close> of a nonnegative integer.\<close>

fun show_nat :: "nat \<Rightarrow> string" where
  "show_nat n = (if n < 10 then [char_of (48 + n)]
                 else show_nat (n div 10) @ [char_of (48 + n mod 10)])"

declare show_nat.simps [simp del]

text \<open>\<^verbatim>\<open>f"{n:0w}"\<close>: zero padding to width \<open>w\<close>.\<close>

definition pad_nat :: "nat \<Rightarrow> nat \<Rightarrow> string" where
  "pad_nat w n = (let s = show_nat n in replicate (w - length s) (CHR ''0'') @ s)"

lemma of_char_digit: "d < 10 \<Longrightarrow> of_char (char_of (48 + d) :: char) = (48 + d :: nat)"
  by simp

lemma digit_char [simp]:
  "d < 10 \<Longrightarrow> is_digit (char_of (48 + d))"
  "d < 10 \<Longrightarrow> digit_value (char_of (48 + d)) = int d"
  by (simp_all add: is_digit_def digit_value_def)

lemma digits_value_append: "digits_value acc (xs @ ys) = digits_value (digits_value acc xs) ys"
  by (induction xs arbitrary: acc) simp_all

lemma show_nat_digits: "list_all is_digit (show_nat n)"
proof (induction n rule: show_nat.induct)
  case (1 n)
  show ?case
  proof (cases "n < 10")
    case True
    then show ?thesis by (simp add: show_nat.simps [of n])
  next
    case False
    with 1 show ?thesis by (simp add: show_nat.simps [of n])
  qed
qed

lemma show_nat_nonempty [simp]: "show_nat n \<noteq> []"
  by (simp add: show_nat.simps [of n])

text \<open>Printing and reading back a decimal numeral gives the number.\<close>

lemma digits_value_show_nat [simp]: "digits_value 0 (show_nat n) = int n"
proof (induction n rule: show_nat.induct)
  case (1 n)
  show ?case
  proof (cases "n < 10")
    case True
    then show ?thesis by (simp add: show_nat.simps [of n])
  next
    case False
    with 1 have "digits_value 0 (show_nat (n div 10)) = int (n div 10)" by simp
    with False show ?thesis
      by (simp add: show_nat.simps [of n] digits_value_append zdiv_int zmod_int)
  qed
qed

lemma digits_value_zeros [simp]: "digits_value 0 (replicate k (CHR ''0'') @ s) = digits_value 0 s"
  by (induction k) (simp_all add: digit_value_def)

lemma digits_value_pad [simp]: "digits_value 0 (pad_nat w n) = int n"
  by (simp add: pad_nat_def Let_def)

lemma pad_nat_digits: "list_all is_digit (pad_nat w n)"
  using show_nat_digits [of n]
  by (auto simp: pad_nat_def Let_def list_all_iff is_digit_def)

lemma show_nat_length: "n < 10 ^ k \<Longrightarrow> 0 < k \<Longrightarrow> length (show_nat n) \<le> k"
proof (induction k arbitrary: n)
  case (Suc k)
  show ?case
  proof (cases "n < 10")
    case True
    then show ?thesis by (simp add: show_nat.simps [of n])
  next
    case False
    with Suc.prems have "0 < k" by (cases k) auto
    moreover have "n div 10 < 10 ^ k" using Suc.prems by auto
    ultimately have "length (show_nat (n div 10)) \<le> k" by (rule Suc.IH [rotated])
    with False show ?thesis by (simp add: show_nat.simps [of n])
  qed
qed simp

lemma length_pad_nat: "n < 10 ^ w \<Longrightarrow> 0 < w \<Longrightarrow> length (pad_nat w n) = w"
  using show_nat_length [of n w] by (simp add: pad_nat_def Let_def)

lemma digits_value_nonneg: "list_all is_digit s \<Longrightarrow> 0 \<le> acc \<Longrightarrow> 0 \<le> digits_value acc s"
  by (induction s arbitrary: acc) (simp_all add: is_digit_def digit_value_def Let_def)

end
