(* ===== verification/Granularity.thy ===== *)
theory Granularity
  imports Pytext
begin

text \<open>
  \<^verbatim>\<open>bk/granularity.py\<close>: booking slots. A timezone-aware \<^verbatim>\<open>datetime\<close> is the number of
  microseconds of the instant it denotes since the Unix epoch (\<^verbatim>\<open>astimezone(utc)\<close> does not
  change the instant, so it is the identity), a \<^verbatim>\<open>timedelta\<close> a number of microseconds.
\<close>

type_synonym datetime = int
type_synonym timedelta = int

definition us_per_second :: int where
  "us_per_second = 1000000"

definition seconds :: "int \<Rightarrow> timedelta" where
  "seconds n = n * us_per_second"

definition hours :: "int \<Rightarrow> timedelta" where
  "hours n = seconds (n * 3600)"

definition days :: "int \<Rightarrow> timedelta" where
  "days n = seconds (n * 86400)"

text \<open>\<^verbatim>\<open>value.replace(microsecond=0)\<close>\<close>

definition whole_second :: "datetime \<Rightarrow> datetime" where
  "whole_second t = t - t mod us_per_second"

datatype value_error = ValueError string

definition DEFAULT_SLOT_MINUTES :: int where
  "DEFAULT_SLOT_MINUTES = 5"

definition VALID_SLOT_MINUTES :: "int list" where
  "VALID_SLOT_MINUTES = filter (\<lambda>v. 60 mod v = 0) [1..60]"

fun validate_slot_minutes :: "json \<Rightarrow> (value_error, int) result" where
  "validate_slot_minutes (JInt n) =
     (if n \<in> set VALID_SLOT_MINUTES then Inr n
      else Inl (ValueError ''slot_minutes must divide one hour''))"
| "validate_slot_minutes (JStr s) =
     (case py_int s of
        None \<Rightarrow> Inl (ValueError ''slot_minutes must be an integer'')
      | Some n \<Rightarrow> (if n \<in> set VALID_SLOT_MINUTES then Inr n
                   else Inl (ValueError ''slot_minutes must divide one hour'')))"
| "validate_slot_minutes _ = Inl (ValueError ''slot_minutes must be an integer'')"

definition slot_seconds :: "int \<Rightarrow> (value_error, int) result" where
  "slot_seconds slot_minutes = res_map (\<lambda>v. v * 60) (validate_slot_minutes (JInt slot_minutes))"

text \<open>
  The rounding functions take the \<^verbatim>\<open>slot_minutes\<close> of a constructed \<^verbatim>\<open>Config\<close>, whose
  constructor has run \<^const>\<open>validate_slot_minutes\<close>; for those, \<^const>\<open>slot_seconds\<close>
  succeeds with \<open>slot_minutes * 60\<close> (\<open>slot_seconds_valid\<close>).
\<close>

definition floor_to_slot :: "datetime \<Rightarrow> int \<Rightarrow> datetime" where
  "floor_to_slot value slot_minutes =
     (let step = slot_minutes * 60;
          timestamp = value div us_per_second
      in seconds (timestamp - timestamp mod step))"

definition ceil_to_slot :: "datetime \<Rightarrow> int \<Rightarrow> datetime" where
  "ceil_to_slot value slot_minutes =
     (let floored = floor_to_slot value slot_minutes
      in if value = floored then floored else floored + seconds (slot_minutes * 60))"

definition is_slot_aligned :: "datetime \<Rightarrow> int \<Rightarrow> bool" where
  "is_slot_aligned value slot_minutes \<longleftrightarrow> value = floor_to_slot value slot_minutes"

text \<open>Length of one slot in microseconds.\<close>

definition slot_us :: "int \<Rightarrow> timedelta" where
  "slot_us slot_minutes = seconds (slot_minutes * 60)"

lemma valid_slot_minutes_iff: "m \<in> set VALID_SLOT_MINUTES \<longleftrightarrow> 1 \<le> m \<and> m \<le> 60 \<and> 60 mod m = 0"
  by (auto simp: VALID_SLOT_MINUTES_def)

lemma slot_seconds_valid:
  "m \<in> set VALID_SLOT_MINUTES \<Longrightarrow> slot_seconds m = Inr (m * 60)"
  by (simp add: slot_seconds_def)

lemma slot_us_pos: "0 < m \<Longrightarrow> 0 < slot_us m"
  by (simp add: slot_us_def seconds_def us_per_second_def)

lemma floor_to_slot_mod [time_simps]:
  assumes "0 < m"
  shows "floor_to_slot t m = t - t mod slot_us m"
proof -
  have "t mod (us_per_second * (m * 60)) =
      us_per_second * (t div us_per_second mod (m * 60)) + t mod us_per_second"
    by (rule zmod_zmult2_eq) (use assms in simp)
  moreover have "t = us_per_second * (t div us_per_second) + t mod us_per_second"
    by simp
  ultimately show ?thesis
    by (simp add: floor_to_slot_def slot_us_def seconds_def Let_def algebra_simps)
qed

lemma aligned_dvd: "0 < m \<Longrightarrow> is_slot_aligned t m \<longleftrightarrow> slot_us m dvd t"
  by (auto simp: is_slot_aligned_def time_simps dvd_eq_mod_eq_0)

lemma floor_to_slot_le: "0 < m \<Longrightarrow> floor_to_slot t m \<le> t"
  using slot_us_pos [of m] by (simp add: time_simps)

lemma floor_to_slot_gt: "0 < m \<Longrightarrow> t < floor_to_slot t m + slot_us m"
  using slot_us_pos [of m] by (simp add: time_simps pos_mod_bound less_diff_eq)

lemma floor_to_slot_aligned: "0 < m \<Longrightarrow> is_slot_aligned (floor_to_slot t m) m"
  by (simp add: aligned_dvd time_simps minus_mod_eq_mult_div)

text \<open>The floor is the greatest boundary not after the instant, the ceiling the least not before.\<close>

lemma floor_to_slot_greatest:
  assumes "0 < m" and "is_slot_aligned b m" and "b \<le> t"
  shows "b \<le> floor_to_slot t m"
proof (rule ccontr)
  assume "\<not> ?thesis"
  moreover have "slot_us m dvd b - floor_to_slot t m"
    using assms(1,2) floor_to_slot_aligned [of m t] by (simp add: aligned_dvd)
  ultimately have "slot_us m \<le> b - floor_to_slot t m"
    by (intro zdvd_imp_le) auto
  with floor_to_slot_gt [OF assms(1), of t] assms(3) show False by linarith
qed

lemma ceil_to_slot_alt: "ceil_to_slot t m = (if is_slot_aligned t m then t else floor_to_slot t m + slot_us m)"
  by (auto simp: ceil_to_slot_def is_slot_aligned_def slot_us_def Let_def)

lemma ceil_to_slot_aligned: "0 < m \<Longrightarrow> is_slot_aligned (ceil_to_slot t m) m"
  using floor_to_slot_aligned [of m t] by (simp add: ceil_to_slot_alt aligned_dvd)

lemma ceil_to_slot_ge: "0 < m \<Longrightarrow> t \<le> ceil_to_slot t m"
  using floor_to_slot_gt [of m t] by (simp add: ceil_to_slot_alt)

lemma ceil_to_slot_lt: "0 < m \<Longrightarrow> ceil_to_slot t m < t + slot_us m"
proof -
  assume m: "0 < m"
  have "floor_to_slot t m < t" if "\<not> is_slot_aligned t m"
    using that floor_to_slot_le [OF m, of t] by (simp add: is_slot_aligned_def)
  then show ?thesis using slot_us_pos [OF m] by (simp add: ceil_to_slot_alt)
qed

lemma ceil_to_slot_least:
  assumes "0 < m" and "is_slot_aligned b m" and "t \<le> b"
  shows "ceil_to_slot t m \<le> b"
proof (rule ccontr)
  assume "\<not> ?thesis"
  moreover have "slot_us m dvd ceil_to_slot t m - b"
    using assms(1,2) ceil_to_slot_aligned [of m t] by (simp add: aligned_dvd)
  ultimately have "slot_us m \<le> ceil_to_slot t m - b"
    by (intro zdvd_imp_le) auto
  with ceil_to_slot_lt [OF assms(1), of t] assms(3) show False by linarith
qed

lemma ceil_to_slot_id [simp]: "is_slot_aligned t m \<Longrightarrow> ceil_to_slot t m = t"
  by (simp add: ceil_to_slot_alt)

lemma aligned_add: "0 < m \<Longrightarrow> is_slot_aligned t m \<Longrightarrow> slot_us m dvd d \<Longrightarrow> is_slot_aligned (t + d) m"
  by (simp add: aligned_dvd)

lemma us_dvd_slot_us: "us_per_second dvd slot_us m"
  by (simp add: slot_us_def seconds_def)

lemma whole_second_aligned: "0 < m \<Longrightarrow> is_slot_aligned t m \<Longrightarrow> whole_second t = t"
  using us_dvd_slot_us [of m] dvd_trans [of us_per_second "slot_us m" t]
  by (simp add: aligned_dvd whole_second_def)

lemma whole_second_idem [simp]: "whole_second (whole_second t) = whole_second t"
  by (simp add: whole_second_def minus_mod_eq_mult_div)

text \<open>
  Slot rounding. For every valid slot length, the floor of an instant is the greatest slot
  boundary not after it and the ceiling the least boundary not before it; the two are equal exactly
  on a boundary and one slot apart elsewhere.
\<close>

theorem slot_rounding:
  assumes "m \<in> set VALID_SLOT_MINUTES"
  shows "is_slot_aligned (floor_to_slot t m) m \<and> floor_to_slot t m \<le> t
    \<and> (\<forall>b. is_slot_aligned b m \<and> b \<le> t \<longrightarrow> b \<le> floor_to_slot t m)
    \<and> is_slot_aligned (ceil_to_slot t m) m \<and> t \<le> ceil_to_slot t m
    \<and> (\<forall>b. is_slot_aligned b m \<and> t \<le> b \<longrightarrow> ceil_to_slot t m \<le> b)
    \<and> ceil_to_slot t m = (if is_slot_aligned t m then floor_to_slot t m else floor_to_slot t m + seconds (m * 60))"
proof -
  have m: "0 < m" using assms by (simp add: valid_slot_minutes_iff)
  have "ceil_to_slot t m = (if is_slot_aligned t m then floor_to_slot t m else floor_to_slot t m + seconds (m * 60))"
    by (auto simp: ceil_to_slot_def is_slot_aligned_def Let_def)
  then show ?thesis
    using floor_to_slot_aligned [OF m, of t] floor_to_slot_le [OF m, of t] floor_to_slot_greatest [OF m]
      ceil_to_slot_aligned [OF m, of t] ceil_to_slot_ge [OF m, of t] ceil_to_slot_least [OF m] by blast
qed

theorem slot_rounding_witness:
  "floor_to_slot (seconds 401) 5 \<le> seconds 401 \<and> ceil_to_slot (seconds 401) 5 = floor_to_slot (seconds 401) 5 + seconds 300"
proof -
  have "(5::int) \<in> set VALID_SLOT_MINUTES" "\<not> is_slot_aligned (seconds 401) 5" by code_simp+
  then show ?thesis using slot_rounding [of 5 "seconds 401"] by simp
qed

end
