(* ===== verification/Models.thy ===== *)
theory Models
  imports Granularity
begin

text \<open>
  \<^verbatim>\<open>bk/models.py\<close> and the ledger document: the request objects as records with the source's
  fields, and the objects of the JSON ledger as records with one field per key the program reads
  or writes. Timestamps are kept as the instants their text denotes. A key whose absence the code
  distinguishes from \<^verbatim>\<open>null\<close> is a \<open>'a key\<close>; \<^verbatim>\<open>share_units\<close>, which no schema check
  constrains, stays a raw JSON value. Every \<^verbatim>\<open>raise\<close> and every availability message is
  a constructor of one of the error types below.
\<close>

definition MODE_SHARED :: string where "MODE_SHARED = ''shared''"
definition MODE_EXCLUSIVE :: string where "MODE_EXCLUSIVE = ''exclusive''"

definition STATUS_ACTIVE :: string where "STATUS_ACTIVE = ''active''"
definition STATUS_CANCELLED :: string where "STATUS_CANCELLED = ''cancelled''"
definition STATUS_EXPIRED :: string where "STATUS_EXPIRED = ''expired''"

definition JOB_PENDING :: string where "JOB_PENDING = ''pending''"
definition JOB_CLAIMED :: string where "JOB_CLAIMED = ''claimed''"
definition JOB_RUNNING :: string where "JOB_RUNNING = ''running''"
definition JOB_SUCCEEDED :: string where "JOB_SUCCEEDED = ''succeeded''"
definition JOB_FAILED :: string where "JOB_FAILED = ''failed''"
definition JOB_CANCELLED :: string where "JOB_CANCELLED = ''cancelled''"
definition JOB_MISSED :: string where "JOB_MISSED = ''missed''"
definition JOB_TIMED_OUT :: string where "JOB_TIMED_OUT = ''timed-out''"
definition JOB_INTERRUPTED :: string where "JOB_INTERRUPTED = ''interrupted''"
definition JOB_UNCERTAIN :: string where "JOB_UNCERTAIN = ''uncertain''"

lemmas mode_defs = MODE_SHARED_def MODE_EXCLUSIVE_def
lemmas status_defs = STATUS_ACTIVE_def STATUS_CANCELLED_def STATUS_EXPIRED_def
lemmas job_status_defs = JOB_PENDING_def JOB_CLAIMED_def JOB_RUNNING_def JOB_SUCCEEDED_def
  JOB_FAILED_def JOB_CANCELLED_def JOB_MISSED_def JOB_TIMED_OUT_def JOB_INTERRUPTED_def
  JOB_UNCERTAIN_def

lemma mode_distinct [simp]: "MODE_SHARED \<noteq> MODE_EXCLUSIVE" "MODE_EXCLUSIVE \<noteq> MODE_SHARED"
  by (simp_all add: mode_defs)

lemma status_distinct [simp]:
  "STATUS_ACTIVE \<noteq> STATUS_CANCELLED" "STATUS_CANCELLED \<noteq> STATUS_ACTIVE"
  "STATUS_ACTIVE \<noteq> STATUS_EXPIRED" "STATUS_EXPIRED \<noteq> STATUS_ACTIVE"
  "STATUS_CANCELLED \<noteq> STATUS_EXPIRED" "STATUS_EXPIRED \<noteq> STATUS_CANCELLED"
  by (simp_all add: status_defs)


section \<open>Keys of JSON objects\<close>

datatype 'a key = Absent | Null | Present 'a


section \<open>Requests and results\<close>

record actor =
  actor_uid :: int
  actor_username :: string

text \<open>A Python float handed in as a score.\<close>

datatype pyfloat = Finite rat | NotFinite

record booking_request =
  br_actor :: actor
  br_count :: int
  br_duration_seconds :: int
  br_start_at :: datetime
  br_mode :: string
  br_preferred_gpus :: "int list option"
  br_gpu_order :: "int list option"
  br_gpu_scores :: "(int \<times> pyfloat) list option"
  br_op_id :: "string option"
  br_allow_queue :: bool
  br_job_spec_id :: "string option"
  br_job_digest :: "string option"
  br_job_summary :: "string option"
  br_job_digest_aliases :: "string list option"
  br_expected_memory_mb :: "int option"
  br_gpu_memory_capacity_mb :: "(int \<times> int) list option"
  br_share_units :: "int option"
  br_excluded_gpus :: "int list option"

record edit_request =
  er_actor :: actor
  er_reservation_id :: string
  er_op_id :: "string option"
  er_start_at :: "datetime option"
  er_duration_seconds :: "int option"
  er_mode :: "string option"
  er_preferred_gpus :: "int list option"
  er_gpu_order :: "int list option"
  er_gpu_scores :: "(int \<times> pyfloat) list option"
  er_count :: "int option"
  er_allow_queue :: bool
  er_expected_memory_mb :: "int option"
  er_update_expected_memory :: bool
  er_gpu_memory_capacity_mb :: "(int \<times> int) list option"
  er_share_units :: "int option"
  er_update_share_units :: bool
  er_excluded_gpus :: "int list option"


section \<open>The ledger document\<close>

record job =
  jb_spec_id :: "string option"
  jb_digest :: "string option"
  jb_summary :: "string option"
  jb_status :: string
  jb_submitted_at :: "datetime option"
  jb_claimed_at :: "datetime option"
  jb_started_at :: "datetime option"
  jb_finished_at :: "datetime option"
  jb_exit_code :: "int option"
  jb_runner_pid :: "int option"
  jb_runner_host :: "string option"
  jb_cancel_requested_at :: "datetime option"
  jb_recovery_state :: "string option"
  jb_message :: "string option"
  jb_claim_token :: "string option"
  jb_worker_id :: "string option"
  jb_worker_lease_id :: "string option"
  jb_launch_guard_state :: "string option"
  jb_launch_guard_key :: "string option"
  jb_waiting_since :: "datetime option"
  jb_log_warning :: "string option"
  jb_log_rotated :: bool
  jb_recovery_worker_id :: "string option"
  jb_recovered_at :: "datetime option"

record edit_state =
  es_gpus :: "int list"
  es_mode :: string
  es_start_at :: datetime
  es_end_at :: datetime
  es_expected_memory_mb :: "int option"
  es_share_units :: "json option"

record edit_operation =
  eo_op_id :: string
  eo_signature :: string
  eo_at :: datetime
  eo_actor_uid :: int
  eo_actor_username :: string
  eo_before :: edit_state
  eo_after :: edit_state

record cancel_operation =
  co_op_id :: string
  co_signature :: string
  co_at :: datetime
  co_actor_uid :: int
  co_actor_username :: string
  co_kind :: string
  co_reason :: string

record notification =
  nt_id :: string
  nt_type :: string
  nt_created_at :: datetime
  nt_actor_uid :: int
  nt_actor_username :: string
  nt_reason :: string
  nt_message :: string

record reservation =
  rs_id :: string
  rs_op_id :: "string option"
  rs_uid :: int
  rs_username :: "string key"
  rs_gpus :: "int list"
  rs_mode :: string
  rs_start_at :: datetime
  rs_end_at :: datetime
  rs_status :: string
  rs_created_at :: "datetime option"
  rs_updated_at :: "datetime option"
  rs_expected_memory_mb :: "int option"
  rs_share_units :: "json option"
  rs_operation_signature :: "string option"
  rs_job :: "job option"
  rs_edit_operations :: "edit_operation list key"
  rs_cancel_operation :: "cancel_operation option"
  rs_notifications :: "notification list key"

record ledger =
  lg_reservations :: "reservation list"
  lg_policy :: json
  lg_last_transaction_id :: "string option"

text \<open>\<^verbatim>\<open>_log_item\<close>: one audit event.\<close>

record log_item =
  li_ts :: datetime
  li_uid :: int
  li_username :: string
  li_action :: string
  li_reservation_id :: string
  li_op_id :: "string option"
  li_gpus :: "int list"
  li_mode :: string
  li_share_units :: "json option"
  li_start_at :: datetime
  li_end_at :: datetime
  li_result :: string
  li_message :: string
  li_actor :: "actor option"

record booking_result =
  bres_reservation :: reservation
  bres_created :: bool
  bres_message :: string
  bres_queued :: bool


section \<open>Errors and messages\<close>

datatype policy_reason =
    DurationExceedsMaximum int
  | EndsBeyondHorizon int datetime
  | Blackout datetime datetime string

datatype avail_reason =
    ExclusiveConflict int
  | HasSharedReservations int
  | UnsupportedModeReason string
  | ShareSlotsOutOfRange int
  | SharedCapacityFull int int int int
  | SharedMemoryFull int int int int
  | NotEnoughEligible int int "int list" "int list"
  | PolicyReason policy_reason

datatype booking_error =
    UnsupportedMode string
  | GpuCountTooSmall
  | DurationNotPositive
  | DurationNotMultiple int
  | JobFieldsIncomplete
  | JobIntentIncomplete
  | InvalidJobSpecId
  | InvalidJobDigest
  | InvalidJobSummary
  | JobSummaryControl
  | TooManyDigestAliases
  | InvalidDigestAlias
  | AliasesRequireJob
  | OperationIdLength
  | OperationIdCharacters
  | MemoryNotPositive
  | MemoryBudgetRequired
  | ShareSlotsExclusive
  | ShareSlotsInvalid int
  | StartNotAligned int
  | GpuIndexOutOfRange int
  | GpuCountMismatch
  | GpuDisabled int
  | GpuSelectedAndExcluded int
  | EligibleGpus avail_reason
  | ScoreNotFinite int
  | PolicyConflict policy_reason
  | OperationIdReused
  | InvalidEditHistory
  | EditHistoryTooLong
  | EditHistoryFull
  | InvalidNotificationHistory
  | StartBeforeSlice datetime
  | Unavailable "avail_reason list" "(datetime \<times> int list) option"
  | InternalMoved
  | ReservationNotFound
  | ReservationNotActive
  | PermissionDenied
  | AdminRequired
  | AdminReasonMissing
  | AdminReasonTooLong
  | AdminReasonControl
  | JobAlreadyEntered string
  | EditStartInPast datetime
  | EditStartPast
  | StartedImmutable
  | StartedNeedsDuration
  | ElapsedTime datetime
  | CannotExtend
  | PolicyNotObject
  | PolicyMismatch "string list"
  | StorageModesInvalid
  | DaemonPolicyRemoved
  | DaemonPolicyMismatch booking_error
  | UncaughtOverflow
  | JobReservationNotFound
  | JobBelongsToAnother
  | ReservationHasNoJob
  | DuplicateRiskNotAccepted
  | JobNotRetryable string
  | JobWindowClosed

end
