(* ===== verification/Sharing.thy ===== *)
theory Sharing
  imports Models
begin

text \<open>
  \<^verbatim>\<open>bk/sharing.py\<close>: shared-slot accounting. A stored \<^verbatim>\<open>share_units\<close> is read
  defensively: what is not a whole number of at least one slot counts as the full capacity.
\<close>

definition DEFAULT_SHARE_UNITS :: int where
  "DEFAULT_SHARE_UNITS = 1"

fun whole_number :: "json \<Rightarrow> (value_error, int) result" where
  "whole_number (JInt n) = Inr n"
| "whole_number (JStr s) =
     (if is_signed_digits (py_strip s)
      then (case py_int s of Some n \<Rightarrow> Inr n | None \<Rightarrow> Inl (ValueError ''invalid literal''))
      else Inl (ValueError ''share slots must be a whole number''))"
| "whole_number _ = Inl (ValueError ''share slots must be a whole number'')"

definition normalize_share_units :: "json option \<Rightarrow> int \<Rightarrow> (value_error, int) result" where
  "normalize_share_units v capacity_units =
     res_bind (case v of None \<Rightarrow> Inr DEFAULT_SHARE_UNITS
                       | Some JNull \<Rightarrow> Inr DEFAULT_SHARE_UNITS
                       | Some j \<Rightarrow> whole_number j)
       (\<lambda>units. raise_if (units < 1 \<or> units > capacity_units)
          (ValueError ''share slots must be between 1 and the capacity'') (Inr units))"

definition parse_share_units :: "json \<Rightarrow> int \<Rightarrow> (value_error, int) result" where
  "parse_share_units v capacity_units =
     (case whole_number v of
        Inl _ \<Rightarrow> Inl (ValueError ''share slots must be a whole number between 1 and the capacity'')
      | Inr units \<Rightarrow> normalize_share_units (Some (JInt units)) capacity_units)"

definition reservation_share_units :: "reservation \<Rightarrow> int \<Rightarrow> int" where
  "reservation_share_units r capacity_units =
     (let raw = (case rs_share_units r of None \<Rightarrow> JInt DEFAULT_SHARE_UNITS | Some v \<Rightarrow> v)
      in case whole_number raw of
           Inl _ \<Rightarrow> max 1 capacity_units
         | Inr units \<Rightarrow> (if units < 1 then max 1 capacity_units else units))"

definition inferred_share_memory_mb :: "int \<Rightarrow> int \<Rightarrow> int \<Rightarrow> int" where
  "inferred_share_memory_mb usable_memory_mb capacity_units share_units =
     max 1 (usable_memory_mb * share_units div max 1 capacity_units)"

lemma reservation_share_units_pos: "1 \<le> reservation_share_units r cap"
  by (simp add: reservation_share_units_def Let_def split: sum.splits)

lemma reservation_share_units_int:
  "rs_share_units r = Some (JInt n) \<Longrightarrow> 1 \<le> n \<Longrightarrow> reservation_share_units r cap = n"
  by (simp add: reservation_share_units_def)

lemma normalize_share_units_range:
  "normalize_share_units v cap = Inr u \<Longrightarrow> 1 \<le> u \<and> u \<le> cap"
  by (auto simp: normalize_share_units_def result_simps)

lemma normalize_share_units_int [simp]:
  "normalize_share_units (Some (JInt n)) cap =
     (if n < 1 \<or> n > cap then Inl (ValueError ''share slots must be between 1 and the capacity'')
      else Inr n)"
  by (simp add: normalize_share_units_def raise_if_def)

lemma inferred_share_memory_pos: "1 \<le> inferred_share_memory_mb m c u"
  by (simp add: inferred_share_memory_mb_def)

text \<open>Even splitting: the inferred budgets of slots that fit the capacity fit the memory.\<close>

lemma inferred_share_memory_bound:
  assumes "0 \<le> usable" and "1 \<le> cap" and "0 \<le> u" and "u \<le> cap"
  shows "inferred_share_memory_mb usable cap u \<le> max 1 usable"
proof -
  have "usable * u div cap \<le> usable * cap div cap"
    by (rule zdiv_mono1) (use assms in \<open>auto intro: mult_left_mono\<close>)
  with assms show ?thesis by (simp add: inferred_share_memory_mb_def)
qed

end
