(* ===== verification/Config.thy ===== *)
theory Config
  imports Models
begin

text \<open>
  \<^verbatim>\<open>bk/config.py\<close>: the fields of \<^verbatim>\<open>Config\<close> that scheduling, maintenance and storage read,
  the checks of its constructor on them, and its derived properties. Blackout windows are kept as
  the pair of instants their normalised text denotes. The other fields, the constructor and the
  loader are in \<open>Config_Load\<close>.
\<close>

definition MAX_GPU_COUNT :: int where "MAX_GPU_COUNT = 1024"
definition MAX_UID :: int where "MAX_UID = 2 ^ 32 - 2"
definition MAX_BOOKING_HORIZON_DAYS :: int where "MAX_BOOKING_HORIZON_DAYS = 10 * 365"
definition MAX_BOOKING_DURATION_HOURS :: int where "MAX_BOOKING_DURATION_HOURS = 10 * 365 * 24"
definition MAX_BOOKING_BLACKOUTS :: nat where "MAX_BOOKING_BLACKOUTS = 512"
definition MAX_GPU_PRIORITY :: int where "MAX_GPU_PRIORITY = 1000000"
definition MAX_ANNOUNCEMENT_HISTORY :: nat where "MAX_ANNOUNCEMENT_HISTORY = 4096"

record config =
  gpu_count :: int
  max_shared_users :: int
  queue_search_hours :: int
  booking_horizon_days :: int
  max_booking_duration_hours :: int
  booking_blackouts :: "(datetime \<times> datetime \<times> string) list"
  ledger_retention_days :: int
  require_shared_memory :: bool
  shared_memory_reserve_mb :: int
  file_mode :: int
  dir_mode :: int
  slot_minutes :: int
  storage_gid :: "int option"
  disabled_gpus :: "int list"
  gpu_priority :: "(int \<times> int) list"
  worker_max_parallel :: int
  backup_keep :: int

definition enabled_gpus :: "config \<Rightarrow> int list" where
  "enabled_gpus c = filter (\<lambda>g. g \<notin> set (disabled_gpus c)) [0..gpu_count c - 1]"

text \<open>\<^verbatim>\<open>dict(self.gpu_priority)\<close>: the last pair of a repeated key wins.\<close>

definition gpu_priority_map :: "config \<Rightarrow> int \<rightharpoonup> int" where
  "gpu_priority_map c = map_of (rev (gpu_priority c))"

definition effective_worker_max_parallel :: "config \<Rightarrow> int" where
  "effective_worker_max_parallel c =
     (let scheduling_capacity = int (length (enabled_gpus c)) * max_shared_users c
      in max 1 (min (worker_max_parallel c) scheduling_capacity))"

text \<open>The loop of \<^verbatim>\<open>validate_gpu_list\<close> over parsed GPU numbers.\<close>

fun validate_gpu_loop :: "int \<Rightarrow> int list \<Rightarrow> int list \<Rightarrow> (value_error, int list) result" where
  "validate_gpu_loop n result [] = Inr (sort result)"
| "validate_gpu_loop n result (gpu # rest) =
     raise_if (gpu < 0 \<or> gpu \<ge> n) (ValueError ''GPU index out of range'')
       (raise_if (gpu \<in> set result) (ValueError ''duplicate GPU index'')
         (validate_gpu_loop n (result @ [gpu]) rest))"

definition validate_gpu_list :: "int list \<Rightarrow> int \<Rightarrow> (value_error, int list) result" where
  "validate_gpu_list gpus n = validate_gpu_loop n [] gpus"

text \<open>The loop of \<^verbatim>\<open>validate_gpu_priority\<close> over parsed pairs.\<close>

fun validate_priority_loop ::
  "int \<Rightarrow> int list \<Rightarrow> (int \<times> int) list \<Rightarrow> (int \<times> int) list \<Rightarrow> (value_error, (int \<times> int) list) result"
where
  "validate_priority_loop n seen result [] = Inr (sort result)"
| "validate_priority_loop n seen result ((gpu, priority) # rest) =
     raise_if (gpu < 0 \<or> gpu \<ge> n) (ValueError ''gpu_priority GPU index out of range'')
       (raise_if (priority < 0 \<or> priority > MAX_GPU_PRIORITY) (ValueError ''GPU priority range'')
         (raise_if (gpu \<in> set seen) (ValueError ''gpu_priority contains duplicate GPU index'')
           (validate_priority_loop n (gpu # seen)
             (if priority \<noteq> 0 then result @ [(gpu, priority)] else result) rest)))"

definition validate_gpu_priority :: "(int \<times> int) list \<Rightarrow> int \<Rightarrow> (value_error, (int \<times> int) list) result" where
  "validate_gpu_priority entries n = validate_priority_loop n [] [] entries"

text \<open>What loading and constructing a configuration establish for the fields the scheduler reads.\<close>

definition config_ok :: "config \<Rightarrow> bool" where
  "config_ok c \<longleftrightarrow>
     1 \<le> gpu_count c \<and> gpu_count c \<le> MAX_GPU_COUNT \<and> 1 \<le> max_shared_users c
     \<and> 1 \<le> queue_search_hours c
     \<and> 1 \<le> booking_horizon_days c \<and> booking_horizon_days c \<le> MAX_BOOKING_HORIZON_DAYS
     \<and> 1 \<le> max_booking_duration_hours c
     \<and> max_booking_duration_hours c \<le> MAX_BOOKING_DURATION_HOURS
     \<and> slot_minutes c \<in> set VALID_SLOT_MINUTES
     \<and> 0 \<le> shared_memory_reserve_mb c \<and> 0 \<le> ledger_retention_days c
     \<and> distinct (disabled_gpus c) \<and> list_all (\<lambda>g. 0 \<le> g \<and> g < gpu_count c) (disabled_gpus c)"

lemma config_ok_slot_pos: "config_ok c \<Longrightarrow> 0 < slot_minutes c"
  by (auto simp: config_ok_def valid_slot_minutes_iff)

lemma enabled_gpus_range: "g \<in> set (enabled_gpus c) \<Longrightarrow> 0 \<le> g \<and> g < gpu_count c \<and> g \<notin> set (disabled_gpus c)"
  by (auto simp: enabled_gpus_def)

lemma distinct_enabled_gpus [simp]: "distinct (enabled_gpus c)"
  by (simp add: enabled_gpus_def)

lemma validate_gpu_loop_ok:
  assumes "validate_gpu_loop n acc gpus = Inr out"
    and "distinct acc" and "list_all (\<lambda>g. 0 \<le> g \<and> g < n) acc"
  shows "sorted out \<and> distinct out \<and> set out = set acc \<union> set gpus
    \<and> list_all (\<lambda>g. 0 \<le> g \<and> g < n) out"
  using assms
proof (induction n acc gpus rule: validate_gpu_loop.induct)
  case (1 n acc)
  then show ?case by (auto simp: list_all_iff)
next
  case (2 n acc gpu rest)
  then have "validate_gpu_loop n (acc @ [gpu]) rest = Inr out" by simp
  from "2.IH" [OF this] "2.prems" show ?case by auto
qed

text \<open>The parsed list is sorted, free of duplicates, in range, and holds the same GPUs.\<close>

lemma validate_gpu_list_ok:
  assumes "validate_gpu_list gpus n = Inr out"
  shows "sorted out" and "distinct out" and "set out = set gpus"
    and "list_all (\<lambda>g. 0 \<le> g \<and> g < n) out"
  using validate_gpu_loop_ok [of n "[]" gpus out] assms by (simp_all add: validate_gpu_list_def)

lemma effective_worker_max_parallel_pos: "1 \<le> effective_worker_max_parallel c"
  by (simp add: effective_worker_max_parallel_def Let_def)

lemma validate_gpu_loop_accepts:
  "distinct (acc @ gpus) \<Longrightarrow> list_all (\<lambda>g. 0 \<le> g \<and> g < n) gpus \<Longrightarrow>
   validate_gpu_loop n acc gpus = Inr (sort (acc @ gpus))"
  by (induction gpus arbitrary: acc) auto

lemma validate_gpu_loop_refuses:
  "validate_gpu_loop n acc gpus = Inr out \<Longrightarrow> distinct acc \<Longrightarrow>
   distinct (acc @ gpus) \<and> list_all (\<lambda>g. 0 \<le> g \<and> g < n) gpus"
proof (induction gpus arbitrary: acc)
  case (Cons g gpus)
  from Cons.prems have "validate_gpu_loop n (acc @ [g]) gpus = Inr out" "distinct (acc @ [g])" "0 \<le> g \<and> g < n" by auto
  with Cons.IH [of "acc @ [g]"] show ?case by auto
qed simp

text \<open>
  GPU lists of a configuration. A list is accepted exactly when its numbers are in range and
  distinct, and then it is returned sorted.
\<close>

theorem gpu_list_accepted:
  "validate_gpu_list gpus n = Inr out \<longleftrightarrow>
     distinct gpus \<and> list_all (\<lambda>g. 0 \<le> g \<and> g < n) gpus \<and> out = sort gpus"
  using validate_gpu_loop_accepts [of "[]" gpus n] validate_gpu_loop_refuses [of n "[]" gpus out]
  by (auto simp: validate_gpu_list_def)

end
