(* ===== verification/Samples.thy ===== *)
theory Samples
  imports Config
begin

text \<open>
  Concrete data for the witnesses: the default configuration on two GPUs, one user, and
  reservations on a given list of GPUs over a given interval.
\<close>

definition sample_config :: config where
  "sample_config = \<lparr>gpu_count = 2, max_shared_users = 2, queue_search_hours = 168,
     booking_horizon_days = 30, max_booking_duration_hours = 720, booking_blackouts = [],
     ledger_retention_days = 90, require_shared_memory = False, shared_memory_reserve_mb = 512,
     file_mode = 384, dir_mode = 448, slot_minutes = 5, storage_gid = None, disabled_gpus = [],
     gpu_priority = [], worker_max_parallel = 64, backup_keep = 10\<rparr>"

definition sample_actor :: actor where
  "sample_actor = \<lparr>actor_uid = 1000, actor_username = ''ada''\<rparr>"

definition sample_reservation :: "string \<Rightarrow> string \<Rightarrow> int list \<Rightarrow> datetime \<Rightarrow> datetime \<Rightarrow> reservation" where
  "sample_reservation ident mode gpus start end =
     \<lparr>rs_id = ident, rs_op_id = None, rs_uid = 1000, rs_username = Present ''ada'', rs_gpus = gpus,
      rs_mode = mode, rs_start_at = start, rs_end_at = end, rs_status = STATUS_ACTIVE,
      rs_created_at = Some 0, rs_updated_at = Some 0, rs_expected_memory_mb = None,
      rs_share_units = (if mode = MODE_SHARED then Some (JInt 1) else None),
      rs_operation_signature = None, rs_job = None, rs_edit_operations = Absent,
      rs_cancel_operation = None, rs_notifications = Absent\<rparr>"

definition sample_ledger :: "reservation list \<Rightarrow> ledger" where
  "sample_ledger rs = \<lparr>lg_reservations = rs, lg_policy = JNull, lg_last_transaction_id = None\<rparr>"

lemma sample_config_ok: "config_ok sample_config"
  by (simp add: config_ok_def sample_config_def MAX_GPU_COUNT_def MAX_BOOKING_HORIZON_DAYS_def
      MAX_BOOKING_DURATION_HOURS_def valid_slot_minutes_iff)

lemma sample_ledger_reservations [simp]: "lg_reservations (sample_ledger rs) = rs"
  by (simp add: sample_ledger_def)

end
