(* ===== verification/Schedule_Index.thy ===== *)
theory Schedule_Index
  imports Sharing Samples
begin

text \<open>
  \<^verbatim>\<open>bk/schedule_index.py\<close>: the active reservations of one scheduling request, sorted once and
  grouped by GPU, with the binary search that cuts the candidates of an interval query. The
  interface of the index is the locale \<open>span_lookup\<close>: a query returns exactly the spans of the
  GPU that overlap the interval, in span order.
\<close>

record span =
  sp_record :: reservation
  sp_start :: datetime
  sp_end :: datetime
  sp_gpus :: "int list"
  sp_mode :: string

definition span_of :: "reservation \<Rightarrow> span" where
  "span_of r = \<lparr>sp_record = r, sp_start = rs_start_at r, sp_end = rs_end_at r,
     sp_gpus = rs_gpus r, sp_mode = rs_mode r\<rparr>"

definition span_sort_key :: "span \<Rightarrow> datetime \<times> datetime \<times> string" where
  "span_sort_key s = (sp_start s, sp_end s, rs_id (sp_record s))"

record reservation_index =
  ix_spans :: "span list"
  ix_by_gpu :: "int \<rightharpoonup> span list"
  ix_starts_by_gpu :: "int \<rightharpoonup> datetime list"

text \<open>\<^verbatim>\<open>by_gpu.setdefault(gpu, []).append(span)\<close>\<close>

definition group_add :: "span \<Rightarrow> int \<Rightarrow> (int \<rightharpoonup> span list) \<Rightarrow> (int \<rightharpoonup> span list)" where
  "group_add s g m = m(g \<mapsto> (case m g of None \<Rightarrow> [] | Some xs \<Rightarrow> xs) @ [s])"

definition group_by_gpu :: "span list \<Rightarrow> (int \<rightharpoonup> span list)" where
  "group_by_gpu spans = fold (\<lambda>s. fold (group_add s) (sp_gpus s)) spans Map.empty"

definition make_index :: "span list \<Rightarrow> reservation_index" where
  "make_index spans =
     (let sorted_spans = sort_key span_sort_key spans;
          by_gpu = group_by_gpu sorted_spans
      in \<lparr>ix_spans = sorted_spans, ix_by_gpu = by_gpu,
          ix_starts_by_gpu = (\<lambda>g. map_option (map sp_start) (by_gpu g))\<rparr>)"

definition index_from_ledger_with :: "string list \<Rightarrow> ledger \<Rightarrow> datetime \<Rightarrow> reservation_index" where
  "index_from_ledger_with statuses l active_after =
     make_index (map span_of
       (filter (\<lambda>r. rs_status r \<in> set statuses \<and> \<not> rs_end_at r \<le> active_after)
         (lg_reservations l)))"

definition index_from_ledger :: "ledger \<Rightarrow> datetime \<Rightarrow> reservation_index" where
  "index_from_ledger = index_from_ledger_with [STATUS_ACTIVE]"

definition index_records :: "reservation_index \<Rightarrow> reservation list" where
  "index_records ix = map sp_record (ix_spans ix)"

definition overlapping :: "reservation_index \<Rightarrow> int \<Rightarrow> datetime \<Rightarrow> datetime \<Rightarrow> span list" where
  "overlapping ix gpu start end =
     (let spans = (case ix_by_gpu ix gpu of None \<Rightarrow> [] | Some xs \<Rightarrow> xs);
          starts = (case ix_starts_by_gpu ix gpu of None \<Rightarrow> [] | Some xs \<Rightarrow> xs);
          stop = bisect_left starts end
      in filter (\<lambda>s. sp_end s > start) (take stop spans))"


section \<open>The contract of an index\<close>

locale span_lookup =
  fixes query :: "'ix \<Rightarrow> int \<Rightarrow> datetime \<Rightarrow> datetime \<Rightarrow> span list"
    and spans :: "'ix \<Rightarrow> span list"
    and invar :: "'ix \<Rightarrow> bool"
  assumes query_filter: "invar ix \<Longrightarrow> query ix g s e =
    filter (\<lambda>sp. g \<in> set (sp_gpus sp) \<and> sp_start sp < e \<and> s < sp_end sp) (spans ix)"
begin

lemma set_query:
  "invar ix \<Longrightarrow> sp \<in> set (query ix g s e) \<longleftrightarrow>
     sp \<in> set (spans ix) \<and> g \<in> set (sp_gpus sp) \<and> sp_start sp < e \<and> s < sp_end sp"
  by (simp add: query_filter)

text \<open>Shrinking the interval of a query only filters its answer.\<close>

lemma query_narrow:
  assumes "invar ix" and "s \<le> s'" and "e' \<le> e"
  shows "query ix g s' e' = filter (\<lambda>sp. sp_start sp < e' \<and> s' < sp_end sp) (query ix g s e)"
proof -
  have "(g \<in> set (sp_gpus sp) \<and> sp_start sp < e' \<and> s' < sp_end sp)
      = ((g \<in> set (sp_gpus sp) \<and> sp_start sp < e \<and> s < sp_end sp)
          \<and> sp_start sp < e' \<and> s' < sp_end sp)" for sp
    using assms(2,3) by auto
  then show ?thesis
    unfolding query_filter [OF assms(1)] filter_filter by (intro filter_cong) auto
qed

text \<open>The spans that hold the GPU at an instant are found by every query around the instant.\<close>

lemma query_instant:
  assumes "invar ix" and "s \<le> t" and "t < e"
  shows "filter (\<lambda>sp. sp_start sp \<le> t \<and> t < sp_end sp) (query ix g s e)
    = filter (\<lambda>sp. g \<in> set (sp_gpus sp) \<and> sp_start sp \<le> t \<and> t < sp_end sp) (spans ix)"
  unfolding query_filter [OF assms(1)] filter_filter
  by (intro filter_cong) (use assms(2,3) in auto)

end


section \<open>The sorted, grouped, binary-searched index meets it\<close>

definition index_ok :: "reservation_index \<Rightarrow> bool" where
  "index_ok ix \<longleftrightarrow> (\<exists>xs. ix = make_index xs \<and> (\<forall>sp \<in> set xs. distinct (sp_gpus sp)))"

definition grouped :: "(int \<rightharpoonup> span list) \<Rightarrow> int \<Rightarrow> span list" where
  "grouped m g = (case m g of None \<Rightarrow> [] | Some xs \<Rightarrow> xs)"

lemma grouped_add: "grouped (group_add s h m) g = grouped m g @ (if g = h then [s] else [])"
  by (simp add: grouped_def group_add_def)

lemma grouped_fold_add:
  "distinct gs \<Longrightarrow>
   grouped (fold (group_add s) gs m) g = grouped m g @ (if g \<in> set gs then [s] else [])"
  by (induction gs arbitrary: m) (auto simp: grouped_add)

lemma grouped_group_by_gpu:
  assumes "\<forall>sp \<in> set xs. distinct (sp_gpus sp)"
  shows "grouped (group_by_gpu xs) g = filter (\<lambda>sp. g \<in> set (sp_gpus sp)) xs"
proof -
  have "grouped (fold (\<lambda>s. fold (group_add s) (sp_gpus s)) xs m) g
      = grouped m g @ filter (\<lambda>sp. g \<in> set (sp_gpus sp)) xs" for m
    using assms by (induction xs arbitrary: m) (auto simp: grouped_fold_add)
  then show ?thesis by (simp add: group_by_gpu_def grouped_def)
qed

lemma sorted_span_starts: "sorted (map sp_start (sort_key span_sort_key xs))"
proof -
  have "sorted_wrt (\<lambda>x y. span_sort_key x \<le> span_sort_key y) (sort_key span_sort_key xs)"
    using sorted_sort_key [of span_sort_key xs] by (simp only: sorted_map)
  then have "sorted_wrt (\<lambda>x y. sp_start x \<le> sp_start y) (sort_key span_sort_key xs)"
    by (rule sorted_wrt_mono_rel [rotated]) (auto simp: span_sort_key_def less_eq_prod_def)
  then show ?thesis by (simp add: sorted_map)
qed

lemma sorted_starts_filter:
  "sorted (map sp_start (filter P (sort_key span_sort_key xs)))"
  by (rule sorted_filter) (rule sorted_span_starts)

lemma overlapping_make_index:
  assumes "\<forall>sp \<in> set xs. distinct (sp_gpus sp)"
  shows "overlapping (make_index xs) g s e =
    filter (\<lambda>sp. g \<in> set (sp_gpus sp) \<and> sp_start sp < e \<and> s < sp_end sp)
      (sort_key span_sort_key xs)"
proof -
  let ?sorted = "sort_key span_sort_key xs"
  let ?mine = "filter (\<lambda>sp. g \<in> set (sp_gpus sp)) ?sorted"
  have spans: "grouped (group_by_gpu ?sorted) g = ?mine"
    by (rule grouped_group_by_gpu) (use assms in simp)
  have "overlapping (make_index xs) g s e =
      filter (\<lambda>sp. s < sp_end sp) (take (bisect_left (map sp_start ?mine) e) ?mine)"
    using spans
    by (simp add: overlapping_def make_index_def Let_def grouped_def split: option.splits)
  also have "take (bisect_left (map sp_start ?mine) e) ?mine = filter (\<lambda>sp. sp_start sp < e) ?mine"
    by (rule take_bisect_left) (rule sorted_starts_filter)
  finally show ?thesis by (simp add: conj_ac)
qed

lemma make_index_spans [simp]: "ix_spans (make_index xs) = sort_key span_sort_key xs"
  by (simp add: make_index_def Let_def)

interpretation ix: span_lookup overlapping ix_spans index_ok
  by unfold_locales (auto simp: index_ok_def overlapping_make_index)

lemma index_from_ledger_spans:
  "ix_spans (index_from_ledger l t) = sort_key span_sort_key
     (map span_of (filter (\<lambda>r. rs_status r = STATUS_ACTIVE \<and> t < rs_end_at r) (lg_reservations l)))"
  by (simp add: index_from_ledger_def index_from_ledger_with_def make_index_def Let_def not_le)

lemma index_from_ledger_ok:
  "(\<forall>r \<in> set (lg_reservations l). distinct (rs_gpus r)) \<Longrightarrow> index_ok (index_from_ledger l t)"
  unfolding index_ok_def index_from_ledger_def index_from_ledger_with_def
  by (rule exI, rule conjI, rule refl) (auto simp: span_of_def)

lemma span_of_sel [simp]:
  "sp_record (span_of r) = r" "sp_start (span_of r) = rs_start_at r"
  "sp_end (span_of r) = rs_end_at r" "sp_gpus (span_of r) = rs_gpus r"
  "sp_mode (span_of r) = rs_mode r"
  by (simp_all add: span_of_def)

lemma set_index_from_ledger:
  "sp \<in> set (ix_spans (index_from_ledger l t)) \<longleftrightarrow>
     (\<exists>r \<in> set (lg_reservations l). rs_status r = STATUS_ACTIVE \<and> t < rs_end_at r \<and> sp = span_of r)"
  by (auto simp: index_from_ledger_spans)

text \<open>
  The index answers interval queries as a scan of the ledger would. For a ledger whose
  reservations name no GPU twice, the binary-searched query returns exactly the active reservations
  still running after the cut-off that hold the GPU and meet the interval, each as often as the ledger
  has it, in the order of start, end and identifier.
\<close>

theorem index_query_scans:
  assumes "\<forall>r \<in> set (lg_reservations l). distinct (rs_gpus r)"
  shows "map sp_record (overlapping (index_from_ledger l t) g s e) =
    sort_key (\<lambda>r. (rs_start_at r, rs_end_at r, rs_id r))
      (filter (\<lambda>r. rs_status r = STATUS_ACTIVE \<and> t < rs_end_at r \<and> g \<in> set (rs_gpus r)
          \<and> rs_start_at r < e \<and> s < rs_end_at r) (lg_reservations l))"
proof -
  let ?P = "\<lambda>r. g \<in> set (rs_gpus r) \<and> rs_start_at r < e \<and> s < rs_end_at r"
  let ?rs = "filter (\<lambda>r. rs_status r = STATUS_ACTIVE \<and> t < rs_end_at r) (lg_reservations l)"
  have key: "span_sort_key (span_of r) = (rs_start_at r, rs_end_at r, rs_id r)" for r by (simp add: span_sort_key_def)
  have sort: "sort_key span_sort_key (map span_of rs) = map span_of (sort_key (\<lambda>r. (rs_start_at r, rs_end_at r, rs_id r)) rs)" for rs
    by (simp add: sort_key_map key)
  have "overlapping (index_from_ledger l t) g s e
      = filter (\<lambda>sp. g \<in> set (sp_gpus sp) \<and> sp_start sp < e \<and> s < sp_end sp) (sort_key span_sort_key (map span_of ?rs))"
    using ix.query_filter [OF index_from_ledger_ok [OF assms]] by (simp add: index_from_ledger_spans)
  also have "\<dots> = map span_of (filter ?P (sort_key (\<lambda>r. (rs_start_at r, rs_end_at r, rs_id r)) ?rs))"
    by (simp add: sort filter_map comp_def)
  also have "filter ?P (sort_key (\<lambda>r. (rs_start_at r, rs_end_at r, rs_id r)) ?rs)
      = sort_key (\<lambda>r. (rs_start_at r, rs_end_at r, rs_id r)) (filter ?P ?rs)" by (rule filter_sort)
  finally show ?thesis by (simp add: comp_def conj_ac)
qed

theorem index_query_scans_witness:
  "map sp_record (overlapping (index_from_ledger (sample_ledger [sample_reservation ''b'' MODE_SHARED [0, 1] 5 9,
      sample_reservation ''a'' MODE_SHARED [0] 1 4]) 0) 0 2 8)
   = [sample_reservation ''a'' MODE_SHARED [0] 1 4, sample_reservation ''b'' MODE_SHARED [0, 1] 5 9]"
  by (subst index_query_scans) (simp_all add: sample_ledger_def sample_reservation_def)

end
