(* ===== verification/Availability.thy ===== *)
theory Availability
  imports Schedule_Index Config
begin

text \<open>
  \<^verbatim>\<open>bk/scheduler.py\<close>, availability: whether one GPU can take a request over an interval.
  The source cuts the interval at the boundaries of the reservations it meets and checks every
  piece; the locale \<open>interval_sweep\<close> shows that this checks every instant, and the
  specification below is stated per instant.
\<close>

definition overlaps :: "datetime \<Rightarrow> datetime \<Rightarrow> datetime \<Rightarrow> datetime \<Rightarrow> bool" where
  "overlaps start_a end_a start_b end_b \<longleftrightarrow> start_a < end_b \<and> start_b < end_a"

definition window_points ::
  "('i \<Rightarrow> datetime) \<Rightarrow> ('i \<Rightarrow> datetime) \<Rightarrow> 'i list \<Rightarrow> datetime \<Rightarrow> datetime \<Rightarrow> datetime list" where
  "window_points st en items start end =
     sorted_set ([start, end] @ concat (map (\<lambda>i. [max start (st i), min end (en i)]) items))"

definition shared_record_count_in_spans :: "span list \<Rightarrow> datetime \<Rightarrow> datetime \<Rightarrow> int" where
  "shared_record_count_in_spans items start end =
     int (length (filter (\<lambda>i. sp_mode i = MODE_SHARED \<and> overlaps start end (sp_start i) (sp_end i)) items))"

definition shared_capacity_units_in_spans :: "span list \<Rightarrow> datetime \<Rightarrow> datetime \<Rightarrow> int \<Rightarrow> int" where
  "shared_capacity_units_in_spans items start end cap =
     sum_list (map (\<lambda>i. reservation_share_units (sp_record i) cap)
       (filter (\<lambda>i. sp_mode i = MODE_SHARED \<and> overlaps start end (sp_start i) (sp_end i)) items))"

text \<open>The memory one shared reservation is charged: its own budget or its share of the GPU.\<close>

definition py_or_int :: "int option \<Rightarrow> int \<Rightarrow> int" where
  "py_or_int v d = (case v of None \<Rightarrow> d | Some n \<Rightarrow> (if n = 0 then d else n))"

definition charged_memory :: "reservation \<Rightarrow> int \<Rightarrow> int \<Rightarrow> int" where
  "charged_memory r usable cap =
     max 1 (py_or_int (rs_expected_memory_mb r)
       (inferred_share_memory_mb usable cap (reservation_share_units r cap)))"

definition shared_memory_in_spans :: "span list \<Rightarrow> datetime \<Rightarrow> datetime \<Rightarrow> int \<Rightarrow> int \<Rightarrow> int" where
  "shared_memory_in_spans items start end usable cap =
     sum_list (map (\<lambda>i. charged_memory (sp_record i) usable cap)
       (filter (\<lambda>i. \<not> (sp_mode i \<noteq> MODE_SHARED \<or> \<not> overlaps start end (sp_start i) (sp_end i))) items))"

text \<open>The check of one piece of the interval.\<close>

definition segment_reason ::
  "int \<Rightarrow> span list \<Rightarrow> int \<Rightarrow> int option \<Rightarrow> (int \<rightharpoonup> int) \<Rightarrow> int \<Rightarrow> int \<Rightarrow> datetime \<times> datetime \<Rightarrow> avail_reason option"
where
  "segment_reason gpu relevant cap expected_memory_mb capacities reserve share_units seg =
     (case seg of (left, right) \<Rightarrow>
        if left \<ge> right then None
        else let used_units = shared_capacity_units_in_spans relevant left right cap in
        if used_units + share_units > cap
        then Some (SharedCapacityFull gpu share_units used_units cap)
        else case capacities gpu of
          None \<Rightarrow> None
        | Some capacity \<Rightarrow>
            if capacity = 0 then None
            else let usable = max 0 (capacity - reserve);
                     requested = py_or_int expected_memory_mb
                       (inferred_share_memory_mb usable cap share_units);
                     committed = shared_memory_in_spans relevant left right usable cap
                 in if requested > usable \<or> committed + requested > usable
                    then Some (SharedMemoryFull gpu requested committed usable)
                    else None)"

text \<open>\<^verbatim>\<open>(True, "")\<close> is \<open>None\<close>, \<^verbatim>\<open>(False, reason)\<close> is \<open>Some reason\<close>.\<close>

definition availability_detail_indexed ::
  "reservation_index \<Rightarrow> int \<Rightarrow> datetime \<Rightarrow> datetime \<Rightarrow> string \<Rightarrow> int \<Rightarrow> int option \<Rightarrow> (int \<rightharpoonup> int)
    \<Rightarrow> int \<Rightarrow> int \<Rightarrow> avail_reason option"
where
  "availability_detail_indexed index gpu start end mode cap expected_memory_mb capacities reserve
     share_units =
     (let relevant = overlapping index gpu start end in
      if mode = MODE_EXCLUSIVE then
        (if relevant \<noteq> []
         then (if list_ex (\<lambda>i. sp_mode i = MODE_EXCLUSIVE) relevant
               then Some (ExclusiveConflict gpu) else Some (HasSharedReservations gpu))
         else None)
      else if mode \<noteq> MODE_SHARED then Some (UnsupportedModeReason mode)
      else case normalize_share_units (Some (JInt share_units)) cap of
        Inl _ \<Rightarrow> Some (ShareSlotsOutOfRange cap)
      | Inr units \<Rightarrow>
          if list_ex (\<lambda>i. sp_mode i = MODE_EXCLUSIVE) relevant then Some (ExclusiveConflict gpu)
          else first_some
            (segment_reason gpu relevant cap expected_memory_mb capacities reserve units)
            (adjacent (window_points sp_start sp_end relevant start end)))"

definition availability_detail ::
  "ledger \<Rightarrow> int \<Rightarrow> datetime \<Rightarrow> datetime \<Rightarrow> string \<Rightarrow> int \<Rightarrow> int \<Rightarrow> int option \<Rightarrow> (int \<rightharpoonup> int)
    \<Rightarrow> int \<Rightarrow> int \<Rightarrow> avail_reason option"
where
  "availability_detail ledger gpu start end mode uid cap expected_memory_mb capacities reserve
     share_units =
     availability_detail_indexed (index_from_ledger ledger start) gpu start end mode cap
       expected_memory_mb capacities reserve share_units"

definition can_place_gpu ::
  "ledger \<Rightarrow> int \<Rightarrow> datetime \<Rightarrow> datetime \<Rightarrow> string \<Rightarrow> int \<Rightarrow> int \<Rightarrow> int \<Rightarrow> bool" where
  "can_place_gpu ledger gpu start end mode uid cap share_units \<longleftrightarrow>
     availability_detail ledger gpu start end mode uid cap None Map.empty 0 share_units = None"


section \<open>Sweeping an interval\<close>

locale interval_sweep =
  fixes points :: "'i list \<Rightarrow> datetime \<Rightarrow> datetime \<Rightarrow> datetime list"
    and st en :: "'i \<Rightarrow> datetime"
  assumes points_sorted: "sorted (points items s e)"
    and points_distinct: "distinct (points items s e)"
    and points_set: "set (points items s e) =
      {s, e} \<union> (\<lambda>i. max s (st i)) ` set items \<union> (\<lambda>i. min e (en i)) ` set items"
begin

lemma points_bounds:
  assumes "s < e" and "\<forall>i \<in> set items. st i < e \<and> s < en i" and "p \<in> set (points items s e)"
  shows "s \<le> p \<and> p \<le> e"
  using assms by (auto simp: points_set)

text \<open>Within one piece, meeting the piece and holding the GPU at an instant of it agree.\<close>

lemma piece_constant:
  assumes "s < e" and rel: "\<forall>i \<in> set items. st i < e \<and> s < en i"
    and seg: "(l, r) \<in> set (adjacent (points items s e))" and t: "l \<le> t" "t < r"
    and i: "i \<in> set items"
  shows "overlaps l r (st i) (en i) \<longleftrightarrow> st i \<le> t \<and> t < en i"
proof
  assume o: "overlaps l r (st i) (en i)"
  from adjacent_subset [OF seg]
  have lr: "l \<in> set (points items s e)" "r \<in> set (points items s e)" by auto
  note bounds = points_bounds [OF assms(1,2) lr(1)] points_bounds [OF assms(1,2) lr(2)]
  have "max s (st i) \<le> l \<or> r \<le> max s (st i)"
    by (rule adjacent_gap [OF points_sorted seg]) (use i in \<open>auto simp: points_set\<close>)
  moreover have "min e (en i) \<le> l \<or> r \<le> min e (en i)"
    by (rule adjacent_gap [OF points_sorted seg]) (use i in \<open>auto simp: points_set\<close>)
  ultimately show "st i \<le> t \<and> t < en i"
    using o t bounds by (auto simp: overlaps_def)
qed (use t in \<open>auto simp: overlaps_def\<close>)

text \<open>Checking every piece is checking every instant.\<close>

lemma pieces_iff_instants:
  assumes "s < e" and rel: "\<forall>i \<in> set items. st i < e \<and> s < en i"
  shows "(\<forall>(l, r) \<in> set (adjacent (points items s e)).
            P (filter (\<lambda>i. overlaps l r (st i) (en i)) items))
    \<longleftrightarrow> (\<forall>t. s \<le> t \<and> t < e \<longrightarrow> P (filter (\<lambda>i. st i \<le> t \<and> t < en i) items))"
    (is "?pieces \<longleftrightarrow> ?instants")
proof
  assume pieces: ?pieces
  show ?instants
  proof (intro allI impI)
    fix t assume t: "s \<le> t \<and> t < e"
    then obtain l r where lr: "(l, r) \<in> set (adjacent (points items s e))" "l \<le> t" "t < r"
      using adjacent_cover [OF points_sorted, of s items s e e t] by (auto simp: points_set)
    have "filter (\<lambda>i. overlaps l r (st i) (en i)) items = filter (\<lambda>i. st i \<le> t \<and> t < en i) items"
      by (rule filter_cong) (use piece_constant [OF assms lr] in auto)
    with pieces lr(1) show "P (filter (\<lambda>i. st i \<le> t \<and> t < en i) items)" by fastforce
  qed
next
  assume instants: ?instants
  show ?pieces
  proof (clarify)
    fix l r assume lr: "(l, r) \<in> set (adjacent (points items s e))"
    have "l < r" by (rule adjacent_strict [OF points_sorted points_distinct lr])
    moreover from adjacent_subset [OF lr]
    have "l \<in> set (points items s e)" "r \<in> set (points items s e)" by auto
    ultimately have l: "s \<le> l" "l < e"
      using points_bounds [OF assms] by (meson order_less_le_trans)+
    have "filter (\<lambda>i. overlaps l r (st i) (en i)) items = filter (\<lambda>i. st i \<le> l \<and> l < en i) items"
      by (rule filter_cong) (use piece_constant [OF assms lr _ \<open>l < r\<close>] in auto)
    with instants l show "P (filter (\<lambda>i. overlaps l r (st i) (en i)) items)" by simp
  qed
qed

end

lemma window_points_sweep: "interval_sweep (window_points st en) st en"
  by unfold_locales (auto simp: window_points_def)

interpretation span_sweep: interval_sweep "window_points sp_start sp_end" sp_start sp_end
  by (rule window_points_sweep)

interpretation record_sweep: interval_sweep "window_points rs_start_at rs_end_at" rs_start_at rs_end_at
  by (rule window_points_sweep)


section \<open>What availability means, instant by instant\<close>

definition on_gpu :: "reservation_index \<Rightarrow> int \<Rightarrow> span list" where
  "on_gpu index gpu = filter (\<lambda>sp. gpu \<in> set (sp_gpus sp)) (ix_spans index)"

definition live_at :: "span list \<Rightarrow> datetime \<Rightarrow> span list" where
  "live_at items t = filter (\<lambda>i. sp_start i \<le> t \<and> t < sp_end i) items"

definition shared_units :: "int \<Rightarrow> span list \<Rightarrow> int" where
  "shared_units cap items =
     sum_list (map (\<lambda>i. reservation_share_units (sp_record i) cap)
       (filter (\<lambda>i. sp_mode i = MODE_SHARED) items))"

definition shared_memory :: "int \<Rightarrow> int \<Rightarrow> span list \<Rightarrow> int" where
  "shared_memory usable cap items =
     sum_list (map (\<lambda>i. charged_memory (sp_record i) usable cap)
       (filter (\<lambda>i. sp_mode i = MODE_SHARED) items))"

definition memory_fits ::
  "(int \<rightharpoonup> int) \<Rightarrow> int \<Rightarrow> int \<Rightarrow> int \<Rightarrow> int option \<Rightarrow> int \<Rightarrow> span list \<Rightarrow> bool" where
  "memory_fits capacities gpu reserve cap expected share_units items =
     (case capacities gpu of
        None \<Rightarrow> True
      | Some capacity \<Rightarrow> capacity = 0 \<or>
          (let usable = max 0 (capacity - reserve);
               requested = py_or_int expected (inferred_share_memory_mb usable cap share_units)
           in requested \<le> usable \<and> shared_memory usable cap items + requested \<le> usable))"

lemma shared_units_piece:
  "shared_capacity_units_in_spans items l r cap
     = shared_units cap (filter (\<lambda>i. overlaps l r (sp_start i) (sp_end i)) items)"
  by (simp add: shared_capacity_units_in_spans_def shared_units_def conj_commute)

lemma shared_memory_piece:
  "shared_memory_in_spans items l r usable cap
     = shared_memory usable cap (filter (\<lambda>i. overlaps l r (sp_start i) (sp_end i)) items)"
  by (simp add: shared_memory_in_spans_def shared_memory_def conj_commute)

lemma shared_units_nonneg: "0 \<le> shared_units cap items"
  unfolding shared_units_def
  by (rule sum_list_nonneg) (auto intro: order_trans [OF _ reservation_share_units_pos])

lemma segment_reason_None:
  "segment_reason gpu items cap expected capacities reserve u (l, r) = None \<longleftrightarrow>
     r \<le> l \<or>
     (let live = filter (\<lambda>i. overlaps l r (sp_start i) (sp_end i)) items
      in shared_units cap live + u \<le> cap \<and> memory_fits capacities gpu reserve cap expected u live)"
  by (auto simp: segment_reason_def shared_units_piece shared_memory_piece memory_fits_def Let_def
      not_less split: option.splits)

lemma live_overlapping:
  assumes "index_ok index" and "start \<le> t" and "t < end"
  shows "live_at (overlapping index gpu start end) t = live_at (on_gpu index gpu) t"
  using ix.query_instant [OF assms, of gpu]
  by (simp add: live_at_def on_gpu_def conj_commute)

lemma overlapping_on_gpu:
  assumes "index_ok index"
  shows "set (overlapping index gpu start end) =
    {sp \<in> set (on_gpu index gpu). sp_start sp < end \<and> start < sp_end sp}"
  by (auto simp: ix.set_query [OF assms] on_gpu_def)

text \<open>The check of an indexed ledger, for each mode.\<close>

lemma shared_placeable_iff:
  assumes "index_ok index" and "start < end"
  shows "availability_detail_indexed index gpu start end MODE_SHARED cap expected capacities
      reserve u = None \<longleftrightarrow>
    1 \<le> u \<and> u \<le> cap
    \<and> (\<forall>sp \<in> set (on_gpu index gpu). sp_start sp < end \<and> start < sp_end sp \<longrightarrow> sp_mode sp \<noteq> MODE_EXCLUSIVE)
    \<and> (\<forall>t. start \<le> t \<and> t < end \<longrightarrow>
         shared_units cap (live_at (on_gpu index gpu) t) + u \<le> cap
         \<and> memory_fits capacities gpu reserve cap expected u (live_at (on_gpu index gpu) t))"
proof -
  let ?rel = "overlapping index gpu start end"
  let ?P = "\<lambda>live. shared_units cap live + u \<le> cap \<and> memory_fits capacities gpu reserve cap expected u live"
  have rel: "\<forall>i \<in> set ?rel. sp_start i < end \<and> start < sp_end i"
    by (simp add: ix.set_query [OF assms(1)])
  have strict: "l < r" if "(l, r) \<in> set (adjacent (window_points sp_start sp_end ?rel start end))" for l r
    by (rule adjacent_strict [OF span_sweep.points_sorted span_sweep.points_distinct that])
  have "first_some (segment_reason gpu ?rel cap expected capacities reserve u)
        (adjacent (window_points sp_start sp_end ?rel start end)) = None
      \<longleftrightarrow> (\<forall>(l, r) \<in> set (adjacent (window_points sp_start sp_end ?rel start end)).
            ?P (filter (\<lambda>i. overlaps l r (sp_start i) (sp_end i)) ?rel))"
    using strict by (fastforce simp: first_some_None segment_reason_None Let_def not_le)
  also have "\<dots> \<longleftrightarrow> (\<forall>t. start \<le> t \<and> t < end \<longrightarrow> ?P (live_at ?rel t))"
    unfolding live_at_def by (rule span_sweep.pieces_iff_instants [OF assms(2) rel])
  also have "\<dots> \<longleftrightarrow> (\<forall>t. start \<le> t \<and> t < end \<longrightarrow> ?P (live_at (on_gpu index gpu) t))"
    using live_overlapping [OF assms(1)] by simp
  finally show ?thesis
    by (auto simp: availability_detail_indexed_def Let_def list_ex_iff overlapping_on_gpu [OF assms(1)])
qed

lemma exclusive_placeable_iff:
  assumes "index_ok index"
  shows "availability_detail_indexed index gpu start end MODE_EXCLUSIVE cap expected capacities
      reserve u = None \<longleftrightarrow>
    (\<forall>sp \<in> set (on_gpu index gpu). \<not> (sp_start sp < end \<and> start < sp_end sp))"
  using overlapping_on_gpu [OF assms, of gpu start "end"]
  by (auto simp: availability_detail_indexed_def Let_def simp flip: set_empty)


section \<open>The reservations of a ledger\<close>

text \<open>Who holds a GPU at an instant, and how much of it.\<close>

definition holders :: "reservation list \<Rightarrow> int \<Rightarrow> datetime \<Rightarrow> reservation list" where
  "holders rs gpu t = filter (\<lambda>r. rs_status r = STATUS_ACTIVE \<and> gpu \<in> set (rs_gpus r)
     \<and> rs_start_at r \<le> t \<and> t < rs_end_at r) rs"

definition held_units :: "int \<Rightarrow> reservation list \<Rightarrow> int" where
  "held_units cap rs = sum_list (map (\<lambda>r. reservation_share_units r cap)
     (filter (\<lambda>r. rs_mode r = MODE_SHARED) rs))"

definition held_memory :: "int \<Rightarrow> int \<Rightarrow> reservation list \<Rightarrow> int" where
  "held_memory usable cap rs = sum_list (map (\<lambda>r. charged_memory r usable cap)
     (filter (\<lambda>r. rs_mode r = MODE_SHARED) rs))"

definition span_ok :: "reservation \<Rightarrow> bool" where
  "span_ok r \<longleftrightarrow> rs_start_at r < rs_end_at r \<and> distinct (rs_gpus r)"

definition memory_room ::
  "(int \<rightharpoonup> int) \<Rightarrow> int \<Rightarrow> int \<Rightarrow> int \<Rightarrow> int option \<Rightarrow> int \<Rightarrow> reservation list \<Rightarrow> bool" where
  "memory_room capacities gpu reserve cap expected share_units rs =
     (case capacities gpu of
        None \<Rightarrow> True
      | Some capacity \<Rightarrow> capacity = 0 \<or>
          (let usable = max 0 (capacity - reserve);
               requested = py_or_int expected (inferred_share_memory_mb usable cap share_units)
           in requested \<le> usable \<and> held_memory usable cap rs + requested \<le> usable))"

lemma live_on_gpu_ledger:
  assumes "T \<le> t"
  shows "live_at (on_gpu (index_from_ledger l T) gpu) t =
    sort_key span_sort_key (map span_of (holders (lg_reservations l) gpu t))"
  by (simp add: live_at_def on_gpu_def index_from_ledger_spans holders_def filter_sort filter_map comp_def,
      intro arg_cong [where f = "\<lambda>xs. sort_key span_sort_key (map span_of xs)"] filter_cong)
    (use assms in auto)

lemma shared_units_ledger:
  "T \<le> t \<Longrightarrow> shared_units cap (live_at (on_gpu (index_from_ledger l T) gpu) t)
     = held_units cap (holders (lg_reservations l) gpu t)"
  by (simp add: live_on_gpu_ledger shared_units_def held_units_def filter_map comp_def)

lemma shared_memory_ledger:
  "T \<le> t \<Longrightarrow> shared_memory usable cap (live_at (on_gpu (index_from_ledger l T) gpu) t)
     = held_memory usable cap (holders (lg_reservations l) gpu t)"
  by (simp add: live_on_gpu_ledger shared_memory_def held_memory_def filter_map comp_def)

lemma memory_fits_ledger:
  "T \<le> t \<Longrightarrow> memory_fits capacities gpu reserve cap expected u
       (live_at (on_gpu (index_from_ledger l T) gpu) t)
     = memory_room capacities gpu reserve cap expected u (holders (lg_reservations l) gpu t)"
  by (simp add: memory_fits_def memory_room_def shared_memory_ledger Let_def split: option.splits)

lemma on_gpu_ledger:
  "set (on_gpu (index_from_ledger l T) gpu) = span_of `
     {r \<in> set (lg_reservations l). rs_status r = STATUS_ACTIVE \<and> T < rs_end_at r
        \<and> gpu \<in> set (rs_gpus r)}"
  by (auto simp: on_gpu_def set_index_from_ledger)

text \<open>Meeting an interval is holding the GPU at one of its instants.\<close>

lemma meets_iff_holds:
  assumes "span_ok r" and "T \<le> start" and "start < end"
  shows "T < rs_end_at r \<and> rs_start_at r < end \<and> start < rs_end_at r \<longleftrightarrow>
    (\<exists>t. start \<le> t \<and> t < end \<and> rs_start_at r \<le> t \<and> t < rs_end_at r)"
proof
  assume "T < rs_end_at r \<and> rs_start_at r < end \<and> start < rs_end_at r"
  then show "\<exists>t. start \<le> t \<and> t < end \<and> rs_start_at r \<le> t \<and> t < rs_end_at r"
    using assms by (intro exI [of _ "max start (rs_start_at r)"]) (auto simp: span_ok_def)
qed (use assms in auto)

lemma window_free_iff:
  assumes "list_all span_ok (lg_reservations l)" and "T \<le> start" and "start < end"
  shows "(\<forall>sp \<in> set (on_gpu (index_from_ledger l T) gpu).
            sp_start sp < end \<and> start < sp_end sp \<longrightarrow> Q (sp_mode sp)) \<longleftrightarrow>
    (\<forall>t. start \<le> t \<and> t < end \<longrightarrow> (\<forall>r \<in> set (holders (lg_reservations l) gpu t). Q (rs_mode r)))"
    (is "?window \<longleftrightarrow> ?instants")
proof -
  have "?window \<longleftrightarrow> (\<forall>r \<in> set (lg_reservations l). rs_status r = STATUS_ACTIVE \<and> gpu \<in> set (rs_gpus r)
      \<longrightarrow> T < rs_end_at r \<and> rs_start_at r < end \<and> start < rs_end_at r \<longrightarrow> Q (rs_mode r))"
    by (auto simp: on_gpu_ledger)
  also have "\<dots> \<longleftrightarrow> (\<forall>r \<in> set (lg_reservations l). rs_status r = STATUS_ACTIVE \<and> gpu \<in> set (rs_gpus r)
      \<longrightarrow> (\<exists>t. start \<le> t \<and> t < end \<and> rs_start_at r \<le> t \<and> t < rs_end_at r) \<longrightarrow> Q (rs_mode r))"
    using assms by (auto simp: list_all_iff meets_iff_holds [OF _ assms(2,3)])
  also have "\<dots> \<longleftrightarrow> ?instants" by (auto simp: holders_def)
  finally show ?thesis .
qed

lemma span_ok_index: "list_all span_ok (lg_reservations l) \<Longrightarrow> index_ok (index_from_ledger l T)"
  by (rule index_from_ledger_ok) (simp add: list_all_iff span_ok_def)

lemma shared_placeable_ledger:
  assumes "list_all span_ok (lg_reservations l)" and "T \<le> start" and "start < end"
  shows "availability_detail_indexed (index_from_ledger l T) gpu start end MODE_SHARED cap expected
      capacities reserve u = None \<longleftrightarrow>
    1 \<le> u \<and> u \<le> cap \<and> (\<forall>t. start \<le> t \<and> t < end \<longrightarrow>
      (\<forall>r \<in> set (holders (lg_reservations l) gpu t). rs_mode r \<noteq> MODE_EXCLUSIVE)
      \<and> held_units cap (holders (lg_reservations l) gpu t) + u \<le> cap
      \<and> memory_room capacities gpu reserve cap expected u (holders (lg_reservations l) gpu t))"
  unfolding shared_placeable_iff [OF span_ok_index [OF assms(1)] assms(3)]
    window_free_iff [OF assms, where Q = "\<lambda>m. m \<noteq> MODE_EXCLUSIVE"]
  using assms(2) by (auto simp: shared_units_ledger memory_fits_ledger)

lemma exclusive_placeable_ledger:
  assumes "list_all span_ok (lg_reservations l)" and "T \<le> start" and "start < end"
  shows "availability_detail_indexed (index_from_ledger l T) gpu start end MODE_EXCLUSIVE cap expected
      capacities reserve u = None \<longleftrightarrow>
    (\<forall>t. start \<le> t \<and> t < end \<longrightarrow> holders (lg_reservations l) gpu t = [])"
  unfolding exclusive_placeable_iff [OF span_ok_index [OF assms(1)]]
  using window_free_iff [OF assms, where Q = "\<lambda>_. False"]
  by (simp flip: set_empty)

text \<open>
  C14: a shared slot is offered exactly when it fits at every instant. The source cuts the interval
  at the boundaries of the reservations it meets and checks each piece; that is the same as asking, for
  every instant of the interval, that no holder of the GPU is exclusive, that the slots held
  and requested stay within the capacity, and that the memory charged and requested fits the GPU
  after the reserve (when its memory is known).
\<close>

theorem shared_offer_iff:
  assumes "list_all span_ok (lg_reservations l)" and "start < end"
  shows "availability_detail l gpu start end MODE_SHARED uid cap expected capacities reserve u = None \<longleftrightarrow>
    1 \<le> u \<and> u \<le> cap \<and> (\<forall>t. start \<le> t \<and> t < end \<longrightarrow>
      (\<forall>r \<in> set (holders (lg_reservations l) gpu t). rs_mode r \<noteq> MODE_EXCLUSIVE)
      \<and> held_units cap (holders (lg_reservations l) gpu t) + u \<le> cap
      \<and> memory_room capacities gpu reserve cap expected u (holders (lg_reservations l) gpu t))"
  unfolding availability_detail_def by (rule shared_placeable_ledger [OF assms(1) order_refl assms(2)])

theorem shared_offer_iff_witness:
  "availability_detail (sample_ledger [sample_reservation ''a'' MODE_SHARED [0] 1 4]) 0 2 8 MODE_SHARED 1000 2 None Map.empty 0 1 = None
   \<and> held_units 2 (holders [sample_reservation ''a'' MODE_SHARED [0] 1 4] 0 3) + 1 \<le> 2"
proof -
  let ?l = "sample_ledger [sample_reservation ''a'' MODE_SHARED [0] 1 4]"
  have "list_all span_ok (lg_reservations ?l)" by (simp add: span_ok_def sample_reservation_def)
  moreover have "availability_detail ?l 0 2 8 MODE_SHARED 1000 2 None Map.empty 0 1 = None" by code_simp
  ultimately show ?thesis using shared_offer_iff [of ?l 2 8 0 1000 2 None Map.empty 0 1] by auto
qed

text \<open>
  a GPU is offered exclusively exactly when nobody holds it at any instant of the interval;
  otherwise the reason given says whether an exclusive or only shared reservations are in the way.
\<close>

theorem exclusive_offer_iff:
  assumes "list_all span_ok (lg_reservations l)" and "start < end"
  shows "(availability_detail l gpu start end MODE_EXCLUSIVE uid cap expected capacities reserve u = None \<longleftrightarrow>
      (\<forall>t. start \<le> t \<and> t < end \<longrightarrow> holders (lg_reservations l) gpu t = []))
    \<and> availability_detail l gpu start end MODE_EXCLUSIVE uid cap expected capacities reserve u
        \<in> {None, Some (ExclusiveConflict gpu), Some (HasSharedReservations gpu)}"
proof (rule conjI)
  show "availability_detail l gpu start end MODE_EXCLUSIVE uid cap expected capacities reserve u = None \<longleftrightarrow>
      (\<forall>t. start \<le> t \<and> t < end \<longrightarrow> holders (lg_reservations l) gpu t = [])"
    unfolding availability_detail_def by (rule exclusive_placeable_ledger [OF assms(1) order_refl assms(2)])
qed (simp add: availability_detail_def availability_detail_indexed_def Let_def)

theorem exclusive_offer_iff_witness:
  "availability_detail (sample_ledger [sample_reservation ''a'' MODE_SHARED [0] 1 4]) 0 4 8 MODE_EXCLUSIVE 1000 2 None Map.empty 0 2 = None
   \<and> holders [sample_reservation ''a'' MODE_SHARED [0] 1 4] 0 5 = []"
proof -
  let ?l = "sample_ledger [sample_reservation ''a'' MODE_SHARED [0] 1 4]"
  have "list_all span_ok (lg_reservations ?l)" by (simp add: span_ok_def sample_reservation_def)
  moreover have "availability_detail ?l 0 4 8 MODE_EXCLUSIVE 1000 2 None Map.empty 0 2 = None" by code_simp
  ultimately show ?thesis using exclusive_offer_iff [of ?l 4 8 0 1000 2 None Map.empty 0 2] by auto
qed

end
