(* ===== verification/Policy.thy ===== *)
theory Policy
  imports Config
begin

text \<open>
  \<^verbatim>\<open>bk/policy.py\<close>: the scheduling policy is written into the ledger by the first write and
  every later writer must agree with it. The stored policy is a raw JSON value (no schema check
  constrains it); the comparison is Python's \<^verbatim>\<open>!=\<close>.
\<close>

definition LEDGER_POLICY_VERSION :: int where
  "LEDGER_POLICY_VERSION = 1"

definition STORAGE_GID_POLICY_KEY :: string where
  "STORAGE_GID_POLICY_KEY = ''storage_gid''"

text \<open>\<^verbatim>\<open>f"{mode:04o}"\<close>\<close>

fun show_oct :: "nat \<Rightarrow> string" where
  "show_oct n = (if n < 8 then [char_of (48 + n)] else show_oct (n div 8) @ [char_of (48 + n mod 8)])"

declare show_oct.simps [simp del]

definition oct4 :: "int \<Rightarrow> string" where
  "oct4 mode = (let s = show_oct (nat mode) in replicate (4 - length s) (CHR ''0'') @ s)"

text \<open>Python's equality: booleans, integers and floats compare by value, the rest by structure.\<close>

fun num_value :: "json \<Rightarrow> rat option" where
  "num_value (JBool b) = Some (if b then 1 else 0)"
| "num_value (JInt n) = Some (of_int n)"
| "num_value (JFloat q) = Some q"
| "num_value _ = None"

definition py_eq :: "json \<Rightarrow> json \<Rightarrow> bool" where
  "py_eq a b = (case (num_value a, num_value b) of
      (Some x, Some y) \<Rightarrow> x = y
    | (None, None) \<Rightarrow> a = b
    | _ \<Rightarrow> False)"

definition policy_for_config :: "config \<Rightarrow> (string \<times> json) list" where
  "policy_for_config c =
     [(''version'', JInt LEDGER_POLICY_VERSION),
      (''gpu_count'', JInt (gpu_count c)),
      (''max_shared_reservations_per_gpu'', JInt (max_shared_users c)),
      (''granularity_seconds'', JInt (slot_minutes c * 60)),
      (''require_shared_memory'', JBool (require_shared_memory c)),
      (''shared_memory_reserve_mb'', JInt (shared_memory_reserve_mb c)),
      (''file_mode'', JStr (oct4 (file_mode c))),
      (''dir_mode'', JStr (oct4 (dir_mode c)))]
     @ (case storage_gid c of None \<Rightarrow> [] | Some g \<Rightarrow> [(STORAGE_GID_POLICY_KEY, JInt g)])"

definition gid_json :: "int option \<Rightarrow> json" where
  "gid_json g = (case g of None \<Rightarrow> JNull | Some n \<Rightarrow> JInt n)"

definition policy_mismatches :: "(string \<times> json) list \<Rightarrow> config \<Rightarrow> string list" where
  "policy_mismatches current c =
     map fst (filter (\<lambda>(key, v). key \<noteq> STORAGE_GID_POLICY_KEY \<and> \<not> py_eq (jget current key) v)
       (policy_for_config c))
     @ (case map_of current STORAGE_GID_POLICY_KEY of
          None \<Rightarrow> []
        | Some v \<Rightarrow> (if py_eq v (gid_json (storage_gid c)) then [] else [STORAGE_GID_POLICY_KEY]))"

definition validate_ledger_policy :: "ledger \<Rightarrow> config \<Rightarrow> (booking_error, unit) result" where
  "validate_ledger_policy l c =
     (case lg_policy l of
        JNull \<Rightarrow> Inr ()
      | JObj current \<Rightarrow>
          (let mismatches = policy_mismatches current c
           in raise_if (mismatches \<noteq> []) (PolicyMismatch mismatches) (Inr ()))
      | _ \<Rightarrow> Inl PolicyNotObject)"

text \<open>Returns the ledger and whether it changed.\<close>

definition bind_ledger_policy :: "ledger \<Rightarrow> config \<Rightarrow> (booking_error, ledger \<times> bool) result" where
  "bind_ledger_policy l c =
     (if lg_policy l = JNull then Inr (l\<lparr>lg_policy := JObj (policy_for_config c)\<rparr>, True)
      else res_bind (validate_ledger_policy l c) (\<lambda>_.
        case (lg_policy l, storage_gid c) of
          (JObj current, Some g) \<Rightarrow>
            (if map_of current STORAGE_GID_POLICY_KEY = None
             then Inr (l\<lparr>lg_policy := JObj (current @ [(STORAGE_GID_POLICY_KEY, JInt g)])\<rparr>, True)
             else Inr (l, False))
        | _ \<Rightarrow> Inr (l, False)))"

definition validate_daemon_ledger_policy :: "ledger \<Rightarrow> config \<Rightarrow> (booking_error, unit) result" where
  "validate_daemon_ledger_policy l c =
     (case validate_ledger_policy l c of Inl e \<Rightarrow> Inl (DaemonPolicyMismatch e) | Inr u \<Rightarrow> Inr u)"

text \<open>
  \<^verbatim>\<open>PolicyGuardedLedgerStore._validate\<close>; the flag is \<^verbatim>\<open>_saw_bound_policy\<close>, returned
  updated.
\<close>

definition guard_validate :: "bool \<Rightarrow> ledger \<Rightarrow> config \<Rightarrow> (booking_error, bool) result" where
  "guard_validate saw_bound_policy l c =
     raise_if (lg_policy l = JNull \<and> saw_bound_policy) DaemonPolicyRemoved
       (res_bind (validate_daemon_ledger_policy l c) (\<lambda>_.
          Inr (if lg_policy l \<noteq> JNull then True else saw_bound_policy)))"

definition ledger_storage_modes :: "ledger \<Rightarrow> (booking_error, (string \<times> string) option) result" where
  "ledger_storage_modes l =
     (case lg_policy l of
        JNull \<Rightarrow> Inr None
      | JObj current \<Rightarrow>
          (case (jget current ''file_mode'', jget current ''dir_mode'') of
             (JStr f, JStr d) \<Rightarrow> Inr (Some (f, d))
           | _ \<Rightarrow> Inl StorageModesInvalid)
      | _ \<Rightarrow> Inl PolicyNotObject)"

text \<open>The part of a configuration the policy pins.\<close>

definition policy_view :: "config \<Rightarrow> int \<times> int \<times> int \<times> bool \<times> int" where
  "policy_view c = (gpu_count c, max_shared_users c, slot_minutes c, require_shared_memory c,
     shared_memory_reserve_mb c)"

lemma py_eq_self [simp]: "py_eq v v"
  by (cases "num_value v") (simp_all add: py_eq_def)

lemma py_eq_int_int [simp]: "py_eq (JInt a) (JInt b) \<longleftrightarrow> a = b"
  by (simp add: py_eq_def)

lemma py_eq_bool_bool [simp]: "py_eq (JBool a) (JBool b) \<longleftrightarrow> a = b"
  by (simp add: py_eq_def)

lemma py_eq_agree:
  "py_eq v (JInt a) \<Longrightarrow> py_eq v (JInt b) \<Longrightarrow> a = b"
  "py_eq v (JBool p) \<Longrightarrow> py_eq v (JBool q) \<Longrightarrow> p = q"
  by (auto simp: py_eq_def split: option.splits if_splits)

text \<open>Binding a policy makes the ledger agree with the configuration that bound it.\<close>

lemma policy_for_config_distinct: "distinct (map fst (policy_for_config c))"
  by (simp add: policy_for_config_def STORAGE_GID_POLICY_KEY_def split: option.splits)

lemma policy_for_config_lookup:
  "(k, v) \<in> set (policy_for_config c) \<Longrightarrow> jget (policy_for_config c) k = v"
  by (simp add: jget_def map_of_is_SomeI [OF policy_for_config_distinct])

lemma policy_for_config_gid:
  "map_of (policy_for_config c) STORAGE_GID_POLICY_KEY = map_option JInt (storage_gid c)"
  by (simp add: policy_for_config_def STORAGE_GID_POLICY_KEY_def split: option.splits)

lemma policy_for_config_agrees: "policy_mismatches (policy_for_config c) c = []"
  by (auto simp: policy_mismatches_def policy_for_config_lookup policy_for_config_gid gid_json_def
      filter_empty_conv split: option.splits)

lemma policy_mismatches_view:
  assumes "policy_mismatches current c = []" and "policy_mismatches current d = []"
  shows "policy_view c = policy_view d"
proof -
  have view: "py_eq (jget current ''gpu_count'') (JInt (gpu_count x))
      \<and> py_eq (jget current ''max_shared_reservations_per_gpu'') (JInt (max_shared_users x))
      \<and> py_eq (jget current ''granularity_seconds'') (JInt (slot_minutes x * 60))
      \<and> py_eq (jget current ''require_shared_memory'') (JBool (require_shared_memory x))
      \<and> py_eq (jget current ''shared_memory_reserve_mb'') (JInt (shared_memory_reserve_mb x))"
    if "policy_mismatches current x = []" for x
    using that
    by (simp add: policy_mismatches_def policy_for_config_def STORAGE_GID_POLICY_KEY_def
        split: if_splits)
  note c = view [OF assms(1)] and d = view [OF assms(2)]
  have "gpu_count c = gpu_count d" using c d by (blast intro: py_eq_agree)
  moreover have "max_shared_users c = max_shared_users d" using c d by (blast intro: py_eq_agree)
  moreover have "slot_minutes c * 60 = slot_minutes d * 60" using c d by (blast intro: py_eq_agree)
  moreover have "require_shared_memory c = require_shared_memory d"
    using c d py_eq_agree(2) by blast
  moreover have "shared_memory_reserve_mb c = shared_memory_reserve_mb d"
    using c d by (blast intro: py_eq_agree)
  ultimately show ?thesis by (simp add: policy_view_def)
qed

lemma bind_ledger_policy_reservations [ledger_simps]:
  "bind_ledger_policy l c = Inr (l', ch) \<Longrightarrow> lg_reservations l' = lg_reservations l"
  by (auto simp: bind_ledger_policy_def result_simps split: if_splits json.splits option.splits)

lemma bind_ledger_policy_tx [ledger_simps]:
  "bind_ledger_policy l c = Inr (l', ch) \<Longrightarrow> lg_last_transaction_id l' = lg_last_transaction_id l"
  by (auto simp: bind_ledger_policy_def result_simps split: if_splits json.splits option.splits)

end
