(* ===== verification/Timeparse.thy ===== *)
theory Timeparse
  imports Granularity
begin

text \<open>
  \<^verbatim>\<open>bk/timeparse.py\<close>: timestamps as text (\<^verbatim>\<open>to_iso\<close>, \<^verbatim>\<open>parse_iso\<close>), durations
  such as \<^verbatim>\<open>1h30m\<close>, clock times, and the rounding of a queued start. The calendar is Python's
  proleptic Gregorian one (\<^verbatim>\<open>datetime\<close>'s ordinals, years 1 to 9999);
  \<^verbatim>\<open>datetime.fromisoformat\<close> is modelled on dates and whole-second date-times with an optional
  minute offset, which every supported Python reads. The local-time grammar of \<^verbatim>\<open>parse_friendly_start\<close> is not modelled.
\<close>

section \<open>Calendar\<close>

definition is_leap :: "int \<Rightarrow> bool" where
  "is_leap year \<longleftrightarrow> year mod 4 = 0 \<and> (year mod 100 \<noteq> 0 \<or> year mod 400 = 0)"

definition days_before_year :: "int \<Rightarrow> int" where
  "days_before_year year = (let y = year - 1 in y * 365 + y div 4 - y div 100 + y div 400)"

definition DAYS_BEFORE_MONTH :: "int list" where
  "DAYS_BEFORE_MONTH = [0, 31, 59, 90, 120, 151, 181, 212, 243, 273, 304, 334, 365]"

text \<open>Days before the first of month \<open>m\<close> (1..12; 13 stands for the end of the year).\<close>

definition days_before_month :: "bool \<Rightarrow> nat \<Rightarrow> int" where
  "days_before_month leap m = DAYS_BEFORE_MONTH ! (m - 1) + (if m > 2 \<and> leap then 1 else 0)"

definition days_in_month :: "bool \<Rightarrow> nat \<Rightarrow> int" where
  "days_in_month leap m = days_before_month leap (m + 1) - days_before_month leap m"

definition ymd2ord :: "int \<Rightarrow> nat \<Rightarrow> int \<Rightarrow> int" where
  "ymd2ord year month day = days_before_year year + days_before_month (is_leap year) month + day"

text \<open>The month and day of the \<open>n\<close>-th day (from 0) of a year, as the library computes them.\<close>

definition month_day :: "bool \<Rightarrow> int \<Rightarrow> nat \<times> int" where
  "month_day leap n =
     (let month = nat ((n + 50) div 32);
          preceding = days_before_month leap month
      in if preceding > n
         then (month - 1, n - days_before_month leap (month - 1) + 1)
         else (month, n - preceding + 1))"

definition ord2ymd :: "int \<Rightarrow> int \<times> nat \<times> int" where
  "ord2ymd ordinal =
     (let n = ordinal - 1;
          n400 = n div 146097; n = n mod 146097;
          n100 = n div 36524; n = n mod 36524;
          n4 = n div 1461; n = n mod 1461;
          n1 = n div 365; n = n mod 365;
          year = n400 * 400 + 1 + n100 * 100 + n4 * 4 + n1
      in if n1 = 4 \<or> n100 = 4 then (year - 1, 12, 31)
         else let leap = (n1 = 3 \<and> (n4 \<noteq> 24 \<or> n100 = 3));
                  (month, day) = month_day leap n
              in (year, month, day))"

text \<open>The ordinal of 1970-01-01.\<close>

definition EPOCH_ORDINAL :: int where
  "EPOCH_ORDINAL = 719163"

section \<open>ISO 8601 text\<close>

text \<open>
  \<^verbatim>\<open>dt.astimezone(utc).replace(microsecond=0).isoformat().replace("+00:00", "Z")\<close>
\<close>

definition to_iso :: "datetime \<Rightarrow> string" where
  "to_iso t =
     (let secs = t div us_per_second;
          day = secs div 86400; rest = secs mod 86400;
          (y, m, d) = ord2ymd (EPOCH_ORDINAL + day)
      in pad_nat 4 (nat y) @ ''-'' @ pad_nat 2 m @ ''-'' @ pad_nat 2 (nat d) @ ''T''
         @ pad_nat 2 (nat (rest div 3600)) @ '':'' @ pad_nat 2 (nat (rest mod 3600 div 60)) @ '':''
         @ pad_nat 2 (nat (rest mod 60)) @ ''Z'')"

text \<open>A fixed-width field of digits.\<close>

definition digit_field :: "nat \<Rightarrow> string \<Rightarrow> (int \<times> string) option" where
  "digit_field w s =
     (if length s < w \<or> \<not> list_all is_digit (take w s) then None
      else Some (digits_value 0 (take w s), drop w s))"

definition expect :: "char \<Rightarrow> string \<Rightarrow> string option" where
  "expect c s = (case s of x # xs \<Rightarrow> (if x = c then Some xs else None) | [] \<Rightarrow> None)"

definition parse_date :: "string \<Rightarrow> (int \<times> string) option" where
  "parse_date s =
     Option.bind (digit_field 4 s) (\<lambda>(y, s). Option.bind (expect (CHR ''-'') s) (\<lambda>s.
     Option.bind (digit_field 2 s) (\<lambda>(m, s). Option.bind (expect (CHR ''-'') s) (\<lambda>s.
     Option.bind (digit_field 2 s) (\<lambda>(d, s).
       if 1 \<le> y \<and> 1 \<le> m \<and> m \<le> 12 \<and> 1 \<le> d \<and> d \<le> days_in_month (is_leap y) (nat m)
       then Some (ymd2ord y (nat m) d, s) else None)))))"

text \<open>\<^verbatim>\<open>HH:MM:SS\<close>, in seconds.\<close>

definition parse_clock :: "string \<Rightarrow> (int \<times> string) option" where
  "parse_clock s =
     Option.bind (digit_field 2 s) (\<lambda>(h, s). Option.bind (expect (CHR '':'') s) (\<lambda>s.
     Option.bind (digit_field 2 s) (\<lambda>(mi, s). Option.bind (expect (CHR '':'') s) (\<lambda>s.
     Option.bind (digit_field 2 s) (\<lambda>(sec, s).
       if h < 24 \<and> mi < 60 \<and> sec < 60 then Some (h * 3600 + mi * 60 + sec, s) else None)))))"

text \<open>An optional offset \<^verbatim>\<open>+HH:MM\<close>; a text without one is read as UTC.\<close>

definition parse_offset :: "string \<Rightarrow> int option" where
  "parse_offset s =
     (case s of
        [] \<Rightarrow> Some 0
      | sign # rest \<Rightarrow>
          (if sign \<noteq> CHR ''+'' \<and> sign \<noteq> CHR ''-'' then None
           else Option.bind (digit_field 2 rest) (\<lambda>(h, s). Option.bind (expect (CHR '':'') s) (\<lambda>s.
             Option.bind (digit_field 2 s) (\<lambda>(mi, s).
               if s = [] \<and> h < 24 \<and> mi < 60
               then Some ((if sign = CHR ''-'' then -1 else 1) * (h * 3600 + mi * 60)) else None)))))"

definition fromisoformat :: "string \<Rightarrow> datetime option" where
  "fromisoformat s =
     Option.bind (parse_date s) (\<lambda>(ordinal, s).
       case s of
         [] \<Rightarrow> Some (seconds ((ordinal - EPOCH_ORDINAL) * 86400))
       | _ # s \<Rightarrow>
           Option.bind (parse_clock s) (\<lambda>(secs, s). Option.bind (parse_offset s) (\<lambda>offset.
             Some (seconds ((ordinal - EPOCH_ORDINAL) * 86400 + secs - offset)))))"

definition parse_iso :: "string \<Rightarrow> datetime option" where
  "parse_iso raw =
     (let value = py_strip raw;
          value = (if value \<noteq> [] \<and> last value = CHR ''Z'' then butlast value @ ''+00:00'' else value)
      in map_option whole_second (fromisoformat value))"


section \<open>Durations and clock times\<close>

definition unit_seconds :: "char \<Rightarrow> int option" where
  "unit_seconds u = (if u = CHR ''d'' then Some (24 * 60 * 60) else if u = CHR ''h'' then Some (60 * 60)
     else if u = CHR ''m'' then Some 60 else None)"

text \<open>The loop over the tokens \<^verbatim>\<open>(\d+)([dhm])\<close>; anything between two tokens is an error.\<close>

function duration_loop :: "char list \<Rightarrow> int \<Rightarrow> string \<Rightarrow> (value_error, int) result" where
  "duration_loop seen acc s =
     (if s = [] then raise_if (acc \<le> 0) (ValueError ''duration must be positive'') (Inr acc)
      else case dropWhile is_digit s of
          [] \<Rightarrow> Inl (ValueError ''duration must look like 30m, 1h30m, or 1d'')
        | unit # rest \<Rightarrow>
            (case unit_seconds unit of
               None \<Rightarrow> Inl (ValueError ''duration must look like 30m, 1h30m, or 1d'')
             | Some per \<Rightarrow>
                 if takeWhile is_digit s = []
                 then Inl (ValueError ''duration must look like 30m, 1h30m, or 1d'')
                 else if unit \<in> set seen
                 then Inl (ValueError ''duration units may only appear once'')
                 else duration_loop (unit # seen)
                        (acc + digits_value 0 (takeWhile is_digit s) * per) rest))"
  by pat_completeness auto
termination
proof (relation "measure (\<lambda>(seen, acc, s). length s)")
  fix s rest :: string and unit :: char
  assume "dropWhile is_digit s = unit # rest"
  then have "length (unit # rest) \<le> length s" by (metis length_dropWhile_le)
  then show "((unit # x, y, rest), (z, w, s)) \<in> measure (\<lambda>(seen, acc, s). length s)" for x y z w
    by simp
qed simp

declare duration_loop.simps [simp del]

definition parse_duration_seconds :: "string \<Rightarrow> (value_error, int) result" where
  "parse_duration_seconds value =
     (let raw = py_lower (py_strip value) in
      if raw = [] then Inl (ValueError ''duration must look like 30m, 1h30m, or 1d'')
      else duration_loop [] 0 raw)"

definition normalize_queue_start :: "datetime \<Rightarrow> datetime \<Rightarrow> int \<Rightarrow> datetime" where
  "normalize_queue_start value current slot =
     (if value \<le> current then floor_to_slot current slot else ceil_to_slot value slot)"

lemma normalize_queue_start_aligned:
  "0 < m \<Longrightarrow> is_slot_aligned (normalize_queue_start v now m) m"
  by (simp add: normalize_queue_start_def floor_to_slot_aligned ceil_to_slot_aligned)


section \<open>Reading back what was written\<close>

lemma month_day_table:
  "list_all (\<lambda>leap. list_all (\<lambda>n.
      let (m, d) = month_day leap n
      in 1 \<le> m \<and> m \<le> 12 \<and> 1 \<le> d \<and> d \<le> days_in_month leap m \<and> days_before_month leap m + d = n + 1)
     [0..364 + (if leap then 1 else 0)]) [True, False]"
  by code_simp

lemma month_day_ok:
  assumes "0 \<le> n" and "n \<le> 364 + (if leap then 1 else 0)" and "month_day leap n = (m, d)"
  shows "1 \<le> m \<and> m \<le> 12 \<and> 1 \<le> d \<and> d \<le> days_in_month leap m \<and> days_before_month leap m + d = n + 1"
  using month_day_table assms by (cases leap) (auto simp: list_all_iff Let_def dest!: bspec [of _ _ n])

lemma days_before_year_digits:
  assumes "0 \<le> b" "b \<le> 3" "0 \<le> c" "c \<le> 24" "0 \<le> d" "d \<le> 3"
  shows "days_before_year (400 * a + 100 * b + 4 * c + d + 1) = 146097 * a + 36524 * b + 1461 * c + 365 * d"
proof -
  let ?y = "400 * a + 100 * b + 4 * c + d"
  have "?y div 4 = 100 * a + 25 * b + c" using assms by linarith
  moreover have "?y div 100 = 4 * a + b" using assms by linarith
  moreover have "?y div 400 = a" using assms by linarith
  ultimately show ?thesis by (simp add: days_before_year_def Let_def)
qed

lemma mod_window: "1 \<le> z \<Longrightarrow> z \<le> N \<Longrightarrow> (z + N * q) mod N = 0 \<longleftrightarrow> z = (N :: int)"
  by (cases "z = N") (auto simp: mod_pos_pos_trivial)

lemma is_leap_digits:
  assumes "0 \<le> b" "b \<le> 3" "0 \<le> c" "c \<le> 24" "0 \<le> d" "d \<le> 3"
  shows "is_leap (400 * a + 100 * b + 4 * c + d + 1) \<longleftrightarrow> d = 3 \<and> (c \<noteq> 24 \<or> b = 3)"
proof -
  let ?y = "400 * a + 100 * b + 4 * c + d + 1"
  have "?y mod 4 = 0 \<longleftrightarrow> d + 1 = 4"
    using mod_window [of "d + 1" 4 "100 * a + 25 * b + c"] assms by (simp add: algebra_simps)
  moreover have "?y mod 100 = 0 \<longleftrightarrow> 4 * c + d + 1 = 100"
    using mod_window [of "4 * c + d + 1" 100 "4 * a + b"] assms by (simp add: algebra_simps)
  moreover have "?y mod 400 = 0 \<longleftrightarrow> 100 * b + 4 * c + d + 1 = 400"
    using mod_window [of "100 * b + 4 * c + d + 1" 400 a] assms by (simp add: algebra_simps)
  moreover have "4 * c + d + 1 = 100 \<longleftrightarrow> c = 24 \<and> d = 3" using assms by linarith
  moreover have "100 * b + 4 * c + d + 1 = 400 \<longleftrightarrow> b = 3 \<and> c = 24 \<and> d = 3" using assms by linarith
  ultimately show ?thesis by (auto simp: is_leap_def)
qed

lemma dec31: "days_in_month leap 12 = 31" "days_before_month leap 12 + 31 = (if leap then 366 else 365)"
  by (simp_all add: days_in_month_def days_before_month_def DAYS_BEFORE_MONTH_def)

lemma ord2ymd_ok:
  assumes "1 \<le> ordinal" and "ordinal \<le> 3652059" and "ord2ymd ordinal = (y, m, d)"
  shows "1 \<le> y \<and> y \<le> 9999 \<and> 1 \<le> m \<and> m \<le> 12 \<and> 1 \<le> d \<and> d \<le> days_in_month (is_leap y) m
    \<and> ymd2ord y m d = ordinal"
proof -
  define n where "n = ordinal - 1"
  define a where "a = n div 146097"
  define n1 where "n1 = n mod 146097"
  define b where "b = n1 div 36524"
  define n2 where "n2 = n1 mod 36524"
  define c where "c = n2 div 1461"
  define n3 where "n3 = n2 mod 1461"
  define k where "k = n3 div 365"
  define r where "r = n3 mod 365"
  note defs = n_def a_def n1_def b_def n2_def c_def n3_def k_def r_def
  have n0: "n = 146097 * a + n1" "0 \<le> n1" "n1 < 146097" unfolding a_def n1_def by simp_all
  have n1: "n1 = 36524 * b + n2" "0 \<le> n2" "n2 < 36524" unfolding b_def n2_def by simp_all
  have n2: "n2 = 1461 * c + n3" "0 \<le> n3" "n3 < 1461" unfolding c_def n3_def by simp_all
  have n3: "n3 = 365 * k + r" and r: "0 \<le> r" "r \<le> 364" unfolding k_def r_def by simp_all
  have n: "n = 146097 * a + 36524 * b + 1461 * c + 365 * k + r" using n0 n1 n2 n3 by linarith
  have a: "0 \<le> a" "a \<le> 24" using n0 assms(1,2) by (simp_all add: n_def)
  have b: "0 \<le> b" "b \<le> 4" using n0 n1 by linarith+
  have c: "0 \<le> c" "c \<le> 24" using n1 n2 by linarith+
  have k: "0 \<le> k" "k \<le> 4" using n2 n3 r by linarith+
  have b4: "c = 0 \<and> k = 0 \<and> r = 0" if "b = 4" using that n0 n1 n2 n3 r c k by linarith
  have k4: "r = 0" if "k = 4" using that n2 n3 r by linarith
  have k4c: "c < 24" if "k = 4" using that n1 n2 n3 r c by linarith
  have ymd: "(y, m, d) = (if k = 4 \<or> b = 4 then (400 * a + 100 * b + 4 * c + k, 12, 31)
      else let (mm, dd) = month_day (k = 3 \<and> (c \<noteq> 24 \<or> b = 3)) r
           in (400 * a + 100 * b + 4 * c + k + 1, mm, dd))"
    using assms(3) unfolding ord2ymd_def Let_def defs by (simp add: ac_simps split: if_splits)
  consider "b = 4" | "b \<le> 3" "k = 4" | "b \<le> 3" "k \<le> 3" using b k by linarith
  then show ?thesis
  proof cases
    case 1
    with b4 have z: "c = 0" "k = 0" "r = 0" by auto
    have y: "y = 400 * a + 100 * 3 + 4 * 24 + 3 + 1" "m = 12" "d = 31" using ymd 1 z by auto
    have leap: "is_leap y" unfolding y(1) by (subst is_leap_digits) auto
    have "days_before_year y = 146097 * a + 36524 * 3 + 1461 * 24 + 365 * 3"
      unfolding y(1) by (rule days_before_year_digits) auto
    moreover have "a \<le> 23" using n0 n1 1 assms(2) z b4 unfolding n_def by linarith
    ultimately show ?thesis using leap y dec31 [of True] n 1 z a by (simp add: ymd2ord_def n_def)
  next
    case 2
    with k4 have z: "r = 0" by auto
    have y: "y = 400 * a + 100 * b + 4 * c + 3 + 1" "m = 12" "d = 31" using ymd 2 z by auto
    have leap: "is_leap y" unfolding y(1) using k4c 2 b c by (subst is_leap_digits) auto
    have "days_before_year y = 146097 * a + 36524 * b + 1461 * c + 365 * 3"
      unfolding y(1) by (rule days_before_year_digits) (use 2 b c in auto)
    moreover have "400 * a + 100 * b + 4 * c \<le> 9995" using a 2 c k4c by linarith
    ultimately show ?thesis using leap y dec31 [of True] n 2 z a b c by (simp add: ymd2ord_def n_def)
  next
    case 3
    let ?leap = "k = 3 \<and> (c \<noteq> 24 \<or> b = 3)"
    have y: "y = 400 * a + 100 * b + 4 * c + k + 1" and md: "month_day ?leap r = (m, d)"
      using ymd 3 by (auto split: prod.splits)
    have leap: "is_leap y = ?leap" unfolding y by (rule is_leap_digits) (use 3 b c k in auto)
    have "days_before_year y = 146097 * a + 36524 * b + 1461 * c + 365 * k"
      unfolding y by (rule days_before_year_digits) (use 3 b c k in auto)
    moreover have "1 \<le> m \<and> m \<le> 12 \<and> 1 \<le> d \<and> d \<le> days_in_month ?leap m \<and> days_before_month ?leap m + d = r + 1"
      by (rule month_day_ok [OF r(1) _ md]) (use r in auto)
    moreover have "k \<le> 2" if "a = 24" "b = 3" "c = 24"
      using n that assms(2) r unfolding n_def by linarith
    then have "400 * a + 100 * b + 4 * c + k \<le> 9998"
      using a 3 c by (cases "a = 24"; cases "b = 3"; cases "c = 24") linarith+
    ultimately show ?thesis using n y leap 3 a b c k by (simp add: ymd2ord_def n_def)
  qed
qed


lemma digit_field_pad [simp]:
  "n < 10 ^ w \<Longrightarrow> 0 < w \<Longrightarrow> digit_field w (pad_nat w n @ s) = Some (int n, s)"
  by (simp add: digit_field_def length_pad_nat pad_nat_digits)

lemma expect_Cons [simp]: "expect c (c # s) = Some s"
  by (simp add: expect_def)

lemma expect_lit [simp]: "expect c ([c] @ s) = Some s"
  by (simp add: expect_def)

text \<open>The instants \<^verbatim>\<open>datetime\<close> can represent: years 1 to 9999.\<close>

definition representable :: "datetime \<Rightarrow> bool" where
  "representable t \<longleftrightarrow>
     1 \<le> EPOCH_ORDINAL + t div us_per_second div 86400
     \<and> EPOCH_ORDINAL + t div us_per_second div 86400 \<le> 3652059"

lemma days_in_month_le: "1 \<le> m \<Longrightarrow> m \<le> 12 \<Longrightarrow> days_in_month leap m \<le> 31"
proof -
  have "list_all (\<lambda>leap. list_all (\<lambda>m. days_in_month leap m \<le> 31) [1..<13]) [True, False]"
    by code_simp
  then show "1 \<le> m \<Longrightarrow> m \<le> 12 \<Longrightarrow> days_in_month leap m \<le> 31"
    by (cases leap) (auto simp: list_all_iff)
qed

lemma parse_date_print:
  assumes "1 \<le> ordinal" "ordinal \<le> 3652059" "ord2ymd ordinal = (y, m, d)"
  shows "parse_date (pad_nat 4 (nat y) @ ''-'' @ pad_nat 2 m @ ''-'' @ pad_nat 2 (nat d) @ s) = Some (ordinal, s)"
proof -
  note ok = ord2ymd_ok [OF assms]
  from ok have "d \<le> 31" using days_in_month_le [of m "is_leap y"] by linarith
  with ok have "nat y < 10 ^ 4" "m < 10 ^ 2" "nat d < 10 ^ 2" by auto
  with ok show ?thesis by (simp add: parse_date_def)
qed

lemma clock_fields:
  assumes "0 \<le> h" "h < 24" "0 \<le> mi" "mi < 60" "0 \<le> sec" "sec < 60"
  shows "parse_clock (pad_nat 2 (nat h) @ '':'' @ pad_nat 2 (nat mi) @ '':'' @ pad_nat 2 (nat sec) @ s)
    = Some (h * 3600 + mi * 60 + sec, s)"
proof -
  have "nat h < 10 ^ 2" "nat mi < 10 ^ 2" "nat sec < 10 ^ 2" using assms by auto
  then show ?thesis using assms by (simp add: parse_clock_def)
qed

lemma parse_clock_print:
  assumes "0 \<le> rest" "rest < 86400"
  shows "parse_clock (pad_nat 2 (nat (rest div 3600)) @ '':'' @ pad_nat 2 (nat (rest mod 3600 div 60)) @ '':''
           @ pad_nat 2 (nat (rest mod 60)) @ s) = Some (rest, s)"
proof -
  have "0 \<le> rest mod 3600" "rest mod 3600 < 3600" by simp_all
  then have "0 \<le> rest div 3600" "rest div 3600 < 24" "0 \<le> rest mod 3600 div 60" "rest mod 3600 div 60 < 60"
    "0 \<le> rest mod 60" "rest mod 60 < 60" using assms by auto
  note clock = clock_fields [OF this, of s]
  have "rest mod 3600 mod 60 = rest mod 60" by (rule mod_mod_cancel) simp
  then have "rest div 3600 * 3600 + rest mod 3600 div 60 * 60 + rest mod 60 = rest"
    using div_mult_mod_eq [of rest 3600] div_mult_mod_eq [of "rest mod 3600" 60] by linarith
  with clock show ?thesis by (simp only:)
qed

lemma pad_nat_not_space: "n < 10 ^ w \<Longrightarrow> 0 < w \<Longrightarrow> \<exists>c cs. pad_nat w n = c # cs \<and> \<not> py_isspace c"
  using length_pad_nat [of n w] pad_nat_digits [of w n]
  by (cases "pad_nat w n") (auto simp: is_digit_def py_isspace_def Let_def)

lemma py_strip_solid:
  assumes "s = c # mid @ [z]" "\<not> py_isspace c" "\<not> py_isspace z"
  shows "py_strip s = s"
  using assms by (simp add: py_strip_def)

lemma representable_split:
  "whole_second t = seconds (t div us_per_second)"
  "t div us_per_second = (t div us_per_second) div 86400 * 86400 + (t div us_per_second) mod 86400"
  by (simp_all add: whole_second_def seconds_def minus_mod_eq_div_mult)

lemma whole_second_div: "whole_second t div us_per_second = t div us_per_second"
  by (simp add: representable_split(1) seconds_def us_per_second_def)

lemma to_iso_whole: "to_iso (whole_second t) = to_iso t"
  unfolding to_iso_def whole_second_div ..

lemma representable_whole [simp]: "representable (whole_second t) = representable t"
  unfolding representable_def whole_second_div ..

lemma parse_iso_print:
  assumes "representable t"
  shows "parse_iso (to_iso t) = Some (whole_second t)"
proof -
  define secs where "secs = t div us_per_second"
  define day where "day = secs div 86400"
  define rest where "rest = secs mod 86400"
  obtain y m d where ymd: "ord2ymd (EPOCH_ORDINAL + day) = (y, m, d)" by (metis prod_cases3)
  have ord: "1 \<le> EPOCH_ORDINAL + day" "EPOCH_ORDINAL + day \<le> 3652059"
    using assms unfolding representable_def day_def secs_def by auto
  have rest: "0 \<le> rest" "rest < 86400" unfolding rest_def by simp_all
  define date where "date = pad_nat 4 (nat y) @ ''-'' @ pad_nat 2 m @ ''-'' @ pad_nat 2 (nat d)"
  define clock where "clock = pad_nat 2 (nat (rest div 3600)) @ '':'' @ pad_nat 2 (nat (rest mod 3600 div 60)) @ '':''
           @ pad_nat 2 (nat (rest mod 60))"
  have txt_eq: "to_iso t = date @ ''T'' @ clock @ ''Z''"
    using ymd unfolding to_iso_def Let_def date_def clock_def rest_def day_def secs_def by simp
  have "nat y < 10 ^ 4" using ord2ymd_ok [OF ord ymd] by auto
  then obtain c cs where c: "pad_nat 4 (nat y) = c # cs" "\<not> py_isspace c"
    using pad_nat_not_space [of "nat y" 4] by auto
  have "py_strip (to_iso t) = to_iso t"
    by (rule py_strip_solid [of _ c "cs @ ''-'' @ pad_nat 2 m @ ''-'' @ pad_nat 2 (nat d) @ ''T'' @ clock" "CHR ''Z''"])
      (use c in \<open>auto simp: txt_eq date_def py_isspace_def [of "CHR ''Z''"]\<close>)
  moreover have "fromisoformat (date @ ''T'' @ clock @ ''+00:00'') = Some (seconds (day * 86400 + rest))"
    unfolding fromisoformat_def date_def clock_def append_assoc
    by (subst parse_date_print [OF ord ymd], simp only: bind.simps prod.case append.simps list.case,
        subst parse_clock_print [OF rest, simplified append.simps])
      (simp add: parse_offset_def digit_field_def expect_def is_digit_def digit_value_def)
  moreover have "butlast (to_iso t) = date @ ''T'' @ clock" "last (to_iso t) = CHR ''Z''" "to_iso t \<noteq> []"
    by (simp_all add: txt_eq butlast_append)
  moreover have "seconds (day * 86400 + rest) = whole_second t"
    by (simp add: representable_split(1) day_def rest_def secs_def)
  ultimately show ?thesis
    unfolding parse_iso_def Let_def by (simp add: whole_second_def seconds_def us_per_second_def)
qed

text \<open>Two stored timestamps are equal texts exactly when they are the same second.\<close>

lemma to_iso_inj:
  assumes "representable t" "representable u"
  shows "to_iso t = to_iso u \<longleftrightarrow> whole_second t = whole_second u"
proof
  assume "to_iso t = to_iso u"
  then have "parse_iso (to_iso t) = parse_iso (to_iso u)" by simp
  then show "whole_second t = whole_second u" using assms by (simp add: parse_iso_print)
next
  assume "whole_second t = whole_second u"
  then have "t div us_per_second = u div us_per_second"
    by (simp add: representable_split(1) seconds_def us_per_second_def)
  then show "to_iso t = to_iso u" by (simp add: to_iso_def)
qed

text \<open>
  C36: timestamps survive storage. Every instant of the years 1 to 9999 prints as a text that parses
  back to the same second, and two instants print alike exactly when they are the same second.
\<close>

theorem timestamp_roundtrip:
  assumes "representable t" and "representable u"
  shows "parse_iso (to_iso t) = Some (whole_second t) \<and> (to_iso t = to_iso u \<longleftrightarrow> whole_second t = whole_second u)"
  using parse_iso_print [OF assms(1)] to_iso_inj [OF assms] by blast

theorem timestamp_roundtrip_witness:
  "parse_iso (to_iso (seconds 951827696 + 5)) = Some (seconds 951827696) \<and> to_iso (seconds 951827696) = ''2000-02-29T12:34:56Z''"
proof -
  have "representable (seconds 951827696 + 5)" "whole_second (seconds 951827696 + 5) = seconds 951827696"
    "to_iso (seconds 951827696) = ''2000-02-29T12:34:56Z''" by code_simp+
  then show ?thesis using timestamp_roundtrip [of "seconds 951827696 + 5" "seconds 951827696 + 5"] by simp
qed

text \<open>Durations as they are written: numbers with units.\<close>

fun show_duration :: "(nat \<times> char) list \<Rightarrow> string" where
  "show_duration [] = []"
| "show_duration ((n, unit) # rest) = show_nat n @ unit # show_duration rest"

fun duration_value :: "(nat \<times> char) list \<Rightarrow> int" where
  "duration_value [] = 0"
| "duration_value ((n, unit) # rest) = int n * the (unit_seconds unit) + duration_value rest"

lemma takeWhile_digits: "list_all is_digit ds \<Longrightarrow> \<not> is_digit u \<Longrightarrow> takeWhile is_digit (ds @ u # s) = ds"
  by (induction ds) auto

lemma dropWhile_digits: "list_all is_digit ds \<Longrightarrow> \<not> is_digit u \<Longrightarrow> dropWhile is_digit (ds @ u # s) = u # s"
  by (induction ds) auto

lemma unit_not_digit: "unit_seconds u = Some per \<Longrightarrow> \<not> is_digit u"
  by (auto simp: unit_seconds_def is_digit_def split: if_splits)

lemma show_duration_Cons: "show_duration ((n, unit) # rest) \<noteq> []"
  by simp

lemma duration_loop_show:
  assumes "distinct (map snd tokens)" and "set (map snd tokens) \<inter> set seen = {}"
    and "\<forall>u \<in> set (map snd tokens). unit_seconds u \<noteq> None" and "0 < acc + duration_value tokens"
  shows "duration_loop seen acc (show_duration tokens) = Inr (acc + duration_value tokens)"
  using assms
proof (induction tokens arbitrary: seen acc rule: show_duration.induct)
  case 1
  then show ?case by (simp add: duration_loop.simps)
next
  case (2 n unit rest)
  then obtain per where per: "unit_seconds unit = Some per" by auto
  note nd = unit_not_digit [OF per]
  have s: "takeWhile is_digit (show_duration ((n, unit) # rest)) = show_nat n"
    "dropWhile is_digit (show_duration ((n, unit) # rest)) = unit # show_duration rest"
    by (simp_all add: takeWhile_digits dropWhile_digits show_nat_digits nd)
  have "duration_loop (unit # seen) (acc + int n * per) (show_duration rest)
      = Inr (acc + int n * per + duration_value rest)"
    by (rule "2.IH") (use "2.prems" per in auto)
  with "2.prems" per s show ?case
    by (subst duration_loop.simps) (simp del: show_duration.simps add: algebra_simps show_duration_Cons)
qed

lemma lower_digit: "is_digit ch \<Longrightarrow> py_lower_char ch = ch \<and> \<not> py_isspace ch"
  by (auto simp: is_digit_def py_lower_char_def py_isspace_def Let_def)

lemma lower_unit: "unit_seconds u = Some per \<Longrightarrow> py_lower_char u = u \<and> \<not> py_isspace u"
  by (auto simp: unit_seconds_def py_lower_char_def py_isspace_def split: if_splits)

lemma show_duration_plain:
  "\<forall>u \<in> set (map snd tokens). unit_seconds u \<noteq> None \<Longrightarrow>
   list_all (\<lambda>ch. py_lower_char ch = ch \<and> \<not> py_isspace ch) (show_duration tokens)"
proof (induction tokens rule: show_duration.induct)
  case (2 n unit rest)
  have "list_all (\<lambda>ch. py_lower_char ch = ch \<and> \<not> py_isspace ch) (show_nat n)"
    using show_nat_digits [of n] lower_digit by (auto simp: list_all_iff)
  with 2 lower_unit show ?case by fastforce
qed simp

lemma dropWhile_none: "\<forall>x \<in> set xs. \<not> P x \<Longrightarrow> dropWhile P xs = xs"
  by (cases xs) auto

lemma py_strip_plain: "list_all (\<lambda>ch. \<not> py_isspace ch) s \<Longrightarrow> py_strip s = s"
  by (simp add: py_strip_def list_all_iff dropWhile_none)

text \<open>
  Durations are read exactly. Whatever days, hours and minutes are written, in any order and
  with any of them left out, provided each unit is used once and the total is positive, the parser
  returns the number of seconds they stand for.
\<close>

theorem duration_roundtrip:
  assumes "distinct (map snd tokens)" and "set (map snd tokens) \<subseteq> {CHR ''d'', CHR ''h'', CHR ''m''}"
    and "0 < duration_value tokens"
  shows "parse_duration_seconds (show_duration tokens) = Inr (duration_value tokens)"
proof -
  have units: "\<forall>u \<in> set (map snd tokens). unit_seconds u \<noteq> None"
    using assms(2) by (auto simp: unit_seconds_def)
  note plain = show_duration_plain [OF units, unfolded list_all_iff]
  have "py_lower (py_strip (show_duration tokens)) = show_duration tokens"
    using plain py_strip_plain [of "show_duration tokens"] by (simp add: list_all_iff py_lower_def map_idI)
  moreover have "show_duration tokens \<noteq> []" using assms(3) by (cases tokens) auto
  ultimately show ?thesis
    using duration_loop_show [OF assms(1), of "[]" 0] units assms(3) by (simp add: parse_duration_seconds_def)
qed

theorem duration_roundtrip_witness:
  "parse_duration_seconds (show_duration [(1, CHR ''h''), (30, CHR ''m'')]) = Inr 5400
   \<and> show_duration [(1, CHR ''h''), (30, CHR ''m'')] = ''1h30m''"
proof -
  have "duration_value [(1, CHR ''h''), (30, CHR ''m'')] = 5400" by (simp add: unit_seconds_def)
  moreover have "show_duration [(1, CHR ''h''), (30, CHR ''m'')] = ''1h30m''" by code_simp
  ultimately show ?thesis using duration_roundtrip [of "[(1, CHR ''h''), (30, CHR ''m'')]"] by simp
qed

end
