(* ===== verification/Placement.thy ===== *)
theory Placement
  imports Availability Policy Samples Timeparse
begin

text \<open>
  \<^verbatim>\<open>bk/scheduler.py\<close>, placement: administrator policy windows, the choice of GPUs at a start
  time, and the searches for the earliest and the nearest start. Scores are exact rationals in
  place of Python floats; they order the available GPUs and never decide availability.

  The code reads the clock again in every policy check it makes inside a search. The readings are
  explicit: a \<open>search_clock\<close> gives the reading of the search itself and, per candidate start,
  the readings of the two checks made there.
\<close>

record search_clock =
  sc_now :: datetime
  sc_place :: "datetime \<Rightarrow> datetime"
  sc_avail :: "datetime \<Rightarrow> datetime"

definition booking_policy_conflict ::
  "config \<Rightarrow> datetime \<Rightarrow> datetime \<Rightarrow> datetime \<Rightarrow> policy_reason option" where
  "booking_policy_conflict c start end now =
     (let current = whole_second now in
      if end - start > hours (max_booking_duration_hours c)
      then Some (DurationExceedsMaximum (max_booking_duration_hours c))
      else let horizon = current + days (booking_horizon_days c) in
      if end > horizon then Some (EndsBeyondHorizon (booking_horizon_days c) horizon)
      else first_some (\<lambda>(blocked_start, blocked_end, reason).
             if start < blocked_end \<and> end > blocked_start
             then Some (Blackout blocked_start blocked_end reason) else None)
           (booking_blackouts c))"

definition validate_gpu_index :: "config \<Rightarrow> int \<Rightarrow> (booking_error, unit) result" where
  "validate_gpu_index c gpu =
     raise_if (gpu < 0 \<or> gpu \<ge> gpu_count c) (GpuIndexOutOfRange gpu) (Inr ())"

definition normalize_excluded_gpus :: "int list option \<Rightarrow> config \<Rightarrow> (booking_error, int list) result" where
  "normalize_excluded_gpus gpus c =
     (case gpus of
        None \<Rightarrow> Inr []
      | Some gs \<Rightarrow>
          (let normalized = sorted_set gs
           in res_map (\<lambda>_. normalized) (res_fold (\<lambda>gpu _. validate_gpu_index c gpu) normalized ())))"

fun gpu_order_loop :: "config \<Rightarrow> int list \<Rightarrow> int list \<Rightarrow> (booking_error, int list) result" where
  "gpu_order_loop c result [] =
     Inr (result @ filter (\<lambda>g. g \<notin> set result) (enabled_gpus c))"
| "gpu_order_loop c result (gpu # rest) =
     res_bind (validate_gpu_index c gpu) (\<lambda>_.
       if gpu \<in> set (enabled_gpus c) \<and> gpu \<notin> set result
       then gpu_order_loop c (result @ [gpu]) rest
       else gpu_order_loop c result rest)"

definition normalize_gpu_order :: "int list option \<Rightarrow> config \<Rightarrow> (booking_error, int list) result" where
  "normalize_gpu_order gpus c =
     (case gpus of None \<Rightarrow> Inr (enabled_gpus c) | Some gs \<Rightarrow> gpu_order_loop c [] gs)"

definition eligible_gpu_count_message :: "config \<Rightarrow> int list \<Rightarrow> int \<Rightarrow> avail_reason" where
  "eligible_gpu_count_message c excluded cnt =
     NotEnoughEligible cnt
       (int (length (filter (\<lambda>g. g \<notin> set excluded) (enabled_gpus c))))
       (disabled_gpus c) (sorted_set excluded)"

text \<open>The first three distinct messages.\<close>

definition combine_reasons :: "avail_reason list \<Rightarrow> avail_reason list" where
  "combine_reasons reasons = take 3 (rev (remdups (rev reasons)))"

text \<open>\<^verbatim>\<open>round(x, 3)\<close>: to thousandths, ties to even.\<close>

definition round3 :: "rat \<Rightarrow> rat" where
  "round3 x =
     (let y = x * 1000; f = \<lfloor>y\<rfloor>; d = y - of_int f
      in of_int (if d < 1 / 2 then f else if d > 1 / 2 then f + 1 else if even f then f else f + 1) / 1000)"

definition to_seconds :: "timedelta \<Rightarrow> rat" where
  "to_seconds d = of_int d / of_int us_per_second"

definition reservation_pressure_score_indexed ::
  "reservation_index \<Rightarrow> int \<Rightarrow> datetime \<Rightarrow> datetime \<Rightarrow> int \<Rightarrow> rat" where
  "reservation_pressure_score_indexed index gpu start end cap =
     (let duration = max 1 (to_seconds (end - start));
          overlap_total = sum_list (map (\<lambda>item.
            max 0 (to_seconds (min end (sp_end item) - max start (sp_start item)))
              * of_int (reservation_share_units (sp_record item) cap))
            (filter (\<lambda>item. \<not> sp_mode item \<noteq> MODE_SHARED) (overlapping index gpu start end)))
      in round3 (100 * overlap_total / duration / of_int (max 1 cap)))"

text \<open>The availability check with the arguments a search passes through unchanged.\<close>

record demand =
  dm_mode :: string
  dm_expected_memory_mb :: "int option"
  dm_capacities :: "int \<rightharpoonup> int"
  dm_share_units :: int

definition gpu_available :: "reservation_index \<Rightarrow> config \<Rightarrow> demand \<Rightarrow> datetime \<Rightarrow> datetime \<Rightarrow> int \<Rightarrow> avail_reason option" where
  "gpu_available index c d start end gpu =
     availability_detail_indexed index gpu start end (dm_mode d) (max_shared_users c)
       (dm_expected_memory_mb d) (dm_capacities d) (shared_memory_reserve_mb c) (dm_share_units d)"

text \<open>One \<^verbatim>\<open>(priority, score, base_rank, gpu)\<close> entry per available GPU.\<close>

definition ranked_gpus ::
  "reservation_index \<Rightarrow> config \<Rightarrow> demand \<Rightarrow> datetime \<Rightarrow> datetime \<Rightarrow> (int \<rightharpoonup> rat) \<Rightarrow> int list
    \<Rightarrow> (int \<times> rat \<times> int \<times> int) list"
where
  "ranked_gpus index c d start end scores order =
     map (\<lambda>(rank, gpu).
       ((case gpu_priority_map c gpu of None \<Rightarrow> 0 | Some p \<Rightarrow> p),
        (case scores gpu of None \<Rightarrow> 0 | Some q \<Rightarrow> q)
          + reservation_pressure_score_indexed index gpu start end (max_shared_users c),
        int rank, gpu))
     (filter (\<lambda>(rank, gpu). gpu_available index c d start end gpu = None) (enumerate 0 order))"

definition find_available_indexed ::
  "reservation_index \<Rightarrow> config \<Rightarrow> int \<Rightarrow> datetime \<Rightarrow> datetime \<Rightarrow> demand \<Rightarrow> int list option \<Rightarrow> (int \<rightharpoonup> rat)
    \<Rightarrow> int list option \<Rightarrow> datetime \<Rightarrow> (booking_error, int list \<times> avail_reason list) result"
where
  "find_available_indexed index c cnt start end d gpu_order gpu_scores excluded_gpus now =
     (case booking_policy_conflict c start end now of
        Some reason \<Rightarrow> Inr ([], [PolicyReason reason])
      | None \<Rightarrow>
          res_bind (normalize_excluded_gpus excluded_gpus c) (\<lambda>excluded.
          res_bind (normalize_gpu_order gpu_order c) (\<lambda>full_order.
            let order = filter (\<lambda>g. g \<notin> set excluded) full_order in
            if cnt > int (length order)
            then Inr ([], [eligible_gpu_count_message c excluded cnt])
            else let available = sort (ranked_gpus index c d start end gpu_scores order);
                     reasons = List.map_filter (gpu_available index c d start end) order;
                     result = map (\<lambda>(_, _, _, gpu). gpu) (take (nat cnt) available)
                 in if int (length result) = cnt then Inr (result, [])
                    else Inr (result, combine_reasons reasons))))"

definition find_available_gpus_with_reason ::
  "ledger \<Rightarrow> config \<Rightarrow> int \<Rightarrow> datetime \<Rightarrow> datetime \<Rightarrow> demand \<Rightarrow> int list option \<Rightarrow> (int \<rightharpoonup> rat)
    \<Rightarrow> int list option \<Rightarrow> datetime \<Rightarrow> (booking_error, int list \<times> avail_reason list) result"
where
  "find_available_gpus_with_reason l c cnt start end d gpu_order gpu_scores excluded_gpus now =
     res_bind (validate_ledger_policy l c) (\<lambda>_.
       find_available_indexed (index_from_ledger l start) c cnt start end d gpu_order gpu_scores
         excluded_gpus now)"

text \<open>The loop over a preferred list: every GPU must be usable.\<close>

definition preferred_usable ::
  "reservation_index \<Rightarrow> config \<Rightarrow> demand \<Rightarrow> datetime \<Rightarrow> datetime \<Rightarrow> int list \<Rightarrow> int \<Rightarrow> bool" where
  "preferred_usable index c d start end excluded gpu \<longleftrightarrow>
     \<not> (gpu \<in> set (disabled_gpus c) \<or> gpu \<in> set excluded)
     \<and> gpu_available index c d start end gpu = None"

definition gpus_at_start ::
  "reservation_index \<Rightarrow> config \<Rightarrow> int \<Rightarrow> datetime \<Rightarrow> timedelta \<Rightarrow> demand \<Rightarrow> int list option \<Rightarrow> int list option
    \<Rightarrow> (int \<rightharpoonup> rat) \<Rightarrow> int list option \<Rightarrow> search_clock \<Rightarrow> (booking_error, int list) result"
where
  "gpus_at_start index c cnt start duration d preferred_gpus gpu_order gpu_scores excluded_gpus clk =
     (let end = start + duration in
      if booking_policy_conflict c start end (sc_place clk start) \<noteq> None then Inr []
      else res_bind (normalize_excluded_gpus excluded_gpus c) (\<lambda>excluded.
        case preferred_gpus of
          Some preferred \<Rightarrow>
            (if list_all (preferred_usable index c d start end excluded) preferred
             then Inr preferred else Inr [])
        | None \<Rightarrow>
            res_map fst (find_available_indexed index c cnt start end d gpu_order gpu_scores
              (Some excluded) (sc_avail clk start))))"

definition candidate_starts_from_index ::
  "reservation_index \<Rightarrow> datetime \<Rightarrow> datetime \<Rightarrow> int \<Rightarrow> datetime list" where
  "candidate_starts_from_index index earliest_start search_until slot =
     sorted_set (ceil_to_slot earliest_start slot
       # filter (\<lambda>e. earliest_start \<le> e \<and> e \<le> search_until)
           (map (\<lambda>sp. ceil_to_slot (sp_end sp) slot) (ix_spans index)))"

definition normalize_start ::
  "datetime \<Rightarrow> bool \<Rightarrow> datetime \<Rightarrow> int \<Rightarrow> (booking_error, datetime) result" where
  "normalize_start value allow_queue now slot =
     (let start = whole_second value in
      if allow_queue then Inr (normalize_queue_start start now slot)
      else raise_if (\<not> is_slot_aligned start slot) (StartNotAligned slot) (Inr start))"

definition search_candidates ::
  "reservation_index \<Rightarrow> config \<Rightarrow> datetime \<Rightarrow> datetime \<Rightarrow> datetime list" where
  "search_candidates index c search_start search_until =
     sorted_set (candidate_starts_from_index index search_start search_until (slot_minutes c)
       @ map (\<lambda>(_, end_at, _). ceil_to_slot end_at (slot_minutes c))
           (filter (\<lambda>(_, end_at, _). search_start \<le> end_at \<and> end_at \<le> search_until)
             (booking_blackouts c)))"

text \<open>The loop over candidate starts: skip a policy conflict, stop at the first placement.\<close>

fun slot_loop ::
  "config \<Rightarrow> int \<Rightarrow> timedelta \<Rightarrow> datetime \<Rightarrow> (datetime \<Rightarrow> (booking_error, int list) result) \<Rightarrow> datetime list
    \<Rightarrow> (booking_error, (datetime \<times> int list) option) result"
where
  "slot_loop c cnt duration now place [] = Inr None"
| "slot_loop c cnt duration now place (candidate # rest) =
     (if booking_policy_conflict c candidate (candidate + duration) now \<noteq> None
      then slot_loop c cnt duration now place rest
      else res_bind (place candidate) (\<lambda>gpus.
        if int (length gpus) = cnt then Inr (Some (candidate, gpus))
        else slot_loop c cnt duration now place rest))"

definition find_earliest_slot ::
  "ledger \<Rightarrow> config \<Rightarrow> int \<Rightarrow> datetime \<Rightarrow> timedelta \<Rightarrow> demand \<Rightarrow> int list option \<Rightarrow> bool \<Rightarrow> int list option
    \<Rightarrow> (int \<rightharpoonup> rat) \<Rightarrow> int list option \<Rightarrow> search_clock
    \<Rightarrow> (booking_error, (datetime \<times> int list) option) result"
where
  "find_earliest_slot l c cnt earliest_start duration d preferred allow_queue gpu_order gpu_scores
     excluded clk =
     res_bind (validate_ledger_policy l c) (\<lambda>_.
       let now = sc_now clk in
       res_bind (if allow_queue then normalize_start earliest_start True now (slot_minutes c)
                 else Inr earliest_start) (\<lambda>search_start.
         let horizon = now + days (booking_horizon_days c);
             search_until = min (search_start + hours (queue_search_hours c)) horizon;
             index = index_from_ledger l now;
             candidates = (if allow_queue then search_candidates index c search_start search_until
                           else [earliest_start])
         in slot_loop c cnt duration now
              (\<lambda>start. gpus_at_start index c cnt start duration d preferred gpu_order gpu_scores
                 excluded clk)
              candidates))"

definition nearest_candidates ::
  "reservation_index \<Rightarrow> config \<Rightarrow> datetime \<Rightarrow> datetime \<Rightarrow> datetime \<Rightarrow> timedelta \<Rightarrow> datetime list" where
  "nearest_candidates index c lower_bound target search_until duration =
     candidate_starts_from_index index lower_bound search_until (slot_minutes c)
     @ [target]
     @ map (\<lambda>(_, end_at, _). ceil_to_slot end_at (slot_minutes c))
         (filter (\<lambda>(_, end_at, _). lower_bound \<le> end_at \<and> end_at \<le> search_until)
           (booking_blackouts c))
     @ filter (\<lambda>b. lower_bound \<le> b \<and> b \<le> search_until)
         (map (\<lambda>sp. floor_to_slot (sp_start sp - duration) (slot_minutes c)) (ix_spans index))"

definition find_nearest_slot ::
  "ledger \<Rightarrow> config \<Rightarrow> int \<Rightarrow> datetime \<Rightarrow> timedelta \<Rightarrow> demand \<Rightarrow> int list option \<Rightarrow> int list option
    \<Rightarrow> (int \<rightharpoonup> rat) \<Rightarrow> int list option \<Rightarrow> search_clock
    \<Rightarrow> (booking_error, (datetime \<times> int list) option) result"
where
  "find_nearest_slot l c cnt target_start duration d preferred gpu_order gpu_scores excluded clk =
     res_bind (validate_ledger_policy l c) (\<lambda>_.
       let now = sc_now clk;
           lower_bound = floor_to_slot now (slot_minutes c);
           target = max lower_bound (ceil_to_slot target_start (slot_minutes c));
           horizon = now + days (booking_horizon_days c);
           search_until = min (target + hours (queue_search_hours c)) horizon;
           index = index_from_ledger l lower_bound;
           ordered = sort_key (\<lambda>x. (\<bar>x - target\<bar>, x > target, x))
             (remdups (nearest_candidates index c lower_bound target search_until duration))
       in slot_loop c cnt duration now
            (\<lambda>start. gpus_at_start index c cnt start duration d preferred gpu_order gpu_scores
               excluded clk)
            ordered)"


section \<open>Choosing GPUs\<close>

lemma validate_gpu_index_Inr [simp]: "validate_gpu_index c g = Inr u \<longleftrightarrow> 0 \<le> g \<and> g < gpu_count c"
  by (auto simp: validate_gpu_index_def)

lemma normalize_excluded_set:
  "normalize_excluded_gpus gpus c = Inr out \<Longrightarrow> set out = (case gpus of None \<Rightarrow> {} | Some gs \<Rightarrow> set gs)"
  by (auto simp: normalize_excluded_gpus_def res_map_def result_simps Let_def split: option.splits)

lemma validate_fold_Inr:
  "list_all (\<lambda>g. 0 \<le> g \<and> g < gpu_count c) gs \<Longrightarrow> res_fold (\<lambda>gpu _. validate_gpu_index c gpu) gs () = Inr ()"
  by (induction gs) (auto simp: validate_gpu_index_def)

lemma gpu_order_loop_ok:
  assumes "gpu_order_loop c acc gs = Inr out" and "distinct acc" and "set acc \<subseteq> set (enabled_gpus c)"
  shows "distinct out \<and> set out = set (enabled_gpus c)"
  using assms
proof (induction c acc gs rule: gpu_order_loop.induct)
  case (1 c acc)
  then show ?case by auto
next
  case (2 c acc gpu rest)
  then show ?case
    by (cases "gpu \<in> set (enabled_gpus c) \<and> gpu \<notin> set acc") (auto simp: res_bind_eq_Inr)
qed

text \<open>An order completes the request's preference to every enabled GPU, once each.\<close>

lemma normalize_gpu_order_ok:
  "normalize_gpu_order gpus c = Inr out \<Longrightarrow> distinct out \<and> set out = set (enabled_gpus c)"
  using gpu_order_loop_ok [of c "[]"] by (auto simp: normalize_gpu_order_def split: option.splits)

lemma ranked_gpus_gpu:
  "map (\<lambda>(_, _, _, gpu). gpu) (ranked_gpus index c d start end scores order)
     = filter (\<lambda>gpu. gpu_available index c d start end gpu = None) order"
proof -
  have "map snd (filter (\<lambda>(_, gpu). P gpu) (enumerate n order)) = filter P order" for P and n :: nat
    by (induction order arbitrary: n) auto
  then show ?thesis
    by (simp add: ranked_gpus_def comp_def case_prod_unfold)
qed

lemma length_ranked_gpus:
  "length (ranked_gpus index c d start end scores order)
     = length (filter (\<lambda>gpu. gpu_available index c d start end gpu = None) order)"
  unfolding ranked_gpus_gpu [symmetric, where scores = scores] by simp

lemma ranked_selection:
  assumes "gpus = map (\<lambda>(_, _, _, gpu). gpu) (take n (sort (ranked_gpus index c d start end scores order)))"
    and "distinct order"
  shows "distinct gpus
    \<and> set gpus \<subseteq> {g \<in> set order. gpu_available index c d start end g = None}
    \<and> length gpus = min n (length (filter (\<lambda>g. gpu_available index c d start end g = None) order))"
proof -
  let ?gpu = "\<lambda>(_ :: int, _ :: rat, _ :: int, gpu :: int). gpu"
  let ?ranked = "ranked_gpus index c d start end scores order"
  have gpus: "gpus = take n (map ?gpu (sort ?ranked))"
    using assms(1) by (simp add: take_map)
  have mset: "mset (map ?gpu (sort ?ranked)) = mset (filter (\<lambda>g. gpu_available index c d start end g = None) order)"
    unfolding ranked_gpus_gpu [symmetric, where scores = scores] by simp
  then have "distinct (map ?gpu (sort ?ranked))"
    using assms(2) by (metis distinct_filter mset_eq_imp_distinct_iff)
  moreover have "set (map ?gpu (sort ?ranked)) = {g \<in> set order. gpu_available index c d start end g = None}"
    using mset_eq_setD [OF mset] by simp
  ultimately show ?thesis
    by (auto simp: gpus length_ranked_gpus dest: in_set_takeD)
qed

lemma find_available_sound:
  assumes "find_available_indexed index c cnt start end d ord scores excl now = Inr (gpus, reasons)"
  shows "distinct gpus \<and> set gpus \<subseteq> {g \<in> set (enabled_gpus c).
    g \<notin> (case excl of None \<Rightarrow> {} | Some xs \<Rightarrow> set xs) \<and> gpu_available index c d start end g = None}"
proof (cases "booking_policy_conflict c start end now")
  case (Some r)
  with assms show ?thesis by (simp add: find_available_indexed_def)
next
  case None
  from assms None obtain excluded full where
    ex: "normalize_excluded_gpus excl c = Inr excluded" and
    fo: "normalize_gpu_order ord c = Inr full"
    by (auto simp: find_available_indexed_def result_simps)
  let ?order = "filter (\<lambda>g. g \<notin> set excluded) full"
  note full = normalize_gpu_order_ok [OF fo] and excl = normalize_excluded_set [OF ex]
  show ?thesis
  proof (cases "cnt > int (length ?order)")
    case True
    with assms None ex fo show ?thesis by (simp add: find_available_indexed_def)
  next
    case False
    with assms None ex fo
    have "gpus = map (\<lambda>(_, _, _, gpu). gpu) (take (nat cnt) (sort (ranked_gpus index c d start end scores ?order)))"
      by (auto simp: find_available_indexed_def Let_def split: if_splits)
    from ranked_selection [OF this] full excl show ?thesis by auto
  qed
qed

text \<open>Enough available GPUs are enough: the selection then has the requested size.\<close>

lemma find_available_complete:
  assumes "booking_policy_conflict c start end now = None"
    and "normalize_excluded_gpus excl c = Inr excluded" and "normalize_gpu_order ord c = Inr full"
    and "0 \<le> cnt"
    and "cnt \<le> int (length (filter (\<lambda>g. g \<notin> set excluded \<and> gpu_available index c d start end g = None) full))"
  shows "\<exists>gpus. find_available_indexed index c cnt start end d ord scores excl now = Inr (gpus, [])
    \<and> int (length gpus) = cnt"
proof -
  let ?order = "filter (\<lambda>g. g \<notin> set excluded) full"
  let ?gpus = "map (\<lambda>(_, _, _, gpu). gpu) (take (nat cnt) (sort (ranked_gpus index c d start end scores ?order)))"
  have avail: "filter (\<lambda>g. gpu_available index c d start end g = None) ?order
      = filter (\<lambda>g. g \<notin> set excluded \<and> gpu_available index c d start end g = None) full"
    by (simp add: conj_commute)
  have "length (filter (\<lambda>g. gpu_available index c d start end g = None) ?order) \<le> length ?order"
    by (rule length_filter_le)
  then have len: "\<not> cnt > int (length ?order)" using assms(5) unfolding avail by linarith
  have "length ?gpus = min (nat cnt) (length (filter (\<lambda>g. gpu_available index c d start end g = None) ?order))"
    by (simp add: length_ranked_gpus)
  then have "int (length ?gpus) = cnt" using assms(4,5) unfolding avail by linarith
  with len assms(1-3) show ?thesis
    by (simp add: find_available_indexed_def Let_def)
qed


section \<open>Searching start times\<close>

text \<open>A start at which the search would stop.\<close>

definition placeable ::
  "config \<Rightarrow> int \<Rightarrow> timedelta \<Rightarrow> datetime \<Rightarrow> (datetime \<Rightarrow> (booking_error, int list) result) \<Rightarrow> datetime \<Rightarrow> bool" where
  "placeable c cnt duration now place x \<longleftrightarrow>
     booking_policy_conflict c x (x + duration) now = None
     \<and> (\<exists>gpus. place x = Inr gpus \<and> int (length gpus) = cnt)"

lemma slot_loop_Some:
  assumes "slot_loop c cnt duration now place xs = Inr (Some (x, gpus))"
  shows "\<exists>us vs. xs = us @ x # vs \<and> booking_policy_conflict c x (x + duration) now = None
    \<and> place x = Inr gpus \<and> int (length gpus) = cnt
    \<and> (\<forall>u \<in> set us. \<not> placeable c cnt duration now place u)"
  using assms
proof (induction xs)
  case (Cons y ys)
  show ?case
  proof (cases "placeable c cnt duration now place y")
    case True
    with Cons.prems show ?thesis by (intro exI [of _ "[]"] exI [of _ ys]) (auto simp: placeable_def)
  next
    case False
    with Cons.prems have "slot_loop c cnt duration now place ys = Inr (Some (x, gpus))"
      by (auto simp: placeable_def result_simps split: if_splits)
    from Cons.IH [OF this] obtain us vs where
      "ys = us @ x # vs" "booking_policy_conflict c x (x + duration) now = None" "place x = Inr gpus"
      "int (length gpus) = cnt" "\<forall>u \<in> set us. \<not> placeable c cnt duration now place u" by blast
    with False show ?thesis by (intro exI [of _ "y # us"] exI [of _ vs]) auto
  qed
qed simp

lemma slot_loop_None:
  "slot_loop c cnt duration now place xs = Inr None \<Longrightarrow> x \<in> set xs \<Longrightarrow> \<not> placeable c cnt duration now place x"
  by (induction xs) (auto simp: placeable_def result_simps split: if_splits)

lemma slot_loop_total:
  "(\<forall>x \<in> set xs. \<exists>gpus. place x = Inr gpus) \<Longrightarrow> \<exists>r. slot_loop c cnt duration now place xs = Inr r"
proof (induction xs)
  case (Cons x xs)
  then obtain r gpus where "slot_loop c cnt duration now place xs = Inr r" "place x = Inr gpus"
    by auto
  then show ?case by simp
qed simp

text \<open>On a sorted list the loop stops at the least placeable candidate.\<close>

lemma slot_loop_least:
  assumes "slot_loop c cnt duration now place xs = Inr r" and "sorted xs"
    and "x \<in> set xs" and "placeable c cnt duration now place x"
  shows "\<exists>s gpus. r = Some (s, gpus) \<and> s \<le> x"
proof (cases r)
  case None
  with assms slot_loop_None show ?thesis by blast
next
  case (Some p)
  obtain s gpus where p: "p = (s, gpus)" by (cases p)
  from assms(1) Some p slot_loop_Some obtain us vs where
    xs: "xs = us @ s # vs" and us: "\<forall>u \<in> set us. \<not> placeable c cnt duration now place u" by blast
  with assms(3,4) have "x = s \<or> x \<in> set vs" by auto
  with assms(2) xs have "s \<le> x" by (auto simp: sorted_append)
  with Some p show ?thesis by simp
qed

subsection \<open>Moving a placement back to the previous boundary\<close>

lemma whole_second_mono: "a \<le> b \<Longrightarrow> whole_second a \<le> whole_second b"
  unfolding whole_second_def minus_mod_eq_mult_div
  by (rule mult_left_mono) (auto simp: us_per_second_def intro: zdiv_mono1)

lemma live_at_back:
  assumes "\<forall>sp \<in> set items. \<not> (y < sp_end sp \<and> sp_end sp \<le> x)" and "y \<le> t" and "t < x"
  shows "live_at items t = filter (\<lambda>i. sp_start i \<le> t) (live_at items x)"
  unfolding live_at_def filter_filter
  by (rule filter_cong) (use assms in auto)

lemma shared_units_filter_le: "shared_units cap (filter P items) \<le> shared_units cap items"
  unfolding shared_units_def filter_filter
  by (rule sum_list_filter_le) (auto intro: order_trans [OF _ reservation_share_units_pos])

lemma charged_memory_pos: "1 \<le> charged_memory r usable cap"
  by (simp add: charged_memory_def)

lemma shared_memory_filter_le: "shared_memory usable cap (filter P items) \<le> shared_memory usable cap items"
  unfolding shared_memory_def filter_filter
  by (rule sum_list_filter_le) (auto intro: order_trans [OF _ charged_memory_pos])

lemma memory_fits_filter:
  "memory_fits capacities gpu reserve cap expected u items \<Longrightarrow>
   memory_fits capacities gpu reserve cap expected u (filter P items)"
proof -
  have "shared_memory usable cap (filter P items) + q \<le> usable"
    if "shared_memory usable cap items + q \<le> usable" for usable q
    using that shared_memory_filter_le [of usable cap P items] by linarith
  then show "memory_fits capacities gpu reserve cap expected u items \<Longrightarrow>
      memory_fits capacities gpu reserve cap expected u (filter P items)"
    by (auto simp: memory_fits_def Let_def split: option.splits)
qed

text \<open>
  A GPU free for the request at \<open>x\<close> is free at an earlier \<open>y\<close> unless a reservation ends
  between the two.
\<close>

lemma gpu_available_back:
  assumes "index_ok index" and "y \<le> x" and "0 < duration"
    and quiet: "\<forall>sp \<in> set (ix_spans index). \<not> (y < sp_end sp \<and> sp_end sp \<le> x)"
    and avail: "gpu_available index c d x (x + duration) gpu = None"
  shows "gpu_available index c d y (y + duration) gpu = None"
proof -
  let ?items = "on_gpu index gpu"
  have q: "\<forall>sp \<in> set ?items. \<not> (y < sp_end sp \<and> sp_end sp \<le> x)"
    using quiet by (simp add: on_gpu_def)
  have meet: "sp_start sp < x + duration \<and> x < sp_end sp"
    if "sp \<in> set ?items" "sp_start sp < y + duration" "y < sp_end sp" for sp
    using that q assms(2) by force
  consider "dm_mode d = MODE_EXCLUSIVE" | "dm_mode d = MODE_SHARED"
    using avail by (fastforce simp: gpu_available_def availability_detail_indexed_def Let_def)
  then show ?thesis
  proof cases
    case 1
    with avail meet show ?thesis
      by (simp add: gpu_available_def exclusive_placeable_iff [OF assms(1)]) blast
  next
    case 2
    have w: "y < y + duration" "x < x + duration" using assms(3) by simp_all
    note iff = shared_placeable_iff [OF assms(1)]
    let ?ok = "\<lambda>t. shared_units (max_shared_users c) (live_at ?items t) + dm_share_units d \<le> max_shared_users c
      \<and> memory_fits (dm_capacities d) gpu (shared_memory_reserve_mb c) (max_shared_users c)
          (dm_expected_memory_mb d) (dm_share_units d) (live_at ?items t)"
    from avail 2 have at_x: "?ok t" if "x \<le> t" "t < x + duration" for t
      using that by (simp add: gpu_available_def iff [OF w(2)])
    have "?ok t" if t: "y \<le> t" "t < y + duration" for t
    proof (cases "x \<le> t")
      case True
      with t assms(2) show ?thesis by (intro at_x) auto
    next
      case False
      then have live: "live_at ?items t = filter (\<lambda>i. sp_start i \<le> t) (live_at ?items x)"
        by (intro live_at_back [OF q]) (use t in auto)
      from at_x [of x] w have "?ok x" by simp
      then show ?thesis
        unfolding live
        using shared_units_filter_le [of "max_shared_users c" "\<lambda>i. sp_start i \<le> t" "live_at ?items x"]
        by (auto intro: memory_fits_filter)
    qed
    with avail 2 meet show ?thesis
      by (simp add: gpu_available_def iff [OF w(2)] iff [OF w(1)])
  qed
qed

lemma policy_conflict_None:
  "booking_policy_conflict c s e now = None \<longleftrightarrow>
     e - s \<le> hours (max_booking_duration_hours c)
     \<and> e \<le> whole_second now + days (booking_horizon_days c)
     \<and> (\<forall>(bs, be, reason) \<in> set (booking_blackouts c). \<not> (s < be \<and> e > bs))"
  by (auto simp: booking_policy_conflict_def Let_def first_some_None not_less split: if_splits)

lemma policy_conflict_back:
  assumes "y \<le> x" and "now \<le> now'"
    and quiet: "\<forall>(bs, be, reason) \<in> set (booking_blackouts c). \<not> (y < be \<and> be \<le> x)"
    and "booking_policy_conflict c x (x + duration) now = None"
  shows "booking_policy_conflict c y (y + duration) now' = None"
  using assms whole_second_mono [OF assms(2)]
  by (fastforce simp: policy_conflict_None)


text \<open>The clock does not run backwards during a search.\<close>

definition clock_forward :: "search_clock \<Rightarrow> bool" where
  "clock_forward clk \<longleftrightarrow> (\<forall>x. sc_now clk \<le> sc_place clk x \<and> sc_now clk \<le> sc_avail clk x)"

lemma gpus_at_start_back:
  assumes ok: "index_ok index" and "y \<le> x" and "0 < duration" and "1 \<le> cnt" and clk: "clock_forward clk"
    and quiet: "\<forall>sp \<in> set (ix_spans index). \<not> (y < sp_end sp \<and> sp_end sp \<le> x)"
    and quietb: "\<forall>(bs, be, reason) \<in> set (booking_blackouts c). \<not> (y < be \<and> be \<le> x)"
    and px: "booking_policy_conflict c x (x + duration) (sc_now clk) = None"
    and at_x: "gpus_at_start index c cnt x duration d pref ord scores excl clk = Inr gpus"
    and len: "int (length gpus) = cnt"
  shows "\<exists>gpus'. gpus_at_start index c cnt y duration d pref ord scores excl clk = Inr gpus'
    \<and> int (length gpus') = cnt"
proof -
  have policy: "booking_policy_conflict c y (y + duration) t = None" if "sc_now clk \<le> t" for t
    by (rule policy_conflict_back [OF assms(2) that quietb px])
  have pol_place: "booking_policy_conflict c y (y + duration) (sc_place clk y) = None"
    and pol_avail: "booking_policy_conflict c y (y + duration) (sc_avail clk y) = None"
    using clk by (auto simp: clock_forward_def intro: policy)
  have earlier: "gpu_available index c d y (y + duration) g = None"
    if "gpu_available index c d x (x + duration) g = None" for g
    by (rule gpu_available_back [OF ok assms(2,3) quiet that])
  from at_x len assms(4) have "gpus \<noteq> []" by auto
  with at_x obtain excluded where ex: "normalize_excluded_gpus excl c = Inr excluded"
    by (auto simp: gpus_at_start_def Let_def result_simps split: if_splits)
  show ?thesis
  proof (cases pref)
    case (Some preferred)
    with at_x ex \<open>gpus \<noteq> []\<close> have "gpus = preferred"
        "list_all (preferred_usable index c d x (x + duration) excluded) preferred"
      by (auto simp: gpus_at_start_def Let_def split: if_splits)
    moreover from this(2) have "list_all (preferred_usable index c d y (y + duration) excluded) preferred"
      using earlier by (auto simp: list_all_iff preferred_usable_def)
    ultimately show ?thesis
      using Some ex pol_place len by (simp add: gpus_at_start_def Let_def)
  next
    case None
    with at_x ex \<open>gpus \<noteq> []\<close> obtain reasons where
      fa: "find_available_indexed index c cnt x (x + duration) d ord scores (Some excluded) (sc_avail clk x)
        = Inr (gpus, reasons)"
      by (auto simp: gpus_at_start_def Let_def res_map_def result_simps split: if_splits)
    with \<open>gpus \<noteq> []\<close> obtain ex' full where
      ex': "normalize_excluded_gpus (Some excluded) c = Inr ex'" and fo: "normalize_gpu_order ord c = Inr full"
      by (auto simp: find_available_indexed_def result_simps split: option.splits)
    note sound = find_available_sound [OF fa] and full = normalize_gpu_order_ok [OF fo]
      and set_ex' = normalize_excluded_set [OF ex']
    let ?free = "filter (\<lambda>g. g \<notin> set ex' \<and> gpu_available index c d y (y + duration) g = None) full"
    have "set gpus \<subseteq> set ?free" using sound full set_ex' earlier by auto
    moreover have "distinct gpus" "distinct ?free" using sound full by auto
    ultimately have "length gpus \<le> length ?free"
      by (metis List.finite_set card_mono distinct_card)
    with find_available_complete [OF pol_avail ex' fo, of cnt index d scores] len assms(4)
    show ?thesis using None ex pol_place by (fastforce simp: gpus_at_start_def Let_def)
  qed
qed

lemma search_candidates_complete:
  assumes slot: "0 < slot_minutes c" and x: "is_slot_aligned x (slot_minutes c)"
    and bounds: "search_start \<le> x" "x \<le> search_until"
  obtains y where "y \<in> set (search_candidates index c search_start search_until)" and "y \<le> x"
    and "\<forall>sp \<in> set (ix_spans index). \<not> (y < sp_end sp \<and> sp_end sp \<le> x)"
    and "\<forall>(bs, be, reason) \<in> set (booking_blackouts c). \<not> (y < be \<and> be \<le> x)"
proof -
  let ?C = "set (search_candidates index c search_start search_until)"
  let ?below = "{y \<in> ?C. y \<le> x}"
  have "ceil_to_slot search_start (slot_minutes c) \<in> ?C"
    by (simp add: search_candidates_def candidate_starts_from_index_def)
  moreover have "ceil_to_slot search_start (slot_minutes c) \<le> x"
    by (rule ceil_to_slot_least [OF slot x bounds(1)])
  ultimately have ne: "?below \<noteq> {}" by blast
  define y where "y = Max ?below"
  from ne have y: "y \<in> ?C" "y \<le> x" using Max_in [of ?below] by (auto simp: y_def)
  have top: "z \<le> y" if "z \<in> ?C" "z \<le> x" for z using that by (auto simp: y_def)
  have y_ge: "search_start \<le> y"
    using y(1) ceil_to_slot_ge [OF slot] order_trans
    by (fastforce simp: search_candidates_def candidate_starts_from_index_def)
  have ceil_x: "ceil_to_slot e (slot_minutes c) \<le> x" if "e \<le> x" for e
    by (rule ceil_to_slot_least [OF slot x that])
  have spans: "\<not> (y < sp_end sp \<and> sp_end sp \<le> x)" if sp: "sp \<in> set (ix_spans index)" for sp
  proof
    assume e: "y < sp_end sp \<and> sp_end sp \<le> x"
    have "sp_end sp \<le> ceil_to_slot (sp_end sp) (slot_minutes c)" by (rule ceil_to_slot_ge [OF slot])
    with e sp bounds y_ge ceil_x [of "sp_end sp"]
    have "ceil_to_slot (sp_end sp) (slot_minutes c) \<in> ?C"
      by (auto simp: search_candidates_def candidate_starts_from_index_def)
    with top ceil_x e \<open>sp_end sp \<le> _\<close> show False by fastforce
  qed
  have blackouts: "\<not> (y < be \<and> be \<le> x)" if b: "(bs, be, reason) \<in> set (booking_blackouts c)" for bs be reason
  proof
    assume e: "y < be \<and> be \<le> x"
    have "be \<le> ceil_to_slot be (slot_minutes c)" by (rule ceil_to_slot_ge [OF slot])
    with e b bounds y_ge ceil_x [of be] have "ceil_to_slot be (slot_minutes c) \<in> ?C"
      by (force simp: search_candidates_def)
    with top ceil_x e \<open>be \<le> _\<close> show False by fastforce
  qed
  from that [OF y] spans blackouts show thesis by blast
qed


section \<open>The earliest slot\<close>

text \<open>The window a queued search covers.\<close>

definition search_until_of :: "config \<Rightarrow> datetime \<Rightarrow> datetime \<Rightarrow> datetime" where
  "search_until_of c search_start now =
     min (search_start + hours (queue_search_hours c)) (now + days (booking_horizon_days c))"

lemma find_earliest_slot_exact:
  "find_earliest_slot l c cnt start duration d pref False ord scores excl clk = Inr r \<Longrightarrow>
   slot_loop c cnt duration (sc_now clk)
     (\<lambda>s. gpus_at_start (index_from_ledger l (sc_now clk)) c cnt s duration d pref ord scores excl clk)
     [start] = Inr r"
  by (simp add: find_earliest_slot_def result_simps Let_def del: slot_loop.simps)

lemma find_earliest_slot_queued:
  "find_earliest_slot l c cnt start duration d pref True ord scores excl clk = Inr r \<Longrightarrow>
   slot_loop c cnt duration (sc_now clk)
     (\<lambda>s. gpus_at_start (index_from_ledger l (sc_now clk)) c cnt s duration d pref ord scores excl clk)
     (let search_start = normalize_queue_start (whole_second start) (sc_now clk) (slot_minutes c)
      in search_candidates (index_from_ledger l (sc_now clk)) c search_start
           (search_until_of c search_start (sc_now clk))) = Inr r"
  by (simp add: find_earliest_slot_def normalize_start_def search_until_of_def result_simps Let_def)

lemma search_candidates_aligned:
  assumes "0 < slot_minutes c" and "y \<in> set (search_candidates index c s u)"
  shows "is_slot_aligned y (slot_minutes c)"
  using assms by (auto simp: search_candidates_def candidate_starts_from_index_def ceil_to_slot_aligned)

lemma search_candidates_ge:
  assumes "0 < slot_minutes c" and "y \<in> set (search_candidates index c s u)"
  shows "s \<le> y"
  using assms(2) ceil_to_slot_ge [OF assms(1)] order_trans
  by (fastforce simp: search_candidates_def candidate_starts_from_index_def)

lemma gpus_at_start_sound:
  assumes "gpus_at_start index c cnt start duration d pref ord scores excl clk = Inr gpus" and "gpus \<noteq> []"
  shows "g \<in> set gpus \<Longrightarrow> gpu_available index c d start (start + duration) g = None
      \<and> g \<notin> set (disabled_gpus c) \<and> g \<notin> (case excl of None \<Rightarrow> {} | Some xs \<Rightarrow> set xs)"
    and "case pref of Some p \<Rightarrow> gpus = p | None \<Rightarrow> distinct gpus \<and> set gpus \<subseteq> set (enabled_gpus c)"
proof -
  from assms obtain excluded where ex: "normalize_excluded_gpus excl c = Inr excluded"
    by (auto simp: gpus_at_start_def Let_def result_simps split: if_splits)
  note set_ex = normalize_excluded_set [OF ex]
  have "(\<forall>g \<in> set gpus. gpu_available index c d start (start + duration) g = None
      \<and> g \<notin> set (disabled_gpus c) \<and> g \<notin> set excluded)
    \<and> (case pref of Some p \<Rightarrow> gpus = p | None \<Rightarrow> distinct gpus \<and> set gpus \<subseteq> set (enabled_gpus c))"
  proof (cases pref)
    case (Some preferred)
    with assms ex show ?thesis
      by (auto simp: gpus_at_start_def Let_def list_all_iff preferred_usable_def split: if_splits)
  next
    case None
    with assms ex obtain reasons where
      "find_available_indexed index c cnt start (start + duration) d ord scores (Some excluded)
         (sc_avail clk start) = Inr (gpus, reasons)"
      by (auto simp: gpus_at_start_def Let_def res_map_def result_simps split: if_splits)
    from find_available_sound [OF this] None show ?thesis
      by (auto dest: enabled_gpus_range)
  qed
  with set_ex show "g \<in> set gpus \<Longrightarrow> gpu_available index c d start (start + duration) g = None
      \<and> g \<notin> set (disabled_gpus c) \<and> g \<notin> (case excl of None \<Rightarrow> {} | Some xs \<Rightarrow> set xs)"
    and "case pref of Some p \<Rightarrow> gpus = p | None \<Rightarrow> distinct gpus \<and> set gpus \<subseteq> set (enabled_gpus c)"
    by auto
qed

lemma earliest_slot_placed:
  assumes "find_earliest_slot l c cnt start duration d pref queue ord scores excl clk = Inr (Some (s, gpus))"
  shows "gpus_at_start (index_from_ledger l (sc_now clk)) c cnt s duration d pref ord scores excl clk = Inr gpus
    \<and> int (length gpus) = cnt
    \<and> booking_policy_conflict c s (s + duration) (sc_now clk) = None
    \<and> (\<not> queue \<longrightarrow> s = start)
    \<and> (queue \<longrightarrow> s \<in> set (let search_start = normalize_queue_start (whole_second start) (sc_now clk) (slot_minutes c)
        in search_candidates (index_from_ledger l (sc_now clk)) c search_start
             (search_until_of c search_start (sc_now clk))))"
proof (cases queue)
  case True
  with assms have
    "find_earliest_slot l c cnt start duration d pref True ord scores excl clk = Inr (Some (s, gpus))"
    by simp
  from slot_loop_Some [OF find_earliest_slot_queued [OF this]] True show ?thesis by auto
next
  case False
  with assms have
    "find_earliest_slot l c cnt start duration d pref False ord scores excl clk = Inr (Some (s, gpus))"
    by simp
  from slot_loop_Some [OF find_earliest_slot_exact [OF this]] False
  show ?thesis by (auto simp: Cons_eq_append_conv)
qed

text \<open>
  C11: The queued search finds the earliest slot: whenever the request could be placed at some
  slot boundary of the search window, the search returns a slot, at a boundary no later than
  that one. The candidate starts (window start, reservation ends, blackout ends) lose nothing.
\<close>

theorem find_earliest_slot_least:
  assumes "list_all span_ok (lg_reservations l)" and "config_ok c" and "0 < duration" and "1 \<le> cnt"
    and "clock_forward clk"
    and found: "find_earliest_slot l c cnt start duration d pref True ord scores excl clk = Inr r"
    and x: "is_slot_aligned x (slot_minutes c)"
      "normalize_queue_start (whole_second start) (sc_now clk) (slot_minutes c) \<le> x"
      "x \<le> search_until_of c (normalize_queue_start (whole_second start) (sc_now clk) (slot_minutes c)) (sc_now clk)"
    and at_x: "booking_policy_conflict c x (x + duration) (sc_now clk) = None"
      "gpus_at_start (index_from_ledger l (sc_now clk)) c cnt x duration d pref ord scores excl clk = Inr gpus"
      "int (length gpus) = cnt"
  shows "\<exists>s gpus'. r = Some (s, gpus') \<and> s \<le> x \<and> is_slot_aligned s (slot_minutes c)"
proof -
  let ?index = "index_from_ledger l (sc_now clk)"
  let ?start = "normalize_queue_start (whole_second start) (sc_now clk) (slot_minutes c)"
  let ?cands = "search_candidates ?index c ?start (search_until_of c ?start (sc_now clk))"
  let ?place = "\<lambda>s. gpus_at_start ?index c cnt s duration d pref ord scores excl clk"
  note slot = config_ok_slot_pos [OF assms(2)]
  obtain y where y: "y \<in> set ?cands" "y \<le> x"
      "\<forall>sp \<in> set (ix_spans ?index). \<not> (y < sp_end sp \<and> sp_end sp \<le> x)"
      "\<forall>(bs, be, reason) \<in> set (booking_blackouts c). \<not> (y < be \<and> be \<le> x)"
    by (rule search_candidates_complete [OF slot x])
  have "placeable c cnt duration (sc_now clk) ?place y"
    using gpus_at_start_back [OF span_ok_index [OF assms(1)] y(2) assms(3-5) y(3,4) at_x]
      policy_conflict_back [OF y(2) order_refl y(4) at_x(1)]
    by (simp add: placeable_def)
  moreover have loop: "slot_loop c cnt duration (sc_now clk) ?place ?cands = Inr r"
    using find_earliest_slot_queued [OF found] by (simp add: Let_def)
  moreover have "sorted ?cands" by (simp add: search_candidates_def)
  ultimately obtain s gpus' where s: "r = Some (s, gpus')" "s \<le> y"
    using slot_loop_least y(1) by blast
  with loop slot_loop_Some have "s \<in> set ?cands" by fastforce
  then have "is_slot_aligned s (slot_minutes c)" by (rule search_candidates_aligned [OF slot])
  with s y(2) show ?thesis by auto
qed

theorem find_earliest_slot_least_witness:
  "\<exists>s gpus. find_earliest_slot (sample_ledger [sample_reservation ''a'' MODE_EXCLUSIVE [0, 1] 0 (hours 2)]) sample_config 1 (hours 1)
      (hours 1) \<lparr>dm_mode = MODE_SHARED, dm_expected_memory_mb = None, dm_capacities = Map.empty, dm_share_units = 1\<rparr>
      None True (Some [0, 1]) Map.empty (Some []) \<lparr>sc_now = hours 1, sc_place = (\<lambda>_. hours 1), sc_avail = (\<lambda>_. hours 1)\<rparr>
    = Inr (Some (s, gpus)) \<and> s \<le> hours 4"
proof -
  let ?l = "sample_ledger [sample_reservation ''a'' MODE_EXCLUSIVE [0, 1] 0 (hours 2)]"
  let ?d = "\<lparr>dm_mode = MODE_SHARED, dm_expected_memory_mb = None, dm_capacities = Map.empty, dm_share_units = 1\<rparr>"
  let ?clk = "\<lparr>sc_now = hours 1, sc_place = (\<lambda>_. hours 1), sc_avail = (\<lambda>_. hours 1)\<rparr>"
  let ?from = "normalize_queue_start (whole_second (hours 1)) (sc_now ?clk) (slot_minutes sample_config)"
  have found: "find_earliest_slot ?l sample_config 1 (hours 1) (hours 1) ?d None True (Some [0, 1]) Map.empty (Some []) ?clk
      = Inr (Some (hours 2, [0]))" by code_simp
  have clk: "clock_forward ?clk" by (simp add: clock_forward_def)
  have span: "list_all span_ok (lg_reservations ?l)" by (simp add: span_ok_def sample_reservation_def hours_def seconds_def us_per_second_def)
  have "0 < hours 1" "(1::int) \<le> 1" "is_slot_aligned (hours 4) (slot_minutes sample_config)" "?from \<le> hours 4"
    "hours 4 \<le> search_until_of sample_config ?from (sc_now ?clk)"
    "booking_policy_conflict sample_config (hours 4) (hours 4 + hours 1) (sc_now ?clk) = None"
    "gpus_at_start (index_from_ledger ?l (sc_now ?clk)) sample_config 1 (hours 4) (hours 1) ?d None (Some [0, 1]) Map.empty (Some []) ?clk
       = Inr [0]" "int (length [0::int]) = 1"
    by code_simp+
  from find_earliest_slot_least [OF span sample_config_ok this(1,2) clk found this(3-8)] found
  show ?thesis by blast
qed

end
