(* ===== verification/Requests.thy ===== *)
theory Requests
  imports Placement
begin

text \<open>
  \<^verbatim>\<open>bk/scheduler.py\<close>, requests: the normalisation of every field of a booking or edit request
  and the signatures under which a write is remembered. A signature is the SHA-256 digest of a
  canonical JSON text; the digest is a parameter \<open>sha256\<close> of the definitions that need it.
\<close>

section \<open>GPU lists and scopes\<close>

definition normalize_preferred_gpus :: "int list option \<Rightarrow> int list option" where
  "normalize_preferred_gpus gpus = map_option sorted_set gpus"

fun check_preferred :: "config \<Rightarrow> int list \<Rightarrow> int list \<Rightarrow> (booking_error, unit) result" where
  "check_preferred c excluded [] = Inr ()"
| "check_preferred c excluded (gpu # rest) =
     res_bind (validate_gpu_index c gpu) (\<lambda>_.
       raise_if (gpu \<in> set (disabled_gpus c)) (GpuDisabled gpu)
         (raise_if (gpu \<in> set excluded) (GpuSelectedAndExcluded gpu)
           (check_preferred c excluded rest)))"

definition validate_gpu_scope ::
  "config \<Rightarrow> int \<Rightarrow> int list option \<Rightarrow> int list \<Rightarrow> (booking_error, unit) result" where
  "validate_gpu_scope c cnt preferred excluded =
     raise_if (cnt < 1) GpuCountTooSmall
       (case preferred of
          Some gpus \<Rightarrow>
            raise_if (int (length gpus) \<noteq> cnt) GpuCountMismatch (check_preferred c excluded gpus)
        | None \<Rightarrow>
            (let eligible = filter (\<lambda>g. g \<notin> set excluded) (enabled_gpus c)
             in raise_if (cnt > int (length eligible))
                  (EligibleGpus (eligible_gpu_count_message c excluded cnt)) (Inr ())))"

definition normalize_gpu_scores ::
  "(int \<times> pyfloat) list option \<Rightarrow> config \<Rightarrow> (booking_error, int \<rightharpoonup> rat) result" where
  "normalize_gpu_scores scores c =
     (case scores of
        None \<Rightarrow> Inr Map.empty
      | Some items \<Rightarrow>
          res_fold (\<lambda>(gpu, score) out.
            res_bind (validate_gpu_index c gpu) (\<lambda>_.
              case score of NotFinite \<Rightarrow> Inl (ScoreNotFinite gpu) | Finite q \<Rightarrow> Inr (out(gpu \<mapsto> q))))
            items Map.empty)"

definition normalize_memory_capacities ::
  "(int \<times> int) list option \<Rightarrow> config \<Rightarrow> (booking_error, int \<rightharpoonup> int) result" where
  "normalize_memory_capacities capacities c =
     (case capacities of
        None \<Rightarrow> Inr Map.empty
      | Some items \<Rightarrow>
          res_fold (\<lambda>(gpu, capacity) out.
            res_bind (validate_gpu_index c gpu) (\<lambda>_.
              if capacity \<le> 0 then Inr out else Inr (out(gpu \<mapsto> capacity))))
            items Map.empty)"

text \<open>\<^verbatim>\<open>(capacities or {}).get\<close> on the raw argument.\<close>

definition raw_capacities :: "(int \<times> int) list option \<Rightarrow> int \<rightharpoonup> int" where
  "raw_capacities capacities = (case capacities of None \<Rightarrow> Map.empty | Some items \<Rightarrow> map_of (rev items))"


section \<open>Amounts\<close>

definition normalize_expected_memory :: "int option \<Rightarrow> (booking_error, int option) result" where
  "normalize_expected_memory v =
     (case v of None \<Rightarrow> Inr None | Some n \<Rightarrow> raise_if (n \<le> 0) MemoryNotPositive (Inr (Some n)))"

definition request_share_units :: "string \<Rightarrow> int option \<Rightarrow> int \<Rightarrow> (booking_error, int) result" where
  "request_share_units mode v capacity_units =
     (if mode = MODE_EXCLUSIVE
      then raise_if (v \<noteq> None) ShareSlotsExclusive (Inr capacity_units)
      else case normalize_share_units (map_option JInt v) capacity_units of
             Inl _ \<Rightarrow> Inl (ShareSlotsInvalid capacity_units)
           | Inr units \<Rightarrow> Inr units)"

definition validate_duration_granularity :: "int \<Rightarrow> int \<Rightarrow> (booking_error, unit) result" where
  "validate_duration_granularity duration_seconds slot =
     raise_if (duration_seconds mod (slot * 60) \<noteq> 0) (DurationNotMultiple slot) (Inr ())"


section \<open>Identifiers and job metadata\<close>

definition is_hex_lower :: "char \<Rightarrow> bool" where
  "is_hex_lower ch \<longleftrightarrow> is_digit ch \<or> (CHR ''a'' \<le> ch \<and> ch \<le> CHR ''f'')"

text \<open>\<^verbatim>\<open>re.fullmatch(r"[0-9a-f]{64}", s)\<close>\<close>

definition is_digest :: "string \<Rightarrow> bool" where
  "is_digest s \<longleftrightarrow> length s = 64 \<and> list_all is_hex_lower s"

text \<open>\<^verbatim>\<open>[A-Za-z0-9._:-]\<close>\<close>

definition is_operation_char :: "char \<Rightarrow> bool" where
  "is_operation_char ch \<longleftrightarrow> is_digit ch \<or> (CHR ''a'' \<le> ch \<and> ch \<le> CHR ''z'')
     \<or> (CHR ''A'' \<le> ch \<and> ch \<le> CHR ''Z'') \<or> ch \<in> set ''._:-''"

definition normalize_operation_id :: "string option \<Rightarrow> (booking_error, string option) result" where
  "normalize_operation_id v =
     (case v of
        None \<Rightarrow> Inr None
      | Some raw \<Rightarrow>
          (let normalized = py_strip raw in
           raise_if (normalized = [] \<or> length normalized > 128) OperationIdLength
             (raise_if (\<not> list_all is_operation_char normalized) OperationIdCharacters
               (Inr (Some normalized)))))"

text \<open>\<^verbatim>\<open>s.replace(p, "")\<close>\<close>

fun remove_text :: "string \<Rightarrow> string \<Rightarrow> string" where
  "remove_text p [] = []"
| "remove_text p (ch # cs) =
     (if p \<noteq> [] \<and> take (length p) (ch # cs) = p then remove_text p (drop (length p - 1) cs)
      else ch # remove_text p cs)"

definition hex_value :: "char \<Rightarrow> int option" where
  "hex_value ch =
     (if is_digit ch then Some (digit_value ch)
      else if CHR ''a'' \<le> ch \<and> ch \<le> CHR ''f'' then Some (int (of_char ch) - 87)
      else if CHR ''A'' \<le> ch \<and> ch \<le> CHR ''F'' then Some (int (of_char ch) - 55)
      else None)"

fun hex_digits :: "bool \<Rightarrow> int \<Rightarrow> string \<Rightarrow> int option" where
  "hex_digits prev acc [] = (if prev then Some acc else None)"
| "hex_digits prev acc (ch # cs) =
     (if ch = CHR ''_'' then (if prev then hex_digits False acc cs else None)
      else case hex_value ch of None \<Rightarrow> None | Some v \<Rightarrow> hex_digits True (acc * 16 + v) cs)"

text \<open>\<^verbatim>\<open>int(s, 16)\<close>: blanks, a sign and a \<^verbatim>\<open>0x\<close> prefix are accepted.\<close>

definition hex_body :: "string \<Rightarrow> int option" where
  "hex_body s =
     (case s of
        z # x # rest \<Rightarrow>
          (if z = CHR ''0'' \<and> (x = CHR ''x'' \<or> x = CHR ''X'')
           then hex_digits False 0 (case rest of [] \<Rightarrow> [] | u # us \<Rightarrow> if u = CHR ''_'' then us else rest)
           else hex_digits False 0 s)
      | _ \<Rightarrow> hex_digits False 0 s)"

definition py_int16 :: "string \<Rightarrow> int option" where
  "py_int16 s = (case py_strip s of
       [] \<Rightarrow> None
     | ch # cs \<Rightarrow>
         if ch = CHR ''-'' then map_option uminus (hex_body cs)
         else if ch = CHR ''+'' then hex_body cs
         else hex_body (ch # cs))"

fun hex_chars :: "nat \<Rightarrow> nat \<Rightarrow> string" where
  "hex_chars 0 n = []"
| "hex_chars (Suc w) n =
     hex_chars w (n div 16) @ [(let d = n mod 16 in if d < 10 then char_of (48 + d) else char_of (87 + d))]"

definition dashed :: "string \<Rightarrow> string" where
  "dashed h = take 8 h @ ''-'' @ take 4 (drop 8 h) @ ''-'' @ take 4 (drop 12 h) @ ''-''
     @ take 4 (drop 16 h) @ ''-'' @ drop 20 h"

definition strip_braces :: "string \<Rightarrow> string" where
  "strip_braces s = (let p = \<lambda>ch. ch \<in> set ''{}'' in rev (dropWhile p (rev (dropWhile p s))))"

text \<open>\<^verbatim>\<open>str(uuid.UUID(s))\<close>, or \<^verbatim>\<open>ValueError\<close>\<close>

definition normalize_uuid :: "string \<Rightarrow> string option" where
  "normalize_uuid s =
     (let h = remove_text ''-'' (strip_braces (remove_text ''uuid:'' (remove_text ''urn:'' s))) in
      if length h \<noteq> 32 then None
      else case py_int16 h of
        None \<Rightarrow> None
      | Some n \<Rightarrow> (if 0 \<le> n \<and> n < 2 ^ 128 then Some (dashed (hex_chars 32 (nat n))) else None))"

record job_meta =
  jm_spec_id :: "string option"
  jm_digest :: string
  jm_summary :: string

definition normalize_job_intent ::
  "string option \<Rightarrow> string option \<Rightarrow> (booking_error, job_meta option) result" where
  "normalize_job_intent digest summary =
     (case (digest, summary) of
        (None, None) \<Rightarrow> Inr None
      | (Some d, Some s) \<Rightarrow>
          (let normalized_digest = py_lower d; normalized_summary = py_strip s in
           raise_if (\<not> is_digest normalized_digest) InvalidJobDigest
             (raise_if (normalized_summary = [] \<or> length normalized_summary > 200) InvalidJobSummary
               (raise_if (has_control normalized_summary) JobSummaryControl
                 (Inr (Some \<lparr>jm_spec_id = None, jm_digest = normalized_digest,
                             jm_summary = normalized_summary\<rparr>)))))
      | _ \<Rightarrow> Inl JobIntentIncomplete)"

definition normalize_job_metadata ::
  "string option \<Rightarrow> string option \<Rightarrow> string option \<Rightarrow> (booking_error, job_meta option) result" where
  "normalize_job_metadata spec_id digest summary =
     (if spec_id = None \<and> digest = None \<and> summary = None then Inr None
      else raise_if (digest = None \<or> summary = None) JobFieldsIncomplete
        (case spec_id of
           None \<Rightarrow> Inl JobFieldsIncomplete
         | Some raw \<Rightarrow>
             (case normalize_uuid raw of
                None \<Rightarrow> Inl InvalidJobSpecId
              | Some u \<Rightarrow>
                  res_map (map_option (\<lambda>m. m\<lparr>jm_spec_id := Some u\<rparr>))
                    (normalize_job_intent digest summary))))"

definition normalize_job_digest_aliases :: "string list \<Rightarrow> (booking_error, string list) result" where
  "normalize_job_digest_aliases values =
     raise_if (length values > 4) TooManyDigestAliases
       (res_fold (\<lambda>v normalized.
          let digest = py_lower v in
          raise_if (\<not> is_digest digest) InvalidDigestAlias
            (Inr (if digest \<in> set normalized then normalized else normalized @ [digest])))
        values [])"

definition admin_cancellation_reason :: "string \<Rightarrow> (booking_error, string) result" where
  "admin_cancellation_reason v =
     (let reason = py_strip v in
      raise_if (reason = []) AdminReasonMissing
        (raise_if (length reason > 512) AdminReasonTooLong
          (raise_if (has_control reason) AdminReasonControl (Inr reason))))"


section \<open>Signatures\<close>

text \<open>The values a signature payload holds.\<close>

datatype sig_value = SNull | SBool bool | SInt int | SStr string | SInts "int list"

definition show_int :: "int \<Rightarrow> string" where
  "show_int n = (if n < 0 then ''-'' @ show_nat (nat (- n)) else show_nat (nat n))"

definition hex4 :: "char \<Rightarrow> string" where
  "hex4 ch = hex_chars 4 (of_char ch)"

text \<open>String escapes of \<^verbatim>\<open>json.dumps(.., ensure_ascii=True)\<close>.\<close>

definition escape_char :: "char \<Rightarrow> string" where
  "escape_char ch =
     (if ch = CHR 0x22 then [CHR 0x5C, CHR 0x22] else if ch = CHR 0x5C then [CHR 0x5C, CHR 0x5C]
      else if ch = CHR 0x0A then [CHR 0x5C, CHR ''n''] else if ch = CHR 0x0D then [CHR 0x5C, CHR ''r'']
      else if ch = CHR 0x09 then [CHR 0x5C, CHR ''t''] else if ch = CHR 0x0C then [CHR 0x5C, CHR ''f'']
      else if ch = CHR 0x08 then [CHR 0x5C, CHR ''b'']
      else if CHR '' '' \<le> ch \<and> ch \<le> CHR ''~'' then [ch]
      else [CHR 0x5C, CHR ''u''] @ hex4 ch)"

definition dump_string :: "string \<Rightarrow> string" where
  "dump_string s = [CHR 0x22] @ concat (map escape_char s) @ [CHR 0x22]"

fun join_with :: "string \<Rightarrow> string list \<Rightarrow> string" where
  "join_with sep [] = []"
| "join_with sep [x] = x"
| "join_with sep (x # y # xs) = x @ sep @ join_with sep (y # xs)"

fun dump_value :: "sig_value \<Rightarrow> string" where
  "dump_value SNull = ''null''"
| "dump_value (SBool b) = (if b then ''true'' else ''false'')"
| "dump_value (SInt n) = show_int n"
| "dump_value (SStr s) = dump_string s"
| "dump_value (SInts ns) = ''['' @ join_with '','' (map show_int ns) @ '']''"

text \<open>\<^verbatim>\<open>json.dumps(.., sort_keys=True, separators=(",", ":"))\<close>\<close>

definition dump_object :: "(string \<times> sig_value) list \<Rightarrow> string" where
  "dump_object items =
     ''{'' @ join_with '','' (map (\<lambda>(k, v). dump_string k @ '':'' @ dump_value v) (sort_key fst items))
       @ ''}''"

definition operation_signature ::
  "(string \<Rightarrow> string) \<Rightarrow> string \<Rightarrow> (string \<times> sig_value) list \<Rightarrow> string" where
  "operation_signature sha256 kind payload = sha256 (dump_object ((''kind'', SStr kind) # payload))"

definition sig_opt :: "('a \<Rightarrow> sig_value) \<Rightarrow> 'a option \<Rightarrow> sig_value" where
  "sig_opt f v = (case v of None \<Rightarrow> SNull | Some x \<Rightarrow> f x)"

definition create_payload ::
  "booking_request \<Rightarrow> datetime \<Rightarrow> int list option \<Rightarrow> int option \<Rightarrow> job_meta option \<Rightarrow> int \<Rightarrow> int list
    \<Rightarrow> (string \<times> sig_value) list" where
  "create_payload request start preferred expected_memory_mb job_metadata share_units excluded =
     [(''count'', SInt (br_count request)),
      (''duration_seconds'', SInt (br_duration_seconds request)),
      (''start_at'', if br_allow_queue request then SNull else SStr (to_iso start)),
      (''mode'', SStr (br_mode request)),
      (''preferred_gpus'', sig_opt SInts preferred),
      (''allow_queue'', SBool (br_allow_queue request)),
      (''expected_memory_mb'', sig_opt SInt expected_memory_mb),
      (''share_units'', if br_mode request = MODE_SHARED then SInt share_units else SNull),
      (''excluded_gpus'', SInts excluded),
      (''job_summary'', sig_opt (\<lambda>m. SStr (jm_summary m)) job_metadata)]"

definition create_operation_signature ::
  "(string \<Rightarrow> string) \<Rightarrow> booking_request \<Rightarrow> datetime \<Rightarrow> int list option \<Rightarrow> int option \<Rightarrow> job_meta option
    \<Rightarrow> int \<Rightarrow> int list \<Rightarrow> string" where
  "create_operation_signature sha256 request start preferred expected_memory_mb job_metadata
     share_units excluded =
     operation_signature sha256 ''create''
       (create_payload request start preferred expected_memory_mb job_metadata share_units excluded)"

definition edit_payload :: "edit_request \<Rightarrow> (string \<times> sig_value) list" where
  "edit_payload request =
     [(''reservation_id'', SStr (er_reservation_id request)),
      (''start_at'', sig_opt (\<lambda>t. SStr (to_iso t)) (er_start_at request)),
      (''duration_seconds'', sig_opt SInt (er_duration_seconds request)),
      (''mode'', sig_opt SStr (er_mode request)),
      (''preferred_gpus'', sig_opt SInts (normalize_preferred_gpus (er_preferred_gpus request))),
      (''count'', sig_opt SInt (er_count request)),
      (''allow_queue'', SBool (er_allow_queue request)),
      (''expected_memory_mb'', sig_opt SInt (er_expected_memory_mb request)),
      (''update_expected_memory'', SBool (er_update_expected_memory request)),
      (''share_units'', sig_opt SInt (er_share_units request)),
      (''update_share_units'', SBool (er_update_share_units request)),
      (''excluded_gpus'', SInts (sorted_set (case er_excluded_gpus request of None \<Rightarrow> [] | Some xs \<Rightarrow> xs)))]"

definition edit_operation_signature :: "(string \<Rightarrow> string) \<Rightarrow> edit_request \<Rightarrow> string" where
  "edit_operation_signature sha256 request = operation_signature sha256 ''edit'' (edit_payload request)"

end
