(* ===== verification/Ledger_Ops.thy ===== *)
theory Ledger_Ops
  imports Requests
begin

text \<open>
  \<^verbatim>\<open>bk/scheduler.py\<close>, the ledger: lookups of reservations and of writes already applied,
  duplicate detection, expiry, retention and audit events. A write that mutates one reservation
  object in place replaces the first reservation with that identifier.
\<close>

definition MAX_EDIT_OPERATIONS_PER_RESERVATION :: nat where
  "MAX_EDIT_OPERATIONS_PER_RESERVATION = 256"

section \<open>Lookups\<close>

definition list_active :: "ledger \<Rightarrow> datetime \<Rightarrow> reservation list" where
  "list_active l now = index_records (index_from_ledger l now)"

definition find_reservation :: "ledger \<Rightarrow> string \<Rightarrow> reservation option" where
  "find_reservation l ident = find (\<lambda>r. rs_id r = ident) (lg_reservations l)"

fun replace_reservation :: "string \<Rightarrow> reservation \<Rightarrow> reservation list \<Rightarrow> reservation list" where
  "replace_reservation ident new [] = []"
| "replace_reservation ident new (r # rs) =
     (if rs_id r = ident then new # rs else r # replace_reservation ident new rs)"

text \<open>The ledger without a reservation, against which its own edit is scheduled.\<close>

definition shadow_ledger :: "ledger \<Rightarrow> string \<Rightarrow> ledger" where
  "shadow_ledger l ident = l\<lparr>lg_reservations := filter (\<lambda>r. rs_id r \<noteq> ident) (lg_reservations l)\<rparr>"

definition exclusive_blocks_for_uid :: "ledger \<Rightarrow> int \<Rightarrow> datetime \<Rightarrow> datetime \<Rightarrow> reservation list" where
  "exclusive_blocks_for_uid l uid current horizon =
     sort_key (\<lambda>r. (rs_start_at r > current, rs_start_at r, rs_end_at r, rs_id r))
       (filter (\<lambda>r. rs_mode r = MODE_EXCLUSIVE \<and> rs_uid r \<noteq> uid \<and> rs_start_at r \<le> horizon)
         (list_active l current))"


section \<open>Writes already applied\<close>

datatype applied_action = AppliedCreate | AppliedCancel | AppliedEdit

definition edit_history :: "reservation \<Rightarrow> (booking_error, edit_operation list) result" where
  "edit_history r =
     (case rs_edit_operations r of
        Absent \<Rightarrow> Inr []
      | Null \<Rightarrow> Inl InvalidEditHistory
      | Present history \<Rightarrow> Inr history)"

definition applied_edit ::
  "string \<Rightarrow> reservation
    \<Rightarrow> (booking_error, (applied_action \<times> reservation \<times> string option) option) result" where
  "applied_edit op r =
     res_bind (edit_history r) (\<lambda>history.
       raise_if (length history > MAX_EDIT_OPERATIONS_PER_RESERVATION) EditHistoryTooLong
         (Inr (map_option (\<lambda>item. (AppliedEdit, r, Some (eo_signature item)))
            (find (\<lambda>item. eo_op_id item = op) history))))"

text \<open>The body of the loop for one reservation of the actor.\<close>

definition applied_in ::
  "string \<Rightarrow> reservation
    \<Rightarrow> (booking_error, (applied_action \<times> reservation \<times> string option) option) result" where
  "applied_in op r =
     (if rs_op_id r = Some op then Inr (Some (AppliedCreate, r, rs_operation_signature r))
      else case rs_cancel_operation r of
        Some cancellation \<Rightarrow>
          (if co_op_id cancellation = op
           then Inr (Some (AppliedCancel, r, Some (co_signature cancellation)))
           else applied_edit op r)
      | None \<Rightarrow> applied_edit op r)"

fun applied_loop ::
  "int \<Rightarrow> string \<Rightarrow> reservation list
    \<Rightarrow> (booking_error, (applied_action \<times> reservation \<times> string option) option) result" where
  "applied_loop uid op [] = Inr None"
| "applied_loop uid op (r # rs) =
     (if rs_uid r \<noteq> uid then applied_loop uid op rs
      else res_bind (applied_in op r) (\<lambda>found.
        case found of Some a \<Rightarrow> Inr (Some a) | None \<Rightarrow> applied_loop uid op rs))"

definition find_applied ::
  "ledger \<Rightarrow> int \<Rightarrow> string
    \<Rightarrow> (booking_error, (applied_action \<times> reservation \<times> string option) option) result" where
  "find_applied l uid op = applied_loop uid op (lg_reservations l)"

text \<open>\<^verbatim>\<open>find_applied_operation\<close>: the same lookup without the signature.\<close>

definition find_applied_operation ::
  "ledger \<Rightarrow> actor \<Rightarrow> string \<Rightarrow> (booking_error, (applied_action \<times> reservation) option) result" where
  "find_applied_operation l actor operation_id =
     res_bind (normalize_operation_id (Some operation_id)) (\<lambda>op.
       case op of
         None \<Rightarrow> Inr None
       | Some op_id \<Rightarrow>
           res_map (map_option (\<lambda>(action, r, _). (action, r))) (find_applied l (actor_uid actor) op_id))"


section \<open>Duplicate requests\<close>

text \<open>
  \<^verbatim>\<open>int(value)\<close> on a JSON value: \<open>None\<close> is a \<^verbatim>\<open>TypeError\<close> or \<^verbatim>\<open>ValueError\<close>,
  an infinity is an \<^verbatim>\<open>OverflowError\<close>, which the caller does not catch.
\<close>

definition py_trunc :: "rat \<Rightarrow> int" where
  "py_trunc q = (if q < 0 then - \<lfloor>- q\<rfloor> else \<lfloor>q\<rfloor>)"

fun py_int_json :: "json \<Rightarrow> (booking_error, int option) result" where
  "py_int_json (JInt n) = Inr (Some n)"
| "py_int_json (JBool b) = Inr (Some (if b then 1 else 0))"
| "py_int_json (JFloat q) = Inr (Some (py_trunc q))"
| "py_int_json (JStr s) = Inr (py_int s)"
| "py_int_json (JNonFinite s) = (if s = ''NaN'' then Inr None else Inl UncaughtOverflow)"
| "py_int_json _ = Inr None"

definition same_job :: "job option \<Rightarrow> job_meta option \<Rightarrow> string list \<Rightarrow> bool" where
  "same_job stored job_metadata aliases =
     (case job_metadata of
        None \<Rightarrow> stored = None
      | Some meta \<Rightarrow>
          (case stored of
             None \<Rightarrow> False
           | Some job \<Rightarrow> (case jb_digest job of None \<Rightarrow> False | Some d \<Rightarrow> d = jm_digest meta \<or> d \<in> set aliases)))"

definition same_request_metadata ::
  "reservation \<Rightarrow> int option \<Rightarrow> job_meta option \<Rightarrow> int \<Rightarrow> string list \<Rightarrow> (booking_error, bool) result" where
  "same_request_metadata r expected_memory_mb job_metadata share_units aliases =
     (if rs_expected_memory_mb r \<noteq> expected_memory_mb then Inr False
      else if rs_mode r = MODE_SHARED
      then res_bind (py_int_json (case rs_share_units r of None \<Rightarrow> JInt 1 | Some v \<Rightarrow> v)) (\<lambda>stored.
             if stored \<noteq> Some share_units then Inr False
             else Inr (same_job (rs_job r) job_metadata aliases))
      else Inr (same_job (rs_job r) job_metadata aliases))"

text \<open>First reservation that passes the cheap tests, the metadata test and the final test.\<close>

fun duplicate_loop ::
  "(reservation \<Rightarrow> bool) \<Rightarrow> (reservation \<Rightarrow> (booking_error, bool) result) \<Rightarrow> (reservation \<Rightarrow> bool)
    \<Rightarrow> reservation list \<Rightarrow> (booking_error, reservation option) result" where
  "duplicate_loop pre meta fin [] = Inr None"
| "duplicate_loop pre meta fin (r # rs) =
     (if \<not> pre r then duplicate_loop pre meta fin rs
      else res_bind (meta r) (\<lambda>same.
        if same \<and> fin r then Inr (Some r) else duplicate_loop pre meta fin rs))"

definition find_exact_duplicate ::
  "ledger \<Rightarrow> int \<Rightarrow> int list \<Rightarrow> datetime \<Rightarrow> datetime \<Rightarrow> string \<Rightarrow> int option \<Rightarrow> job_meta option \<Rightarrow> int
    \<Rightarrow> string list \<Rightarrow> (booking_error, reservation option) result" where
  "find_exact_duplicate l uid gpus start end mode expected_memory_mb job_metadata share_units aliases =
     duplicate_loop (\<lambda>r. rs_uid r = uid \<and> rs_mode r = mode \<and> sort (rs_gpus r) = sort gpus)
       (\<lambda>r. same_request_metadata r expected_memory_mb job_metadata share_units aliases)
       (\<lambda>r. rs_start_at r = start \<and> rs_end_at r = end)
       (list_active l start)"

definition find_auto_duplicate ::
  "ledger \<Rightarrow> int \<Rightarrow> int \<Rightarrow> datetime \<Rightarrow> datetime \<Rightarrow> string \<Rightarrow> int option \<Rightarrow> job_meta option \<Rightarrow> int
    \<Rightarrow> string list \<Rightarrow> (booking_error, reservation option) result" where
  "find_auto_duplicate l uid cnt start end mode expected_memory_mb job_metadata share_units aliases =
     duplicate_loop (\<lambda>r. rs_uid r = uid \<and> rs_mode r = mode \<and> int (length (rs_gpus r)) = cnt)
       (\<lambda>r. same_request_metadata r expected_memory_mb job_metadata share_units aliases)
       (\<lambda>r. rs_start_at r = start \<and> rs_end_at r = end)
       (list_active l start)"


section \<open>Expiry and retention\<close>

definition expire_job :: "datetime \<Rightarrow> job \<Rightarrow> job" where
  "expire_job now j =
     (if jb_status j \<in> {JOB_PENDING, JOB_CLAIMED}
      then j\<lparr>jb_status := JOB_MISSED, jb_finished_at := Some (whole_second now)\<rparr>
      else if jb_status j = JOB_RUNNING
      then j\<lparr>jb_status := JOB_UNCERTAIN, jb_finished_at := Some (whole_second now),
             jb_recovery_state := Some ''expired-unverified'',
             jb_message := Some ''reservation ended without worker completion; process state is uncertain''\<rparr>
      else j)"

definition due :: "datetime \<Rightarrow> reservation \<Rightarrow> bool" where
  "due now r \<longleftrightarrow> rs_status r = STATUS_ACTIVE \<and> rs_end_at r \<le> now"

definition expire_reservation :: "datetime \<Rightarrow> reservation \<Rightarrow> reservation" where
  "expire_reservation now r =
     (if due now r
      then r\<lparr>rs_status := STATUS_EXPIRED, rs_updated_at := Some (whole_second now),
             rs_job := map_option (expire_job now) (rs_job r)\<rparr>
      else r)"

text \<open>The ledger and whether it changed.\<close>

definition expire_old_reservations :: "ledger \<Rightarrow> datetime \<Rightarrow> ledger \<times> bool" where
  "expire_old_reservations l now =
     (l\<lparr>lg_reservations := map (expire_reservation now) (lg_reservations l)\<rparr>,
      list_ex (due now) (lg_reservations l))"

definition retained :: "datetime \<Rightarrow> reservation \<Rightarrow> bool" where
  "retained cutoff r =
     (if rs_status r = STATUS_EXPIRED then rs_end_at r > cutoff
      else if rs_status r = STATUS_CANCELLED
      then (case rs_updated_at r of None \<Rightarrow> rs_end_at r | Some t \<Rightarrow> t) > cutoff
      else True)"

definition maintain_ledger :: "ledger \<Rightarrow> datetime \<Rightarrow> int \<Rightarrow> ledger \<times> bool" where
  "maintain_ledger l now retention_days =
     (let (l1, changed) = expire_old_reservations l now in
      if retention_days \<le> 0 then (l1, changed)
      else let cutoff = now - days retention_days;
               kept = filter (retained cutoff) (lg_reservations l1)
           in (l1\<lparr>lg_reservations := kept\<rparr>,
               changed \<or> length kept \<noteq> length (lg_reservations l1)))"


section \<open>Audit events and edit history\<close>

definition make_log_item ::
  "actor \<Rightarrow> string \<Rightarrow> reservation \<Rightarrow> string \<Rightarrow> string \<Rightarrow> string option \<Rightarrow> datetime \<Rightarrow> log_item" where
  "make_log_item actor action r result message operation_id ts =
     \<lparr>li_ts = whole_second ts, li_uid = actor_uid actor, li_username = actor_username actor,
      li_action = action, li_reservation_id = rs_id r,
      li_op_id = (case operation_id of None \<Rightarrow> rs_op_id r | Some [] \<Rightarrow> rs_op_id r | Some x \<Rightarrow> Some x),
      li_gpus = rs_gpus r, li_mode = rs_mode r, li_share_units = rs_share_units r,
      li_start_at = rs_start_at r, li_end_at = rs_end_at r, li_result = result, li_message = message,
      li_actor = None\<rparr>"

definition reservation_edit_state :: "reservation \<Rightarrow> edit_state" where
  "reservation_edit_state r =
     \<lparr>es_gpus = rs_gpus r, es_mode = rs_mode r, es_start_at = rs_start_at r, es_end_at = rs_end_at r,
      es_expected_memory_mb = rs_expected_memory_mb r, es_share_units = rs_share_units r\<rparr>"

text \<open>\<open>history_op_id\<close> is the request's identifier or the fresh one generated here.\<close>

definition append_edit_history ::
  "reservation \<Rightarrow> actor \<Rightarrow> datetime \<Rightarrow> string \<Rightarrow> string \<Rightarrow> edit_state \<Rightarrow> (booking_error, reservation) result"
where
  "append_edit_history r actor now history_op_id signature before =
     res_bind (edit_history r) (\<lambda>history.
       raise_if (length history \<ge> MAX_EDIT_OPERATIONS_PER_RESERVATION) EditHistoryFull
         (Inr (r\<lparr>rs_edit_operations := Present (history @
            [\<lparr>eo_op_id = history_op_id, eo_signature = signature, eo_at = whole_second now,
              eo_actor_uid = actor_uid actor, eo_actor_username = actor_username actor,
              eo_before = before, eo_after = reservation_edit_state r\<rparr>])\<rparr>)))"

definition cancel_job :: "datetime \<Rightarrow> job \<Rightarrow> job" where
  "cancel_job now j =
     (if jb_status j = JOB_PENDING
      then j\<lparr>jb_status := JOB_CANCELLED, jb_finished_at := Some (whole_second now)\<rparr>
      else if jb_status j \<in> {JOB_CLAIMED, JOB_RUNNING}
      then j\<lparr>jb_cancel_requested_at := Some (whole_second now)\<rparr>
      else j)"

end
