(* ===== verification/Booking.thy ===== *)
theory Booking
  imports Ledger_Ops
begin

text \<open>
  \<^verbatim>\<open>bk/scheduler.py\<close>, the writes: \<^verbatim>\<open>add_booking\<close>, \<^verbatim>\<open>cancel_booking\<close>,
  \<^verbatim>\<open>cancel_booking_as_admin\<close> and \<^verbatim>\<open>edit_booking\<close>, each as the mutation its transaction
  applies to the loaded ledger. A mutation raises, and the transaction commits nothing, or returns
  the new ledger, a result, the audit events and whether the ledger changed. The clock readings
  and the fresh identifiers of one call are the fields of an \<open>op_env\<close>.
\<close>

record op_env =
  oe_now :: datetime
  oe_search :: search_clock
  oe_reason :: datetime
  oe_hint :: search_clock
  oe_log :: datetime
  oe_uuid :: string
  oe_uuid2 :: string

type_synonym 'r mutation = "(booking_error, ledger \<times> 'r \<times> log_item list \<times> bool) result"

section \<open>Why a request was refused\<close>

definition demand_of_request :: "booking_request \<Rightarrow> demand" where
  "demand_of_request request =
     \<lparr>dm_mode = br_mode request, dm_expected_memory_mb = br_expected_memory_mb request,
      dm_capacities = raw_capacities (br_gpu_memory_capacity_mb request),
      dm_share_units = py_or_int (br_share_units request) 1\<rparr>"

definition nearest_available_hint ::
  "op_env \<Rightarrow> ledger \<Rightarrow> config \<Rightarrow> booking_request \<Rightarrow> demand \<Rightarrow> (int \<rightharpoonup> rat) \<Rightarrow> datetime
    \<Rightarrow> int list option \<Rightarrow> (booking_error, (datetime \<times> int list) option) result" where
  "nearest_available_hint env l c request d scores start preferred =
     find_earliest_slot l c (br_count request) start (seconds (br_duration_seconds request)) d preferred True (br_gpu_order request) scores
       (br_excluded_gpus request) (oe_hint env)"

text \<open>
  The demand \<open>d\<close> and the scores are those of the request; scores are passed as the map they
  were normalised to (the same values). An empty list of reasons stands for the generic text.
\<close>

definition availability_failure_message ::
  "op_env \<Rightarrow> ledger \<Rightarrow> config \<Rightarrow> booking_request \<Rightarrow> demand \<Rightarrow> (int \<rightharpoonup> rat) \<Rightarrow> datetime
    \<Rightarrow> datetime \<Rightarrow> int list option \<Rightarrow> booking_error" where
  "availability_failure_message env l c request d scores start end preferred =
     (let reasons = (case preferred of
            Some gpus \<Rightarrow>
              Inr (combine_reasons (List.map_filter (\<lambda>gpu.
                availability_detail l gpu start end (br_mode request) (actor_uid (br_actor request))
                  (max_shared_users c) (br_expected_memory_mb request) (dm_capacities d)
                  (shared_memory_reserve_mb c) (dm_share_units d)) gpus))
          | None \<Rightarrow>
              res_map snd (find_available_gpus_with_reason l c (br_count request) start end d
                (br_gpu_order request) scores (br_excluded_gpus request) (oe_reason env)))
      in case res_bind reasons (\<lambda>rs.
           res_map (Unavailable rs) (nearest_available_hint env l c request d scores start preferred)) of
           Inl e \<Rightarrow> e
         | Inr e \<Rightarrow> e)"


section \<open>Creating a reservation\<close>

definition new_job :: "job_meta \<Rightarrow> datetime \<Rightarrow> job" where
  "new_job meta now =
     \<lparr>jb_spec_id = jm_spec_id meta, jb_digest = Some (jm_digest meta), jb_summary = Some (jm_summary meta),
      jb_status = JOB_PENDING, jb_submitted_at = Some (whole_second now), jb_claimed_at = None,
      jb_started_at = None, jb_finished_at = None, jb_exit_code = None, jb_runner_pid = None,
      jb_runner_host = None, jb_cancel_requested_at = None, jb_recovery_state = None,
      jb_message = None, jb_claim_token = None, jb_worker_id = None, jb_worker_lease_id = None,
      jb_launch_guard_state = None, jb_launch_guard_key = None, jb_waiting_since = None,
      jb_log_warning = None, jb_log_rotated = False, jb_recovery_worker_id = None, jb_recovered_at = None\<rparr>"

definition new_reservation ::
  "op_env \<Rightarrow> booking_request \<Rightarrow> string option \<Rightarrow> int list \<Rightarrow> datetime \<Rightarrow> datetime \<Rightarrow> int option \<Rightarrow> int
    \<Rightarrow> string \<Rightarrow> job_meta option \<Rightarrow> reservation" where
  "new_reservation env request op_id gpus start end expected_memory_mb share_units signature job_metadata =
     \<lparr>rs_id = oe_uuid env,
      rs_op_id = Some (case op_id of None \<Rightarrow> oe_uuid2 env | Some op \<Rightarrow> op),
      rs_uid = actor_uid (br_actor request), rs_username = Present (actor_username (br_actor request)),
      rs_gpus = gpus, rs_mode = br_mode request,
      rs_start_at = whole_second start, rs_end_at = whole_second end, rs_status = STATUS_ACTIVE,
      rs_created_at = Some (whole_second (oe_now env)), rs_updated_at = Some (whole_second (oe_now env)),
      rs_expected_memory_mb = expected_memory_mb,
      rs_share_units = (if br_mode request = MODE_SHARED then Some (JInt share_units) else None),
      rs_operation_signature = (if op_id = None then None else Some signature),
      rs_job = map_option (\<lambda>m. new_job m (oe_now env)) job_metadata,
      rs_edit_operations = Absent, rs_cancel_operation = None, rs_notifications = Absent\<rparr>"

text \<open>What \<^verbatim>\<open>add_booking\<close> computes from the request before it opens the transaction.\<close>

record create_intent =
  ci_job :: "job_meta option"
  ci_aliases :: "string list"
  ci_op_id :: "string option"
  ci_memory :: "int option"
  ci_units :: int
  ci_capacities :: "int \<rightharpoonup> int"

definition check_request :: "config \<Rightarrow> booking_request \<Rightarrow> (booking_error, unit) result" where
  "check_request c request =
     raise_if (br_mode request \<notin> {MODE_SHARED, MODE_EXCLUSIVE}) (UnsupportedMode (br_mode request))
       (raise_if (br_count request < 1) GpuCountTooSmall
         (raise_if (br_duration_seconds request \<le> 0) DurationNotPositive
           (validate_duration_granularity (br_duration_seconds request) (slot_minutes c))))"

definition request_aliases :: "booking_request \<Rightarrow> string list" where
  "request_aliases request = (case br_job_digest_aliases request of None \<Rightarrow> [] | Some xs \<Rightarrow> xs)"

definition create_intent_of :: "config \<Rightarrow> booking_request \<Rightarrow> (booking_error, create_intent) result" where
  "create_intent_of c request =
     res_bind (check_request c request) (\<lambda>_.
     res_bind (normalize_job_metadata (br_job_spec_id request) (br_job_digest request)
                 (br_job_summary request)) (\<lambda>meta.
     res_bind (normalize_job_digest_aliases (request_aliases request)) (\<lambda>aliases.
     raise_if (meta = None \<and> aliases \<noteq> []) AliasesRequireJob
     (res_bind (normalize_operation_id (br_op_id request)) (\<lambda>op_id.
      res_bind (normalize_expected_memory (br_expected_memory_mb request)) (\<lambda>memory.
      res_bind (request_share_units (br_mode request) (br_share_units request) (max_shared_users c)) (\<lambda>units.
      raise_if (br_mode request = MODE_SHARED \<and> require_shared_memory c \<and> memory = None) MemoryBudgetRequired
      (res_bind (normalize_memory_capacities (br_gpu_memory_capacity_mb request) c) (\<lambda>capacities.
       Inr \<lparr>ci_job = meta, ci_aliases = aliases, ci_op_id = op_id, ci_memory = memory,
            ci_units = units, ci_capacities = capacities\<rparr>)))))))))"

text \<open>A replay is refused unless it is the create of the same request.\<close>

definition replay_create ::
  "create_intent \<Rightarrow> string \<Rightarrow> applied_action \<times> reservation \<times> string option
    \<Rightarrow> (booking_error, booking_result) result" where
  "replay_create ci signature applied =
     (case applied of (action, existing, existing_signature) \<Rightarrow>
        if action \<noteq> AppliedCreate \<or> (existing_signature \<noteq> None \<and> existing_signature \<noteq> Some signature)
        then Inl OperationIdReused
        else res_bind (same_request_metadata existing (ci_memory ci) (ci_job ci) (ci_units ci)
                         (ci_aliases ci)) (\<lambda>same.
          raise_if (\<not> same) OperationIdReused
            (Inr \<lparr>bres_reservation = existing, bres_created = False,
                  bres_message = ''operation already applied'', bres_queued = False\<rparr>)))"

definition find_duplicate ::
  "ledger \<Rightarrow> booking_request \<Rightarrow> create_intent \<Rightarrow> datetime \<Rightarrow> datetime \<Rightarrow> int list option
    \<Rightarrow> (booking_error, reservation option) result" where
  "find_duplicate l request ci start end preferred =
     (if br_allow_queue request then Inr None
      else case preferred of
        Some gpus \<Rightarrow>
          find_exact_duplicate l (actor_uid (br_actor request)) gpus start end (br_mode request)
            (ci_memory ci) (ci_job ci) (ci_units ci) (ci_aliases ci)
      | None \<Rightarrow>
          find_auto_duplicate l (actor_uid (br_actor request)) (br_count request) start end
            (br_mode request) (ci_memory ci) (ci_job ci) (ci_units ci) (ci_aliases ci))"

text \<open>The search and the append: the last part of the mutation.\<close>

definition place_booking ::
  "op_env \<Rightarrow> config \<Rightarrow> booking_request \<Rightarrow> create_intent \<Rightarrow> string \<Rightarrow> ledger \<Rightarrow> datetime \<Rightarrow> int list option
    \<Rightarrow> int list \<Rightarrow> int list \<Rightarrow> (int \<rightharpoonup> rat) \<Rightarrow> booking_result mutation" where
  "place_booking env c request ci signature l start preferred excluded gpu_order scores =
     (let duration = seconds (br_duration_seconds request);
          current_slice_start = floor_to_slot (oe_now env) (slot_minutes c)
      in raise_if (start < current_slice_start) (StartBeforeSlice current_slice_start)
         (res_bind (find_earliest_slot l c (br_count request) start duration
              \<lparr>dm_mode = br_mode request, dm_expected_memory_mb = ci_memory ci,
               dm_capacities = ci_capacities ci, dm_share_units = ci_units ci\<rparr>
              preferred (br_allow_queue request) (Some gpu_order) scores (Some excluded)
              (oe_search env)) (\<lambda>slot.
          case slot of
            None \<Rightarrow> Inl (availability_failure_message env l c request (demand_of_request request) scores start
                    (start + duration) preferred)
          | Some (scheduled_start, gpus) \<Rightarrow>
              raise_if (\<not> br_allow_queue request \<and> scheduled_start \<noteq> start) InternalMoved
                (let queued = scheduled_start > start;
                     message = (if queued then ''queued'' else ''created'');
                     r = new_reservation env request (ci_op_id ci) gpus scheduled_start
                           (scheduled_start + duration) (ci_memory ci) (ci_units ci) signature (ci_job ci)
                 in Inr (l\<lparr>lg_reservations := lg_reservations l @ [r]\<rparr>,
                         \<lparr>bres_reservation = r, bres_created = True, bres_message = message,
                          bres_queued = queued\<rparr>,
                         [make_log_item (br_actor request) ''add'' r ''ok'' message None (oe_log env)],
                         True)))))"

text \<open>Replay, duplicate or placement: the mutation once the request is normalised.\<close>

definition settle_booking ::
  "op_env \<Rightarrow> config \<Rightarrow> booking_request \<Rightarrow> create_intent \<Rightarrow> string \<Rightarrow> ledger \<Rightarrow> datetime \<Rightarrow> int list option
    \<Rightarrow> int list \<Rightarrow> int list \<Rightarrow> (int \<rightharpoonup> rat) \<Rightarrow> bool \<Rightarrow> booking_result mutation" where
  "settle_booking env c request ci signature l start preferred excluded gpu_order scores changed =
     res_bind (case ci_op_id ci of
                 None \<Rightarrow> Inr None
               | Some op \<Rightarrow> find_applied l (actor_uid (br_actor request)) op) (\<lambda>applied.
     case applied of
       Some a \<Rightarrow>
         res_bind (replay_create ci signature a) (\<lambda>result. Inr (l, result, [], changed))
     | None \<Rightarrow>
         res_bind (find_duplicate l request ci start (start + seconds (br_duration_seconds request)) preferred)
           (\<lambda>duplicate. case duplicate of
             Some r \<Rightarrow>
               Inr (l, \<lparr>bres_reservation = r, bres_created = False,
                        bres_message = ''duplicate request ignored'', bres_queued = False\<rparr>, [], changed)
           | None \<Rightarrow>
               place_booking env c request ci signature l start preferred excluded gpu_order scores))"

definition add_booking_mutate ::
  "(string \<Rightarrow> string) \<Rightarrow> op_env \<Rightarrow> config \<Rightarrow> booking_request \<Rightarrow> create_intent \<Rightarrow> ledger
    \<Rightarrow> booking_result mutation" where
  "add_booking_mutate sha256 env c request ci l0 =
     res_bind (bind_ledger_policy l0 c) (\<lambda>(l1, bound).
     let (l, maintained) = maintain_ledger l1 (oe_now env) (ledger_retention_days c)
     in res_bind (normalize_start (br_start_at request) (br_allow_queue request) (oe_now env)
                    (slot_minutes c)) (\<lambda>start.
     let end = start + seconds (br_duration_seconds request);
         preferred = normalize_preferred_gpus (br_preferred_gpus request)
     in res_bind (normalize_excluded_gpus (br_excluded_gpus request) c) (\<lambda>excluded.
     res_bind (normalize_gpu_order (br_gpu_order request) c) (\<lambda>gpu_order.
     res_bind (normalize_gpu_scores (br_gpu_scores request) c) (\<lambda>scores.
     res_bind (validate_gpu_scope c (br_count request) preferred excluded) (\<lambda>_.
     res_bind (case booking_policy_conflict c start end (oe_now env) of
                 Some reason \<Rightarrow> (if br_allow_queue request then Inr () else Inl (PolicyConflict reason))
               | None \<Rightarrow> Inr ()) (\<lambda>_.
     settle_booking env c request ci
       (create_operation_signature sha256 request start preferred (ci_memory ci) (ci_job ci)
          (ci_units ci) excluded)
       l start preferred excluded gpu_order scores (maintained \<or> bound))))))))"

definition add_booking ::
  "(string \<Rightarrow> string) \<Rightarrow> op_env \<Rightarrow> config \<Rightarrow> booking_request \<Rightarrow> ledger \<Rightarrow> booking_result mutation" where
  "add_booking sha256 env c request l =
     res_bind (create_intent_of c request) (\<lambda>ci. add_booking_mutate sha256 env c request ci l)"

text \<open>The read-only replay check a client makes before it prepares a write.\<close>

definition find_applied_create ::
  "(string \<Rightarrow> string) \<Rightarrow> datetime \<Rightarrow> ledger \<Rightarrow> config \<Rightarrow> booking_request
    \<Rightarrow> (booking_error, booking_result option) result" where
  "find_applied_create sha256 now l c request =
     res_bind (normalize_operation_id (br_op_id request)) (\<lambda>op.
     case op of None \<Rightarrow> Inr None | Some op_id \<Rightarrow>
     res_bind (validate_ledger_policy l c) (\<lambda>_.
     res_bind (check_request c request) (\<lambda>_.
     res_bind (normalize_job_intent (br_job_digest request) (br_job_summary request)) (\<lambda>intent.
     res_bind (normalize_job_digest_aliases (request_aliases request)) (\<lambda>aliases.
     raise_if (intent = None \<and> aliases \<noteq> []) AliasesRequireJob
     (res_bind (normalize_expected_memory (br_expected_memory_mb request)) (\<lambda>memory.
      res_bind (request_share_units (br_mode request) (br_share_units request) (max_shared_users c)) (\<lambda>units.
      raise_if (br_mode request = MODE_SHARED \<and> require_shared_memory c \<and> memory = None) MemoryBudgetRequired
      (res_bind (normalize_start (br_start_at request) (br_allow_queue request) now (slot_minutes c)) (\<lambda>start.
       let preferred = normalize_preferred_gpus (br_preferred_gpus request)
       in res_bind (normalize_excluded_gpus (br_excluded_gpus request) c) (\<lambda>excluded.
       res_bind (validate_gpu_scope c (br_count request) preferred excluded) (\<lambda>_.
       let signature = create_operation_signature sha256 request start preferred memory intent units excluded
       in res_bind (find_applied l (actor_uid (br_actor request)) op_id) (\<lambda>applied.
       case applied of
         None \<Rightarrow> Inr None
       | Some (action, existing, None) \<Rightarrow> Inr None
       | Some (action, existing, Some stored) \<Rightarrow>
           (if action \<noteq> AppliedCreate \<or> stored \<noteq> signature then Inl OperationIdReused
            else res_bind (same_request_metadata existing memory intent units aliases) (\<lambda>same.
              raise_if (\<not> same) OperationIdReused
                (Inr (Some \<lparr>bres_reservation = existing, bres_created = False,
                            bres_message = ''operation already applied'', bres_queued = False\<rparr>)))))))))))))))))"


section \<open>Cancelling a reservation\<close>

definition cancelled_reservation :: "datetime \<Rightarrow> cancel_operation \<Rightarrow> reservation \<Rightarrow> reservation" where
  "cancelled_reservation now operation r =
     r\<lparr>rs_status := STATUS_CANCELLED, rs_updated_at := Some (whole_second now),
       rs_cancel_operation := Some operation, rs_job := map_option (cancel_job now) (rs_job r)\<rparr>"

text \<open>A replay of a cancellation or an edit: the same action, reservation and signature.\<close>

definition replay_matches ::
  "applied_action \<Rightarrow> string \<Rightarrow> string \<Rightarrow> applied_action \<times> reservation \<times> string option
    \<Rightarrow> (booking_error, reservation) result" where
  "replay_matches expected ident signature applied =
     (case applied of (action, existing, existing_signature) \<Rightarrow>
        raise_if (action \<noteq> expected \<or> rs_id existing \<noteq> ident \<or> existing_signature \<noteq> Some signature)
          OperationIdReused (Inr existing))"

definition cancel_signature :: "(string \<Rightarrow> string) \<Rightarrow> string \<Rightarrow> string" where
  "cancel_signature sha256 ident = operation_signature sha256 ''cancel'' [(''reservation_id'', SStr ident)]"

definition owner_cancellation ::
  "op_env \<Rightarrow> actor \<Rightarrow> string option \<Rightarrow> string \<Rightarrow> cancel_operation" where
  "owner_cancellation env actor op_id signature =
     \<lparr>co_op_id = (case op_id of None \<Rightarrow> oe_uuid env | Some op \<Rightarrow> op), co_signature = signature,
      co_at = whole_second (oe_now env), co_actor_uid = actor_uid actor,
      co_actor_username = actor_username actor, co_kind = ''owner'',
      co_reason = ''cancelled by reservation owner''\<rparr>"

definition cancel_owned ::
  "op_env \<Rightarrow> actor \<Rightarrow> string option \<Rightarrow> string \<Rightarrow> string \<Rightarrow> ledger \<Rightarrow> reservation mutation" where
  "cancel_owned env actor op_id signature ident l =
     (case find_reservation l ident of
        None \<Rightarrow> Inl ReservationNotFound
      | Some r \<Rightarrow>
          raise_if (rs_status r \<noteq> STATUS_ACTIVE) ReservationNotActive
            (raise_if (rs_uid r \<noteq> actor_uid actor) PermissionDenied
              (let operation = owner_cancellation env actor op_id signature;
                   r' = cancelled_reservation (oe_now env) operation r
               in Inr (l\<lparr>lg_reservations := replace_reservation ident r' (lg_reservations l)\<rparr>, r',
                       [make_log_item actor ''cancel'' r' ''ok'' ''cancelled''
                          (Some (co_op_id operation)) (oe_log env)], True))))"

definition cancel_booking ::
  "(string \<Rightarrow> string) \<Rightarrow> op_env \<Rightarrow> string \<Rightarrow> actor \<Rightarrow> string option \<Rightarrow> ledger \<Rightarrow> reservation mutation" where
  "cancel_booking sha256 env ident actor operation_id l0 =
     res_bind (normalize_operation_id operation_id) (\<lambda>op_id.
     let signature = cancel_signature sha256 ident;
         (l, changed) = expire_old_reservations l0 (oe_now env)
     in res_bind (case op_id of None \<Rightarrow> Inr None | Some op \<Rightarrow> find_applied l (actor_uid actor) op) (\<lambda>applied.
     case applied of
       Some a \<Rightarrow>
         res_bind (replay_matches AppliedCancel ident signature a) (\<lambda>existing.
           Inr (l, existing, [], changed))
     | None \<Rightarrow> cancel_owned env actor op_id signature ident l))"

definition admin_signature :: "(string \<Rightarrow> string) \<Rightarrow> string \<Rightarrow> string \<Rightarrow> string" where
  "admin_signature sha256 ident reason =
     operation_signature sha256 ''admin-cancel'' [(''reservation_id'', SStr ident), (''reason'', SStr reason)]"

definition admin_notification :: "op_env \<Rightarrow> actor \<Rightarrow> string \<Rightarrow> reservation \<Rightarrow> notification" where
  "admin_notification env actor reason r =
     \<lparr>nt_id = oe_uuid2 env, nt_type = ''reservation-admin-cancelled'',
      nt_created_at = whole_second (oe_now env), nt_actor_uid = actor_uid actor,
      nt_actor_username = actor_username actor, nt_reason = reason,
      nt_message = ''Reservation '' @ take 8 (rs_id r) @ '' was cancelled by administrator ''
        @ actor_username actor @ '': '' @ reason\<rparr>"

text \<open>\<^verbatim>\<open>notifications[-127:]\<close>\<close>

definition last_n :: "nat \<Rightarrow> 'a list \<Rightarrow> 'a list" where
  "last_n n xs = drop (length xs - n) xs"

definition notification_history :: "reservation \<Rightarrow> (booking_error, notification list) result" where
  "notification_history r =
     (case rs_notifications r of
        Absent \<Rightarrow> Inr []
      | Null \<Rightarrow> Inl InvalidNotificationHistory
      | Present xs \<Rightarrow> Inr xs)"

definition owner_name :: "reservation \<Rightarrow> string" where
  "owner_name r =
     (case rs_username r of Absent \<Rightarrow> show_int (rs_uid r) | Null \<Rightarrow> ''None'' | Present s \<Rightarrow> s)"

definition cancel_as_admin_mutate ::
  "(string \<Rightarrow> string) \<Rightarrow> op_env \<Rightarrow> config \<Rightarrow> string \<Rightarrow> actor \<Rightarrow> string \<Rightarrow> ledger \<Rightarrow> reservation mutation" where
  "cancel_as_admin_mutate sha256 env c ident actor reason l0 =
     res_bind (bind_ledger_policy l0 c) (\<lambda>(l1, bound).
     let (l, maintained) = maintain_ledger l1 (oe_now env) (ledger_retention_days c)
     in case find_reservation l ident of
       None \<Rightarrow> Inl ReservationNotFound
     | Some r \<Rightarrow>
         raise_if (rs_status r \<noteq> STATUS_ACTIVE) ReservationNotActive
           (res_bind (notification_history r) (\<lambda>notifications.
            let operation = \<lparr>co_op_id = oe_uuid env, co_signature = admin_signature sha256 ident reason,
                  co_at = whole_second (oe_now env), co_actor_uid = actor_uid actor,
                  co_actor_username = actor_username actor, co_kind = ''administrator'', co_reason = reason\<rparr>;
                r' = (cancelled_reservation (oe_now env) operation r)
                  \<lparr>rs_notifications := Present (last_n 127 notifications @ [admin_notification env actor reason r])\<rparr>;
                log = (make_log_item actor ''admin-cancel'' r' ''ok'' reason (Some (oe_uuid env)) (oe_log env))
                  \<lparr>li_uid := rs_uid r, li_username := owner_name r, li_actor := Some actor\<rparr>
            in Inr (l\<lparr>lg_reservations := replace_reservation ident r' (lg_reservations l)\<rparr>, r', [log], True))))"

definition cancel_booking_as_admin ::
  "(string \<Rightarrow> string) \<Rightarrow> op_env \<Rightarrow> config \<Rightarrow> string \<Rightarrow> actor \<Rightarrow> string \<Rightarrow> ledger \<Rightarrow> reservation mutation" where
  "cancel_booking_as_admin sha256 env c ident actor raw_reason l =
     raise_if (actor_uid actor \<noteq> 0) AdminRequired
       (res_bind (admin_cancellation_reason raw_reason) (\<lambda>reason.
          cancel_as_admin_mutate sha256 env c ident actor reason l))"


section \<open>Editing a reservation\<close>

definition edit_op_id :: "op_env \<Rightarrow> string option \<Rightarrow> string" where
  "edit_op_id env op_id = (case op_id of None \<Rightarrow> oe_uuid env | Some op \<Rightarrow> op)"

text \<open>History entry, replacement in the ledger, result and audit event of an edit.\<close>

definition commit_edit ::
  "op_env \<Rightarrow> edit_request \<Rightarrow> string option \<Rightarrow> string \<Rightarrow> edit_state \<Rightarrow> ledger \<Rightarrow> reservation \<Rightarrow> string \<Rightarrow> bool
    \<Rightarrow> string \<Rightarrow> booking_result mutation" where
  "commit_edit env request op_id signature before l r message queued log_message =
     res_bind (append_edit_history r (er_actor request) (oe_now env) (edit_op_id env op_id) signature before)
       (\<lambda>r1. let r' = r1\<lparr>rs_updated_at := Some (whole_second (oe_now env))\<rparr>
          in Inr (l\<lparr>lg_reservations := replace_reservation (rs_id r) r' (lg_reservations l)\<rparr>,
                  \<lparr>bres_reservation = r', bres_created = True, bres_message = message, bres_queued = queued\<rparr>,
                  [make_log_item (er_actor request) ''edit'' r' ''ok'' log_message
                     (Some (edit_op_id env op_id)) (oe_log env)],
                  True))"

definition immutable_changes :: "edit_request \<Rightarrow> bool" where
  "immutable_changes request \<longleftrightarrow>
     er_start_at request \<noteq> None \<or> er_mode request \<noteq> None \<or> er_preferred_gpus request \<noteq> None
     \<or> er_excluded_gpus request \<noteq> None \<or> er_count request \<noteq> None \<or> er_update_expected_memory request
     \<or> er_update_share_units request \<or> er_allow_queue request"

text \<open>A started reservation can only grow into time that is free for it.\<close>

definition check_extension ::
  "op_env \<Rightarrow> config \<Rightarrow> edit_request \<Rightarrow> (int \<rightharpoonup> int) \<Rightarrow> ledger \<Rightarrow> reservation \<Rightarrow> datetime
    \<Rightarrow> (booking_error, unit) result" where
  "check_extension env c request capacities l r new_end =
     (let future_start = max (ceil_to_slot (oe_now env) (slot_minutes c)) (rs_end_at r) in
      case booking_policy_conflict c future_start new_end (oe_now env) of
        Some reason \<Rightarrow> Inl (PolicyConflict reason)
      | None \<Rightarrow>
          (let gpus = sorted_set (rs_gpus r) in
           res_bind (normalize_gpu_order (er_gpu_order request) c) (\<lambda>gpu_order.
           res_bind (normalize_gpu_scores (er_gpu_scores request) c) (\<lambda>scores.
           res_bind (normalize_expected_memory (rs_expected_memory_mb r)) (\<lambda>memory.
           res_bind (find_earliest_slot (shadow_ledger l (rs_id r)) c (int (length gpus)) future_start
               (new_end - future_start)
               \<lparr>dm_mode = rs_mode r, dm_expected_memory_mb = memory, dm_capacities = capacities,
                dm_share_units = (if rs_mode r = MODE_SHARED
                  then reservation_share_units r (max_shared_users c) else 1)\<rparr>
               (Some gpus) False (Some gpu_order) scores (Some []) (oe_search env)) (\<lambda>slot.
           raise_if (slot = None) CannotExtend (Inr ())))))))"

definition edit_started_reservation ::
  "op_env \<Rightarrow> config \<Rightarrow> edit_request \<Rightarrow> string option \<Rightarrow> string \<Rightarrow> (int \<rightharpoonup> int) \<Rightarrow> ledger \<Rightarrow> reservation
    \<Rightarrow> booking_result mutation" where
  "edit_started_reservation env c request op_id signature capacities l r =
     raise_if (immutable_changes request) StartedImmutable
     (case er_duration_seconds request of
        None \<Rightarrow> Inl StartedNeedsDuration
      | Some duration_seconds \<Rightarrow>
          raise_if (duration_seconds \<le> 0) DurationNotPositive
          (res_bind (validate_duration_granularity duration_seconds (slot_minutes c)) (\<lambda>_.
           let new_end = rs_start_at r + seconds duration_seconds;
               earliest_end = ceil_to_slot (oe_now env) (slot_minutes c)
           in raise_if (new_end < earliest_end \<or> new_end \<le> oe_now env) (ElapsedTime earliest_end)
              (res_bind (if new_end > rs_end_at r
                         then check_extension env c request capacities l r new_end else Inr ()) (\<lambda>_.
               commit_edit env request op_id signature (reservation_edit_state r) l
                 (r\<lparr>rs_end_at := whole_second new_end\<rparr>) ''updated'' False
                 ''updated future end of started reservation'')))))"

text \<open>The start an edit asks for, checked against the clock and rounded.\<close>

definition edit_start ::
  "op_env \<Rightarrow> config \<Rightarrow> edit_request \<Rightarrow> reservation \<Rightarrow> int \<Rightarrow> (booking_error, datetime) result" where
  "edit_start env c request r duration_seconds =
     (let requested = (case er_start_at request of None \<Rightarrow> rs_start_at r | Some t \<Rightarrow> t);
          start = whole_second requested;
          earliest_start = ceil_to_slot (oe_now env) (slot_minutes c)
      in raise_if (er_start_at request \<noteq> None \<and> start < oe_now env) (EditStartInPast earliest_start)
         (raise_if (duration_seconds \<le> 0) DurationNotPositive
         (res_bind (validate_duration_granularity duration_seconds (slot_minutes c)) (\<lambda>_.
          res_bind (normalize_start start (er_allow_queue request) (oe_now env) (slot_minutes c)) (\<lambda>start.
          if start < earliest_start
          then (if er_allow_queue request then Inr earliest_start else Inl EditStartPast)
          else Inr start)))))"

definition edited_reservation ::
  "reservation \<Rightarrow> int list \<Rightarrow> string \<Rightarrow> datetime \<Rightarrow> datetime \<Rightarrow> int option \<Rightarrow> int \<Rightarrow> reservation" where
  "edited_reservation r gpus mode start end memory units =
     r\<lparr>rs_gpus := gpus, rs_mode := mode, rs_start_at := whole_second start, rs_end_at := whole_second end,
       rs_expected_memory_mb := memory,
       rs_share_units := (if mode = MODE_SHARED then Some (JInt units) else None)\<rparr>"

text \<open>
  The request \<^verbatim>\<open>edit_booking\<close> builds to explain a refusal (the normalised capacities and
  scores travel beside it).
\<close>

definition reason_request ::
  "edit_request \<Rightarrow> int \<Rightarrow> int \<Rightarrow> datetime \<Rightarrow> string \<Rightarrow> int list option \<Rightarrow> int list \<Rightarrow> int option \<Rightarrow> int
    \<Rightarrow> int list \<Rightarrow> booking_request" where
  "reason_request request cnt duration_seconds start mode preferred gpu_order memory units excluded =
     \<lparr>br_actor = er_actor request, br_count = cnt, br_duration_seconds = duration_seconds,
      br_start_at = start, br_mode = mode, br_preferred_gpus = preferred, br_gpu_order = Some gpu_order,
      br_gpu_scores = None, br_op_id = None, br_allow_queue = er_allow_queue request,
      br_job_spec_id = None, br_job_digest = None, br_job_summary = None, br_job_digest_aliases = None,
      br_expected_memory_mb = memory, br_gpu_memory_capacity_mb = None,
      br_share_units = (if mode = MODE_SHARED then Some units else None),
      br_excluded_gpus = Some excluded\<rparr>"

text \<open>The mode, memory and slots an edit asks for.\<close>

definition edit_demand ::
  "config \<Rightarrow> edit_request \<Rightarrow> reservation \<Rightarrow> (booking_error, demand) result" where
  "edit_demand c request r =
     (let mode = (case er_mode request of None \<Rightarrow> rs_mode r | Some m \<Rightarrow> m) in
      raise_if (mode \<notin> {MODE_SHARED, MODE_EXCLUSIVE}) (UnsupportedMode mode)
      (res_bind (normalize_expected_memory (if er_update_expected_memory request
           then er_expected_memory_mb request else rs_expected_memory_mb r)) (\<lambda>memory.
       let stored_units = (if mode = MODE_SHARED \<and> rs_mode r = MODE_SHARED
             then Some (reservation_share_units r (max_shared_users c)) else None)
       in res_bind (request_share_units mode (if er_update_share_units request
           then er_share_units request else stored_units) (max_shared_users c)) (\<lambda>units.
       res_bind (normalize_memory_capacities (er_gpu_memory_capacity_mb request) c) (\<lambda>capacities.
       Inr \<lparr>dm_mode = mode, dm_expected_memory_mb = memory, dm_capacities = capacities,
            dm_share_units = units\<rparr>)))))"

text \<open>The search on the ledger without the reservation, and the change.\<close>

definition place_edit ::
  "op_env \<Rightarrow> config \<Rightarrow> edit_request \<Rightarrow> string option \<Rightarrow> string \<Rightarrow> demand \<Rightarrow> ledger \<Rightarrow> reservation \<Rightarrow> int \<Rightarrow> int
    \<Rightarrow> datetime \<Rightarrow> int list option \<Rightarrow> int list \<Rightarrow> int list \<Rightarrow> (int \<rightharpoonup> rat) \<Rightarrow> booking_result mutation" where
  "place_edit env c request op_id signature d l r cnt duration_seconds start preferred excluded gpu_order scores =
     (let shadow = shadow_ledger l (rs_id r); duration = seconds duration_seconds
      in res_bind (find_earliest_slot shadow c cnt start duration d preferred (er_allow_queue request)
           (Some gpu_order) scores (Some excluded) (oe_search env)) (\<lambda>slot.
      case slot of
        None \<Rightarrow>
          Inl (availability_failure_message env shadow c
            (reason_request request cnt duration_seconds start (dm_mode d) preferred gpu_order
               (dm_expected_memory_mb d) (dm_share_units d) excluded)
            (d\<lparr>dm_share_units := (if dm_mode d = MODE_SHARED then dm_share_units d else 1)\<rparr>)
            scores start (start + duration) preferred)
      | Some (scheduled_start, gpus) \<Rightarrow>
          raise_if (\<not> er_allow_queue request \<and> scheduled_start \<noteq> start) InternalMoved
            (let queued = scheduled_start > start;
                 message = (if queued then ''queued'' else ''updated'')
             in commit_edit env request op_id signature (reservation_edit_state r) l
                  (edited_reservation r gpus (dm_mode d) scheduled_start (scheduled_start + duration)
                     (dm_expected_memory_mb d) (dm_share_units d))
                  message queued message)))"

definition edit_future_reservation ::
  "op_env \<Rightarrow> config \<Rightarrow> edit_request \<Rightarrow> string option \<Rightarrow> string \<Rightarrow> demand \<Rightarrow> ledger \<Rightarrow> reservation
    \<Rightarrow> booking_result mutation" where
  "edit_future_reservation env c request op_id signature d l r =
     (case rs_job r of
        Some job \<Rightarrow> raise_if (jb_status job \<noteq> JOB_PENDING) (JobAlreadyEntered (jb_status job))
      | None \<Rightarrow> (\<lambda>k. k))
     (raise_if (dm_mode d = MODE_SHARED \<and> require_shared_memory c \<and> dm_expected_memory_mb d = None)
        MemoryBudgetRequired
     (let duration_seconds = (case er_duration_seconds request of
            None \<Rightarrow> (rs_end_at r - rs_start_at r) div us_per_second | Some n \<Rightarrow> n)
      in res_bind (edit_start env c request r duration_seconds) (\<lambda>start.
      res_bind (case booking_policy_conflict c start (start + seconds duration_seconds) (oe_now env) of
                  Some reason \<Rightarrow> (if er_allow_queue request then Inr () else Inl (PolicyConflict reason))
                | None \<Rightarrow> Inr ()) (\<lambda>_.
      res_bind (normalize_excluded_gpus (er_excluded_gpus request) c) (\<lambda>excluded.
      let preferred = (if er_preferred_gpus request = None \<and> er_count request = None
                          \<and> er_excluded_gpus request = None
            then Some (sorted_set (rs_gpus r)) else normalize_preferred_gpus (er_preferred_gpus request));
          cnt = (case er_count request of
              Some n \<Rightarrow> n
            | None \<Rightarrow> int (length (case preferred of Some gpus \<Rightarrow> gpus | None \<Rightarrow> rs_gpus r)))
      in res_bind (validate_gpu_scope c cnt preferred excluded) (\<lambda>_.
      res_bind (normalize_gpu_order (er_gpu_order request) c) (\<lambda>gpu_order.
      res_bind (normalize_gpu_scores (er_gpu_scores request) c) (\<lambda>scores.
      place_edit env c request op_id signature d l r cnt duration_seconds start preferred excluded
        gpu_order scores))))))))"

definition edit_owned ::
  "op_env \<Rightarrow> config \<Rightarrow> edit_request \<Rightarrow> string option \<Rightarrow> string \<Rightarrow> ledger \<Rightarrow> booking_result mutation" where
  "edit_owned env c request op_id signature l =
     (case find_reservation l (er_reservation_id request) of
        None \<Rightarrow> Inl ReservationNotFound
      | Some r \<Rightarrow>
          raise_if (rs_status r \<noteq> STATUS_ACTIVE) ReservationNotActive
          (raise_if (rs_uid r \<noteq> actor_uid (er_actor request)) PermissionDenied
          (res_bind (edit_demand c request r) (\<lambda>d.
             if rs_start_at r \<le> oe_now env
             then edit_started_reservation env c request op_id signature (dm_capacities d) l r
             else edit_future_reservation env c request op_id signature d l r))))"

definition edit_booking ::
  "(string \<Rightarrow> string) \<Rightarrow> op_env \<Rightarrow> config \<Rightarrow> edit_request \<Rightarrow> ledger \<Rightarrow> booking_result mutation" where
  "edit_booking sha256 env c request l0 =
     res_bind (normalize_operation_id (er_op_id request)) (\<lambda>op_id.
     let signature = edit_operation_signature sha256 request
     in res_bind (bind_ledger_policy l0 c) (\<lambda>(l1, bound).
     let (l, maintained) = maintain_ledger l1 (oe_now env) (ledger_retention_days c)
     in res_bind (case op_id of None \<Rightarrow> Inr None
                  | Some op \<Rightarrow> find_applied l (actor_uid (er_actor request)) op) (\<lambda>applied.
     case applied of
       Some a \<Rightarrow>
         res_bind (replay_matches AppliedEdit (er_reservation_id request) signature a) (\<lambda>existing.
           Inr (l, \<lparr>bres_reservation = existing, bres_created = False,
                    bres_message = ''operation already applied'', bres_queued = False\<rparr>, [],
                maintained \<or> bound))
     | None \<Rightarrow> edit_owned env c request op_id signature l)))"

definition find_applied_edit ::
  "(string \<Rightarrow> string) \<Rightarrow> ledger \<Rightarrow> config \<Rightarrow> edit_request \<Rightarrow> (booking_error, booking_result option) result" where
  "find_applied_edit sha256 l c request =
     res_bind (normalize_operation_id (er_op_id request)) (\<lambda>op.
     case op of None \<Rightarrow> Inr None | Some op_id \<Rightarrow>
     res_bind (validate_ledger_policy l c) (\<lambda>_.
     res_bind (find_applied l (actor_uid (er_actor request)) op_id) (\<lambda>applied.
     case applied of
       None \<Rightarrow> Inr None
     | Some a \<Rightarrow>
         res_map (\<lambda>existing. Some \<lparr>bres_reservation = existing, bres_created = False,
             bres_message = ''operation already applied'', bres_queued = False\<rparr>)
           (replay_matches AppliedEdit (er_reservation_id request)
              (edit_operation_signature sha256 request) a))))"

end
