(* ===== verification/Safety.thy ===== *)
theory Safety
  imports Booking
begin

text \<open>
  The promise of the ledger, as an abstract specification over its reservations: from an instant
  \<open>T\<close> on, a GPU held exclusively has one holder, and the shared slots held on a GPU never
  exceed its capacity. The lemmas show what inserting, replacing, expiring and dropping
  reservations does to it.
\<close>

definition gpu_safe :: "int \<Rightarrow> reservation list \<Rightarrow> bool" where
  "gpu_safe cap hs \<longleftrightarrow>
     (\<forall>r \<in> set hs. rs_mode r = MODE_EXCLUSIVE \<longrightarrow> length hs = 1) \<and> held_units cap hs \<le> cap"

definition ledger_safe :: "int \<Rightarrow> datetime \<Rightarrow> reservation list \<Rightarrow> bool" where
  "ledger_safe cap T rs \<longleftrightarrow> (\<forall>g t. T \<le> t \<longrightarrow> gpu_safe cap (holders rs g t))"

text \<open>A demand admitted beside the holders \<open>hs\<close>.\<close>

definition admits :: "int \<Rightarrow> string \<Rightarrow> int \<Rightarrow> reservation list \<Rightarrow> bool" where
  "admits cap mode units hs \<longleftrightarrow>
     mode = MODE_EXCLUSIVE \<and> hs = []
     \<or> mode = MODE_SHARED \<and> (\<forall>r \<in> set hs. rs_mode r \<noteq> MODE_EXCLUSIVE) \<and> held_units cap hs + units \<le> cap"

definition occupies :: "int \<Rightarrow> datetime \<Rightarrow> reservation \<Rightarrow> bool" where
  "occupies g t r \<longleftrightarrow> rs_status r = STATUS_ACTIVE \<and> g \<in> set (rs_gpus r) \<and> rs_start_at r \<le> t \<and> t < rs_end_at r"

lemma holders_filter: "holders rs g t = filter (occupies g t) rs"
  by (simp add: holders_def occupies_def cong: filter_cong)

lemma holders_simps [simp]:
  "holders [] g t = []"
  "holders (r # rs) g t = (if occupies g t r then r # holders rs g t else holders rs g t)"
  "holders (rs @ ss) g t = holders rs g t @ holders ss g t"
  by (simp_all add: holders_filter)

lemma held_units_simps [simp]:
  "held_units cap [] = 0"
  "held_units cap (r # rs) =
     (if rs_mode r = MODE_SHARED then reservation_share_units r cap else 0) + held_units cap rs"
  "held_units cap (rs @ ss) = held_units cap rs + held_units cap ss"
  by (simp_all add: held_units_def)

lemma held_units_nonneg: "0 \<le> held_units cap rs"
proof (induction rs)
  case (Cons r rs)
  then show ?case using reservation_share_units_pos [of r cap] by simp
qed simp

lemma ledger_safeI: "(\<And>g t. T \<le> t \<Longrightarrow> gpu_safe cap (holders rs g t)) \<Longrightarrow> ledger_safe cap T rs"
  by (simp add: ledger_safe_def)

lemma ledger_safeD: "ledger_safe cap T rs \<Longrightarrow> T \<le> t \<Longrightarrow> gpu_safe cap (holders rs g t)"
  by (simp add: ledger_safe_def)

lemma ledger_safe_mono: "ledger_safe cap T rs \<Longrightarrow> T \<le> T' \<Longrightarrow> ledger_safe cap T' rs"
  by (simp add: ledger_safe_def)

text \<open>Safety depends on the holders of each instant only.\<close>

lemma ledger_safe_same:
  "ledger_safe cap T rs \<Longrightarrow> (\<And>g t. T \<le> t \<Longrightarrow> holders rs' g t = holders rs g t) \<Longrightarrow> ledger_safe cap T rs'"
  by (simp add: ledger_safe_def)

lemma gpu_safe_drop: "gpu_safe cap (xs @ r # ys) \<Longrightarrow> gpu_safe cap (xs @ ys)"
  using reservation_share_units_pos [of r cap] held_units_nonneg [of cap "xs @ ys"]
  by (auto simp: gpu_safe_def split: if_splits)

lemma gpu_safe_insert:
  assumes "gpu_safe cap (xs @ ys)"
    and "admits cap (rs_mode r) (reservation_share_units r cap) (xs @ ys)"
  shows "gpu_safe cap (xs @ r # ys)"
  using assms by (auto simp: gpu_safe_def admits_def)

text \<open>Replacing a holder by one of the same mode and share.\<close>

lemma gpu_safe_swap:
  assumes "gpu_safe cap (xs @ r # ys)" and "rs_mode r' = rs_mode r"
    and "reservation_share_units r' cap = reservation_share_units r cap"
  shows "gpu_safe cap (xs @ r' # ys)"
  using assms by (auto simp: gpu_safe_def)


section \<open>Availability admits\<close>

lemma available_admits:
  assumes "list_all span_ok (lg_reservations l)" and "s < e"
    and "gpu_available (index_from_ledger l T) c d s e g = None" and "T \<le> t" and "s \<le> t" and "t < e"
  shows "admits (max_shared_users c) (dm_mode d) (dm_share_units d) (holders (lg_reservations l) g t)"
proof -
  let ?ix = "index_from_ledger l T"
  let ?hs = "holders (lg_reservations l) g t"
  note ok = span_ok_index [OF assms(1), of T]
  have in_index: "span_of r \<in> set (on_gpu ?ix g) \<and> rs_start_at r < e \<and> s < rs_end_at r" if "r \<in> set ?hs" for r
    using that assms(4-6) by (auto simp: on_gpu_ledger holders_def)
  consider "dm_mode d = MODE_EXCLUSIVE" | "dm_mode d = MODE_SHARED"
    using assms(3) by (fastforce simp: gpu_available_def availability_detail_indexed_def Let_def)
  then show ?thesis
  proof cases
    case 1
    with assms(3) have "\<forall>sp \<in> set (on_gpu ?ix g). \<not> (sp_start sp < e \<and> s < sp_end sp)"
      by (simp add: gpu_available_def exclusive_placeable_iff [OF ok])
    then have "r \<notin> set ?hs" for r using in_index [of r] by fastforce
    then have "?hs = []" by (cases ?hs) auto
    with 1 show ?thesis by (simp add: admits_def)
  next
    case 2
    with assms(3) have shared:
      "\<forall>sp \<in> set (on_gpu ?ix g). sp_start sp < e \<and> s < sp_end sp \<longrightarrow> sp_mode sp \<noteq> MODE_EXCLUSIVE"
      "shared_units (max_shared_users c) (live_at (on_gpu ?ix g) t) + dm_share_units d \<le> max_shared_users c"
      using assms(5,6) by (simp_all add: gpu_available_def shared_placeable_iff [OF ok assms(2)])
    have "rs_mode r \<noteq> MODE_EXCLUSIVE" if "r \<in> set ?hs" for r
      using in_index [OF that] shared(1) by fastforce
    with 2 shared(2) show ?thesis by (simp add: admits_def shared_units_ledger [OF assms(4)])
  qed
qed


section \<open>Well-formed ledgers\<close>

definition reservation_wf :: "config \<Rightarrow> reservation \<Rightarrow> bool" where
  "reservation_wf c r \<longleftrightarrow>
     span_ok r \<and> rs_gpus r \<noteq> [] \<and> list_all (\<lambda>g. 0 \<le> g \<and> g < gpu_count c) (rs_gpus r)
     \<and> rs_mode r \<in> {MODE_SHARED, MODE_EXCLUSIVE}
     \<and> is_slot_aligned (rs_start_at r) (slot_minutes c) \<and> is_slot_aligned (rs_end_at r) (slot_minutes c)"

definition ledger_wf :: "config \<Rightarrow> reservation list \<Rightarrow> bool" where
  "ledger_wf c rs \<longleftrightarrow> distinct (map rs_id rs) \<and> list_all (reservation_wf c) rs"

lemma ledger_wf_span_ok: "ledger_wf c rs \<Longrightarrow> list_all span_ok rs"
  by (simp add: ledger_wf_def reservation_wf_def list_all_iff)

lemma ledger_wf_member: "ledger_wf c rs \<Longrightarrow> r \<in> set rs \<Longrightarrow> reservation_wf c r"
  by (simp add: ledger_wf_def list_all_iff)

lemma ledger_wf_filter: "ledger_wf c rs \<Longrightarrow> ledger_wf c (filter P rs)"
  by (simp add: ledger_wf_def list_all_iff distinct_map_filter)

lemma ledger_wf_append:
  "ledger_wf c rs \<Longrightarrow> reservation_wf c r \<Longrightarrow> rs_id r \<notin> rs_id ` set rs \<Longrightarrow> ledger_wf c (rs @ [r])"
  by (auto simp: ledger_wf_def)


section \<open>Replacing one reservation\<close>

lemma find_split:
  "find P rs = Some r \<Longrightarrow> \<exists>xs ys. rs = xs @ r # ys \<and> (\<forall>x \<in> set xs. \<not> P x) \<and> P r"
proof (induction rs)
  case (Cons x rs)
  show ?case
  proof (cases "P x")
    case True
    with Cons.prems show ?thesis by (intro exI [of _ "[]"] exI [of _ rs]) auto
  next
    case False
    with Cons obtain xs ys where "rs = xs @ r # ys \<and> (\<forall>x \<in> set xs. \<not> P x) \<and> P r" by auto
    with False show ?thesis by (intro exI [of _ "x # xs"] exI [of _ ys]) auto
  qed
qed simp

lemma find_reservation_split:
  assumes "find_reservation l ident = Some r" and "distinct (map rs_id (lg_reservations l))"
  obtains xs ys where "lg_reservations l = xs @ r # ys" "rs_id r = ident"
    "replace_reservation ident r' (lg_reservations l) = xs @ r' # ys"
    "lg_reservations (shadow_ledger l ident) = xs @ ys"
proof -
  from assms(1) obtain xs ys where s: "lg_reservations l = xs @ r # ys" "\<forall>x \<in> set xs. rs_id x \<noteq> ident" "rs_id r = ident"
    unfolding find_reservation_def by (auto dest: find_split)
  have "replace_reservation ident r' (xs @ r # ys) = xs @ r' # ys"
    using s(2,3) by (induction xs) auto
  moreover have "rs_id x \<noteq> ident" if "x \<in> set (xs @ ys)" for x
    using s(2,3) assms(2) that unfolding s(1) by (auto intro: rev_image_eqI)
  then have "filter (\<lambda>x. rs_id x \<noteq> ident) (xs @ r # ys) = xs @ ys"
    using s(3) by simp
  ultimately show thesis using s that by (simp add: shadow_ledger_def)
qed


lemma ledger_safe_append:
  assumes "ledger_safe cap T rs"
    and "\<And>g t. T \<le> t \<Longrightarrow> occupies g t r \<Longrightarrow>
      admits cap (rs_mode r) (reservation_share_units r cap) (holders rs g t)"
  shows "ledger_safe cap T (rs @ [r])"
proof (rule ledger_safeI)
  fix g t assume T: "T \<le> t"
  note safe = ledger_safeD [OF assms(1) T, of g]
  show "gpu_safe cap (holders (rs @ [r]) g t)"
    using safe gpu_safe_insert [of cap "holders rs g t" "[]" r] assms(2) [OF T] by simp
qed

lemma ledger_safe_replace:
  assumes "ledger_safe cap T (xs @ r # ys)"
    and "\<And>g t. T \<le> t \<Longrightarrow> occupies g t r' \<Longrightarrow>
      admits cap (rs_mode r') (reservation_share_units r' cap) (holders (xs @ ys) g t)
      \<or> occupies g t r \<and> rs_mode r' = rs_mode r
        \<and> reservation_share_units r' cap = reservation_share_units r cap"
  shows "ledger_safe cap T (xs @ r' # ys)"
proof (rule ledger_safeI)
  fix g t assume T: "T \<le> t"
  let ?xs = "holders xs g t" and ?ys = "holders ys g t"
  have old: "gpu_safe cap (if occupies g t r then ?xs @ r # ?ys else ?xs @ ?ys)"
    using ledger_safeD [OF assms(1) T, of g] by (simp split: if_splits)
  then have rest: "gpu_safe cap (?xs @ ?ys)"
    using gpu_safe_drop [of cap ?xs r ?ys] by (simp split: if_splits)
  show "gpu_safe cap (holders (xs @ r' # ys) g t)"
  proof (cases "occupies g t r'")
    case False
    with rest show ?thesis by simp
  next
    case True
    from assms(2) [OF T True] show ?thesis
    proof
      assume "admits cap (rs_mode r') (reservation_share_units r' cap) (holders (xs @ ys) g t)"
      with True rest gpu_safe_insert [of cap ?xs ?ys r'] show ?thesis by simp
    next
      assume "occupies g t r \<and> rs_mode r' = rs_mode r
        \<and> reservation_share_units r' cap = reservation_share_units r cap"
      with True old gpu_safe_swap [of cap ?xs r ?ys r'] show ?thesis by simp
    qed
  qed
qed

lemma ledger_safe_remove: "ledger_safe cap T (xs @ r # ys) \<Longrightarrow> \<not> (\<exists>g t. T \<le> t \<and> occupies g t r') \<Longrightarrow>
   ledger_safe cap T (xs @ r' # ys)"
  by (rule ledger_safe_replace) auto

lemma ledger_wf_replace:
  "ledger_wf c (xs @ r # ys) \<Longrightarrow> reservation_wf c r' \<Longrightarrow> rs_id r' = rs_id r \<Longrightarrow> ledger_wf c (xs @ r' # ys)"
  by (simp add: ledger_wf_def)


section \<open>Expiry and retention\<close>

lemma expire_reservation_fields [simp]:
  "rs_id (expire_reservation now r) = rs_id r"
  "rs_gpus (expire_reservation now r) = rs_gpus r"
  "rs_mode (expire_reservation now r) = rs_mode r"
  "rs_start_at (expire_reservation now r) = rs_start_at r"
  "rs_end_at (expire_reservation now r) = rs_end_at r"
  "rs_uid (expire_reservation now r) = rs_uid r"
  "rs_op_id (expire_reservation now r) = rs_op_id r"
  "rs_operation_signature (expire_reservation now r) = rs_operation_signature r"
  "rs_cancel_operation (expire_reservation now r) = rs_cancel_operation r"
  "rs_edit_operations (expire_reservation now r) = rs_edit_operations r"
  by (simp_all add: expire_reservation_def)

lemma expire_reservation_wf [simp]: "reservation_wf c (expire_reservation now r) = reservation_wf c r"
  by (simp add: reservation_wf_def span_ok_def)

lemma expire_holders:
  "now \<le> t \<Longrightarrow> holders (map (expire_reservation now) rs) g t = holders rs g t"
  by (induction rs) (auto simp: occupies_def expire_reservation_def due_def)

lemma expire_old_wf:
  "ledger_wf c (lg_reservations l) \<Longrightarrow> ledger_wf c (lg_reservations (fst (expire_old_reservations l now)))"
  by (simp add: ledger_wf_def expire_old_reservations_def list_all_iff comp_def)

lemma expire_old_safe:
  "ledger_safe cap T (lg_reservations l) \<Longrightarrow> now \<le> T \<Longrightarrow>
   ledger_safe cap T (lg_reservations (fst (expire_old_reservations l now)))"
  by (rule ledger_safe_same) (auto simp: expire_old_reservations_def expire_holders)

text \<open>After expiry no active reservation has ended.\<close>

lemma expire_old_live:
  "r \<in> set (lg_reservations (fst (expire_old_reservations l now))) \<Longrightarrow> rs_status r = STATUS_ACTIVE \<Longrightarrow>
   now < rs_end_at r"
  by (auto simp: expire_old_reservations_def expire_reservation_def due_def split: if_splits)

lemma maintain_reservations:
  "lg_reservations (fst (maintain_ledger l now d)) =
     filter (\<lambda>r. d \<le> 0 \<or> retained (now - days d) r) (lg_reservations (fst (expire_old_reservations l now)))"
  by (simp add: maintain_ledger_def split_def Let_def)

lemma retained_active: "rs_status r = STATUS_ACTIVE \<Longrightarrow> retained cutoff r"
  by (simp add: retained_def)

lemma maintain_wf:
  "ledger_wf c (lg_reservations l) \<Longrightarrow> ledger_wf c (lg_reservations (fst (maintain_ledger l now d)))"
  by (simp add: maintain_reservations ledger_wf_filter expire_old_wf)

lemma maintain_holders:
  assumes "now \<le> t"
  shows "holders (lg_reservations (fst (maintain_ledger l now d))) g t = holders (lg_reservations l) g t"
proof -
  have "holders (filter (\<lambda>r. d \<le> 0 \<or> retained cutoff r) rs) g t = holders rs g t" for cutoff rs
    unfolding holders_filter filter_filter
    by (rule filter_cong) (auto simp: occupies_def retained_active)
  with assms show ?thesis
    by (simp add: maintain_reservations expire_old_reservations_def expire_holders)
qed

lemma maintain_safe:
  "ledger_safe cap T (lg_reservations l) \<Longrightarrow> now \<le> T \<Longrightarrow>
   ledger_safe cap T (lg_reservations (fst (maintain_ledger l now d)))"
  by (rule ledger_safe_same) (auto simp: maintain_holders)

lemma maintain_live:
  "r \<in> set (lg_reservations (fst (maintain_ledger l now d))) \<Longrightarrow> rs_status r = STATUS_ACTIVE \<Longrightarrow> now < rs_end_at r"
  by (auto simp: maintain_reservations intro: expire_old_live)

lemma maintain_policy [simp]:
  "lg_policy (fst (maintain_ledger l now d)) = lg_policy l"
  by (simp add: maintain_ledger_def expire_old_reservations_def split_def Let_def)


section \<open>Placements\<close>

lemma earliest_slot_gpus:
  assumes "find_earliest_slot l c cnt start duration d pref queue ord scores excl clk = Inr (Some (s, gpus))"
    and "1 \<le> cnt"
  shows "gpus \<noteq> []" "int (length gpus) = cnt"
    "\<And>g. g \<in> set gpus \<Longrightarrow> gpu_available (index_from_ledger l (sc_now clk)) c d s (s + duration) g = None"
    "\<And>g. g \<in> set gpus \<Longrightarrow> g \<notin> set (disabled_gpus c)"
    "case pref of Some p \<Rightarrow> gpus = p | None \<Rightarrow> distinct gpus \<and> set gpus \<subseteq> set (enabled_gpus c)"
proof -
  note placed = earliest_slot_placed [OF assms(1)]
  show len: "int (length gpus) = cnt" and ne: "gpus \<noteq> []" using placed assms(2) by auto
  from placed have at_s:
    "gpus_at_start (index_from_ledger l (sc_now clk)) c cnt s duration d pref ord scores excl clk = Inr gpus"
    by simp
  note sound = gpus_at_start_sound [OF at_s ne]
  show "g \<in> set gpus \<Longrightarrow> gpu_available (index_from_ledger l (sc_now clk)) c d s (s + duration) g = None"
    "g \<in> set gpus \<Longrightarrow> g \<notin> set (disabled_gpus c)" for g using sound(1) by auto
  show "case pref of Some p \<Rightarrow> gpus = p | None \<Rightarrow> distinct gpus \<and> set gpus \<subseteq> set (enabled_gpus c)"
    by (rule sound(2))
qed

lemma earliest_slot_aligned:
  assumes "find_earliest_slot l c cnt start duration d pref queue ord scores excl clk = Inr (Some (s, gpus))"
    and "0 < slot_minutes c" and "queue \<or> is_slot_aligned start (slot_minutes c)"
  shows "is_slot_aligned s (slot_minutes c)"
  using earliest_slot_placed [OF assms(1)] assms(2,3) search_candidates_aligned [OF assms(2)]
  by (cases queue) (auto simp: Let_def)

lemma earliest_slot_admits:
  assumes "find_earliest_slot l c cnt start duration d pref queue ord scores excl clk = Inr (Some (s, gpus))"
    and "1 \<le> cnt" and "0 < duration" and "list_all span_ok (lg_reservations l)"
    and "g \<in> set gpus" and "sc_now clk \<le> t" and "s \<le> t" and "t < s + duration"
  shows "admits (max_shared_users c) (dm_mode d) (dm_share_units d) (holders (lg_reservations l) g t)"
  using available_admits [OF assms(4) _ earliest_slot_gpus(3) [OF assms(1,2,5)] assms(6-8)] assms(3) by simp

text \<open>
  Maintenance. After it no active reservation has ended; who holds a GPU at any instant from
  now on is unchanged; every reservation that remains is an old one, expired if it was due; and a
  reservation is dropped only when it is no longer active and its end (or, if it was cancelled, its
  last update) is older than the retention period.
\<close>

theorem maintenance_effect:
  "(\<forall>r \<in> set (lg_reservations (fst (maintain_ledger l now d))). rs_status r = STATUS_ACTIVE \<longrightarrow> now < rs_end_at r)
   \<and> (\<forall>g t. now \<le> t \<longrightarrow> holders (lg_reservations (fst (maintain_ledger l now d))) g t = holders (lg_reservations l) g t)
   \<and> lg_reservations (fst (maintain_ledger l now d)) =
       filter (\<lambda>r. d \<le> 0 \<or> retained (now - days d) r) (map (expire_reservation now) (lg_reservations l))
   \<and> (\<forall>r. \<not> retained (now - days d) r \<longrightarrow> rs_status r \<noteq> STATUS_ACTIVE
        \<and> (rs_status r = STATUS_EXPIRED \<and> rs_end_at r \<le> now - days d
           \<or> rs_status r = STATUS_CANCELLED \<and> (case rs_updated_at r of None \<Rightarrow> rs_end_at r | Some t \<Rightarrow> t) \<le> now - days d))"
proof (intro conjI)
  show "\<forall>r. \<not> retained (now - days d) r \<longrightarrow> rs_status r \<noteq> STATUS_ACTIVE
        \<and> (rs_status r = STATUS_EXPIRED \<and> rs_end_at r \<le> now - days d
           \<or> rs_status r = STATUS_CANCELLED \<and> (case rs_updated_at r of None \<Rightarrow> rs_end_at r | Some t \<Rightarrow> t) \<le> now - days d)"
    by (auto simp: retained_def not_less split: if_splits)
  show "\<forall>g t. now \<le> t \<longrightarrow> holders (lg_reservations (fst (maintain_ledger l now d))) g t = holders (lg_reservations l) g t"
    by (simp add: maintain_holders)
  show "\<forall>r \<in> set (lg_reservations (fst (maintain_ledger l now d))). rs_status r = STATUS_ACTIVE \<longrightarrow> now < rs_end_at r"
    using maintain_live by blast
qed (simp add: maintain_reservations expire_old_reservations_def)

theorem maintenance_effect_witness:
  "lg_reservations (fst (maintain_ledger (sample_ledger [sample_reservation ''a'' MODE_SHARED [0] 1 4,
      sample_reservation ''b'' MODE_SHARED [0] 3 (days 9)]) (days 5) 1))
   = [sample_reservation ''b'' MODE_SHARED [0] 3 (days 9)]"
proof -
  let ?l = "sample_ledger [sample_reservation ''a'' MODE_SHARED [0] 1 4, sample_reservation ''b'' MODE_SHARED [0] 3 (days 9)]"
  have "filter (\<lambda>r. (1::int) \<le> 0 \<or> retained (days 5 - days 1) r) (map (expire_reservation (days 5)) (lg_reservations ?l))
      = [sample_reservation ''b'' MODE_SHARED [0] 3 (days 9)]" by code_simp
  then show ?thesis using maintenance_effect [of ?l "days 5" 1] by simp
qed

end
