(* ===== verification/Preservation.thy ===== *)
theory Preservation
  imports Safety
begin

text \<open>
  What every write does to a ledger: it stays well formed, and it keeps the promise of
  \<open>ledger_safe\<close> from the clock reading of its search on. A fresh identifier is one no
  reservation of the ledger has.
\<close>

section \<open>Requests that pass the checks\<close>

lemma granularity_dvd:
  assumes "validate_duration_granularity n m = Inr u"
  shows "slot_us m dvd seconds n"
  using assms
  by (auto simp: validate_duration_granularity_def slot_us_def seconds_def dvd_eq_mod_eq_0 [symmetric]
      mult_dvd_mono)

lemma seconds_pos: "0 < n \<Longrightarrow> 0 < seconds n"
  by (simp add: seconds_def us_per_second_def)

lemma check_request_Inr:
  assumes "check_request c request = Inr u"
  shows "br_mode request \<in> {MODE_SHARED, MODE_EXCLUSIVE}" "1 \<le> br_count request"
    "0 < seconds (br_duration_seconds request)"
    "slot_us (slot_minutes c) dvd seconds (br_duration_seconds request)"
  using assms by (auto simp: check_request_def not_less intro: seconds_pos granularity_dvd)

lemma request_share_units_shared:
  "request_share_units MODE_SHARED v cap = Inr u \<Longrightarrow> 1 \<le> u \<and> u \<le> cap"
  by (auto simp: request_share_units_def dest: normalize_share_units_range split: sum.splits)

lemma create_intent_Inr:
  assumes "create_intent_of c request = Inr ci"
  shows "br_mode request \<in> {MODE_SHARED, MODE_EXCLUSIVE}" "1 \<le> br_count request"
    "0 < seconds (br_duration_seconds request)"
    "slot_us (slot_minutes c) dvd seconds (br_duration_seconds request)"
    "br_mode request = MODE_SHARED \<Longrightarrow> 1 \<le> ci_units ci \<and> ci_units ci \<le> max_shared_users c"
proof -
  from assms have chk: "check_request c request = Inr ()"
    and units: "request_share_units (br_mode request) (br_share_units request) (max_shared_users c) = Inr (ci_units ci)"
    by (auto simp: create_intent_of_def result_simps)
  show "br_mode request \<in> {MODE_SHARED, MODE_EXCLUSIVE}" "1 \<le> br_count request"
    "0 < seconds (br_duration_seconds request)"
    "slot_us (slot_minutes c) dvd seconds (br_duration_seconds request)"
    by (rule check_request_Inr [OF chk])+
  show "br_mode request = MODE_SHARED \<Longrightarrow> 1 \<le> ci_units ci \<and> ci_units ci \<le> max_shared_users c"
    using units request_share_units_shared by auto
qed

lemma normalize_start_aligned:
  assumes "normalize_start v q now m = Inr s" and "0 < m"
  shows "is_slot_aligned s m"
  using assms by (auto simp: normalize_start_def Let_def normalize_queue_start_aligned split: if_splits)

lemma check_preferred_range:
  "check_preferred c excluded gpus = Inr u \<Longrightarrow> g \<in> set gpus \<Longrightarrow> 0 \<le> g \<and> g < gpu_count c"
  by (induction gpus) (auto simp: result_simps)

lemma validate_gpu_scope_range:
  assumes "validate_gpu_scope c cnt (Some gpus) excluded = Inr u" and "g \<in> set gpus"
  shows "0 \<le> g \<and> g < gpu_count c"
  using assms check_preferred_range by (auto simp: validate_gpu_scope_def)

text \<open>The GPUs of a placement are distinct and exist.\<close>

lemma scope_gpus:
  assumes "find_earliest_slot l c cnt start duration d pref queue ord scores excl clk = Inr (Some (s, gpus))"
    and "1 \<le> cnt" and "validate_gpu_scope c cnt pref excluded = Inr u"
    and "case pref of Some p \<Rightarrow> distinct p | None \<Rightarrow> True"
  shows "distinct gpus \<and> list_all (\<lambda>g. 0 \<le> g \<and> g < gpu_count c) gpus \<and> gpus \<noteq> []"
proof -
  note slot = earliest_slot_gpus [OF assms(1,2)]
  show ?thesis
  proof (cases pref)
    case None
    with slot show ?thesis by (auto simp: list_all_iff dest: enabled_gpus_range)
  next
    case (Some p)
    with slot assms(3,4) show ?thesis by (auto simp: list_all_iff dest: validate_gpu_scope_range)
  qed
qed


section \<open>Creating\<close>

lemma place_booking_Inr:
  assumes "place_booking env c request ci signature l start preferred excluded ord scores = Inr (l', res, logs, ch)"
  obtains s gpus where
    "find_earliest_slot l c (br_count request) start (seconds (br_duration_seconds request))
      \<lparr>dm_mode = br_mode request, dm_expected_memory_mb = ci_memory ci,
       dm_capacities = ci_capacities ci, dm_share_units = ci_units ci\<rparr>
      preferred (br_allow_queue request) (Some ord) scores (Some excluded) (oe_search env) = Inr (Some (s, gpus))"
    "bres_reservation res = new_reservation env request (ci_op_id ci) gpus s
      (s + seconds (br_duration_seconds request)) (ci_memory ci) (ci_units ci) signature (ci_job ci)"
    "bres_created res" "bres_queued res = (s > start)" "\<not> br_allow_queue request \<Longrightarrow> s = start"
    "l' = l\<lparr>lg_reservations := lg_reservations l @ [bres_reservation res]\<rparr>" "ch"
    "floor_to_slot (oe_now env) (slot_minutes c) \<le> start"
    "logs = [make_log_item (br_actor request) ''add'' (bres_reservation res) ''ok'' (bres_message res) None (oe_log env)]"
  using assms
  by (auto simp: place_booking_def Let_def result_simps not_less split: option.splits prod.splits)

text \<open>A create either returns an existing reservation or appends one.\<close>

lemma replay_not_created: "replay_create ci signature a = Inr result \<Longrightarrow> \<not> bres_created result"
  by (cases a) (auto simp: replay_create_def res_bind_eq_Inr split: if_splits)

lemma settle_booking_Inr:
  assumes "settle_booking env c request ci signature l start pref excluded ord scores changed = Inr (l', res, logs, ch)"
  shows "l' = l \<and> \<not> bres_created res \<and> logs = []
    \<or> place_booking env c request ci signature l start pref excluded ord scores = Inr (l', res, logs, ch)"
proof -
  from assms obtain applied where tail: "(case applied of
       Some a \<Rightarrow> res_bind (replay_create ci signature a) (\<lambda>result. Inr (l, result, [], changed))
     | None \<Rightarrow> res_bind (find_duplicate l request ci start (start + seconds (br_duration_seconds request)) pref)
           (\<lambda>duplicate. case duplicate of
             Some r \<Rightarrow> Inr (l, \<lparr>bres_reservation = r, bres_created = False,
                        bres_message = ''duplicate request ignored'', bres_queued = False\<rparr>, [], changed)
           | None \<Rightarrow> place_booking env c request ci signature l start pref excluded ord scores))
      = Inr (l', res, logs, ch)"
    unfolding settle_booking_def res_bind_eq_Inr [of _ _ "(l', res, logs, ch)"] by blast
  with replay_not_created show ?thesis
    by (cases applied) (auto simp: res_bind_eq_Inr split: option.splits)
qed

lemma add_booking_Inr:
  assumes "add_booking sha256 env c request l0 = Inr (l', res, logs, ch)"
  obtains ci l1 b l start excluded ord scores signature where
    "create_intent_of c request = Inr ci" "bind_ledger_policy l0 c = Inr (l1, b)"
    "l = fst (maintain_ledger l1 (oe_now env) (ledger_retention_days c))"
    "normalize_start (br_start_at request) (br_allow_queue request) (oe_now env) (slot_minutes c) = Inr start"
    "normalize_excluded_gpus (br_excluded_gpus request) c = Inr excluded"
    "validate_gpu_scope c (br_count request) (normalize_preferred_gpus (br_preferred_gpus request)) excluded = Inr ()"
    "l' = l \<and> \<not> bres_created res \<and> logs = []
     \<or> place_booking env c request ci signature l start (normalize_preferred_gpus (br_preferred_gpus request))
       excluded ord scores = Inr (l', res, logs, ch)"
proof -
  from assms obtain ci where ci: "create_intent_of c request = Inr ci"
    and m: "add_booking_mutate sha256 env c request ci l0 = Inr (l', res, logs, ch)"
    by (auto simp: add_booking_def result_simps)
  from m obtain l1 b where b: "bind_ledger_policy l0 c = Inr (l1, b)"
    by (auto simp: add_booking_mutate_def result_simps)
  from m b show thesis
    unfolding add_booking_mutate_def split_def Let_def
    by (clarsimp simp: res_bind_eq_Inr)
      (drule settle_booking_Inr, erule (2) that [OF ci b refl, rotated 3], simp_all)
qed


text \<open>Identifiers only disappear during maintenance.\<close>

lemma maintain_ids: "rs_id ` set (lg_reservations (fst (maintain_ledger l now d))) \<subseteq> rs_id ` set (lg_reservations l)"
  by (auto simp: maintain_reservations expire_old_reservations_def)

definition fresh_for :: "op_env \<Rightarrow> ledger \<Rightarrow> bool" where
  "fresh_for env l \<longleftrightarrow> oe_uuid env \<notin> rs_id ` set (lg_reservations l)"

text \<open>A reservation written from a slot: well formed, and admitted at every instant it occupies.\<close>

lemma slot_reservation:
  assumes slot: "find_earliest_slot l c cnt start duration d pref queue ord scores excl clk = Inr (Some (s, gpus))"
    and req: "1 \<le> cnt" "0 < duration" "slot_us (slot_minutes c) dvd duration"
    and mode: "dm_mode d \<in> {MODE_SHARED, MODE_EXCLUSIVE}" "dm_mode d = MODE_SHARED \<Longrightarrow> 1 \<le> dm_share_units d"
    and c: "config_ok c" and start: "is_slot_aligned start (slot_minutes c)"
    and scope: "validate_gpu_scope c cnt pref excluded = Inr u"
    and pref: "case pref of Some p \<Rightarrow> distinct p | None \<Rightarrow> True"
    and r: "rs_gpus r = gpus" "rs_mode r = dm_mode d" "rs_start_at r = whole_second s"
      "rs_end_at r = whole_second (s + duration)"
      "rs_share_units r = (if dm_mode d = MODE_SHARED then Some (JInt (dm_share_units d)) else None)"
  shows "reservation_wf c r" and "rs_start_at r = s" and "rs_end_at r = s + duration"
    and "list_all span_ok (lg_reservations l) \<Longrightarrow> sc_now clk \<le> t \<Longrightarrow> occupies g t r \<Longrightarrow>
      admits (max_shared_users c) (rs_mode r) (reservation_share_units r (max_shared_users c))
        (holders (lg_reservations l) g t)"
proof -
  note m = config_ok_slot_pos [OF c]
  have al: "is_slot_aligned s (slot_minutes c)" using earliest_slot_aligned [OF slot m] start by simp
  have al': "is_slot_aligned (s + duration) (slot_minutes c)" by (rule aligned_add [OF m al req(3)])
  show se: "rs_start_at r = s" "rs_end_at r = s + duration"
    by (simp_all add: r whole_second_aligned [OF m al] whole_second_aligned [OF m al'])
  show "reservation_wf c r"
    using scope_gpus [OF slot req(1) scope pref] req(2) mode(1) al al'
    by (simp add: reservation_wf_def span_ok_def se r(1,2))
  show "admits (max_shared_users c) (rs_mode r) (reservation_share_units r (max_shared_users c))
        (holders (lg_reservations l) g t)"
    if "list_all span_ok (lg_reservations l)" "sc_now clk \<le> t" "occupies g t r"
  proof -
    have "admits (max_shared_users c) (dm_mode d) (dm_share_units d) (holders (lg_reservations l) g t)"
      using earliest_slot_admits [OF slot req(1,2) that(1) _ that(2)] that(3)
      by (simp add: occupies_def se r(1,2))
    moreover have "reservation_share_units r (max_shared_users c) = dm_share_units d" if "dm_mode d = MODE_SHARED"
      using mode(2) that by (intro reservation_share_units_int) (auto simp: r(5))
    ultimately show ?thesis by (auto simp: admits_def r(2))
  qed
qed

lemma placed_reservation:
  assumes slot: "find_earliest_slot l c (br_count request) start (seconds (br_duration_seconds request))
      \<lparr>dm_mode = br_mode request, dm_expected_memory_mb = ci_memory ci,
       dm_capacities = ci_capacities ci, dm_share_units = ci_units ci\<rparr>
      pref (br_allow_queue request) (Some ord) scores (Some excluded) clk = Inr (Some (s, gpus))"
    and ci: "create_intent_of c request = Inr ci" and c: "config_ok c"
    and start: "is_slot_aligned start (slot_minutes c)"
    and scope: "validate_gpu_scope c (br_count request) pref excluded = Inr u"
    and pref: "case pref of Some p \<Rightarrow> distinct p | None \<Rightarrow> True"
    and r: "r = new_reservation env request op gpus s (s + seconds (br_duration_seconds request))
      (ci_memory ci) (ci_units ci) signature (ci_job ci)"
  shows "reservation_wf c r" and "rs_start_at r = s" and "rs_end_at r = s + seconds (br_duration_seconds request)"
    and "list_all span_ok (lg_reservations l) \<Longrightarrow> sc_now clk \<le> t \<Longrightarrow> occupies g t r \<Longrightarrow>
      admits (max_shared_users c) (rs_mode r) (reservation_share_units r (max_shared_users c))
        (holders (lg_reservations l) g t)"
proof -
  note req = create_intent_Inr [OF ci]
  let ?d = "\<lparr>dm_mode = br_mode request, dm_expected_memory_mb = ci_memory ci,
       dm_capacities = ci_capacities ci, dm_share_units = ci_units ci\<rparr>"
  have mode: "dm_mode ?d \<in> {MODE_SHARED, MODE_EXCLUSIVE}"
    "dm_mode ?d = MODE_SHARED \<Longrightarrow> 1 \<le> dm_share_units ?d" using req(1,5) by simp_all
  have fields: "rs_gpus r = gpus" "rs_mode r = dm_mode ?d" "rs_start_at r = whole_second s"
      "rs_end_at r = whole_second (s + seconds (br_duration_seconds request))"
      "rs_share_units r = (if dm_mode ?d = MODE_SHARED then Some (JInt (dm_share_units ?d)) else None)"
    by (simp_all add: r new_reservation_def)
  note sr = slot_reservation [OF slot req(2-4) mode c start scope pref fields]
  show "reservation_wf c r" and "rs_start_at r = s" and "rs_end_at r = s + seconds (br_duration_seconds request)"
    using sr(1,2,3) by fast+
  show "list_all span_ok (lg_reservations l) \<Longrightarrow> sc_now clk \<le> t \<Longrightarrow> occupies g t r \<Longrightarrow>
      admits (max_shared_users c) (rs_mode r) (reservation_share_units r (max_shared_users c))
        (holders (lg_reservations l) g t)" by (rule sr(4))
qed

lemma normalize_preferred_distinct:
  "case normalize_preferred_gpus gpus of Some p \<Rightarrow> distinct p | None \<Rightarrow> True"
  by (simp add: normalize_preferred_gpus_def split: option.splits)

lemma add_booking_keeps:
  assumes add: "add_booking sha256 env c request l0 = Inr (l', res, logs, ch)"
    and c: "config_ok c" and wf: "ledger_wf c (lg_reservations l0)" and fresh: "fresh_for env l0"
    and clock: "oe_now env \<le> sc_now (oe_search env)"
  shows "ledger_wf c (lg_reservations l')"
    and "ledger_safe (max_shared_users c) (sc_now (oe_search env)) (lg_reservations l0) \<Longrightarrow>
      ledger_safe (max_shared_users c) (sc_now (oe_search env)) (lg_reservations l')"
proof -
  let ?cap = "max_shared_users c" and ?T = "sc_now (oe_search env)"
  from add obtain ci l1 b l start excluded ord scores signature where
    st: "create_intent_of c request = Inr ci" "bind_ledger_policy l0 c = Inr (l1, b)"
      "l = fst (maintain_ledger l1 (oe_now env) (ledger_retention_days c))"
      "normalize_start (br_start_at request) (br_allow_queue request) (oe_now env) (slot_minutes c) = Inr start"
      "validate_gpu_scope c (br_count request) (normalize_preferred_gpus (br_preferred_gpus request)) excluded = Inr ()"
    and out: "l' = l \<and> \<not> bres_created res \<and> logs = []
     \<or> place_booking env c request ci signature l start (normalize_preferred_gpus (br_preferred_gpus request))
       excluded ord scores = Inr (l', res, logs, ch)"
    by (rule add_booking_Inr)
  have l1: "lg_reservations l1 = lg_reservations l0" using st(2) by (rule bind_ledger_policy_reservations)
  have wf_l: "ledger_wf c (lg_reservations l)" using wf by (simp add: st(3) l1 maintain_wf)
  have safe_l: "ledger_safe ?cap ?T (lg_reservations l)" if "ledger_safe ?cap ?T (lg_reservations l0)"
    using that clock by (simp add: st(3) l1 maintain_safe)
  have "ledger_wf c (lg_reservations l') \<and>
      (ledger_safe ?cap ?T (lg_reservations l0) \<longrightarrow> ledger_safe ?cap ?T (lg_reservations l'))"
    using out
  proof
    assume "place_booking env c request ci signature l start
      (normalize_preferred_gpus (br_preferred_gpus request)) excluded ord scores = Inr (l', res, logs, ch)"
    then show ?thesis
    proof (rule place_booking_Inr, goal_cases)
      case (1 s gpus)
      note m = config_ok_slot_pos [OF c]
      note r = placed_reservation [OF 1(1) st(1) c normalize_start_aligned [OF st(4) m] st(5)
          normalize_preferred_distinct 1(2)]
      have "rs_id (bres_reservation res) \<notin> rs_id ` set (lg_reservations l)"
        using fresh maintain_ids [of l1 "oe_now env" "ledger_retention_days c"] l1
        by (auto simp: 1(2) new_reservation_def fresh_for_def st(3))
      with r(1) wf_l have "ledger_wf c (lg_reservations l')"
        by (simp add: 1(6) ledger_wf_append)
      moreover have "ledger_safe ?cap ?T (lg_reservations l')" if "ledger_safe ?cap ?T (lg_reservations l0)"
        using ledger_safe_append [OF safe_l [OF that]] r(4) [OF ledger_wf_span_ok [OF wf_l]] by (simp add: 1(6))
      ultimately show ?thesis by blast
    qed
  qed (use wf_l safe_l in auto)
  then show "ledger_wf c (lg_reservations l')"
    and "ledger_safe ?cap ?T (lg_reservations l0) \<Longrightarrow> ledger_safe ?cap ?T (lg_reservations l')" by auto
qed


section \<open>Cancelling\<close>

lemma cancelled_fields [simp]:
  "rs_id (cancelled_reservation now op r) = rs_id r"
  "rs_status (cancelled_reservation now op r) = STATUS_CANCELLED"
  "rs_uid (cancelled_reservation now op r) = rs_uid r"
  "rs_gpus (cancelled_reservation now op r) = rs_gpus r"
  "rs_mode (cancelled_reservation now op r) = rs_mode r"
  "rs_start_at (cancelled_reservation now op r) = rs_start_at r"
  "rs_end_at (cancelled_reservation now op r) = rs_end_at r"
  "rs_op_id (cancelled_reservation now op r) = rs_op_id r"
  "rs_cancel_operation (cancelled_reservation now op r) = Some op"
  "rs_job (cancelled_reservation now op r) = map_option (cancel_job now) (rs_job r)"
  by (simp_all add: cancelled_reservation_def)

text \<open>Replacing a reservation by an inactive copy of itself.\<close>

lemma deactivate_keeps:
  assumes "find_reservation l ident = Some r" and wf: "ledger_wf c (lg_reservations l)"
    and "rs_id r' = rs_id r" "rs_status r' \<noteq> STATUS_ACTIVE" "rs_gpus r' = rs_gpus r" "rs_mode r' = rs_mode r"
      "rs_start_at r' = rs_start_at r" "rs_end_at r' = rs_end_at r"
  shows "ledger_wf c (replace_reservation ident r' (lg_reservations l))"
    and "ledger_safe cap T (lg_reservations l) \<Longrightarrow>
      ledger_safe cap T (replace_reservation ident r' (lg_reservations l))"
proof -
  from wf have "distinct (map rs_id (lg_reservations l))" by (simp add: ledger_wf_def)
  from find_reservation_split [OF assms(1) this, of r'] obtain xs ys where
    s: "lg_reservations l = xs @ r # ys" "replace_reservation ident r' (lg_reservations l) = xs @ r' # ys"
    by metis
  have "reservation_wf c r'"
    using ledger_wf_member [OF wf, of r] assms(3-8) by (simp add: s(1) reservation_wf_def span_ok_def)
  then show "ledger_wf c (replace_reservation ident r' (lg_reservations l))"
    unfolding s(2) using wf assms(3) by (auto simp: s(1) intro: ledger_wf_replace)
  have "\<not> (\<exists>g t. T \<le> t \<and> occupies g t r')" using assms(4) by (simp add: occupies_def)
  then show "ledger_safe cap T (lg_reservations l) \<Longrightarrow>
      ledger_safe cap T (replace_reservation ident r' (lg_reservations l))"
    unfolding s(2) unfolding s(1) by (rule ledger_safe_remove [rotated])
qed

lemma cancel_owned_Inr:
  assumes "cancel_owned env actor op signature ident l = Inr (l', r', logs, ch)"
  obtains r where "find_reservation l ident = Some r" "rs_status r = STATUS_ACTIVE"
    "rs_uid r = actor_uid actor"
    "r' = cancelled_reservation (oe_now env) (owner_cancellation env actor op signature) r"
    "l' = l\<lparr>lg_reservations := replace_reservation ident r' (lg_reservations l)\<rparr>"
    "logs = [make_log_item actor ''cancel'' r' ''ok'' ''cancelled''
       (Some (co_op_id (owner_cancellation env actor op signature))) (oe_log env)]" "ch"
  using assms by (auto simp: cancel_owned_def Let_def split: option.splits)

text \<open>A cancellation is a replay, which only expires, or cancels one reservation of the actor.\<close>

lemma cancel_booking_Inr:
  assumes "cancel_booking sha256 env ident actor operation_id l0 = Inr (l', r', logs, ch)"
  obtains op where "normalize_operation_id operation_id = Inr op"
    "l' = fst (expire_old_reservations l0 (oe_now env)) \<and> logs = []
     \<and> (\<exists>o' a. op = Some o' \<and> find_applied l' (actor_uid actor) o' = Inr (Some a)
          \<and> replay_matches AppliedCancel ident (cancel_signature sha256 ident) a = Inr r')
     \<or> cancel_owned env actor op (cancel_signature sha256 ident) ident
          (fst (expire_old_reservations l0 (oe_now env))) = Inr (l', r', logs, ch)"
  using assms
  by (auto simp: cancel_booking_def split_def Let_def res_bind_eq_Inr split: option.splits)

lemma cancel_booking_keeps:
  assumes "cancel_booking sha256 env ident actor operation_id l0 = Inr (l', r', logs, ch)"
    and wf: "ledger_wf c (lg_reservations l0)"
  shows "ledger_wf c (lg_reservations l')"
    and "ledger_safe cap T (lg_reservations l0) \<Longrightarrow> oe_now env \<le> T \<Longrightarrow> ledger_safe cap T (lg_reservations l')"
proof -
  let ?l = "fst (expire_old_reservations l0 (oe_now env))"
  have wf': "ledger_wf c (lg_reservations ?l)" using wf by (rule expire_old_wf)
  have safe': "ledger_safe cap T (lg_reservations ?l)"
    if "ledger_safe cap T (lg_reservations l0)" "oe_now env \<le> T" using that by (rule expire_old_safe)
  from assms(1) obtain op where
    "l' = ?l \<or> cancel_owned env actor op (cancel_signature sha256 ident) ident ?l = Inr (l', r', logs, ch)"
    by (rule cancel_booking_Inr) auto
  then have "ledger_wf c (lg_reservations l') \<and> (ledger_safe cap T (lg_reservations l0) \<longrightarrow> oe_now env \<le> T \<longrightarrow>
      ledger_safe cap T (lg_reservations l'))"
  proof
    assume "cancel_owned env actor op (cancel_signature sha256 ident) ident ?l = Inr (l', r', logs, ch)"
    then show ?thesis
    proof (rule cancel_owned_Inr, goal_cases)
      case (1 r)
      then have "rs_id r' = rs_id r" "rs_status r' \<noteq> STATUS_ACTIVE" "rs_gpus r' = rs_gpus r"
        "rs_mode r' = rs_mode r" "rs_start_at r' = rs_start_at r" "rs_end_at r' = rs_end_at r" by simp_all
      note deactivate_keeps [OF 1(1) wf' this]
      then show ?thesis using safe' by (auto simp: 1(5))
    qed
  qed (use wf' safe' in auto)
  then show "ledger_wf c (lg_reservations l')"
    and "ledger_safe cap T (lg_reservations l0) \<Longrightarrow> oe_now env \<le> T \<Longrightarrow> ledger_safe cap T (lg_reservations l')"
    by auto
qed

lemma cancel_as_admin_Inr:
  assumes "cancel_booking_as_admin sha256 env c ident actor raw l0 = Inr (l', r', logs, ch)"
  obtains reason l1 b l r notifications where
    "actor_uid actor = 0" "admin_cancellation_reason raw = Inr reason"
    "bind_ledger_policy l0 c = Inr (l1, b)"
    "l = fst (maintain_ledger l1 (oe_now env) (ledger_retention_days c))"
    "find_reservation l ident = Some r" "rs_status r = STATUS_ACTIVE"
    "notification_history r = Inr notifications"
    "rs_id r' = rs_id r" "rs_status r' = STATUS_CANCELLED" "rs_gpus r' = rs_gpus r" "rs_mode r' = rs_mode r"
    "rs_start_at r' = rs_start_at r" "rs_end_at r' = rs_end_at r" "rs_uid r' = rs_uid r"
    "rs_notifications r' = Present (last_n 127 notifications @ [admin_notification env actor reason r])"
    "l' = l\<lparr>lg_reservations := replace_reservation ident r' (lg_reservations l)\<rparr>"
    "\<exists>item. logs = [item] \<and> li_uid item = rs_uid r \<and> li_actor item = Some actor \<and> li_message item = reason"
    "rs_job r' = map_option (cancel_job (oe_now env)) (rs_job r)"
proof -
  from assms obtain reason where a: "actor_uid actor = 0" "admin_cancellation_reason raw = Inr reason"
    and m: "cancel_as_admin_mutate sha256 env c ident actor reason l0 = Inr (l', r', logs, ch)"
    by (auto simp: cancel_booking_as_admin_def result_simps)
  from m obtain l1 b where b: "bind_ledger_policy l0 c = Inr (l1, b)"
    by (auto simp: cancel_as_admin_mutate_def result_simps)
  define l where "l = fst (maintain_ledger l1 (oe_now env) (ledger_retention_days c))"
  from m b obtain r where r: "find_reservation l ident = Some r"
    by (auto simp: cancel_as_admin_mutate_def split_def Let_def l_def split: option.splits)
  with m b obtain notifications where n: "rs_status r = STATUS_ACTIVE"
      "notification_history r = Inr notifications"
    by (auto simp: cancel_as_admin_mutate_def split_def Let_def l_def res_bind_eq_Inr)
  with m b r show thesis
    by (intro that [OF a b l_def r n])
      (auto simp: cancel_as_admin_mutate_def split_def Let_def l_def make_log_item_def)
qed

lemma cancel_as_admin_keeps:
  assumes "cancel_booking_as_admin sha256 env c ident actor raw l0 = Inr (l', r', logs, ch)"
    and wf: "ledger_wf c (lg_reservations l0)"
  shows "ledger_wf c (lg_reservations l')"
    and "ledger_safe cap T (lg_reservations l0) \<Longrightarrow> oe_now env \<le> T \<Longrightarrow> ledger_safe cap T (lg_reservations l')"
proof -
  have "ledger_wf c (lg_reservations l') \<and> (ledger_safe cap T (lg_reservations l0) \<longrightarrow> oe_now env \<le> T \<longrightarrow>
      ledger_safe cap T (lg_reservations l'))"
    using assms(1)
  proof (rule cancel_as_admin_Inr, goal_cases)
    case (1 reason l1 b l r notifications)
    note l1 = bind_ledger_policy_reservations [OF 1(3)]
    have wf': "ledger_wf c (lg_reservations l)" using wf by (simp add: 1(4) l1 maintain_wf)
    have safe': "ledger_safe cap T (lg_reservations l)"
      if "ledger_safe cap T (lg_reservations l0)" "oe_now env \<le> T"
      using that by (simp add: 1(4) l1 maintain_safe)
    have "rs_status r' \<noteq> STATUS_ACTIVE" by (simp add: 1(9))
    note deactivate_keeps [OF 1(5) wf' 1(8) this 1(10-13)]
    with safe' show ?case by (auto simp: 1(16))
  qed
  then show "ledger_wf c (lg_reservations l')"
    and "ledger_safe cap T (lg_reservations l0) \<Longrightarrow> oe_now env \<le> T \<Longrightarrow> ledger_safe cap T (lg_reservations l')"
    by auto
qed


section \<open>Editing\<close>

lemma append_edit_history_Inr:
  assumes "append_edit_history r actor now op signature before = Inr r1"
  shows "\<exists>h. edit_history r = Inr h \<and> length h < MAX_EDIT_OPERATIONS_PER_RESERVATION
    \<and> r1 = r\<lparr>rs_edit_operations := Present (h @ [\<lparr>eo_op_id = op, eo_signature = signature, eo_at = whole_second now,
        eo_actor_uid = actor_uid actor, eo_actor_username = actor_username actor,
        eo_before = before, eo_after = reservation_edit_state r\<rparr>])\<rparr>"
  using assms by (auto simp: append_edit_history_def res_bind_eq_Inr not_le)

lemma commit_edit_Inr:
  assumes "commit_edit env request op signature before l r message queued log_message = Inr (l', res, logs, ch)"
  obtains r' where "bres_reservation res = r'" "bres_created res"
    "l' = l\<lparr>lg_reservations := replace_reservation (rs_id r) r' (lg_reservations l)\<rparr>"
    "rs_id r' = rs_id r" "rs_status r' = rs_status r" "rs_gpus r' = rs_gpus r" "rs_mode r' = rs_mode r"
    "rs_start_at r' = rs_start_at r" "rs_end_at r' = rs_end_at r" "rs_share_units r' = rs_share_units r"
    "rs_uid r' = rs_uid r" "rs_expected_memory_mb r' = rs_expected_memory_mb r" "rs_job r' = rs_job r"
    "rs_op_id r' = rs_op_id r" "rs_cancel_operation r' = rs_cancel_operation r"
    "\<exists>h. edit_history r = Inr h \<and> length h < MAX_EDIT_OPERATIONS_PER_RESERVATION
      \<and> rs_edit_operations r' = Present (h @ [\<lparr>eo_op_id = edit_op_id env op, eo_signature = signature,
          eo_at = whole_second (oe_now env), eo_actor_uid = actor_uid (er_actor request),
          eo_actor_username = actor_username (er_actor request),
          eo_before = before, eo_after = reservation_edit_state r\<rparr>])"
proof -
  from assms obtain r1 where
    "append_edit_history r (er_actor request) (oe_now env) (edit_op_id env op) signature before = Inr r1"
    and res: "l' = l\<lparr>lg_reservations := replace_reservation (rs_id r)
        (r1\<lparr>rs_updated_at := Some (whole_second (oe_now env))\<rparr>) (lg_reservations l)\<rparr>"
      "bres_reservation res = r1\<lparr>rs_updated_at := Some (whole_second (oe_now env))\<rparr>" "bres_created res"
    by (auto simp: commit_edit_def Let_def res_bind_eq_Inr)
  with append_edit_history_Inr [OF this(1)] show thesis
    by (elim exE conjE) (rule that [of "bres_reservation res"], simp_all)
qed

text \<open>An edit that puts back a well-formed reservation, admitted wherever it now is.\<close>

lemma commit_edit_keeps:
  assumes "commit_edit env request op signature before l r1 message queued log_message = Inr (l', res, logs, ch)"
    and found: "find_reservation l ident = Some r" and wf: "ledger_wf c (lg_reservations l)"
    and r1: "rs_id r1 = rs_id r" "reservation_wf c r1"
    and admitted: "\<And>g t. T \<le> t \<Longrightarrow> occupies g t r1 \<Longrightarrow>
      admits cap (rs_mode r1) (reservation_share_units r1 cap)
        (holders (lg_reservations (shadow_ledger l (rs_id r))) g t)
      \<or> occupies g t r \<and> rs_mode r1 = rs_mode r
        \<and> reservation_share_units r1 cap = reservation_share_units r cap"
  shows "ledger_wf c (lg_reservations l') \<and>
    (ledger_safe cap T (lg_reservations l) \<longrightarrow> ledger_safe cap T (lg_reservations l'))"
  using assms(1)
proof (rule commit_edit_Inr, goal_cases)
  case (1 r')
  from wf have "distinct (map rs_id (lg_reservations l))" by (simp add: ledger_wf_def)
  from find_reservation_split [OF found this, of r'] obtain xs ys where
    s: "lg_reservations l = xs @ r # ys" "rs_id r = ident"
      "replace_reservation ident r' (lg_reservations l) = xs @ r' # ys"
      "lg_reservations (shadow_ledger l ident) = xs @ ys"
    by metis
  have l': "lg_reservations l' = xs @ r' # ys" using 1(3) s r1(1) by simp
  have units: "reservation_share_units r' cap = reservation_share_units r1 cap"
    by (simp add: reservation_share_units_def 1(10))
  have occ: "occupies g t r' = occupies g t r1" for g t by (simp add: occupies_def 1(5-9))
  have "reservation_wf c r'" using r1(2) by (simp add: reservation_wf_def span_ok_def 1(6-9))
  then have "ledger_wf c (lg_reservations l')"
    unfolding l' using wf r1(1) 1(4) by (auto simp: s(1) intro: ledger_wf_replace)
  moreover have "ledger_safe cap T (lg_reservations l')" if "ledger_safe cap T (lg_reservations l)"
    unfolding l'
  proof (rule ledger_safe_replace [OF that [unfolded s(1)]])
    fix g t assume "T \<le> t" "occupies g t r'"
    with admitted [of t g] show "admits cap (rs_mode r') (reservation_share_units r' cap) (holders (xs @ ys) g t)
      \<or> occupies g t r \<and> rs_mode r' = rs_mode r
        \<and> reservation_share_units r' cap = reservation_share_units r cap"
      using s(2,4) by (simp add: occ units 1(7))
  qed
  ultimately show ?case by blast
qed


lemma edit_demand_Inr:
  assumes "edit_demand c request r = Inr d"
  shows "dm_mode d \<in> {MODE_SHARED, MODE_EXCLUSIVE}"
    "dm_mode d = MODE_SHARED \<Longrightarrow> 1 \<le> dm_share_units d \<and> dm_share_units d \<le> max_shared_users c"
  using assms request_share_units_shared
  by (auto simp: edit_demand_def Let_def res_bind_eq_Inr)

lemma edit_start_Inr:
  assumes "edit_start env c request r n = Inr start" and "0 < slot_minutes c"
  shows "0 < seconds n" "slot_us (slot_minutes c) dvd seconds n" "is_slot_aligned start (slot_minutes c)"
    "oe_now env \<le> start"
proof -
  note facts = ceil_to_slot_ge [OF assms(2), of "oe_now env"] ceil_to_slot_aligned [OF assms(2), of "oe_now env"]
  show "0 < seconds n" "slot_us (slot_minutes c) dvd seconds n"
    using assms(1) by (auto simp: edit_start_def Let_def res_bind_eq_Inr not_le intro: seconds_pos granularity_dvd)
  show "is_slot_aligned start (slot_minutes c)"
    using assms(1) facts normalize_start_aligned [OF _ assms(2)]
    by (auto simp: edit_start_def Let_def res_bind_eq_Inr split: if_splits)
  show "oe_now env \<le> start"
    using assms(1) facts by (auto simp: edit_start_def Let_def res_bind_eq_Inr split: if_splits)
qed

text \<open>A future edit is a placement on the ledger without the reservation.\<close>

lemma place_edit_Inr:
  assumes "place_edit env c request op signature d l r cnt n start pref excluded ord scores = Inr (l', res, logs, ch)"
  obtains s gpus message queued where
    "find_earliest_slot (shadow_ledger l (rs_id r)) c cnt start (seconds n) d pref (er_allow_queue request)
       (Some ord) scores (Some excluded) (oe_search env) = Inr (Some (s, gpus))"
    "commit_edit env request op signature (reservation_edit_state r) l
       (edited_reservation r gpus (dm_mode d) s (s + seconds n) (dm_expected_memory_mb d) (dm_share_units d))
       message queued message = Inr (l', res, logs, ch)"
  using assms by (auto simp: place_edit_def Let_def res_bind_eq_Inr split: option.splits prod.splits)

lemma edit_future_Inr:
  assumes "edit_future_reservation env c request op signature d l r = Inr (l', res, logs, ch)"
  obtains n start excluded pref cnt ord scores where
    "edit_start env c request r n = Inr start"
    "case pref of Some p \<Rightarrow> distinct p | None \<Rightarrow> True"
    "validate_gpu_scope c cnt pref excluded = Inr ()"
    "place_edit env c request op signature d l r cnt n start pref excluded ord scores = Inr (l', res, logs, ch)"
    "case rs_job r of None \<Rightarrow> True | Some j \<Rightarrow> jb_status j = JOB_PENDING"
proof -
  define pref where "pref = (if er_preferred_gpus request = None \<and> er_count request = None
      \<and> er_excluded_gpus request = None
    then Some (sorted_set (rs_gpus r)) else normalize_preferred_gpus (er_preferred_gpus request))"
  have dp: "case pref of Some p \<Rightarrow> distinct p | None \<Rightarrow> True"
    using normalize_preferred_distinct by (simp add: pref_def)
  have job: "case rs_job r of None \<Rightarrow> True | Some j \<Rightarrow> jb_status j = JOB_PENDING"
    using assms by (auto simp: edit_future_reservation_def split: option.splits)
  then have strip: "(case rs_job r of Some job \<Rightarrow> raise_if (jb_status job \<noteq> JOB_PENDING) (JobAlreadyEntered (jb_status job))
      | None \<Rightarrow> (\<lambda>k. k)) K = K" for K :: "booking_result mutation"
    by (auto split: option.splits)
  from assms show thesis
    unfolding edit_future_reservation_def strip Let_def pref_def [symmetric]
    by (clarsimp simp: res_bind_eq_Inr simp del: split_paired_Ex) (erule (2) that [OF _ dp _ _ job])
qed


lemma edited_fields [simp]:
  "rs_id (edited_reservation r gpus mode s e memory units) = rs_id r"
  "rs_status (edited_reservation r gpus mode s e memory units) = rs_status r"
  "rs_uid (edited_reservation r gpus mode s e memory units) = rs_uid r"
  "rs_gpus (edited_reservation r gpus mode s e memory units) = gpus"
  "rs_mode (edited_reservation r gpus mode s e memory units) = mode"
  "rs_start_at (edited_reservation r gpus mode s e memory units) = whole_second s"
  "rs_end_at (edited_reservation r gpus mode s e memory units) = whole_second e"
  "rs_share_units (edited_reservation r gpus mode s e memory units) =
     (if mode = MODE_SHARED then Some (JInt units) else None)"
  by (simp_all add: edited_reservation_def)

lemma edit_future_keeps:
  assumes "edit_future_reservation env c request op signature d l r = Inr (l', res, logs, ch)"
    and d: "edit_demand c request r = Inr d" and c: "config_ok c"
    and found: "find_reservation l ident = Some r" and wf: "ledger_wf c (lg_reservations l)"
  shows "ledger_wf c (lg_reservations l') \<and>
    (ledger_safe (max_shared_users c) (sc_now (oe_search env)) (lg_reservations l) \<longrightarrow>
     ledger_safe (max_shared_users c) (sc_now (oe_search env)) (lg_reservations l'))"
  using assms(1)
proof (rule edit_future_Inr, goal_cases)
  case (1 n start excluded pref cnt ord scores)
  have cnt: "1 \<le> cnt" using 1(3) by (simp add: validate_gpu_scope_def not_less)
  note st = edit_start_Inr [OF 1(1) config_ok_slot_pos [OF c]]
  note dm = edit_demand_Inr [OF d]
  from 1(4) show ?case
  proof (rule place_edit_Inr, goal_cases)
    case (1 s gpus message queued)
    let ?r1 = "edited_reservation r gpus (dm_mode d) s (s + seconds n) (dm_expected_memory_mb d) (dm_share_units d)"
    have shadow: "list_all span_ok (lg_reservations (shadow_ledger l (rs_id r)))"
      using ledger_wf_span_ok [OF wf] by (simp add: shadow_ledger_def list_all_iff)
    have r1: "reservation_wf c ?r1" and
      admits: "sc_now (oe_search env) \<le> t \<Longrightarrow> occupies g t ?r1 \<Longrightarrow>
        admits (max_shared_users c) (rs_mode ?r1) (reservation_share_units ?r1 (max_shared_users c))
          (holders (lg_reservations (shadow_ledger l (rs_id r))) g t)" for g t
      using slot_reservation(1,4) [OF 1(1) cnt st(1,2) dm(1) conjunct1 [OF dm(2)] c st(3) \<open>validate_gpu_scope c cnt pref excluded = Inr ()\<close>
          \<open>case pref of Some p \<Rightarrow> distinct p | None \<Rightarrow> True\<close>, of ?r1] shadow
      by simp_all
    show ?case by (rule commit_edit_keeps [OF 1(2) found wf _ r1]) (use admits in auto)
  qed
qed


subsection \<open>A started reservation\<close>

lemma edit_started_Inr:
  assumes "edit_started_reservation env c request op signature capacities l r = Inr (l', res, logs, ch)"
  obtains n new_end where "er_duration_seconds request = Some n" "0 < n" "\<not> immutable_changes request"
    "validate_duration_granularity n (slot_minutes c) = Inr ()"
    "new_end = rs_start_at r + seconds n"
    "ceil_to_slot (oe_now env) (slot_minutes c) \<le> new_end" "oe_now env < new_end"
    "rs_end_at r < new_end \<Longrightarrow> check_extension env c request capacities l r new_end = Inr ()"
    "commit_edit env request op signature (reservation_edit_state r) l
       (r\<lparr>rs_end_at := whole_second new_end\<rparr>) ''updated'' False
       ''updated future end of started reservation'' = Inr (l', res, logs, ch)"
  using assms
  by (auto simp: edit_started_reservation_def Let_def res_bind_eq_Inr not_less not_le split: option.splits if_splits)

text \<open>An accepted extension was free on every GPU of the reservation.\<close>

lemma check_extension_admits:
  assumes "check_extension env c request capacities l r new_end = Inr u" and wf: "ledger_wf c (lg_reservations l)"
    and r: "rs_gpus r \<noteq> []"
    and future: "ceil_to_slot (oe_now env) (slot_minutes c) \<le> rs_end_at r" "rs_end_at r < new_end"
    and g: "g \<in> set (rs_gpus r)" and t: "sc_now (oe_search env) \<le> t" "rs_end_at r \<le> t" "t < new_end"
  shows "admits (max_shared_users c) (rs_mode r) (reservation_share_units r (max_shared_users c))
    (holders (lg_reservations (shadow_ledger l (rs_id r))) g t)"
proof -
  let ?d = "\<lambda>memory. \<lparr>dm_mode = rs_mode r, dm_expected_memory_mb = memory, dm_capacities = capacities,
      dm_share_units = (if rs_mode r = MODE_SHARED then reservation_share_units r (max_shared_users c) else 1)\<rparr>"
  have max: "max (ceil_to_slot (oe_now env) (slot_minutes c)) (rs_end_at r) = rs_end_at r" using future by simp
  from assms(1) obtain ord scores memory slot where
    "find_earliest_slot (shadow_ledger l (rs_id r)) c (int (length (sorted_set (rs_gpus r)))) (rs_end_at r)
       (new_end - rs_end_at r) (?d memory) (Some (sorted_set (rs_gpus r))) False (Some ord) scores (Some [])
       (oe_search env) = Inr slot" "slot \<noteq> None"
    unfolding check_extension_def Let_def max by (auto simp: res_bind_eq_Inr split: option.splits)
  then obtain s gpus where slot:
    "find_earliest_slot (shadow_ledger l (rs_id r)) c (int (length (sorted_set (rs_gpus r)))) (rs_end_at r)
       (new_end - rs_end_at r) (?d memory) (Some (sorted_set (rs_gpus r))) False (Some ord) scores (Some [])
       (oe_search env) = Inr (Some (s, gpus))" by auto
  have "sorted_set (rs_gpus r) \<noteq> []" using r by (simp flip: set_empty)
  then have cnt: "1 \<le> int (length (sorted_set (rs_gpus r)))" by (simp add: Suc_le_eq)
  have s: "s = rs_end_at r" using earliest_slot_placed [OF slot] by simp
  have gpus: "g \<in> set gpus" using earliest_slot_gpus(5) [OF slot cnt] g by simp
  have "list_all span_ok (lg_reservations (shadow_ledger l (rs_id r)))"
    using ledger_wf_span_ok [OF wf] by (simp add: shadow_ledger_def list_all_iff)
  from earliest_slot_admits [OF slot cnt _ this gpus t(1)] t future(2) show ?thesis
    by (auto simp: s admits_def split: if_splits)
qed

lemma edit_started_keeps:
  assumes "edit_started_reservation env c request op signature capacities l r = Inr (l', res, logs, ch)"
    and c: "config_ok c" and found: "find_reservation l ident = Some r" and wf: "ledger_wf c (lg_reservations l)"
    and live: "rs_start_at r \<le> oe_now env" "oe_now env < rs_end_at r"
  shows "ledger_wf c (lg_reservations l') \<and>
    (ledger_safe (max_shared_users c) (sc_now (oe_search env)) (lg_reservations l) \<longrightarrow>
     ledger_safe (max_shared_users c) (sc_now (oe_search env)) (lg_reservations l'))"
  using assms(1)
proof (rule edit_started_Inr, goal_cases)
  case (1 n new_end)
  note m = config_ok_slot_pos [OF c]
  have r: "reservation_wf c r"
    using found ledger_wf_member [OF wf] by (auto simp: find_reservation_def dest: find_split)
  then have al: "is_slot_aligned (rs_start_at r) (slot_minutes c)" "is_slot_aligned (rs_end_at r) (slot_minutes c)"
    by (simp_all add: reservation_wf_def)
  have al': "is_slot_aligned new_end (slot_minutes c)"
    unfolding 1(5) by (rule aligned_add [OF m al(1) granularity_dvd [OF 1(4)]])
  let ?r1 = "r\<lparr>rs_end_at := whole_second new_end\<rparr>"
  have e: "rs_end_at ?r1 = new_end" by (simp add: whole_second_aligned [OF m al'])
  have r1: "reservation_wf c ?r1"
    using r al' live(1) 1(7) by (simp add: reservation_wf_def span_ok_def whole_second_aligned [OF m al'])
  have ceil: "ceil_to_slot (oe_now env) (slot_minutes c) \<le> rs_end_at r"
    by (rule ceil_to_slot_least [OF m al(2)]) (use live in simp)
  have units: "reservation_share_units ?r1 cap = reservation_share_units r cap" for cap
    by (simp add: reservation_share_units_def)
  show ?case
  proof (rule commit_edit_keeps [OF 1(9) found wf _ r1])
    fix g t assume t: "sc_now (oe_search env) \<le> t" and occ: "occupies g t ?r1"
    show "admits (max_shared_users c) (rs_mode ?r1) (reservation_share_units ?r1 (max_shared_users c))
        (holders (lg_reservations (shadow_ledger l (rs_id r))) g t)
      \<or> occupies g t r \<and> rs_mode ?r1 = rs_mode r
        \<and> reservation_share_units ?r1 (max_shared_users c) = reservation_share_units r (max_shared_users c)"
    proof (cases "t < rs_end_at r")
      case True
      with occ show ?thesis by (simp add: occupies_def units)
    next
      case False
      from occ have "g \<in> set (rs_gpus r)" "t < new_end" by (simp_all add: occupies_def whole_second_aligned [OF m al'])
      with False r t show ?thesis
        by (auto simp: units reservation_wf_def intro!: check_extension_admits [OF 1(8) wf _ ceil])
    qed
  qed simp
qed

section \<open>The whole edit\<close>

lemma edit_booking_Inr:
  assumes "edit_booking sha256 env c request l0 = Inr (l', res, logs, ch)"
  obtains op l1 b l where "normalize_operation_id (er_op_id request) = Inr op"
    "bind_ledger_policy l0 c = Inr (l1, b)"
    "l = fst (maintain_ledger l1 (oe_now env) (ledger_retention_days c))"
    "l' = l \<and> \<not> bres_created res \<and> logs = []
     \<or> edit_owned env c request op (edit_operation_signature sha256 request) l = Inr (l', res, logs, ch)"
proof -
  from assms obtain op l1 b where "normalize_operation_id (er_op_id request) = Inr op"
    "bind_ledger_policy l0 c = Inr (l1, b)"
    by (auto simp: edit_booking_def Let_def res_bind_eq_Inr)
  note that [OF this refl]
  with assms \<open>normalize_operation_id (er_op_id request) = Inr op\<close> \<open>bind_ledger_policy l0 c = Inr (l1, b)\<close>
  show thesis
    by (auto simp: edit_booking_def Let_def split_def res_bind_eq_Inr split: option.splits)
qed

lemma edit_owned_Inr:
  assumes "edit_owned env c request op signature l = Inr (l', res, logs, ch)"
  obtains r d where "find_reservation l (er_reservation_id request) = Some r" "rs_status r = STATUS_ACTIVE"
    "rs_uid r = actor_uid (er_actor request)" "edit_demand c request r = Inr d"
    "if rs_start_at r \<le> oe_now env
     then edit_started_reservation env c request op signature (dm_capacities d) l r = Inr (l', res, logs, ch)
     else edit_future_reservation env c request op signature d l r = Inr (l', res, logs, ch)"
  using assms by (auto simp: edit_owned_def res_bind_eq_Inr split: option.splits if_splits)

lemma edit_booking_keeps:
  assumes "edit_booking sha256 env c request l0 = Inr (l', res, logs, ch)"
    and c: "config_ok c" and wf: "ledger_wf c (lg_reservations l0)"
    and clock: "oe_now env \<le> sc_now (oe_search env)"
  shows "ledger_wf c (lg_reservations l')"
    and "ledger_safe (max_shared_users c) (sc_now (oe_search env)) (lg_reservations l0) \<Longrightarrow>
      ledger_safe (max_shared_users c) (sc_now (oe_search env)) (lg_reservations l')"
proof -
  let ?safe = "\<lambda>l. ledger_safe (max_shared_users c) (sc_now (oe_search env)) (lg_reservations l)"
  from assms(1) obtain op l1 b l where st: "bind_ledger_policy l0 c = Inr (l1, b)"
    "l = fst (maintain_ledger l1 (oe_now env) (ledger_retention_days c))"
    and out: "l' = l \<or> edit_owned env c request op (edit_operation_signature sha256 request) l = Inr (l', res, logs, ch)"
    by (rule edit_booking_Inr) auto
  note l1 = bind_ledger_policy_reservations [OF st(1)]
  have wf': "ledger_wf c (lg_reservations l)" using wf by (simp add: st(2) l1 maintain_wf)
  have safe': "?safe l" if "?safe l0" using that clock by (simp add: st(2) l1 maintain_safe)
  have "ledger_wf c (lg_reservations l') \<and> (?safe l \<longrightarrow> ?safe l')"
    using out
  proof
    assume "edit_owned env c request op (edit_operation_signature sha256 request) l = Inr (l', res, logs, ch)"
    then show ?thesis
    proof (rule edit_owned_Inr, goal_cases)
      case (1 r d)
      have "r \<in> set (lg_reservations l)" using 1(1) by (auto simp: find_reservation_def dest: find_split)
      then have "oe_now env < rs_end_at r" using 1(2) unfolding st(2) by (rule maintain_live)
      with 1(5) show ?thesis
        using edit_started_keeps [OF _ c 1(1) wf'] edit_future_keeps [OF _ 1(4) c 1(1) wf']
        by (auto split: if_splits)
    qed
  qed (use wf' in auto)
  with safe' show "ledger_wf c (lg_reservations l')" and "?safe l0 \<Longrightarrow> ?safe l'" by auto
qed

end
