(* ===== verification/Violations.thy ===== *)
theory Violations
  imports Preservation
begin

text \<open>
  \<^verbatim>\<open>find_policy_violations\<close>: the audit of a ledger. Its checks are pairwise and per piece of
  time; the lemmas show that an empty report is exactly the promise of \<open>ledger_safe\<close> together
  with valid share counts.
\<close>

datatype violation =
    InvalidShareUnits string json datetime datetime
  | ExclusiveOverlap int string string datetime datetime datetime datetime datetime datetime
  | SharedCapacity int int int int "string list" datetime datetime

fun violation_start :: "violation \<Rightarrow> datetime" where
  "violation_start (InvalidShareUnits _ _ s _) = s"
| "violation_start (ExclusiveOverlap _ _ _ _ _ _ _ s _) = s"
| "violation_start (SharedCapacity _ _ _ _ _ s _) = s"

fun violation_gpu :: "violation \<Rightarrow> int" where
  "violation_gpu (InvalidShareUnits _ _ _ _) = - 1"
| "violation_gpu (ExclusiveOverlap g _ _ _ _ _ _ _ _) = g"
| "violation_gpu (SharedCapacity g _ _ _ _ _ _) = g"

fun violation_type :: "violation \<Rightarrow> string" where
  "violation_type (InvalidShareUnits _ _ _ _) = ''invalid-share-units''"
| "violation_type (ExclusiveOverlap _ _ _ _ _ _ _ _ _) = ''exclusive-overlap''"
| "violation_type (SharedCapacity _ _ _ _ _ _ _) = ''shared-capacity''"

definition find_invalid_share_unit_violations :: "reservation list \<Rightarrow> int \<Rightarrow> violation list" where
  "find_invalid_share_unit_violations active cap =
     concat (map (\<lambda>r.
       case rs_share_units r of
         None \<Rightarrow> []
       | Some v \<Rightarrow>
           (if rs_mode r \<noteq> MODE_SHARED then []
            else case normalize_share_units (Some v) cap of
              Inl _ \<Rightarrow> [InvalidShareUnits (rs_id r) v (rs_start_at r) (rs_end_at r)]
            | Inr _ \<Rightarrow> [])) active)"

text \<open>\<^verbatim>\<open>for index, left in enumerate(xs): for right in xs[index + 1 :]\<close>\<close>

fun pairs :: "'a list \<Rightarrow> ('a \<times> 'a) list" where
  "pairs [] = []"
| "pairs (x # xs) = map (Pair x) xs @ pairs xs"

definition pair_violations :: "reservation \<Rightarrow> reservation \<Rightarrow> violation list" where
  "pair_violations left right =
     (if rs_mode left \<noteq> MODE_EXCLUSIVE \<and> rs_mode right \<noteq> MODE_EXCLUSIVE then []
      else if \<not> overlaps (rs_start_at left) (rs_end_at left) (rs_start_at right) (rs_end_at right) then []
      else map (\<lambda>gpu. ExclusiveOverlap gpu (rs_id left) (rs_id right) (rs_start_at left) (rs_end_at left)
                  (rs_start_at right) (rs_end_at right)
                  (max (rs_start_at left) (rs_start_at right)) (min (rs_end_at left) (rs_end_at right)))
             (sorted_set (filter (\<lambda>g. g \<in> set (rs_gpus right)) (rs_gpus left))))"

definition find_exclusive_overlap_violations :: "reservation list \<Rightarrow> violation list" where
  "find_exclusive_overlap_violations active = concat (map (\<lambda>(left, right). pair_violations left right) (pairs active))"

definition shared_on_gpu :: "reservation list \<Rightarrow> int \<Rightarrow> reservation list" where
  "shared_on_gpu active gpu = filter (\<lambda>r. rs_mode r = MODE_SHARED \<and> gpu \<in> set (rs_gpus r)) active"

definition boundary_points :: "reservation list \<Rightarrow> datetime list" where
  "boundary_points rs = sorted_set (map rs_start_at rs @ map rs_end_at rs)"

definition segment_units :: "reservation list \<Rightarrow> int \<Rightarrow> datetime \<Rightarrow> datetime \<Rightarrow> int" where
  "segment_units shared cap left right =
     sum_list (map (\<lambda>r. reservation_share_units r cap)
       (filter (\<lambda>r. overlaps left right (rs_start_at r) (rs_end_at r)) shared))"

definition find_shared_capacity_violations :: "reservation list \<Rightarrow> int \<Rightarrow> violation list" where
  "find_shared_capacity_violations active cap =
     concat (map (\<lambda>gpu.
       let shared = shared_on_gpu active gpu
       in concat (map (\<lambda>(left, right).
            let overlapping = filter (\<lambda>r. overlaps left right (rs_start_at r) (rs_end_at r)) shared;
                used_units = segment_units shared cap left right
            in if left \<ge> right \<or> used_units \<le> cap then []
               else [SharedCapacity gpu (int (length overlapping)) used_units cap (map rs_id overlapping) left right])
          (adjacent (boundary_points shared))))
       (sorted_set (concat (map rs_gpus active))))"

definition find_policy_violations :: "ledger \<Rightarrow> int \<Rightarrow> datetime \<Rightarrow> violation list" where
  "find_policy_violations l cap now =
     (let active = list_active l now
      in sort_key (\<lambda>v. (to_iso (violation_start v), violation_gpu v, violation_type v))
           (find_invalid_share_unit_violations active cap @ find_exclusive_overlap_violations active
            @ find_shared_capacity_violations active cap))"


section \<open>What an empty report means\<close>

definition share_valid :: "int \<Rightarrow> reservation \<Rightarrow> bool" where
  "share_valid cap r \<longleftrightarrow> (case rs_share_units r of None \<Rightarrow> True
     | Some v \<Rightarrow> rs_mode r \<noteq> MODE_SHARED \<or> \<not> isl (normalize_share_units (Some v) cap))"

lemma invalid_share_nil:
  "find_invalid_share_unit_violations active cap = [] \<longleftrightarrow> list_all (share_valid cap) active"
  by (auto simp: find_invalid_share_unit_violations_def share_valid_def list_all_iff isl_def
      split: option.splits sum.splits)

text \<open>Holders are read off any list with the same active reservations.\<close>

lemma gpu_safe_perm:
  assumes "mset xs = mset ys"
  shows "gpu_safe cap xs = gpu_safe cap ys"
proof -
  have "held_units cap xs = held_units cap ys"
    using assms by (simp add: held_units_def flip: sum_mset_sum_list)
  then show ?thesis
    using mset_eq_setD [OF assms] mset_eq_length [OF assms] by (simp add: gpu_safe_def)
qed

lemma list_active_mset:
  "mset (list_active l now) =
     mset (filter (\<lambda>r. rs_status r = STATUS_ACTIVE \<and> now < rs_end_at r) (lg_reservations l))"
  by (simp add: list_active_def index_records_def index_from_ledger_spans multiset.map_comp comp_def)

lemma set_list_active:
  "set (list_active l now) = {r \<in> set (lg_reservations l). rs_status r = STATUS_ACTIVE \<and> now < rs_end_at r}"
  using mset_eq_setD [OF list_active_mset] by auto

lemma holders_active:
  assumes "now \<le> t"
  shows "mset (holders (list_active l now) g t) = mset (holders (lg_reservations l) g t)"
proof -
  have "mset (holders (list_active l now) g t) =
      mset (filter (occupies g t) (filter (\<lambda>r. rs_status r = STATUS_ACTIVE \<and> now < rs_end_at r) (lg_reservations l)))"
    unfolding holders_filter by (metis list_active_mset mset_filter)
  also have "filter (occupies g t) (filter (\<lambda>r. rs_status r = STATUS_ACTIVE \<and> now < rs_end_at r) (lg_reservations l))
      = holders (lg_reservations l) g t"
    unfolding holders_filter filter_filter by (rule filter_cong) (use assms in \<open>auto simp: occupies_def\<close>)
  finally show ?thesis .
qed

lemma ledger_safe_active: "ledger_safe cap now (list_active l now) = ledger_safe cap now (lg_reservations l)"
  using gpu_safe_perm [OF holders_active] by (simp add: ledger_safe_def)

text \<open>Pairs and the number of holders.\<close>

lemma pairs_sole:
  "(\<forall>(x, y) \<in> set (pairs xs). P x \<and> P y \<longrightarrow> \<not> (E x \<or> E y)) \<longleftrightarrow>
   (\<forall>x \<in> set (filter P xs). E x \<longrightarrow> length (filter P xs) = 1)"
proof (induction xs)
  case (Cons z zs)
  have "(\<forall>(x, y) \<in> set (pairs (z # zs)). P x \<and> P y \<longrightarrow> \<not> (E x \<or> E y)) \<longleftrightarrow>
      (\<forall>y \<in> set zs. P z \<and> P y \<longrightarrow> \<not> (E z \<or> E y)) \<and>
      (\<forall>x \<in> set (filter P zs). E x \<longrightarrow> length (filter P zs) = 1)"
    unfolding Cons.IH [symmetric] by auto
  also have "\<dots> \<longleftrightarrow> (\<forall>x \<in> set (filter P (z # zs)). E x \<longrightarrow> length (filter P (z # zs)) = 1)"
    by (cases "P z"; cases "filter P zs") (auto simp: filter_empty_conv filter_eq_Cons_iff)
  finally show ?case .
qed simp

lemma pair_violations_nil:
  "pair_violations x y = [] \<longleftrightarrow>
     \<not> ((rs_mode x = MODE_EXCLUSIVE \<or> rs_mode y = MODE_EXCLUSIVE)
        \<and> overlaps (rs_start_at x) (rs_end_at x) (rs_start_at y) (rs_end_at y)
        \<and> set (rs_gpus x) \<inter> set (rs_gpus y) \<noteq> {})"
  by (auto simp: pair_violations_def simp flip: set_empty)

text \<open>Two live reservations overlap on a GPU exactly when they hold it together from now on.\<close>

lemma overlap_together:
  assumes "x \<in> set (list_active l now)" "y \<in> set (list_active l now)" "span_ok x" "span_ok y"
  shows "overlaps (rs_start_at x) (rs_end_at x) (rs_start_at y) (rs_end_at y)
      \<and> set (rs_gpus x) \<inter> set (rs_gpus y) \<noteq> {}
    \<longleftrightarrow> (\<exists>g t. now \<le> t \<and> occupies g t x \<and> occupies g t y)"
proof
  assume "overlaps (rs_start_at x) (rs_end_at x) (rs_start_at y) (rs_end_at y)
      \<and> set (rs_gpus x) \<inter> set (rs_gpus y) \<noteq> {}"
  then obtain g where "g \<in> set (rs_gpus x)" "g \<in> set (rs_gpus y)"
    and "rs_start_at x < rs_end_at y" "rs_start_at y < rs_end_at x" by (auto simp: overlaps_def)
  with assms show "\<exists>g t. now \<le> t \<and> occupies g t x \<and> occupies g t y"
    by (intro exI [of _ g] exI [of _ "max now (max (rs_start_at x) (rs_start_at y))"])
      (auto simp: occupies_def set_list_active span_ok_def)
qed (auto simp: occupies_def overlaps_def)

lemma pairs_subset: "(x, y) \<in> set (pairs xs) \<Longrightarrow> x \<in> set xs \<and> y \<in> set xs"
  by (induction xs) auto

lemma exclusive_nil:
  assumes "list_all span_ok (lg_reservations l)"
  shows "find_exclusive_overlap_violations (list_active l now) = [] \<longleftrightarrow>
    (\<forall>g t. now \<le> t \<longrightarrow> (\<forall>r \<in> set (holders (list_active l now) g t). rs_mode r = MODE_EXCLUSIVE \<longrightarrow>
       length (holders (list_active l now) g t) = 1))"
proof -
  let ?A = "list_active l now"
  have ok: "span_ok r" if "r \<in> set ?A" for r using that assms by (simp add: set_list_active list_all_iff)
  have "find_exclusive_overlap_violations ?A = [] \<longleftrightarrow> (\<forall>(x, y) \<in> set (pairs ?A). pair_violations x y = [])"
    by (auto simp: find_exclusive_overlap_violations_def)
  also have "\<dots> \<longleftrightarrow> (\<forall>(x, y) \<in> set (pairs ?A). \<forall>g t. now \<le> t \<longrightarrow> occupies g t x \<and> occupies g t y \<longrightarrow>
      \<not> (rs_mode x = MODE_EXCLUSIVE \<or> rs_mode y = MODE_EXCLUSIVE))"
  proof (intro ball_cong refl, clarify)
    fix x y assume "(x, y) \<in> set (pairs ?A)"
    then have xy: "x \<in> set ?A" "y \<in> set ?A" by (auto dest: pairs_subset)
    show "(pair_violations x y = []) = (\<forall>g t. now \<le> t \<longrightarrow> occupies g t x \<and> occupies g t y \<longrightarrow>
      \<not> (rs_mode x = MODE_EXCLUSIVE \<or> rs_mode y = MODE_EXCLUSIVE))"
      unfolding pair_violations_nil using overlap_together [OF xy ok [OF xy(1)] ok [OF xy(2)]] by blast
  qed
  also have "\<dots> \<longleftrightarrow> (\<forall>g t. now \<le> t \<longrightarrow> (\<forall>(x, y) \<in> set (pairs ?A). occupies g t x \<and> occupies g t y \<longrightarrow>
      \<not> (rs_mode x = MODE_EXCLUSIVE \<or> rs_mode y = MODE_EXCLUSIVE)))" by blast
  finally show ?thesis unfolding pairs_sole holders_filter .
qed

text \<open>Between two neighbouring boundaries the set of reservations in force does not change.\<close>

lemma boundary_piece:
  assumes "(a, b) \<in> set (adjacent (boundary_points rs))" and "a \<le> t" and "t < b" and "r \<in> set rs"
  shows "overlaps a b (rs_start_at r) (rs_end_at r) \<longleftrightarrow> rs_start_at r \<le> t \<and> t < rs_end_at r"
proof -
  have gap: "p \<le> a \<or> b \<le> p" if "p \<in> set (boundary_points rs)" for p
    by (rule adjacent_gap [OF _ assms(1) that]) (simp add: boundary_points_def)
  have "rs_start_at r \<in> set (boundary_points rs)" "rs_end_at r \<in> set (boundary_points rs)"
    using assms(4) by (simp_all add: boundary_points_def)
  from gap [OF this(1)] gap [OF this(2)] assms(2,3) show ?thesis by (auto simp: overlaps_def)
qed

lemma held_units_shared:
  assumes "\<forall>r \<in> set A. rs_status r = STATUS_ACTIVE"
  shows "held_units cap (holders A g t) = sum_list (map (\<lambda>r. reservation_share_units r cap)
    (filter (\<lambda>r. rs_start_at r \<le> t \<and> t < rs_end_at r) (shared_on_gpu A g)))"
  unfolding held_units_def holders_filter shared_on_gpu_def filter_filter
  by (rule arg_cong [where f = sum_list], rule arg_cong [where f = "map _"], rule filter_cong)
    (use assms in \<open>auto simp: occupies_def\<close>)

lemma segment_units_instant:
  assumes "(a, b) \<in> set (adjacent (boundary_points (shared_on_gpu A g)))" and "a \<le> t" and "t < b"
    and "\<forall>r \<in> set A. rs_status r = STATUS_ACTIVE"
  shows "segment_units (shared_on_gpu A g) cap a b = held_units cap (holders A g t)"
  unfolding segment_units_def held_units_shared [OF assms(4)]
  by (rule arg_cong [where f = sum_list], rule arg_cong [where f = "map _"], rule filter_cong)
    (auto simp: boundary_piece [OF assms(1-3)])

lemma concat_map_nil: "concat (map f xs) = [] \<longleftrightarrow> (\<forall>x \<in> set xs. f x = [])"
  by auto

lemma capacity_nil:
  assumes "list_all span_ok (lg_reservations l)" and "0 \<le> cap"
  shows "find_shared_capacity_violations (list_active l now) cap = [] \<longleftrightarrow>
    (\<forall>g t. now \<le> t \<longrightarrow> held_units cap (holders (list_active l now) g t) \<le> cap)" (is "?nil \<longleftrightarrow> ?held")
proof -
  let ?A = "list_active l now"
  have active: "\<forall>r \<in> set ?A. rs_status r = STATUS_ACTIVE" by (simp add: set_list_active)
  have pieces: "?nil \<longleftrightarrow> (\<forall>g \<in> set (concat (map rs_gpus ?A)).
      \<forall>(a, b) \<in> set (adjacent (boundary_points (shared_on_gpu ?A g))).
        a \<ge> b \<or> segment_units (shared_on_gpu ?A g) cap a b \<le> cap)"
    unfolding find_shared_capacity_violations_def Let_def split_def concat_map_nil set_sorted_set
    by (intro ball_cong refl) simp
  show ?thesis
  proof
    assume nil: ?nil
    show ?held
    proof (intro allI impI)
      fix g t assume t: "now \<le> t"
      show "held_units cap (holders ?A g t) \<le> cap"
      proof (cases "filter (\<lambda>r. rs_start_at r \<le> t \<and> t < rs_end_at r) (shared_on_gpu ?A g)")
        case Nil
        with assms(2) show ?thesis by (simp add: held_units_shared [OF active])
      next
        case (Cons i rest)
        then have i: "i \<in> set (shared_on_gpu ?A g)" "rs_start_at i \<le> t" "t < rs_end_at i"
          using list.set_intros(1) [of i rest] unfolding Cons [symmetric] by auto
        then have "rs_start_at i \<in> set (boundary_points (shared_on_gpu ?A g))"
          "rs_end_at i \<in> set (boundary_points (shared_on_gpu ?A g))" by (simp_all add: boundary_points_def)
        then obtain a b where ab: "(a, b) \<in> set (adjacent (boundary_points (shared_on_gpu ?A g)))" "a \<le> t" "t < b"
          using adjacent_cover [of "boundary_points (shared_on_gpu ?A g)"] i(2,3)
          by (metis boundary_points_def sorted_sorted_set)
        have "g \<in> set (concat (map rs_gpus ?A))" using i(1) by (auto simp: shared_on_gpu_def)
        with nil ab have "segment_units (shared_on_gpu ?A g) cap a b \<le> cap" unfolding pieces by fastforce
        then show ?thesis by (simp add: segment_units_instant [OF ab active])
      qed
    qed
  next
    assume held: ?held
    have "segment_units (shared_on_gpu ?A g) cap a b \<le> cap"
      if ab: "(a, b) \<in> set (adjacent (boundary_points (shared_on_gpu ?A g)))" and lt: "a < b" for g a b
    proof (cases "now < b")
      case True
      with lt held show ?thesis using segment_units_instant [OF ab, of "max a now" cap] active by simp
    next
      case False
      have "segment_units (shared_on_gpu ?A g) cap a b \<le> held_units cap (holders ?A g now)"
        unfolding segment_units_def held_units_shared [OF active]
        by (rule sum_list_filter_le)
          (use False in \<open>auto simp: overlaps_def shared_on_gpu_def set_list_active
             intro: order_trans [OF _ reservation_share_units_pos]\<close>)
      also have "\<dots> \<le> cap" using held by simp
      finally show ?thesis .
    qed
    then show ?nil unfolding pieces by (fastforce simp: not_le)
  qed
qed

lemma find_policy_violations_nil:
  assumes "list_all span_ok (lg_reservations l)" and "0 \<le> cap"
  shows "find_policy_violations l cap now = [] \<longleftrightarrow>
    ledger_safe cap now (lg_reservations l) \<and> list_all (share_valid cap) (list_active l now)"
proof -
  have "ledger_safe cap now (list_active l now) \<longleftrightarrow>
      find_exclusive_overlap_violations (list_active l now) = []
      \<and> find_shared_capacity_violations (list_active l now) cap = []"
    unfolding exclusive_nil [OF assms(1)] capacity_nil [OF assms] by (auto simp: ledger_safe_def gpu_safe_def)
  moreover have "sort_key f xs = [] \<longleftrightarrow> xs = []" for f :: "violation \<Rightarrow> string \<times> int \<times> string" and xs
    by (simp flip: set_empty)
  ultimately show ?thesis
    by (simp add: find_policy_violations_def Let_def invalid_share_nil ledger_safe_active conj_ac)
qed

text \<open>
  C16: the consistency check decides the promise. For a ledger of proper intervals, it reports
  nothing exactly when, from now on, no GPU is oversold and every active shared reservation stores a
  valid number of slots; each of the three kinds of finding is reported exactly when its part fails.
\<close>

theorem violations_decide_promise:
  assumes "list_all span_ok (lg_reservations l)" and "0 \<le> cap"
  shows "(find_policy_violations l cap now = [] \<longleftrightarrow>
      ledger_safe cap now (lg_reservations l) \<and> list_all (share_valid cap) (list_active l now))
    \<and> (find_exclusive_overlap_violations (list_active l now) = [] \<longleftrightarrow>
      (\<forall>g t. now \<le> t \<longrightarrow> (\<forall>r \<in> set (holders (list_active l now) g t). rs_mode r = MODE_EXCLUSIVE \<longrightarrow>
         length (holders (list_active l now) g t) = 1)))
    \<and> (find_shared_capacity_violations (list_active l now) cap = [] \<longleftrightarrow>
      (\<forall>g t. now \<le> t \<longrightarrow> held_units cap (holders (list_active l now) g t) \<le> cap))"
  using find_policy_violations_nil [OF assms] exclusive_nil [OF assms(1)] capacity_nil [OF assms] by blast

theorem violations_decide_promise_witness:
  "find_policy_violations (sample_ledger [sample_reservation ''a'' MODE_EXCLUSIVE [0] 1 4,
      sample_reservation ''b'' MODE_SHARED [0, 1] 3 9]) 2 0 \<noteq> []
   \<and> \<not> (ledger_safe 2 0 [sample_reservation ''a'' MODE_EXCLUSIVE [0] 1 4, sample_reservation ''b'' MODE_SHARED [0, 1] 3 9]
        \<and> list_all (share_valid 2) (list_active (sample_ledger [sample_reservation ''a'' MODE_EXCLUSIVE [0] 1 4,
            sample_reservation ''b'' MODE_SHARED [0, 1] 3 9]) 0))"
proof -
  let ?l = "sample_ledger [sample_reservation ''a'' MODE_EXCLUSIVE [0] 1 4, sample_reservation ''b'' MODE_SHARED [0, 1] 3 9]"
  have "find_policy_violations ?l 2 0 \<noteq> []" by code_simp
  moreover have "list_all span_ok (lg_reservations ?l)" by (simp add: span_ok_def sample_reservation_def)
  ultimately show ?thesis using violations_decide_promise [of ?l 2 0] by simp
qed

end
