(* ===== verification/Occupancy.thy ===== *)
theory Occupancy
  imports Safety
begin

text \<open>
  \<^verbatim>\<open>bk/scheduler.py\<close>, occupancy of a stored reservation: the peaks and the memory headroom the
  status views show. The loops sweep the pieces of the reservation's interval; the lemmas show
  that they report the peak over its instants.
\<close>

definition shared_record_count_in_segment :: "reservation list \<Rightarrow> datetime \<Rightarrow> datetime \<Rightarrow> int" where
  "shared_record_count_in_segment rs start end =
     int (length (filter (\<lambda>r. rs_mode r = MODE_SHARED \<and> overlaps start end (rs_start_at r) (rs_end_at r)) rs))"

definition shared_capacity_units_in_segment :: "reservation list \<Rightarrow> datetime \<Rightarrow> datetime \<Rightarrow> int \<Rightarrow> int" where
  "shared_capacity_units_in_segment rs start end cap =
     sum_list (map (\<lambda>r. reservation_share_units r cap)
       (filter (\<lambda>r. rs_mode r = MODE_SHARED \<and> overlaps start end (rs_start_at r) (rs_end_at r)) rs))"

definition shared_memory_in_segment :: "reservation list \<Rightarrow> datetime \<Rightarrow> datetime \<Rightarrow> int \<Rightarrow> int \<Rightarrow> int" where
  "shared_memory_in_segment rs start end usable cap =
     sum_list (map (\<lambda>r. charged_memory r usable cap)
       (filter (\<lambda>r. rs_mode r = MODE_SHARED \<and> overlaps start end (rs_start_at r) (rs_end_at r)) rs))"

definition shared_record_count_for_gpu :: "reservation list \<Rightarrow> int \<Rightarrow> datetime \<Rightarrow> datetime \<Rightarrow> int" where
  "shared_record_count_for_gpu rs gpu start end =
     shared_record_count_in_segment (filter (\<lambda>r. gpu \<in> set (rs_gpus r)) rs) start end"

definition shared_capacity_units_for_gpu :: "reservation list \<Rightarrow> int \<Rightarrow> datetime \<Rightarrow> datetime \<Rightarrow> int \<Rightarrow> int" where
  "shared_capacity_units_for_gpu rs gpu start end cap =
     shared_capacity_units_in_segment (filter (\<lambda>r. gpu \<in> set (rs_gpus r)) rs) start end cap"

text \<open>The shared reservations that meet \<open>r\<close> on some GPU, and the points they cut it at.\<close>

definition neighbours :: "reservation list \<Rightarrow> reservation \<Rightarrow> reservation list" where
  "neighbours rs r = filter (\<lambda>i. rs_mode i = MODE_SHARED \<and> set (rs_gpus i) \<inter> set (rs_gpus r) \<noteq> {}
     \<and> overlaps (rs_start_at r) (rs_end_at r) (rs_start_at i) (rs_end_at i)) rs"

text \<open>The two nested loops that keep a running maximum.\<close>

definition peak_over ::
  "(int \<Rightarrow> datetime \<Rightarrow> datetime \<Rightarrow> int) \<Rightarrow> int list \<Rightarrow> (datetime \<times> datetime) list \<Rightarrow> int" where
  "peak_over f gpus segments =
     fold (\<lambda>(left, right) peak. if left \<ge> right then peak else fold (\<lambda>g p. max p (f g left right)) gpus peak)
       segments 0"

definition max_shared_record_count_for_reservation :: "reservation list \<Rightarrow> reservation \<Rightarrow> int" where
  "max_shared_record_count_for_reservation rs r =
     (if rs_mode r \<noteq> MODE_SHARED then 0
      else peak_over (shared_record_count_for_gpu rs) (rs_gpus r)
        (adjacent (window_points rs_start_at rs_end_at (neighbours rs r) (rs_start_at r) (rs_end_at r))))"

definition max_shared_capacity_units_for_reservation :: "reservation list \<Rightarrow> reservation \<Rightarrow> int \<Rightarrow> int" where
  "max_shared_capacity_units_for_reservation rs r cap =
     (if rs_mode r \<noteq> MODE_SHARED then 0
      else peak_over (\<lambda>g left right. shared_capacity_units_for_gpu rs g left right cap) (rs_gpus r)
        (adjacent (window_points rs_start_at rs_end_at (neighbours rs r) (rs_start_at r) (rs_end_at r))))"

definition gpu_headroom :: "reservation list \<Rightarrow> reservation \<Rightarrow> int \<Rightarrow> int \<Rightarrow> int \<Rightarrow> int" where
  "gpu_headroom rs r gpu usable cap =
     (let relevant = filter (\<lambda>i. rs_mode i = MODE_SHARED \<and> gpu \<in> set (rs_gpus i)
            \<and> overlaps (rs_start_at r) (rs_end_at r) (rs_start_at i) (rs_end_at i)) rs;
          peak = peak_over (\<lambda>_ left right. shared_memory_in_segment relevant left right usable cap) [gpu]
            (adjacent (window_points rs_start_at rs_end_at relevant (rs_start_at r) (rs_end_at r)))
      in max 0 (usable - peak))"

definition shared_memory_headroom_for_reservation ::
  "reservation list \<Rightarrow> reservation \<Rightarrow> (int \<rightharpoonup> int) \<Rightarrow> int \<Rightarrow> int \<Rightarrow> (int \<times> int) list" where
  "shared_memory_headroom_for_reservation rs r capacities cap reserve =
     (if rs_mode r \<noteq> MODE_SHARED then []
      else List.map_filter (\<lambda>gpu.
        case capacities gpu of
          None \<Rightarrow> None
        | Some capacity \<Rightarrow>
            (if capacity = 0 then None
             else Some (gpu, gpu_headroom rs r gpu (max 0 (capacity - reserve)) cap)))
        (rs_gpus r))"


section \<open>The loops compute peaks\<close>

lemma fold_max_le: "fold (\<lambda>x p. max p (f x)) xs a \<le> n \<longleftrightarrow> a \<le> n \<and> (\<forall>x \<in> set xs. f x \<le> (n :: int))"
  by (induction xs arbitrary: a) auto

lemma peak_over_le:
  assumes "0 \<le> n"
  shows "peak_over f gpus segments \<le> n \<longleftrightarrow> (\<forall>(a, b) \<in> set segments. a < b \<longrightarrow> (\<forall>g \<in> set gpus. f g a b \<le> n))"
proof -
  have "fold (\<lambda>(a, b) p. if a \<ge> b then p else fold (\<lambda>g p. max p (f g a b)) gpus p) segments p \<le> n \<longleftrightarrow>
      p \<le> n \<and> (\<forall>(a, b) \<in> set segments. a < b \<longrightarrow> (\<forall>g \<in> set gpus. f g a b \<le> n))" for p
    by (induction segments arbitrary: p) (auto simp: fold_max_le not_le split: if_splits)
  with assms show ?thesis by (simp add: peak_over_def)
qed

text \<open>Shared reservations on a GPU at an instant.\<close>

definition sharers :: "reservation list \<Rightarrow> int \<Rightarrow> datetime \<Rightarrow> reservation list" where
  "sharers rs gpu t = filter (\<lambda>i. rs_mode i = MODE_SHARED \<and> gpu \<in> set (rs_gpus i)
     \<and> rs_start_at i \<le> t \<and> t < rs_end_at i) rs"

lemma sweep_neighbours:
  assumes "rs_start_at r < rs_end_at r" and g: "g \<in> set (rs_gpus r)"
  shows "(\<forall>(a, b) \<in> set (adjacent (window_points rs_start_at rs_end_at (neighbours rs r) (rs_start_at r) (rs_end_at r))).
      P (filter (\<lambda>i. rs_mode i = MODE_SHARED \<and> g \<in> set (rs_gpus i) \<and> overlaps a b (rs_start_at i) (rs_end_at i)) rs))
    \<longleftrightarrow> (\<forall>t. rs_start_at r \<le> t \<and> t < rs_end_at r \<longrightarrow> P (sharers rs g t))"
    (is "?pieces \<longleftrightarrow> ?instants")
proof -
  let ?N = "neighbours rs r" and ?s = "rs_start_at r" and ?e = "rs_end_at r"
  let ?pts = "window_points rs_start_at rs_end_at ?N ?s ?e"
  let ?Q = "\<lambda>xs. P (filter (\<lambda>i. g \<in> set (rs_gpus i)) xs)"
  have rel: "\<forall>i \<in> set ?N. rs_start_at i < ?e \<and> ?s < rs_end_at i" by (auto simp: neighbours_def overlaps_def)
  have within: "filter (\<lambda>i. g \<in> set (rs_gpus i)) (filter (\<lambda>i. overlaps a b (rs_start_at i) (rs_end_at i)) ?N) =
      filter (\<lambda>i. rs_mode i = MODE_SHARED \<and> g \<in> set (rs_gpus i) \<and> overlaps a b (rs_start_at i) (rs_end_at i)) rs"
    if "(a, b) \<in> set (adjacent ?pts)" for a b
  proof -
    have "?s \<le> a" "b \<le> ?e"
      using adjacent_subset [OF that] record_sweep.points_bounds [OF assms(1) rel] by auto
    then show ?thesis
      unfolding neighbours_def filter_filter using g by (intro filter_cong refl) (auto simp: overlaps_def)
  qed
  have "?pieces \<longleftrightarrow> (\<forall>(a, b) \<in> set (adjacent ?pts). ?Q (filter (\<lambda>i. overlaps a b (rs_start_at i) (rs_end_at i)) ?N))"
    using within by (intro ball_cong refl) auto
  also have "\<dots> \<longleftrightarrow> (\<forall>t. ?s \<le> t \<and> t < ?e \<longrightarrow> ?Q (filter (\<lambda>i. rs_start_at i \<le> t \<and> t < rs_end_at i) ?N))"
    by (rule record_sweep.pieces_iff_instants [OF assms(1) rel])
  also have "\<dots> \<longleftrightarrow> ?instants"
  proof (intro all_cong1 imp_cong refl)
    fix t assume t: "?s \<le> t \<and> t < ?e"
    have "filter (\<lambda>i. g \<in> set (rs_gpus i)) (filter (\<lambda>i. rs_start_at i \<le> t \<and> t < rs_end_at i) ?N) = sharers rs g t"
      unfolding neighbours_def sharers_def filter_filter using g t
      by (intro filter_cong refl) (auto simp: overlaps_def)
    then show "?Q (filter (\<lambda>i. rs_start_at i \<le> t \<and> t < rs_end_at i) ?N) = P (sharers rs g t)" by simp
  qed
  finally show ?thesis .
qed

text \<open>The reported peak of slots is bounded by \<open>n\<close> exactly when every instant is.\<close>

lemma max_units_le:
  assumes "rs_mode r = MODE_SHARED" and "rs_start_at r < rs_end_at r" and "0 \<le> n"
  shows "max_shared_capacity_units_for_reservation rs r cap \<le> n \<longleftrightarrow>
    (\<forall>g \<in> set (rs_gpus r). \<forall>t. rs_start_at r \<le> t \<and> t < rs_end_at r \<longrightarrow>
       sum_list (map (\<lambda>i. reservation_share_units i cap) (sharers rs g t)) \<le> n)"
proof -
  let ?segs = "adjacent (window_points rs_start_at rs_end_at (neighbours rs r) (rs_start_at r) (rs_end_at r))"
  have strict: "a < b" if "(a, b) \<in> set ?segs" for a b
    by (rule adjacent_strict [OF record_sweep.points_sorted record_sweep.points_distinct that])
  have f: "shared_capacity_units_for_gpu rs g a b cap = sum_list (map (\<lambda>i. reservation_share_units i cap)
      (filter (\<lambda>i. rs_mode i = MODE_SHARED \<and> g \<in> set (rs_gpus i) \<and> overlaps a b (rs_start_at i) (rs_end_at i)) rs))" for g a b
    by (simp add: shared_capacity_units_for_gpu_def shared_capacity_units_in_segment_def conj_ac)
  have "max_shared_capacity_units_for_reservation rs r cap \<le> n \<longleftrightarrow>
      (\<forall>g \<in> set (rs_gpus r). \<forall>(a, b) \<in> set ?segs. shared_capacity_units_for_gpu rs g a b cap \<le> n)"
    using strict assms(1) by (fastforce simp: max_shared_capacity_units_for_reservation_def peak_over_le [OF assms(3)])
  also have "\<dots> \<longleftrightarrow> (\<forall>g \<in> set (rs_gpus r). \<forall>t. rs_start_at r \<le> t \<and> t < rs_end_at r \<longrightarrow>
       sum_list (map (\<lambda>i. reservation_share_units i cap) (sharers rs g t)) \<le> n)"
    unfolding f by (intro ball_cong refl sweep_neighbours [OF assms(2), where P = "\<lambda>xs. sum_list (map _ xs) \<le> n"])
  finally show ?thesis .
qed

lemma max_count_le:
  assumes "rs_mode r = MODE_SHARED" and "rs_start_at r < rs_end_at r" and "0 \<le> n"
  shows "max_shared_record_count_for_reservation rs r \<le> n \<longleftrightarrow>
    (\<forall>g \<in> set (rs_gpus r). \<forall>t. rs_start_at r \<le> t \<and> t < rs_end_at r \<longrightarrow> int (length (sharers rs g t)) \<le> n)"
proof -
  let ?segs = "adjacent (window_points rs_start_at rs_end_at (neighbours rs r) (rs_start_at r) (rs_end_at r))"
  have strict: "a < b" if "(a, b) \<in> set ?segs" for a b
    by (rule adjacent_strict [OF record_sweep.points_sorted record_sweep.points_distinct that])
  have f: "shared_record_count_for_gpu rs g a b = int (length
      (filter (\<lambda>i. rs_mode i = MODE_SHARED \<and> g \<in> set (rs_gpus i) \<and> overlaps a b (rs_start_at i) (rs_end_at i)) rs))" for g a b
    by (simp add: shared_record_count_for_gpu_def shared_record_count_in_segment_def conj_ac)
  have "max_shared_record_count_for_reservation rs r \<le> n \<longleftrightarrow>
      (\<forall>g \<in> set (rs_gpus r). \<forall>(a, b) \<in> set ?segs. shared_record_count_for_gpu rs g a b \<le> n)"
    using strict assms(1) by (fastforce simp: max_shared_record_count_for_reservation_def peak_over_le [OF assms(3)])
  also have "\<dots> \<longleftrightarrow> (\<forall>g \<in> set (rs_gpus r). \<forall>t. rs_start_at r \<le> t \<and> t < rs_end_at r \<longrightarrow>
       int (length (sharers rs g t)) \<le> n)"
    unfolding f by (intro ball_cong refl sweep_neighbours [OF assms(2), where P = "\<lambda>xs. int (length xs) \<le> n"])
  finally show ?thesis .
qed

lemma peak_over_nonneg: "0 \<le> peak_over f gpus segments"
proof -
  have step: "p \<le> fold (\<lambda>g p. max p (f g a b)) gpus (p :: int)" for a b p
    using fold_max_le [of "\<lambda>g. f g a b" gpus p "fold (\<lambda>g p. max p (f g a b)) gpus p"] by simp
  have "p \<le> fold (\<lambda>(a, b) p. if a \<ge> b then p else fold (\<lambda>g p. max p (f g a b)) gpus p) segments p" for p
  proof (induction segments arbitrary: p)
    case (Cons x xs)
    obtain a b where x: "x = (a, b)" by (cases x)
    show ?case using Cons.IH [of p] order_trans [OF step Cons.IH, of p a b] by (auto simp: x)
  qed simp
  then show ?thesis by (simp add: peak_over_def)
qed

text \<open>A headroom of \<open>n\<close> is room for \<open>n\<close> more MiB at every instant of the reservation.\<close>

lemma headroom_ge:
  assumes "rs_start_at r < rs_end_at r" and "0 < n"
  shows "n \<le> gpu_headroom rs r g usable cap \<longleftrightarrow>
    (\<forall>t. rs_start_at r \<le> t \<and> t < rs_end_at r \<longrightarrow> held_memory usable cap (sharers rs g t) + n \<le> usable)"
proof -
  let ?s = "rs_start_at r" and ?e = "rs_end_at r"
  define N where "N = filter (\<lambda>i. rs_mode i = MODE_SHARED \<and> g \<in> set (rs_gpus i) \<and> overlaps ?s ?e (rs_start_at i) (rs_end_at i)) rs"
  define segs where "segs = adjacent (window_points rs_start_at rs_end_at N ?s ?e)"
  define peak where "peak = peak_over (\<lambda>_ a b. shared_memory_in_segment N a b usable cap) [g] segs"
  have rel: "\<forall>i \<in> set N. rs_start_at i < ?e \<and> ?s < rs_end_at i" by (auto simp: N_def overlaps_def)
  have strict: "a < b" if "(a, b) \<in> set segs" for a b
    using that unfolding segs_def by (rule adjacent_strict [OF record_sweep.points_sorted record_sweep.points_distinct])
  have piece: "shared_memory_in_segment N a b usable cap =
      held_memory usable cap (filter (\<lambda>i. overlaps a b (rs_start_at i) (rs_end_at i)) N)" for a b
    by (simp add: shared_memory_in_segment_def held_memory_def conj_ac)
  have inst: "filter (\<lambda>i. rs_start_at i \<le> t \<and> t < rs_end_at i) N = sharers rs g t" if "?s \<le> t" "t < ?e" for t
    unfolding N_def sharers_def filter_filter using that by (intro filter_cong refl) (auto simp: overlaps_def)
  have held: "0 \<le> held_memory usable cap xs" for xs
    unfolding held_memory_def by (rule sum_list_nonneg) (auto simp: charged_memory_def)
  have "n \<le> gpu_headroom rs r g usable cap \<longleftrightarrow> peak \<le> usable - n"
    using assms(2) unfolding gpu_headroom_def Let_def N_def [symmetric] segs_def [symmetric] peak_def [symmetric]
    by auto
  also have "\<dots> \<longleftrightarrow> 0 \<le> usable - n \<and> (\<forall>(a, b) \<in> set segs.
      held_memory usable cap (filter (\<lambda>i. overlaps a b (rs_start_at i) (rs_end_at i)) N) \<le> usable - n)"
  proof (cases "0 \<le> usable - n")
    case True
    show ?thesis unfolding peak_def peak_over_le [OF True] piece using True strict by fastforce
  next
    case False
    with peak_over_nonneg [of "\<lambda>_ a b. shared_memory_in_segment N a b usable cap" "[g]" segs] show ?thesis
      by (auto simp: peak_def)
  qed
  also have "\<dots> \<longleftrightarrow> 0 \<le> usable - n \<and> (\<forall>t. ?s \<le> t \<and> t < ?e \<longrightarrow>
      held_memory usable cap (filter (\<lambda>i. rs_start_at i \<le> t \<and> t < rs_end_at i) N) \<le> usable - n)"
    unfolding segs_def
    by (simp only: record_sweep.pieces_iff_instants [OF assms(1) rel, where P = "\<lambda>xs. held_memory usable cap xs \<le> usable - n"])
  also have "\<dots> \<longleftrightarrow> (\<forall>t. ?s \<le> t \<and> t < ?e \<longrightarrow> held_memory usable cap (sharers rs g t) + n \<le> usable)"
    using inst held [of "sharers rs g ?s"] assms(1) by (force simp: le_diff_eq)
  finally show ?thesis .
qed

text \<open>
  The peaks shown for a reservation are the true peaks. The number of shared reservations, and
  of slots, reported for a shared reservation is the least bound of what is shared on any of its GPUs
  at any instant of it.
\<close>

theorem occupancy_peaks:
  assumes "rs_mode r = MODE_SHARED" and "rs_start_at r < rs_end_at r" and "0 \<le> n"
  shows "(max_shared_capacity_units_for_reservation rs r cap \<le> n \<longleftrightarrow>
      (\<forall>g \<in> set (rs_gpus r). \<forall>t. rs_start_at r \<le> t \<and> t < rs_end_at r \<longrightarrow>
         sum_list (map (\<lambda>i. reservation_share_units i cap) (sharers rs g t)) \<le> n))
    \<and> (max_shared_record_count_for_reservation rs r \<le> n \<longleftrightarrow>
      (\<forall>g \<in> set (rs_gpus r). \<forall>t. rs_start_at r \<le> t \<and> t < rs_end_at r \<longrightarrow> int (length (sharers rs g t)) \<le> n))"
  using max_units_le [OF assms] max_count_le [OF assms] by blast

theorem occupancy_peaks_witness:
  "max_shared_record_count_for_reservation [sample_reservation ''a'' MODE_SHARED [0] 1 4, sample_reservation ''b'' MODE_SHARED [0, 1] 3 9]
     (sample_reservation ''a'' MODE_SHARED [0] 1 4) = 2
   \<and> int (length (sharers [sample_reservation ''a'' MODE_SHARED [0] 1 4,
        sample_reservation ''b'' MODE_SHARED [0, 1] 3 9] 0 3)) \<le> 2"
proof -
  let ?rs = "[sample_reservation ''a'' MODE_SHARED [0] 1 4, sample_reservation ''b'' MODE_SHARED [0, 1] 3 9]"
  let ?r = "sample_reservation ''a'' MODE_SHARED [0] 1 4"
  have "max_shared_record_count_for_reservation ?rs ?r = 2" by code_simp
  moreover have "rs_mode ?r = MODE_SHARED" "rs_start_at ?r = 1" "rs_end_at ?r = 4" "rs_gpus ?r = [0]"
    by (simp_all add: sample_reservation_def)
  ultimately show ?thesis using occupancy_peaks [of ?r 2 ?rs 2] by auto
qed

text \<open>
  the memory headroom shown for a GPU of a reservation is exact: it is at least \<open>n\<close> exactly
  when, at every instant of the reservation, what the shared reservations are charged leaves \<open>n\<close>.
\<close>

theorem memory_headroom_exact:
  assumes "rs_start_at r < rs_end_at r" and "0 < n"
  shows "n \<le> gpu_headroom rs r g usable cap \<longleftrightarrow>
    (\<forall>t. rs_start_at r \<le> t \<and> t < rs_end_at r \<longrightarrow> held_memory usable cap (sharers rs g t) + n \<le> usable)"
  using assms by (rule headroom_ge)

theorem memory_headroom_exact_witness:
  "held_memory 100 2 (sharers [sample_reservation ''a'' MODE_SHARED [0] 1 4] 0 3) + 50 \<le> 100
   \<and> 50 \<le> gpu_headroom [sample_reservation ''a'' MODE_SHARED [0] 1 4] (sample_reservation ''a'' MODE_SHARED [0] 1 4) 0 100 2"
proof -
  let ?r = "sample_reservation ''a'' MODE_SHARED [0] 1 4"
  have "50 \<le> gpu_headroom [?r] ?r 0 100 2" by code_simp
  moreover have "rs_start_at ?r = 1" "rs_end_at ?r = 4" by (simp_all add: sample_reservation_def)
  ultimately show ?thesis using memory_headroom_exact [of ?r 50 "[?r]" 0 100 2] by auto
qed

end
