(* ===== verification/Ledger_Schema.thy ===== *)
theory Ledger_Schema
  imports Ledger_Ops
begin

text \<open>
  \<^verbatim>\<open>bk/ledger_schema.py\<close>: the validator of a ledger document, over raw JSON. The messages are
  kept without the path prefix. A membership test of a list or an object in a Python set raises
  \<^verbatim>\<open>TypeError\<close>, which is a separate error: callers catch only \<^verbatim>\<open>ValueError\<close>.
\<close>

datatype schema_error = SchemaInvalid string | SchemaTypeError

definition MAX_RESERVATION_ID_LENGTH :: nat where "MAX_RESERVATION_ID_LENGTH = 128"
definition MAX_USERNAME_LENGTH :: nat where "MAX_USERNAME_LENGTH = 256"
definition MAX_NOTIFICATIONS_PER_RESERVATION :: nat where "MAX_NOTIFICATIONS_PER_RESERVATION = 128"

section \<open>Field checks\<close>

fun bounded_text :: "nat \<Rightarrow> json \<Rightarrow> (schema_error, string) result" where
  "bounded_text limit (JStr s) =
     raise_if (s = [] \<or> length s > limit) (SchemaInvalid ''must contain 1-limit characters'')
       (raise_if (has_control s) (SchemaInvalid ''must not contain control characters'') (Inr s))"
| "bounded_text limit _ = Inl (SchemaInvalid ''must contain 1-limit characters'')"

definition has_control_multiline :: "string \<Rightarrow> bool" where
  "has_control_multiline s \<longleftrightarrow> has_control (filter (\<lambda>ch. ch \<noteq> CHR 0x09 \<and> ch \<noteq> CHR 0x0A) s)"

fun bounded_multiline_text :: "nat \<Rightarrow> json \<Rightarrow> (schema_error, string) result" where
  "bounded_multiline_text limit (JStr s) =
     raise_if (s = [] \<or> length s > limit) (SchemaInvalid ''must contain 1-limit characters'')
       (raise_if (has_control_multiline s) (SchemaInvalid ''must not contain control characters'') (Inr s))"
| "bounded_multiline_text limit _ = Inl (SchemaInvalid ''must contain 1-limit characters'')"

definition uid_range :: "int \<Rightarrow> (schema_error, int) result" where
  "uid_range n = raise_if (n < 0 \<or> n > MAX_UID) (SchemaInvalid ''must be between 0 and MAX_UID'') (Inr n)"

fun check_uid :: "json \<Rightarrow> (schema_error, int) result" where
  "check_uid (JInt n) = uid_range n"
| "check_uid (JStr s) =
     (case py_int s of None \<Rightarrow> Inl (SchemaInvalid ''must be an integer UID'') | Some n \<Rightarrow> uid_range n)"
| "check_uid _ = Inl (SchemaInvalid ''must be an integer UID'')"

fun timestamp :: "json \<Rightarrow> (schema_error, datetime) result" where
  "timestamp (JStr s) =
     raise_if (s = [] \<or> length s > 64) (SchemaInvalid ''must be an ISO 8601 timestamp'')
       (case parse_iso s of
          None \<Rightarrow> Inl (SchemaInvalid ''must be an ISO 8601 timestamp'')
        | Some t \<Rightarrow> Inr t)"
| "timestamp _ = Inl (SchemaInvalid ''must be an ISO 8601 timestamp'')"

fun optional_positive_integer :: "json \<Rightarrow> (schema_error, unit) result" where
  "optional_positive_integer JNull = Inr ()"
| "optional_positive_integer (JInt n) =
     raise_if (n < 1) (SchemaInvalid ''must be a positive integer'') (Inr ())"
| "optional_positive_integer _ = Inl (SchemaInvalid ''must be a positive integer'')"

text \<open>\<^verbatim>\<open>if value.get(key) is not None: check(value[key])\<close>\<close>

definition when_present ::
  "json \<Rightarrow> (json \<Rightarrow> (schema_error, 'a) result) \<Rightarrow> (schema_error, unit) result" where
  "when_present v check = (if v = JNull then Inr () else res_map (\<lambda>_. ()) (check v))"

text \<open>\<^verbatim>\<open>if value not in {..}: raise\<close>\<close>

fun member_of :: "string list \<Rightarrow> string \<Rightarrow> json \<Rightarrow> (schema_error, string) result" where
  "member_of allowed message (JStr s) = raise_if (s \<notin> set allowed) (SchemaInvalid message) (Inr s)"
| "member_of allowed message (JArr _) = Inl SchemaTypeError"
| "member_of allowed message (JObj _) = Inl SchemaTypeError"
| "member_of allowed message _ = Inl (SchemaInvalid message)"

fun gpu_index :: "json \<Rightarrow> (schema_error, int) result" where
  "gpu_index (JInt g) =
     raise_if (g < 0 \<or> g \<ge> MAX_GPU_COUNT) (SchemaInvalid ''GPU index out of range'') (Inr g)"
| "gpu_index _ = Inl (SchemaInvalid ''must be an integer'')"

definition gpu_list :: "json \<Rightarrow> (schema_error, int list) result" where
  "gpu_list v =
     (case v of
        JArr gpus \<Rightarrow>
          raise_if (gpus = []) (SchemaInvalid ''gpus must be a non-empty list'')
          (raise_if (int (length gpus) > MAX_GPU_COUNT) (SchemaInvalid ''gpus contains too many entries'')
          (res_bind (res_fold (\<lambda>g acc. res_map (\<lambda>n. acc @ [n]) (gpu_index g)) gpus []) (\<lambda>normalized.
             raise_if (\<not> distinct normalized) (SchemaInvalid ''gpus must not contain duplicates'')
               (Inr normalized))))
      | _ \<Rightarrow> Inl (SchemaInvalid ''gpus must be a non-empty list''))"

definition time_window :: "json \<Rightarrow> json \<Rightarrow> (schema_error, datetime \<times> datetime) result" where
  "time_window s e =
     res_bind (timestamp s) (\<lambda>start. res_bind (timestamp e) (\<lambda>end.
       raise_if (start \<ge> end) (SchemaInvalid ''end_at must be later than start_at'') (Inr (start, end))))"

definition MODES :: "string list" where "MODES = [MODE_SHARED, MODE_EXCLUSIVE]"
definition STATUSES :: "string list" where "STATUSES = [STATUS_ACTIVE, STATUS_CANCELLED, STATUS_EXPIRED]"

type_synonym seen_operations = "(int \<times> string) list"

definition register_operation_id ::
  "int \<Rightarrow> string \<Rightarrow> seen_operations \<Rightarrow> (schema_error, seen_operations) result" where
  "register_operation_id uid op seen =
     raise_if ((uid, op) \<in> set seen) (SchemaInvalid ''duplicates operation ID'') (Inr (seen @ [(uid, op)]))"


section \<open>Nested objects\<close>

definition validate_edit_state :: "json \<Rightarrow> (schema_error, unit) result" where
  "validate_edit_state v =
     (case v of
        JObj d \<Rightarrow>
          res_bind (gpu_list (jget d ''gpus'')) (\<lambda>_.
          res_bind (member_of MODES ''mode must be shared or exclusive'' (jget d ''mode'')) (\<lambda>_.
          res_bind (time_window (jget d ''start_at'') (jget d ''end_at'')) (\<lambda>_.
          res_bind (optional_positive_integer (jget d ''expected_memory_mb'')) (\<lambda>_.
          optional_positive_integer (jget d ''share_units'')))))
      | _ \<Rightarrow> Inl (SchemaInvalid ''must be an object''))"

definition validate_edit_operation ::
  "int \<Rightarrow> json \<Rightarrow> seen_operations \<Rightarrow> (schema_error, seen_operations) result" where
  "validate_edit_operation uid v seen =
     (case v of
        JObj d \<Rightarrow>
          res_bind (bounded_text 128 (jget d ''op_id'')) (\<lambda>op.
          res_bind (bounded_text 128 (jget d ''signature'')) (\<lambda>_.
          res_bind (register_operation_id uid op seen) (\<lambda>seen.
          res_bind (when_present (jget d ''at'') timestamp) (\<lambda>_.
          res_bind (when_present (jget d ''actor_uid'') check_uid) (\<lambda>_.
          res_bind (when_present (jget d ''actor_username'') (bounded_text MAX_USERNAME_LENGTH)) (\<lambda>_.
          res_bind (when_present (jget d ''before'') validate_edit_state) (\<lambda>_.
          res_bind (when_present (jget d ''after'') validate_edit_state) (\<lambda>_. Inr seen))))))))
      | _ \<Rightarrow> Inl (SchemaInvalid ''must be an object''))"

definition validate_edit_operations ::
  "int \<Rightarrow> json \<Rightarrow> seen_operations \<Rightarrow> (schema_error, seen_operations) result" where
  "validate_edit_operations uid v seen =
     (case v of
        JArr items \<Rightarrow>
          raise_if (length items > MAX_EDIT_OPERATIONS_PER_RESERVATION) (SchemaInvalid ''exceeds the entry limit'')
            (res_fold (validate_edit_operation uid) items seen)
      | _ \<Rightarrow> Inl (SchemaInvalid ''must be a list''))"

definition validate_cancel_operation ::
  "int \<Rightarrow> json \<Rightarrow> seen_operations \<Rightarrow> (schema_error, seen_operations) result" where
  "validate_cancel_operation uid v seen =
     (case v of
        JObj d \<Rightarrow>
          res_bind (bounded_text 128 (jget d ''op_id'')) (\<lambda>op.
          res_bind (bounded_text 128 (jget d ''signature'')) (\<lambda>_.
          res_bind (register_operation_id uid op seen) (\<lambda>seen.
          res_bind (when_present (jget d ''at'') timestamp) (\<lambda>_.
          res_bind (when_present (jget d ''actor_uid'') check_uid) (\<lambda>_.
          res_bind (when_present (jget d ''actor_username'') (bounded_text MAX_USERNAME_LENGTH)) (\<lambda>_.
          res_bind (when_present (jget d ''kind'')
            (member_of [''owner'', ''administrator''] ''kind is unsupported'')) (\<lambda>_.
          res_bind (when_present (jget d ''reason'') (bounded_text 512)) (\<lambda>_. Inr seen))))))))
      | _ \<Rightarrow> Inl (SchemaInvalid ''must be an object''))"

definition validate_notification :: "json \<Rightarrow> string list \<Rightarrow> (schema_error, string list) result" where
  "validate_notification v seen =
     (case v of
        JObj d \<Rightarrow>
          res_bind (bounded_text 128 (jget d ''id'')) (\<lambda>ident.
          raise_if (ident \<in> set seen) (SchemaInvalid ''id is duplicated'')
          (res_bind (bounded_text 64 (jget d ''type'')) (\<lambda>_.
           res_bind (timestamp (jget d ''created_at'')) (\<lambda>_.
           res_bind (check_uid (jget d ''actor_uid'')) (\<lambda>_.
           res_bind (bounded_text MAX_USERNAME_LENGTH (jget d ''actor_username'')) (\<lambda>_.
           res_bind (bounded_text 512 (jget d ''reason'')) (\<lambda>_.
           res_bind (bounded_text 1024 (jget d ''message'')) (\<lambda>_. Inr (seen @ [ident])))))))))
      | _ \<Rightarrow> Inl (SchemaInvalid ''must be an object''))"

definition validate_notifications :: "json \<Rightarrow> (schema_error, unit) result" where
  "validate_notifications v =
     (case v of
        JArr items \<Rightarrow>
          raise_if (length items > MAX_NOTIFICATIONS_PER_RESERVATION) (SchemaInvalid ''must contain at most 128 items'')
            (res_map (\<lambda>_. ()) (res_fold validate_notification items []))
      | _ \<Rightarrow> Inl (SchemaInvalid ''must contain at most 128 items''))"

definition validate_announcement :: "json \<Rightarrow> string list \<Rightarrow> (schema_error, string list) result" where
  "validate_announcement v seen =
     (case v of
        JObj d \<Rightarrow>
          res_bind (bounded_text 128 (jget d ''id'')) (\<lambda>ident.
          raise_if (ident \<in> set seen) (SchemaInvalid ''id is duplicated'')
          (res_bind (member_of [''info'', ''warning'', ''critical''] ''level is unsupported'' (jget d ''level'')) (\<lambda>_.
           res_bind (bounded_multiline_text 1024 (jget d ''message'')) (\<lambda>_.
           res_bind (timestamp (jget d ''created_at'')) (\<lambda>created.
           res_bind (when_present (jget d ''updated_at'') timestamp) (\<lambda>_.
           res_bind (timestamp (jget d ''starts_at'')) (\<lambda>starts.
           res_bind (timestamp (jget d ''expires_at'')) (\<lambda>expires.
           raise_if (expires \<le> starts \<or> created > expires) (SchemaInvalid ''has an invalid time window'')
           (res_bind (check_uid (jget d ''actor_uid'')) (\<lambda>_.
            res_bind (bounded_text MAX_USERNAME_LENGTH (jget d ''actor_username'')) (\<lambda>_.
            res_bind (if jget d ''archived_at'' = JNull then Inr ()
              else res_bind (timestamp (jget d ''archived_at'')) (\<lambda>_.
                   res_bind (check_uid (jget d ''archived_by_uid'')) (\<lambda>_.
                   res_map (\<lambda>_. ()) (bounded_text MAX_USERNAME_LENGTH (jget d ''archived_by_username''))))) (\<lambda>_.
            Inr (seen @ [ident])))))))))))))
      | _ \<Rightarrow> Inl (SchemaInvalid ''must be an object''))"

definition validate_announcements :: "json \<Rightarrow> (schema_error, unit) result" where
  "validate_announcements v =
     (case v of
        JArr items \<Rightarrow>
          raise_if (length items > MAX_ANNOUNCEMENT_HISTORY) (SchemaInvalid ''too many announcements'')
            (res_map (\<lambda>_. ()) (res_fold validate_announcement items []))
      | _ \<Rightarrow> Inl (SchemaInvalid ''too many announcements''))"


section \<open>Reservations and the document\<close>

definition validate_history ::
  "int \<Rightarrow> (string \<times> json) list \<Rightarrow> seen_operations \<Rightarrow> (schema_error, seen_operations) result" where
  "validate_history uid d seen =
     res_bind (if jget d ''op_id'' = JNull then Inr seen
               else res_bind (bounded_text 128 (jget d ''op_id'')) (\<lambda>op. register_operation_id uid op seen)) (\<lambda>seen.
     res_bind (when_present (jget d ''operation_signature'') (bounded_text 128)) (\<lambda>_.
     res_bind (case jget d ''job'' of JNull \<Rightarrow> Inr () | JObj _ \<Rightarrow> Inr ()
               | _ \<Rightarrow> Inl (SchemaInvalid ''job must be an object or null'')) (\<lambda>_.
     res_bind (if jget d ''edit_operations'' = JNull then Inr seen
               else validate_edit_operations uid (jget d ''edit_operations'') seen) (\<lambda>seen.
     res_bind (if jget d ''cancel_operation'' = JNull then Inr seen
               else validate_cancel_operation uid (jget d ''cancel_operation'') seen) (\<lambda>seen.
     res_bind (when_present (jget d ''notifications'') validate_notifications) (\<lambda>_. Inr seen))))))"

definition validate_reservation ::
  "json \<Rightarrow> string list \<times> seen_operations \<Rightarrow> (schema_error, string list \<times> seen_operations) result" where
  "validate_reservation v seen =
     (case (v, seen) of
        (JObj d, (seen_ids, seen_ops)) \<Rightarrow>
          res_bind (bounded_text MAX_RESERVATION_ID_LENGTH (jget d ''id'')) (\<lambda>ident.
          raise_if (ident \<in> set seen_ids) (SchemaInvalid ''id duplicates reservation'')
          (res_bind (check_uid (jget d ''uid'')) (\<lambda>uid.
           res_bind (when_present (jget d ''username'') (bounded_text MAX_USERNAME_LENGTH)) (\<lambda>_.
           res_bind (member_of MODES ''mode must be shared or exclusive'' (jget d ''mode'')) (\<lambda>_.
           res_bind (member_of STATUSES ''status is unsupported'' (jget d ''status'')) (\<lambda>_.
           res_bind (gpu_list (jget d ''gpus'')) (\<lambda>_.
           res_bind (time_window (jget d ''start_at'') (jget d ''end_at'')) (\<lambda>_.
           res_bind (when_present (jget d ''created_at'') timestamp) (\<lambda>_.
           res_bind (when_present (jget d ''updated_at'') timestamp) (\<lambda>_.
           res_bind (optional_positive_integer (jget d ''expected_memory_mb'')) (\<lambda>_.
           res_bind (validate_history uid d seen_ops) (\<lambda>seen_ops.
           Inr (seen_ids @ [ident], seen_ops)))))))))))))
      | _ \<Rightarrow> Inl (SchemaInvalid ''must be an object''))"

text \<open>\<^verbatim>\<open>isinstance(version, bool) or version != 1\<close>\<close>

fun version_one :: "json \<Rightarrow> bool" where
  "version_one (JInt n) = (n = 1)"
| "version_one (JFloat q) = (q = 1)"
| "version_one _ = False"

definition validate_ledger_document :: "json \<Rightarrow> (schema_error, unit) result" where
  "validate_ledger_document data =
     (case data of
        JObj d \<Rightarrow>
          raise_if (\<not> version_one (jget d ''version'')) (SchemaInvalid ''unsupported ledger version'')
          (case jget d ''reservations'' of
             JArr reservations \<Rightarrow>
               res_bind (when_present (jget d ''last_transaction_id'') (bounded_text 128)) (\<lambda>_.
               res_bind (validate_announcements (jget_default d ''announcements'' (JArr []))) (\<lambda>_.
               res_map (\<lambda>_. ()) (res_fold validate_reservation reservations ([], []))))
           | _ \<Rightarrow> Inl (SchemaInvalid ''ledger reservations must be a list''))
      | _ \<Rightarrow> Inl (SchemaInvalid ''ledger must be an object''))"



section \<open>What an accepted document promises\<close>

text \<open>The fields every reader of the ledger decodes.\<close>

record reservation_view =
  rv_id :: string
  rv_uid :: int
  rv_op :: "string option"
  rv_mode :: string
  rv_status :: string
  rv_gpus :: "int list"
  rv_start :: datetime
  rv_end :: datetime

fun text_of :: "json \<Rightarrow> string option" where
  "text_of (JStr s) = Some s"
| "text_of _ = None"

fun uid_of :: "json \<Rightarrow> int option" where
  "uid_of (JInt n) = Some n"
| "uid_of (JStr s) = py_int s"
| "uid_of _ = None"

fun gpu_of :: "json \<Rightarrow> int option" where
  "gpu_of (JInt n) = Some n"
| "gpu_of _ = None"

fun gpus_of :: "json \<Rightarrow> int list option" where
  "gpus_of (JArr xs) = those (map gpu_of xs)"
| "gpus_of _ = None"

fun instant_of :: "json \<Rightarrow> datetime option" where
  "instant_of (JStr s) = parse_iso s"
| "instant_of _ = None"

fun view_reservation :: "json \<Rightarrow> reservation_view option" where
  "view_reservation (JObj d) =
     Option.bind (text_of (jget d ''id'')) (\<lambda>i. Option.bind (uid_of (jget d ''uid'')) (\<lambda>u.
     Option.bind (text_of (jget d ''mode'')) (\<lambda>m. Option.bind (text_of (jget d ''status'')) (\<lambda>st.
     Option.bind (gpus_of (jget d ''gpus'')) (\<lambda>gs.
     Option.bind (instant_of (jget d ''start_at'')) (\<lambda>s. Option.bind (instant_of (jget d ''end_at'')) (\<lambda>e.
       Some \<lparr>rv_id = i, rv_uid = u, rv_op = text_of (jget d ''op_id''), rv_mode = m, rv_status = st,
             rv_gpus = gs, rv_start = s, rv_end = e\<rparr>)))))))"
| "view_reservation _ = None"

definition view_ok :: "reservation_view \<Rightarrow> bool" where
  "view_ok w \<longleftrightarrow>
     rv_id w \<noteq> [] \<and> 0 \<le> rv_uid w \<and> rv_uid w \<le> MAX_UID
     \<and> rv_mode w \<in> {MODE_SHARED, MODE_EXCLUSIVE}
     \<and> rv_status w \<in> {STATUS_ACTIVE, STATUS_CANCELLED, STATUS_EXPIRED}
     \<and> rv_gpus w \<noteq> [] \<and> distinct (rv_gpus w) \<and> list_all (\<lambda>g. 0 \<le> g \<and> g < MAX_GPU_COUNT) (rv_gpus w)
     \<and> rv_start w < rv_end w"

text \<open>The operation identifiers under which the reservations were created.\<close>

definition create_ops :: "reservation_view list \<Rightarrow> (int \<times> string) list" where
  "create_ops ws = concat (map (\<lambda>w. case rv_op w of None \<Rightarrow> [] | Some op \<Rightarrow> [(rv_uid w, op)]) ws)"

lemma bounded_text_Inr: "bounded_text n v = Inr s \<Longrightarrow> v = JStr s \<and> s \<noteq> []"
  by (cases "(n, v)" rule: bounded_text.cases) auto

lemma check_uid_Inr: "check_uid v = Inr n \<Longrightarrow> uid_of v = Some n \<and> 0 \<le> n \<and> n \<le> MAX_UID"
  by (cases v rule: check_uid.cases) (auto simp: uid_range_def split: option.splits)

lemma member_of_Inr: "member_of xs msg v = Inr s \<Longrightarrow> v = JStr s \<and> s \<in> set xs"
  by (cases "(xs, msg, v)" rule: member_of.cases) auto

lemma timestamp_Inr: "timestamp v = Inr t \<Longrightarrow> instant_of v = Some t"
  by (cases v rule: timestamp.cases) (auto split: option.splits)

lemma time_window_Inr:
  "time_window s e = Inr (a, b) \<Longrightarrow> instant_of s = Some a \<and> instant_of e = Some b \<and> a < b"
  by (auto simp: time_window_def res_bind_eq_Inr dest: timestamp_Inr)

lemma gpu_index_Inr: "gpu_index v = Inr g \<Longrightarrow> gpu_of v = Some g \<and> 0 \<le> g \<and> g < MAX_GPU_COUNT"
  by (cases v rule: gpu_index.cases) auto

lemma gpu_fold_Inr:
  "res_fold (\<lambda>g acc. res_map (\<lambda>n. acc @ [n]) (gpu_index g)) vs acc = Inr out \<Longrightarrow>
   \<exists>gs. those (map gpu_of vs) = Some gs \<and> out = acc @ gs \<and> length gs = length vs
     \<and> list_all (\<lambda>g. 0 \<le> g \<and> g < MAX_GPU_COUNT) gs"
proof (induction vs arbitrary: acc)
  case (Cons v vs)
  then obtain g where g: "gpu_index v = Inr g"
    and rest: "res_fold (\<lambda>g acc. res_map (\<lambda>n. acc @ [n]) (gpu_index g)) vs (acc @ [g]) = Inr out"
    by (auto simp: res_bind_eq_Inr res_map_def)
  from Cons.IH [OF rest] gpu_index_Inr [OF g] show ?case by auto
qed simp

lemma gpu_list_Inr:
  assumes "gpu_list v = Inr gs"
  shows "gpus_of v = Some gs \<and> gs \<noteq> [] \<and> distinct gs \<and> list_all (\<lambda>g. 0 \<le> g \<and> g < MAX_GPU_COUNT) gs"
  using assms by (auto simp: gpu_list_def res_bind_eq_Inr dest!: gpu_fold_Inr split: json.splits)


subsection \<open>Operation identifiers\<close>

text \<open>A check that only registers identifiers, each of them new.\<close>

definition registers :: "seen_operations \<Rightarrow> seen_operations \<Rightarrow> bool" where
  "registers seen seen' \<longleftrightarrow> (\<exists>k. seen' = seen @ k \<and> (distinct seen \<longrightarrow> distinct seen'))"

lemma registers_refl [simp]: "registers s s"
  by (simp add: registers_def)

lemma registers_trans: "registers a b \<Longrightarrow> registers b d \<Longrightarrow> registers a d"
  by (fastforce simp: registers_def)

lemma register_operation_id_Inr:
  "register_operation_id uid op seen = Inr seen' \<Longrightarrow> (uid, op) \<notin> set seen \<and> seen' = seen @ [(uid, op)]"
  by (simp add: register_operation_id_def)

lemma register_operation_registers: "register_operation_id uid op seen = Inr seen' \<Longrightarrow> registers seen seen'"
  by (auto simp: registers_def dest: register_operation_id_Inr)

lemma res_fold_registers:
  "(\<And>x s s'. f x s = Inr s' \<Longrightarrow> registers s s') \<Longrightarrow> res_fold f xs s = Inr s' \<Longrightarrow> registers s s'"
proof (induction xs arbitrary: s)
  case (Cons x xs)
  then obtain s1 where "f x s = Inr s1" "res_fold f xs s1 = Inr s'" by (auto simp: res_bind_eq_Inr)
  with Cons show ?case by (meson registers_trans)
qed simp

lemma validate_edit_operation_registers: "validate_edit_operation uid v s = Inr s' \<Longrightarrow> registers s s'"
  by (auto simp: validate_edit_operation_def res_bind_eq_Inr split: json.splits dest: register_operation_registers)

lemma validate_edit_operations_registers: "validate_edit_operations uid v s = Inr s' \<Longrightarrow> registers s s'"
  by (auto simp: validate_edit_operations_def split: json.splits
      intro: res_fold_registers [where f = "validate_edit_operation uid"] validate_edit_operation_registers)

lemma validate_cancel_operation_registers: "validate_cancel_operation uid v s = Inr s' \<Longrightarrow> registers s s'"
  by (auto simp: validate_cancel_operation_def res_bind_eq_Inr split: json.splits dest: register_operation_registers)

lemma validate_history_Inr:
  assumes "validate_history uid d seen = Inr seen'"
  shows "registers seen seen' \<and> (case text_of (jget d ''op_id'') of None \<Rightarrow> True
    | Some op \<Rightarrow> (uid, op) \<notin> set seen \<and> (uid, op) \<in> set seen')"
proof -
  from assms obtain s1 s2 where
    op: "(if jget d ''op_id'' = JNull then Inr seen
          else res_bind (bounded_text 128 (jget d ''op_id'')) (\<lambda>op. register_operation_id uid op seen)) = Inr s1"
    and ed: "(if jget d ''edit_operations'' = JNull then Inr s1
          else validate_edit_operations uid (jget d ''edit_operations'') s1) = Inr s2"
    and ca: "(if jget d ''cancel_operation'' = JNull then Inr s2
          else validate_cancel_operation uid (jget d ''cancel_operation'') s2) = Inr seen'"
    by (auto simp: validate_history_def res_bind_eq_Inr)
  have "registers s1 s2" using ed validate_edit_operations_registers by (auto split: if_splits)
  moreover have "registers s2 seen'" using ca validate_cancel_operation_registers by (auto split: if_splits)
  ultimately have rest: "registers s1 seen'" by (rule registers_trans)
  show ?thesis
  proof (cases "jget d ''op_id'' = JNull")
    case True
    with op rest show ?thesis by simp
  next
    case False
    with op obtain o' where "jget d ''op_id'' = JStr o'" "register_operation_id uid o' seen = Inr s1"
      by (auto simp: res_bind_eq_Inr dest: bounded_text_Inr)
    with rest registers_trans [OF register_operation_registers rest] register_operation_id_Inr show ?thesis
      by (fastforce simp: registers_def)
  qed
qed


subsection \<open>Reservations\<close>

lemma validate_reservation_Inr:
  assumes "validate_reservation v (ids, ops) = Inr (ids', ops')"
  obtains w where "view_reservation v = Some w" "view_ok w" "rv_id w \<notin> set ids" "ids' = ids @ [rv_id w]"
    "registers ops ops'"
    "case rv_op w of None \<Rightarrow> True | Some op \<Rightarrow> (rv_uid w, op) \<notin> set ops \<and> (rv_uid w, op) \<in> set ops'"
proof -
  from assms obtain d where v: "v = JObj d" by (auto simp: validate_reservation_def split: json.splits)
  from assms obtain ident uid mode status gpus s e where
    "bounded_text MAX_RESERVATION_ID_LENGTH (jget d ''id'') = Inr ident" "ident \<notin> set ids"
    "check_uid (jget d ''uid'') = Inr uid"
    "member_of MODES ''mode must be shared or exclusive'' (jget d ''mode'') = Inr mode"
    "member_of STATUSES ''status is unsupported'' (jget d ''status'') = Inr status"
    "gpu_list (jget d ''gpus'') = Inr gpus" "time_window (jget d ''start_at'') (jget d ''end_at'') = Inr (s, e)"
    "validate_history uid d ops = Inr ops'" "ids' = ids @ [ident]"
    unfolding v by (auto simp: validate_reservation_def res_bind_eq_Inr)
  note facts = this
  note h = bounded_text_Inr [OF facts(1)] check_uid_Inr [OF facts(3)] member_of_Inr [OF facts(4)]
    member_of_Inr [OF facts(5)] gpu_list_Inr [OF facts(6)] time_window_Inr [OF facts(7)] validate_history_Inr [OF facts(8)]
  let ?w = "\<lparr>rv_id = ident, rv_uid = uid, rv_op = text_of (jget d ''op_id''), rv_mode = mode, rv_status = status,
    rv_gpus = gpus, rv_start = s, rv_end = e\<rparr>"
  show thesis
    by (rule that [of ?w]) (use h facts(2,9) in \<open>auto simp: v view_ok_def MODES_def STATUSES_def split: option.splits\<close>)
qed

lemma validate_reservations_Inr:
  assumes "res_fold validate_reservation vs (ids, ops) = Inr (ids', ops')" and "distinct ids"
  shows "\<exists>ws. map view_reservation vs = map Some ws \<and> list_all view_ok ws \<and> ids' = ids @ map rv_id ws
    \<and> distinct ids' \<and> distinct (create_ops ws) \<and> set (create_ops ws) \<inter> set ops = {}"
  using assms
proof (induction vs arbitrary: ids ops)
  case Nil
  then show ?case by (simp add: create_ops_def)
next
  case (Cons v vs)
  from Cons.prems(1) obtain ids1 ops1 where
    first: "validate_reservation v (ids, ops) = Inr (ids1, ops1)"
    and rest: "res_fold validate_reservation vs (ids1, ops1) = Inr (ids', ops')"
    by (auto simp: res_bind_eq_Inr)
  from first show ?case
  proof (rule validate_reservation_Inr, goal_cases)
    case (1 w)
    from 1 Cons.prems(2) have "distinct ids1" by simp
    from Cons.IH [OF rest this] obtain ws where ws: "map view_reservation vs = map Some ws" "list_all view_ok ws"
      "ids' = ids1 @ map rv_id ws" "distinct ids'" "distinct (create_ops ws)" "set (create_ops ws) \<inter> set ops1 = {}"
      by blast
    have "set ops \<subseteq> set ops1" using 1(5) by (auto simp: registers_def)
    with 1 ws show ?case
      by (intro exI [of _ "w # ws"]) (auto simp: create_ops_def split: option.splits)
  qed
qed

lemma validated_document:
  assumes "validate_ledger_document (JObj d) = Inr ()"
  shows "\<exists>vs ws. jget d ''reservations'' = JArr vs \<and> map view_reservation vs = map Some ws
    \<and> list_all view_ok ws \<and> distinct (map rv_id ws) \<and> distinct (create_ops ws)"
proof -
  from assms obtain vs ids ops where vs: "jget d ''reservations'' = JArr vs"
    "res_fold validate_reservation vs ([], []) = Inr (ids, ops)"
    by (auto simp: validate_ledger_document_def res_bind_eq_Inr res_map_def split: json.splits)
  from validate_reservations_Inr [OF vs(2)] vs(1) show ?thesis by auto
qed

text \<open>
  C35: what an accepted ledger document promises its readers. Every reservation has the fields the
  scheduler decodes (identifier, owner in range, mode, status, a non-empty list of distinct GPUs in
  range, a proper interval of parsable timestamps), no two share an identifier, and no owner created
  two reservations under one operation identifier.
\<close>

theorem accepted_document:
  assumes "validate_ledger_document (JObj d) = Inr ()"
  shows "\<exists>vs ws. jget d ''reservations'' = JArr vs \<and> map view_reservation vs = map Some ws
    \<and> list_all view_ok ws \<and> distinct (map rv_id ws) \<and> distinct (create_ops ws)"
  using assms by (rule validated_document)

theorem accepted_document_witness:
  "\<exists>w. view_reservation (JObj [(''id'', JStr ''r1''), (''uid'', JInt 7), (''mode'', JStr ''shared''), (''status'', JStr ''active''),
      (''gpus'', JArr [JInt 0]), (''start_at'', JStr ''2025-01-01T00:00:00Z''), (''end_at'', JStr ''2025-01-01T01:00:00Z'')]) = Some w
    \<and> view_ok w"
proof -
  let ?r = "JObj [(''id'', JStr ''r1''), (''uid'', JInt 7), (''mode'', JStr ''shared''), (''status'', JStr ''active''),
      (''gpus'', JArr [JInt 0]), (''start_at'', JStr ''2025-01-01T00:00:00Z''), (''end_at'', JStr ''2025-01-01T01:00:00Z'')]"
  let ?d = "[(''version'', JInt 1), (''reservations'', JArr [?r])]"
  have d: "validate_ledger_document (JObj ?d) = Inr ()" by code_simp
  have "jget ?d ''reservations'' = JArr [?r]" by (simp add: jget_def)
  moreover from accepted_document [OF d] obtain vs ws where "jget ?d ''reservations'' = JArr vs"
    "map view_reservation vs = map Some ws" "list_all view_ok ws" by blast
  ultimately show ?thesis by (cases ws) (auto simp del: view_reservation.simps)
qed

end
