(* ===== verification/Storage.thy ===== *)
theory Storage
  imports Ledger_Schema
begin

text \<open>
  \<^verbatim>\<open>bk/storage.py\<close>: the journalled ledger store. The data directory is a record of its four
  files; a JSON file either holds a document or cannot be read (\<open>Unreadable\<close> stands for every
  \<^verbatim>\<open>OSError\<close> or decoding error of opening it). Writing a file replaces it atomically; a write
  can fail before the replacement or after it (directory sync), and an append to the audit log can
  fail with a rollback or leave a prefix and a torn line behind. The file lock makes one
  transaction run at a time and is not modelled; neither are file modes, owners and disk space,
  whose failures are the failing outcomes.

  Parameters: \<open>encode\<close>, the bytes of one audit line (\<open>None\<close> where \<^verbatim>\<open>json.dumps\<close>
  refuses the record), and the fresh identifiers.

  Where the model is narrower than the code: the end of the audit log is within the line limit (the code raises for an
  unterminated end over 1 MiB instead of repairing it), and a record without its newline counts for the tail scan as
  with it; after a journal write that failed in the directory sync the journal can be read again (the code
  raises when it cannot); the fresh event identifiers are a list as long as the audit events; and an event identifier
  that is not text, which the validation of a journal refuses, identifies nothing.
\<close>

type_synonym jobject = "(string \<times> json) list"

definition jset :: "jobject \<Rightarrow> string \<Rightarrow> json \<Rightarrow> jobject" where
  "jset d k v = (if k \<in> fst ` set d then map (\<lambda>(a, b). if a = k then (a, v) else (a, b)) d else d @ [(k, v)])"

datatype stored = Unreadable | Document json

text \<open>The end of the audit log: a newline, a broken fragment, or a whole record without its newline.\<close>

datatype log_tail = Clean | Fragment nat | Unterminated json

record disk =
  dk_ledger :: "stored option"
  dk_journal :: "stored option"
  dk_log :: "json list"
  dk_tail :: log_tail
  dk_backups :: "(string \<times> stored) list"

datatype storage_error =
    LedgerCorruption
  | StorageModes booking_error
  | ModesMismatch
  | JournalInvalid
  | JournalRejected string
  | WriteFailed
  | RaisedTypeError
  | Mutator booking_error

definition MAX_AUDIT_LINE_BYTES :: int where "MAX_AUDIT_LINE_BYTES = 1024 * 1024"

definition empty_ledger :: json where
  "empty_ledger = JObj [(''version'', JInt 1), (''reservations'', JArr [])]"

fun document :: "json \<Rightarrow> jobject" where
  "document (JObj d) = d"
| "document _ = []"


section \<open>Loading\<close>

definition storage_modes_of :: "json \<Rightarrow> (booking_error, (string \<times> string) option) result" where
  "storage_modes_of data = ledger_storage_modes
     \<lparr>lg_reservations = [], lg_policy = jget (document data) ''policy'', lg_last_transaction_id = None\<rparr>"

text \<open>\<open>modes\<close> are the store's own file and directory modes, printed in octal.\<close>

definition validate_storage_modes :: "string \<times> string \<Rightarrow> json \<Rightarrow> (storage_error, unit) result" where
  "validate_storage_modes modes data =
     (case storage_modes_of data of
        Inl e \<Rightarrow> Inl (StorageModes e)
      | Inr None \<Rightarrow> Inr ()
      | Inr (Some configured) \<Rightarrow> raise_if (configured \<noteq> modes) ModesMismatch (Inr ()))"

definition backups_newest_first :: "disk \<Rightarrow> (string \<times> stored) list" where
  "backups_newest_first dk = rev (sort_key fst (dk_backups dk))"

text \<open>A backup that cannot be read or is invalid is skipped; a \<^verbatim>\<open>TypeError\<close> is not caught.\<close>

fun first_valid_backup :: "(string \<times> stored) list \<Rightarrow> (storage_error, json option) result" where
  "first_valid_backup [] = Inr None"
| "first_valid_backup ((name, Unreadable) # rest) = first_valid_backup rest"
| "first_valid_backup ((name, Document data) # rest) =
     (case validate_ledger_document data of
        Inr _ \<Rightarrow> Inr (Some data)
      | Inl (SchemaInvalid _) \<Rightarrow> first_valid_backup rest
      | Inl SchemaTypeError \<Rightarrow> Inl RaisedTypeError)"

definition load_latest_backup :: "disk \<Rightarrow> (storage_error, json option) result" where
  "load_latest_backup dk = first_valid_backup (backups_newest_first dk)"

definition restore :: "disk \<Rightarrow> (storage_error, json) result" where
  "restore dk =
     res_bind (load_latest_backup dk) (\<lambda>found.
       case found of None \<Rightarrow> Inl LedgerCorruption | Some data \<Rightarrow> Inr data)"

definition load_unlocked :: "string \<times> string \<Rightarrow> disk \<Rightarrow> (storage_error, json) result" where
  "load_unlocked modes dk =
     (case dk_ledger dk of
        None \<Rightarrow> Inr empty_ledger
      | Some file \<Rightarrow>
          res_bind
            (case file of
               Unreadable \<Rightarrow> restore dk
             | Document data \<Rightarrow>
                 (case validate_ledger_document data of
                    Inr _ \<Rightarrow> Inr data
                  | Inl (SchemaInvalid _) \<Rightarrow> restore dk
                  | Inl SchemaTypeError \<Rightarrow> Inl RaisedTypeError))
            (\<lambda>data. res_bind (validate_storage_modes modes data) (\<lambda>_. Inr data)))"


section \<open>The audit log\<close>

definition prepare_log :: "string \<Rightarrow> jobject \<times> string \<Rightarrow> jobject" where
  "prepare_log transaction_id item =
     (case item of (value, fresh) \<Rightarrow>
        let value = jset value ''transaction_id'' (JStr transaction_id)
        in if ''event_id'' \<in> fst ` set value then value else value @ [(''event_id'', JStr fresh)])"

definition prepare_logs :: "string \<Rightarrow> string list \<Rightarrow> jobject list \<Rightarrow> jobject list" where
  "prepare_logs transaction_id fresh logs = map (prepare_log transaction_id) (zip logs fresh)"

text \<open>\<^verbatim>\<open>str(item.get("event_id", ""))\<close> for the text identifiers the journal admits.\<close>

fun event_id_of :: "json \<Rightarrow> string option" where
  "event_id_of (JObj d) =
     (case map_of d ''event_id'' of Some (JStr s) \<Rightarrow> Some s | None \<Rightarrow> Some [] | _ \<Rightarrow> None)"
| "event_id_of _ = None"

definition line_bytes :: "(json \<Rightarrow> string option) \<Rightarrow> json \<Rightarrow> nat" where
  "line_bytes encode item = (case encode item of None \<Rightarrow> 0 | Some bytes \<Rightarrow> length bytes)"

definition encodable :: "(json \<Rightarrow> string option) \<Rightarrow> json \<Rightarrow> bool" where
  "encodable encode item =
     (case encode item of None \<Rightarrow> False | Some bytes \<Rightarrow> int (length bytes) \<le> MAX_AUDIT_LINE_BYTES)"

text \<open>
  The lines a bounded backward scan yields: a line counts when the newline before it lies inside
  the window, or when the window holds the whole file. \<open>seen\<close> is the number of bytes after it.
\<close>

fun scan_tail :: "(json \<Rightarrow> nat) \<Rightarrow> nat \<Rightarrow> nat \<Rightarrow> json list \<Rightarrow> json list" where
  "scan_tail size_of window seen [] = []"
| "scan_tail size_of window seen (x # xs) =
     (let n = seen + size_of x
      in if n + 1 \<le> window \<or> (xs = [] \<and> n \<le> window) then x # scan_tail size_of window n xs else [])"

text \<open>The file seen by the scan, newest line first, and the bytes of an unreadable last fragment.\<close>

definition reversed_lines :: "disk \<Rightarrow> json list" where
  "reversed_lines dk = (case dk_tail dk of Unterminated v \<Rightarrow> [v] | _ \<Rightarrow> []) @ rev (dk_log dk)"

definition fragment_bytes :: "disk \<Rightarrow> nat" where
  "fragment_bytes dk = (case dk_tail dk of Fragment n \<Rightarrow> n | _ \<Rightarrow> 0)"

definition recent_event_ids :: "(json \<Rightarrow> string option) \<Rightarrow> string list \<Rightarrow> nat \<Rightarrow> disk \<Rightarrow> string list" where
  "recent_event_ids encode wanted tail_bytes dk =
     take (length wanted) (filter (\<lambda>i. i \<in> set wanted)
       (List.map_filter event_id_of
          (scan_tail (line_bytes encode) (max 1 tail_bytes) (fragment_bytes dk) (reversed_lines dk))))"

text \<open>\<^verbatim>\<open>_repair_tail\<close>\<close>

definition repair_tail :: "disk \<Rightarrow> disk" where
  "repair_tail dk =
     (case dk_tail dk of
        Clean \<Rightarrow> dk
      | Fragment _ \<Rightarrow> dk\<lparr>dk_tail := Clean\<rparr>
      | Unterminated v \<Rightarrow> dk\<lparr>dk_log := dk_log dk @ [v], dk_tail := Clean\<rparr>)"

datatype append_outcome = AppendOk | AppendRolledBack | AppendTorn nat log_tail

definition append_lines :: "append_outcome \<Rightarrow> json list \<Rightarrow> disk \<Rightarrow> disk" where
  "append_lines outcome items dk =
     (let dk = repair_tail dk in
      case outcome of
        AppendOk \<Rightarrow> dk\<lparr>dk_log := dk_log dk @ items\<rparr>
      | AppendRolledBack \<Rightarrow> dk
      | AppendTorn k tail \<Rightarrow> dk\<lparr>dk_log := dk_log dk @ take k items, dk_tail := tail\<rparr>)"

definition missing_logs :: "(json \<Rightarrow> string option) \<Rightarrow> json list \<Rightarrow> disk \<Rightarrow> json list" where
  "missing_logs encode logs dk =
     (let wanted = List.map_filter event_id_of logs;
          batch_bytes = 1 + sum_list (map (line_bytes encode) logs);
          existing = recent_event_ids encode wanted batch_bytes dk
      in filter (\<lambda>item. case event_id_of item of None \<Rightarrow> True | Some i \<Rightarrow> i \<notin> set existing) logs)"

text \<open>The disk and whether the append failed.\<close>

definition append_missing_logs ::
  "(json \<Rightarrow> string option) \<Rightarrow> append_outcome \<Rightarrow> json list \<Rightarrow> disk \<Rightarrow> disk \<times> bool" where
  "append_missing_logs encode outcome logs dk =
     (let missing = missing_logs encode logs dk in
      if missing = [] then (dk, False)
      else (append_lines outcome missing dk, outcome \<noteq> AppendOk))"


section \<open>The journal\<close>

definition make_journal :: "string \<Rightarrow> json option \<Rightarrow> jobject list \<Rightarrow> string \<Rightarrow> json" where
  "make_journal transaction_id ledger logs created_at =
     JObj [(''version'', JInt 1), (''transaction_id'', JStr transaction_id),
           (''ledger'', case ledger of None \<Rightarrow> JNull | Some l \<Rightarrow> l),
           (''logs'', JArr (map JObj logs)), (''created_at'', JStr created_at)]"

definition journal_id :: "json \<Rightarrow> json" where
  "journal_id j = jget (document j) ''transaction_id''"

definition journal_ledger :: "json \<Rightarrow> json" where
  "journal_ledger j = jget (document j) ''ledger''"

definition journal_logs :: "json \<Rightarrow> json list" where
  "journal_logs j = (case jget (document j) ''logs'' of JArr xs \<Rightarrow> xs | _ \<Rightarrow> [])"

fun is_object :: "json \<Rightarrow> bool" where
  "is_object (JObj _) = True"
| "is_object _ = False"

definition validate_journal_log ::
  "(json \<Rightarrow> string option) \<Rightarrow> json \<Rightarrow> json \<Rightarrow> string list \<Rightarrow> (storage_error, string list) result" where
  "validate_journal_log encode transaction_id item seen =
     (case jget (document item) ''event_id'' of
        JStr e \<Rightarrow>
          raise_if (e = [] \<or> length e > 128) (JournalRejected ''journal log event ID is invalid'')
          (raise_if (e \<in> set seen) (JournalRejected ''journal log event IDs must be unique'')
          (raise_if (\<not> py_eq (jget (document item) ''transaction_id'') transaction_id)
             (JournalRejected ''journal log transaction ID mismatch'')
          (raise_if (\<not> encodable encode item) (JournalRejected ''journal audit record'')
             (Inr (seen @ [e])))))
      | _ \<Rightarrow> Inl (JournalRejected ''journal log event ID is invalid''))"

definition validate_journal_ledger ::
  "string \<times> string \<Rightarrow> json \<Rightarrow> json \<Rightarrow> (storage_error, unit) result" where
  "validate_journal_ledger modes transaction_id ledger =
     (if ledger = JNull then Inr ()
      else case validate_ledger_document ledger of
        Inl SchemaTypeError \<Rightarrow> Inl RaisedTypeError
      | Inl (SchemaInvalid m) \<Rightarrow> Inl (JournalRejected m)
      | Inr _ \<Rightarrow>
          res_bind (validate_storage_modes modes ledger) (\<lambda>_.
            raise_if (\<not> py_eq (jget (document ledger) ''last_transaction_id'') transaction_id)
              (JournalRejected ''journal ledger transaction ID mismatch'') (Inr ())))"

definition validate_journal ::
  "(json \<Rightarrow> string option) \<Rightarrow> string \<times> string \<Rightarrow> json \<Rightarrow> (storage_error, unit) result" where
  "validate_journal encode modes j =
     raise_if (\<not> is_object j \<or> \<not> py_eq (jget (document j) ''version'') (JInt 1))
       (JournalRejected ''unsupported journal'')
     (case journal_id j of
        JStr tid \<Rightarrow>
          raise_if (tid = []) (JournalRejected ''journal transaction ID is missing'')
          (res_bind (validate_journal_ledger modes (journal_id j) (journal_ledger j)) (\<lambda>_.
             case jget (document j) ''logs'' of
               JArr logs \<Rightarrow>
                 raise_if (\<not> list_all is_object logs) (JournalRejected ''journal logs are invalid'')
                   (res_map (\<lambda>_. ()) (res_fold (validate_journal_log encode (journal_id j)) logs []))
             | _ \<Rightarrow> Inl (JournalRejected ''journal logs are invalid'')))
      | _ \<Rightarrow> Inl (JournalRejected ''journal transaction ID is missing''))"



section \<open>Committing\<close>

datatype write_outcome = WriteOk | FailBefore | FailAfter

record faults =
  ft_journal :: write_outcome
  ft_ledger :: write_outcome
  ft_append :: append_outcome
  ft_backup :: write_outcome
  ft_clear :: bool

definition no_faults :: faults where
  "no_faults = \<lparr>ft_journal = WriteOk, ft_ledger = WriteOk, ft_append = AppendOk, ft_backup = WriteOk,
     ft_clear = False\<rparr>"

record store =
  st_encode :: "json \<Rightarrow> string option"
  st_modes :: "string \<times> string"
  st_backup_keep :: nat

definition write_file :: "write_outcome \<Rightarrow> json \<Rightarrow> stored option \<Rightarrow> stored option" where
  "write_file outcome v old = (if outcome = FailBefore then old else Some (Document v))"

text \<open>\<^verbatim>\<open>dict\<close>-like update of the backup directory.\<close>

definition put_backup :: "string \<Rightarrow> json \<Rightarrow> disk \<Rightarrow> disk" where
  "put_backup name v dk =
     dk\<lparr>dk_backups := filter (\<lambda>(n, _). n \<noteq> name) (dk_backups dk) @ [(name, Document v)]\<rparr>"

definition prune_backups :: "nat \<Rightarrow> disk \<Rightarrow> disk" where
  "prune_backups keep dk = dk\<lparr>dk_backups := take keep (backups_newest_first dk)\<rparr>"

definition write_backup :: "store \<Rightarrow> write_outcome \<Rightarrow> string \<Rightarrow> json \<Rightarrow> disk \<Rightarrow> disk" where
  "write_backup st outcome name v dk =
     (case outcome of
        FailBefore \<Rightarrow> dk
      | FailAfter \<Rightarrow> put_backup name v dk
      | WriteOk \<Rightarrow> prune_backups (st_backup_keep st) (put_backup name v dk))"

text \<open>
  \<^verbatim>\<open>_apply_journal_unlocked\<close>: the disk it leaves and the error it raises, if any. A failed
  backup is only a warning.
\<close>

definition current_ledger :: "store \<Rightarrow> disk \<Rightarrow> (storage_error, json) result" where
  "current_ledger st dk =
     (case load_unlocked (st_modes st) dk of
        Inl LedgerCorruption \<Rightarrow> Inr empty_ledger
      | r \<Rightarrow> r)"

definition apply_ledger :: "store \<Rightarrow> write_outcome \<Rightarrow> json \<Rightarrow> disk \<Rightarrow> disk \<times> storage_error option" where
  "apply_ledger st outcome j dk =
     (if journal_ledger j = JNull then (dk, None)
      else case current_ledger st dk of
        Inl e \<Rightarrow> (dk, Some e)
      | Inr current \<Rightarrow>
          (if \<not> py_eq (jget (document current) ''last_transaction_id'') (journal_id j)
           then (dk\<lparr>dk_ledger := write_file outcome (journal_ledger j) (dk_ledger dk)\<rparr>,
                 if outcome = WriteOk then None else Some WriteFailed)
           else (dk, None)))"

definition apply_logs :: "store \<Rightarrow> append_outcome \<Rightarrow> json \<Rightarrow> disk \<Rightarrow> disk \<times> storage_error option" where
  "apply_logs st outcome j dk =
     (if journal_logs j = [] then (dk, None)
      else case append_missing_logs (st_encode st) outcome (journal_logs j) dk of
        (dk', failed) \<Rightarrow> (dk', if failed then Some WriteFailed else None))"

definition apply_backup :: "store \<Rightarrow> write_outcome \<Rightarrow> string \<Rightarrow> json \<Rightarrow> disk \<Rightarrow> disk" where
  "apply_backup st outcome stamp j dk =
     (if journal_ledger j = JNull then dk else write_backup st outcome stamp (journal_ledger j) dk)"

definition apply_journal :: "store \<Rightarrow> faults \<Rightarrow> string \<Rightarrow> json \<Rightarrow> disk \<Rightarrow> disk \<times> storage_error option" where
  "apply_journal st ft stamp j dk =
     (case apply_ledger st (ft_ledger ft) j dk of
        (dk1, Some e) \<Rightarrow> (dk1, Some e)
      | (dk1, None) \<Rightarrow>
          (case apply_logs st (ft_append ft) j dk1 of
             (dk2, Some e) \<Rightarrow> (dk2, Some e)
           | (dk2, None) \<Rightarrow> (apply_backup st (ft_backup ft) stamp j dk2, None)))"

definition clear_journal :: "faults \<Rightarrow> disk \<Rightarrow> disk" where
  "clear_journal ft dk = (if ft_clear ft then dk else dk\<lparr>dk_journal := None\<rparr>)"

text \<open>\<^verbatim>\<open>_recover_journal_unlocked\<close>\<close>

definition recover_journal :: "store \<Rightarrow> faults \<Rightarrow> string \<Rightarrow> disk \<Rightarrow> disk \<times> storage_error option" where
  "recover_journal st ft stamp dk =
     (case dk_journal dk of
        None \<Rightarrow> (dk, None)
      | Some Unreadable \<Rightarrow> (dk, Some JournalInvalid)
      | Some (Document j) \<Rightarrow>
          (case validate_journal (st_encode st) (st_modes st) j of
             Inl RaisedTypeError \<Rightarrow> (dk, Some RaisedTypeError)
           | Inl _ \<Rightarrow> (dk, Some JournalInvalid)
           | Inr _ \<Rightarrow>
               (case apply_journal st ft stamp j dk of
                  (dk', Some e) \<Rightarrow> (dk', Some e)
                | (dk', None) \<Rightarrow> (clear_journal ft dk', None))))"

text \<open>\<^verbatim>\<open>LedgerStore.load\<close> under the lock and without one\<close>

definition load :: "store \<Rightarrow> faults \<Rightarrow> string \<Rightarrow> disk \<Rightarrow> disk \<times> (storage_error, json) result" where
  "load st ft stamp dk =
     (case recover_journal st ft stamp dk of
        (dk', Some e) \<Rightarrow> (dk', Inl e)
      | (dk', None) \<Rightarrow> (dk', load_unlocked (st_modes st) dk'))"

definition load_read_only :: "store \<Rightarrow> disk \<Rightarrow> (storage_error, json) result" where
  "load_read_only st dk = load_unlocked (st_modes st) dk"

text \<open>\<^verbatim>\<open>json.dumps(.., allow_nan=False)\<close> accepts the value.\<close>

fun finite_json :: "json \<Rightarrow> bool" where
  "finite_json (JNonFinite _) = False"
| "finite_json (JArr xs) = list_all finite_json xs"
| "finite_json (JObj d) = list_all (\<lambda>p. finite_json (snd p)) d"
| "finite_json _ = True"

text \<open>An operating system error after the journal is in place defers the work to recovery.\<close>

fun os_error :: "storage_error \<Rightarrow> bool" where
  "os_error RaisedTypeError = False"
| "os_error (JournalRejected _) = False"
| "os_error (Mutator _) = False"
| "os_error _ = True"

text \<open>Fresh values of one transaction: its identifier, event identifiers, backup stamps, clock text.\<close>

record tx_env =
  te_id :: string
  te_events :: "string list"
  te_recovery_stamp :: string
  te_stamp :: string
  te_created_at :: string

definition commit :: "store \<Rightarrow> faults \<Rightarrow> tx_env \<Rightarrow> json \<Rightarrow> disk \<Rightarrow> 'r \<Rightarrow> disk \<times> (storage_error, 'r) result" where
  "commit st ft te j dk result =
     (case validate_journal (st_encode st) (st_modes st) j of
        Inl e \<Rightarrow> (dk, Inl e)
      | Inr _ \<Rightarrow>
          if \<not> finite_json j then (dk, Inl (JournalRejected ''not JSON compliant''))
          else let dk1 = dk\<lparr>dk_journal := write_file (ft_journal ft) j (dk_journal dk)\<rparr> in
          case ft_journal ft of
            FailBefore \<Rightarrow> (dk1, Inl WriteFailed)
          | FailAfter \<Rightarrow> (dk1, Inr result)
          | WriteOk \<Rightarrow>
              (case apply_journal st ft (te_stamp te) j dk1 of
                 (dk2, Some e) \<Rightarrow> (dk2, if os_error e then Inr result else Inl e)
               | (dk2, None) \<Rightarrow> (clear_journal ft dk2, Inr result)))"

text \<open>
  \<^verbatim>\<open>transaction\<close>: recover, load, mutate, journal, apply. The mutator raises or returns the new
  document, a result, audit items and whether the ledger changed.
\<close>

definition stamp_transaction :: "bool \<Rightarrow> string \<Rightarrow> json \<Rightarrow> json option" where
  "stamp_transaction changed tid ledger =
     (if changed then Some (JObj (jset (document ledger) ''last_transaction_id'' (JStr tid))) else None)"

definition transaction ::
  "store \<Rightarrow> faults \<Rightarrow> tx_env \<Rightarrow> (json \<Rightarrow> (booking_error, json \<times> 'r \<times> jobject list \<times> bool) result) \<Rightarrow> disk
    \<Rightarrow> disk \<times> (storage_error, 'r) result" where
  "transaction st ft te mutator dk =
     (case recover_journal st ft (te_recovery_stamp te) dk of
        (dk1, Some e) \<Rightarrow> (dk1, Inl e)
      | (dk1, None) \<Rightarrow>
          (case load_unlocked (st_modes st) dk1 of
             Inl e \<Rightarrow> (dk1, Inl e)
           | Inr ledger \<Rightarrow>
               (case mutator ledger of
                  Inl e \<Rightarrow> (dk1, Inl (Mutator e))
                | Inr (new_ledger, result, logs, changed) \<Rightarrow>
                    if \<not> changed \<and> logs = [] then (dk1, Inr result)
                    else commit st ft te
                           (make_journal (te_id te) (stamp_transaction changed (te_id te) new_ledger)
                              (prepare_logs (te_id te) (te_events te) logs) (te_created_at te))
                           dk1 result)))"

text \<open>\<^verbatim>\<open>reset\<close>: an empty ledger, no audit log, no journal, no backups; returns what was there.\<close>

definition reset_store :: "store \<Rightarrow> faults \<Rightarrow> string \<Rightarrow> disk \<Rightarrow> disk \<times> (storage_error, nat \<times> nat \<times> nat) result" where
  "reset_store st ft stamp dk =
     (case recover_journal st ft stamp dk of
        (dk1, Some e) \<Rightarrow> (dk1, Inl e)
      | (dk1, None) \<Rightarrow>
          (case load_unlocked (st_modes st) dk1 of
             Inl e \<Rightarrow> (dk1, Inl e)
           | Inr previous \<Rightarrow>
               if ft_ledger ft \<noteq> WriteOk
               then (dk1\<lparr>dk_ledger := write_file (ft_ledger ft) empty_ledger (dk_ledger dk1)\<rparr>, Inl WriteFailed)
               else (\<lparr>dk_ledger = Some (Document empty_ledger), dk_journal = None, dk_log = [], dk_tail = Clean,
                      dk_backups = []\<rparr>,
                     Inr (case jget (document previous) ''reservations'' of JArr xs \<Rightarrow> length xs | _ \<Rightarrow> 0,
                          length (dk_log dk1) + (if dk_tail dk1 = Clean then 0 else 1),
                          length (dk_backups dk1)))))"

end
