(* ===== verification/Recovery.thy ===== *)
theory Recovery
  imports Storage
begin

text \<open>
  What the journal buys: a transaction that is refused changes nothing, and one that is accepted is
  in the ledger and in the audit log, each audit event once, after the next recovery, whatever
  step failed. A crash after a step leaves the disk a failure of the next step leaves, so the
  failing outcomes cover the crashes.
\<close>

section \<open>Valid journals\<close>

lemma validate_logs_Inr:
  "res_fold (validate_journal_log encode tid) logs seen = Inr out \<Longrightarrow> distinct seen \<Longrightarrow>
   \<exists>ids. map event_id_of logs = map Some ids \<and> out = seen @ ids \<and> distinct out"
proof (induction logs arbitrary: seen)
  case (Cons item logs)
  from Cons.prems(1) obtain s1 where one: "validate_journal_log encode tid item seen = Inr s1"
    and rest: "res_fold (validate_journal_log encode tid) logs s1 = Inr out"
    by (auto simp: res_bind_eq_Inr)
  from one obtain e where e: "jget (document item) ''event_id'' = JStr e" "e \<notin> set seen" "s1 = seen @ [e]"
    by (auto simp: validate_journal_log_def split: json.splits)
  have "event_id_of item = Some e"
    using e(1) by (cases item) (auto simp: jget_def split: option.splits)
  moreover from Cons.IH [OF rest] e Cons.prems(2) obtain ids where
    "map event_id_of logs = map Some ids \<and> out = s1 @ ids \<and> distinct out" by auto
  ultimately show ?case using e(3) by (intro exI [of _ "e # ids"]) auto
qed simp

lemma valid_journal_logs:
  assumes "validate_journal encode modes j = Inr ()"
  shows "\<exists>ids. map event_id_of (journal_logs j) = map Some ids \<and> distinct ids"
proof -
  from assms obtain logs out where
    logs: "jget (document j) ''logs'' = JArr logs" "res_fold (validate_journal_log encode (journal_id j)) logs [] = Inr out"
    by (auto simp: validate_journal_def res_bind_eq_Inr res_map_def split: json.splits)
  from validate_logs_Inr [OF logs(2)] logs(1) show ?thesis by (auto simp: journal_logs_def)
qed

lemma valid_journal_ledger:
  assumes "validate_journal encode modes j = Inr ()" and "journal_ledger j \<noteq> JNull"
  shows "validate_ledger_document (journal_ledger j) = Inr ()"
    and "validate_storage_modes modes (journal_ledger j) = Inr ()"
    and "py_eq (jget (document (journal_ledger j)) ''last_transaction_id'') (journal_id j)"
proof -
  from assms have "validate_journal_ledger modes (journal_id j) (journal_ledger j) = Inr ()"
    by (auto simp: validate_journal_def res_bind_eq_Inr split: json.splits)
  with assms(2) show "validate_ledger_document (journal_ledger j) = Inr ()"
    and "validate_storage_modes modes (journal_ledger j) = Inr ()"
    and "py_eq (jget (document (journal_ledger j)) ''last_transaction_id'') (journal_id j)"
    by (auto simp: validate_journal_ledger_def res_bind_eq_Inr split: sum.splits schema_error.splits)
qed


section \<open>Which events are missing\<close>

lemma scan_tail_prefix:
  assumes "seen + sum_list (map sz xs) + 1 \<le> w"
  shows "scan_tail sz w seen (xs @ ys) = xs @ scan_tail sz w (seen + sum_list (map sz xs)) ys"
  using assms by (induction xs arbitrary: seen) (auto simp: Let_def add.assoc)

lemma scan_tail_subset: "set (scan_tail sz w seen xs) \<subseteq> set xs"
  by (induction xs arbitrary: seen) (auto simp: Let_def)

lemma map_filter_Some: "map f xs = map Some ys \<Longrightarrow> List.map_filter f xs = ys"
  by (induction xs arbitrary: ys) (auto simp: map_filter_simps)

lemma map_filter_append': "List.map_filter f (xs @ ys) = List.map_filter f xs @ List.map_filter f ys"
  by (simp add: map_filter_def)

lemma filter_drop_ids:
  assumes "map event_id_of G = map Some ids" and "distinct ids"
  shows "filter (\<lambda>item. case event_id_of item of None \<Rightarrow> True | Some i \<Rightarrow> i \<notin> set (take k ids)) G = drop k G"
    (is "filter ?P G = _")
proof -
  have disj: "set (take k ids) \<inter> set (drop k ids) = {}"
    using assms(2) by (metis append_take_drop_id distinct_append)
  have A: "event_id_of x \<in> Some ` set (take k ids)" if "x \<in> set (take k G)" for x
    using that assms(1) by (metis image_eqI list.set_map take_map)
  have B: "event_id_of x \<in> Some ` set (drop k ids)" if "x \<in> set (drop k G)" for x
    using that assms(1) by (metis image_eqI list.set_map drop_map)
  have "filter ?P (take k G) = []" using A by (force simp: filter_empty_conv)
  moreover have "filter ?P (drop k G) = drop k G"
    by (rule filter_True) (use B disj in force)
  ultimately show ?thesis by (metis append_Nil append_take_drop_id filter_append)
qed

text \<open>
  The log of a store in which a prefix of a batch was appended: the first \<open>k\<close> events, all of
  them readable, and at most a fragment of the next one.
\<close>

definition partial_log :: "(json \<Rightarrow> nat) \<Rightarrow> json list \<Rightarrow> json list \<Rightarrow> nat \<Rightarrow> disk \<Rightarrow> bool" where
  "partial_log sz old G k dk \<longleftrightarrow>
     k \<le> length G \<and> reversed_lines dk = rev (take k G) @ rev old
     \<and> (0 < k \<longrightarrow> fragment_bytes dk + sum_list (map sz (take k G)) \<le> sum_list (map sz G))"

lemma missing_partial:
  assumes p: "partial_log (line_bytes encode) old G k dk" and ids: "map event_id_of G = map Some ids" "distinct ids"
    and new: "set ids \<inter> set (List.map_filter event_id_of old) = {}"
  shows "missing_logs encode G dk = drop k G"
proof -
  let ?sz = "line_bytes encode" and ?w = "1 + sum_list (map (line_bytes encode) G)"
  let ?R = "scan_tail ?sz ?w (fragment_bytes dk + sum_list (map ?sz (rev (take k G)))) (rev old)"
  have len: "length G = length ids" using ids(1) map_eq_imp_length_eq by blast
  have sum: "sum_list (map ?sz (rev (take k G))) = sum_list (map ?sz (take k G))"
    by (simp add: rev_map [symmetric] sum_list_rev)
  have scan: "scan_tail ?sz (max 1 ?w) (fragment_bytes dk) (reversed_lines dk) = rev (take k G) @ ?R"
    using p scan_tail_prefix [of "fragment_bytes dk" ?sz "rev (take k G)" ?w "rev old"]
    by (cases "k = 0") (simp_all add: partial_log_def sum)
  have "map event_id_of (rev (take k G)) = map Some (rev (take k ids))"
    using ids(1) by (metis rev_map take_map)
  then have first: "List.map_filter event_id_of (rev (take k G)) = rev (take k ids)" by (rule map_filter_Some)
  have "set (List.map_filter event_id_of ?R) \<subseteq> set (List.map_filter event_id_of old)"
    using scan_tail_subset [of ?sz ?w _ "rev old"] by (fastforce simp: set_map_filter)
  with new have rest: "filter (\<lambda>i. i \<in> set ids) (List.map_filter event_id_of ?R) = []"
    by (auto simp: filter_empty_conv)
  have known: "filter (\<lambda>i. i \<in> set ids) (rev (take k ids)) = rev (take k ids)"
    by (rule filter_True) (auto dest: in_set_takeD)
  have recent: "recent_event_ids encode ids ?w dk = rev (take k ids)"
    unfolding recent_event_ids_def scan map_filter_append' first filter_append rest known by simp
  show ?thesis
    unfolding missing_logs_def Let_def map_filter_Some [OF ids(1)] recent set_rev
    by (rule filter_drop_ids [OF ids])
qed


lemma reversed_repair: "reversed_lines (repair_tail dk) = reversed_lines dk" "dk_tail (repair_tail dk) = Clean"
  by (simp_all add: reversed_lines_def repair_tail_def split: log_tail.splits)

lemma repair_tail_log: "dk_log (repair_tail dk) = rev (reversed_lines dk)"
  by (simp add: reversed_lines_def repair_tail_def split: log_tail.splits)

lemma repair_tail_fields [simp]:
  "dk_ledger (repair_tail dk) = dk_ledger dk" "dk_journal (repair_tail dk) = dk_journal dk"
  "dk_backups (repair_tail dk) = dk_backups dk"
  by (simp_all add: repair_tail_def split: log_tail.splits)

lemma append_lines_fields [simp]:
  "dk_ledger (append_lines oc items dk) = dk_ledger dk" "dk_journal (append_lines oc items dk) = dk_journal dk"
  "dk_backups (append_lines oc items dk) = dk_backups dk"
  by (simp_all add: append_lines_def Let_def split: append_outcome.splits)

text \<open>A fault-free append completes any prefix of the batch.\<close>

lemma append_completes:
  assumes p: "partial_log (line_bytes encode) old G k dk" and ids: "map event_id_of G = map Some ids" "distinct ids"
    and new: "set ids \<inter> set (List.map_filter event_id_of old) = {}"
  shows "\<exists>dk'. append_missing_logs encode AppendOk G dk = (dk', False) \<and> reversed_lines dk' = rev G @ rev old
    \<and> dk_ledger dk' = dk_ledger dk \<and> dk_journal dk' = dk_journal dk \<and> dk_backups dk' = dk_backups dk"
proof (cases "drop k G = []")
  case True
  then have "take k G = G" by simp
  with p True show ?thesis
    by (simp add: append_missing_logs_def missing_partial [OF assms] partial_log_def)
next
  case False
  have "dk_log (append_lines AppendOk (drop k G) dk) = old @ G"
    using p by (simp add: append_lines_def Let_def repair_tail_log partial_log_def)
  moreover have "dk_tail (append_lines AppendOk (drop k G) dk) = Clean"
    by (simp add: append_lines_def Let_def reversed_repair(2))
  ultimately have "reversed_lines (append_lines AppendOk (drop k G) dk) = rev G @ rev old"
    by (simp add: reversed_lines_def)
  with False show ?thesis
    by (simp add: append_missing_logs_def missing_partial [OF assms] Let_def)
qed


section \<open>Recovery\<close>

text \<open>
  A store with the journal \<open>j\<close> in place: the ledger is the old one or already the new one, and
  the audit log holds a prefix of the batch. \<open>cur\<close> is the ledger the transaction started from.
\<close>

definition recoverable :: "store \<Rightarrow> json \<Rightarrow> json \<Rightarrow> json list \<Rightarrow> disk \<Rightarrow> bool" where
  "recoverable st j cur old dk \<longleftrightarrow>
     dk_journal dk = Some (Document j)
     \<and> (journal_ledger j \<noteq> JNull \<and> dk_ledger dk = Some (Document (journal_ledger j))
        \<or> load_unlocked (st_modes st) dk = Inr cur)
     \<and> (\<exists>k. partial_log (line_bytes (st_encode st)) old (journal_logs j) k dk)"

text \<open>The transaction is done: ledger and events are there, and nothing is pending.\<close>

definition done_with :: "json \<Rightarrow> json list \<Rightarrow> disk \<Rightarrow> bool" where
  "done_with j old dk \<longleftrightarrow>
     dk_journal dk = None
     \<and> (journal_ledger j \<noteq> JNull \<longrightarrow> dk_ledger dk = Some (Document (journal_ledger j)))
     \<and> rev (reversed_lines dk) = old @ journal_logs j"

lemma load_new_ledger:
  assumes "validate_journal (st_encode st) (st_modes st) j = Inr ()" and "journal_ledger j \<noteq> JNull"
    and "dk_ledger dk = Some (Document (journal_ledger j))"
  shows "load_unlocked (st_modes st) dk = Inr (journal_ledger j)"
  using assms valid_journal_ledger [OF assms(1,2)] by (simp add: load_unlocked_def)

lemma apply_ledger_recovers:
  assumes j: "validate_journal (st_encode st) (st_modes st) j = Inr ()" and r: "recoverable st j cur old dk"
    and fresh: "\<not> py_eq (jget (document cur) ''last_transaction_id'') (journal_id j)"
  shows "\<exists>dk'. apply_ledger st WriteOk j dk = (dk', None) \<and> dk_journal dk' = Some (Document j)
    \<and> (journal_ledger j \<noteq> JNull \<longrightarrow> dk_ledger dk' = Some (Document (journal_ledger j)))
    \<and> dk_log dk' = dk_log dk \<and> dk_tail dk' = dk_tail dk"
proof (cases "journal_ledger j = JNull")
  case True
  with r show ?thesis by (simp add: apply_ledger_def recoverable_def)
next
  case False
  show ?thesis
  proof (cases "dk_ledger dk = Some (Document (journal_ledger j))")
    case True
    have "current_ledger st dk = Inr (journal_ledger j)"
      using load_new_ledger [OF j False True] by (simp add: current_ledger_def)
    with True False r valid_journal_ledger(3) [OF j False] show ?thesis
      by (simp add: apply_ledger_def recoverable_def)
  next
    case no: False
    with r have "load_unlocked (st_modes st) dk = Inr cur" by (simp add: recoverable_def)
    then have "current_ledger st dk = Inr cur" by (simp add: current_ledger_def)
    with False fresh r show ?thesis by (simp add: apply_ledger_def recoverable_def write_file_def)
  qed
qed

lemma write_backup_fields [simp]:
  "dk_ledger (write_backup st oc n v dk) = dk_ledger dk" "dk_journal (write_backup st oc n v dk) = dk_journal dk"
  "dk_log (write_backup st oc n v dk) = dk_log dk" "dk_tail (write_backup st oc n v dk) = dk_tail dk"
  by (simp_all add: write_backup_def put_backup_def prune_backups_def split: write_outcome.splits)

lemma apply_backup_fields [simp]:
  "dk_ledger (apply_backup st oc n j dk) = dk_ledger dk" "dk_journal (apply_backup st oc n j dk) = dk_journal dk"
  "dk_log (apply_backup st oc n j dk) = dk_log dk" "dk_tail (apply_backup st oc n j dk) = dk_tail dk"
  by (simp_all add: apply_backup_def)

lemma reversed_lines_cong: "dk_log a = dk_log b \<Longrightarrow> dk_tail a = dk_tail b \<Longrightarrow> reversed_lines a = reversed_lines b"
  by (simp add: reversed_lines_def)

lemma partial_log_cong:
  "dk_log a = dk_log b \<Longrightarrow> dk_tail a = dk_tail b \<Longrightarrow> partial_log sz old G k a = partial_log sz old G k b"
  by (simp add: partial_log_def reversed_lines_def fragment_bytes_def)

lemma apply_logs_recovers:
  assumes p: "partial_log (line_bytes (st_encode st)) old (journal_logs j) k dk"
    and j: "validate_journal (st_encode st) (st_modes st) j = Inr ()"
    and new: "set (List.map_filter event_id_of (journal_logs j)) \<inter> set (List.map_filter event_id_of old) = {}"
  shows "\<exists>dk'. apply_logs st AppendOk j dk = (dk', None) \<and> reversed_lines dk' = rev (journal_logs j) @ rev old
    \<and> dk_ledger dk' = dk_ledger dk \<and> dk_journal dk' = dk_journal dk"
proof (cases "journal_logs j = []")
  case True
  with p show ?thesis by (simp add: apply_logs_def partial_log_def)
next
  case False
  obtain ids where ids: "map event_id_of (journal_logs j) = map Some ids" "distinct ids"
    using valid_journal_logs [OF j] by blast
  with new have "set ids \<inter> set (List.map_filter event_id_of old) = {}" by (simp add: map_filter_Some)
  from append_completes [OF p ids this] False show ?thesis by (auto simp: apply_logs_def)
qed

lemma recover_completes:
  assumes j: "validate_journal (st_encode st) (st_modes st) j = Inr ()" and r: "recoverable st j cur old dk"
    and fresh: "\<not> py_eq (jget (document cur) ''last_transaction_id'') (journal_id j)"
    and new: "set (List.map_filter event_id_of (journal_logs j)) \<inter> set (List.map_filter event_id_of old) = {}"
  shows "\<exists>dk'. recover_journal st no_faults stamp dk = (dk', None) \<and> done_with j old dk'"
proof -
  obtain dk1 where one: "apply_ledger st WriteOk j dk = (dk1, None)" "dk_journal dk1 = Some (Document j)"
    "journal_ledger j \<noteq> JNull \<Longrightarrow> dk_ledger dk1 = Some (Document (journal_ledger j))"
    "dk_log dk1 = dk_log dk" "dk_tail dk1 = dk_tail dk"
    using apply_ledger_recovers [OF j r fresh] by blast
  from r obtain k where "partial_log (line_bytes (st_encode st)) old (journal_logs j) k dk"
    by (auto simp: recoverable_def)
  then have "partial_log (line_bytes (st_encode st)) old (journal_logs j) k dk1"
    using partial_log_cong [OF one(4,5)] by simp
  then obtain dk2 where two: "apply_logs st AppendOk j dk1 = (dk2, None)"
    "reversed_lines dk2 = rev (journal_logs j) @ rev old" "dk_ledger dk2 = dk_ledger dk1" "dk_journal dk2 = dk_journal dk1"
    using apply_logs_recovers [OF _ j new] by blast
  let ?dk = "(apply_backup st WriteOk stamp j dk2)\<lparr>dk_journal := None\<rparr>"
  have "recover_journal st no_faults stamp dk = (?dk, None)"
    using r j one(1) two(1)
    by (simp add: recover_journal_def recoverable_def apply_journal_def no_faults_def clear_journal_def)
  moreover have "reversed_lines ?dk = reversed_lines dk2" by (rule reversed_lines_cong) simp_all
  then have "done_with j old ?dk" using one(3) two by (simp add: done_with_def)
  ultimately show ?thesis by blast
qed



section \<open>Transactions under faults\<close>

text \<open>A torn append leaves whole lines of the batch and at most a part of the next one.\<close>

definition torn_ok :: "(json \<Rightarrow> nat) \<Rightarrow> json list \<Rightarrow> append_outcome \<Rightarrow> bool" where
  "torn_ok sz G oc =
     (case oc of
        AppendTorn k tail \<Rightarrow>
          k \<le> length G \<and> (case tail of Clean \<Rightarrow> True
            | Fragment n \<Rightarrow> k < length G \<and> n \<le> sz (G ! k)
            | Unterminated v \<Rightarrow> k < length G \<and> v = G ! k)
      | _ \<Rightarrow> True)"

lemma sum_take_Suc_le:
  assumes "k < length G"
  shows "sum_list (map sz (take k G)) + sz (G ! k) \<le> (sum_list (map sz G) :: nat)"
proof -
  have "sum_list (map sz G) = sum_list (map sz (take k G)) + sz (G ! k) + sum_list (map sz (drop (Suc k) G))"
    using id_take_nth_drop [OF assms] by (metis add.assoc map_append list.simps(9) sum_list.Cons sum_list_append)
  then show ?thesis by simp
qed

lemma sum_take_le: "sum_list (map sz (take k G)) \<le> (sum_list (map sz G) :: nat)"
  by (metis append_take_drop_id le_add1 map_append sum_list_append)

lemma append_outcome_partial:
  assumes "reversed_lines dk = rev old" and "torn_ok sz G oc"
  shows "\<exists>k. partial_log sz old G k (append_lines oc G dk)"
proof (cases oc)
  case AppendOk
  then show ?thesis using assms(1)
    by (intro exI [of _ "length G"])
      (simp add: partial_log_def append_lines_def Let_def reversed_lines_def fragment_bytes_def
        reversed_repair repair_tail_log)
next
  case AppendRolledBack
  then show ?thesis using assms(1)
    by (intro exI [of _ 0]) (simp add: partial_log_def append_lines_def Let_def reversed_repair)
next
  case (AppendTorn k tail)
  note torn = assms(2) [unfolded AppendTorn torn_ok_def, simplified]
  have log: "dk_log (append_lines oc G dk) = old @ take k G" "dk_tail (append_lines oc G dk) = tail"
    using assms(1) by (simp_all add: AppendTorn append_lines_def Let_def repair_tail_log)
  show ?thesis
  proof (cases tail)
    case Clean
    with torn log sum_take_le [of sz k G] show ?thesis
      by (intro exI [of _ k]) (simp add: partial_log_def reversed_lines_def fragment_bytes_def)
  next
    case (Fragment n)
    with torn log sum_take_Suc_le [of k G sz] show ?thesis
      by (intro exI [of _ k]) (simp add: partial_log_def reversed_lines_def fragment_bytes_def)
  next
    case (Unterminated v)
    with torn log sum_take_le [of sz "Suc k" G] show ?thesis
      by (intro exI [of _ "Suc k"])
        (simp add: partial_log_def reversed_lines_def fragment_bytes_def take_Suc_conv_app_nth)
  qed
qed

lemma load_unlocked_cong:
  assumes "dk_ledger a = dk_ledger b" and "dk_backups a = dk_backups b"
  shows "load_unlocked m a = load_unlocked m b"
proof -
  have "restore a = restore b"
    using assms(2) by (simp add: restore_def load_latest_backup_def backups_newest_first_def)
  then show ?thesis unfolding load_unlocked_def assms(1) by (simp only:)
qed

text \<open>Whatever step of the application fails, the journal can finish the job later.\<close>

lemma apply_journal_recoverable:
  assumes j: "validate_journal (st_encode st) (st_modes st) j = Inr ()"
    and dk: "dk_journal dk = Some (Document j)" "load_unlocked (st_modes st) dk = Inr cur" "reversed_lines dk = rev old"
    and fresh: "\<not> py_eq (jget (document cur) ''last_transaction_id'') (journal_id j)"
    and new: "set (List.map_filter event_id_of (journal_logs j)) \<inter> set (List.map_filter event_id_of old) = {}"
    and torn: "torn_ok (line_bytes (st_encode st)) (journal_logs j) (ft_append ft)"
    and ap: "apply_journal st ft stamp j dk = (dk', err)"
  shows "recoverable st j cur old dk'" "err = None \<or> err = Some WriteFailed"
    "err = None \<Longrightarrow> done_with j old (dk'\<lparr>dk_journal := None\<rparr>)"
proof -
  let ?G = "journal_logs j" and ?sz = "line_bytes (st_encode st)"
  have cur: "current_ledger st dk = Inr cur" using dk(2) by (simp add: current_ledger_def)
  obtain ids where ids: "map event_id_of ?G = map Some ids" "distinct ids" using valid_journal_logs [OF j] by blast
  have new': "set ids \<inter> set (List.map_filter event_id_of old) = {}" using new by (simp add: map_filter_Some [OF ids(1)])
  have p0: "partial_log ?sz old ?G 0 x" if "reversed_lines x = rev old" for x using that by (simp add: partial_log_def)
  obtain dk1 e1 where one: "apply_ledger st (ft_ledger ft) j dk = (dk1, e1)" by (cases "apply_ledger st (ft_ledger ft) j dk")
  have s1: "dk_journal dk1 = Some (Document j)" "dk_log dk1 = dk_log dk" "dk_tail dk1 = dk_tail dk"
      "dk_backups dk1 = dk_backups dk" "e1 = None \<or> e1 = Some WriteFailed"
      "dk_ledger dk1 = dk_ledger dk \<or> journal_ledger j \<noteq> JNull \<and> dk_ledger dk1 = Some (Document (journal_ledger j))"
      "e1 = None \<Longrightarrow> journal_ledger j \<noteq> JNull \<Longrightarrow> dk_ledger dk1 = Some (Document (journal_ledger j))"
    using one fresh dk(1) by (auto simp: apply_ledger_def cur write_file_def split: if_splits)
  have rev1: "reversed_lines dk1 = rev old" using reversed_lines_cong [OF s1(2,3)] dk(3) by simp
  have led1: "journal_ledger j \<noteq> JNull \<and> dk_ledger dk1 = Some (Document (journal_ledger j))
      \<or> load_unlocked (st_modes st) dk1 = Inr cur"
    using s1(6) load_unlocked_cong [OF _ s1(4)] dk(2) by metis
  obtain dk2 e2 where two: "apply_logs st (ft_append ft) j dk1 = (dk2, e2)" by (cases "apply_logs st (ft_append ft) j dk1")
  have "missing_logs (st_encode st) ?G dk1 = ?G" using missing_partial [OF p0 [OF rev1] ids new'] by simp
  then have dk2: "?G = [] \<and> dk2 = dk1 \<and> e2 = None
      \<or> ?G \<noteq> [] \<and> dk2 = append_lines (ft_append ft) ?G dk1 \<and> e2 = (if ft_append ft = AppendOk then None else Some WriteFailed)"
    using two by (auto simp: apply_logs_def append_missing_logs_def split: if_splits)
  have p2: "\<exists>k. partial_log ?sz old ?G k dk2"
    using dk2 p0 [OF rev1] append_outcome_partial [OF rev1 torn] by auto
  have s2: "dk_ledger dk2 = dk_ledger dk1" "dk_journal dk2 = dk_journal dk1" "dk_backups dk2 = dk_backups dk1"
    using dk2 by auto
  have full: "reversed_lines dk2 = rev ?G @ rev old" if "e2 = None"
    using dk2 that rev1 repair_tail_log [of dk1] reversed_repair(2) [of dk1]
    by (auto simp: append_lines_def reversed_lines_def split: if_splits)
  show "err = None \<or> err = Some WriteFailed"
    using ap one two s1(5) dk2 by (auto simp: apply_journal_def split: option.splits if_splits)
  have led2: "journal_ledger j \<noteq> JNull \<and> dk_ledger dk2 = Some (Document (journal_ledger j))
      \<or> load_unlocked (st_modes st) dk2 = Inr cur"
    using led1 load_unlocked_cong [OF s2(1,3)] s2(1) by metis
  let ?b = "apply_backup st (ft_backup ft) stamp j dk2"
  have led3: "journal_ledger j \<noteq> JNull \<and> dk_ledger ?b = Some (Document (journal_ledger j))
      \<or> load_unlocked (st_modes st) ?b = Inr cur" if "e1 = None"
    using led2 s1(7) [OF that] s2(1) by (cases "journal_ledger j = JNull") (auto simp: apply_backup_def)
  have out: "dk' = dk1 \<and> err = e1 \<and> e1 \<noteq> None \<or> e1 = None \<and> e2 \<noteq> None \<and> dk' = dk2 \<and> err = e2
      \<or> e1 = None \<and> e2 = None \<and> dk' = ?b \<and> err = None"
    using ap by (auto simp: apply_journal_def one two split: option.splits)
  have p3: "\<exists>k. partial_log ?sz old ?G k ?b" using p2 partial_log_cong [of ?b dk2] by simp
  show "recoverable st j cur old dk'"
    using out led1 led2 led3 p0 [OF rev1] p2 p3 s1(1) s2(2) unfolding recoverable_def by auto
  have "reversed_lines (?b\<lparr>dk_journal := None\<rparr>) = reversed_lines dk2" by (rule reversed_lines_cong) simp_all
  then show "done_with j old (dk'\<lparr>dk_journal := None\<rparr>)" if "err = None"
    using out that full s1(7) s2(1) by (auto simp: done_with_def)
qed

lemma commit_atomic:
  assumes start: "load_unlocked (st_modes st) dk = Inr cur" "old = rev (reversed_lines dk)"
    and fresh: "\<not> py_eq (jget (document cur) ''last_transaction_id'') (journal_id j)"
    and new: "set (List.map_filter event_id_of (journal_logs j)) \<inter> set (List.map_filter event_id_of old) = {}"
    and torn: "torn_ok (line_bytes (st_encode st)) (journal_logs j) (ft_append ft)"
    and c: "commit st ft te j dk result = (dk1, r)"
  shows "(case r of
      Inl _ \<Rightarrow> dk1 = dk
    | Inr res \<Rightarrow> res = result
        \<and> (\<exists>dk2. recover_journal st no_faults stamp dk1 = (dk2, None) \<and> done_with j old dk2))"
proof (cases "validate_journal (st_encode st) (st_modes st) j = Inr () \<and> finite_json j \<and> ft_journal ft \<noteq> FailBefore")
  case False
  with c show ?thesis by (auto simp: commit_def write_file_def Let_def split: sum.splits if_splits)
next
  case True
  let ?dk = "dk\<lparr>dk_journal := Some (Document j)\<rparr>"
  have load: "load_unlocked (st_modes st) ?dk = Inr cur" using start(1) load_unlocked_cong [of ?dk dk] by simp
  have rev: "reversed_lines ?dk = rev old" using start(2) by (simp add: reversed_lines_def)
  have finish: "\<exists>dk2. recover_journal st no_faults stamp x = (dk2, None) \<and> done_with j old dk2"
    if "recoverable st j cur old x" for x
    using recover_completes [OF _ that fresh new] True by simp
  show ?thesis
  proof (cases "ft_journal ft")
    case FailAfter
    have "recoverable st j cur old ?dk" using load rev by (auto simp: recoverable_def partial_log_def intro: exI [of _ 0])
    with c True FailAfter finish show ?thesis by (auto simp: commit_def write_file_def)
  next
    case WriteOk
    obtain dk2 err where ap: "apply_journal st ft (te_stamp te) j ?dk = (dk2, err)" by (cases "apply_journal st ft (te_stamp te) j ?dk")
    note rc = apply_journal_recoverable [OF conjunct1 [OF True] _ load rev fresh new torn ap, simplified]
    show ?thesis
    proof (cases err)
      case (Some e)
      with c True WriteOk ap rc(2) finish [OF rc(1)] show ?thesis
        by (auto simp: commit_def write_file_def)
    next
      case None
      have "recover_journal st no_faults stamp (dk2\<lparr>dk_journal := None\<rparr>) = (dk2\<lparr>dk_journal := None\<rparr>, None)"
        by (simp add: recover_journal_def)
      with c True WriteOk ap None rc(3) finish [OF rc(1)] show ?thesis
        by (cases "ft_clear ft") (auto simp: commit_def write_file_def clear_journal_def)
    qed
  qed (use True in simp)
qed



section \<open>Backups\<close>

lemma sorted_last_ge: "sorted (map f xs) \<Longrightarrow> x \<in> set xs \<Longrightarrow> f x \<le> f (last xs)"
  by (induction xs rule: rev_induct) (auto simp: sorted_append)

lemma newest_first:
  assumes "p \<in> set (dk_backups dk)" and "\<And>q. q \<in> set (dk_backups dk) \<Longrightarrow> q = p \<or> fst q < fst p"
  shows "\<exists>rest. backups_newest_first dk = p # rest"
proof -
  let ?s = "sort_key fst (dk_backups dk)"
  have ne: "?s \<noteq> []" using assms(1) by (metis list.set(1) empty_iff set_sort)
  have "fst p \<le> fst (last ?s)" by (rule sorted_last_ge) (use assms(1) in simp_all)
  moreover have "last ?s \<in> set (dk_backups dk)" using ne last_in_set by fastforce
  ultimately have "last ?s = p" using assms(2) by fastforce
  with ne have "?s = butlast ?s @ [p]" by (metis append_butlast_last_id)
  then have "rev ?s = p # rev (butlast ?s)" by (metis rev_eq_Cons_iff rev_rev_ident)
  then show ?thesis unfolding backups_newest_first_def by blast
qed

lemma write_backup_newest:
  assumes keep: "0 < st_backup_keep st" and name: "\<And>n f. (n, f) \<in> set (dk_backups dk) \<Longrightarrow> n < stamp"
  shows "\<exists>rest. backups_newest_first (write_backup st WriteOk stamp v dk) = (stamp, Document v) # rest"
    and "length (dk_backups (write_backup st WriteOk stamp v dk)) \<le> st_backup_keep st"
proof -
  let ?put = "put_backup stamp v dk"
  have put: "q = (stamp, Document v) \<or> fst q < stamp" if "q \<in> set (dk_backups ?put)" for q
    using that name [of "fst q" "snd q"] by (auto simp: put_backup_def)
  have "(stamp, Document v) \<in> set (dk_backups ?put)" by (simp add: put_backup_def)
  from newest_first [OF this] put obtain rest where
    rest: "backups_newest_first ?put = (stamp, Document v) # rest" by auto
  have pruned: "dk_backups (write_backup st WriteOk stamp v dk) = take (st_backup_keep st) ((stamp, Document v) # rest)"
    by (simp add: write_backup_def prune_backups_def rest)
  show "length (dk_backups (write_backup st WriteOk stamp v dk)) \<le> st_backup_keep st" by (simp add: pruned)
  have "set (dk_backups (write_backup st WriteOk stamp v dk)) \<subseteq> set (dk_backups ?put)"
    unfolding pruned rest [symmetric] by (auto simp: backups_newest_first_def dest: in_set_takeD)
  moreover have "(stamp, Document v) \<in> set (dk_backups (write_backup st WriteOk stamp v dk))"
    unfolding pruned using keep by (cases "st_backup_keep st") auto
  ultimately show "\<exists>rest. backups_newest_first (write_backup st WriteOk stamp v dk) = (stamp, Document v) # rest"
    using newest_first [of "(stamp, Document v)" "write_backup st WriteOk stamp v dk"] put by (auto dest: subsetD)
qed

text \<open>A ledger file lost after a backup is read back from that backup.\<close>

lemma lost_ledger_restored:
  assumes "0 < st_backup_keep st" and "\<And>n f. (n, f) \<in> set (dk_backups dk) \<Longrightarrow> n < stamp"
    and "validate_ledger_document v = Inr ()" and "validate_storage_modes (st_modes st) v = Inr ()"
    and "dk_ledger dk' = Some Unreadable" and "dk_backups dk' = dk_backups (write_backup st WriteOk stamp v dk)"
  shows "load_unlocked (st_modes st) dk' = Inr v"
proof -
  obtain rest where "backups_newest_first (write_backup st WriteOk stamp v dk) = (stamp, Document v) # rest"
    using write_backup_newest(1) [OF assms(1), of dk stamp v] assms(2) by blast
  then have "backups_newest_first dk' = (stamp, Document v) # rest"
    by (simp add: backups_newest_first_def assms(6))
  then show ?thesis
    by (simp add: load_unlocked_def restore_def load_latest_backup_def assms(3-5))
qed

text \<open>
  A ledger document whose reservation has a list as its mode: the validator raises
  \<^verbatim>\<open>TypeError\<close>, and the store does not fall back to its backups.
\<close>

lemma type_error_not_restored:
  assumes "dk_ledger dk = Some (Document data)" and "validate_ledger_document data = Inl SchemaTypeError"
  shows "load_unlocked modes dk = Inl RaisedTypeError"
  using assms by (simp add: load_unlocked_def)

end
