(* ===== verification/Worker.thy ===== *)
theory Worker
  imports Booking
begin

text \<open>
  \<^verbatim>\<open>bk/worker.py\<close>, the writes of the job worker: claiming due jobs, the launch guard's
  notes, marking a claim running, failed or aborted, completing a job and retrying one. Each is
  the mutation its transaction applies to the loaded ledger. A loop over the reservations that
  updates some of them in place is a \<open>sweep\<close>; the clock readings of audit events and the fresh
  claim tokens of one call are functions of how many were drawn before. The keys of a job are
  read with \<^verbatim>\<open>get\<close>, so an absent key and \<^verbatim>\<open>null\<close> are both \<open>None\<close>.
\<close>

type_synonym 'r effect = "ledger \<times> 'r \<times> log_item list \<times> bool"

section \<open>Loops over the reservations\<close>

datatype 'a visit = Skip | Touch reservation "log_item option" "'a option"

record 'a sweep =
  sw_reservations :: "reservation list"
  sw_out :: "'a list"
  sw_logs :: "log_item list"
  sw_changed :: bool

definition opt_list :: "'a option \<Rightarrow> 'a list" where
  "opt_list x = (case x of None \<Rightarrow> [] | Some y \<Rightarrow> [y])"

text \<open>
  The loop visits positions of the ledger's list, each once; the body sees how many results and
  how many events it has produced.
\<close>

fun sweep_loop ::
  "(nat \<Rightarrow> nat \<Rightarrow> reservation \<Rightarrow> 'a visit) \<Rightarrow> (nat \<times> reservation) list \<Rightarrow> 'a sweep \<Rightarrow> 'a sweep" where
  "sweep_loop body [] s = s"
| "sweep_loop body ((i, r) # todo) s =
     sweep_loop body todo
       (case body (length (sw_out s)) (length (sw_logs s)) r of
          Skip \<Rightarrow> s
        | Touch r' event out \<Rightarrow>
            s\<lparr>sw_reservations := (sw_reservations s)[i := r'], sw_out := sw_out s @ opt_list out,
              sw_logs := sw_logs s @ opt_list event, sw_changed := True\<rparr>)"

definition run_sweep ::
  "(nat \<Rightarrow> nat \<Rightarrow> reservation \<Rightarrow> 'a visit) \<Rightarrow> (nat \<times> reservation) list \<Rightarrow> ledger \<Rightarrow> 'a list effect" where
  "run_sweep body order l =
     (let s = sweep_loop body order
        \<lparr>sw_reservations = lg_reservations l, sw_out = [], sw_logs = [], sw_changed = False\<rparr>
      in (l\<lparr>lg_reservations := sw_reservations s\<rparr>, sw_out s, sw_logs s, sw_changed s))"

definition in_order :: "reservation list \<Rightarrow> (nat \<times> reservation) list" where
  "in_order rs = enumerate 0 rs"


section \<open>Audit events\<close>

definition put_job :: "job \<Rightarrow> reservation \<Rightarrow> reservation" where
  "put_job j r = r\<lparr>rs_job := Some j\<rparr>"

text \<open>Every caller has just written the job, so the result is its status.\<close>

definition job_log :: "actor \<Rightarrow> string \<Rightarrow> reservation \<Rightarrow> string \<Rightarrow> datetime \<Rightarrow> log_item" where
  "job_log actor action r message ts =
     \<lparr>li_ts = whole_second ts, li_uid = actor_uid actor, li_username = actor_username actor,
      li_action = action, li_reservation_id = rs_id r, li_op_id = rs_op_id r, li_gpus = rs_gpus r,
      li_mode = rs_mode r, li_share_units = None, li_start_at = rs_start_at r, li_end_at = rs_end_at r,
      li_result = (case rs_job r of None \<Rightarrow> [] | Some j \<Rightarrow> jb_status j), li_message = message,
      li_actor = None\<rparr>"

definition timestamp_before :: "datetime option \<Rightarrow> datetime \<Rightarrow> bool" where
  "timestamp_before value cutoff = (case value of None \<Rightarrow> True | Some t \<Rightarrow> t \<le> cutoff)"


section \<open>Claiming due jobs\<close>

record claim_call =
  cc_now :: datetime
  cc_worker_id :: string
  cc_worker_lease_id :: string
  cc_runner_host :: string
  cc_runner_pid :: int
  cc_claim_timeout :: timedelta
  cc_limit :: int
  cc_eligible_ids :: "string list option"
  cc_token :: "nat \<Rightarrow> string"
  cc_log :: "nat \<Rightarrow> datetime"

definition stale_claim :: "datetime \<Rightarrow> job \<Rightarrow> job" where
  "stale_claim now j =
     j\<lparr>jb_status := JOB_UNCERTAIN, jb_finished_at := Some (whole_second now),
       jb_message := Some ''worker disappeared after durable claim; not retried automatically''\<rparr>"

definition missed_message :: "job \<Rightarrow> string" where
  "missed_message j =
     (if jb_launch_guard_state j = Some ''waiting''
      then ''reservation window ended while waiting for live GPU safety''
      else ''reservation window ended'')"

definition missed_reservation :: "datetime \<Rightarrow> job \<Rightarrow> reservation \<Rightarrow> reservation" where
  "missed_reservation now j r =
     put_job (j\<lparr>jb_status := JOB_MISSED, jb_finished_at := Some (whole_second now),
                jb_message := Some (missed_message j)\<rparr>)
       (r\<lparr>rs_status := STATUS_EXPIRED, rs_updated_at := Some (whole_second now)\<rparr>)"

definition claimed_job :: "claim_call \<Rightarrow> string \<Rightarrow> job \<Rightarrow> job" where
  "claimed_job cc token j =
     j\<lparr>jb_status := JOB_CLAIMED, jb_claim_token := Some token, jb_claimed_at := Some (whole_second (cc_now cc)),
       jb_worker_id := Some (cc_worker_id cc), jb_worker_lease_id := Some (cc_worker_lease_id cc),
       jb_runner_host := Some (cc_runner_host cc), jb_runner_pid := Some (cc_runner_pid cc),
       jb_message := None, jb_launch_guard_state := None, jb_launch_guard_key := None,
       jb_waiting_since := None\<rparr>"

definition claimed_reservation :: "claim_call \<Rightarrow> string \<Rightarrow> job \<Rightarrow> reservation \<Rightarrow> reservation" where
  "claimed_reservation cc token j r =
     put_job (claimed_job cc token j) (r\<lparr>rs_updated_at := Some (whole_second (cc_now cc))\<rparr>)"

text \<open>The body of the loop for one reservation.\<close>

definition claim_visit ::
  "actor \<Rightarrow> claim_call \<Rightarrow> nat \<Rightarrow> nat \<Rightarrow> reservation \<Rightarrow> reservation visit" where
  "claim_visit actor cc claimed logged r =
     (if rs_uid r \<noteq> actor_uid actor then Skip
      else case rs_job r of
        None \<Rightarrow> Skip
      | Some j \<Rightarrow>
          (if jb_status j = JOB_CLAIMED \<and> timestamp_before (jb_claimed_at j) (cc_now cc - cc_claim_timeout cc)
           then let r' = put_job (stale_claim (cc_now cc) j) r in
                Touch r' (Some (job_log actor ''job-uncertain'' r' ''uncertain'' (cc_log cc logged))) None
           else if jb_status j \<noteq> JOB_PENDING then Skip
           else if rs_status r = STATUS_CANCELLED
           then Touch (put_job (j\<lparr>jb_status := JOB_CANCELLED,
                  jb_finished_at := Some (whole_second (cc_now cc))\<rparr>) r) None None
           else if rs_status r = STATUS_EXPIRED \<or> rs_end_at r \<le> cc_now cc
           then let r' = missed_reservation (cc_now cc) j r in
                Touch r' (Some (job_log actor ''job-missed'' r' (missed_message j) (cc_log cc logged))) None
           else if rs_status r \<noteq> STATUS_ACTIVE \<or> rs_start_at r > cc_now cc then Skip
           else if (case cc_eligible_ids cc of None \<Rightarrow> False | Some ids \<Rightarrow> rs_id r \<notin> set ids) then Skip
           else if int claimed \<ge> cc_limit cc then Skip
           else let r' = claimed_reservation cc (cc_token cc claimed) j r in
                Touch r' (Some (job_log actor ''job-claim'' r' ''claimed'' (cc_log cc logged))) (Some r')))"

text \<open>
  Timestamps as \<^verbatim>\<open>to_iso\<close> writes them sort as the instants they denote.
\<close>

definition claim_order :: "reservation list \<Rightarrow> (nat \<times> reservation) list" where
  "claim_order rs = sort_key (\<lambda>(_, r). (rs_start_at r, rs_id r)) (in_order rs)"

definition claim_due_jobs :: "actor \<Rightarrow> claim_call \<Rightarrow> ledger \<Rightarrow> reservation list effect" where
  "claim_due_jobs actor cc l =
     (if cc_limit cc \<le> 0 then (l, [], [], False)
      else run_sweep (claim_visit actor cc) (claim_order (lg_reservations l)) l)"

definition due_pending_jobs :: "ledger \<Rightarrow> actor \<Rightarrow> datetime \<Rightarrow> reservation list" where
  "due_pending_jobs l actor now =
     filter (\<lambda>r. rs_uid r = actor_uid actor \<and> rs_status r = STATUS_ACTIVE
       \<and> (case rs_job r of None \<Rightarrow> False | Some j \<Rightarrow> jb_status j = JOB_PENDING)
       \<and> rs_start_at r \<le> now \<and> now < rs_end_at r) (lg_reservations l)"


section \<open>The launch guard's notes\<close>

record launch_guard_decision =
  ld_ready :: bool
  ld_reason :: string
  ld_key :: string
  ld_cuda_visible_devices :: "string list"

definition guard_cleared :: "datetime \<Rightarrow> job \<Rightarrow> reservation \<Rightarrow> reservation" where
  "guard_cleared now j r =
     put_job (j\<lparr>jb_launch_guard_state := None, jb_launch_guard_key := None, jb_waiting_since := None,
                jb_message := None\<rparr>)
       (r\<lparr>rs_updated_at := Some (whole_second now)\<rparr>)"

definition guard_waiting :: "datetime \<Rightarrow> launch_guard_decision \<Rightarrow> job \<Rightarrow> reservation \<Rightarrow> reservation" where
  "guard_waiting now d j r =
     put_job (j\<lparr>jb_launch_guard_state := Some ''waiting'', jb_launch_guard_key := Some (ld_key d),
                jb_waiting_since := (case jb_waiting_since j of None \<Rightarrow> Some (whole_second now) | Some t \<Rightarrow> Some t),
                jb_message := Some (take 1000 (ld_reason d))\<rparr>)
       (r\<lparr>rs_updated_at := Some (whole_second now)\<rparr>)"

definition guard_visit ::
  "actor \<Rightarrow> (string \<rightharpoonup> launch_guard_decision) \<Rightarrow> datetime \<Rightarrow> (nat \<Rightarrow> datetime) \<Rightarrow> nat \<Rightarrow> nat
    \<Rightarrow> reservation \<Rightarrow> string visit" where
  "guard_visit actor decisions now log_clock noticed logged r =
     (case decisions (rs_id r) of
        None \<Rightarrow> Skip
      | Some d \<Rightarrow>
          (if rs_uid r \<noteq> actor_uid actor then Skip
           else case rs_job r of
             None \<Rightarrow> Skip
           | Some j \<Rightarrow>
               (if jb_status j \<noteq> JOB_PENDING then Skip
                else if ld_ready d
                then (if jb_launch_guard_state j \<noteq> Some ''waiting'' then Skip
                      else let r' = guard_cleared now j r in
                        Touch r' (Some (job_log actor ''job-ready'' r' ''live GPU guard cleared'' (log_clock logged)))
                          (Some (''ready: '' @ take 8 (rs_id r) @ '' live GPU guard cleared'')))
                else if jb_launch_guard_state j = Some ''waiting'' \<and> jb_launch_guard_key j = Some (ld_key d)
                then Skip
                else let r' = guard_waiting now d j r in
                  Touch r' (Some (job_log actor ''job-waiting'' r' (take 200 (take 1000 (ld_reason d))) (log_clock logged)))
                    (Some (''waiting: '' @ take 8 (rs_id r) @ '' '' @ take 1000 (ld_reason d))))))"

definition record_launch_guard_decisions ::
  "actor \<Rightarrow> (string \<rightharpoonup> launch_guard_decision) \<Rightarrow> datetime \<Rightarrow> (nat \<Rightarrow> datetime) \<Rightarrow> ledger
    \<Rightarrow> string list effect" where
  "record_launch_guard_decisions actor decisions now log_clock l =
     run_sweep (guard_visit actor decisions now log_clock) (in_order (lg_reservations l)) l"


section \<open>One claimed job\<close>

definition put_reservation :: "string \<Rightarrow> reservation \<Rightarrow> ledger \<Rightarrow> ledger" where
  "put_reservation ident r l = l\<lparr>lg_reservations := replace_reservation ident r (lg_reservations l)\<rparr>"

text \<open>The reservation and its job, when it exists, belongs to the actor and has one.\<close>

definition owned_job :: "ledger \<Rightarrow> actor \<Rightarrow> string \<Rightarrow> (reservation \<times> job) option" where
  "owned_job l actor ident =
     (case find_reservation l ident of
        None \<Rightarrow> None
      | Some r \<Rightarrow>
          if rs_uid r \<noteq> actor_uid actor then None
          else map_option (\<lambda>j. (r, j)) (rs_job r))"

definition running_state :: "datetime \<Rightarrow> int \<Rightarrow> job \<Rightarrow> job" where
  "running_state now child_pid j =
     j\<lparr>jb_status := JOB_RUNNING, jb_started_at := Some (whole_second now), jb_runner_pid := Some child_pid\<rparr>"

definition mark_running ::
  "actor \<Rightarrow> string \<Rightarrow> string \<Rightarrow> int \<Rightarrow> datetime \<Rightarrow> datetime \<Rightarrow> ledger \<Rightarrow> bool effect" where
  "mark_running actor ident claim_token child_pid now log_ts l =
     (case owned_job l actor ident of
        None \<Rightarrow> (l, False, [], False)
      | Some (r, j) \<Rightarrow>
          (if rs_status r \<noteq> STATUS_ACTIVE \<or> jb_status j \<noteq> JOB_CLAIMED \<or> jb_claim_token j \<noteq> Some claim_token
           then (l, False, [], False)
           else let r' = put_job (running_state now child_pid j) (r\<lparr>rs_updated_at := Some (whole_second now)\<rparr>) in
             (put_reservation ident r' l, True,
              [job_log actor ''job-start'' r' (''pid='' @ show_int child_pid) log_ts], True)))"

definition claim_is_launchable :: "ledger \<Rightarrow> actor \<Rightarrow> string \<Rightarrow> string \<Rightarrow> datetime \<Rightarrow> bool" where
  "claim_is_launchable l actor ident claim_token now =
     (case owned_job l actor ident of
        None \<Rightarrow> False
      | Some (r, j) \<Rightarrow>
          rs_status r = STATUS_ACTIVE \<and> jb_status j = JOB_CLAIMED \<and> jb_claim_token j = Some claim_token
          \<and> rs_end_at r > now)"

definition finish_job :: "string \<Rightarrow> datetime \<Rightarrow> string \<Rightarrow> job \<Rightarrow> job" where
  "finish_job status now message j =
     j\<lparr>jb_status := status, jb_finished_at := Some (whole_second now), jb_message := Some message\<rparr>"

definition mark_launch_failure ::
  "actor \<Rightarrow> string \<Rightarrow> string \<Rightarrow> string \<Rightarrow> datetime \<Rightarrow> datetime \<Rightarrow> ledger \<Rightarrow> unit effect" where
  "mark_launch_failure actor ident claim_token message now log_ts l =
     (case owned_job l actor ident of
        None \<Rightarrow> (l, (), [], False)
      | Some (r, j) \<Rightarrow>
          (if jb_claim_token j \<noteq> Some claim_token then (l, (), [], False)
           else let r' = put_job (finish_job JOB_FAILED now (take 1000 message) j)
                           (r\<lparr>rs_updated_at := Some (whole_second now)\<rparr>) in
             (put_reservation ident r' l, (), [job_log actor ''job-failed'' r' (take 200 message) log_ts], True)))"

definition aborted_status :: "datetime \<Rightarrow> reservation \<Rightarrow> string \<times> string" where
  "aborted_status now r =
     (if rs_status r = STATUS_CANCELLED
      then (JOB_CANCELLED, ''reservation was cancelled while the claimed command was starting'')
      else if rs_end_at r \<le> now
      then (JOB_MISSED, ''reservation ended while the claimed command was starting'')
      else (JOB_UNCERTAIN, ''claimed command was stopped before running state could be committed''))"

definition mark_aborted_claim ::
  "actor \<Rightarrow> string \<Rightarrow> string \<Rightarrow> datetime \<Rightarrow> datetime \<Rightarrow> ledger \<Rightarrow> unit effect" where
  "mark_aborted_claim actor ident claim_token now log_ts l =
     (case owned_job l actor ident of
        None \<Rightarrow> (l, (), [], False)
      | Some (r, j) \<Rightarrow>
          (if jb_status j \<noteq> JOB_CLAIMED \<or> jb_claim_token j \<noteq> Some claim_token then (l, (), [], False)
           else let (status, message) = aborted_status now r;
                    r' = put_job (finish_job status now message j) (r\<lparr>rs_updated_at := Some (whole_second now)\<rparr>) in
             (put_reservation ident r' l, (), [job_log actor (''job-'' @ status) r' message log_ts], True)))"

record running_job =
  rj_reservation_id :: string
  rj_claim_token :: string
  rj_end_at :: datetime
  rj_termination_reason :: "string option"
  rj_termination_requested_at :: "timedelta option"

definition completion_status :: "int \<Rightarrow> string option \<Rightarrow> string" where
  "completion_status exit_code reason =
     (if reason = Some ''cancelled'' then JOB_CANCELLED
      else if reason = Some ''deadline'' then JOB_TIMED_OUT
      else if reason = Some ''worker-stop'' then JOB_INTERRUPTED
      else if exit_code = 0 then JOB_SUCCEEDED else JOB_FAILED)"

definition completed_job ::
  "running_job \<Rightarrow> string \<Rightarrow> int \<Rightarrow> string option \<Rightarrow> int \<Rightarrow> datetime \<Rightarrow> job \<Rightarrow> job" where
  "completed_job running status exit_code log_warning log_rotations now j =
     j\<lparr>jb_status := status, jb_finished_at := Some (whole_second now), jb_exit_code := Some exit_code,
       jb_recovery_state := None, jb_recovery_worker_id := None, jb_recovered_at := None,
       jb_log_rotated := (log_rotations \<noteq> 0 \<or> jb_log_rotated j),
       jb_log_warning := (if log_warning = None \<or> log_warning = Some [] then jb_log_warning j
                          else Some ''private job log is incomplete; inspect the owning worker''),
       jb_message := (case rj_termination_reason running of
           None \<Rightarrow> jb_message j | Some [] \<Rightarrow> jb_message j | Some reason \<Rightarrow> Some reason)\<rparr>"

definition complete_job ::
  "actor \<Rightarrow> running_job \<Rightarrow> string \<Rightarrow> int \<Rightarrow> string option \<Rightarrow> int \<Rightarrow> datetime \<Rightarrow> datetime \<Rightarrow> ledger
    \<Rightarrow> unit effect" where
  "complete_job actor running status exit_code log_warning log_rotations now log_ts l =
     (case owned_job l actor (rj_reservation_id running) of
        None \<Rightarrow> (l, (), [], False)
      | Some (r, j) \<Rightarrow>
          (if jb_claim_token j \<noteq> Some (rj_claim_token running) then (l, (), [], False)
           else let r' = put_job (completed_job running status exit_code log_warning log_rotations now j)
                           (r\<lparr>rs_updated_at := Some (whole_second now)\<rparr>) in
             (put_reservation (rj_reservation_id running) r' l, (),
              [job_log actor (''job-'' @ status) r' (''exit='' @ show_int exit_code) log_ts], True)))"


section \<open>Retry\<close>

definition retried_job :: "job \<Rightarrow> job" where
  "retried_job j =
     j\<lparr>jb_status := JOB_PENDING, jb_claim_token := None, jb_claimed_at := None, jb_started_at := None,
       jb_finished_at := None, jb_exit_code := None, jb_runner_pid := None, jb_runner_host := None,
       jb_worker_id := None, jb_worker_lease_id := None, jb_message := None,
       jb_cancel_requested_at := None, jb_launch_guard_state := None, jb_launch_guard_key := None,
       jb_waiting_since := None, jb_log_warning := None, jb_log_rotated := False,
       jb_recovery_state := None, jb_recovery_worker_id := None, jb_recovered_at := None\<rparr>"

definition retry_job ::
  "actor \<Rightarrow> string \<Rightarrow> bool \<Rightarrow> datetime \<Rightarrow> datetime \<Rightarrow> ledger \<Rightarrow> reservation mutation" where
  "retry_job actor ident accept_duplicate_risk now log_ts l =
     (case find_reservation l ident of
        None \<Rightarrow> Inl JobReservationNotFound
      | Some r \<Rightarrow>
          raise_if (rs_uid r \<noteq> actor_uid actor) JobBelongsToAnother
            (case rs_job r of
               None \<Rightarrow> Inl ReservationHasNoJob
             | Some j \<Rightarrow>
                 raise_if (jb_status j = JOB_UNCERTAIN \<and> \<not> accept_duplicate_risk) DuplicateRiskNotAccepted
                 (raise_if (jb_status j \<notin> {JOB_FAILED, JOB_INTERRUPTED, JOB_UNCERTAIN}) (JobNotRetryable (jb_status j))
                 (raise_if (rs_status r \<noteq> STATUS_ACTIVE \<or> rs_end_at r \<le> now) JobWindowClosed
                 (let r' = put_job (retried_job j) (r\<lparr>rs_updated_at := Some (whole_second now)\<rparr>) in
                  Inr (put_reservation ident r' l, r', [job_log actor ''job-retry'' r' ''pending'' log_ts], True))))))"


section \<open>Private job specifications\<close>

definition job_spec_is_needed :: "reservation \<Rightarrow> job \<Rightarrow> datetime \<Rightarrow> bool" where
  "job_spec_is_needed r j now =
     (if jb_status j \<in> {JOB_CLAIMED, JOB_RUNNING} then True
      else if jb_status j \<notin> {JOB_PENDING, JOB_SUCCEEDED, JOB_FAILED, JOB_CANCELLED, JOB_MISSED,
                JOB_TIMED_OUT, JOB_INTERRUPTED, JOB_UNCERTAIN} then True
      else if jb_status j \<in> {JOB_SUCCEEDED, JOB_CANCELLED, JOB_MISSED, JOB_TIMED_OUT} then False
      else if rs_status r \<noteq> STATUS_ACTIVE then False
      else rs_end_at r > now)"


definition stored_job_status :: "ledger \<Rightarrow> string \<Rightarrow> string option" where
  "stored_job_status l ident =
     (case find_reservation l ident of None \<Rightarrow> None | Some r \<Rightarrow> map_option jb_status (rs_job r))"


section \<open>Starting a claimed job\<close>

text \<open>The exceptions the launch catches, by the classes it tells apart; the text is \<^verbatim>\<open>str(exc)\<close>.\<close>

datatype launch_exception =
    FileNotFoundError | PermissionError | BookingException string | ValueException | OtherOSError

fun has_text :: "string \<Rightarrow> string \<Rightarrow> bool" where
  "has_text pat [] = (pat = [])"
| "has_text pat (x # xs) = (take (length pat) (x # xs) = pat \<or> has_text pat xs)"

fun public_launch_failure :: "launch_exception \<Rightarrow> string" where
  "public_launch_failure FileNotFoundError = ''scheduled executable or working directory was not found''"
| "public_launch_failure PermissionError = ''scheduled executable or private job storage was not accessible''"
| "public_launch_failure (BookingException message) =
     (if has_text ''working directory'' message then ''scheduled working directory is invalid or no longer exists''
      else if has_text ''digest'' message \<or> has_text ''internally inconsistent'' message
      then ''private job spec integrity check failed''
      else if has_text ''job spec'' message \<or> has_text ''private job'' message \<or> has_text ''job log'' message
      then ''private job storage validation failed''
      else ''scheduled command validation failed'')"
| "public_launch_failure ValueException = ''scheduled command configuration is invalid''"
| "public_launch_failure OtherOSError = ''scheduled command could not be started''"

text \<open>
  The devices the process sees: those the live guard validated, if there is one for each reserved
  GPU; otherwise, unless validation is required, the reserved indices themselves.
\<close>

definition launch_devices ::
  "string list option \<Rightarrow> bool \<Rightarrow> int list \<Rightarrow> (launch_exception, string list) result" where
  "launch_devices cuda_visible_devices require_validated gpus =
     (let reserved = map show_int gpus;
          devices = (case cuda_visible_devices of None \<Rightarrow> [] | Some d \<Rightarrow> d)
      in if length devices = length reserved then Inr devices
         else if require_validated then Inl (BookingException ''validated GPU launch binding is unavailable'')
         else Inr reserved)"

text \<open>
  What a launch draws from its surroundings: whether the log path is the expected one, the private
  payload and log, the process, its log stream, the clock, and what other clients commit before
  each of its ledger accesses.
\<close>

record start_env =
  se_log_path_ok :: bool
  se_payload :: "(launch_exception, unit) result"
  se_devices :: "string list option"
  se_require_validated :: bool
  se_check_now :: datetime
  se_spawn :: "(launch_exception, int) result"
  se_stream :: "(launch_exception, unit) result"
  se_now :: datetime
  se_log :: datetime
  se_abort_now :: datetime
  se_abort_log :: datetime
  se_before_check :: "ledger \<Rightarrow> ledger"
  se_before_write :: "ledger \<Rightarrow> ledger"
  se_before_abort :: "ledger \<Rightarrow> ledger"

datatype launch_progress = NotLaunched launch_exception | Unlaunchable | SpawnFailed launch_exception | Launched int

definition try_launch :: "start_env \<Rightarrow> actor \<Rightarrow> reservation \<Rightarrow> string \<Rightarrow> ledger \<Rightarrow> launch_progress" where
  "try_launch env actor r claim_token l =
     (case res_bind (se_payload env) (\<lambda>_. launch_devices (se_devices env) (se_require_validated env) (rs_gpus r)) of
        Inl exc \<Rightarrow> NotLaunched exc
      | Inr _ \<Rightarrow>
          (if \<not> claim_is_launchable l actor (rs_id r) claim_token (se_check_now env) then Unlaunchable
           else case res_bind (se_spawn env) (\<lambda>pid. res_map (\<lambda>_. pid) (se_stream env)) of
             Inl exc \<Rightarrow> SpawnFailed exc
           | Inr pid \<Rightarrow> Launched pid))"

definition start_claimed_job ::
  "start_env \<Rightarrow> actor \<Rightarrow> reservation \<Rightarrow> ledger \<Rightarrow> ledger \<times> running_job option" where
  "start_claimed_job env actor r l0 =
     (let claim_token = (case rs_job r of None \<Rightarrow> [] | Some j \<Rightarrow> (case jb_claim_token j of None \<Rightarrow> [] | Some t \<Rightarrow> t));
          fail = (\<lambda>message l. (fst (mark_launch_failure actor (rs_id r) claim_token message (se_now env) (se_log env) l), None));
          abort = (\<lambda>l. (fst (mark_aborted_claim actor (rs_id r) claim_token (se_abort_now env) (se_abort_log env)
                              (se_before_abort env l)), None))
      in if \<not> se_log_path_ok env then fail ''invalid log path'' (se_before_write env l0)
         else let l = se_before_check env l0 in
           case try_launch env actor r claim_token l of
             NotLaunched exc \<Rightarrow> fail (public_launch_failure exc) (se_before_write env l)
           | SpawnFailed exc \<Rightarrow> fail (public_launch_failure exc) (se_before_write env l)
           | Unlaunchable \<Rightarrow> abort l
           | Launched pid \<Rightarrow>
               (let (l', marked, _, _) = mark_running actor (rs_id r) claim_token pid (se_now env) (se_log env)
                      (se_before_write env l)
                in if \<not> marked then abort l'
                   else (l', Some \<lparr>rj_reservation_id = rs_id r, rj_claim_token = claim_token,
                          rj_end_at = rs_end_at r, rj_termination_reason = None,
                          rj_termination_requested_at = None\<rparr>)))"


section \<open>Supervising running jobs\<close>

datatype stop_signal = Terminate | Kill

definition request_termination ::
  "string \<Rightarrow> timedelta \<Rightarrow> running_job \<Rightarrow> running_job \<times> stop_signal list" where
  "request_termination reason monotonic item =
     (let item' = item\<lparr>rj_termination_reason := Some reason\<rparr> in
      case rj_termination_requested_at item of
        None \<Rightarrow> (item'\<lparr>rj_termination_requested_at := Some monotonic\<rparr>, [Terminate])
      | Some _ \<Rightarrow> (item', []))"

definition stop_running_jobs ::
  "(string \<Rightarrow> timedelta) \<Rightarrow> datetime \<Rightarrow> running_job list \<Rightarrow> (running_job \<times> stop_signal list) list" where
  "stop_running_jobs monotonic current running =
     map (\<lambda>item. if rj_termination_reason item = Some ''cancelled'' then (item, [])
                  else request_termination (if current \<ge> rj_end_at item then ''deadline'' else ''worker-stop'')
                         (monotonic (rj_reservation_id item)) item) running"

text \<open>Whether to ask a job to stop, and whether to kill it.\<close>

definition ask_to_stop ::
  "reservation option \<Rightarrow> datetime \<Rightarrow> timedelta \<Rightarrow> timedelta \<Rightarrow> running_job \<Rightarrow> running_job \<times> stop_signal list" where
  "ask_to_stop stored now grace monotonic item =
     (if (case stored of None \<Rightarrow> True | Some r \<Rightarrow> rs_status r = STATUS_CANCELLED)
      then (if rj_termination_reason item \<noteq> Some ''cancelled'' then request_termination ''cancelled'' monotonic item
            else (item, []))
      else if rj_termination_reason item = None \<and> now \<ge> rj_end_at item - grace
      then request_termination ''deadline'' monotonic item
      else (item, []))"

definition must_kill :: "datetime \<Rightarrow> timedelta \<Rightarrow> timedelta \<Rightarrow> running_job \<Rightarrow> bool" where
  "must_kill now grace monotonic item =
     (if rj_termination_reason item = Some ''deadline'' then now \<ge> rj_end_at item
      else case rj_termination_requested_at item of None \<Rightarrow> False | Some t \<Rightarrow> monotonic - t \<ge> grace)"

text \<open>
  What the worker observes of one process in one pass: the readings of the monotonic clock, the
  exit code if it has ended, whether its group is alive, what the log reported, and the clock of
  the completing transaction.
\<close>

record observation =
  ob_request_time :: timedelta
  ob_check_time :: timedelta
  ob_exit_code :: "int option"
  ob_group_alive :: bool
  ob_log_warning :: "string option"
  ob_log_rotations :: int
  ob_now :: datetime
  ob_log :: datetime

definition supervise ::
  "reservation option \<Rightarrow> datetime \<Rightarrow> timedelta \<Rightarrow> observation \<Rightarrow> running_job \<Rightarrow> running_job \<times> stop_signal list" where
  "supervise stored now grace ob item =
     (let (item', signals) = ask_to_stop stored now grace (ob_request_time ob) item
      in (item', signals @ (if must_kill now grace (ob_check_time ob) item' then [Kill] else [])))"

record job_counts =
  jc_succeeded :: nat
  jc_cancelled :: nat
  jc_failed :: nat

definition count_completion :: "string \<Rightarrow> job_counts \<Rightarrow> job_counts" where
  "count_completion status counts =
     (if status = JOB_SUCCEEDED then counts\<lparr>jc_succeeded := jc_succeeded counts + 1\<rparr>
      else if status = JOB_CANCELLED then counts\<lparr>jc_cancelled := jc_cancelled counts + 1\<rparr>
      else counts\<lparr>jc_failed := jc_failed counts + 1\<rparr>)"

definition reconcile_one ::
  "actor \<Rightarrow> ledger \<Rightarrow> datetime \<Rightarrow> timedelta \<Rightarrow> (string \<Rightarrow> observation) \<Rightarrow> running_job
    \<Rightarrow> ledger \<times> running_job list \<times> job_counts \<Rightarrow> ledger \<times> running_job list \<times> job_counts" where
  "reconcile_one actor loaded now grace observe item acc =
     (let (l, left, counts) = acc;
          ob = observe (rj_reservation_id item);
          item' = fst (supervise (find (\<lambda>r. rs_id r = rj_reservation_id item) (rev (lg_reservations loaded))) now grace ob item)
      in case ob_exit_code ob of
           None \<Rightarrow> (l, left @ [item'], counts)
         | Some exit_code \<Rightarrow>
             (if ob_group_alive ob then (l, left @ [item'], counts)
              else let status = completion_status exit_code (rj_termination_reason item') in
                (fst (complete_job actor item' status exit_code (ob_log_warning ob) (ob_log_rotations ob)
                        (ob_now ob) (ob_log ob) l),
                 left, count_completion status counts)))"

definition reconcile_running ::
  "actor \<Rightarrow> datetime \<Rightarrow> timedelta \<Rightarrow> (string \<Rightarrow> observation) \<Rightarrow> running_job list \<Rightarrow> job_counts \<Rightarrow> ledger
    \<Rightarrow> ledger \<times> running_job list \<times> job_counts" where
  "reconcile_running actor now grace observe running counts l =
     (if running = [] then (l, [], counts)
      else fold (reconcile_one actor l now grace observe) running (l, [], counts))"

end
