(* ===== verification/Job_Recovery.thy ===== *)
theory Job_Recovery
  imports Worker "HOL-Library.AList"
begin

text \<open>
  \<^verbatim>\<open>bk/job_recovery.py\<close>: what a starting worker does about jobs another worker left
  behind. Process discovery is modelled on the entries of \<^verbatim>\<open>/proc\<close>; the discoverer
  itself, the signals and the monotonic clock are arguments of the operations that use them, so
  that their answers may change from one call to the next. Where a property gives the entries of \<^verbatim>\<open>/proc\<close>, they are
  one listing for all reservations of a pass; the code lists them again for each. Dictionaries keep their insertion order.
\<close>

definition MAX_PROC_ENVIRON_BYTES :: int where "MAX_PROC_ENVIRON_BYTES = 1024 * 1024"

definition RECOVERABLE_STATES :: "string list" where
  "RECOVERABLE_STATES = [JOB_CLAIMED, JOB_RUNNING]"

definition RETRYABLE_RECOVERY_STATES :: "string list" where
  "RETRYABLE_RECOVERY_STATES =
     [''terminating'', ''remote-unverified'', ''unverified'', ''termination-unverified'',
      ''legacy-remote'', ''legacy-unverified'', ''legacy-not-found'']"

record managed_process_group =
  pg_pgid :: int
  pg_member_pid :: int
  pg_member_start_id :: string

record process_discovery =
  pd_available :: bool
  pd_groups :: "managed_process_group list"
  pd_warning :: "string option"

record recovery_summary =
  ry_examined :: nat
  ry_terminated_groups :: nat
  ry_uncertain_jobs :: nat
  ry_remote_jobs :: nat
  ry_legacy_jobs :: nat
  ry_legacy_active_jobs :: nat
  ry_warnings :: "string list"

type_synonym discoverer = "string \<Rightarrow> int \<Rightarrow> process_discovery"

definition undiscovered :: process_discovery where
  "undiscovered = \<lparr>pd_available = False, pd_groups = [], pd_warning = None\<rparr>"


section \<open>Process discovery\<close>

text \<open>
  One entry of \<^verbatim>\<open>/proc\<close>; a read that raises \<^verbatim>\<open>OSError\<close> is \<open>None\<close>. Bytes and
  text are both lists of characters.
\<close>

record proc_entry =
  pe_name :: string
  pe_metadata :: "(int \<times> int \<times> int) option"
  pe_stat :: "string option"
  pe_environ :: "string option"

definition proc_process_group :: "string \<Rightarrow> int option" where
  "proc_process_group raw_stat =
     (if CHR '')'' \<notin> set raw_stat then None
      else let fields = py_split (rev (takeWhile (\<lambda>c. c \<noteq> CHR '')'') (rev raw_stat)))
           in if length fields < 3 then None else py_int (fields ! 2))"

text \<open>One byte more than the limit is asked for: a longer environment is refused.\<close>

definition read_proc_environ :: "proc_entry \<Rightarrow> string option" where
  "read_proc_environ e =
     (case pe_environ e of
        None \<Rightarrow> None
      | Some raw \<Rightarrow> if int (length raw) > MAX_PROC_ENVIRON_BYTES then None else Some raw)"

text \<open>The group of an entry, when it is one to consider.\<close>

definition managed_entry :: "string \<Rightarrow> int \<Rightarrow> int \<Rightarrow> proc_entry \<Rightarrow> managed_process_group option" where
  "managed_entry marker uid current_group e =
     (if pe_name e = [] \<or> \<not> list_all is_digit (pe_name e) then None
      else case pe_metadata e of
        None \<Rightarrow> None
      | Some (owner, ino, ctime) \<Rightarrow>
          if owner \<noteq> uid then None
          else case pe_stat e of
            None \<Rightarrow> None
          | Some text \<Rightarrow>
              (case proc_process_group text of
                 None \<Rightarrow> None
               | Some pgid \<Rightarrow>
                   if pgid \<le> 1 \<or> pgid = current_group then None
                   else case read_proc_environ e of
                     None \<Rightarrow> None
                   | Some environ \<Rightarrow>
                       if marker \<notin> set (split_on (char_of (0::nat)) environ) then None
                       else Some \<lparr>pg_pgid = pgid, pg_member_pid = digits_value 0 (pe_name e),
                                  pg_member_start_id = show_int ino @ '':'' @ show_int ctime\<rparr>))"

definition keep_first_member ::
  "managed_process_group \<Rightarrow> (int \<times> managed_process_group) list \<Rightarrow> (int \<times> managed_process_group) list" where
  "keep_first_member candidate groups =
     (case map_of groups (pg_pgid candidate) of
        None \<Rightarrow> AList.update (pg_pgid candidate) candidate groups
      | Some previous \<Rightarrow>
          if pg_member_pid candidate < pg_member_pid previous
          then AList.update (pg_pgid candidate) candidate groups else groups)"

definition found_groups ::
  "string \<Rightarrow> int \<Rightarrow> int \<Rightarrow> proc_entry list \<Rightarrow> (int \<times> managed_process_group) list" where
  "found_groups marker uid current_group entries =
     fold keep_first_member (List.map_filter (managed_entry marker uid current_group) entries) []"

text \<open>\<open>listing\<close> is \<open>Inl\<close> the error when the directory cannot be scanned.\<close>

definition discover_managed_process_groups ::
  "bool \<Rightarrow> (string, proc_entry list) result \<Rightarrow> int \<Rightarrow> discoverer" where
  "discover_managed_process_groups proc_is_dir listing current_group reservation_id uid =
     (if \<not> proc_is_dir
      then \<lparr>pd_available = False, pd_groups = [], pd_warning = Some ''Linux /proc process discovery is unavailable''\<rparr>
      else case listing of
        Inl exc \<Rightarrow> \<lparr>pd_available = False, pd_groups = [], pd_warning = Some (''cannot scan /proc: '' @ exc)\<rparr>
      | Inr entries \<Rightarrow>
          let groups = found_groups (''BK_RESERVATION_ID='' @ reservation_id) uid current_group entries
          in \<lparr>pd_available = True, pd_groups = map snd (sort_key fst groups), pd_warning = None\<rparr>)"


section \<open>Deciding\<close>

definition recovery_candidate :: "actor \<Rightarrow> reservation \<Rightarrow> bool" where
  "recovery_candidate actor r =
     (rs_uid r = actor_uid actor
      \<and> (case rs_job r of
           None \<Rightarrow> False
         | Some j \<Rightarrow>
             jb_status j \<in> set RECOVERABLE_STATES
             \<or> jb_status j = JOB_UNCERTAIN
               \<and> (case jb_recovery_state j of None \<Rightarrow> False | Some s \<Rightarrow> s \<in> set RETRYABLE_RECOVERY_STATES)))"

definition recovery_candidates :: "ledger \<Rightarrow> actor \<Rightarrow> reservation list" where
  "recovery_candidates l actor = filter (recovery_candidate actor) (lg_reservations l)"

definition active_legacy_job_count :: "ledger \<Rightarrow> actor \<Rightarrow> datetime \<Rightarrow> nat" where
  "active_legacy_job_count l actor now =
     length (filter (\<lambda>r. rs_uid r = actor_uid actor
       \<and> (case rs_job r of
            None \<Rightarrow> False
          | Some j \<Rightarrow> jb_status j \<in> set RECOVERABLE_STATES \<and> jb_worker_lease_id j \<in> {None, Some []})
       \<and> rs_end_at r > now) (lg_reservations l))"

type_synonym recovery_decision = "string \<times> process_discovery \<times> string"

record deciding =
  dc_decisions :: "(string \<times> recovery_decision) list"
  dc_warnings :: "string list"
  dc_remote :: nat
  dc_legacy :: nat
  dc_legacy_active :: nat

definition or_empty :: "string option \<Rightarrow> string" where
  "or_empty x = (case x of None \<Rightarrow> [] | Some s \<Rightarrow> s)"

definition decide :: "string \<Rightarrow> recovery_decision \<Rightarrow> deciding \<Rightarrow> deciding" where
  "decide ident decision dc = dc\<lparr>dc_decisions := AList.update ident decision (dc_decisions dc)\<rparr>"

text \<open>The decision after looking for processes, with the three names and two messages of its branch.\<close>

definition decide_by_discovery ::
  "string \<Rightarrow> process_discovery \<Rightarrow> string \<Rightarrow> string \<times> string \<Rightarrow> string \<Rightarrow> deciding \<Rightarrow> deciding" where
  "decide_by_discovery ident discovery unverified not_found terminating dc =
     (if \<not> pd_available discovery
      then let message = (case pd_warning discovery of
                 None \<Rightarrow> ''managed process discovery is unavailable''
               | Some [] \<Rightarrow> ''managed process discovery is unavailable''
               | Some w \<Rightarrow> w)
           in decide ident (unverified, discovery, message)
                (dc\<lparr>dc_warnings := dc_warnings dc @ [take 8 ident @ '': '' @ message]\<rparr>)
      else if pd_groups discovery = []
      then decide ident (fst not_found, discovery, snd not_found) dc
      else decide ident (''terminating'', discovery, terminating) dc)"

definition decide_one ::
  "discoverer \<Rightarrow> actor \<Rightarrow> string \<Rightarrow> string \<Rightarrow> datetime \<Rightarrow> reservation \<Rightarrow> deciding \<Rightarrow> deciding" where
  "decide_one discover actor hostname worker_id current r dc =
     (case rs_job r of
        None \<Rightarrow> dc
      | Some j \<Rightarrow>
          let lease_id = or_empty (jb_worker_lease_id j); runner_host = or_empty (jb_runner_host j)
          in if lease_id = []
             then let dc1 = dc\<lparr>dc_legacy := dc_legacy dc + 1\<rparr> in
                  if rs_end_at r > current then dc1\<lparr>dc_legacy_active := dc_legacy_active dc1 + 1\<rparr>
                  else if runner_host \<noteq> [] \<and> runner_host \<noteq> hostname
                  then decide (rs_id r) (''legacy-remote'', undiscovered,
                         ''legacy job expired on another host; process state cannot be verified locally'')
                         (dc1\<lparr>dc_remote := dc_remote dc1 + 1\<rparr>)
                  else decide_by_discovery (rs_id r) (discover (rs_id r) (actor_uid actor)) ''legacy-unverified''
                         (''legacy-not-found'', ''legacy job expired without a visible owned process group'')
                         ''legacy job outlived its reservation; terminating its verified process group'' dc1
             else if lease_id = worker_id then dc
             else if runner_host \<noteq> [] \<and> runner_host \<noteq> hostname
             then decide (rs_id r) (''remote-unverified'', undiscovered,
                    ''previous worker ran on another host; process state cannot be verified locally'')
                    (dc\<lparr>dc_remote := dc_remote dc + 1\<rparr>)
             else decide_by_discovery (rs_id r) (discover (rs_id r) (actor_uid actor)) ''unverified''
                    (''not-found'', ''previous worker disappeared; no owned process group was found; not retried automatically'')
                    ''previous worker disappeared; terminating its verified process group'' dc)"

definition recovery_decisions ::
  "discoverer \<Rightarrow> actor \<Rightarrow> string \<Rightarrow> string \<Rightarrow> datetime \<Rightarrow> reservation list \<Rightarrow> deciding" where
  "recovery_decisions discover actor hostname worker_id current candidates =
     fold (decide_one discover actor hostname worker_id current) candidates
       \<lparr>dc_decisions = [], dc_warnings = [], dc_remote = 0, dc_legacy = 0, dc_legacy_active = 0\<rparr>"


section \<open>Recording the decisions\<close>

definition recovery_log :: "actor \<Rightarrow> reservation \<Rightarrow> string \<Rightarrow> string \<Rightarrow> datetime \<Rightarrow> log_item" where
  "recovery_log actor r state message ts =
     \<lparr>li_ts = whole_second ts, li_uid = actor_uid actor, li_username = actor_username actor,
      li_action = ''job-recovery'', li_reservation_id = rs_id r, li_op_id = rs_op_id r, li_gpus = rs_gpus r,
      li_mode = rs_mode r, li_share_units = None, li_start_at = rs_start_at r, li_end_at = rs_end_at r,
      li_result = JOB_UNCERTAIN, li_message = take 1000 (state @ '': '' @ message), li_actor = None\<rparr>"

definition recovered_job :: "datetime \<Rightarrow> string \<Rightarrow> string \<Rightarrow> string \<Rightarrow> job \<Rightarrow> job" where
  "recovered_job now worker_id state message j =
     j\<lparr>jb_status := JOB_UNCERTAIN, jb_finished_at := Some (whole_second now), jb_message := Some message,
       jb_recovery_state := Some state, jb_recovery_worker_id := Some worker_id,
       jb_recovered_at := Some (whole_second now)\<rparr>"

definition recovered_reservation ::
  "datetime \<Rightarrow> string \<Rightarrow> string \<Rightarrow> string \<Rightarrow> job \<Rightarrow> reservation \<Rightarrow> reservation" where
  "recovered_reservation now worker_id state message j r =
     put_job (recovered_job now worker_id state message j)
       (r\<lparr>rs_status := (if rs_end_at r \<le> now \<and> rs_status r = STATUS_ACTIVE then STATUS_EXPIRED else rs_status r),
          rs_updated_at := Some (whole_second now)\<rparr>)"

definition recovery_visit ::
  "actor \<Rightarrow> datetime \<Rightarrow> string \<Rightarrow> (string \<rightharpoonup> recovery_decision) \<Rightarrow> (nat \<Rightarrow> datetime) \<Rightarrow> nat \<Rightarrow> nat
    \<Rightarrow> reservation \<Rightarrow> string visit" where
  "recovery_visit actor now worker_id decisions log_clock found logged r =
     (case decisions (rs_id r) of
        None \<Rightarrow> Skip
      | Some (state, _, message) \<Rightarrow>
          if rs_uid r \<noteq> actor_uid actor then Skip
          else case rs_job r of
            None \<Rightarrow> Skip
          | Some j \<Rightarrow>
              if jb_status j \<notin> {JOB_CLAIMED, JOB_RUNNING, JOB_UNCERTAIN} then Skip
              else if jb_worker_lease_id j = Some worker_id then Skip
              else let r' = recovered_reservation now worker_id state message j r in
                Touch r' (Some (recovery_log actor r' state message (log_clock logged)))
                  (if state = ''terminating'' then Some (rs_id r) else None))"

definition record_recovery_decisions ::
  "actor \<Rightarrow> datetime \<Rightarrow> string \<Rightarrow> (string \<rightharpoonup> recovery_decision) \<Rightarrow> (nat \<Rightarrow> datetime) \<Rightarrow> ledger
    \<Rightarrow> string list effect" where
  "record_recovery_decisions actor now worker_id decisions log_clock l =
     run_sweep (recovery_visit actor now worker_id decisions log_clock) (in_order (lg_reservations l)) l"


section \<open>Stopping the groups\<close>

text \<open>One round of \<^verbatim>\<open>_wait_for_groups\<close>: what is still there.\<close>

definition groups_remaining ::
  "discoverer \<Rightarrow> int \<Rightarrow> string list \<Rightarrow> (string \<times> managed_process_group list) list" where
  "groups_remaining discover uid idents =
     fold (\<lambda>ident remaining.
         let discovery = discover ident uid in
         if \<not> pd_available discovery then AList.update ident [] remaining
         else if pd_groups discovery \<noteq> [] then AList.update ident (pd_groups discovery) remaining
         else remaining) idents []"

text \<open>
  The loop: in round \<open>k\<close> the discoverer is \<open>discover k\<close> and the clock shows \<open>clock k\<close> when
  the round is over.
\<close>

partial_function (option) wait_rounds ::
  "(nat \<Rightarrow> discoverer) \<Rightarrow> (nat \<Rightarrow> timedelta) \<Rightarrow> int \<Rightarrow> timedelta \<Rightarrow> string list \<Rightarrow> nat
    \<Rightarrow> (string \<times> managed_process_group list) list option" where
  "wait_rounds discover clock uid deadline idents k =
     (let remaining = groups_remaining (discover k) uid idents in
      if remaining = [] \<or> clock k \<ge> deadline then Some remaining
      else wait_rounds discover clock uid deadline idents (Suc k))"

declare wait_rounds.simps [code]

definition wait_for_groups ::
  "(nat \<Rightarrow> discoverer) \<Rightarrow> (nat \<Rightarrow> timedelta) \<Rightarrow> timedelta \<Rightarrow> int \<Rightarrow> timedelta \<Rightarrow> string list
    \<Rightarrow> (string \<times> managed_process_group list) list option" where
  "wait_for_groups discover clock started uid timeout idents =
     wait_rounds discover clock uid (started + timeout) idents 0"

datatype kill_outcome = Delivered | NoSuchProcess | KillRefused string

record signalling =
  sg_signalled :: "(string \<times> managed_process_group list) list"
  sg_warnings :: "string list"

definition kill_warning ::
  "(int \<Rightarrow> kill_outcome) \<Rightarrow> int \<Rightarrow> string \<Rightarrow> managed_process_group \<Rightarrow> string option" where
  "kill_warning killpg current_group ident grp =
     (if pg_pgid grp \<le> 1 \<or> pg_pgid grp = current_group
      then Some (take 8 ident @ '': refused unsafe process group '' @ show_int (pg_pgid grp))
      else case killpg (pg_pgid grp) of
        KillRefused exc \<Rightarrow>
          Some (take 8 ident @ '': cannot signal process group '' @ show_int (pg_pgid grp) @ '': '' @ exc)
      | _ \<Rightarrow> None)"

definition kill_succeeds :: "(int \<Rightarrow> kill_outcome) \<Rightarrow> int \<Rightarrow> managed_process_group \<Rightarrow> bool" where
  "kill_succeeds killpg current_group grp =
     (\<not> (pg_pgid grp \<le> 1 \<or> pg_pgid grp = current_group) \<and> killpg (pg_pgid grp) = Delivered)"

definition signal_groups ::
  "(string \<Rightarrow> int \<Rightarrow> kill_outcome) \<Rightarrow> int \<Rightarrow> (string \<times> managed_process_group list) list \<Rightarrow> signalling" where
  "signal_groups killpg current_group groups_by_reservation =
     fold (\<lambda>(ident, groups) s.
         let successful = filter (kill_succeeds (killpg ident) current_group) groups;
             s1 = s\<lparr>sg_warnings := sg_warnings s @ List.map_filter (kill_warning (killpg ident) current_group ident) groups\<rparr>
         in if successful \<noteq> [] then s1\<lparr>sg_signalled := AList.update ident successful (sg_signalled s1)\<rparr> else s1)
       groups_by_reservation \<lparr>sg_signalled = [], sg_warnings = []\<rparr>"

definition discover_current ::
  "discoverer \<Rightarrow> int \<Rightarrow> string list \<Rightarrow> (string \<times> managed_process_group list) list \<times> string list" where
  "discover_current discover uid idents =
     fold (\<lambda>ident (current, warnings).
         let discovery = discover ident uid in
         if \<not> pd_available discovery
         then (current, warnings @ [take 8 ident @ '': process identity could not be rechecked before signalling''])
         else if pd_groups discovery \<noteq> [] then (AList.update ident (pd_groups discovery) current, warnings)
         else (current, warnings)) idents ([], [])"

definition discover_and_signal_groups ::
  "discoverer \<Rightarrow> (string \<Rightarrow> int \<Rightarrow> kill_outcome) \<Rightarrow> int \<Rightarrow> int \<Rightarrow> string list \<Rightarrow> signalling" where
  "discover_and_signal_groups discover killpg current_group uid idents =
     (let (current, warnings) = discover_current discover uid idents;
          s = signal_groups killpg current_group current
      in s\<lparr>sg_warnings := warnings @ sg_warnings s\<rparr>)"


section \<open>Finishing\<close>

definition finish_state :: "bool \<Rightarrow> bool \<Rightarrow> string \<times> string" where
  "finish_state remains signalled =
     (if remains then (''termination-unverified'',
        ''orphaned process group could not be confirmed stopped; do not retry automatically'')
      else if \<not> signalled then (''disappeared'',
        ''orphaned process group disappeared during recovery; prior completion remains uncertain'')
      else (''terminated'',
        ''orphaned process group stopped after worker restart; prior completion remains uncertain''))"

definition finished_recovery :: "datetime \<Rightarrow> string \<Rightarrow> string \<Rightarrow> job \<Rightarrow> reservation \<Rightarrow> reservation" where
  "finished_recovery now state message j r =
     put_job (j\<lparr>jb_recovery_state := Some state, jb_message := Some message, jb_finished_at := Some (whole_second now)\<rparr>)
       (r\<lparr>rs_updated_at := Some (whole_second now)\<rparr>)"

definition finish_visit ::
  "actor \<Rightarrow> datetime \<Rightarrow> string \<Rightarrow> string list \<Rightarrow> string list \<Rightarrow> string list \<Rightarrow> (nat \<Rightarrow> datetime) \<Rightarrow> nat \<Rightarrow> nat
    \<Rightarrow> reservation \<Rightarrow> unit visit" where
  "finish_visit actor now worker_id wanted remaining signalled log_clock found logged r =
     (if rs_id r \<notin> set wanted \<or> rs_uid r \<noteq> actor_uid actor then Skip
      else case rs_job r of
        None \<Rightarrow> Skip
      | Some j \<Rightarrow>
          if jb_status j \<noteq> JOB_UNCERTAIN \<or> jb_recovery_worker_id j \<noteq> Some worker_id
             \<or> jb_recovery_state j \<noteq> Some ''terminating''
          then Skip
          else let (state, message) = finish_state (rs_id r \<in> set remaining) (rs_id r \<in> set signalled);
                   r' = finished_recovery now state message j r in
            Touch r' (Some (recovery_log actor r' state message (log_clock logged))) None)"

definition finish_recovery ::
  "actor \<Rightarrow> datetime \<Rightarrow> string \<Rightarrow> string list \<Rightarrow> string list \<Rightarrow> string list \<Rightarrow> (nat \<Rightarrow> datetime) \<Rightarrow> ledger
    \<Rightarrow> unit list effect" where
  "finish_recovery actor now worker_id wanted remaining signalled log_clock l =
     run_sweep (finish_visit actor now worker_id wanted remaining signalled log_clock)
       (in_order (lg_reservations l)) l"


section \<open>The recovery\<close>

text \<open>
  What one run of the recovery draws from its surroundings: the discoverer, the clock and the
  results of signals at each place they are used, and what other clients commit between its load
  and its first transaction and between its two transactions.
\<close>

record recovery_env =
  rv_discover :: discoverer
  rv_current_group :: int
  rv_term_discover :: discoverer
  rv_term_kill :: "string \<Rightarrow> int \<Rightarrow> kill_outcome"
  rv_term_started :: timedelta
  rv_term_wait :: "nat \<Rightarrow> discoverer"
  rv_term_clock :: "nat \<Rightarrow> timedelta"
  rv_kill_discover :: discoverer
  rv_kill_kill :: "string \<Rightarrow> int \<Rightarrow> kill_outcome"
  rv_kill_started :: timedelta
  rv_kill_wait :: "nat \<Rightarrow> discoverer"
  rv_kill_clock :: "nat \<Rightarrow> timedelta"
  rv_between_load :: "ledger \<Rightarrow> ledger"
  rv_between_writes :: "ledger \<Rightarrow> ledger"
  rv_finish_now :: datetime
  rv_log :: "nat \<Rightarrow> datetime"
  rv_finish_log :: "nat \<Rightarrow> datetime"

definition merge_killed ::
  "(string \<times> managed_process_group list) list \<Rightarrow> (string \<times> managed_process_group list) list
    \<Rightarrow> (string \<times> managed_process_group list) list" where
  "merge_killed killed signalled =
     fold (\<lambda>(ident, groups) s.
         let by_pgid = fold (\<lambda>grp known. AList.update (pg_pgid grp) grp known);
             known = by_pgid groups (by_pgid (case map_of s ident of None \<Rightarrow> [] | Some gs \<Rightarrow> gs) [])
         in AList.update ident (map snd (sort_key fst known)) s) killed signalled"

text \<open>The groups that were signalled, those that remain and the warnings; \<open>None\<close> if it never returns.\<close>

definition stop_groups ::
  "recovery_env \<Rightarrow> int \<Rightarrow> timedelta \<Rightarrow> string list
    \<Rightarrow> ((string \<times> managed_process_group list) list \<times> string list \<times> string list) option" where
  "stop_groups env uid grace terminating =
     (let termed = discover_and_signal_groups (rv_term_discover env) (rv_term_kill env) (rv_current_group env) uid terminating in
      Option.bind (wait_for_groups (rv_term_wait env) (rv_term_clock env) (rv_term_started env) uid grace terminating)
        (\<lambda>remaining.
          if remaining = [] then Some (sg_signalled termed, [], sg_warnings termed)
          else let idents = map fst remaining;
                   killed = discover_and_signal_groups (rv_kill_discover env) (rv_kill_kill env) (rv_current_group env) uid idents
               in Option.bind (wait_for_groups (rv_kill_wait env) (rv_kill_clock env) (rv_kill_started env) uid
                                 (min (seconds 1) grace) idents)
                    (\<lambda>left. Some (merge_killed (sg_signalled killed) (sg_signalled termed), map fst left,
                                  sg_warnings termed @ sg_warnings killed))))"

definition empty_summary :: recovery_summary where
  "empty_summary = \<lparr>ry_examined = 0, ry_terminated_groups = 0, ry_uncertain_jobs = 0, ry_remote_jobs = 0,
     ry_legacy_jobs = 0, ry_legacy_active_jobs = 0, ry_warnings = []\<rparr>"

definition terminated_groups ::
  "(string \<times> managed_process_group list) list \<Rightarrow> string list \<Rightarrow> nat" where
  "terminated_groups signalled remaining =
     sum_list (map (\<lambda>(_, groups). length groups) (filter (\<lambda>(ident, _). ident \<notin> set remaining) signalled))"

definition recover_abandoned_jobs ::
  "recovery_env \<Rightarrow> actor \<Rightarrow> string \<Rightarrow> string \<Rightarrow> datetime \<Rightarrow> timedelta \<Rightarrow> ledger
    \<Rightarrow> (value_error, ledger \<times> recovery_summary) result option" where
  "recover_abandoned_jobs env actor hostname worker_id now grace l =
     (if grace \<le> 0 then Some (Inl (ValueError ''worker recovery grace must be positive''))
      else let candidates = recovery_candidates l actor in
        if candidates = [] then Some (Inr (rv_between_load env l, empty_summary))
        else let dc = recovery_decisions (rv_discover env) actor hostname worker_id now candidates;
                 (l1, terminating, _, _) = record_recovery_decisions actor now worker_id (map_of (dc_decisions dc))
                    (rv_log env) (rv_between_load env l)
             in Option.bind (stop_groups env (actor_uid actor) grace terminating) (\<lambda>(signalled, remaining, warnings).
                  let (l2, _, _, _) = finish_recovery actor (rv_finish_now env) worker_id terminating remaining
                        (map fst signalled) (rv_finish_log env) (rv_between_writes env l1)
                  in Some (Inr (l2, \<lparr>ry_examined = length candidates,
                       ry_terminated_groups = terminated_groups signalled remaining,
                       ry_uncertain_jobs = length (dc_decisions dc), ry_remote_jobs = dc_remote dc,
                       ry_legacy_jobs = dc_legacy dc, ry_legacy_active_jobs = dc_legacy_active dc,
                       ry_warnings = dc_warnings dc @ warnings\<rparr>))))"

end
