(* ===== verification/Job_Lifecycle.thy ===== *)
theory Job_Lifecycle
  imports Job_Recovery Safety
begin

text \<open>
  What the writes of the worker and of the recovery do to a reservation and to its job. The locale
  \<open>sweeping\<close> carries a relation that every visit respects through a whole loop over the ledger; its
  interpretations are the four loops. Nothing the worker writes moves a booking, and a job that its
  worker does not touch only ever drifts to an end or into uncertainty.
\<close>

section \<open>Loops\<close>

lemma sweep_loop_out: "set (sw_out s) \<subseteq> set (sw_out (sweep_loop body order s))"
proof (induction order arbitrary: s)
  case (Cons x order)
  obtain i r where x: "x = (i, r)" by (cases x)
  show ?case
  proof (cases "body (length (sw_out s)) (length (sw_logs s)) r")
    case Skip
    with Cons.IH [of s] show ?thesis by (simp add: x)
  next
    case (Touch r' e out)
    have "set (sw_out s) \<subseteq> set (sw_out (s\<lparr>sw_reservations := (sw_reservations s)[i := r'],
        sw_out := sw_out s @ opt_list out, sw_logs := sw_logs s @ opt_list e, sw_changed := True\<rparr>))" by simp
    from order_trans [OF this Cons.IH] Touch show ?thesis by (simp add: x)
  qed
qed simp

lemma sweep_loop_at:
  assumes "distinct (map fst order)"
    and "\<And>i r. (i, r) \<in> set order \<Longrightarrow> i < length (sw_reservations s) \<and> sw_reservations s ! i = r"
  shows "length (sw_reservations (sweep_loop body order s)) = length (sw_reservations s)
    \<and> (\<forall>k. sw_reservations (sweep_loop body order s) ! k = sw_reservations s ! k
         \<or> k \<in> fst ` set order \<and> (\<exists>p q e out. body p q (sw_reservations s ! k) =
             Touch (sw_reservations (sweep_loop body order s) ! k) e out
             \<and> set (opt_list out) \<subseteq> set (sw_out (sweep_loop body order s))))"
  using assms
proof (induction order arbitrary: s)
  case Nil
  then show ?case by simp
next
  case (Cons x order)
  obtain i r where x: "x = (i, r)" by (cases x)
  from Cons.prems(2) [of i r] x have i: "i < length (sw_reservations s)" "sw_reservations s ! i = r" by auto
  from Cons.prems(1) x have fresh: "i \<notin> fst ` set order" "distinct (map fst order)" by auto
  show ?case
  proof (cases "body (length (sw_out s)) (length (sw_logs s)) r")
    case Skip
    have "k < length (sw_reservations s) \<and> sw_reservations s ! k = q" if "(k, q) \<in> set order" for k q
      using that Cons.prems(2) [of k q] by simp
    note IH = Cons.IH [OF fresh(2) this]
    have step: "sweep_loop body (x # order) s = sweep_loop body order s" using Skip x by simp
    show ?thesis unfolding step using IH by fastforce
  next
    case (Touch r' e out)
    let ?s = "s\<lparr>sw_reservations := (sw_reservations s)[i := r'], sw_out := sw_out s @ opt_list out,
              sw_logs := sw_logs s @ opt_list e, sw_changed := True\<rparr>"
    have step: "sweep_loop body (x # order) s = sweep_loop body order ?s" using Touch x by simp
    have "k < length (sw_reservations ?s) \<and> sw_reservations ?s ! k = q" if "(k, q) \<in> set order" for k q
      using that Cons.prems(2) [of k q] fresh(1) by (cases "k = i") (auto simp: image_iff)
    note IH = Cons.IH [OF fresh(2) this, simplified]
    have "sw_reservations (sweep_loop body order ?s) ! k = sw_reservations s ! k
         \<or> k \<in> fst ` set (x # order) \<and> (\<exists>p q e out. body p q (sw_reservations s ! k) =
             Touch (sw_reservations (sweep_loop body order ?s) ! k) e out
             \<and> set (opt_list out) \<subseteq> set (sw_out (sweep_loop body order ?s)))" for k
    proof (cases "k = i")
      case True
      with spec [OF conjunct2 [OF IH], of k] fresh(1) i
      have "sw_reservations (sweep_loop body order ?s) ! k = r'" by simp
      moreover have "set (opt_list out) \<subseteq> set (sw_out (sweep_loop body order ?s))"
        using sweep_loop_out [of ?s body order] by simp
      ultimately show ?thesis using True Touch i x by auto
    next
      case False
      then have "(sw_reservations s)[i := r'] ! k = sw_reservations s ! k" by simp
      with spec [OF conjunct2 [OF IH], of k] show ?thesis by auto
    qed
    with IH show ?thesis unfolding step by simp
  qed
qed

text \<open>Every visited position holds what the visit left there.\<close>

lemma sweep_loop_visits:
  assumes "distinct (map fst order)"
    and "\<And>i r. (i, r) \<in> set order \<Longrightarrow> i < length (sw_reservations s) \<and> sw_reservations s ! i = r"
    and "(k, r) \<in> set order"
  shows "\<exists>p q. sw_reservations (sweep_loop body order s) ! k = (case body p q r of Skip \<Rightarrow> r | Touch r' e out \<Rightarrow> r')"
  using assms
proof (induction order arbitrary: s)
  case (Cons x order)
  obtain i q where x: "x = (i, q)" by (cases x)
  from Cons.prems(1,2) x have i: "i < length (sw_reservations s)" "sw_reservations s ! i = q" "i \<notin> fst ` set order"
      "distinct (map fst order)" by auto
  define s1 where "s1 = (case body (length (sw_out s)) (length (sw_logs s)) q of Skip \<Rightarrow> s
      | Touch r' e out \<Rightarrow> s\<lparr>sw_reservations := (sw_reservations s)[i := r'], sw_out := sw_out s @ opt_list out,
          sw_logs := sw_logs s @ opt_list e, sw_changed := True\<rparr>)"
  have step: "sweep_loop body (x # order) s = sweep_loop body order s1" by (simp add: x s1_def)
  have same: "length (sw_reservations s1) = length (sw_reservations s)"
    "m \<noteq> i \<Longrightarrow> sw_reservations s1 ! m = sw_reservations s ! m" for m
    by (simp_all add: s1_def split: visit.splits)
  have pre: "m < length (sw_reservations s1) \<and> sw_reservations s1 ! m = u" if "(m, u) \<in> set order" for m u
    using that Cons.prems(2) [of m u] same i(3) by (cases "m = i") (auto simp: image_iff)
  show ?case
  proof (cases "k = i")
    case False
    with Cons.prems(3) x have "(k, r) \<in> set order" by auto
    from Cons.IH [OF i(4) pre this] show ?thesis unfolding step .
  next
    case True
    with Cons.prems(3) x i(3) have r: "r = q" by (auto simp: image_iff)
    from spec [OF conjunct2 [OF sweep_loop_at [where s = s1 and body = body, OF i(4) pre]], of i] i(3)
    have "sw_reservations (sweep_loop body order s1) ! i = sw_reservations s1 ! i" by simp
    also have "\<dots> = (case body (length (sw_out s)) (length (sw_logs s)) q of Skip \<Rightarrow> q | Touch r' e out \<Rightarrow> r')"
      using i(1,2) by (simp add: s1_def split: visit.splits)
    finally show ?thesis unfolding step True r by blast
  qed
qed simp

lemma in_order_at: "(i, r) \<in> set (in_order rs) \<Longrightarrow> i < length rs \<and> rs ! i = r"
  by (auto simp: in_order_def enumerate_eq_zip set_zip)

lemma in_order_fst: "map fst (in_order rs) = [0..<length rs]"
  by (simp add: in_order_def)

lemma in_order_snd [simp]: "map snd (in_order rs) = rs"
  by (simp add: in_order_def)

lemma run_sweep_visits:
  assumes "run_sweep body (in_order (lg_reservations l)) l = (l', res, logs, ch)"
  shows "list_all2 (\<lambda>r r'. \<exists>p q. r' = (case body p q r of Skip \<Rightarrow> r | Touch r' e out \<Rightarrow> r'))
    (lg_reservations l) (lg_reservations l')"
proof (rule list_all2_all_nthI)
  let ?s = "\<lparr>sw_reservations = lg_reservations l, sw_out = [], sw_logs = [], sw_changed = False\<rparr>"
  let ?o = "in_order (lg_reservations l)"
  have l': "lg_reservations l' = sw_reservations (sweep_loop body ?o ?s)"
    using assms by (auto simp: run_sweep_def Let_def)
  have dist: "distinct (map fst ?o)" by (simp add: in_order_fst)
  have pre: "i < length (sw_reservations ?s) \<and> sw_reservations ?s ! i = r" if "(i, r) \<in> set ?o" for i r
    using in_order_at [OF that] by simp
  show "length (lg_reservations l) = length (lg_reservations l')"
    using conjunct1 [OF sweep_loop_at [where s = ?s and body = body, OF dist pre]] by (simp add: l')
  fix k assume "k < length (lg_reservations l)"
  then have "(k, lg_reservations l ! k) \<in> set ?o"
    by (auto simp: in_order_def enumerate_eq_zip set_zip intro!: exI [of _ k])
  from sweep_loop_visits [where s = ?s and body = body, OF dist pre this]
  show "\<exists>p q. lg_reservations l' ! k = (case body p q (lg_reservations l ! k) of Skip \<Rightarrow> lg_reservations l ! k | Touch r' e out \<Rightarrow> r')"
    by (simp add: l')
qed

lemma list_all2_both:
  "list_all2 P xs ys \<Longrightarrow> list_all2 Q xs ys \<Longrightarrow> (\<And>x y. P x y \<Longrightarrow> Q x y \<Longrightarrow> R x y) \<Longrightarrow> list_all2 R xs ys"
  by (simp add: list_all2_conv_all_nth)

locale sweeping =
  fixes body :: "nat \<Rightarrow> nat \<Rightarrow> reservation \<Rightarrow> 'a visit"
    and keeps :: "reservation \<Rightarrow> reservation \<Rightarrow> bool"
  assumes untouched: "keeps r r"
    and touched: "body p q r = Touch r' e out \<Longrightarrow> keeps r r'"
begin

lemma run_sweep_keeps:
  assumes "run_sweep body order l = (l', res, logs, ch)" and "mset order = mset (in_order (lg_reservations l))"
  shows "list_all2 keeps (lg_reservations l) (lg_reservations l')"
    and "list_all2 (\<lambda>r r'. r' = r \<or> (\<exists>p q e out. body p q r = Touch r' e out \<and> set (opt_list out) \<subseteq> set res))
      (lg_reservations l) (lg_reservations l')"
    and "lg_policy l' = lg_policy l" and "lg_last_transaction_id l' = lg_last_transaction_id l"
proof -
  let ?s = "\<lparr>sw_reservations = lg_reservations l, sw_out = [], sw_logs = [], sw_changed = False\<rparr>"
  have "distinct (map fst order)"
  proof -
    have "mset (map fst order) = mset [0..<length (lg_reservations l)]"
      using assms(2) by (metis in_order_fst mset_map)
    from mset_eq_imp_distinct_iff [OF this] show ?thesis by simp
  qed
  moreover have "i < length (sw_reservations ?s) \<and> sw_reservations ?s ! i = r" if "(i, r) \<in> set order" for i r
    using that in_order_at [of i r "lg_reservations l"] mset_eq_setD [OF assms(2)] by simp
  ultimately have at: "length (sw_reservations (sweep_loop body order ?s)) = length (lg_reservations l)"
    "sw_reservations (sweep_loop body order ?s) ! k = lg_reservations l ! k
     \<or> (\<exists>p q e out. body p q (lg_reservations l ! k) = Touch (sw_reservations (sweep_loop body order ?s) ! k) e out
          \<and> set (opt_list out) \<subseteq> set (sw_out (sweep_loop body order ?s)))" for k
    using sweep_loop_at [of order ?s body] by auto
  have l': "l' = l\<lparr>lg_reservations := sw_reservations (sweep_loop body order ?s)\<rparr>"
    and res: "res = sw_out (sweep_loop body order ?s)"
    using assms(1) by (simp_all add: run_sweep_def Let_def)
  show "list_all2 (\<lambda>r r'. r' = r \<or> (\<exists>p q e out. body p q r = Touch r' e out \<and> set (opt_list out) \<subseteq> set res))
      (lg_reservations l) (lg_reservations l')"
    unfolding res l' using at by (intro list_all2_all_nthI) simp_all
  show "list_all2 keeps (lg_reservations l) (lg_reservations l')"
  proof (rule list_all2_all_nthI)
    show "length (lg_reservations l) = length (lg_reservations l')" using at(1) by (simp add: l')
    fix k
    from at(2) [of k] show "keeps (lg_reservations l ! k) (lg_reservations l' ! k)"
      by (auto simp: l' intro: untouched touched)
  qed
  show "lg_policy l' = lg_policy l" "lg_last_transaction_id l' = lg_last_transaction_id l" by (simp_all add: l')
qed

end


section \<open>Bookings stay where they are\<close>

text \<open>
  Only the job, the update stamp and, once the interval is over, the status of a reservation may
  change.
\<close>

definition same_booking :: "datetime \<Rightarrow> reservation \<Rightarrow> reservation \<Rightarrow> bool" where
  "same_booking now r r' \<longleftrightarrow>
     r'\<lparr>rs_status := rs_status r, rs_updated_at := rs_updated_at r, rs_job := rs_job r\<rparr> = r
     \<and> (rs_status r' = rs_status r
        \<or> rs_end_at r \<le> now \<and> rs_status r \<noteq> STATUS_CANCELLED \<and> rs_status r' = STATUS_EXPIRED)"

lemma same_booking_refl [simp]: "same_booking now r r"
  by (simp add: same_booking_def)

lemma same_booking_fields:
  assumes "same_booking now r r'"
  shows "rs_id r' = rs_id r" "rs_uid r' = rs_uid r" "rs_gpus r' = rs_gpus r" "rs_mode r' = rs_mode r"
    "rs_start_at r' = rs_start_at r" "rs_end_at r' = rs_end_at r" "rs_share_units r' = rs_share_units r"
proof -
  from assms have r: "r'\<lparr>rs_status := rs_status r, rs_updated_at := rs_updated_at r, rs_job := rs_job r\<rparr> = r"
    by (simp add: same_booking_def)
  show "rs_id r' = rs_id r" "rs_uid r' = rs_uid r" "rs_gpus r' = rs_gpus r" "rs_mode r' = rs_mode r"
    "rs_start_at r' = rs_start_at r" "rs_end_at r' = rs_end_at r" "rs_share_units r' = rs_share_units r"
    by (simp_all add: arg_cong [OF r, symmetric, of rs_id] arg_cong [OF r, symmetric, of rs_uid]
        arg_cong [OF r, symmetric, of rs_gpus] arg_cong [OF r, symmetric, of rs_mode]
        arg_cong [OF r, symmetric, of rs_start_at] arg_cong [OF r, symmetric, of rs_end_at]
        arg_cong [OF r, symmetric, of rs_share_units])
qed

lemma same_booking_occupies:
  "same_booking now r r' \<Longrightarrow> now \<le> t \<Longrightarrow> occupies g t r' = occupies g t r"
  by (frule same_booking_fields(3), frule same_booking_fields(5), frule same_booking_fields(6))
     (auto simp: same_booking_def occupies_def)

lemma same_booking_wf: "same_booking now r r' \<Longrightarrow> reservation_wf c r' = reservation_wf c r"
  by (simp add: reservation_wf_def span_ok_def same_booking_fields)

lemma same_booking_units:
  "same_booking now r r' \<Longrightarrow> reservation_share_units r' cap = reservation_share_units r cap"
  by (simp add: reservation_share_units_def same_booking_fields)

lemma same_bookings_ids: "list_all2 (same_booking now) rs rs' \<Longrightarrow> map rs_id rs' = map rs_id rs"
  by (induction rule: list_all2_induct) (auto simp: same_booking_fields)

lemma same_bookings_wf:
  assumes "list_all2 (same_booking now) rs rs'" and "ledger_wf c rs"
  shows "ledger_wf c rs'"
proof -
  from assms(1) have "list_all (reservation_wf c) rs \<Longrightarrow> list_all (reservation_wf c) rs'"
    by (induction rule: list_all2_induct) (auto simp: same_booking_wf)
  with assms(2) same_bookings_ids [OF assms(1)] show ?thesis by (simp add: ledger_wf_def)
qed

lemma same_bookings_holders:
  "list_all2 (same_booking now) rs rs' \<Longrightarrow> now \<le> t \<Longrightarrow>
   list_all2 (same_booking now) (holders rs g t) (holders rs' g t)"
  by (induction rule: list_all2_induct) (auto simp: same_booking_occupies)

lemma same_bookings_gpu_safe:
  assumes "list_all2 (same_booking now) hs hs'" and "gpu_safe cap hs"
  shows "gpu_safe cap hs'"
proof -
  from assms(1) have "held_units cap hs' = held_units cap hs"
    by (induction rule: list_all2_induct) (auto simp: same_booking_fields same_booking_units)
  moreover have "map rs_mode hs' = map rs_mode hs"
    using assms(1) by (induction rule: list_all2_induct) (auto simp: same_booking_fields)
  then have "rs_mode ` set hs' = rs_mode ` set hs" by (metis list.set_map)
  ultimately show ?thesis
    using assms(2) list_all2_lengthD [OF assms(1)] unfolding gpu_safe_def by (metis (no_types, lifting) image_iff)
qed

lemma same_bookings_safe:
  "list_all2 (same_booking now) rs rs' \<Longrightarrow> now \<le> T \<Longrightarrow> ledger_safe cap T rs \<Longrightarrow> ledger_safe cap T rs'"
  by (meson ledger_safeD ledger_safeI order_trans same_bookings_gpu_safe same_bookings_holders)


section \<open>Jobs without their worker\<close>

inductive unattended :: "string \<Rightarrow> string \<Rightarrow> bool" where
  stays: "unattended s s"
| withdrawn: "unattended JOB_PENDING JOB_CANCELLED"
| lapsed: "unattended JOB_PENDING JOB_MISSED"
| overtaken: "unattended JOB_CLAIMED JOB_MISSED"
| abandoned: "unattended JOB_CLAIMED JOB_UNCERTAIN"
| lost: "unattended JOB_RUNNING JOB_UNCERTAIN"

code_pred unattended .

declare unattended.intros [simp, intro]

text \<open>The same command, the same claim.\<close>

definition same_command :: "job \<Rightarrow> job \<Rightarrow> bool" where
  "same_command j j' \<longleftrightarrow> jb_spec_id j' = jb_spec_id j \<and> jb_digest j' = jb_digest j
     \<and> jb_summary j' = jb_summary j \<and> jb_submitted_at j' = jb_submitted_at j"

definition drifts :: "reservation \<Rightarrow> reservation \<Rightarrow> bool" where
  "drifts r r' \<longleftrightarrow>
     rel_option (\<lambda>j j'. same_command j j' \<and> jb_claim_token j' = jb_claim_token j
       \<and> unattended (jb_status j) (jb_status j')) (rs_job r) (rs_job r')"

lemma drifts_refl [simp]: "drifts r r"
  by (auto simp: drifts_def same_command_def intro: option.rel_refl)

lemma drifts_same_job [simp]: "rs_job r' = rs_job r \<Longrightarrow> drifts r r'"
  by (auto simp: drifts_def same_command_def intro: option.rel_refl)

definition claimable :: "actor \<Rightarrow> claim_call \<Rightarrow> reservation \<Rightarrow> bool" where
  "claimable actor cc r \<longleftrightarrow>
     rs_uid r = actor_uid actor \<and> rs_status r = STATUS_ACTIVE
     \<and> (case rs_job r of None \<Rightarrow> False | Some j \<Rightarrow> jb_status j = JOB_PENDING)
     \<and> rs_start_at r \<le> cc_now cc \<and> cc_now cc < rs_end_at r
     \<and> (case cc_eligible_ids cc of None \<Rightarrow> True | Some ids \<Rightarrow> rs_id r \<in> set ids)"

definition takes :: "actor \<Rightarrow> claim_call \<Rightarrow> reservation \<Rightarrow> reservation \<Rightarrow> bool" where
  "takes actor cc r r' \<longleftrightarrow>
     claimable actor cc r \<and> (\<exists>j n. rs_job r = Some j \<and> r' = claimed_reservation cc (cc_token cc n) j r)"

lemmas touch_defs = put_job_def stale_claim_def missed_reservation_def claimed_reservation_def claimed_job_def
  guard_cleared_def guard_waiting_def recovered_reservation_def recovered_job_def finished_recovery_def
  running_state_def finish_job_def completed_job_def retried_job_def

text \<open>The four ways a visit of the claiming loop changes a reservation.\<close>

lemma claim_visit_Touch:
  assumes "claim_visit actor cc p q r = Touch r' e out"
  obtains (stale) j where "rs_job r = Some j" "jb_status j = JOB_CLAIMED" "r' = put_job (stale_claim (cc_now cc) j) r" "out = None"
  | (withdrawn) j where "rs_job r = Some j" "jb_status j = JOB_PENDING" "out = None"
      "r' = put_job (j\<lparr>jb_status := JOB_CANCELLED, jb_finished_at := Some (whole_second (cc_now cc))\<rparr>) r"
  | (missed) j where "rs_job r = Some j" "jb_status j = JOB_PENDING" "r' = missed_reservation (cc_now cc) j r" "out = None"
      "rs_status r \<noteq> STATUS_CANCELLED" "rs_status r = STATUS_EXPIRED \<or> rs_end_at r \<le> cc_now cc"
  | (taken) j where "rs_job r = Some j" "claimable actor cc r" "r' = claimed_reservation cc (cc_token cc p) j r" "out = Some r'"
      "int p < cc_limit cc"
proof -
  from assms obtain j where j: "rs_job r = Some j" "rs_uid r = actor_uid actor"
    by (auto simp: claim_visit_def split: if_splits option.splits)
  note v = assms [unfolded claim_visit_def, simplified j option.case if_False simp_thms Let_def]
  show thesis
  proof (cases "jb_status j = JOB_PENDING")
    case False
    with v j show thesis by (intro stale [of j]) (auto split: if_splits)
  next
    case True
    have ne: "JOB_PENDING \<noteq> JOB_CLAIMED" by (simp add: job_status_defs)
    note v = v [simplified True ne if_False simp_thms]
    consider "rs_status r = STATUS_CANCELLED"
      | "rs_status r \<noteq> STATUS_CANCELLED" "rs_status r = STATUS_EXPIRED \<or> rs_end_at r \<le> cc_now cc"
      | "rs_status r \<noteq> STATUS_CANCELLED" "\<not> (rs_status r = STATUS_EXPIRED \<or> rs_end_at r \<le> cc_now cc)" by blast
    then show thesis
    proof cases
      case 1
      with v True j show thesis by (intro withdrawn [of j]) auto
    next
      case 2
      with v True j show thesis by (intro missed [of j]) auto
    next
      case 3
      with v True j show thesis
        by (intro taken [of j]) (auto simp: claimable_def split: if_splits option.splits)
    qed
  qed
qed

interpretation claiming: sweeping "claim_visit actor cc"
  "\<lambda>r r'. same_booking (cc_now cc) r r' \<and> (drifts r r' \<or> takes actor cc r r')" for actor cc
proof
  fix p q r r' e out
  assume "claim_visit actor cc p q r = Touch r' e out"
  then show "same_booking (cc_now cc) r r' \<and> (drifts r r' \<or> takes actor cc r r')"
  proof (cases rule: claim_visit_Touch)
    case (taken j)
    then have "takes actor cc r r'" by (auto simp: takes_def)
    with taken show ?thesis by (simp add: touch_defs same_booking_def)
  qed (auto simp: touch_defs same_booking_def drifts_def same_command_def)
qed simp_all

interpretation guarding: sweeping "guard_visit actor decisions now clock"
  "\<lambda>r r'. same_booking now r r' \<and> drifts r r'" for actor decisions now clock
proof
  fix p q r r' e out
  assume "guard_visit actor decisions now clock p q r = Touch r' e out"
  then show "same_booking now r r' \<and> drifts r r'"
    by (auto simp: guard_visit_def touch_defs same_booking_def drifts_def same_command_def Let_def
        split: if_splits option.splits)
qed simp_all

interpretation recovering: sweeping "recovery_visit actor now worker decisions clock"
  "\<lambda>r r'. same_booking now r r' \<and> drifts r r'" for actor now worker decisions clock
proof
  fix p q r r' e out
  assume "recovery_visit actor now worker decisions clock p q r = Touch r' e out"
  then show "same_booking now r r' \<and> drifts r r'"
    by (auto simp: recovery_visit_def touch_defs same_booking_def drifts_def same_command_def Let_def
        split: if_splits option.splits)
qed simp_all

interpretation finishing: sweeping "finish_visit actor now worker wanted remaining signalled clock"
  "\<lambda>r r'. same_booking now r r' \<and> drifts r r'" for actor now worker wanted remaining signalled clock
proof
  fix p q r r' e out
  assume "finish_visit actor now worker wanted remaining signalled clock p q r = Touch r' e out"
  then show "same_booking now r r' \<and> drifts r r'"
    by (auto simp: finish_visit_def touch_defs same_booking_def drifts_def same_command_def Let_def split_def
        split: if_splits option.splits)
qed simp_all


section \<open>What is claimed\<close>

lemma claim_visit_claimable:
  assumes "claimable actor cc r"
  shows "claim_visit actor cc p q r =
    (if int p \<ge> cc_limit cc then Skip
     else let r' = claimed_reservation cc (cc_token cc p) (the (rs_job r)) r in
       Touch r' (Some (job_log actor ''job-claim'' r' ''claimed'' (cc_log cc q))) (Some r'))"
proof -
  from assms obtain j where j: "rs_job r = Some j" "jb_status j = JOB_PENDING"
    by (auto simp: claimable_def split: option.splits)
  have ne: "JOB_PENDING \<noteq> JOB_CLAIMED" by (simp add: job_status_defs)
  show ?thesis using assms by (auto simp: claim_visit_def claimable_def j ne split: option.splits)
qed

lemma claim_visit_not_claimable:
  "\<not> claimable actor cc r \<Longrightarrow> claim_visit actor cc p q r = Touch r' e out \<Longrightarrow> out = None"
  by (erule claim_visit_Touch) auto

definition claimed_from :: "claim_call \<Rightarrow> nat \<Rightarrow> reservation list \<Rightarrow> reservation list" where
  "claimed_from cc n rs =
     map (\<lambda>(k, r). claimed_reservation cc (cc_token cc k) (the (rs_job r)) r) (enumerate n rs)"

lemma claimed_from_simps [simp]:
  "claimed_from cc n [] = []"
  "claimed_from cc n (r # rs) =
     claimed_reservation cc (cc_token cc n) (the (rs_job r)) r # claimed_from cc (Suc n) rs"
  by (simp_all add: claimed_from_def)

lemma claim_loop_out:
  "sw_out (sweep_loop (claim_visit actor cc) order s) = sw_out s @
     claimed_from cc (length (sw_out s))
       (take (nat (cc_limit cc) - length (sw_out s)) (filter (claimable actor cc) (map snd order)))"
proof (induction order arbitrary: s)
  case (Cons x order)
  obtain i r where x: "x = (i, r)" by (cases x)
  let ?p = "length (sw_out s)"
  show ?case
  proof (cases "claimable actor cc r")
    case False
    show ?thesis
    proof (cases "claim_visit actor cc ?p (length (sw_logs s)) r")
      case Skip
      with Cons.IH False show ?thesis by (simp add: x)
    next
      case (Touch r' e out)
      with claim_visit_not_claimable [OF False Touch] Cons.IH False show ?thesis by (simp add: x opt_list_def)
    qed
  next
    case True
    show ?thesis
    proof (cases "int ?p \<ge> cc_limit cc")
      case full: True
      then have "nat (cc_limit cc) - ?p = 0" by simp
      with full Cons.IH [of s] show ?thesis by (simp add: x claim_visit_claimable [OF True])
    next
      case False
      then have "nat (cc_limit cc) - ?p = Suc (nat (cc_limit cc) - Suc ?p)" by simp
      with False Cons.IH True show ?thesis
        by (simp add: x claim_visit_claimable [OF True] opt_list_def Let_def)
    qed
  qed
qed simp

definition by_start :: "reservation list \<Rightarrow> reservation list" where
  "by_start rs = sort_key (\<lambda>r. (rs_start_at r, rs_id r)) rs"

lemma claim_order_snd: "map snd (claim_order rs) = by_start rs"
  using sort_key_map [of "\<lambda>r. (rs_start_at r, rs_id r)" snd "in_order rs"]
  by (simp add: claim_order_def by_start_def split_def)

lemma claim_due_jobs_claimed:
  assumes "claim_due_jobs actor cc l = (l', claimed, logs, ch)"
  shows "claimed = claimed_from cc 0 (take (nat (cc_limit cc)) (filter (claimable actor cc) (by_start (lg_reservations l))))"
  using assms claim_loop_out [of actor cc "claim_order (lg_reservations l)"]
  by (auto simp: claim_due_jobs_def run_sweep_def Let_def claim_order_snd split: if_splits)

lemma claimed_from_ids [simp]: "map rs_id (claimed_from cc n rs) = map rs_id rs"
  by (induction rs arbitrary: n) (auto simp: claimed_reservation_def put_job_def)

text \<open>A loop that returns the objects it has just written returns what the ledger then holds.\<close>

lemma sweep_loop_placed:
  assumes "distinct (map fst order)"
    and "\<And>i r. (i, r) \<in> set order \<Longrightarrow> i < length (sw_reservations s) \<and> sw_reservations s ! i = r"
    and own: "\<And>p q r r' e x. body p q r = Touch r' e (Some x) \<Longrightarrow> x = r'"
  shows "set (sw_out (sweep_loop body order s)) \<subseteq> set (sw_out s) \<union> set (sw_reservations (sweep_loop body order s))"
  using assms(1,2)
proof (induction order arbitrary: s)
  case (Cons x order)
  obtain i r where x: "x = (i, r)" by (cases x)
  from Cons.prems x have i: "i < length (sw_reservations s)" "i \<notin> fst ` set order" "distinct (map fst order)" by auto
  show ?case
  proof (cases "body (length (sw_out s)) (length (sw_logs s)) r")
    case Skip
    have "k < length (sw_reservations s) \<and> sw_reservations s ! k = q" if "(k, q) \<in> set order" for k q
      using that Cons.prems(2) [of k q] by simp
    from Cons.IH [OF i(3) this] Skip show ?thesis by (simp add: x)
  next
    case (Touch r' e out)
    let ?s = "s\<lparr>sw_reservations := (sw_reservations s)[i := r'], sw_out := sw_out s @ opt_list out,
              sw_logs := sw_logs s @ opt_list e, sw_changed := True\<rparr>"
    have step: "sweep_loop body (x # order) s = sweep_loop body order ?s" using Touch x by simp
    have pre: "k < length (sw_reservations ?s) \<and> sw_reservations ?s ! k = q" if "(k, q) \<in> set order" for k q
      using that Cons.prems(2) [of k q] i(2) by (cases "k = i") (auto simp: image_iff)
    note at = sweep_loop_at [where s = ?s and body = body, OF i(3) pre]
    from spec [OF conjunct2 [OF at], of i] i have "sw_reservations (sweep_loop body order ?s) ! i = r'" by simp
    moreover have "length (sw_reservations (sweep_loop body order ?s)) = length (sw_reservations s)" using at by simp
    ultimately have "r' \<in> set (sw_reservations (sweep_loop body order ?s))" using i(1) nth_mem by metis
    moreover have "set (opt_list out) \<subseteq> {r'}" using own [of _ _ r r' e] Touch by (cases out) (auto simp: opt_list_def)
    ultimately show ?thesis using Cons.IH [OF i(3) pre] unfolding step by auto
  qed
qed simp

lemma claim_order_at:
  "distinct (map fst (claim_order rs))" "(i, r) \<in> set (claim_order rs) \<Longrightarrow> i < length rs \<and> rs ! i = r"
proof -
  have "mset (map fst (claim_order rs)) = mset [0..<length rs]"
    by (simp add: claim_order_def flip: in_order_fst)
  from mset_eq_imp_distinct_iff [OF this] show "distinct (map fst (claim_order rs))" by simp
  show "(i, r) \<in> set (claim_order rs) \<Longrightarrow> i < length rs \<and> rs ! i = r"
    by (simp add: claim_order_def in_order_at)
qed

lemma claim_due_jobs_placed:
  assumes "claim_due_jobs actor cc l = (l', claimed, logs, ch)"
  shows "set claimed \<subseteq> set (lg_reservations l')"
proof -
  let ?s = "\<lparr>sw_reservations = lg_reservations l, sw_out = [], sw_logs = [], sw_changed = False\<rparr>"
  let ?f = "sweep_loop (claim_visit actor cc) (claim_order (lg_reservations l)) ?s"
  have "set (sw_out ?f) \<subseteq> set (sw_out ?s) \<union> set (sw_reservations ?f)"
  proof (rule sweep_loop_placed [OF claim_order_at(1)])
    show "x = r'" if "claim_visit actor cc p q r = Touch r' e (Some x)" for p q r r' e x
      using that by (rule claim_visit_Touch) auto
  qed (use claim_order_at(2) in simp)
  then show ?thesis using assms by (auto simp: claim_due_jobs_def run_sweep_def Let_def split: if_splits)
qed

lemma claim_due_jobs_keeps:
  assumes "claim_due_jobs actor cc l = (l', claimed, logs, ch)"
  shows "list_all2 (\<lambda>r r'. same_booking (cc_now cc) r r' \<and> (drifts r r' \<or> takes actor cc r r' \<and> r' \<in> set claimed))
      (lg_reservations l) (lg_reservations l')"
    and "lg_policy l' = lg_policy l"
proof -
  have order: "mset (claim_order (lg_reservations l)) = mset (in_order (lg_reservations l))"
    by (simp add: claim_order_def)
  consider (same) "l' = l"
    | (swept) "run_sweep (claim_visit actor cc) (claim_order (lg_reservations l)) l = (l', claimed, logs, ch)"
    using assms by (auto simp: claim_due_jobs_def split: if_splits)
  note cases = this
  show "lg_policy l' = lg_policy l"
    using cases claiming.run_sweep_keeps(3) [OF _ order] by cases auto
  show "list_all2 (\<lambda>r r'. same_booking (cc_now cc) r r' \<and> (drifts r r' \<or> takes actor cc r r' \<and> r' \<in> set claimed))
      (lg_reservations l) (lg_reservations l')"
    using cases
  proof cases
    case swept
    note keeps = claiming.run_sweep_keeps [OF swept order]
    show ?thesis
    proof (rule list_all2_both [OF keeps(1,2)], elim conjE disjE exE)
      fix r r' p q e out
      assume "claim_visit actor cc p q r = Touch r' e out" "set (opt_list out) \<subseteq> set claimed"
        "same_booking (cc_now cc) r r'" "takes actor cc r r'"
      then show "same_booking (cc_now cc) r r' \<and> (drifts r r' \<or> takes actor cc r r' \<and> r' \<in> set claimed)"
        by (cases rule: claim_visit_Touch)
          (auto simp: opt_list_def drifts_def same_command_def touch_defs)
    qed auto
  qed (auto intro: list_all2_refl)
qed

end
