(* ===== verification/Replay.thy ===== *)
theory Replay
  imports Preservation
begin

text \<open>
  Operation identifiers make writes idempotent: a request sent again under the identifier it was
  committed with finds its reservation and changes nothing. The lemmas follow the lookup of an
  applied write through appending, replacing, expiring and dropping reservations.
\<close>

section \<open>The lookup\<close>

lemma applied_loop_None:
  "applied_loop uid op rs = Inr None \<longleftrightarrow> (\<forall>r \<in> set rs. rs_uid r = uid \<longrightarrow> applied_in op r = Inr None)"
proof (induction rs)
  case (Cons r rs)
  show ?case
  proof (cases "rs_uid r = uid")
    case True
    have "applied_loop uid op (r # rs) = Inr None \<longleftrightarrow> applied_in op r = Inr None \<and> applied_loop uid op rs = Inr None"
      using True by (auto simp: res_bind_eq_Inr split: option.splits)
    with True Cons.IH show ?thesis by auto
  next
    case False
    with Cons.IH show ?thesis by simp
  qed
qed simp

lemma applied_loop_append:
  "applied_loop uid op xs = Inr None \<Longrightarrow> applied_loop uid op (xs @ ys) = applied_loop uid op ys"
proof (induction xs)
  case (Cons r xs)
  then show ?case
    using applied_loop_None [of uid op "r # xs"] applied_loop_None [of uid op xs]
    by (cases "rs_uid r = uid") auto
qed simp

lemma applied_loop_hit:
  assumes "applied_loop uid op xs = Inr None" and "rs_uid r = uid" and "applied_in op r = Inr (Some a)"
  shows "applied_loop uid op (xs @ r # ys) = Inr (Some a)"
  using assms(2,3) by (simp add: applied_loop_append [OF assms(1)])

text \<open>Maintenance keeps what the lookup reads.\<close>

lemma applied_in_None:
  "applied_in op r = Inr None \<longleftrightarrow> rs_op_id r \<noteq> Some op
     \<and> (case rs_cancel_operation r of None \<Rightarrow> True | Some k \<Rightarrow> co_op_id k \<noteq> op)
     \<and> (\<exists>h. edit_history r = Inr h \<and> length h \<le> MAX_EDIT_OPERATIONS_PER_RESERVATION
          \<and> (\<forall>e \<in> set h. eo_op_id e \<noteq> op))"
  by (auto simp: applied_in_def applied_edit_def res_bind_eq_Inr find_None_iff not_less split: option.splits)

lemma applied_in_expire [simp]:
  "applied_in op (expire_reservation now r) = Inr None \<longleftrightarrow> applied_in op r = Inr None"
  unfolding applied_in_None by (simp add: edit_history_def)

lemma applied_loop_maintain:
  assumes "applied_loop uid op rs = Inr None"
  shows "applied_loop uid op (filter P (map (expire_reservation now) rs)) = Inr None"
  using assms by (auto simp: applied_loop_None)

lemma maintain_split:
  assumes "lg_reservations l = xs @ r # ys"
    and "d \<le> 0 \<or> retained (now - days d) (expire_reservation now r)"
  shows "lg_reservations (fst (maintain_ledger l now d)) =
    filter (\<lambda>x. d \<le> 0 \<or> retained (now - days d) x) (map (expire_reservation now) xs)
    @ expire_reservation now r
    # filter (\<lambda>x. d \<le> 0 \<or> retained (now - days d) x) (map (expire_reservation now) ys)"
  using assms by (simp add: maintain_reservations expire_old_reservations_def)

lemma find_applied_maintained:
  assumes "lg_reservations l = xs @ r # ys" and "applied_loop uid op xs = Inr None"
    and "d \<le> 0 \<or> retained (now - days d) (expire_reservation now r)"
    and "rs_uid r = uid" and "applied_in op (expire_reservation now r) = Inr (Some a)"
  shows "find_applied (fst (maintain_ledger l now d)) uid op = Inr (Some a)"
  unfolding find_applied_def maintain_split [OF assms(1,3)]
  by (rule applied_loop_hit [OF applied_loop_maintain [OF assms(2)]]) (use assms(4,5) in simp_all)


section \<open>Binding the policy twice\<close>

lemma py_eq_append:
  "map_of cur k = None \<Longrightarrow> k' \<noteq> k \<Longrightarrow> jget (cur @ [(k, v)]) k' = jget cur k'"
  by (auto simp: jget_def map_add_def split: option.splits)

lemma policy_mismatches_gid:
  assumes "policy_mismatches cur c = []" and "storage_gid c = Some g"
    and "map_of cur STORAGE_GID_POLICY_KEY = None"
  shows "policy_mismatches (cur @ [(STORAGE_GID_POLICY_KEY, JInt g)]) c = []"
  using assms py_eq_append [OF assms(3)]
  by (auto simp: policy_mismatches_def filter_empty_conv gid_json_def map_add_def)

lemma bind_policy_again:
  assumes "bind_ledger_policy l c = Inr (l', b)"
  shows "validate_ledger_policy l' c = Inr () \<and> (\<forall>l''. lg_policy l'' = lg_policy l' \<longrightarrow>
    bind_ledger_policy l'' c = Inr (l'', False))"
proof (cases "lg_policy l = JNull")
  case True
  with assms have "lg_policy l' = JObj (policy_for_config c)" by (auto simp: bind_ledger_policy_def)
  then show ?thesis
    by (auto simp: validate_ledger_policy_def bind_ledger_policy_def policy_for_config_agrees
        policy_for_config_gid split: option.splits)
next
  case False
  with assms obtain cur where cur: "lg_policy l = JObj cur" "policy_mismatches cur c = []"
    by (auto simp: bind_ledger_policy_def validate_ledger_policy_def res_bind_eq_Inr Let_def split: json.splits)
  show ?thesis
  proof (cases "storage_gid c \<noteq> None \<and> map_of cur STORAGE_GID_POLICY_KEY = None")
    case True
    then obtain g where g: "storage_gid c = Some g" by auto
    with True assms cur have "lg_policy l' = JObj (cur @ [(STORAGE_GID_POLICY_KEY, JInt g)])"
      by (auto simp: bind_ledger_policy_def validate_ledger_policy_def)
    with g True show ?thesis
      using policy_mismatches_gid [OF cur(2) g]
      by (auto simp: validate_ledger_policy_def bind_ledger_policy_def)
  next
    case False
    with assms cur have "l' = l"
      by (auto simp: bind_ledger_policy_def validate_ledger_policy_def split: option.splits if_splits)
    with False cur show ?thesis
      by (auto simp: validate_ledger_policy_def bind_ledger_policy_def split: option.splits)
  qed
qed



section \<open>A create sent again\<close>

lemma settle_created_new:
  assumes "settle_booking env c request ci signature l start pref excluded ord scores changed = Inr (l', res, logs, ch)"
    and "bres_created res" and "ci_op_id ci = Some op"
  shows "find_applied l (actor_uid (br_actor request)) op = Inr None"
proof -
  from assms(1,3) obtain applied where fa: "find_applied l (actor_uid (br_actor request)) op = Inr applied"
    by (auto simp: settle_booking_def res_bind_eq_Inr)
  moreover have False if "applied = Some a" for a
    using assms fa that replay_not_created [of ci signature a res] by (auto simp: settle_booking_def res_bind_eq_Inr)
  ultimately show ?thesis by (cases applied) auto
qed

text \<open>What a committed create stored, in terms of the request.\<close>

lemma add_booking_created:
  assumes "add_booking sha256 env c request l0 = Inr (l1, res, logs, ch)" and "bres_created res"
  obtains ci lb b start excluded ord scores gpus s where
    "create_intent_of c request = Inr ci" "bind_ledger_policy l0 c = Inr (lb, b)"
    "normalize_start (br_start_at request) (br_allow_queue request) (oe_now env) (slot_minutes c) = Inr start"
    "normalize_excluded_gpus (br_excluded_gpus request) c = Inr excluded"
    "normalize_gpu_order (br_gpu_order request) c = Inr ord"
    "normalize_gpu_scores (br_gpu_scores request) c = Inr scores"
    "validate_gpu_scope c (br_count request) (normalize_preferred_gpus (br_preferred_gpus request)) excluded = Inr ()"
    "br_allow_queue request \<or> booking_policy_conflict c start (start + seconds (br_duration_seconds request)) (oe_now env) = None"
    "case ci_op_id ci of None \<Rightarrow> True | Some op \<Rightarrow>
       applied_loop (actor_uid (br_actor request)) op
         (lg_reservations (fst (maintain_ledger lb (oe_now env) (ledger_retention_days c)))) = Inr None"
    "bres_reservation res = new_reservation env request (ci_op_id ci) gpus s
       (s + seconds (br_duration_seconds request)) (ci_memory ci) (ci_units ci)
       (create_operation_signature sha256 request start (normalize_preferred_gpus (br_preferred_gpus request))
          (ci_memory ci) (ci_job ci) (ci_units ci) excluded) (ci_job ci)"
    "lg_reservations l1 = lg_reservations (fst (maintain_ledger lb (oe_now env) (ledger_retention_days c)))
       @ [bres_reservation res]"
    "lg_policy l1 = lg_policy lb"
proof -
  from assms(1) obtain ci where ci: "create_intent_of c request = Inr ci"
    and m: "add_booking_mutate sha256 env c request ci l0 = Inr (l1, res, logs, ch)"
    by (auto simp: add_booking_def res_bind_eq_Inr)
  from m obtain lb b where b: "bind_ledger_policy l0 c = Inr (lb, b)"
    by (auto simp: add_booking_mutate_def res_bind_eq_Inr)
  let ?l = "fst (maintain_ledger lb (oe_now env) (ledger_retention_days c))"
  let ?pref = "normalize_preferred_gpus (br_preferred_gpus request)"
  let ?sig = "\<lambda>start excluded. create_operation_signature sha256 request start ?pref (ci_memory ci) (ci_job ci) (ci_units ci) excluded"
  from m b obtain start excluded ord scores changed where
    steps: "normalize_start (br_start_at request) (br_allow_queue request) (oe_now env) (slot_minutes c) = Inr start"
      "normalize_excluded_gpus (br_excluded_gpus request) c = Inr excluded"
      "normalize_gpu_order (br_gpu_order request) c = Inr ord"
      "normalize_gpu_scores (br_gpu_scores request) c = Inr scores"
      "validate_gpu_scope c (br_count request) ?pref excluded = Inr ()"
      "(case booking_policy_conflict c start (start + seconds (br_duration_seconds request)) (oe_now env) of
          Some reason \<Rightarrow> (if br_allow_queue request then Inr () else Inl (PolicyConflict reason))
        | None \<Rightarrow> Inr ()) = Inr ()"
    and settle: "settle_booking env c request ci (?sig start excluded) ?l start ?pref excluded ord scores changed
      = Inr (l1, res, logs, ch)"
    unfolding add_booking_mutate_def split_def Let_def by (clarsimp simp: res_bind_eq_Inr)
  have policy: "br_allow_queue request \<or> booking_policy_conflict c start (start + seconds (br_duration_seconds request)) (oe_now env) = None"
    using steps(6) by (auto split: option.splits if_splits)
  have placed: "place_booking env c request ci (?sig start excluded) ?l start ?pref excluded ord scores = Inr (l1, res, logs, ch)"
    using settle_booking_Inr [OF settle] assms(2) by blast
  have none: "case ci_op_id ci of None \<Rightarrow> True | Some op \<Rightarrow>
      applied_loop (actor_uid (br_actor request)) op (lg_reservations ?l) = Inr None"
    using settle_created_new [OF settle assms(2)] by (auto simp: find_applied_def split: option.splits)
  from placed show thesis
    by (rule place_booking_Inr) (rule that [OF ci b steps(1-5) policy none], simp_all)
qed


lemma create_intent_op:
  "create_intent_of c request = Inr ci \<Longrightarrow> normalize_operation_id (br_op_id request) = Inr (ci_op_id ci)"
  by (auto simp: create_intent_of_def res_bind_eq_Inr)

lemma normalize_operation_id_Some:
  "normalize_operation_id (Some op) = Inr x \<Longrightarrow> x = Some (py_strip op)"
  by (auto simp: normalize_operation_id_def Let_def)

lemma policy_conflict_later:
  assumes "booking_policy_conflict c s e now = None" and "now \<le> now'"
  shows "booking_policy_conflict c s e now' = None"
  using assms whole_second_mono [OF assms(2)] by (fastforce simp: policy_conflict_None)

lemma normalize_start_again:
  assumes "normalize_start v q now m = Inr s"
  shows "\<exists>s'. normalize_start v q now' m = Inr s' \<and> (\<not> q \<longrightarrow> s' = s)"
  using assms by (auto simp: normalize_start_def Let_def split: if_splits)

text \<open>The signature of a queued request does not depend on the clock.\<close>

lemma create_signature_again:
  "br_allow_queue request \<or> s' = s \<Longrightarrow>
   create_operation_signature sha256 request s' pref memory job units excluded =
   create_operation_signature sha256 request s pref memory job units excluded"
  by (auto simp: create_operation_signature_def create_payload_def)

lemma new_reservation_same:
  "same_request_metadata (expire_reservation now (new_reservation env request op gpus s e memory units sig job))
     memory job units aliases = Inr True"
proof -
  have "rs_job (expire_reservation now r) = None \<longleftrightarrow> rs_job r = None" for r
    by (simp add: expire_reservation_def)
  moreover have "jb_digest (expire_job now j) = jb_digest j" for j by (simp add: expire_job_def)
  ultimately show ?thesis
    by (auto simp: same_request_metadata_def new_reservation_def expire_reservation_def same_job_def
        new_job_def split: option.splits)
qed

lemma add_booking_again:
  assumes add: "add_booking sha256 env c request l0 = Inr (l1, res, logs, ch)" and created: "bres_created res"
    and op: "br_op_id request \<noteq> None" and later: "oe_now env \<le> oe_now env'"
    and kept: "ledger_retention_days c \<le> 0
      \<or> oe_now env' - days (ledger_retention_days c) < rs_end_at (bres_reservation res)"
  shows "\<exists>res' ch'. add_booking sha256 env' c request l1 =
      Inr (fst (maintain_ledger l1 (oe_now env') (ledger_retention_days c)), res', [], ch')
    \<and> \<not> bres_created res' \<and> bres_message res' = ''operation already applied''
    \<and> bres_reservation res' = expire_reservation (oe_now env') (bres_reservation res)"
  using add created
proof (rule add_booking_created, goal_cases)
  case (1 ci lb b start excluded ord scores gpus s)
  let ?d = "ledger_retention_days c" and ?r = "bres_reservation res"
  let ?pref = "normalize_preferred_gpus (br_preferred_gpus request)"
  obtain o' where o: "ci_op_id ci = Some o'"
    using create_intent_op [OF 1(1)] op normalize_operation_id_Some by (cases "br_op_id request") force+
  obtain start' where st: "normalize_start (br_start_at request) (br_allow_queue request) (oe_now env') (slot_minutes c) = Inr start'"
    and same: "br_allow_queue request \<or> start' = start"
    using normalize_start_again [OF 1(3)] by metis
  have bind: "bind_ledger_policy l1 c = Inr (l1, False)" using bind_policy_again [OF 1(2)] 1(12) by blast
  have r: "rs_uid ?r = actor_uid (br_actor request)" "rs_status ?r = STATUS_ACTIVE" "rs_op_id ?r = Some o'"
    by (simp_all add: 1(10) new_reservation_def o)
  have ret: "?d \<le> 0 \<or> retained (oe_now env' - days ?d) (expire_reservation (oe_now env') ?r)"
    using kept r(2) by (auto simp: retained_def expire_reservation_def)
  let ?sig = "create_operation_signature sha256 request start' ?pref (ci_memory ci) (ci_job ci) (ci_units ci) excluded"
  have sig: "rs_operation_signature ?r = Some ?sig"
    by (simp add: 1(10) new_reservation_def o create_signature_again [OF same])
  have hit: "find_applied (fst (maintain_ledger l1 (oe_now env') ?d)) (actor_uid (br_actor request)) o'
      = Inr (Some (AppliedCreate, expire_reservation (oe_now env') ?r, Some ?sig))"
    by (rule find_applied_maintained [OF 1(11) _ ret r(1)]) (use 1(9) o r(3) sig in \<open>simp_all add: applied_in_def\<close>)
  have meta: "same_request_metadata (expire_reservation (oe_now env') ?r) (ci_memory ci) (ci_job ci) (ci_units ci)
      (ci_aliases ci) = Inr True"
    unfolding 1(10) by (rule new_reservation_same)
  have pol: "(case booking_policy_conflict c start' (start' + seconds (br_duration_seconds request)) (oe_now env') of
          Some reason \<Rightarrow> (if br_allow_queue request then Inr () else Inl (PolicyConflict reason))
        | None \<Rightarrow> Inr ()) = Inr ()"
    using 1(8) same policy_conflict_later [OF _ later] by (auto split: option.splits)
  show ?case
    using 1(4-7) by (simp add: add_booking_def 1(1) add_booking_mutate_def bind st pol settle_booking_def o hit
        replay_create_def meta split_def Let_def)
qed



section \<open>Cancellations and edits sent again\<close>

lemma expire_cancelled [simp]:
  "rs_status r = STATUS_CANCELLED \<Longrightarrow> expire_reservation now r = r"
  by (simp add: expire_reservation_def due_def)

lemma applied_in_cancelled:
  assumes "rs_op_id r \<noteq> Some (co_op_id k)"
  shows "applied_in (co_op_id k) (cancelled_reservation now k r) =
    Inr (Some (AppliedCancel, cancelled_reservation now k r, Some (co_signature k)))"
  using assms by (simp add: applied_in_def)

lemma cancel_booking_again:
  assumes cancel: "cancel_booking sha256 env ident actor (Some op) l0 = Inr (l1, r1, logs, ch)"
    and first: "logs \<noteq> []" and wf: "distinct (map rs_id (lg_reservations l0))"
  shows "\<exists>ch'. cancel_booking sha256 env' ident actor (Some op) l1 =
    Inr (fst (expire_old_reservations l1 (oe_now env')), r1, [], ch')"
  using cancel
proof (rule cancel_booking_Inr, goal_cases)
  case (1 x)
  let ?l = "fst (expire_old_reservations l0 (oe_now env))" and ?sig = "cancel_signature sha256 ident"
  have x: "x = Some (py_strip op)" using 1(1) by (rule normalize_operation_id_Some)
  with 1 first have own: "cancel_owned env actor x ?sig ident ?l = Inr (l1, r1, logs, ch)" by auto
  from cancel 1(1) x obtain applied where
    fa: "applied_loop (actor_uid actor) (py_strip op) (lg_reservations ?l) = Inr applied"
    by (auto simp: cancel_booking_def split_def Let_def res_bind_eq_Inr find_applied_def)
  moreover have False if "applied = Some a" for a
    using cancel first 1(1) x fa that
    by (auto simp: cancel_booking_def split_def Let_def res_bind_eq_Inr find_applied_def)
  ultimately have none: "applied_loop (actor_uid actor) (py_strip op) (lg_reservations ?l) = Inr None"
    by (cases applied) auto
  from own show ?case
  proof (rule cancel_owned_Inr, goal_cases)
    case (1 r)
    let ?k = "owner_cancellation env actor x ?sig"
    have k: "co_op_id ?k = py_strip op" "co_signature ?k = ?sig" by (simp_all add: owner_cancellation_def x)
    have "distinct (map rs_id (lg_reservations ?l))" using wf by (simp add: expire_old_reservations_def comp_def)
    from find_reservation_split [OF 1(1) this, of r1] obtain xs ys where
      s: "lg_reservations ?l = xs @ r # ys" "replace_reservation ident r1 (lg_reservations ?l) = xs @ r1 # ys"
        "rs_id r = ident" by metis
    have "rs_op_id r \<noteq> Some (co_op_id ?k)"
      using none 1(3) unfolding k s(1) applied_loop_None applied_in_None by simp
    from applied_in_cancelled [OF this, of "oe_now env"]
    have hit: "applied_in (py_strip op) r1 = Inr (Some (AppliedCancel, r1, Some ?sig))"
      unfolding k 1(4) .
    have "applied_loop (actor_uid actor) (py_strip op) xs = Inr None"
      using none unfolding s(1) applied_loop_None by simp
    then have "applied_loop (actor_uid actor) (py_strip op) (map (expire_reservation (oe_now env')) xs) = Inr None"
      unfolding applied_loop_None by simp
    then have "find_applied (fst (expire_old_reservations l1 (oe_now env'))) (actor_uid actor) (py_strip op)
        = Inr (Some (AppliedCancel, r1, Some ?sig))"
      using applied_loop_hit [of _ _ _ r1] hit 1(3,4) s(2)
      by (simp add: find_applied_def expire_old_reservations_def 1(5))
    then show ?case
      using \<open>normalize_operation_id (Some op) = Inr x\<close> 1(4) s(3)
      by (simp add: cancel_booking_def x split_def Let_def replay_matches_def)
  qed
qed


text \<open>Every committed edit, of a started or a future reservation, appends one history entry.\<close>

lemma edit_owned_effect:
  assumes "edit_owned env c request op signature l = Inr (l', res, logs, ch)"
  obtains r r' h e where "find_reservation l (er_reservation_id request) = Some r"
    "rs_status r = STATUS_ACTIVE" "rs_uid r = actor_uid (er_actor request)"
    "bres_reservation res = r'" "bres_created res"
    "l' = l\<lparr>lg_reservations := replace_reservation (rs_id r) r' (lg_reservations l)\<rparr>"
    "rs_id r' = rs_id r" "rs_uid r' = rs_uid r" "rs_op_id r' = rs_op_id r"
    "rs_cancel_operation r' = rs_cancel_operation r" "rs_status r' = STATUS_ACTIVE"
    "edit_history r = Inr h" "length h < MAX_EDIT_OPERATIONS_PER_RESERVATION"
    "rs_edit_operations r' = Present (h @ [e])"
    "eo_op_id e = edit_op_id env op" "eo_signature e = signature"
    "eo_before e = reservation_edit_state r" "eo_after e = reservation_edit_state r'" "rs_job r' = rs_job r"
proof -
  note conclude = that
  have commit: thesis
    if found: "find_reservation l (er_reservation_id request) = Some r" "rs_status r = STATUS_ACTIVE"
      "rs_uid r = actor_uid (er_actor request)"
    and c: "commit_edit env request op signature (reservation_edit_state r) l r1 message queued log_message
      = Inr (l', res, logs, ch)"
    and r1: "rs_id r1 = rs_id r" "rs_uid r1 = rs_uid r" "rs_op_id r1 = rs_op_id r" "rs_status r1 = rs_status r"
      "rs_cancel_operation r1 = rs_cancel_operation r" "rs_edit_operations r1 = rs_edit_operations r"
      "rs_job r1 = rs_job r"
    for r r1 message queued log_message
    using c
  proof (rule commit_edit_Inr, goal_cases)
    case (1 r')
    have h: "edit_history r1 = edit_history r" by (simp add: edit_history_def r1(6))
    have after: "reservation_edit_state r1 = reservation_edit_state r'"
      by (simp add: reservation_edit_state_def 1(6-10,12))
    from 1(16) obtain h e where "edit_history r = Inr h" "length h < MAX_EDIT_OPERATIONS_PER_RESERVATION"
      "rs_edit_operations r' = Present (h @ [e])" "eo_op_id e = edit_op_id env op" "eo_signature e = signature"
      "eo_before e = reservation_edit_state r" "eo_after e = reservation_edit_state r'"
      unfolding h after by (metis edit_operation.select_convs(1,2,6,7))
    with 1 r1 found show thesis by (intro conclude [of r r' h e]) simp_all
  qed
  from assms show thesis
  proof (rule edit_owned_Inr, goal_cases)
    case (1 r d)
    show thesis
    proof (cases "rs_start_at r \<le> oe_now env")
      case True
      with 1(5) have "edit_started_reservation env c request op signature (dm_capacities d) l r = Inr (l', res, logs, ch)"
        by simp
      then show thesis by (rule edit_started_Inr) (rule commit [OF 1(1-3)], assumption, simp_all)
    next
      case False
      with 1(5) have "edit_future_reservation env c request op signature d l r = Inr (l', res, logs, ch)"
        by simp
      then show thesis
        by (rule edit_future_Inr, elim place_edit_Inr)
          (rule commit [OF 1(1-3)], assumption, simp_all add: edited_reservation_def)
    qed
  qed
qed


lemma applied_in_edited:
  assumes "applied_in op r = Inr None" and "rs_op_id r' = rs_op_id r" "rs_cancel_operation r' = rs_cancel_operation r"
    and "edit_history r = Inr h" "length h < MAX_EDIT_OPERATIONS_PER_RESERVATION"
    and "rs_edit_operations r' = Present (h @ [e])" "eo_op_id e = op"
  shows "applied_in op r' = Inr (Some (AppliedEdit, r', Some (eo_signature e)))"
proof -
  from assms(1,4) have "\<forall>x \<in> set h. eo_op_id x \<noteq> op" by (auto simp: applied_in_None)
  then have "find (\<lambda>x. eo_op_id x = op) (h @ [e]) = Some e" using assms(7) by (induction h) auto
  moreover have "rs_op_id r \<noteq> Some op" "case rs_cancel_operation r of None \<Rightarrow> True | Some k \<Rightarrow> co_op_id k \<noteq> op"
    using assms(1) by (auto simp: applied_in_None)
  ultimately show ?thesis
    using assms(2-6) by (auto simp: applied_in_def applied_edit_def edit_history_def [of r'] split: option.splits)
qed

lemma edit_booking_again:
  assumes edit: "edit_booking sha256 env c request l0 = Inr (l1, res, logs, ch)" and created: "bres_created res"
    and op: "er_op_id request = Some op" and wf: "distinct (map rs_id (lg_reservations l0))"
    and kept: "ledger_retention_days c \<le> 0
      \<or> oe_now env' - days (ledger_retention_days c) < rs_end_at (bres_reservation res)"
  shows "\<exists>res' ch'. edit_booking sha256 env' c request l1 =
      Inr (fst (maintain_ledger l1 (oe_now env') (ledger_retention_days c)), res', [], ch')
    \<and> \<not> bres_created res' \<and> bres_reservation res' = expire_reservation (oe_now env') (bres_reservation res)"
  using edit
proof (rule edit_booking_Inr, goal_cases)
  case (1 x lb b l)
  let ?d = "ledger_retention_days c" and ?o = "py_strip op" and ?uid = "actor_uid (er_actor request)"
  let ?sig = "edit_operation_signature sha256 request"
  have x: "x = Some ?o" using 1(1) unfolding op by (rule normalize_operation_id_Some)
  from 1(4) created have own: "edit_owned env c request x ?sig l = Inr (l1, res, logs, ch)" by blast
  from edit 1(1,2) obtain applied where fa: "applied_loop ?uid ?o (lg_reservations l) = Inr applied"
    by (auto simp: edit_booking_def x split_def Let_def res_bind_eq_Inr find_applied_def 1(3))
  moreover have False if "applied = Some a" for a
    using edit created 1(1,2) fa that
    by (auto simp: edit_booking_def x split_def Let_def res_bind_eq_Inr find_applied_def 1(3))
  ultimately have none: "applied_loop ?uid ?o (lg_reservations l) = Inr None" by (cases applied) auto
  have dist: "distinct (map rs_id (lg_reservations l))"
    using wf by (simp add: 1(3) maintain_reservations expire_old_reservations_def
        bind_ledger_policy_reservations [OF 1(2)] distinct_map_filter comp_def)
  from own show ?case
  proof (rule edit_owned_effect, goal_cases)
    case (1 r r' h e)
    from find_reservation_split [OF 1(1) dist, of r'] obtain xs ys where
      s: "lg_reservations l = xs @ r # ys" "rs_id r = er_reservation_id request"
        "replace_reservation (er_reservation_id request) r' (lg_reservations l) = xs @ r' # ys" by metis
    have l1: "lg_reservations l1 = xs @ r' # ys" "lg_policy l1 = lg_policy l" using 1(6) s by simp_all
    have "applied_in ?o r = Inr None" using none 1(3) unfolding s(1) applied_loop_None by simp
    from applied_in_edited [OF this 1(9,10,12,13,14)]
    have hit': "applied_in ?o r' = Inr (Some (AppliedEdit, r', Some ?sig))"
      using 1(15,16) by (simp add: x edit_op_id_def)
    then have hit: "applied_in ?o (expire_reservation (oe_now env') r') =
        Inr (Some (AppliedEdit, expire_reservation (oe_now env') r', Some ?sig))"
      by (auto simp: applied_in_def applied_edit_def edit_history_def res_bind_eq_Inr
          split: option.splits if_splits)
    have none': "applied_loop ?uid ?o xs = Inr None" using none unfolding s(1) applied_loop_None by simp
    have ret: "?d \<le> 0 \<or> retained (oe_now env' - days ?d) (expire_reservation (oe_now env') r')"
      using kept 1(11) by (auto simp: 1(4) retained_def expire_reservation_def)
    have fa: "find_applied (fst (maintain_ledger l1 (oe_now env') ?d)) ?uid ?o =
        Inr (Some (AppliedEdit, expire_reservation (oe_now env') r', Some ?sig))"
      by (rule find_applied_maintained [OF l1(1) none' ret _ hit]) (use 1(3,8) in simp)
    have bind: "bind_ledger_policy l1 c = Inr (l1, False)"
      using bind_policy_again [OF \<open>bind_ledger_policy l0 c = Inr (lb, b)\<close>] l1(2)
        \<open>l = fst (maintain_ledger lb (oe_now env) (ledger_retention_days c))\<close> by simp
    show ?case
      using \<open>normalize_operation_id (er_op_id request) = Inr x\<close> fa 1(4,7) s(2)
      by (simp add: edit_booking_def x bind split_def Let_def replay_matches_def)
  qed
qed

end
