(* ===== verification/Reachable.thy ===== *)
theory Reachable
  imports Replay
begin

text \<open>
  Every history of writes. A state is the ledger with a clock reading; a step is a committed write
  of some client, with that client's own configuration and its clock readings, or time passing.
  The locale carries an invariant along any run; its interpretation is the promise of the ledger.
\<close>

locale preserved =
  fixes step :: "'s \<Rightarrow> 's \<Rightarrow> bool" and inv :: "'s \<Rightarrow> bool"
  assumes step_preserves: "inv s \<Longrightarrow> step s s' \<Longrightarrow> inv s'"
begin

lemma run_preserves:
  assumes "step\<^sup>*\<^sup>* s s'" and "inv s"
  shows "inv s'"
  using assms by (induction rule: rtranclp_induct) (auto intro: step_preserves)

end

section \<open>Steps\<close>

text \<open>The clock readings of a write follow the reading of the state it starts from.\<close>

definition clocked :: "datetime \<Rightarrow> op_env \<Rightarrow> datetime \<Rightarrow> bool" where
  "clocked T env T' \<longleftrightarrow> T \<le> oe_now env \<and> oe_now env \<le> sc_now (oe_search env) \<and> sc_now (oe_search env) \<le> T'"

inductive write_step :: "(string \<Rightarrow> string) \<Rightarrow> ledger \<times> datetime \<Rightarrow> ledger \<times> datetime \<Rightarrow> bool"
  for sha256 where
  add: "add_booking sha256 env c request l = Inr (l', res, logs, ch) \<Longrightarrow> config_ok c \<Longrightarrow> fresh_for env l \<Longrightarrow>
    clocked T env T' \<Longrightarrow> write_step sha256 (l, T) (l', T')"
| edit: "edit_booking sha256 env c request' l = Inr (l', res, logs, ch) \<Longrightarrow> config_ok c \<Longrightarrow>
    clocked T env T' \<Longrightarrow> write_step sha256 (l, T) (l', T')"
| cancel: "cancel_booking sha256 env ident actor op l = Inr (l', r, logs, ch) \<Longrightarrow>
    clocked T env T' \<Longrightarrow> write_step sha256 (l, T) (l', T')"
| admin_cancel: "cancel_booking_as_admin sha256 env c ident actor reason l = Inr (l', r, logs, ch) \<Longrightarrow> config_ok c \<Longrightarrow>
    clocked T env T' \<Longrightarrow> write_step sha256 (l, T) (l', T')"
| tick: "T \<le> T' \<Longrightarrow> write_step sha256 (l, T) (l, T')"

text \<open>The first writer's policy is in the ledger, and the promise holds for its capacity.\<close>

definition bound_to :: "config \<Rightarrow> ledger \<times> datetime \<Rightarrow> bool" where
  "bound_to c s \<longleftrightarrow> config_ok c \<and> lg_policy (fst s) \<noteq> JNull \<and> validate_ledger_policy (fst s) c = Inr ()
     \<and> ledger_wf c (lg_reservations (fst s))
     \<and> ledger_safe (max_shared_users c) (snd s) (lg_reservations (fst s))"

definition promise :: "ledger \<times> datetime \<Rightarrow> bool" where
  "promise s \<longleftrightarrow> lg_policy (fst s) = JNull \<and> lg_reservations (fst s) = [] \<or> (\<exists>c. bound_to c s)"


section \<open>Configurations that agree\<close>

lemma validate_policy_agree:
  assumes "validate_ledger_policy l c = Inr ()" and "validate_ledger_policy l c' = Inr ()" and "lg_policy l \<noteq> JNull"
  shows "policy_view c = policy_view c'"
proof -
  from assms obtain cur where "policy_mismatches cur c = []" "policy_mismatches cur c' = []"
    by (auto simp: validate_ledger_policy_def Let_def split: json.splits)
  then show ?thesis by (rule policy_mismatches_view)
qed

lemma wf_view: "policy_view c = policy_view c' \<Longrightarrow> ledger_wf c rs = ledger_wf c' rs"
  by (simp add: policy_view_def ledger_wf_def reservation_wf_def list_all_iff)

lemma bind_policy_not_null:
  "bind_ledger_policy l c = Inr (l', b) \<Longrightarrow> lg_policy l' \<noteq> JNull \<and> (lg_policy l \<noteq> JNull \<longrightarrow> validate_ledger_policy l c = Inr ())"
  by (auto simp: bind_ledger_policy_def res_bind_eq_Inr split: if_splits json.splits option.splits)

text \<open>A state that keeps the promise keeps it for the configuration of whoever writes next.\<close>

lemma promise_for_writer:
  assumes "promise (l, T)" and "bind_ledger_policy l c = Inr (lb, b)"
  shows "ledger_wf c (lg_reservations l) \<and> ledger_safe (max_shared_users c) T (lg_reservations l)
    \<or> \<not> config_ok c"
proof (cases "lg_policy l = JNull \<and> lg_reservations l = []")
  case True
  have "0 \<le> max_shared_users c \<or> \<not> config_ok c" by (auto simp: config_ok_def)
  with True show ?thesis by (auto simp: ledger_wf_def ledger_safe_def gpu_safe_def)
next
  case False
  with assms(1) obtain c0 where c0: "bound_to c0 (l, T)" by (auto simp: promise_def)
  with bind_policy_not_null [OF assms(2)] have view: "policy_view c0 = policy_view c"
    using validate_policy_agree [of l c0 c] by (auto simp: bound_to_def)
  have "max_shared_users c0 = max_shared_users c" using view by (simp add: policy_view_def)
  with c0 wf_view [OF view, of "lg_reservations l"] show ?thesis by (simp add: bound_to_def)
qed

text \<open>It keeps it, too, for every configuration that agrees with the stored policy.\<close>

lemma promise_for_policy:
  assumes "promise (l, T)" and "config_ok c" and "validate_ledger_policy l c = Inr ()"
  shows "ledger_safe (max_shared_users c) T (lg_reservations l)"
proof -
  have "\<exists>x. bind_ledger_policy l c = Inr x"
    using assms(3) by (cases "lg_policy l"; cases "storage_gid c") (auto simp: bind_ledger_policy_def)
  then obtain lb b where "bind_ledger_policy l c = Inr (lb, b)" by fastforce
  from promise_for_writer [OF assms(1) this] assms(2) show ?thesis by blast
qed

lemma bound_after_write:
  assumes "config_ok c" and "bind_ledger_policy l c = Inr (lb, b)" and "lg_policy l' = lg_policy lb"
    and "ledger_wf c (lg_reservations l')" and "ledger_safe (max_shared_users c) T' (lg_reservations l')"
  shows "promise (l', T')"
proof -
  have "validate_ledger_policy l' c = validate_ledger_policy lb c"
    using assms(3) by (simp add: validate_ledger_policy_def)
  then have "bound_to c (l', T')"
    using assms bind_policy_again [OF assms(2)] bind_policy_not_null [OF assms(2)] by (simp add: bound_to_def)
  then show ?thesis unfolding promise_def by blast
qed


section \<open>Each write\<close>

lemma add_booking_policy:
  assumes "add_booking sha256 env c request l = Inr (l', res, logs, ch)"
  shows "\<exists>lb b. bind_ledger_policy l c = Inr (lb, b) \<and> lg_policy l' = lg_policy lb"
  using assms
proof (rule add_booking_Inr, goal_cases)
  case (1 ci l1 b l2 start excluded ord scores signature)
  have "lg_policy l' = lg_policy l2" using 1(7) by (auto elim!: place_booking_Inr)
  with 1(2,3) show ?case by auto
qed

text \<open>The policy in the ledger agrees with whoever wrote last.\<close>

lemma add_booking_validated:
  "add_booking sha256 env c request l = Inr (l', res, logs, ch) \<Longrightarrow> validate_ledger_policy l' c = Inr ()"
  using add_booking_policy [of sha256 env c request l l' res logs ch] bind_policy_again [of l c]
  by (auto simp: validate_ledger_policy_def)

lemma edit_booking_policy:
  assumes "edit_booking sha256 env c request l = Inr (l', res, logs, ch)"
  shows "\<exists>lb b. bind_ledger_policy l c = Inr (lb, b) \<and> lg_policy l' = lg_policy lb"
  using assms
proof (rule edit_booking_Inr, goal_cases)
  case (1 op l1 b l2)
  have "lg_policy l' = lg_policy l2" using 1(4) by (auto elim!: edit_owned_effect)
  with 1(2,3) show ?case by auto
qed

lemma cancel_as_admin_policy:
  assumes "cancel_booking_as_admin sha256 env c ident actor raw l = Inr (l', r', logs, ch)"
  shows "\<exists>lb b. bind_ledger_policy l c = Inr (lb, b) \<and> lg_policy l' = lg_policy lb"
  using assms by (rule cancel_as_admin_Inr) auto

lemma cancel_booking_policy:
  assumes "cancel_booking sha256 env ident actor op l = Inr (l', r', logs, ch)"
  shows "lg_policy l' = lg_policy l \<and> (lg_reservations l = [] \<longrightarrow> lg_reservations l' = [])"
  using assms
proof (rule cancel_booking_Inr, goal_cases)
  case (1 op')
  then show ?case
    by (auto simp: expire_old_reservations_def find_reservation_def elim!: cancel_owned_Inr)
qed

lemma write_step_promise:
  assumes "promise s" and "write_step sha256 s s'"
  shows "promise s'"
  using assms(2,1)
proof (cases rule: write_step.cases)
  case (add env c request l l' res logs ch T T')
  from add_booking_policy [OF add(3)] obtain lb b where b: "bind_ledger_policy l c = Inr (lb, b)" "lg_policy l' = lg_policy lb"
    by blast
  from promise_for_writer [OF _ b(1)] assms(1) add(1,4)
  have pre: "ledger_wf c (lg_reservations l)" "ledger_safe (max_shared_users c) T (lg_reservations l)" by auto
  have clock: "oe_now env \<le> sc_now (oe_search env)" "T \<le> sc_now (oe_search env)" "sc_now (oe_search env) \<le> T'"
    using add(6) by (auto simp: clocked_def)
  note keeps = add_booking_keeps [OF add(3,4) pre(1) add(5) clock(1)]
  from keeps(2) [OF ledger_safe_mono [OF pre(2) clock(2)]]
  have "ledger_safe (max_shared_users c) T' (lg_reservations l')" using clock(3) by (rule ledger_safe_mono)
  from bound_after_write [OF add(4) b keeps(1) this] add(2) show ?thesis by simp
next
  case (edit env c request l l' res logs ch T T')
  from edit_booking_policy [OF edit(3)] obtain lb b where b: "bind_ledger_policy l c = Inr (lb, b)" "lg_policy l' = lg_policy lb"
    by blast
  from promise_for_writer [OF _ b(1)] assms(1) edit(1,4)
  have pre: "ledger_wf c (lg_reservations l)" "ledger_safe (max_shared_users c) T (lg_reservations l)" by auto
  have clock: "oe_now env \<le> sc_now (oe_search env)" "T \<le> sc_now (oe_search env)" "sc_now (oe_search env) \<le> T'"
    using edit(5) by (auto simp: clocked_def)
  note keeps = edit_booking_keeps [OF edit(3,4) pre(1) clock(1)]
  from keeps(2) [OF ledger_safe_mono [OF pre(2) clock(2)]]
  have "ledger_safe (max_shared_users c) T' (lg_reservations l')" using clock(3) by (rule ledger_safe_mono)
  from bound_after_write [OF edit(4) b keeps(1) this] edit(2) show ?thesis by simp
next
  case (cancel env ident actor op l l' r logs ch T T')
  note pol = cancel_booking_policy [OF cancel(3)]
  have clock: "oe_now env \<le> T'" "T \<le> T'" using cancel(4) by (auto simp: clocked_def)
  show ?thesis
  proof (cases "\<exists>c. bound_to c (l, T)")
    case True
    then obtain c where c: "bound_to c (l, T)" by blast
    then have pre: "ledger_wf c (lg_reservations l)" "ledger_safe (max_shared_users c) T (lg_reservations l)"
      by (auto simp: bound_to_def)
    note keeps = cancel_booking_keeps [OF cancel(3) pre(1)]
    have "ledger_safe (max_shared_users c) T' (lg_reservations l')"
      by (rule keeps(2) [OF ledger_safe_mono [OF pre(2) clock(2)] clock(1)])
    with keeps(1) c pol have "bound_to c (l', T')" by (simp add: bound_to_def validate_ledger_policy_def)
    with cancel(2) show ?thesis unfolding promise_def by auto
  next
    case False
    with assms(1) cancel(1) pol have "lg_policy l' = JNull \<and> lg_reservations l' = []" by (auto simp: promise_def)
    with cancel(2) show ?thesis by (simp add: promise_def)
  qed
next
  case (admin_cancel env c ident actor reason l l' r logs ch T T')
  from cancel_as_admin_policy [OF admin_cancel(3)] obtain lb b where
    b: "bind_ledger_policy l c = Inr (lb, b)" "lg_policy l' = lg_policy lb" by blast
  from promise_for_writer [OF _ b(1)] assms(1) admin_cancel(1,4)
  have pre: "ledger_wf c (lg_reservations l)" "ledger_safe (max_shared_users c) T (lg_reservations l)" by auto
  have clock: "oe_now env \<le> T'" "T \<le> T'" using admin_cancel(5) by (auto simp: clocked_def)
  note keeps = cancel_as_admin_keeps [OF admin_cancel(3) pre(1)]
  have "ledger_safe (max_shared_users c) T' (lg_reservations l')"
    by (rule keeps(2) [OF ledger_safe_mono [OF pre(2) clock(2)] clock(1)])
  from bound_after_write [OF admin_cancel(4) b keeps(1) this] admin_cancel(2) show ?thesis by simp
next
  case (tick T T' l)
  with assms(1) show ?thesis by (auto simp: promise_def bound_to_def intro: ledger_safe_mono)
qed

interpretation ledger_run: preserved "write_step sha256" promise for sha256
  by unfold_locales (rule write_step_promise)

end
