(* ===== verification/Job_System.thy ===== *)
theory Job_System
  imports Job_Lifecycle Reachable
begin

text \<open>
  Clients, workers and recoveries on one ledger, in any interleaving. A worker's memory is the map
  from claim tokens to what it is doing with the claim; the history of fresh names and the counts
  of launches and retries are recorded beside it. The invariant gives the launch discipline: the
  command of a reservation is started at most once for its submission and once for each explicit
  retry, whatever workers crash, stall or come back late.
\<close>

section \<open>What clients do to jobs\<close>

definition fresh_job :: "reservation \<Rightarrow> bool" where
  "fresh_job r \<longleftrightarrow> (case rs_job r of None \<Rightarrow> True | Some j \<Rightarrow> jb_status j = JOB_PENDING \<and> jb_claim_token j = None)"

text \<open>Every reservation afterwards comes from one with its identifier, or is new.\<close>

definition descends :: "(reservation \<Rightarrow> reservation \<Rightarrow> bool) \<Rightarrow> reservation list \<Rightarrow> reservation list \<Rightarrow> bool" where
  "descends R rs rs' \<longleftrightarrow>
     (\<forall>r' \<in> set rs'. (\<exists>r \<in> set rs. rs_id r = rs_id r' \<and> R r r') \<or> rs_id r' \<notin> rs_id ` set rs \<and> fresh_job r')"

lemma descendsE:
  assumes "descends R rs rs'" and "r' \<in> set rs'"
  obtains (old) r where "r \<in> set rs" "rs_id r = rs_id r'" "R r r'"
  | (new) "rs_id r' \<notin> rs_id ` set rs" "fresh_job r'"
  using assms unfolding descends_def by blast

lemma descends_refl: "(\<And>r. R r r) \<Longrightarrow> descends R rs rs"
  by (auto simp: descends_def)

lemma descends_old:
  "(\<And>r'. r' \<in> set rs' \<Longrightarrow> \<exists>r \<in> set rs. rs_id r = rs_id r' \<and> R r r') \<Longrightarrow> descends R rs rs'"
  by (auto simp: descends_def)

lemma descends_all2:
  assumes "list_all2 (\<lambda>r r'. same_booking now r r' \<and> R r r') rs rs'"
  shows "descends R rs rs'"
proof (rule descends_old)
  fix r' assume "r' \<in> set rs'"
  then obtain k where k: "k < length rs'" "rs' ! k = r'" by (auto simp: in_set_conv_nth)
  with assms have "k < length rs" "same_booking now (rs ! k) r'" "R (rs ! k) r'"
    by (auto simp: list_all2_conv_all_nth)
  then show "\<exists>r \<in> set rs. rs_id r = rs_id r' \<and> R r r'"
    by (metis nth_mem same_booking_fields(1))
qed

lemma unattended_trans: "unattended a b \<Longrightarrow> unattended b c \<Longrightarrow> unattended a c"
  by (auto elim!: unattended.cases simp: job_status_defs)

lemma drifts_trans: "drifts a b \<Longrightarrow> drifts b c \<Longrightarrow> drifts a c"
  by (cases "rs_job a"; cases "rs_job b"; cases "rs_job c")
    (auto simp: drifts_def same_command_def intro: unattended_trans)

lemma descends_drifts_trans:
  assumes "descends drifts as bs" and "descends drifts bs cs" and "rs_id ` set bs \<subseteq> rs_id ` set as"
    and "rs_id ` set cs \<inter> rs_id ` set as \<subseteq> rs_id ` set bs"
  shows "descends drifts as cs"
  unfolding descends_def
proof
  fix r assume r: "r \<in> set cs"
  from assms(2) r show "(\<exists>q \<in> set as. rs_id q = rs_id r \<and> drifts q r) \<or> rs_id r \<notin> rs_id ` set as \<and> fresh_job r"
  proof (cases rule: descendsE)
    case (old q)
    from assms(1) old(1) obtain p where "p \<in> set as" "rs_id p = rs_id q" "drifts p q"
      using assms(3) imageI [OF old(1), of rs_id] by (cases rule: descendsE) auto
    with old drifts_trans show ?thesis by metis
  next
    case new
    with r assms(4) show ?thesis by auto
  qed
qed

lemma expire_drifts [simp]: "drifts r (expire_reservation now r)"
  by (cases "rs_job r") (auto simp: drifts_def expire_reservation_def expire_job_def same_command_def)

lemma cancel_drifts: "rs_job r' = map_option (cancel_job now) (rs_job r) \<Longrightarrow> drifts r r'"
  by (cases "rs_job r") (auto simp: drifts_def cancel_job_def same_command_def)

lemma expire_old_descends: "descends drifts (lg_reservations l) (lg_reservations (fst (expire_old_reservations l now)))"
  by (rule descends_old) (auto simp: expire_old_reservations_def)

lemma maintain_descends: "descends drifts (lg_reservations l) (lg_reservations (fst (maintain_ledger l now d)))"
  by (rule descends_old) (auto simp: maintain_reservations expire_old_reservations_def)

lemma expire_old_ids: "rs_id ` set (lg_reservations (fst (expire_old_reservations l now))) = rs_id ` set (lg_reservations l)"
  by (auto simp: expire_old_reservations_def image_image)

lemma replace_set: "set (replace_reservation ident r' rs) \<subseteq> insert r' (set rs)"
  by (induction rs) auto

lemma find_reservation_mem: "find_reservation l ident = Some r \<Longrightarrow> r \<in> set (lg_reservations l) \<and> rs_id r = ident"
  unfolding find_reservation_def by (auto dest: find_split)

lemma replace_descends:
  assumes "find_reservation l ident = Some r" and "R r r'" and "rs_id r' = rs_id r" and "\<And>x. R x x"
  shows "descends R (lg_reservations l) (replace_reservation i r' (lg_reservations l))"
proof (rule descends_old)
  fix x assume "x \<in> set (replace_reservation i r' (lg_reservations l))"
  with replace_set have "x = r' \<or> x \<in> set (lg_reservations l)" by blast
  with assms find_reservation_mem [OF assms(1)] show "\<exists>y \<in> set (lg_reservations l). rs_id y = rs_id x \<and> R y x"
    by (metis)
qed

text \<open>A write after maintenance.\<close>

lemma after_maintenance:
  assumes "descends drifts (lg_reservations l) rs" and "l = fst (maintain_ledger l1 now d)"
    and "lg_reservations l1 = lg_reservations l0" and "rs_id ` set rs \<inter> rs_id ` set (lg_reservations l0) \<subseteq> rs_id ` set (lg_reservations l)"
  shows "descends drifts (lg_reservations l0) rs"
  by (rule descends_drifts_trans [of _ "lg_reservations l"])
    (use assms maintain_descends [of l1 now d] maintain_ids [of l1 now d] in auto)

lemma replace_ids:
  "rs_id r' \<in> rs_id ` set rs \<Longrightarrow> rs_id ` set (replace_reservation ident r' rs) \<subseteq> rs_id ` set rs"
  using replace_set by fastforce

lemma add_booking_descends:
  assumes "add_booking sha256 env c request l = Inr (l', res, logs, ch)" and "fresh_for env l"
  shows "descends drifts (lg_reservations l) (lg_reservations l')"
  using assms(1)
proof (rule add_booking_Inr, goal_cases)
  case (1 ci l1 b l2 start excluded ord scores signature)
  note l1 = bind_ledger_policy_reservations [OF 1(2)]
  note ids = maintain_ids [of l1 "oe_now env" "ledger_retention_days c", folded 1(3), unfolded l1]
  from 1(7) show ?case
  proof (elim disjE conjE place_booking_Inr)
    assume "l' = l2"
    then show ?case by (intro after_maintenance [OF _ 1(3) l1]) (auto intro: descends_refl)
  next
    fix s gpus
    assume res: "bres_reservation res = new_reservation env request (ci_op_id ci) gpus s
        (s + seconds (br_duration_seconds request)) (ci_memory ci) (ci_units ci) signature (ci_job ci)"
      and l': "l' = l2\<lparr>lg_reservations := lg_reservations l2 @ [bres_reservation res]\<rparr>"
    have new: "rs_id (bres_reservation res) = oe_uuid env" "fresh_job (bres_reservation res)"
      by (auto simp: res new_reservation_def fresh_job_def new_job_def split: option.splits)
    have "rs_id (bres_reservation res) \<notin> rs_id ` set (lg_reservations l)"
      using assms(2) by (simp add: new fresh_for_def)
    with ids new(2) have "descends drifts (lg_reservations l2) (lg_reservations l')"
      by (auto simp: descends_def l')
    then show ?case
      by (rule after_maintenance [OF _ 1(3) l1])
        (use \<open>rs_id (bres_reservation res) \<notin> rs_id ` set (lg_reservations l)\<close> in \<open>auto simp: l'\<close>)
  qed
qed

lemma edit_booking_descends:
  assumes "edit_booking sha256 env c request l = Inr (l', res, logs, ch)"
  shows "descends drifts (lg_reservations l) (lg_reservations l')"
  using assms
proof (rule edit_booking_Inr, goal_cases)
  case (1 op l1 b l2)
  note l1 = bind_ledger_policy_reservations [OF 1(2)]
  from 1(4) show ?case
  proof (elim disjE conjE edit_owned_effect)
    assume "l' = l2"
    then show ?case by (intro after_maintenance [OF _ 1(3) l1]) (auto intro: descends_refl)
  next
    fix r r'
    assume r: "find_reservation l2 (er_reservation_id request) = Some r" "rs_id r' = rs_id r" "rs_job r' = rs_job r"
      and l': "l' = l2\<lparr>lg_reservations := replace_reservation (rs_id r) r' (lg_reservations l2)\<rparr>"
    from r have "descends drifts (lg_reservations l2) (lg_reservations l')"
      by (simp add: l') (rule replace_descends, auto)
    then show ?case
    proof (rule after_maintenance [OF _ 1(3) l1])
      have "rs_id r' \<in> rs_id ` set (lg_reservations l2)" using r(2) find_reservation_mem [OF r(1)] by (metis imageI)
      from replace_ids [OF this]
      show "rs_id ` set (lg_reservations l') \<inter> rs_id ` set (lg_reservations l) \<subseteq> rs_id ` set (lg_reservations l2)"
        by (auto simp: l')
    qed
  qed
qed

lemma admin_cancel_descends:
  assumes "cancel_booking_as_admin sha256 env c ident actor raw l = Inr (l', r', logs, ch)"
  shows "descends drifts (lg_reservations l) (lg_reservations l')"
  using assms
proof (rule cancel_as_admin_Inr, goal_cases)
  case (1 reason l1 b l2 r notifications)
  note l1 = bind_ledger_policy_reservations [OF 1(3)]
  have "descends drifts (lg_reservations l2) (lg_reservations l')"
    unfolding 1(16) by simp (rule replace_descends [where R = drifts, OF 1(5) cancel_drifts [OF 1(18)] 1(8)], simp)
  then show ?case
  proof (rule after_maintenance [OF _ 1(4) l1])
    have "rs_id r' \<in> rs_id ` set (lg_reservations l2)" using 1(8) find_reservation_mem [OF 1(5)] by (metis imageI)
    from replace_ids [OF this]
    show "rs_id ` set (lg_reservations l') \<inter> rs_id ` set (lg_reservations l) \<subseteq> rs_id ` set (lg_reservations l2)"
      unfolding 1(16) by auto
  qed
qed

lemma cancel_booking_descends:
  assumes "cancel_booking sha256 env ident actor op l = Inr (l', r', logs, ch)"
  shows "descends drifts (lg_reservations l) (lg_reservations l')"
  using assms
proof (rule cancel_booking_Inr, goal_cases)
  case (1 op')
  let ?l = "fst (expire_old_reservations l (oe_now env))"
  from 1(2) show ?case
  proof (elim disjE conjE cancel_owned_Inr)
    assume "l' = ?l"
    then show ?case by (simp add: expire_old_descends)
  next
    fix r assume r: "find_reservation ?l ident = Some r"
        "r' = cancelled_reservation (oe_now env) (owner_cancellation env actor op' (cancel_signature sha256 ident)) r"
      and l': "l' = ?l\<lparr>lg_reservations := replace_reservation ident r' (lg_reservations ?l)\<rparr>"
    have "descends drifts (lg_reservations ?l) (lg_reservations l')"
      unfolding l' by simp (rule replace_descends [OF r(1)], auto simp: r(2) intro: cancel_drifts)
    from descends_drifts_trans [OF expire_old_descends this] show ?case by (simp add: expire_old_ids)
  qed
qed

lemma write_step_descends:
  assumes "write_step sha256 (l, T) (l', T')"
  shows "descends drifts (lg_reservations l) (lg_reservations l')" and "T \<le> T'"
  using assms
  by (auto elim!: write_step.cases
      intro: add_booking_descends edit_booking_descends admin_cancel_descends cancel_booking_descends descends_refl
      simp: clocked_def)


section \<open>What the holder of a claim does to its job\<close>

definition attends :: "string \<Rightarrow> string \<Rightarrow> (string \<Rightarrow> string \<Rightarrow> bool) \<Rightarrow> reservation \<Rightarrow> reservation \<Rightarrow> bool" where
  "attends ident token P r r' \<longleftrightarrow>
     r' = r \<or> rs_id r = ident \<and> (\<exists>j j'. rs_job r = Some j \<and> rs_job r' = Some j' \<and> same_command j j'
       \<and> jb_claim_token j = Some token \<and> jb_claim_token j' = Some token \<and> P (jb_status j) (jb_status j'))"

definition revives :: "string \<Rightarrow> reservation \<Rightarrow> reservation \<Rightarrow> bool" where
  "revives ident r r' \<longleftrightarrow>
     r' = r \<or> rs_id r = ident \<and> (\<exists>j j'. rs_job r = Some j \<and> rs_job r' = Some j' \<and> same_command j j'
       \<and> jb_claim_token j' = None \<and> jb_status j \<in> {JOB_FAILED, JOB_INTERRUPTED, JOB_UNCERTAIN}
       \<and> jb_status j' = JOB_PENDING)"

lemma owned_job_Some:
  "owned_job l actor ident = Some (r, j) \<longleftrightarrow>
     find_reservation l ident = Some r \<and> rs_uid r = actor_uid actor \<and> rs_job r = Some j"
  by (auto simp: owned_job_def split: option.splits)

lemma replace_all2:
  assumes "find (\<lambda>r. rs_id r = ident) rs = Some r" and "R r r'" and "\<And>x. R x x"
  shows "list_all2 R rs (replace_reservation ident r' rs)"
  using assms by (induction rs) (auto intro: list_all2_refl split: if_splits)

lemma put_reservation_all2:
  assumes "find_reservation l ident = Some r" and "same_booking now r r'" and "R r r'" and "\<And>x. R x x"
  shows "list_all2 (\<lambda>r r'. same_booking now r r' \<and> R r r') (lg_reservations l)
    (lg_reservations (put_reservation ident r' l))"
  using replace_all2 [of ident "lg_reservations l" r "\<lambda>r r'. same_booking now r r' \<and> R r r'" r'] assms
  by (simp add: put_reservation_def find_reservation_def)

lemma put_reservation_policy [simp]: "lg_policy (put_reservation ident r l) = lg_policy l"
  by (simp add: put_reservation_def)

lemma put_reservation_mem:
  "find_reservation l ident = Some r \<Longrightarrow> r' \<in> set (lg_reservations (put_reservation ident r' l))"
proof -
  have "find (\<lambda>r. rs_id r = ident) rs = Some r \<Longrightarrow> r' \<in> set (replace_reservation ident r' rs)" for rs
    by (induction rs) (auto split: if_splits)
  then show "find_reservation l ident = Some r \<Longrightarrow> r' \<in> set (lg_reservations (put_reservation ident r' l))"
    by (simp add: put_reservation_def find_reservation_def)
qed

text \<open>The shape the four writes of a claim's holder share.\<close>

definition holder_write ::
  "actor \<Rightarrow> string \<Rightarrow> string \<Rightarrow> datetime \<Rightarrow> (string \<Rightarrow> string \<Rightarrow> bool) \<Rightarrow> ledger \<Rightarrow> ledger \<Rightarrow> bool" where
  "holder_write actor ident token now P l l' \<longleftrightarrow>
     (\<exists>r j j'. owned_job l actor ident = Some (r, j) \<and> jb_claim_token j = Some token
        \<and> same_command j j' \<and> jb_claim_token j' = Some token \<and> P (jb_status j) (jb_status j')
        \<and> l' = put_reservation ident (put_job j' (r\<lparr>rs_updated_at := Some (whole_second now)\<rparr>)) l)"

lemma holder_writeI:
  "owned_job l actor ident = Some (r, j) \<Longrightarrow> jb_claim_token j = Some token \<Longrightarrow> same_command j j' \<Longrightarrow>
   jb_claim_token j' = Some token \<Longrightarrow> P (jb_status j) (jb_status j') \<Longrightarrow>
   holder_write actor ident token now P l (put_reservation ident (put_job j' (r\<lparr>rs_updated_at := Some (whole_second now)\<rparr>)) l)"
  by (auto simp: holder_write_def)

lemma mark_running_write:
  assumes "mark_running actor ident token pid now ts l = (l', ok, logs, ch)"
  shows "\<not> ok \<and> l' = l \<or> ok \<and> holder_write actor ident token now (\<lambda>s s'. s = JOB_CLAIMED \<and> s' = JOB_RUNNING) l l'"
  using assms by (auto simp: mark_running_def Let_def running_state_def same_command_def
      split: option.splits if_splits intro!: holder_writeI)

lemma mark_launch_failure_write:
  assumes "mark_launch_failure actor ident token message now ts l = (l', u, logs, ch)"
  shows "l' = l \<or> holder_write actor ident token now (\<lambda>s s'. s' = JOB_FAILED) l l'"
  using assms by (auto simp: mark_launch_failure_def Let_def finish_job_def same_command_def
      split: option.splits if_splits intro!: holder_writeI)

lemma mark_aborted_claim_write:
  assumes "mark_aborted_claim actor ident token now ts l = (l', u, logs, ch)"
  shows "l' = l \<or> holder_write actor ident token now
    (\<lambda>s s'. s = JOB_CLAIMED \<and> s' \<in> {JOB_CANCELLED, JOB_MISSED, JOB_UNCERTAIN}) l l'"
  using assms by (auto simp: mark_aborted_claim_def Let_def split_def aborted_status_def finish_job_def same_command_def
      split: option.splits if_splits intro!: holder_writeI)

lemma complete_job_write:
  assumes "complete_job actor running status exit_code w n now ts l = (l', u, logs, ch)"
  shows "l' = l \<or> holder_write actor (rj_reservation_id running) (rj_claim_token running) now (\<lambda>s s'. s' = status) l l'"
  using assms by (auto simp: complete_job_def Let_def completed_job_def same_command_def
      split: option.splits if_splits intro!: holder_writeI)

lemma holder_write_keeps:
  assumes "holder_write actor ident token now P l l'"
  shows "list_all2 (\<lambda>r r'. same_booking now r r' \<and> attends ident token P r r') (lg_reservations l) (lg_reservations l')"
    and "lg_policy l' = lg_policy l"
    and "\<exists>r \<in> set (lg_reservations l). \<exists>r' \<in> set (lg_reservations l'). \<exists>j j'. rs_id r = ident \<and> rs_job r = Some j
      \<and> rs_id r' = ident \<and> rs_job r' = Some j' \<and> jb_claim_token j = Some token \<and> P (jb_status j) (jb_status j')"
proof -
  from assms obtain r j j' where o: "owned_job l actor ident = Some (r, j)" "jb_claim_token j = Some token"
      "same_command j j'" "jb_claim_token j' = Some token" "P (jb_status j) (jb_status j')"
    and l': "l' = put_reservation ident (put_job j' (r\<lparr>rs_updated_at := Some (whole_second now)\<rparr>)) l"
    by (auto simp: holder_write_def)
  from o(1) have r: "find_reservation l ident = Some r" "rs_job r = Some j" by (simp_all add: owned_job_Some)
  note mem = find_reservation_mem [OF r(1)]
  show "lg_policy l' = lg_policy l" by (simp add: l')
  show "list_all2 (\<lambda>r r'. same_booking now r r' \<and> attends ident token P r r') (lg_reservations l) (lg_reservations l')"
    unfolding l' by (rule put_reservation_all2 [OF r(1)])
      (use o(2-) r(2) mem in \<open>auto simp: attends_def same_booking_def put_job_def\<close>)
  show "\<exists>r \<in> set (lg_reservations l). \<exists>r' \<in> set (lg_reservations l'). \<exists>j j'. rs_id r = ident \<and> rs_job r = Some j
      \<and> rs_id r' = ident \<and> rs_job r' = Some j' \<and> jb_claim_token j = Some token \<and> P (jb_status j) (jb_status j')"
  proof (intro bexI exI conjI)
    show "rs_id r = ident" "rs_job r = Some j" "r \<in> set (lg_reservations l)" using mem r(2) by auto
    show "put_job j' (r\<lparr>rs_updated_at := Some (whole_second now)\<rparr>) \<in> set (lg_reservations l')"
      unfolding l' by (rule put_reservation_mem [OF r(1)])
  qed (use o mem in \<open>simp_all add: put_job_def\<close>)
qed

lemma retry_job_Inr:
  assumes "retry_job actor ident accept now ts l = Inr (l', r', logs, ch)"
  obtains r j where "find_reservation l ident = Some r" "rs_uid r = actor_uid actor" "rs_job r = Some j"
    "jb_status j \<in> {JOB_FAILED, JOB_INTERRUPTED, JOB_UNCERTAIN}" "jb_status j = JOB_UNCERTAIN \<longrightarrow> accept"
    "rs_status r = STATUS_ACTIVE" "now < rs_end_at r"
    "r' = put_job (retried_job j) (r\<lparr>rs_updated_at := Some (whole_second now)\<rparr>)" "l' = put_reservation ident r' l"
  using assms by (auto simp: retry_job_def raise_if_def Let_def not_le split: option.splits if_splits)

lemma retry_job_keeps:
  assumes "retry_job actor ident accept now ts l = Inr (l', r', logs, ch)"
  shows "list_all2 (\<lambda>r r'. same_booking now r r' \<and> revives ident r r') (lg_reservations l) (lg_reservations l')"
    and "lg_policy l' = lg_policy l"
proof -
  from assms obtain r j where r: "find_reservation l ident = Some r" "rs_job r = Some j"
      "jb_status j \<in> {JOB_FAILED, JOB_INTERRUPTED, JOB_UNCERTAIN}"
    and r': "r' = put_job (retried_job j) (r\<lparr>rs_updated_at := Some (whole_second now)\<rparr>)" "l' = put_reservation ident r' l"
    by (rule retry_job_Inr)
  note mem = find_reservation_mem [OF r(1)]
  show "lg_policy l' = lg_policy l" by (simp add: r')
  show "list_all2 (\<lambda>r r'. same_booking now r r' \<and> revives ident r r') (lg_reservations l) (lg_reservations l')"
    unfolding r'(2) by (rule put_reservation_all2 [OF r(1)])
      (use r(2-) r'(1) mem in \<open>auto simp: revives_def same_booking_def put_job_def retried_job_def same_command_def\<close>)
qed


section \<open>The system\<close>

datatype stage = Starting | Spawned | Refused | Supervised "string option"

record system =
  sy_ledger :: ledger
  sy_clock :: datetime
  sy_held :: "string \<rightharpoonup> string \<times> stage"
  sy_tokens :: "string set"
  sy_idents :: "string set"
  sy_launches :: "string \<Rightarrow> nat"
  sy_retries :: "string \<Rightarrow> nat"

definition token_of :: "reservation \<Rightarrow> string" where
  "token_of r = (case rs_job r of None \<Rightarrow> [] | Some j \<Rightarrow> or_empty (jb_claim_token j))"

definition ids_of :: "ledger \<Rightarrow> string set" where
  "ids_of l = rs_id ` set (lg_reservations l)"

text \<open>
  Steps. A claim is held while its worker launches it: before the process exists (\<open>Starting\<close>), once
  it exists (\<open>Spawned\<close>), when the running mark was refused (\<open>Refused\<close>) and while the process is
  supervised, with the reason it was asked to stop for. A crash forgets any part of what is held.
  Fresh identifiers and tokens are those never seen before; a reading of the clock falls between
  the readings of the states around it. (A worker reads the clock once per pass, outside the lock, and reuses the reading;
  runs in which such a reading is older than another client's write are not among the steps.)
\<close>

inductive system_step :: "(string \<Rightarrow> string) \<Rightarrow> system \<Rightarrow> system \<Rightarrow> bool" for sha256 where
  client: "write_step sha256 (sy_ledger s, sy_clock s) (l', T') \<Longrightarrow>
    (ids_of l' - ids_of (sy_ledger s)) \<inter> sy_idents s = {} \<Longrightarrow>
    system_step sha256 s (s\<lparr>sy_ledger := l', sy_clock := T', sy_idents := sy_idents s \<union> ids_of l'\<rparr>)"
| claim: "claim_due_jobs actor cc (sy_ledger s) = (l', claimed, logs, ch) \<Longrightarrow>
    sy_clock s \<le> cc_now cc \<Longrightarrow> cc_now cc \<le> T' \<Longrightarrow> distinct (map token_of claimed) \<Longrightarrow>
    set (map token_of claimed) \<inter> sy_tokens s = {} \<Longrightarrow>
    system_step sha256 s (s\<lparr>sy_ledger := l', sy_clock := T',
      sy_held := sy_held s ++ map_of (map (\<lambda>r. (token_of r, (rs_id r, Starting))) claimed),
      sy_tokens := sy_tokens s \<union> set (map token_of claimed)\<rparr>)"
| guard: "record_launch_guard_decisions actor decisions now clock (sy_ledger s) = (l', notices, logs, ch) \<Longrightarrow>
    sy_clock s \<le> now \<Longrightarrow> now \<le> T' \<Longrightarrow> system_step sha256 s (s\<lparr>sy_ledger := l', sy_clock := T'\<rparr>)"
| launch: "sy_held s t = Some (ident, Starting) \<Longrightarrow> claim_is_launchable (sy_ledger s) actor ident t now \<Longrightarrow>
    system_step sha256 s (s\<lparr>sy_held := (sy_held s)(t \<mapsto> (ident, Spawned)),
      sy_launches := (sy_launches s)(ident := Suc (sy_launches s ident))\<rparr>)"
| fail: "sy_held s t = Some (ident, st) \<Longrightarrow> st = Starting \<or> st = Spawned \<Longrightarrow>
    mark_launch_failure actor ident t message now ts (sy_ledger s) = (l', u, logs, ch) \<Longrightarrow>
    sy_clock s \<le> now \<Longrightarrow> now \<le> T' \<Longrightarrow>
    system_step sha256 s (s\<lparr>sy_ledger := l', sy_clock := T', sy_held := (sy_held s)(t := None)\<rparr>)"
| abort: "sy_held s t = Some (ident, st) \<Longrightarrow> st = Starting \<or> st = Refused \<Longrightarrow>
    mark_aborted_claim actor ident t now ts (sy_ledger s) = (l', u, logs, ch) \<Longrightarrow>
    sy_clock s \<le> now \<Longrightarrow> now \<le> T' \<Longrightarrow>
    system_step sha256 s (s\<lparr>sy_ledger := l', sy_clock := T', sy_held := (sy_held s)(t := None)\<rparr>)"
| run: "sy_held s t = Some (ident, Spawned) \<Longrightarrow>
    mark_running actor ident t pid now ts (sy_ledger s) = (l', True, logs, ch) \<Longrightarrow>
    sy_clock s \<le> now \<Longrightarrow> now \<le> T' \<Longrightarrow>
    system_step sha256 s (s\<lparr>sy_ledger := l', sy_clock := T', sy_held := (sy_held s)(t \<mapsto> (ident, Supervised None))\<rparr>)"
| refuse: "sy_held s t = Some (ident, Spawned) \<Longrightarrow>
    mark_running actor ident t pid now ts (sy_ledger s) = (l', False, logs, ch) \<Longrightarrow>
    system_step sha256 s (s\<lparr>sy_ledger := l', sy_held := (sy_held s)(t \<mapsto> (ident, Refused))\<rparr>)"
| stop: "sy_held s t = Some (ident, Supervised reason) \<Longrightarrow>
    system_step sha256 s (s\<lparr>sy_held := (sy_held s)(t \<mapsto> (ident, Supervised (Some reason')))\<rparr>)"
| complete: "sy_held s t = Some (ident, Supervised reason) \<Longrightarrow>
    rj_reservation_id running = ident \<Longrightarrow> rj_claim_token running = t \<Longrightarrow> rj_termination_reason running = reason \<Longrightarrow>
    complete_job actor running (completion_status exit_code reason) exit_code w n now ts (sy_ledger s) = (l', u, logs, ch) \<Longrightarrow>
    sy_clock s \<le> now \<Longrightarrow> now \<le> T' \<Longrightarrow>
    system_step sha256 s (s\<lparr>sy_ledger := l', sy_clock := T', sy_held := (sy_held s)(t := None)\<rparr>)"
| crash: "held' \<subseteq>\<^sub>m sy_held s \<Longrightarrow> system_step sha256 s (s\<lparr>sy_held := held'\<rparr>)"
| recover: "record_recovery_decisions actor now worker decisions clock (sy_ledger s) = (l', ids, logs, ch) \<Longrightarrow>
    sy_clock s \<le> now \<Longrightarrow> now \<le> T' \<Longrightarrow> system_step sha256 s (s\<lparr>sy_ledger := l', sy_clock := T'\<rparr>)"
| finish: "finish_recovery actor now worker wanted remaining signalled clock (sy_ledger s) = (l', ids', logs, ch) \<Longrightarrow>
    sy_clock s \<le> now \<Longrightarrow> now \<le> T' \<Longrightarrow> system_step sha256 s (s\<lparr>sy_ledger := l', sy_clock := T'\<rparr>)"
| retry: "retry_job actor ident accept now ts (sy_ledger s) = Inr (l', r, logs, ch) \<Longrightarrow>
    sy_clock s \<le> now \<Longrightarrow> now \<le> T' \<Longrightarrow>
    system_step sha256 s (s\<lparr>sy_ledger := l', sy_clock := T',
      sy_retries := (sy_retries s)(ident := Suc (sy_retries s ident))\<rparr>)"

text \<open>A ledger on which nobody has worked yet.\<close>

definition idle_system :: "ledger \<Rightarrow> datetime \<Rightarrow> system" where
  "idle_system l T = \<lparr>sy_ledger = l, sy_clock = T, sy_held = Map.empty, sy_tokens = {}, sy_idents = ids_of l,
     sy_launches = (\<lambda>_. 0), sy_retries = (\<lambda>_. 0)\<rparr>"

end
