(* ===== verification/Job_Safety.thy ===== *)
theory Job_Safety
  imports Job_System
begin

text \<open>
  The invariant of the system of clients, workers and recoveries: the promise of the ledger, the
  stage of every held claim against the status of its job, and the budget of launches.
\<close>

section \<open>The invariant\<close>

definition entry :: "reservation list \<Rightarrow> string \<Rightarrow> job \<Rightarrow> bool" where
  "entry rs ident j \<longleftrightarrow> (\<exists>r \<in> set rs. rs_id r = ident \<and> rs_job r = Some j)"

definition awaits :: "reservation list \<Rightarrow> string \<Rightarrow> bool" where
  "awaits rs ident \<longleftrightarrow> (\<exists>j. entry rs ident j \<and> jb_status j = JOB_PENDING)"

fun stage_allows :: "stage \<Rightarrow> string \<Rightarrow> bool" where
  "stage_allows (Supervised reason) status = (status \<in> {JOB_RUNNING, JOB_UNCERTAIN})"
| "stage_allows _ status = (status \<in> {JOB_CLAIMED, JOB_MISSED, JOB_UNCERTAIN})"

definition held_ok :: "(string \<rightharpoonup> string \<times> stage) \<Rightarrow> reservation list \<Rightarrow> bool" where
  "held_ok held rs \<longleftrightarrow> (\<forall>t ident st j. held t = Some (ident, st) \<longrightarrow> entry rs ident j \<longrightarrow>
     jb_claim_token j = Some t \<longrightarrow> stage_allows st (jb_status j))"

definition permits :: "(string \<rightharpoonup> string \<times> stage) \<Rightarrow> string \<Rightarrow> string set" where
  "permits held ident = {t. held t = Some (ident, Starting)}"

definition names_ok :: "system \<Rightarrow> bool" where
  "names_ok s \<longleftrightarrow> ids_of (sy_ledger s) \<subseteq> sy_idents s \<and> dom (sy_held s) \<subseteq> sy_tokens s \<and> finite (sy_tokens s)
     \<and> (\<forall>t ident st. sy_held s t = Some (ident, st) \<longrightarrow> ident \<in> sy_idents s)
     \<and> (\<forall>ident. ident \<notin> sy_idents s \<longrightarrow> sy_launches s ident = 0)"

definition budget_ok :: "system \<Rightarrow> bool" where
  "budget_ok s \<longleftrightarrow> (\<forall>ident. sy_launches s ident + card (permits (sy_held s) ident)
     + (if awaits (lg_reservations (sy_ledger s)) ident then 1 else 0) \<le> sy_retries s ident + 1)"

definition system_ok :: "system \<Rightarrow> bool" where
  "system_ok s \<longleftrightarrow> promise (sy_ledger s, sy_clock s) \<and> names_ok s
     \<and> held_ok (sy_held s) (lg_reservations (sy_ledger s)) \<and> budget_ok s"

lemma idle_system_ok: "promise (l, T) \<Longrightarrow> system_ok (idle_system l T)"
  by (simp add: system_ok_def idle_system_def names_ok_def held_ok_def budget_ok_def permits_def)


lemma system_okD:
  assumes "system_ok s"
  shows "names_ok s" "held_ok (sy_held s) (lg_reservations (sy_ledger s))" "budget_ok s"
    "promise (sy_ledger s, sy_clock s)"
  using assms by (simp_all add: system_ok_def)

lemma held_okI:
  "(\<And>t i st j. held t = Some (i, st) \<Longrightarrow> entry rs i j \<Longrightarrow> jb_claim_token j = Some t \<Longrightarrow> stage_allows st (jb_status j)) \<Longrightarrow>
   held_ok held rs"
  unfolding held_ok_def by blast

lemma held_okD:
  "held_ok held rs \<Longrightarrow> held t = Some (i, st) \<Longrightarrow> entry rs i j \<Longrightarrow> jb_claim_token j = Some t \<Longrightarrow> stage_allows st (jb_status j)"
  unfolding held_ok_def by blast

lemma names_okD:
  assumes "names_ok s"
  shows "ids_of (sy_ledger s) \<subseteq> sy_idents s" "finite (dom (sy_held s))" "finite (sy_tokens s)"
    "sy_held s t = Some (i, st) \<Longrightarrow> t \<in> sy_tokens s" "sy_held s t = Some (i, st) \<Longrightarrow> i \<in> sy_idents s"
    "i \<notin> sy_idents s \<Longrightarrow> sy_launches s i = 0"
  using assms unfolding names_ok_def by (blast intro: finite_subset)+


section \<open>The promise\<close>

lemma promise_same_bookings:
  assumes "promise (l, T)" and "list_all2 (same_booking now) (lg_reservations l) (lg_reservations l')"
    and "lg_policy l' = lg_policy l" and "T \<le> now" and "now \<le> T'"
  shows "promise (l', T')"
proof (cases "\<exists>c. bound_to c (l, T)")
  case True
  then obtain c where c: "bound_to c (l, T)" by blast
  have "ledger_wf c (lg_reservations l')" using c same_bookings_wf [OF assms(2)] by (simp add: bound_to_def)
  moreover have "ledger_safe (max_shared_users c) T' (lg_reservations l')"
    using c same_bookings_safe [OF assms(2,5) ledger_safe_mono [OF _ order_trans [OF assms(4,5)]]]
    by (simp add: bound_to_def)
  ultimately have "bound_to c (l', T')" using c assms(3) by (simp add: bound_to_def validate_ledger_policy_def)
  then show ?thesis by (auto simp: promise_def)
next
  case False
  with assms show ?thesis by (auto simp: promise_def)
qed

lemma promise_distinct: "promise (l, T) \<Longrightarrow> distinct (map rs_id (lg_reservations l))"
  by (auto simp: promise_def bound_to_def ledger_wf_def)

lemma promise_later: "promise (l, T) \<Longrightarrow> T \<le> T' \<Longrightarrow> promise (l, T')"
  by (auto simp: promise_def bound_to_def intro: ledger_safe_mono)


section \<open>Held claims\<close>

lemma stage_allows_unattended: "stage_allows st s \<Longrightarrow> unattended s s' \<Longrightarrow> stage_allows st s'"
  by (erule unattended.cases; cases st) (simp_all add: job_status_defs)

lemma entry_descends:
  assumes "descends R rs rs'" and "entry rs' ident j'"
  obtains (old) r r' where "r \<in> set rs" "rs_id r = ident" "R r r'" "rs_id r' = ident" "rs_job r' = Some j'"
  | (new) "ident \<notin> rs_id ` set rs" "jb_status j' = JOB_PENDING" "jb_claim_token j' = None"
proof -
  from assms(2) obtain r' where r': "r' \<in> set rs'" "rs_id r' = ident" "rs_job r' = Some j'" by (auto simp: entry_def)
  from assms(1) r'(1) show thesis
    by (cases rule: descendsE) (use r' in \<open>auto intro: old new simp: fresh_job_def\<close>)
qed

lemma entry_drifts:
  assumes "descends drifts rs rs'" and "entry rs' ident j'"
  obtains (old) j where "entry rs ident j" "jb_claim_token j' = jb_claim_token j" "unattended (jb_status j) (jb_status j')"
  | (new) "ident \<notin> rs_id ` set rs" "jb_status j' = JOB_PENDING" "jb_claim_token j' = None"
  using assms
proof (cases rule: entry_descends)
  case (old r r')
  then obtain j where "rs_job r = Some j" "jb_claim_token j' = jb_claim_token j" "unattended (jb_status j) (jb_status j')"
    by (auto simp: drifts_def option_rel_Some2)
  with old that(1) [of j] show thesis by (auto simp: entry_def)
qed (rule that(2))

lemma held_ok_drifts:
  assumes "descends drifts rs rs'" and "held_ok held rs"
  shows "held_ok held rs'"
proof (rule held_okI)
  fix t ident st j' assume held: "held t = Some (ident, st)" and e: "entry rs' ident j'" and tok: "jb_claim_token j' = Some t"
  from assms(1) e show "stage_allows st (jb_status j')"
  proof (cases rule: entry_drifts)
    case (old j)
    with held_okD [OF assms(2) held] tok have "stage_allows st (jb_status j)" by simp
    with old(3) show ?thesis by (rule stage_allows_unattended [rotated])
  qed (use tok in simp)
qed

lemma awaits_drifts:
  assumes "descends drifts rs rs'" and "awaits rs' ident"
  shows "awaits rs ident \<or> ident \<notin> rs_id ` set rs"
proof -
  from assms(2) obtain j' where e: "entry rs' ident j'" "jb_status j' = JOB_PENDING" by (auto simp: awaits_def)
  from assms(1) e(1) show ?thesis
  proof (cases rule: entry_drifts)
    case (old j)
    with e(2) have "jb_status j = JOB_PENDING" by (auto elim!: unattended.cases simp: job_status_defs)
    with old(1) show ?thesis by (auto simp: awaits_def)
  qed simp
qed

text \<open>A write of the holder of \<open>t\<close> leaves the other claims alone.\<close>

lemma held_ok_attends:
  assumes "descends (attends ident t P) rs rs'" and "held_ok held rs"
  shows "held_ok (held(t := None)) rs'"
proof (rule held_okI)
  fix u i st j' assume held: "(held(t := None)) u = Some (i, st)" and e: "entry rs' i j'" and tok: "jb_claim_token j' = Some u"
  from assms(1) e show "stage_allows st (jb_status j')"
  proof (cases rule: entry_descends)
    case (old r r')
    with held tok have "r' = r" by (auto simp: attends_def split: if_splits)
    with old have "entry rs i j'" by (auto simp: entry_def)
    with held tok held_okD [OF assms(2), of u i st j'] show ?thesis by (simp split: if_splits)
  qed (use tok in simp)
qed

lemma awaits_attends:
  assumes "descends (attends ident t P) rs rs'" and "awaits rs' i" and "rs_id ` set rs' \<subseteq> rs_id ` set rs"
    and "\<And>s s'. P s s' \<Longrightarrow> s' \<noteq> JOB_PENDING"
  shows "awaits rs i"
proof -
  from assms(2) obtain j' where e: "entry rs' i j'" "jb_status j' = JOB_PENDING" by (auto simp: awaits_def)
  from assms(1) e(1) show ?thesis
  proof (cases rule: entry_descends)
    case (old r r')
    with assms(4) e(2) have "r' = r" by (auto simp: attends_def)
    with old e(2) show ?thesis by (auto simp: awaits_def entry_def)
  next
    case new
    with e(1) assms(3) show ?thesis by (auto simp: entry_def)
  qed
qed

lemma permits_drop: "finite (dom held) \<Longrightarrow> card (permits (held(t := None)) ident) \<le> card (permits held ident)"
  by (rule card_mono [OF finite_subset [of _ "dom held"]]) (auto simp: permits_def split: if_splits)


section \<open>Steps that leave claims to themselves\<close>

lemma budget_okI:
  assumes "budget_ok s"
    and "\<And>i. sy_launches s' i + card (permits (sy_held s') i) + (if awaits (lg_reservations (sy_ledger s')) i then 1 else 0)
        + sy_retries s i \<le> sy_retries s' i + (sy_launches s i + card (permits (sy_held s) i)
        + (if awaits (lg_reservations (sy_ledger s)) i then 1 else 0)) \<or>
      sy_launches s' i + card (permits (sy_held s') i) + (if awaits (lg_reservations (sy_ledger s')) i then 1 else 0)
        \<le> sy_retries s' i + 1"
  shows "budget_ok s'"
  unfolding budget_ok_def
proof
  fix i
  from assms(1) have "sy_launches s i + card (permits (sy_held s) i)
      + (if awaits (lg_reservations (sy_ledger s)) i then 1 else 0) \<le> sy_retries s i + 1"
    by (simp add: budget_ok_def)
  with assms(2) [of i] show "sy_launches s' i + card (permits (sy_held s') i)
      + (if awaits (lg_reservations (sy_ledger s')) i then 1 else 0) \<le> sy_retries s' i + 1"
    by linarith
qed

lemma unseen_permits: "names_ok s \<Longrightarrow> i \<notin> sy_idents s \<Longrightarrow> permits (sy_held s) i = {} \<and> sy_launches s i = 0"
  by (auto simp: permits_def dest: names_okD(5,6))

lemma drift_step:
  assumes "system_ok s" and "promise (l', T')"
    and d: "descends drifts (lg_reservations (sy_ledger s)) (lg_reservations l')"
    and new: "(ids_of l' - ids_of (sy_ledger s)) \<inter> sy_idents s = {}"
  shows "system_ok (s\<lparr>sy_ledger := l', sy_clock := T', sy_idents := sy_idents s \<union> ids_of l'\<rparr>)"
proof -
  let ?s = "s\<lparr>sy_ledger := l', sy_clock := T', sy_idents := sy_idents s \<union> ids_of l'\<rparr>"
  from assms(1) have ok: "names_ok s" "held_ok (sy_held s) (lg_reservations (sy_ledger s))" "budget_ok s"
    by (simp_all add: system_ok_def)
  have "names_ok ?s" using ok(1) by (auto simp: names_ok_def)
  moreover have "budget_ok ?s"
  proof (rule budget_okI [OF ok(3)])
    fix i
    consider "awaits (lg_reservations l') i \<longrightarrow> awaits (lg_reservations (sy_ledger s)) i"
      | "awaits (lg_reservations l') i" "i \<notin> ids_of (sy_ledger s)"
      using awaits_drifts [OF d] by (auto simp: ids_of_def)
    then show "sy_launches ?s i + card (permits (sy_held ?s) i) + (if awaits (lg_reservations (sy_ledger ?s)) i then 1 else 0)
        + sy_retries s i \<le> sy_retries ?s i + (sy_launches s i + card (permits (sy_held s) i)
        + (if awaits (lg_reservations (sy_ledger s)) i then 1 else 0)) \<or>
      sy_launches ?s i + card (permits (sy_held ?s) i) + (if awaits (lg_reservations (sy_ledger ?s)) i then 1 else 0)
        \<le> sy_retries ?s i + 1"
    proof cases
      case 2
      then have "i \<in> ids_of l'" by (auto simp: awaits_def entry_def ids_of_def)
      with 2 new have "i \<notin> sy_idents s" by blast
      with unseen_permits [OF ok(1)] show ?thesis by simp
    qed simp
  qed
  ultimately show ?thesis using assms(2) held_ok_drifts [OF d ok(2)] by (simp add: system_ok_def)
qed

text \<open>A write that moves no booking and lets jobs drift.\<close>

lemma same_bookings_ids_of:
  "list_all2 (same_booking now) (lg_reservations l) (lg_reservations l') \<Longrightarrow> ids_of l' = ids_of l"
  by (drule same_bookings_ids) (metis ids_of_def list.set_map)

lemma all2_same_booking: "list_all2 (\<lambda>r r'. same_booking now r r' \<and> R r r') rs rs' \<Longrightarrow> list_all2 (same_booking now) rs rs'"
  by (erule list_all2_mono) simp

lemma quiet_step:
  assumes "system_ok s"
    and keeps: "list_all2 (\<lambda>r r'. same_booking now r r' \<and> drifts r r') (lg_reservations (sy_ledger s)) (lg_reservations l')"
    and "lg_policy l' = lg_policy (sy_ledger s)" and "sy_clock s \<le> now" and "now \<le> T'"
  shows "system_ok (s\<lparr>sy_ledger := l', sy_clock := T'\<rparr>)"
proof -
  note same = all2_same_booking [OF keeps]
  have p: "promise (l', T')"
    using promise_same_bookings [OF _ same assms(3-5)] assms(1) by (simp add: system_ok_def)
  have ids: "ids_of l' = ids_of (sy_ledger s)" using same by (rule same_bookings_ids_of)
  then have "sy_idents s \<union> ids_of l' = sy_idents s" using assms(1) by (auto simp: system_ok_def names_ok_def)
  with drift_step [OF assms(1) p descends_all2 [OF keeps]] ids show ?thesis by simp
qed


section \<open>Steps of a claim's holder\<close>

lemma holder_step:
  assumes ok: "system_ok s" and w: "l' = sy_ledger s \<or> holder_write actor ident t now P (sy_ledger s) l'"
    and clock: "sy_clock s \<le> now" "now \<le> T'" and P: "\<And>a b. P a b \<Longrightarrow> b \<noteq> JOB_PENDING"
  shows "system_ok (s\<lparr>sy_ledger := l', sy_clock := T', sy_held := (sy_held s)(t := None)\<rparr>)" (is "system_ok ?s")
proof -
  from ok have ok': "names_ok s" "held_ok (sy_held s) (lg_reservations (sy_ledger s))" "budget_ok s"
    "promise (sy_ledger s, sy_clock s)" by (simp_all add: system_ok_def)
  have keeps: "list_all2 (\<lambda>r r'. same_booking now r r' \<and> attends ident t P r r')
      (lg_reservations (sy_ledger s)) (lg_reservations l')" "lg_policy l' = lg_policy (sy_ledger s)"
    using w holder_write_keeps(1,2) by (auto simp: attends_def intro: list_all2_refl)
  note same = all2_same_booking [OF keeps(1)] and d = descends_all2 [OF keeps(1)]
  have ids: "ids_of l' = ids_of (sy_ledger s)" using same by (rule same_bookings_ids_of)
  have "promise (l', T')" by (rule promise_same_bookings [OF ok'(4) same keeps(2) clock])
  moreover have "names_ok ?s" using ok'(1) ids by (auto simp: names_ok_def split: if_splits)
  moreover have "budget_ok ?s"
  proof (rule budget_okI [OF ok'(3)])
    fix i
    have "awaits (lg_reservations l') i \<longrightarrow> awaits (lg_reservations (sy_ledger s)) i"
      using awaits_attends [OF d _ _ P] ids by (auto simp: ids_of_def)
    with permits_drop [OF names_okD(2) [OF ok'(1)], of t i]
    show "sy_launches ?s i + card (permits (sy_held ?s) i) + (if awaits (lg_reservations (sy_ledger ?s)) i then 1 else 0)
        + sy_retries s i \<le> sy_retries ?s i + (sy_launches s i + card (permits (sy_held s) i)
        + (if awaits (lg_reservations (sy_ledger s)) i then 1 else 0)) \<or>
      sy_launches ?s i + card (permits (sy_held ?s) i) + (if awaits (lg_reservations (sy_ledger ?s)) i then 1 else 0)
        \<le> sy_retries ?s i + 1"
      by simp
  qed
  ultimately show ?thesis using held_ok_attends [OF d ok'(2)] by (simp add: system_ok_def)
qed

text \<open>Holding a claim again, past its launch.\<close>

lemma hold_again:
  assumes ok: "system_ok (s\<lparr>sy_held := (sy_held s)(t := None)\<rparr>)" and "t \<in> sy_tokens s" and "ident \<in> sy_idents s"
    and "st \<noteq> Starting"
    and "\<And>j. entry (lg_reservations (sy_ledger s)) ident j \<Longrightarrow> jb_claim_token j = Some t \<Longrightarrow> stage_allows st (jb_status j)"
  shows "system_ok (s\<lparr>sy_held := (sy_held s)(t \<mapsto> (ident, st))\<rparr>)"
proof -
  have "permits ((sy_held s)(t \<mapsto> (ident, st))) i = permits ((sy_held s)(t := None)) i" for i
    using assms(4) by (auto simp: permits_def)
  with ok have "budget_ok (s\<lparr>sy_held := (sy_held s)(t \<mapsto> (ident, st))\<rparr>)" by (simp add: system_ok_def budget_ok_def)
  moreover have "names_ok (s\<lparr>sy_held := (sy_held s)(t \<mapsto> (ident, st))\<rparr>)"
    using ok assms(2,3) by (auto simp: system_ok_def names_ok_def split: if_splits)
  moreover have "held_ok ((sy_held s)(t \<mapsto> (ident, st))) (lg_reservations (sy_ledger s))"
  proof (rule held_okI)
    fix u i st' j assume h: "((sy_held s)(t \<mapsto> (ident, st))) u = Some (i, st')"
      and e: "entry (lg_reservations (sy_ledger s)) i j" "jb_claim_token j = Some u"
    have ok': "held_ok ((sy_held s)(t := None)) (lg_reservations (sy_ledger s))" using ok by (simp add: system_ok_def)
    show "stage_allows st' (jb_status j)"
    proof (cases "u = t")
      case True
      with h e assms(5) show ?thesis by simp
    next
      case False
      with h held_okD [OF ok' _ e] show ?thesis by simp
    qed
  qed
  ultimately show ?thesis using ok by (simp add: system_ok_def)
qed

lemma held_names: "system_ok s \<Longrightarrow> sy_held s t = Some (ident, st) \<Longrightarrow> t \<in> sy_tokens s \<and> ident \<in> sy_idents s"
  by (auto simp: system_ok_def dest: names_okD(4,5))

lemma forget_step:
  assumes "system_ok s" and "held' \<subseteq>\<^sub>m sy_held s"
  shows "system_ok (s\<lparr>sy_held := held'\<rparr>)"
proof -
  from assms(2) have h: "held' t = Some x \<Longrightarrow> sy_held s t = Some x" for t x by (auto simp: map_le_def dom_def)
  from assms(1) have ok: "names_ok s" "held_ok (sy_held s) (lg_reservations (sy_ledger s))" "budget_ok s"
    by (simp_all add: system_ok_def)
  have "card (permits held' i) \<le> card (permits (sy_held s) i)" for i
    by (rule card_mono [OF finite_subset [OF _ names_okD(2) [OF ok(1)]]]) (auto simp: permits_def h)
  then have "budget_ok (s\<lparr>sy_held := held'\<rparr>)" by (intro budget_okI [OF ok(3)]) simp
  moreover have "names_ok (s\<lparr>sy_held := held'\<rparr>)" using ok(1) h unfolding names_ok_def by (simp, blast)
  moreover have "held_ok held' (lg_reservations (sy_ledger s))" by (rule held_okI) (rule held_okD [OF ok(2) h])
  ultimately show ?thesis using assms(1) by (simp add: system_ok_def)
qed

lemma release_step: "system_ok s \<Longrightarrow> system_ok (s\<lparr>sy_held := (sy_held s)(t := None)\<rparr>)"
  by (rule forget_step) (auto simp: map_le_def)


section \<open>Claiming\<close>

lemma claimed_from_shape:
  "r \<in> set (claimed_from cc n rs) \<Longrightarrow>
   \<exists>j. rs_job r = Some j \<and> jb_status j = JOB_CLAIMED \<and> jb_claim_token j = Some (token_of r)"
  by (induction rs arbitrary: n) (auto simp: claimed_reservation_def claimed_job_def put_job_def token_of_def or_empty_def)

lemma claimed_ids:
  assumes "claim_due_jobs actor cc l = (l', claimed, logs, ch)" and "distinct (map rs_id (lg_reservations l))"
  shows "distinct (map rs_id claimed)" and "r \<in> set claimed \<Longrightarrow> awaits (lg_reservations l) (rs_id r)"
proof -
  let ?due = "take (nat (cc_limit cc)) (filter (claimable actor cc) (by_start (lg_reservations l)))"
  have ids: "map rs_id claimed = map rs_id ?due"
    unfolding claim_due_jobs_claimed [OF assms(1)] by simp
  have "mset (map rs_id (by_start (lg_reservations l))) = mset (map rs_id (lg_reservations l))"
    by (simp add: by_start_def)
  with assms(2) have "distinct (map rs_id (by_start (lg_reservations l)))"
    using mset_eq_imp_distinct_iff by metis
  then show "distinct (map rs_id claimed)"
    unfolding ids by (simp add: take_map [symmetric] distinct_map_filter)
  assume "r \<in> set claimed"
  then have "rs_id r \<in> set (map rs_id ?due)" using ids by (metis imageI list.set_map)
  then obtain q where "q \<in> set (lg_reservations l)" "claimable actor cc q" "rs_id q = rs_id r"
    by (auto simp: by_start_def dest!: in_set_takeD)
  then show "awaits (lg_reservations l) (rs_id r)"
    by (auto simp: awaits_def entry_def claimable_def split: option.splits)
qed

lemma claim_entry:
  assumes "claim_due_jobs actor cc l = (l', claimed, logs, ch)" and "entry (lg_reservations l') i j'"
  obtains (old) j where "entry (lg_reservations l) i j" "jb_claim_token j' = jb_claim_token j" "unattended (jb_status j) (jb_status j')"
  | (taken) r where "r \<in> set claimed" "rs_id r = i" "rs_job r = Some j'"
proof -
  from descends_all2 [OF claim_due_jobs_keeps(1) [OF assms(1)]] assms(2) show thesis
  proof (cases rule: entry_descends)
    case (old r r')
    from old(3) show thesis
    proof
      assume "drifts r r'"
      with old obtain j where "rs_job r = Some j" "jb_claim_token j' = jb_claim_token j" "unattended (jb_status j) (jb_status j')"
        by (auto simp: drifts_def option_rel_Some2)
      with old that(1) [of j] show thesis by (auto simp: entry_def)
    qed (use old that(2) in blast)
  next
    case new
    note same = all2_same_booking [OF claim_due_jobs_keeps(1) [OF assms(1)]]
    from assms(2) have "i \<in> ids_of l'" by (auto simp: entry_def ids_of_def)
    with new same_bookings_ids_of [OF same] show thesis by (simp add: ids_of_def)
  qed
qed

text \<open>What a claim adds to the launch permits of a reservation.\<close>

lemma permits_claimed:
  assumes "distinct (map rs_id claimed)" and "finite (dom held)"
  shows "card (permits (held ++ map_of (map (\<lambda>r. (token_of r, (rs_id r, Starting))) claimed)) i)
    \<le> card (permits held i) + (if i \<in> rs_id ` set claimed then 1 else 0)"
proof -
  let ?new = "token_of ` {r \<in> set claimed. rs_id r = i}"
  have "permits (held ++ map_of (map (\<lambda>r. (token_of r, (rs_id r, Starting))) claimed)) i \<subseteq> permits held i \<union> ?new"
    by (auto simp: permits_def map_add_Some_iff dest!: map_of_SomeD)
  moreover have fin: "finite (permits held i)"
    by (rule finite_subset [OF _ assms(2)]) (auto simp: permits_def)
  ultimately have "card (permits (held ++ map_of (map (\<lambda>r. (token_of r, (rs_id r, Starting))) claimed)) i)
      \<le> card (permits held i \<union> ?new)" by (intro card_mono) auto
  also have "\<dots> \<le> card (permits held i) + card ?new" by (rule card_Un_le)
  also have "card ?new \<le> (if i \<in> rs_id ` set claimed then 1 else 0)"
  proof (cases "i \<in> rs_id ` set claimed")
    case True
    then obtain r where "r \<in> set claimed" "rs_id r = i" by auto
    with assms(1) have "{r \<in> set claimed. rs_id r = i} \<subseteq> {r}" by (auto simp: distinct_map inj_on_def)
    then have "?new \<subseteq> {token_of r}" by blast
    from card_mono [OF _ this] True show ?thesis by simp
  next
    case False
    then have "?new = {}" by auto
    with False show ?thesis by simp
  qed
  finally show ?thesis by simp
qed

lemma claim_step:
  assumes ok: "system_ok s" and c: "claim_due_jobs actor cc (sy_ledger s) = (l', claimed, logs, ch)"
    and clock: "sy_clock s \<le> cc_now cc" "cc_now cc \<le> T'"
    and tokens: "distinct (map token_of claimed)" "set (map token_of claimed) \<inter> sy_tokens s = {}"
  shows "system_ok (s\<lparr>sy_ledger := l', sy_clock := T',
      sy_held := sy_held s ++ map_of (map (\<lambda>r. (token_of r, (rs_id r, Starting))) claimed),
      sy_tokens := sy_tokens s \<union> set (map token_of claimed)\<rparr>)" (is "system_ok ?s")
proof -
  let ?new = "map_of (map (\<lambda>r. (token_of r, (rs_id r, Starting))) claimed)"
  let ?rs = "lg_reservations (sy_ledger s)" and ?rs' = "lg_reservations l'"
  from ok have ok': "names_ok s" "held_ok (sy_held s) ?rs" "budget_ok s" "promise (sy_ledger s, sy_clock s)"
    by (simp_all add: system_ok_def)
  note keeps = claim_due_jobs_keeps [OF c] and placed = claim_due_jobs_placed [OF c]
  note same = all2_same_booking [OF keeps(1)]
  have ids: "ids_of l' = ids_of (sy_ledger s)" using same by (rule same_bookings_ids_of)
  have dist: "distinct (map rs_id ?rs)" "distinct (map rs_id ?rs')"
    using promise_distinct [OF ok'(4)] same_bookings_ids [OF same] by simp_all
  note cl = claimed_ids [OF c dist(1)]
  have only: "j' = j" if "r \<in> set claimed" "rs_job r = Some j" "entry ?rs' (rs_id r) j'" for r j j'
    using that placed dist(2) by (auto simp: entry_def distinct_map dest: inj_onD)
  have shape: "\<exists>j. rs_job r = Some j \<and> jb_status j = JOB_CLAIMED \<and> jb_claim_token j = Some (token_of r)"
    if "r \<in> set claimed" for r
    using that claimed_from_shape unfolding claim_due_jobs_claimed [OF c] by blast
  have "promise (l', T')" by (rule promise_same_bookings [OF ok'(4) same keeps(2) clock])
  moreover have "names_ok ?s"
  proof -
    have "rs_id ` set claimed \<subseteq> sy_idents s" using placed ids names_okD(1) [OF ok'(1)] by (auto simp: ids_of_def)
    moreover have "dom ?new = set (map token_of claimed)" by (auto simp: dom_map_of_conv_image_fst image_image)
    moreover have "i \<in> sy_idents s" if "sy_held ?s t = Some (i, st)" for t i st
      using that calculation(1) names_okD(5) [OF ok'(1)]
      by (auto simp: map_add_Some_iff image_subset_iff dest!: map_of_SomeD)
    moreover have "dom (sy_held s) \<subseteq> sy_tokens s" "finite (sy_tokens s)" "ids_of (sy_ledger s) \<subseteq> sy_idents s"
      using ok'(1) by (simp_all add: names_ok_def)
    ultimately show ?thesis unfolding names_ok_def using names_okD(6) [OF ok'(1)] ids by auto
  qed
  moreover have "held_ok (sy_held ?s) ?rs'"
  proof (rule held_okI)
    fix u i st j' assume h: "sy_held ?s u = Some (i, st)" and e: "entry ?rs' i j'" and tok: "jb_claim_token j' = Some u"
    show "stage_allows st (jb_status j')"
    proof (cases "u \<in> set (map token_of claimed)")
      case True
      then have "?new u \<noteq> None" by (auto simp: map_of_eq_None_iff image_image)
      with h have "?new u = Some (i, st)" by (auto simp: map_add_def split: option.splits)
      then obtain r where r: "r \<in> set claimed" "rs_id r = i" "st = Starting" by (auto dest!: map_of_SomeD)
      from shape [OF r(1)] obtain j where "rs_job r = Some j" "jb_status j = JOB_CLAIMED" by blast
      with only [OF r(1)] e r show ?thesis by auto
    next
      case False
      then have "?new u = None" by (auto simp: map_of_eq_None_iff image_image)
      with h have held: "sy_held s u = Some (i, st)" by (simp add: map_add_def)
      from c e show ?thesis
      proof (cases rule: claim_entry)
        case (old j)
        with held_okD [OF ok'(2) held] tok have "stage_allows st (jb_status j)" by simp
        with old(3) show ?thesis by (rule stage_allows_unattended [rotated])
      next
        case (taken r)
        with shape [OF taken(1)] tok False show ?thesis by auto
      qed
    qed
  qed
  moreover have "budget_ok ?s"
  proof (rule budget_okI [OF ok'(3)])
    fix i
    have aw: "awaits ?rs' i \<longrightarrow> awaits ?rs i \<and> i \<notin> rs_id ` set claimed"
    proof
      assume "awaits ?rs' i"
      then obtain j' where e: "entry ?rs' i j'" "jb_status j' = JOB_PENDING" by (auto simp: awaits_def)
      have not: "i \<noteq> rs_id r" if "r \<in> set claimed" for r
        using that shape [OF that] only [OF that] e by (fastforce simp: job_status_defs)
      from c e(1) show "awaits ?rs i \<and> i \<notin> rs_id ` set claimed"
        by (cases rule: claim_entry)
          (use e(2) not in \<open>auto simp: awaits_def job_status_defs elim!: unattended.cases\<close>)
    qed
    moreover have "awaits ?rs i" if "i \<in> rs_id ` set claimed" using that cl(2) by auto
    moreover note permits_claimed [OF cl(1) names_okD(2) [OF ok'(1)], of i]
    ultimately show "sy_launches ?s i + card (permits (sy_held ?s) i) + (if awaits (lg_reservations (sy_ledger ?s)) i then 1 else 0)
        + sy_retries s i \<le> sy_retries ?s i + (sy_launches s i + card (permits (sy_held s) i)
        + (if awaits (lg_reservations (sy_ledger s)) i then 1 else 0)) \<or>
      sy_launches ?s i + card (permits (sy_held ?s) i) + (if awaits (lg_reservations (sy_ledger ?s)) i then 1 else 0)
        \<le> sy_retries ?s i + 1"
      by (cases "i \<in> rs_id ` set claimed") auto
  qed
  ultimately show ?thesis by (simp add: system_ok_def)
qed


section \<open>Launch and retry\<close>

lemma launch_step:
  assumes ok: "system_ok s" and held: "sy_held s t = Some (ident, Starting)"
  shows "system_ok (s\<lparr>sy_held := (sy_held s)(t \<mapsto> (ident, Spawned)),
      sy_launches := (sy_launches s)(ident := Suc (sy_launches s ident))\<rparr>)" (is "system_ok ?s")
proof -
  from ok have ok': "names_ok s" "held_ok (sy_held s) (lg_reservations (sy_ledger s))" "budget_ok s"
    by (simp_all add: system_ok_def)
  have "held_ok (sy_held ?s) (lg_reservations (sy_ledger s))"
  proof (rule held_okI)
    fix u i st j assume h: "sy_held ?s u = Some (i, st)"
      and e: "entry (lg_reservations (sy_ledger s)) i j" "jb_claim_token j = Some u"
    show "stage_allows st (jb_status j)"
      using h held_okD [OF ok'(2) _ e] held by (cases "u = t") (auto split: if_splits)
  qed
  moreover have "names_ok ?s"
    using ok'(1) held_names [OF ok held] unfolding names_ok_def by (auto simp: dom_def)
  moreover have "budget_ok ?s"
  proof (rule budget_okI [OF ok'(3)])
    fix i
    have "permits (sy_held ?s) i = permits (sy_held s) i - {t}" using held by (auto simp: permits_def)
    moreover have "finite (permits (sy_held s) i)"
      by (rule finite_subset [OF _ names_okD(2) [OF ok'(1)]]) (auto simp: permits_def)
    moreover have "t \<in> permits (sy_held s) i \<longleftrightarrow> i = ident" using held by (auto simp: permits_def)
    ultimately have "sy_launches ?s i + card (permits (sy_held ?s) i) = sy_launches s i + card (permits (sy_held s) i)"
      using card_Suc_Diff1 [of "permits (sy_held s) i" t] by (cases "i = ident") simp_all
    then show "sy_launches ?s i + card (permits (sy_held ?s) i) + (if awaits (lg_reservations (sy_ledger ?s)) i then 1 else 0)
        + sy_retries s i \<le> sy_retries ?s i + (sy_launches s i + card (permits (sy_held s) i)
        + (if awaits (lg_reservations (sy_ledger s)) i then 1 else 0)) \<or>
      sy_launches ?s i + card (permits (sy_held ?s) i) + (if awaits (lg_reservations (sy_ledger ?s)) i then 1 else 0)
        \<le> sy_retries ?s i + 1"
      by simp
  qed
  ultimately show ?thesis using ok by (simp add: system_ok_def)
qed

lemma retry_step:
  assumes ok: "system_ok s" and r: "retry_job actor ident accept now ts (sy_ledger s) = Inr (l', r', logs, ch)"
    and clock: "sy_clock s \<le> now" "now \<le> T'"
  shows "system_ok (s\<lparr>sy_ledger := l', sy_clock := T',
      sy_retries := (sy_retries s)(ident := Suc (sy_retries s ident))\<rparr>)" (is "system_ok ?s")
proof -
  let ?rs = "lg_reservations (sy_ledger s)" and ?rs' = "lg_reservations l'"
  from ok have ok': "names_ok s" "held_ok (sy_held s) ?rs" "budget_ok s" "promise (sy_ledger s, sy_clock s)"
    by (simp_all add: system_ok_def)
  note keeps = retry_job_keeps [OF r] and same = all2_same_booking [OF retry_job_keeps(1) [OF r]]
  have ids: "ids_of l' = ids_of (sy_ledger s)" using same by (rule same_bookings_ids_of)
  have entries: "entry ?rs i j \<or> i = ident \<and> jb_claim_token j = None" if "entry ?rs' i j" for i j
    using descends_all2 [OF keeps(1)] that
  proof (cases rule: entry_descends)
    case (old q q')
    then show ?thesis by (auto simp: revives_def entry_def)
  next
    case new
    with that ids show ?thesis by (auto simp: entry_def ids_of_def)
  qed
  have "promise (l', T')" by (rule promise_same_bookings [OF ok'(4) same keeps(2) clock])
  moreover have "names_ok ?s" using ok'(1) ids by (simp add: names_ok_def)
  moreover have "held_ok (sy_held s) ?rs'"
    by (rule held_okI) (use entries held_okD [OF ok'(2)] in fastforce)
  moreover have "budget_ok ?s"
    by (rule budget_okI [OF ok'(3)]) (use entries in \<open>fastforce simp: awaits_def\<close>)
  ultimately show ?thesis by (simp add: system_ok_def)
qed


section \<open>Every step\<close>

lemma completion_not_pending: "completion_status exit_code reason \<noteq> JOB_PENDING"
  by (simp add: completion_status_def job_status_defs)

lemma run_step:
  assumes ok: "system_ok s" and held: "sy_held s t = Some (ident, Spawned)"
    and r: "mark_running actor ident t pid now ts (sy_ledger s) = (l', True, logs, ch)"
    and clock: "sy_clock s \<le> now" "now \<le> T'"
  shows "system_ok (s\<lparr>sy_ledger := l', sy_clock := T', sy_held := (sy_held s)(t \<mapsto> (ident, Supervised None))\<rparr>)"
proof -
  let ?P = "\<lambda>a b. a = JOB_CLAIMED \<and> b = JOB_RUNNING"
  from mark_running_write [OF r] have w: "holder_write actor ident t now ?P (sy_ledger s) l'" by simp
  let ?s = "s\<lparr>sy_ledger := l', sy_clock := T'\<rparr>"
  have ok1: "system_ok (?s\<lparr>sy_held := (sy_held ?s)(t := None)\<rparr>)"
    using holder_step [OF ok disjI2 [OF w] clock] by (simp add: job_status_defs)
  have dist: "distinct (map rs_id (lg_reservations l'))"
    using ok1 promise_distinct by (auto simp: system_ok_def)
  from holder_write_keeps(3) [OF w] obtain r' j' where "r' \<in> set (lg_reservations l')" "rs_id r' = ident"
    "rs_job r' = Some j'" "jb_status j' = JOB_RUNNING" by blast
  with dist have "jb_status j = JOB_RUNNING" if "entry (lg_reservations l') ident j" for j
    using that unfolding entry_def distinct_map by (metis inj_onD option.inject)
  with hold_again [OF ok1, of ident "Supervised None"] held_names [OF ok held] show ?thesis by simp
qed

lemma system_step_ok:
  assumes "system_ok s" and "system_step sha256 s s'"
  shows "system_ok s'"
  using assms(2,1)
proof (induction rule: system_step.induct)
  case (client s l' T')
  have "promise (l', T')" using client(1,3) write_step_promise by (auto simp: system_ok_def)
  from drift_step [OF client(3) this write_step_descends(1) [OF client(1)] client(2)] show ?case .
next
  case (claim actor cc s l' claimed logs ch T')
  then show ?case by (rule_tac claim_step)
next
  case (guard actor decisions now clock s l' notices logs ch T')
  note keeps = guarding.run_sweep_keeps [OF guard(1) [unfolded record_launch_guard_decisions_def] refl]
  from quiet_step [OF guard(4) keeps(1,3) guard(2,3)] show ?case .
next
  case (launch s t ident actor now)
  from launch_step [OF launch(3,1)] show ?case .
next
  case (fail s t ident st actor message now ts l' u logs ch T')
  from holder_step [OF fail(6) mark_launch_failure_write [OF fail(3)] fail(4,5)] show ?case by (simp add: job_status_defs)
next
  case (abort s t ident st actor now ts l' u logs ch T')
  from holder_step [OF abort(6) mark_aborted_claim_write [OF abort(3)] abort(4,5)] show ?case
    by (auto simp: job_status_defs)
next
  case (run s t ident actor pid now ts l' logs ch T')
  from run_step [OF run(5,1-4)] show ?case .
next
  case (refuse s t ident actor pid now ts l' logs ch)
  from mark_running_write [OF refuse(2)] have l': "l' = sy_ledger s" by simp
  note ok = release_step [OF refuse(3), of t]
  have "stage_allows Refused (jb_status j)"
    if "entry (lg_reservations (sy_ledger s)) ident j" "jb_claim_token j = Some t" for j
    using held_okD [OF system_okD(2) [OF refuse(3)] refuse(1) that] by simp
  then have "system_ok (s\<lparr>sy_held := (sy_held s)(t \<mapsto> (ident, Refused))\<rparr>)"
    by (intro hold_again [OF ok]) (simp_all add: held_names [OF refuse(3,1)])
  then show ?case by (cases s) (simp add: l')
next
  case (stop s t ident reason reason')
  note ok = release_step [OF stop(2), of t]
  have "stage_allows (Supervised (Some reason')) (jb_status j)"
    if "entry (lg_reservations (sy_ledger s)) ident j" "jb_claim_token j = Some t" for j
    using held_okD [OF system_okD(2) [OF stop(2)] stop(1) that] by simp
  then show ?case by (intro hold_again [OF ok]) (simp_all add: held_names [OF stop(2,1)])
next
  case (complete s t ident reason running actor exit_code w n now ts l' u logs ch T')
  from holder_step [OF complete(8) complete_job_write [OF complete(5)] complete(6,7)] completion_not_pending
  show ?case by (simp add: complete(3))
next
  case (crash held' s)
  from forget_step [OF crash(2,1)] show ?case .
next
  case (recover actor now worker decisions clock s l' ids logs ch T')
  note keeps = recovering.run_sweep_keeps [OF recover(1) [unfolded record_recovery_decisions_def] refl]
  from quiet_step [OF recover(4) keeps(1,3) recover(2,3)] show ?case .
next
  case (finish actor now worker wanted remaining signalled clock s l' ids' logs ch T')
  note keeps = finishing.run_sweep_keeps [OF finish(1) [unfolded finish_recovery_def] refl]
  from quiet_step [OF finish(4) keeps(1,3) finish(2,3)] show ?case .
next
  case (retry actor ident accept now ts s l' r logs ch T')
  from retry_step [OF retry(4,1-3)] show ?case .
qed

interpretation system_run: preserved "system_step sha256" system_ok for sha256
  by unfold_locales (rule system_step_ok)

end
