(* ===== verification/Job_Refinement.thy ===== *)
theory Job_Refinement
  imports Job_Safety
begin

text \<open>
  The contract of one job, as an automaton over its status, the number of times its command was
  started and the number of times it was retried, and the proof that the system of clients,
  workers and recoveries implements it: the locale \<open>simulation\<close> turns a step-by-step simulation
  under an invariant into one of whole runs.
\<close>

locale simulation = preserved step inv
  for step :: "'s \<Rightarrow> 's \<Rightarrow> bool" and inv :: "'s \<Rightarrow> bool" +
  fixes abs :: "'s \<Rightarrow> 'a" and spec :: "'a \<Rightarrow> 'a \<Rightarrow> bool"
  assumes simulates: "inv s \<Longrightarrow> step s s' \<Longrightarrow> spec (abs s) (abs s') \<or> abs s' = abs s"
begin

lemma run_simulates:
  assumes "step\<^sup>*\<^sup>* s s'" and "inv s"
  shows "spec\<^sup>*\<^sup>* (abs s) (abs s')"
  using assms(1)
proof (induction rule: rtranclp_induct)
  case (step s' s'')
  from simulates [OF run_preserves [OF step(1) assms(2)] step(2)] step(3) show ?case
    by (auto intro: rtranclp.rtrancl_into_rtrancl)
qed simp

end

section \<open>The contract of a job\<close>

type_synonym job_view = "string option \<times> nat \<times> nat"

inductive job_contract :: "job_view \<Rightarrow> job_view \<Rightarrow> bool" where
  submit: "job_contract (None, 0, k) (Some JOB_PENDING, 0, k)"
| claim: "job_contract (Some JOB_PENDING, n, k) (Some JOB_CLAIMED, n, k)"
| launch: "n \<le> k \<Longrightarrow> job_contract (Some JOB_CLAIMED, n, k) (Some JOB_CLAIMED, Suc n, k)"
| start: "job_contract (Some JOB_CLAIMED, n, k) (Some JOB_RUNNING, n, k)"
| drift: "unattended s s' \<Longrightarrow> job_contract (Some s, n, k) (Some s', n, k)"
| failed: "s \<in> {JOB_CLAIMED, JOB_MISSED, JOB_UNCERTAIN} \<Longrightarrow> job_contract (Some s, n, k) (Some JOB_FAILED, n, k)"
| aborted: "job_contract (Some JOB_CLAIMED, n, k) (Some JOB_CANCELLED, n, k)"
| completed: "s \<in> {JOB_RUNNING, JOB_UNCERTAIN} \<Longrightarrow>
    s' \<in> {JOB_SUCCEEDED, JOB_FAILED, JOB_CANCELLED, JOB_TIMED_OUT, JOB_INTERRUPTED} \<Longrightarrow>
    job_contract (Some s, n, k) (Some s', n, k)"
| retry: "s \<in> {JOB_FAILED, JOB_INTERRUPTED, JOB_UNCERTAIN} \<Longrightarrow>
    job_contract (Some s, n, k) (Some JOB_PENDING, n, Suc k)"
| forget: "job_contract (s, n, k) (None, n, k)"

definition job_status_of :: "string \<Rightarrow> ledger \<Rightarrow> string option" where
  "job_status_of ident l = Option.bind (find_reservation l ident) (\<lambda>r. map_option jb_status (rs_job r))"

definition view :: "string \<Rightarrow> system \<Rightarrow> job_view" where
  "view ident s = (job_status_of ident (sy_ledger s), sy_launches s ident, sy_retries s ident)"


section \<open>The simulation\<close>

lemma find_all2:
  assumes "list_all2 (\<lambda>r r'. same_booking now r r' \<and> R r r') (lg_reservations l) (lg_reservations l')"
  shows "rel_option (\<lambda>r r'. same_booking now r r' \<and> R r r') (find_reservation l ident) (find_reservation l' ident)"
  using assms unfolding find_reservation_def
  by (induction rule: list_all2_induct) (auto simp: same_booking_fields)

lemma find_entry:
  "find_reservation l ident = Some r \<Longrightarrow> rs_job r = Some j \<Longrightarrow> entry (lg_reservations l) ident j"
  by (auto simp: entry_def dest: find_reservation_mem)

lemma find_replaced:
  "find (\<lambda>r. rs_id r = i) rs = Some q \<Longrightarrow> rs_id r = i \<Longrightarrow> find (\<lambda>r. rs_id r = i) (replace_reservation i r rs) = Some r"
  by (induction rs) (auto split: if_splits)

lemma find_distinct:
  assumes "distinct (map rs_id (lg_reservations l))" and "r \<in> set (lg_reservations l)"
  shows "find_reservation l (rs_id r) = Some r"
proof (cases "find_reservation l (rs_id r)")
  case None
  with assms(2) show ?thesis by (auto simp: find_reservation_def find_None_iff)
next
  case (Some q)
  with find_reservation_mem [OF Some] assms show ?thesis by (auto simp: distinct_map dest: inj_onD)
qed

text \<open>What a pointwise step does to the status of one job.\<close>

lemma status_all2:
  assumes "list_all2 (\<lambda>r r'. same_booking now r r' \<and> R r r') (lg_reservations l) (lg_reservations l')"
    and "\<And>r r' j j'. find_reservation l ident = Some r \<Longrightarrow> find_reservation l' ident = Some r' \<Longrightarrow> R r r' \<Longrightarrow>
      rs_job r = Some j \<Longrightarrow> rs_job r' = Some j' \<Longrightarrow> P (Some (jb_status j)) (Some (jb_status j'))"
    and "\<And>r r'. R r r' \<Longrightarrow> rs_job r = None \<longleftrightarrow> rs_job r' = None" and "P None None"
  shows "P (job_status_of ident l) (job_status_of ident l')"
proof (cases "find_reservation l ident")
  case None
  with find_all2 [OF assms(1), of ident] have "find_reservation l' ident = None" by simp
  with None assms(4) show ?thesis by (simp add: job_status_of_def)
next
  case (Some r)
  with find_all2 [OF assms(1), of ident] obtain r' where r': "find_reservation l' ident = Some r'" "R r r'"
    by (auto simp: option_rel_Some1)
  with assms(3) [OF r'(2)] Some assms(4) assms(2) [OF Some r'] show ?thesis
    by (cases "rs_job r"; cases "rs_job r'") (auto simp: job_status_of_def)
qed

lemma view_drifts:
  assumes "list_all2 (\<lambda>r r'. same_booking now r r' \<and> drifts r r') (lg_reservations l) (lg_reservations l')"
  shows "job_contract (job_status_of ident l, n, k) (job_status_of ident l', n, k)
    \<or> job_status_of ident l' = job_status_of ident l"
  by (rule status_all2 [OF assms, where P = "\<lambda>a b. job_contract (a, n, k) (b, n, k) \<or> b = a"])
    (auto simp: drifts_def option_rel_Some1 intro: job_contract.drift)

lemma view_attends:
  assumes "list_all2 (\<lambda>r r'. same_booking now r r' \<and> attends i t P r r') (lg_reservations l) (lg_reservations l')"
    and "\<And>j b. entry (lg_reservations l) i j \<Longrightarrow> jb_claim_token j = Some t \<Longrightarrow> P (jb_status j) b \<Longrightarrow>
      job_contract (Some (jb_status j), n, k) (Some b, n, k)"
  shows "job_contract (job_status_of ident l, n, k) (job_status_of ident l', n, k)
    \<or> job_status_of ident l' = job_status_of ident l"
proof (rule status_all2 [OF assms(1), where P = "\<lambda>a b. job_contract (a, n, k) (b, n, k) \<or> b = a"])
  fix r r' j j' assume r: "find_reservation l ident = Some r" "attends i t P r r'" "rs_job r = Some j" "rs_job r' = Some j'"
  note mem = find_reservation_mem [OF r(1)]
  from r(2) show "job_contract (Some (jb_status j), n, k) (Some (jb_status j'), n, k) \<or> Some (jb_status j') = Some (jb_status j)"
    unfolding attends_def
  proof (elim disjE conjE exE)
    fix ja jb assume a: "rs_id r = i" "rs_job r = Some ja" "rs_job r' = Some jb" "jb_claim_token ja = Some t"
      "P (jb_status ja) (jb_status jb)"
    with r mem have "entry (lg_reservations l) i j" by (auto simp: entry_def)
    from assms(2) [OF this] a r show ?thesis by simp
  qed (use r in simp)
qed (auto simp: attends_def)

lemma view_holder:
  assumes "l' = l \<or> holder_write actor i t now P l l'"
    and "\<And>j b. entry (lg_reservations l) i j \<Longrightarrow> jb_claim_token j = Some t \<Longrightarrow> P (jb_status j) b \<Longrightarrow>
      job_contract (Some (jb_status j), n, k) (Some b, n, k)"
  shows "job_contract (job_status_of ident l, n, k) (job_status_of ident l', n, k)
    \<or> job_status_of ident l' = job_status_of ident l"
  using assms(1) view_attends [OF holder_write_keeps(1) assms(2)] by blast

lemma view_client:
  assumes "descends drifts (lg_reservations l) (lg_reservations l')" and "distinct (map rs_id (lg_reservations l))"
    and "ident \<notin> ids_of l \<Longrightarrow> ident \<in> ids_of l' \<Longrightarrow> n = 0"
  shows "job_contract (job_status_of ident l, n, k) (job_status_of ident l', n, k)
    \<or> job_status_of ident l' = job_status_of ident l"
proof (cases "job_status_of ident l'")
  case None
  then show ?thesis by (auto intro: job_contract.forget)
next
  case (Some b)
  then obtain r' j' where r': "find_reservation l' ident = Some r'" "rs_job r' = Some j'" "b = jb_status j'"
    by (auto simp: job_status_of_def split: bind_splits)
  from assms(1) find_entry [OF r'(1,2)] show ?thesis
  proof (cases rule: entry_drifts)
    case (old j)
    then obtain r where r: "r \<in> set (lg_reservations l)" "rs_id r = ident" "rs_job r = Some j" by (auto simp: entry_def)
    have "find_reservation l ident = Some r" using find_distinct [OF assms(2) r(1)] r(2) by simp
    with r(3) Some r'(3) old(3) show ?thesis by (auto simp: job_status_of_def intro: job_contract.drift)
  next
    case new
    have "find_reservation l ident = None" using new(1) by (auto simp: find_reservation_def find_None_iff image_iff)
    moreover have "n = 0"
      using new(1) find_reservation_mem [OF r'(1)] by (intro assms(3)) (auto simp: ids_of_def)
    ultimately show ?thesis using Some r'(3) new(2) by (auto simp: job_status_of_def intro: job_contract.submit)
  qed
qed

lemma view_claim:
  assumes "claim_due_jobs actor cc l = (l', claimed, logs, ch)"
  shows "job_contract (job_status_of ident l, n, k) (job_status_of ident l', n, k)
    \<or> job_status_of ident l' = job_status_of ident l"
proof (rule status_all2 [OF claim_due_jobs_keeps(1) [OF assms], where P = "\<lambda>a b. job_contract (a, n, k) (b, n, k) \<or> b = a"])
  fix r r' j j' assume r: "drifts r r' \<or> takes actor cc r r' \<and> r' \<in> set claimed" "rs_job r = Some j" "rs_job r' = Some j'"
  from r(1) show "job_contract (Some (jb_status j), n, k) (Some (jb_status j'), n, k) \<or> Some (jb_status j') = Some (jb_status j)"
  proof (elim disjE conjE)
    assume "takes actor cc r r'"
    with r(2,3) have "jb_status j = JOB_PENDING" "jb_status j' = JOB_CLAIMED"
      by (auto simp: takes_def claimable_def claimed_reservation_def claimed_job_def put_job_def)
    then show ?thesis by (simp add: job_contract.claim)
  qed (use r in \<open>auto simp: drifts_def intro: job_contract.drift\<close>)
qed (auto simp: drifts_def takes_def claimable_def claimed_reservation_def put_job_def option_rel_Some1 split: option.splits)

lemma completion_ends:
  "completion_status e reason \<in> {JOB_SUCCEEDED, JOB_FAILED, JOB_CANCELLED, JOB_TIMED_OUT, JOB_INTERRUPTED}"
  by (simp add: completion_status_def)


lemma launchable_status:
  assumes "claim_is_launchable l actor ident t now"
  shows "job_status_of ident l = Some JOB_CLAIMED"
proof -
  from assms obtain r j where "owned_job l actor ident = Some (r, j)" "jb_status j = JOB_CLAIMED"
    by (auto simp: claim_is_launchable_def split: option.splits)
  then show ?thesis by (simp add: owned_job_Some job_status_of_def)
qed

lemma launch_in_budget:
  assumes "system_ok s" and "sy_held s t = Some (ident, Starting)"
  shows "sy_launches s ident \<le> sy_retries s ident"
proof -
  have "t \<in> permits (sy_held s) ident" using assms(2) by (simp add: permits_def)
  moreover have "finite (permits (sy_held s) ident)"
    by (rule finite_subset [OF _ names_okD(2) [OF system_okD(1) [OF assms(1)]]]) (auto simp: permits_def)
  ultimately have "card (permits (sy_held s) ident) \<noteq> 0" by auto
  moreover have "sy_launches s ident + card (permits (sy_held s) ident)
      + (if awaits (lg_reservations (sy_ledger s)) ident then 1 else 0) \<le> sy_retries s ident + 1"
    using system_okD(3) [OF assms(1)] by (simp add: budget_ok_def)
  ultimately show ?thesis by (simp split: if_splits)
qed

lemma view_retry:
  assumes "retry_job actor i accept now ts l = Inr (l', r, logs, ch)"
  shows "ident \<noteq> i \<Longrightarrow> job_status_of ident l' = job_status_of ident l"
    and "job_contract (job_status_of i l, n, k) (job_status_of i l', n, Suc k)"
proof -
  note keeps = retry_job_keeps(1) [OF assms]
  show "job_status_of ident l' = job_status_of ident l" if "ident \<noteq> i"
  proof -
    have "(\<lambda>a b. b = a) (job_status_of ident l) (job_status_of ident l')"
      by (rule status_all2 [OF keeps]) (use that in \<open>auto simp: revives_def dest: find_reservation_mem\<close>)
    then show ?thesis .
  qed
  from assms obtain q j where q: "find_reservation l i = Some q" "rs_job q = Some j"
    "jb_status j \<in> {JOB_FAILED, JOB_INTERRUPTED, JOB_UNCERTAIN}"
    "r = put_job (retried_job j) (q\<lparr>rs_updated_at := Some (whole_second now)\<rparr>)" "l' = put_reservation i r l"
    by (rule retry_job_Inr)
  have "rs_id r = i" using q(4) find_reservation_mem [OF q(1)] by (simp add: put_job_def)
  then have "find_reservation l' i = Some r"
    using q(1) unfolding q(5) put_reservation_def find_reservation_def by (simp add: find_replaced)
  with q show "job_contract (job_status_of i l, n, k) (job_status_of i l', n, Suc k)"
    by (auto simp: job_status_of_def put_job_def retried_job_def intro!: job_contract.retry)
qed

lemma system_simulates:
  assumes "system_ok s" and "system_step sha256 s s'"
  shows "job_contract (view ident s) (view ident s') \<or> view ident s' = view ident s"
  using assms(2,1)
proof (induction rule: system_step.induct)
  case (client s l' T')
  have "sy_launches s ident = 0" if "ident \<notin> ids_of (sy_ledger s)" "ident \<in> ids_of l'"
    using that client(2) names_okD(6) [OF system_okD(1) [OF client(3)]] by blast
  from view_client [OF write_step_descends(1) [OF client(1)] promise_distinct [OF system_okD(4) [OF client(3)]] this]
  show ?case by (simp add: view_def)
next
  case (claim actor cc s l' claimed logs ch T')
  from view_claim [OF claim(1)] show ?case by (simp add: view_def)
next
  case (guard actor decisions now clock s l' notices logs ch T')
  note keeps = guarding.run_sweep_keeps [OF guard(1) [unfolded record_launch_guard_decisions_def] refl]
  from view_drifts [OF keeps(1)] show ?case by (simp add: view_def)
next
  case (launch s t i actor now)
  from launchable_status [OF launch(2)] launch_in_budget [OF launch(3,1)] show ?case
    by (cases "ident = i") (simp_all add: view_def job_contract.launch)
next
  case (fail s t i st actor message now ts l' u logs ch T')
  have "stage_allows Starting (jb_status j)"
    if "entry (lg_reservations (sy_ledger s)) i j" "jb_claim_token j = Some t" for j
    using held_okD [OF system_okD(2) [OF fail(6)] fail(1) that] fail(2) by auto
  then show ?case
    using view_holder [OF mark_launch_failure_write [OF fail(3)], of "sy_launches s ident" "sy_retries s ident" ident]
    by (simp add: view_def job_contract.failed)
next
  case (abort s t i st actor now ts l' u logs ch T')
  show ?case
    using view_holder [OF mark_aborted_claim_write [OF abort(3)], of "sy_launches s ident" "sy_retries s ident" ident]
    by (auto simp: view_def intro: job_contract.aborted job_contract.drift)
next
  case (run s t i actor pid now ts l' logs ch T')
  from mark_running_write [OF run(2)] have w: "holder_write actor i t now (\<lambda>a b. a = JOB_CLAIMED \<and> b = JOB_RUNNING) (sy_ledger s) l'"
    by simp
  show ?case using view_holder [OF disjI2 [OF w], of "sy_launches s ident" "sy_retries s ident" ident]
    by (auto simp: view_def intro: job_contract.start)
next
  case (refuse s t i actor pid now ts l' logs ch)
  from mark_running_write [OF refuse(2)] show ?case by (simp add: view_def)
next
  case (complete s t i reason running actor exit_code w n now ts l' u logs ch T')
  have "stage_allows (Supervised reason) (jb_status j)"
    if "entry (lg_reservations (sy_ledger s)) i j" "jb_claim_token j = Some t" for j
    using held_okD [OF system_okD(2) [OF complete(8)] complete(1) that] .
  then show ?case
    using view_holder [OF complete_job_write [OF complete(5)], of "sy_launches s ident" "sy_retries s ident" ident]
      completion_ends [of exit_code reason]
    by (simp add: view_def complete(2,3) job_contract.completed)
next
  case (recover actor now worker decisions clock s l' ids logs ch T')
  note keeps = recovering.run_sweep_keeps [OF recover(1) [unfolded record_recovery_decisions_def] refl]
  from view_drifts [OF keeps(1)] show ?case by (simp add: view_def)
next
  case (finish actor now worker wanted remaining signalled clock s l' ids' logs ch T')
  note keeps = finishing.run_sweep_keeps [OF finish(1) [unfolded finish_recovery_def] refl]
  from view_drifts [OF keeps(1)] show ?case by (simp add: view_def)
next
  case (retry actor i accept now ts s l' r logs ch T')
  from view_retry [OF retry(1)] show ?case by (cases "ident = i") (simp_all add: view_def)
qed (simp_all add: view_def)

interpretation job_run: simulation "system_step sha256" system_ok "view ident" job_contract for sha256 ident
  by unfold_locales (rule system_simulates)

end
