(* ===== verification/Scenarios.thy ===== *)
theory Scenarios
  imports Booking Samples
begin

text \<open>
  A small history used by the witnesses: clock readings, requests and a ledger with one shared
  reservation, and the outcome of each write on it, computed by the kernel.
\<close>

definition sample_clock :: "datetime \<Rightarrow> search_clock" where
  "sample_clock t = \<lparr>sc_now = t, sc_place = (\<lambda>_. t), sc_avail = (\<lambda>_. t)\<rparr>"

definition sample_env :: "datetime \<Rightarrow> string \<Rightarrow> op_env" where
  "sample_env t fresh = \<lparr>oe_now = t, oe_search = sample_clock t, oe_reason = t, oe_hint = sample_clock t,
     oe_log = t, oe_uuid = fresh, oe_uuid2 = fresh @ ''-2''\<rparr>"

text \<open>One shared slot for an hour, queued, from instant \<open>t\<close>, under an operation identifier.\<close>

definition sample_request :: "datetime \<Rightarrow> booking_request" where
  "sample_request t = \<lparr>br_actor = sample_actor, br_count = 1, br_duration_seconds = 3600, br_start_at = t,
     br_mode = MODE_SHARED, br_preferred_gpus = None, br_gpu_order = None, br_gpu_scores = None,
     br_op_id = Some ''op-1'', br_allow_queue = True, br_job_spec_id = None, br_job_digest = None,
     br_job_summary = None, br_job_digest_aliases = None, br_expected_memory_mb = None,
     br_gpu_memory_capacity_mb = None, br_share_units = None, br_excluded_gpus = None\<rparr>"

text \<open>A new duration for a reservation.\<close>

definition sample_edit :: "string \<Rightarrow> int \<Rightarrow> edit_request" where
  "sample_edit ident n = \<lparr>er_actor = sample_actor, er_reservation_id = ident, er_op_id = Some ''op-2'',
     er_start_at = None, er_duration_seconds = Some n, er_mode = None, er_preferred_gpus = None,
     er_gpu_order = None, er_gpu_scores = None, er_count = None, er_allow_queue = False,
     er_expected_memory_mb = None, er_update_expected_memory = False, er_gpu_memory_capacity_mb = None,
     er_share_units = None, er_update_share_units = False, er_excluded_gpus = None\<rparr>"

text \<open>One shared reservation of GPU 0 over the first two hours after the epoch.\<close>

definition sample_history :: ledger where
  "sample_history = sample_ledger [sample_reservation ''r1'' MODE_SHARED [0] 0 (hours 2)]"

definition sample_admin :: actor where
  "sample_admin = \<lparr>actor_uid = 0, actor_username = ''root''\<rparr>"

definition plain_digest :: "string \<Rightarrow> string" where
  "plain_digest s = take 64 s"

definition bound_ledger :: "reservation list \<Rightarrow> ledger" where
  "bound_ledger rs = (sample_ledger rs)\<lparr>lg_policy := JObj (policy_for_config sample_config)\<rparr>"

definition sample_bound :: ledger where
  "sample_bound = bound_ledger (lg_reservations sample_history)"

definition sample_intent :: create_intent where
  "sample_intent = \<lparr>ci_job = None, ci_aliases = [], ci_op_id = Some ''op-1'', ci_memory = None, ci_units = 1, ci_capacities = Map.empty\<rparr>"

lemma scenario_intent: "create_intent_of sample_config (sample_request (hours 1)) = Inr sample_intent"
proof -
  have "check_request sample_config (sample_request (hours 1)) = Inr ()" by code_simp
  moreover have "normalize_operation_id (Some ''op-1'') = Inr (Some ''op-1'')" by code_simp
  moreover have "request_share_units MODE_SHARED None (max_shared_users sample_config) = Inr 1" by code_simp
  ultimately show ?thesis
    by (simp add: create_intent_of_def sample_request_def sample_intent_def normalize_job_metadata_def request_aliases_def
        normalize_job_digest_aliases_def normalize_expected_memory_def normalize_memory_capacities_def
        raise_if_def sample_config_def)
qed

lemma scenario_bind: "bind_ledger_policy sample_history sample_config = Inr (sample_bound, True)"
  by (simp add: bind_ledger_policy_def sample_history_def sample_ledger_def sample_bound_def bound_ledger_def)

lemma scenario_maintain: "maintain_ledger sample_bound (hours 1) (ledger_retention_days sample_config) = (sample_bound, False)"
  by code_simp

lemma scenario_settled:
  "normalize_start (hours 1) True (hours 1) (slot_minutes sample_config) = Inr (hours 1)"
  "normalize_excluded_gpus None sample_config = Inr []"
  "normalize_gpu_order None sample_config = Inr [0, 1]"
  "validate_gpu_scope sample_config 1 None [] = Inr ()"
  "booking_policy_conflict sample_config (hours 1) (hours 1 + seconds 3600) (hours 1) = None"
  "floor_to_slot (hours 1) (slot_minutes sample_config) = hours 1"
  by code_simp+


section \<open>The writes succeed\<close>

lemma sample_add_on:
  assumes l: "maintain_ledger (bound_ledger rs) (hours 1) (ledger_retention_days sample_config) = (bound_ledger rs, expired)"
    "find_applied (bound_ledger rs) (actor_uid sample_actor) ''op-1'' = Inr None"
    "find_duplicate (bound_ledger rs) (sample_request (hours 1)) sample_intent (hours 1) (hours 1 + seconds 3600) None = Inr None"
    "find_earliest_slot (bound_ledger rs) sample_config 1 (hours 1) (seconds 3600)
       \<lparr>dm_mode = MODE_SHARED, dm_expected_memory_mb = None, dm_capacities = Map.empty, dm_share_units = 1\<rparr>
       None True (Some [0, 1]) Map.empty (Some []) (sample_clock (hours 1)) = Inr (Some (hours 1, gpus))"
  shows "\<exists>l' res logs ch. add_booking plain_digest (sample_env (hours 1) ''r2'') sample_config
     (sample_request (hours 1)) (sample_ledger rs) = Inr (l', res, logs, ch) \<and> bres_created res
     \<and> lg_policy l' \<noteq> JNull \<and> rs_end_at (bres_reservation res) = hours 2"
proof -
  have req: "br_start_at (sample_request (hours 1)) = hours 1" "br_allow_queue (sample_request (hours 1))"
    "br_duration_seconds (sample_request (hours 1)) = 3600" "br_preferred_gpus (sample_request (hours 1)) = None"
    "br_excluded_gpus (sample_request (hours 1)) = None" "br_gpu_order (sample_request (hours 1)) = None"
    "br_gpu_scores (sample_request (hours 1)) = None" "br_count (sample_request (hours 1)) = 1"
    "br_actor (sample_request (hours 1)) = sample_actor" "br_mode (sample_request (hours 1)) = MODE_SHARED"
    by (simp_all add: sample_request_def)
  have env: "oe_now (sample_env (hours 1) ''r2'') = hours 1"
    "oe_search (sample_env (hours 1) ''r2'') = sample_clock (hours 1)"
    by (simp_all add: sample_env_def)
  have ci: "ci_op_id sample_intent = Some ''op-1''" "ci_memory sample_intent = None" "ci_units sample_intent = 1"
    "ci_capacities sample_intent = Map.empty" "ci_job sample_intent = None"
    by (simp_all add: sample_intent_def)
  have bind: "bind_ledger_policy (sample_ledger rs) sample_config = Inr (bound_ledger rs, True)"
    by (simp add: bind_ledger_policy_def sample_ledger_def bound_ledger_def)
  have policy: "lg_policy (bound_ledger rs) \<noteq> JNull" by (simp add: bound_ledger_def)
  have "whole_second (hours 1 + seconds 3600) = hours 2" by code_simp
  with policy have placed: "\<exists>l' res logs ch. place_booking (sample_env (hours 1) ''r2'') sample_config (sample_request (hours 1))
      sample_intent signature (bound_ledger rs) (hours 1) None [] [0, 1] Map.empty = Inr (l', res, logs, ch)
      \<and> bres_created res \<and> lg_policy l' \<noteq> JNull \<and> rs_end_at (bres_reservation res) = hours 2" for signature
    by (simp add: place_booking_def req env ci scenario_settled l(4) raise_if_def new_reservation_def Let_def ex_bool_eq)
  show ?thesis
    using placed
    by (simp add: add_booking_def scenario_intent add_booking_mutate_def bind env req l
        normalize_preferred_gpus_def scenario_settled normalize_gpu_scores_def settle_booking_def ci)
qed

lemma sample_add_created:
  "\<exists>l' res logs ch. add_booking plain_digest (sample_env (hours 1) ''r2'') sample_config
     (sample_request (hours 1)) sample_history = Inr (l', res, logs, ch) \<and> bres_created res
     \<and> lg_policy l' \<noteq> JNull \<and> rs_end_at (bres_reservation res) = hours 2"
  unfolding sample_history_def by (rule sample_add_on [where expired = False and gpus = "[1]"]) code_simp+

lemma sample_first_add:
  "\<exists>l' res logs ch. add_booking plain_digest (sample_env (hours 1) ''r2'') sample_config
     (sample_request (hours 1)) (sample_ledger []) = Inr (l', res, logs, ch) \<and> bres_created res
     \<and> lg_policy l' \<noteq> JNull \<and> rs_end_at (bres_reservation res) = hours 2"
  by (rule sample_add_on [where expired = False and gpus = "[0]"]) code_simp+

text \<open>The reservation has started; its owner extends it by an hour.\<close>

lemma sample_edit_started:
  "\<exists>l' res logs ch. edit_started_reservation (sample_env (hours 1) ''r2'') sample_config (sample_edit ''r1'' 10800)
     (Some ''op-2'') signature Map.empty sample_bound (sample_reservation ''r1'' MODE_SHARED [0] 0 (hours 2))
     = Inr (l', res, logs, ch) \<and> bres_created res \<and> rs_end_at (bres_reservation res) = hours 3"
proof -
  let ?r = "sample_reservation ''r1'' MODE_SHARED [0] 0 (hours 2)"
  have req: "er_actor (sample_edit ''r1'' 10800) = sample_actor" "\<not> immutable_changes (sample_edit ''r1'' 10800)"
    "er_duration_seconds (sample_edit ''r1'' 10800) = Some 10800"
    by (simp_all add: sample_edit_def immutable_changes_def)
  have env: "oe_now (sample_env (hours 1) ''r2'') = hours 1" by (simp add: sample_env_def)
  have r: "rs_start_at ?r = 0" "rs_end_at ?r = hours 2" "rs_edit_operations ?r = Absent"
    by (simp_all add: sample_reservation_def)
  have ext: "check_extension (sample_env (hours 1) ''r2'') sample_config (sample_edit ''r1'' 10800) Map.empty
      sample_bound ?r (seconds 10800) = Inr ()" by code_simp
  have times: "validate_duration_granularity 10800 (slot_minutes sample_config) = Inr ()"
    "ceil_to_slot (hours 1) (slot_minutes sample_config) = hours 1" "hours 1 < seconds 10800" "hours 2 < seconds 10800"
    "whole_second (seconds 10800) = hours 3"
    by code_simp+
  show ?thesis
    using times
    by (simp add: req env r edit_started_reservation_def ext commit_edit_def append_edit_history_def
        edit_history_def raise_if_def MAX_EDIT_OPERATIONS_PER_RESERVATION_def Let_def ex_bool_eq)
qed

lemma sample_edit_created:
  "\<exists>l' res logs ch. edit_booking plain_digest (sample_env (hours 1) ''r2'') sample_config
     (sample_edit ''r1'' 10800) sample_history = Inr (l', res, logs, ch) \<and> bres_created res
     \<and> rs_end_at (bres_reservation res) = hours 3"
proof -
  let ?r = "sample_reservation ''r1'' MODE_SHARED [0] 0 (hours 2)"
  have req: "er_op_id (sample_edit ''r1'' 10800) = Some ''op-2''" "er_actor (sample_edit ''r1'' 10800) = sample_actor"
    "er_reservation_id (sample_edit ''r1'' 10800) = ''r1''"
    by (simp_all add: sample_edit_def)
  have env: "oe_now (sample_env (hours 1) ''r2'') = hours 1" by (simp add: sample_env_def)
  have op: "normalize_operation_id (Some ''op-2'') = Inr (Some ''op-2'')"
    "find_applied sample_bound (actor_uid sample_actor) ''op-2'' = Inr None" by code_simp+
  have r: "find_reservation sample_bound ''r1'' = Some ?r"
    by (simp add: find_reservation_def sample_bound_def bound_ledger_def sample_history_def sample_ledger_def sample_reservation_def)
  have rf: "rs_status ?r = STATUS_ACTIVE" "rs_uid ?r = actor_uid sample_actor" "rs_start_at ?r \<le> hours 1"
    by (simp_all add: sample_reservation_def sample_actor_def hours_def seconds_def us_per_second_def)
  have d: "edit_demand sample_config (sample_edit ''r1'' 10800) ?r =
      Inr \<lparr>dm_mode = MODE_SHARED, dm_expected_memory_mb = None, dm_capacities = Map.empty, dm_share_units = 1\<rparr>"
    by (simp add: edit_demand_def sample_edit_def sample_reservation_def normalize_expected_memory_def raise_if_def
        request_share_units_def reservation_share_units_def sample_config_def normalize_memory_capacities_def)
  show ?thesis
    using sample_edit_started
    by (simp add: edit_booking_def edit_owned_def req op scenario_bind env scenario_maintain r rf d)
qed

lemma sample_cancel_runs: "\<not> isl (cancel_booking plain_digest (sample_env (hours 1) ''r2'') ''r1'' sample_actor
    (Some ''op-3'') sample_history)"
  by code_simp

lemma sample_admin_runs: "\<not> isl (cancel_booking_as_admin plain_digest (sample_env (hours 1) ''r2'') sample_config
    ''r1'' sample_admin ''maintenance'' sample_history)"
  by code_simp

end
