(* ===== verification/Job_Claims.thy ===== *)
theory Job_Claims
  imports Job_Refinement Scenarios Violations
begin

text \<open>
  The properties of the job worker and of the recovery, each with a witness on a small ledger: one
  reservation of GPU 0 over the first two hours whose job waits.
\<close>

definition sample_job :: job where
  "sample_job = new_job \<lparr>jm_spec_id = Some ''s1'', jm_digest = ''d1'', jm_summary = ''train''\<rparr> 0"

definition job_reservation :: "string \<Rightarrow> job \<Rightarrow> reservation" where
  "job_reservation ident j = (sample_reservation ident MODE_SHARED [0] 0 (hours 2))\<lparr>rs_job := Some j\<rparr>"

definition sample_claim :: claim_call where
  "sample_claim = \<lparr>cc_now = hours 1, cc_worker_id = ''w1'', cc_worker_lease_id = ''w1'', cc_runner_host = ''node'',
     cc_runner_pid = 7, cc_claim_timeout = seconds 60, cc_limit = 1, cc_eligible_ids = None,
     cc_token = (\<lambda>n. ''t'' @ show_nat n), cc_log = (\<lambda>_. hours 1)\<rparr>"

definition job_ledger :: ledger where
  "job_ledger = bound_ledger [job_reservation ''r1'' sample_job]"

definition claimed_ledger :: ledger where
  "claimed_ledger = bound_ledger [claimed_reservation sample_claim ''t0'' sample_job (job_reservation ''r1'' sample_job)]"

lemma job_ledger_claim:
  "\<exists>logs. claim_due_jobs sample_actor sample_claim job_ledger = (claimed_ledger, lg_reservations claimed_ledger, logs, True)"
proof -
  have "(let (l, out, logs, ch) = claim_due_jobs sample_actor sample_claim job_ledger
     in lg_reservations l = lg_reservations claimed_ledger \<and> lg_policy l = lg_policy claimed_ledger
       \<and> lg_last_transaction_id l = lg_last_transaction_id claimed_ledger \<and> out = lg_reservations claimed_ledger \<and> ch)"
    by code_simp
  then show ?thesis by (auto split: prod.splits)
qed


lemma job_ledger_promise: "promise (job_ledger, 0)"
proof -
  let ?rs = "[job_reservation ''r1'' sample_job]"
  have wf: "ledger_wf sample_config ?rs" by code_simp
  have "find_policy_violations (bound_ledger ?rs) (max_shared_users sample_config) 0 = []" by code_simp
  moreover have "list_all span_ok (lg_reservations (bound_ledger ?rs))"
    using ledger_wf_span_ok [OF wf] by (simp add: bound_ledger_def)
  moreover have "0 \<le> max_shared_users sample_config" by code_simp
  ultimately have "ledger_safe (max_shared_users sample_config) 0 (lg_reservations (bound_ledger ?rs))"
    using find_policy_violations_nil by blast
  moreover have "validate_ledger_policy job_ledger sample_config = Inr ()" by code_simp
  moreover have "lg_policy job_ledger \<noteq> JNull" by (simp add: job_ledger_def bound_ledger_def)
  ultimately have "bound_to sample_config (job_ledger, 0)"
    using wf sample_config_ok by (simp add: bound_to_def job_ledger_def bound_ledger_def)
  then show ?thesis by (auto simp: promise_def)
qed

text \<open>The waiting job is claimed and its command started.\<close>

lemma sample_run:
  "\<exists>s. (system_step plain_digest)\<^sup>*\<^sup>* (idle_system job_ledger 0) s \<and> sy_ledger s = claimed_ledger \<and> sy_clock s = hours 1
     \<and> sy_launches s ''r1'' = 1 \<and> sy_retries s ''r1'' = 0"
proof -
  let ?s0 = "idle_system job_ledger 0" and ?r = "claimed_reservation sample_claim ''t0'' sample_job (job_reservation ''r1'' sample_job)"
  obtain logs where c: "claim_due_jobs sample_actor sample_claim (sy_ledger ?s0) = (claimed_ledger, lg_reservations claimed_ledger, logs, True)"
    using job_ledger_claim by (auto simp: idle_system_def)
  have claimed: "lg_reservations claimed_ledger = [?r]" by (simp add: claimed_ledger_def bound_ledger_def)
  have r: "token_of ?r = ''t0''" "rs_id ?r = ''r1''" by code_simp+
  define s1 where "s1 = ?s0\<lparr>sy_ledger := claimed_ledger, sy_clock := hours 1,
      sy_held := sy_held ?s0 ++ map_of (map (\<lambda>r. (token_of r, (rs_id r, Starting))) (lg_reservations claimed_ledger)),
      sy_tokens := sy_tokens ?s0 \<union> set (map token_of (lg_reservations claimed_ledger))\<rparr>"
  have now: "cc_now sample_claim = hours 1" "sy_clock ?s0 = 0" by (simp_all add: sample_claim_def idle_system_def)
  have one: "system_step plain_digest ?s0 s1"
    unfolding s1_def by (rule system_step.claim [OF c])
      (simp_all add: now claimed hours_def seconds_def us_per_second_def idle_system_def)
  have held: "sy_held s1 ''t0'' = Some (''r1'', Starting)" by (simp add: s1_def claimed r)
  have "claim_is_launchable claimed_ledger sample_actor ''r1'' ''t0'' (hours 1)" by code_simp
  then have "claim_is_launchable (sy_ledger s1) sample_actor ''r1'' ''t0'' (hours 1)" by (simp add: s1_def)
  from one system_step.launch [OF held this] have "(system_step plain_digest)\<^sup>*\<^sup>* ?s0 (s1\<lparr>sy_held := (sy_held s1)(''t0'' \<mapsto> (''r1'', Spawned)),
      sy_launches := (sy_launches s1)(''r1'' := Suc (sy_launches s1 ''r1''))\<rparr>)"
    by (rule rtranclp.rtrancl_into_rtrancl [OF r_into_rtranclp])
  then show ?thesis by (intro exI conjI) (auto simp: s1_def idle_system_def)
qed


section \<open>The launch discipline\<close>

text \<open>
  C3: a command is started once per request. Whatever clients, workers and recoveries do from a
  ledger that keeps its promise, in any order, with crashes of workers at any point and tokens and
  identifiers that are fresh, the command of a reservation has been started at most once more
  often than its owner has asked for a retry; while its job waits to be claimed it has been started
  at most as often as it was retried.
\<close>

theorem launched_once_per_request:
  assumes "promise (l0, T0)" and "(system_step sha256)\<^sup>*\<^sup>* (idle_system l0 T0) s"
  shows "sy_launches s ident \<le> sy_retries s ident + 1
    \<and> (job_status_of ident (sy_ledger s) = Some JOB_PENDING \<longrightarrow> sy_launches s ident \<le> sy_retries s ident)"
proof -
  have "budget_ok s" by (rule system_okD(3) [OF system_run.run_preserves [OF assms(2) idle_system_ok [OF assms(1)]]])
  then have b: "sy_launches s ident + card (permits (sy_held s) ident)
     + (if awaits (lg_reservations (sy_ledger s)) ident then 1 else 0) \<le> sy_retries s ident + 1"
    by (simp add: budget_ok_def)
  have "awaits (lg_reservations (sy_ledger s)) ident" if "job_status_of ident (sy_ledger s) = Some JOB_PENDING"
    using that by (auto simp: job_status_of_def awaits_def entry_def split: bind_splits dest: find_reservation_mem)
  with b show ?thesis by (auto split: if_splits)
qed

theorem launched_once_per_request_witness:
  "\<exists>s. (system_step plain_digest)\<^sup>*\<^sup>* (idle_system job_ledger 0) s \<and> sy_launches s ''r1'' = 1 \<and> sy_retries s ''r1'' = 0
    \<and> sy_launches s ''r1'' \<le> sy_retries s ''r1'' + 1"
  using sample_run launched_once_per_request [OF job_ledger_promise, of plain_digest _ "''r1''"] by metis

text \<open>
  C4: the life of a job. The status of the job of any reservation, with the numbers of launches and
  retries, moves along the contract of a job: it is submitted once, claimed while it waits, launched
  while claimed and only within the budget of retries, ended by the holder of its claim, abandoned to
  a missed or uncertain state when its worker is late or gone, and waits again only after a retry of
  a failed, interrupted or uncertain job.
\<close>

theorem job_contract_refined:
  assumes "promise (l0, T0)" and "(system_step sha256)\<^sup>*\<^sup>* (idle_system l0 T0) s"
  shows "job_contract\<^sup>*\<^sup>* (view ident (idle_system l0 T0)) (view ident s)"
  by (rule job_run.run_simulates [OF assms(2) idle_system_ok [OF assms(1)]])

theorem job_contract_refined_witness:
  "\<exists>s. (system_step plain_digest)\<^sup>*\<^sup>* (idle_system job_ledger 0) s \<and> view ''r1'' s = (Some JOB_CLAIMED, 1, 0)
    \<and> job_contract\<^sup>*\<^sup>* (Some JOB_PENDING, 0, 0) (view ''r1'' s)"
proof -
  obtain s where s: "(system_step plain_digest)\<^sup>*\<^sup>* (idle_system job_ledger 0) s" "sy_ledger s = claimed_ledger"
    "sy_launches s ''r1'' = 1" "sy_retries s ''r1'' = 0" using sample_run by blast
  have "job_status_of ''r1'' claimed_ledger = Some JOB_CLAIMED" "job_status_of ''r1'' job_ledger = Some JOB_PENDING"
    by code_simp+
  with s job_contract_refined [OF job_ledger_promise s(1), of "''r1''"] show ?thesis
    by (auto simp: view_def idle_system_def)
qed


section \<open>Claiming\<close>

text \<open>
  C29: what a claim takes. The claimed reservations are exactly the first ones, up to the limit, in
  the order of start and identifier, of those of the actor that are active, running at this
  instant, eligible and have a waiting job; each gets its own token and the worker's identity, and
  is returned as the ledger now holds it. No other booking changes except that jobs may drift: a
  stale claim becomes uncertain, a waiting job of a cancelled or ended reservation ends.
\<close>

theorem claim_due_jobs_effect:
  assumes "claim_due_jobs actor cc l = (l', claimed, logs, ch)"
  shows "claimed = claimed_from cc 0 (take (nat (cc_limit cc)) (filter (claimable actor cc) (by_start (lg_reservations l))))
    \<and> set claimed \<subseteq> set (lg_reservations l')
    \<and> list_all2 (\<lambda>r r'. same_booking (cc_now cc) r r' \<and> (drifts r r' \<or> takes actor cc r r' \<and> r' \<in> set claimed))
        (lg_reservations l) (lg_reservations l')"
  using claim_due_jobs_claimed [OF assms] claim_due_jobs_placed [OF assms] claim_due_jobs_keeps(1) [OF assms] by blast

theorem claim_due_jobs_effect_witness:
  "\<exists>logs. claim_due_jobs sample_actor sample_claim job_ledger = (claimed_ledger, lg_reservations claimed_ledger, logs, True)
    \<and> lg_reservations claimed_ledger = claimed_from sample_claim 0
        (take (nat 1) (filter (claimable sample_actor sample_claim) (by_start (lg_reservations job_ledger))))"
proof -
  obtain logs where c: "claim_due_jobs sample_actor sample_claim job_ledger = (claimed_ledger, lg_reservations claimed_ledger, logs, True)"
    using job_ledger_claim by blast
  have "cc_limit sample_claim = 1" by (simp add: sample_claim_def)
  with claim_due_jobs_effect [OF c] have "lg_reservations claimed_ledger = claimed_from sample_claim 0
      (take (nat 1) (filter (claimable sample_actor sample_claim) (by_start (lg_reservations job_ledger))))" by metis
  with c show ?thesis by blast
qed

lemma take_sorted_mem:
  assumes "sorted (map f xs)" and "distinct (map f xs)" and "x \<in> set xs"
    and "length (filter (\<lambda>y. f y < f x) xs) < n"
  shows "x \<in> set (take n xs)"
proof -
  from assms(3) obtain ys zs where xs: "xs = ys @ x # zs" by (auto simp: in_set_conv_decomp)
  have "f y < f x" if "y \<in> set ys" for y
  proof -
    have "f y \<le> f x" using assms(1) that by (simp add: xs sorted_append)
    moreover have "f x \<notin> f ` set ys" using assms(2) by (simp add: xs)
    then have "f y \<noteq> f x" using that by (metis imageI)
    ultimately show ?thesis by simp
  qed
  then have "filter (\<lambda>y. f y < f x) ys = ys" by (simp add: filter_id_conv)
  with assms(4) have "length ys < n" by (simp add: xs)
  then show ?thesis by (simp add: xs take_Cons' split: if_splits)
qed

text \<open>
  C30: no due job is passed over. If an active reservation of the actor is running at this instant,
  is eligible and its job waits, and fewer such reservations than the limit come before it in the
  order of start and identifier, then the claim takes it.
\<close>

theorem due_job_is_claimed:
  assumes "claim_due_jobs actor cc l = (l', claimed, logs, ch)" and "distinct (map rs_id (lg_reservations l))"
    and "r \<in> set (lg_reservations l)" and "claimable actor cc r"
    and "int (length (filter (\<lambda>q. claimable actor cc q \<and> (rs_start_at q, rs_id q) < (rs_start_at r, rs_id r))
      (lg_reservations l))) < cc_limit cc"
  shows "\<exists>r' \<in> set claimed. rs_id r' = rs_id r \<and> job_status_of (rs_id r) l' = Some JOB_CLAIMED"
proof -
  let ?key = "\<lambda>r. (rs_start_at r, rs_id r)"
  let ?due = "filter (claimable actor cc) (by_start (lg_reservations l))"
  have ids: "distinct (map rs_id (by_start (lg_reservations l)))"
    using assms(2) mset_eq_imp_distinct_iff [of "map rs_id (by_start (lg_reservations l))" "map rs_id (lg_reservations l)"]
    by (simp add: by_start_def)
  then have "distinct (map ?key (by_start (lg_reservations l)))" by (auto simp: distinct_map inj_on_def)
  then have "distinct (map ?key ?due)" by (rule distinct_map_filter)
  moreover have "sorted (map ?key ?due)" by (simp add: by_start_def sorted_filter)
  moreover have "r \<in> set ?due" using assms(3,4) by (simp add: by_start_def)
  moreover have "length (filter (\<lambda>q. ?key q < ?key r) ?due)
      = length (filter (\<lambda>q. claimable actor cc q \<and> ?key q < ?key r) (lg_reservations l))"
  proof -
    have "mset (filter (\<lambda>q. ?key q < ?key r) ?due) = mset (filter (\<lambda>q. claimable actor cc q \<and> ?key q < ?key r) (lg_reservations l))"
      unfolding filter_filter mset_filter by_start_def mset_sort ..
    from arg_cong [OF this, of size] show ?thesis unfolding size_mset .
  qed
  ultimately have "r \<in> set (take (nat (cc_limit cc)) ?due)" using assms(5) by (intro take_sorted_mem) auto
  then have "rs_id r \<in> set (map rs_id (take (nat (cc_limit cc)) ?due))" by simp
  then have "rs_id r \<in> set (map rs_id claimed)"
    unfolding claim_due_jobs_claimed [OF assms(1)] claimed_from_ids .
  then obtain r' where r': "r' \<in> set claimed" "rs_id r' = rs_id r" by auto
  then obtain j where j: "rs_job r' = Some j" "jb_status j = JOB_CLAIMED"
    using claimed_from_shape unfolding claim_due_jobs_claimed [OF assms(1)] by blast
  have "distinct (map rs_id (lg_reservations l'))"
    using assms(2) same_bookings_ids [OF all2_same_booking [OF claim_due_jobs_keeps(1) [OF assms(1)]]] by simp
  moreover have "r' \<in> set (lg_reservations l')" using r'(1) claim_due_jobs_placed [OF assms(1)] by blast
  ultimately have "find_reservation l' (rs_id r) = Some r'" using find_distinct [of l' r'] r'(2) by simp
  with j r' show ?thesis by (auto simp: job_status_of_def)
qed


theorem due_job_is_claimed_witness:
  "\<exists>logs. claim_due_jobs sample_actor sample_claim job_ledger = (claimed_ledger, lg_reservations claimed_ledger, logs, True)
    \<and> job_status_of ''r1'' claimed_ledger = Some JOB_CLAIMED"
proof -
  let ?r = "job_reservation ''r1'' sample_job"
  obtain logs where c: "claim_due_jobs sample_actor sample_claim job_ledger = (claimed_ledger, lg_reservations claimed_ledger, logs, True)"
    using job_ledger_claim by blast
  have rs: "lg_reservations job_ledger = [?r]" by (simp add: job_ledger_def bound_ledger_def)
  have "claimable sample_actor sample_claim ?r" by code_simp
  moreover have "cc_limit sample_claim = 1" by (simp add: sample_claim_def)
  ultimately have "\<exists>r' \<in> set (lg_reservations claimed_ledger). rs_id r' = rs_id ?r
      \<and> job_status_of (rs_id ?r) claimed_ledger = Some JOB_CLAIMED"
    by (intro due_job_is_claimed [OF c]) (simp_all add: rs)
  moreover have "rs_id ?r = ''r1''" by code_simp
  ultimately show ?thesis using c by auto
qed


section \<open>Retrying\<close>

text \<open>
  A retry succeeds exactly for the owner of an active reservation that has not ended, whose job
  failed, was interrupted, or is uncertain with the risk of a duplicate accepted; then the job waits
  again without any trace of the former claim, and nothing else changes.
\<close>

theorem retry_job_exact:
  "(retry_job actor ident accept now ts l = Inr (l', r', logs, ch) \<longleftrightarrow>
   (\<exists>r j. find_reservation l ident = Some r \<and> rs_uid r = actor_uid actor \<and> rs_job r = Some j
      \<and> (jb_status j = JOB_FAILED \<or> jb_status j = JOB_INTERRUPTED \<or> jb_status j = JOB_UNCERTAIN \<and> accept)
      \<and> rs_status r = STATUS_ACTIVE \<and> now < rs_end_at r
      \<and> r' = r\<lparr>rs_updated_at := Some (whole_second now), rs_job := Some (retried_job j)\<rparr>
      \<and> l' = put_reservation ident r' l \<and> logs = [job_log actor ''job-retry'' r' ''pending'' ts] \<and> ch))
   \<and> jb_claim_token (retried_job j0) = None \<and> jb_status (retried_job j0) = JOB_PENDING"
proof -
  have "JOB_UNCERTAIN \<noteq> JOB_FAILED" "JOB_UNCERTAIN \<noteq> JOB_INTERRUPTED" by (simp_all add: job_status_defs)
  then have "retry_job actor ident accept now ts l = Inr (l', r', logs, ch) \<longleftrightarrow>
   (\<exists>r j. find_reservation l ident = Some r \<and> rs_uid r = actor_uid actor \<and> rs_job r = Some j
      \<and> (jb_status j = JOB_FAILED \<or> jb_status j = JOB_INTERRUPTED \<or> jb_status j = JOB_UNCERTAIN \<and> accept)
      \<and> rs_status r = STATUS_ACTIVE \<and> now < rs_end_at r
      \<and> r' = r\<lparr>rs_updated_at := Some (whole_second now), rs_job := Some (retried_job j)\<rparr>
      \<and> l' = put_reservation ident r' l \<and> logs = [job_log actor ''job-retry'' r' ''pending'' ts] \<and> ch)"
    by (cases "find_reservation l ident"; cases "rs_job (the (find_reservation l ident))")
      (auto simp: retry_job_def raise_if_def Let_def put_job_def not_le)
  then show ?thesis by (simp add: retried_job_def)
qed


section \<open>Private job specifications\<close>

text \<open>
  A private specification is kept while it can be needed. If the clean-up finds that the
  specification of a reservation's job is no longer needed, then at no later instant can a worker
  claim that job as it stands, nor can its owner retry it.
\<close>

theorem unneeded_spec_is_dead:
  assumes "\<not> job_spec_is_needed r j now" and "rs_job r = Some j" and "now \<le> later"
  shows "(\<forall>actor cc. cc_now cc = later \<longrightarrow> \<not> claimable actor cc r)
    \<and> (\<forall>actor accept ts l. find_reservation l (rs_id r) = Some r \<longrightarrow>
         (\<exists>e. retry_job actor (rs_id r) accept later ts l = Inl e))"
proof (intro conjI allI impI)
  fix actor and cc :: claim_call assume "cc_now cc = later"
  with assms show "\<not> claimable actor cc r"
    by (auto simp: job_spec_is_needed_def claimable_def job_status_defs split: if_splits)
next
  fix actor accept ts l assume f: "find_reservation l (rs_id r) = Some r"
  show "\<exists>e. retry_job actor (rs_id r) accept later ts l = Inl e"
  proof (cases "retry_job actor (rs_id r) accept later ts l")
    case (Inr out)
    obtain l' r' logs ch where out: "out = (l', r', logs, ch)" by (cases out) auto
    from Inr [unfolded out] show ?thesis
    proof (rule retry_job_Inr)
      fix q jq assume q: "find_reservation l (rs_id r) = Some q" "rs_job q = Some jq"
        "jb_status jq \<in> {JOB_FAILED, JOB_INTERRUPTED, JOB_UNCERTAIN}" "rs_status q = STATUS_ACTIVE" "later < rs_end_at q"
      from q(1,2) f assms(2) have "q = r" "jq = j" by auto
      with q(3-5) assms(1,3) show ?thesis
        by (auto simp: job_spec_is_needed_def job_status_defs split: if_splits)
    qed
  qed simp
qed

theorem unneeded_spec_is_dead_witness:
  "\<exists>e. retry_job sample_actor ''r1'' True (hours 3) 0 (bound_ledger [job_reservation ''r1'' (sample_job\<lparr>jb_status := JOB_FAILED\<rparr>)]) = Inl e"
proof -
  let ?j = "sample_job\<lparr>jb_status := JOB_FAILED\<rparr>"
  let ?r = "job_reservation ''r1'' ?j"
  have "\<not> job_spec_is_needed ?r ?j (hours 2)" by code_simp
  moreover have "rs_job ?r = Some ?j" by (simp add: job_reservation_def)
  moreover have "hours 2 \<le> hours 3" by code_simp
  moreover have "rs_id ?r = ''r1''" "find_reservation (bound_ledger [?r]) ''r1'' = Some ?r"
    by (simp_all add: job_reservation_def sample_reservation_def find_reservation_def bound_ledger_def)
  ultimately show ?thesis using unneeded_spec_is_dead [of ?r ?j "hours 2" "hours 3"] by metis
qed


section \<open>Supervision\<close>

text \<open>
  The supervision of a running job in one pass. If its reservation is gone or cancelled the job
  is asked to stop for that reason, once; a job nobody has asked to stop, of a live reservation, is
  left alone until its grace period before the end, is asked to stop in it, and is killed at the end
  of the reservation at the latest; a job asked to stop for another reason is killed when its grace
  is over.
\<close>

theorem supervision_effect:
  assumes "supervise stored now grace ob item = (item', signals)" and "0 \<le> grace"
  shows "(if stored = None \<or> (\<exists>r. stored = Some r \<and> rs_status r = STATUS_CANCELLED)
     then rj_termination_reason item' = Some ''cancelled'' \<and> rj_termination_requested_at item' \<noteq> None
          \<or> rj_termination_reason item = Some ''cancelled'' \<and> item' = item
     else if rj_termination_reason item \<noteq> None then item' = item
     else if now < rj_end_at item - grace then item' = item
     else rj_termination_reason item' = Some ''deadline'')
    \<and> (Terminate \<in> set signals \<longleftrightarrow> rj_termination_requested_at item = None \<and> rj_termination_requested_at item' \<noteq> None)
    \<and> (Kill \<in> set signals \<longleftrightarrow> must_kill now grace (ob_check_time ob) item')
    \<and> (rj_termination_reason item' = Some ''deadline'' \<and> rj_end_at item \<le> now \<longrightarrow> Kill \<in> set signals)
    \<and> rj_end_at item' = rj_end_at item \<and> rj_claim_token item' = rj_claim_token item
    \<and> rj_reservation_id item' = rj_reservation_id item"
proof -
  obtain i s where a: "ask_to_stop stored now grace (ob_request_time ob) item = (i, s)" by fastforce
  with assms(1) have item': "item' = i" "signals = s @ (if must_kill now grace (ob_check_time ob) i then [Kill] else [])"
    by (auto simp: supervise_def)
  have sig: "Terminate \<in> set s \<longleftrightarrow> rj_termination_requested_at item = None \<and> rj_termination_requested_at i \<noteq> None" "Kill \<notin> set s"
    using a by (auto simp: ask_to_stop_def request_termination_def Let_def split: if_splits option.splits)
  have fields: "rj_end_at i = rj_end_at item" "rj_claim_token i = rj_claim_token item" "rj_reservation_id i = rj_reservation_id item"
    using a by (auto simp: ask_to_stop_def request_termination_def Let_def split: if_splits option.splits)
  have reason: "if stored = None \<or> (\<exists>r. stored = Some r \<and> rs_status r = STATUS_CANCELLED)
     then rj_termination_reason i = Some ''cancelled'' \<and> rj_termination_requested_at i \<noteq> None
          \<or> rj_termination_reason item = Some ''cancelled'' \<and> i = item
     else if rj_termination_reason item \<noteq> None then i = item
     else if now < rj_end_at item - grace then i = item
     else rj_termination_reason i = Some ''deadline''"
    using a by (auto simp: ask_to_stop_def request_termination_def Let_def split: if_splits option.splits)
  show ?thesis
    unfolding item' using sig fields reason by (auto simp: must_kill_def)
qed

definition sample_running :: running_job where
  "sample_running = \<lparr>rj_reservation_id = ''r1'', rj_claim_token = ''t0'', rj_end_at = hours 2,
     rj_termination_reason = None, rj_termination_requested_at = None\<rparr>"

definition sample_observation :: observation where
  "sample_observation = \<lparr>ob_request_time = 0, ob_check_time = 0, ob_exit_code = None, ob_group_alive = True,
     ob_log_warning = None, ob_log_rotations = 0, ob_now = 0, ob_log = 0\<rparr>"

theorem supervision_effect_witness:
  "Kill \<in> set (snd (supervise (Some (job_reservation ''r1'' sample_job)) (hours 2) (seconds 30) sample_observation sample_running))"
proof -
  obtain item' signals where s: "supervise (Some (job_reservation ''r1'' sample_job)) (hours 2) (seconds 30) sample_observation sample_running = (item', signals)"
    by fastforce
  have "0 \<le> seconds 30" by code_simp
  note e = supervision_effect [OF s this]
  have "rs_status (job_reservation ''r1'' sample_job) \<noteq> STATUS_CANCELLED" by code_simp
  moreover have "rj_termination_reason sample_running = None" "rj_end_at sample_running = hours 2" by (simp_all add: sample_running_def)
  moreover have "\<not> hours 2 < hours 2 - seconds 30" by code_simp
  ultimately have "rj_termination_reason item' = Some ''deadline''" using conjunct1 [OF e] by simp
  moreover have "rj_end_at sample_running \<le> hours 2" by (simp add: sample_running_def)
  ultimately have "Kill \<in> set signals" using e by blast
  with s show ?thesis by simp
qed

end
