(* ===== verification/Recovery_Claims.thy ===== *)
theory Recovery_Claims
  imports Job_Lifecycle Samples
begin

text \<open>
  The properties of the recovery of abandoned jobs: it ends when its clocks reach their deadlines,
  it leaves the jobs of the running worker and of other users alone and never lets a job wait
  again, and it signals only process groups that belong to the user and carry the reservation.
\<close>

text \<open>
  The sample: a job that another worker claimed and left running in process group 42, which goes away
  after the first look.
\<close>

definition abandoned_job :: job where
  "abandoned_job = (new_job \<lparr>jm_spec_id = Some ''s1'', jm_digest = ''d1'', jm_summary = ''train''\<rparr> 0)
     \<lparr>jb_status := JOB_RUNNING, jb_claim_token := Some ''t0'', jb_worker_lease_id := Some ''w1'', jb_runner_host := Some ''node''\<rparr>"

definition abandoned_ledger :: ledger where
  "abandoned_ledger = sample_ledger [(sample_reservation ''r1'' MODE_SHARED [0] 0 (hours 2))\<lparr>rs_job := Some abandoned_job\<rparr>]"

definition sample_entry :: proc_entry where
  "sample_entry = \<lparr>pe_name = ''43'', pe_metadata = Some (1000, 5, 6), pe_stat = Some ''43 (python) S 1 42'',
     pe_environ = Some (''PATH=/bin'' @ [char_of (0::nat)] @ ''BK_RESERVATION_ID=r1'')\<rparr>"

definition sample_discoverer :: "proc_entry list \<Rightarrow> discoverer" where
  "sample_discoverer entries = discover_managed_process_groups True (Inr entries) 7"

definition sample_recovery :: recovery_env where
  "sample_recovery = \<lparr>rv_discover = sample_discoverer [sample_entry], rv_current_group = 7,
     rv_term_discover = sample_discoverer [sample_entry], rv_term_kill = (\<lambda>_ _. Delivered), rv_term_started = 0,
     rv_term_wait = (\<lambda>k. sample_discoverer (if k < 1 then [sample_entry] else [])), rv_term_clock = (\<lambda>k. seconds (int k)),
     rv_kill_discover = sample_discoverer [], rv_kill_kill = (\<lambda>_ _. NoSuchProcess), rv_kill_started = 0,
     rv_kill_wait = (\<lambda>_. sample_discoverer []), rv_kill_clock = (\<lambda>k. seconds (int k)),
     rv_between_load = id, rv_between_writes = id, rv_finish_now = hours 1, rv_log = (\<lambda>_. hours 1),
     rv_finish_log = (\<lambda>_. hours 1)\<rparr>"


section \<open>It ends\<close>

declare wait_rounds.simps [simp del]

text \<open>The loop stops at the first round that finds nothing or ends past the deadline.\<close>

lemma wait_rounds_returns:
  assumes "deadline \<le> clock m" and "k \<le> m"
  shows "\<exists>j. k \<le> j \<and> j \<le> m \<and> wait_rounds discover clock uid deadline idents k = Some (groups_remaining (discover j) uid idents)
    \<and> (groups_remaining (discover j) uid idents = [] \<or> deadline \<le> clock j)"
  using assms(2)
proof (induction "m - k" arbitrary: k)
  case 0
  then have "k = m" by simp
  with assms(1) show ?case by (intro exI [of _ m]) (simp add: wait_rounds.simps [of discover clock uid deadline idents m])
next
  case (Suc n)
  show ?case
  proof (cases "groups_remaining (discover k) uid idents = [] \<or> deadline \<le> clock k")
    case True
    with Suc.prems show ?thesis
      by (intro exI [of _ k]) (auto simp: wait_rounds.simps [of discover clock uid deadline idents k])
  next
    case False
    have "n = m - Suc k" "Suc k \<le> m" using Suc.hyps(2) by auto
    from Suc.hyps(1) [OF this] obtain j where "Suc k \<le> j" "j \<le> m"
      "wait_rounds discover clock uid deadline idents (Suc k) = Some (groups_remaining (discover j) uid idents)"
      "groups_remaining (discover j) uid idents = [] \<or> deadline \<le> clock j" by blast
    with False show ?thesis
      by (intro exI [of _ j]) (simp add: wait_rounds.simps [of discover clock uid deadline idents k])
  qed
qed

lemma wait_for_groups_returns:
  assumes "started + timeout \<le> clock m"
  shows "\<exists>remaining. wait_for_groups discover clock started uid timeout idents = Some remaining"
  using wait_rounds_returns [where deadline = "started + timeout" and clock = clock and m = m and k = 0 and discover = discover and uid = uid and idents = idents] assms by (auto simp: wait_for_groups_def)

text \<open>
  C32: the recovery returns. With a positive grace period, as soon as the monotonic clock reaches the
  deadline in each of its two waits, whatever the discoverer answers and the signals do, the
  recovery finishes; and without any job to recover it finishes at once.
\<close>

theorem recovery_terminates:
  assumes "\<exists>m. rv_term_started env + grace \<le> rv_term_clock env m"
    and "\<exists>m. rv_kill_started env + min (seconds 1) grace \<le> rv_kill_clock env m"
  shows "\<exists>result. recover_abandoned_jobs env actor hostname worker_id now grace l = Some result"
proof -
  from assms(1) obtain m where m: "rv_term_started env + grace \<le> rv_term_clock env m" by blast
  from assms(2) obtain n where n: "rv_kill_started env + min (seconds 1) grace \<le> rv_kill_clock env n" by blast
  have stops: "\<exists>x. stop_groups env (actor_uid actor) grace terminating = Some x" for terminating
  proof -
    obtain remaining where r: "wait_for_groups (rv_term_wait env) (rv_term_clock env) (rv_term_started env) (actor_uid actor) grace terminating
        = Some remaining"
      using wait_for_groups_returns [where clock = "rv_term_clock env"] m by blast
    obtain left where "wait_for_groups (rv_kill_wait env) (rv_kill_clock env) (rv_kill_started env) (actor_uid actor)
        (min (seconds 1) grace) (map fst remaining) = Some left"
      using wait_for_groups_returns [where clock = "rv_kill_clock env"] n by blast
    with r show ?thesis by (simp add: stop_groups_def Let_def)
  qed
  show ?thesis
  proof (cases "grace \<le> 0 \<or> recovery_candidates l actor = []")
    case True
    then show ?thesis by (auto simp: recover_abandoned_jobs_def)
  next
    case False
    let ?dc = "recovery_decisions (rv_discover env) actor hostname worker_id now (recovery_candidates l actor)"
    obtain l1 terminating logs ch where rec: "record_recovery_decisions actor now worker_id (map_of (dc_decisions ?dc))
        (rv_log env) (rv_between_load env l) = (l1, terminating, logs, ch)" using prod_cases4 by blast
    obtain signalled remaining warnings where "stop_groups env (actor_uid actor) grace terminating = Some (signalled, remaining, warnings)"
      using stops prod_cases3 by metis
    with False rec show ?thesis
      by (simp add: recover_abandoned_jobs_def Let_def split: prod.splits)
  qed
qed


theorem recovery_terminates_witness:
  "\<exists>result. recover_abandoned_jobs sample_recovery sample_actor ''node'' ''w2'' (hours 1) (seconds 5) abandoned_ledger = Some result"
proof (rule recovery_terminates)
  show "\<exists>m. rv_term_started sample_recovery + seconds 5 \<le> rv_term_clock sample_recovery m"
    by (rule exI [of _ 5]) (simp add: sample_recovery_def)
  show "\<exists>m. rv_kill_started sample_recovery + min (seconds 1) (seconds 5) \<le> rv_kill_clock sample_recovery m"
    by (rule exI [of _ 5]) (simp add: sample_recovery_def)
qed


section \<open>What it changes\<close>

definition declared_uncertain :: "actor \<Rightarrow> string \<Rightarrow> reservation \<Rightarrow> reservation \<Rightarrow> bool" where
  "declared_uncertain actor worker_id r r' \<longleftrightarrow>
     rs_uid r = actor_uid actor \<and> (\<exists>j j'. rs_job r = Some j \<and> rs_job r' = Some j' \<and> same_command j j'
       \<and> jb_status j \<in> {JOB_CLAIMED, JOB_RUNNING, JOB_UNCERTAIN} \<and> jb_worker_lease_id j \<noteq> Some worker_id
       \<and> jb_status j' = JOB_UNCERTAIN \<and> jb_recovery_worker_id j' = Some worker_id \<and> jb_recovery_state j' \<noteq> None
       \<and> jb_claim_token j' = jb_claim_token j \<and> jb_worker_lease_id j' = jb_worker_lease_id j)"


lemma recovery_visit_result:
  assumes "r' = (case recovery_visit actor now worker decisions clock p q r of Skip \<Rightarrow> r | Touch r' e out \<Rightarrow> r')"
  shows "if (\<exists>state d message. decisions (rs_id r) = Some (state, d, message)) \<and> rs_uid r = actor_uid actor
      \<and> (\<exists>j. rs_job r = Some j \<and> jb_status j \<in> {JOB_CLAIMED, JOB_RUNNING, JOB_UNCERTAIN} \<and> jb_worker_lease_id j \<noteq> Some worker)
    then declared_uncertain actor worker r r' \<and> same_booking now r r' else r' = r"
  using assms
  by (auto simp: recovery_visit_def declared_uncertain_def recovered_reservation_def recovered_job_def put_job_def
      same_booking_def same_command_def Let_def split: option.splits if_splits)

lemma finish_visit_result:
  assumes "r' = (case finish_visit actor now worker wanted remaining signalled clock p q r of Skip \<Rightarrow> r | Touch r' e out \<Rightarrow> r')"
  shows "r' = r \<or> rs_id r \<in> set wanted \<and> (\<exists>j state message. rs_job r = Some j \<and> jb_status j = JOB_UNCERTAIN
    \<and> jb_recovery_worker_id j = Some worker \<and> r' = finished_recovery now state message j r)"
  using assms by (auto simp: finish_visit_def Let_def split_def split: option.splits if_splits)

lemma finish_after_record:
  assumes "declared_uncertain actor worker r r1" and "same_booking now r r1"
    and "r2 = r1 \<or> (\<exists>j state message. rs_job r1 = Some j \<and> jb_status j = JOB_UNCERTAIN \<and> jb_recovery_worker_id j = Some worker
      \<and> r2 = finished_recovery now' state message j r1)"
  shows "declared_uncertain actor worker r r2 \<and> same_booking now r r2"
  using assms by (auto simp: declared_uncertain_def finished_recovery_def put_job_def same_booking_def same_command_def)

text \<open>What a loop returns was returned by one of its visits.\<close>

lemma sweep_loop_outputs:
  "x \<in> set (sw_out (sweep_loop body order s)) \<Longrightarrow>
   x \<in> set (sw_out s) \<or> (\<exists>i r p q r' e. (i, r) \<in> set order \<and> body p q r = Touch r' e (Some x))"
proof (induction order arbitrary: s)
  case (Cons y order)
  obtain i r where y: "y = (i, r)" by (cases y)
  show ?case
  proof (cases "body (length (sw_out s)) (length (sw_logs s)) r")
    case Skip
    with Cons.IH [of s] Cons.prems show ?thesis by (simp add: y) blast
  next
    case (Touch r' e out)
    let ?s = "s\<lparr>sw_reservations := (sw_reservations s)[i := r'], sw_out := sw_out s @ opt_list out,
              sw_logs := sw_logs s @ opt_list e, sw_changed := True\<rparr>"
    from Touch Cons.prems have "x \<in> set (sw_out (sweep_loop body order ?s))" by (simp add: y)
    from Cons.IH [OF this] have "x \<in> set (sw_out s) \<or> x \<in> set (opt_list out)
        \<or> (\<exists>i r p q r' e. (i, r) \<in> set order \<and> body p q r = Touch r' e (Some x))" by simp
    moreover have "x \<in> set (opt_list out) \<Longrightarrow> out = Some x" by (cases out) (simp_all add: opt_list_def)
    ultimately show ?thesis using Touch unfolding y by (metis list.set_intros(1,2))
  qed
qed simp

lemma recovery_outputs:
  assumes "record_recovery_decisions actor now worker decisions clock l = (l1, terminating, logs, ch)" and "i \<in> set terminating"
  shows "\<exists>r \<in> set (lg_reservations l). rs_id r = i \<and> (\<exists>state d message. decisions (rs_id r) = Some (state, d, message))
    \<and> rs_uid r = actor_uid actor
    \<and> (\<exists>j. rs_job r = Some j \<and> jb_status j \<in> {JOB_CLAIMED, JOB_RUNNING, JOB_UNCERTAIN} \<and> jb_worker_lease_id j \<noteq> Some worker)"
proof -
  let ?body = "recovery_visit actor now worker decisions clock"
  let ?s = "\<lparr>sw_reservations = lg_reservations l, sw_out = [], sw_logs = [], sw_changed = False\<rparr>"
  have "i \<in> set (sw_out (sweep_loop ?body (in_order (lg_reservations l)) ?s))"
    using assms by (simp add: record_recovery_decisions_def run_sweep_def Let_def)
  from sweep_loop_outputs [OF this] obtain k r p q r' e where
    kr: "(k, r) \<in> set (in_order (lg_reservations l))" "?body p q r = Touch r' e (Some i)" by auto
  from in_order_at [OF kr(1)] have "r \<in> set (lg_reservations l)" by auto
  with kr(2) show ?thesis
    by (intro bexI [of _ r]) (auto simp: recovery_visit_def Let_def split: option.splits if_splits)
qed

text \<open>Which candidates get a decision.\<close>

definition decided :: "string \<Rightarrow> datetime \<Rightarrow> reservation \<Rightarrow> bool" where
  "decided worker current r \<longleftrightarrow> (\<exists>j. rs_job r = Some j
     \<and> (if or_empty (jb_worker_lease_id j) = [] then rs_end_at r \<le> current else jb_worker_lease_id j \<noteq> Some worker))"

lemma decide_one_keys:
  "fst ` set (dc_decisions (decide_one discover actor hostname worker current r dc)) =
   fst ` set (dc_decisions dc) \<union> (if decided worker current r then {rs_id r} else {})"
  by (cases "rs_job r"; cases "jb_worker_lease_id (the (rs_job r))")
    (auto simp: decide_one_def decided_def decide_by_discovery_def decide_def dom_update or_empty_def Let_def not_le)

lemma recovery_decisions_keys:
  "fst ` set (dc_decisions (recovery_decisions discover actor hostname worker current rs)) =
   rs_id ` {r \<in> set rs. decided worker current r}"
proof -
  have "fst ` set (dc_decisions (fold (decide_one discover actor hostname worker current) rs dc)) =
      fst ` set (dc_decisions dc) \<union> rs_id ` {r \<in> set rs. decided worker current r}" for dc
    by (induction rs arbitrary: dc) (auto simp: decide_one_keys)
  then show ?thesis by (simp add: recovery_decisions_def)
qed


lemma recovery_pass:
  assumes rec: "record_recovery_decisions actor now worker decisions clock l = (l1, terminating, logs, ch)"
    and fin: "finish_recovery actor now' worker terminating remaining signalled clock' l1 = (l', out, logs', ch')"
    and keys: "\<And>r. r \<in> set (lg_reservations l) \<Longrightarrow> decisions (rs_id r) \<noteq> None \<longleftrightarrow> recovery_candidate actor r \<and> decided worker now r"
    and dist: "distinct (map rs_id (lg_reservations l))" and "worker \<noteq> []"
  shows "list_all2 (\<lambda>r r'. if recovery_candidate actor r \<and> decided worker now r
      then declared_uncertain actor worker r r' \<and> same_booking now r r' else r' = r) (lg_reservations l) (lg_reservations l')"
proof (rule list_all2_all_nthI)
  note v1 = run_sweep_visits [OF rec [unfolded record_recovery_decisions_def]]
  note v2 = run_sweep_visits [OF fin [unfolded finish_recovery_def]]
  from v1 v2 show len: "length (lg_reservations l) = length (lg_reservations l')" by (simp add: list_all2_lengthD)
  fix k assume k: "k < length (lg_reservations l)"
  let ?r = "lg_reservations l ! k" and ?r1 = "lg_reservations l1 ! k" and ?r2 = "lg_reservations l' ! k"
  let ?hit = "\<lambda>r. (\<exists>state d message. decisions (rs_id r) = Some (state, d, message)) \<and> rs_uid r = actor_uid actor
      \<and> (\<exists>j. rs_job r = Some j \<and> jb_status j \<in> {JOB_CLAIMED, JOB_RUNNING, JOB_UNCERTAIN} \<and> jb_worker_lease_id j \<noteq> Some worker)"
  have mem: "?r \<in> set (lg_reservations l)" using k by simp
  have hit: "?hit ?r \<longleftrightarrow> recovery_candidate actor ?r \<and> decided worker now ?r"
  proof
    assume "?hit ?r"
    then show "recovery_candidate actor ?r \<and> decided worker now ?r" using keys [OF mem] by auto
  next
    assume c: "recovery_candidate actor ?r \<and> decided worker now ?r"
    with keys [OF mem] obtain state d message where "decisions (rs_id ?r) = Some (state, d, message)" by (auto simp: prod_eq_iff)
    with c \<open>worker \<noteq> []\<close> show "?hit ?r"
      by (auto simp: recovery_candidate_def decided_def RECOVERABLE_STATES_def or_empty_def split: option.splits if_splits)
  qed
  have r1: "if ?hit ?r then declared_uncertain actor worker ?r ?r1 \<and> same_booking now ?r ?r1 else ?r1 = ?r"
    using list_all2_nthD [OF v1 k] recovery_visit_result by metis
  have k1: "k < length (lg_reservations l1)" using v1 k by (simp add: list_all2_lengthD)
  have r2: "?r2 = ?r1 \<or> rs_id ?r1 \<in> set terminating \<and> (\<exists>j state message. rs_job ?r1 = Some j \<and> jb_status j = JOB_UNCERTAIN
      \<and> jb_recovery_worker_id j = Some worker \<and> ?r2 = finished_recovery now' state message j ?r1)"
    using list_all2_nthD [OF v2 k1] finish_visit_result by metis
  show "if recovery_candidate actor ?r \<and> decided worker now ?r
      then declared_uncertain actor worker ?r ?r2 \<and> same_booking now ?r ?r2 else ?r2 = ?r"
  proof (cases "?hit ?r")
    case True
    with r1 r2 finish_after_record [of actor worker ?r ?r1 now ?r2 now'] hit show ?thesis by auto
  next
    case False
    with r1 have same: "?r1 = ?r" by simp
    have "rs_id ?r \<notin> set terminating"
    proof
      assume "rs_id ?r \<in> set terminating"
      from recovery_outputs [OF rec this] obtain q where "q \<in> set (lg_reservations l)" "rs_id q = rs_id ?r" "?hit q" by blast
      with dist mem False show False by (metis (no_types, lifting) distinct_map inj_onD)
    qed
    with r2 same hit False show ?thesis by auto
  qed
qed

text \<open>
  C31: what the recovery changes, when no other client commits in between. A reservation of the actor
  whose job is claimed, running, or uncertain and worth another look, and whose claim another worker
  leases (or that an old worker without a lease left behind after its end) is declared uncertain
  under this worker's name, keeping its command and claim token; its booking stays where it is. Every
  other reservation, in particular every job of this worker's own lease, of another user, or that
  waits or has ended, is exactly what it was: nothing is retried automatically.
\<close>

theorem recovery_effect:
  assumes "recover_abandoned_jobs env actor hostname worker now grace l = Some (Inr (l', summary))"
    and "rv_between_load env = id" and "rv_between_writes env = id"
    and "distinct (map rs_id (lg_reservations l))" and "worker \<noteq> []"
  shows "list_all2 (\<lambda>r r'. if recovery_candidate actor r \<and> decided worker now r
      then declared_uncertain actor worker r r' \<and> same_booking now r r' else r' = r) (lg_reservations l) (lg_reservations l')"
proof (cases "recovery_candidates l actor = []")
  case True
  with assms(1,2) have "l' = l" by (simp add: recover_abandoned_jobs_def split: if_splits)
  with True show ?thesis by (auto simp: recovery_candidates_def filter_empty_conv intro: list.rel_refl_strong)
next
  case False
  let ?dc = "recovery_decisions (rv_discover env) actor hostname worker now (recovery_candidates l actor)"
  obtain l1 terminating logs ch where rec: "record_recovery_decisions actor now worker (map_of (dc_decisions ?dc))
      (rv_log env) l = (l1, terminating, logs, ch)" using prod_cases4 by blast
  from assms(1) False rec obtain signalled remaining warnings where
    s: "stop_groups env (actor_uid actor) grace terminating = Some (signalled, remaining, warnings)"
    by (auto simp: recover_abandoned_jobs_def assms(2) Let_def split: if_splits Option.bind_splits)
  obtain l2 out logs' ch' where fin: "finish_recovery actor (rv_finish_now env) worker terminating remaining (map fst signalled)
      (rv_finish_log env) l1 = (l2, out, logs', ch')" using prod_cases4 by blast
  have "l2 = l'"
    using assms(1) False rec s fin
    by (simp add: recover_abandoned_jobs_def assms(2,3) Let_def split: if_splits)
  moreover have "map_of (dc_decisions ?dc) (rs_id r) \<noteq> None \<longleftrightarrow> recovery_candidate actor r \<and> decided worker now r"
    if r: "r \<in> set (lg_reservations l)" for r
  proof -
    have "map_of (dc_decisions ?dc) (rs_id r) \<noteq> None
        \<longleftrightarrow> rs_id r \<in> rs_id ` {q \<in> set (recovery_candidates l actor). decided worker now q}"
      by (simp add: map_of_eq_None_iff recovery_decisions_keys)
    also have "\<dots> \<longleftrightarrow> recovery_candidate actor r \<and> decided worker now r"
      using r assms(4) by (auto simp: recovery_candidates_def distinct_map dest: inj_onD)
    finally show ?thesis .
  qed
  ultimately show ?thesis using recovery_pass [OF rec fin _ assms(4,5)] by blast
qed


lemma abandoned_recovered:
  "case recover_abandoned_jobs sample_recovery sample_actor ''node'' ''w2'' (hours 1) (seconds 5) abandoned_ledger of
     Some (Inr (l', summary)) \<Rightarrow> ry_terminated_groups summary = 1 \<and> ry_uncertain_jobs summary = 1
       \<and> map (\<lambda>r. map_option jb_recovery_state (rs_job r)) (lg_reservations l') = [Some (Some ''terminated'')]
   | _ \<Rightarrow> False"
  by code_simp

theorem recovery_effect_witness:
  "\<exists>l' summary. recover_abandoned_jobs sample_recovery sample_actor ''node'' ''w2'' (hours 1) (seconds 5) abandoned_ledger
      = Some (Inr (l', summary)) \<and> ry_terminated_groups summary = 1
    \<and> map (\<lambda>r. map_option jb_recovery_state (rs_job r)) (lg_reservations l') = [Some (Some ''terminated'')]
    \<and> list_all2 (declared_uncertain sample_actor ''w2'') (lg_reservations abandoned_ledger) (lg_reservations l')"
proof -
  obtain l' summary where r: "recover_abandoned_jobs sample_recovery sample_actor ''node'' ''w2'' (hours 1) (seconds 5) abandoned_ledger
      = Some (Inr (l', summary))" and s: "ry_terminated_groups summary = 1"
    "map (\<lambda>r. map_option jb_recovery_state (rs_job r)) (lg_reservations l') = [Some (Some ''terminated'')]"
    using abandoned_recovered by (auto split: option.splits sum.splits)
  have e: "list_all2 (\<lambda>r r'. if recovery_candidate sample_actor r \<and> decided ''w2'' (hours 1) r
      then declared_uncertain sample_actor ''w2'' r r' \<and> same_booking (hours 1) r r' else r' = r)
      (lg_reservations abandoned_ledger) (lg_reservations l')"
    by (rule recovery_effect [OF r]) (simp_all add: sample_recovery_def abandoned_ledger_def)
  let ?r = "(sample_reservation ''r1'' MODE_SHARED [0] 0 (hours 2))\<lparr>rs_job := Some abandoned_job\<rparr>"
  have "recovery_candidate sample_actor ?r" by code_simp
  moreover have "jb_worker_lease_id abandoned_job = Some ''w1''" by (simp add: abandoned_job_def)
  then have "decided ''w2'' (hours 1) ?r" by (simp add: decided_def or_empty_def)
  ultimately have "list_all2 (declared_uncertain sample_actor ''w2'') (lg_reservations abandoned_ledger) (lg_reservations l')"
    using e by (auto simp: abandoned_ledger_def list_all2_Cons1)
  with r s show ?thesis by (intro exI [of _ l'] exI [of _ summary]) simp
qed


section \<open>Whom it signals\<close>

lemma update_subset: "set (AList.update k v al) \<subseteq> insert (k, v) (set al)"
  by (induction al) auto

text \<open>A loop that only ever inserts good pairs into a dictionary.\<close>

lemma fold_keeps:
  assumes "\<And>x s. x \<in> set xs \<Longrightarrow> P s \<Longrightarrow> P (f x s)" and "P s"
  shows "P (fold f xs s)"
  using assms by (induction xs arbitrary: s) auto

lemma found_group_entry:
  assumes "(k, g) \<in> set (found_groups marker uid cur entries)"
  shows "\<exists>e \<in> set entries. managed_entry marker uid cur e = Some g"
proof -
  let ?gs = "List.map_filter (managed_entry marker uid cur) entries"
  have "snd ` set (fold keep_first_member ?gs []) \<subseteq> set ?gs"
    by (rule fold_keeps) (use update_subset in \<open>fastforce simp: keep_first_member_def split: option.splits if_splits\<close>)+
  with assms have "g \<in> set ?gs" by (force simp: found_groups_def)
  then show ?thesis by (auto simp: List.map_filter_def image_iff)
qed

lemma update_all:
  assumes "\<And>i v. (i, v) \<in> set al \<Longrightarrow> P i v" and "P k w" and "(i, v) \<in> set (AList.update k w al)"
  shows "P i v"
  using assms update_subset [of k w al] by blast

lemma discover_current_groups:
  assumes "(i, gs) \<in> set (fst (discover_current discover uid idents))"
  shows "i \<in> set idents \<and> gs = pd_groups (discover i uid) \<and> pd_available (discover i uid)"
proof -
  let ?P = "\<lambda>s :: (string \<times> managed_process_group list) list \<times> string list.
    \<forall>i gs. (i, gs) \<in> set (fst s) \<longrightarrow> i \<in> set idents \<and> gs = pd_groups (discover i uid) \<and> pd_available (discover i uid)"
  have "?P (discover_current discover uid idents)"
    unfolding discover_current_def
  proof (rule fold_keeps [of idents ?P], goal_cases)
    case (1 x s)
    obtain current warnings where s: "s = (current, warnings)" by (cases s)
    show ?case
    proof (cases "pd_available (discover x uid) \<and> pd_groups (discover x uid) \<noteq> []")
      case True
      have "i \<in> set idents \<and> gs = pd_groups (discover i uid) \<and> pd_available (discover i uid)"
        if "(i, gs) \<in> set (AList.update x (pd_groups (discover x uid)) current)" for i gs
        by (rule update_all [OF _ _ that]) (use 1 True in \<open>auto simp: s\<close>)
      with True show ?thesis by (simp add: s Let_def)
    next
      case False
      with 1 show ?thesis by (auto simp: s Let_def)
    qed
  qed simp
  with assms show ?thesis by blast
qed

lemma signal_groups_signalled:
  assumes "(i, gs) \<in> set (sg_signalled (signal_groups killpg cur input))"
  shows "\<exists>groups. (i, groups) \<in> set input \<and> gs = filter (kill_succeeds (killpg i) cur) groups"
proof -
  let ?Q = "\<lambda>i gs. \<exists>groups. (i, groups) \<in> set input \<and> gs = filter (kill_succeeds (killpg i) cur) groups"
  let ?P = "\<lambda>s. \<forall>i gs. (i, gs) \<in> set (sg_signalled s) \<longrightarrow> ?Q i gs"
  have "?P (signal_groups killpg cur input)"
    unfolding signal_groups_def
  proof (rule fold_keeps [of input ?P], goal_cases)
    case (1 x s)
    obtain ident groups where x: "x = (ident, groups)" by (cases x)
    have upd: "?Q i gs" if "(i, gs) \<in> set (AList.update ident (filter (kill_succeeds (killpg ident) cur) groups) (sg_signalled s))" for i gs
      by (rule update_all [OF _ _ that]) (use 1 x in auto)
    show ?case
      unfolding x Let_def prod.case using 1(2) upd by simp
  qed simp
  with assms show ?thesis by blast
qed

lemma managed_entry_Some:
  assumes "managed_entry marker uid cur e = Some g"
  shows "1 < pg_pgid g \<and> pg_pgid g \<noteq> cur \<and> (\<exists>ino ctime text environ. pe_metadata e = Some (uid, ino, ctime)
        \<and> pe_stat e = Some text \<and> proc_process_group text = Some (pg_pgid g) \<and> read_proc_environ e = Some environ
        \<and> marker \<in> set (split_on (char_of (0::nat)) environ))"
  using assms by (auto simp: managed_entry_def not_le split: if_splits option.splits)

lemma discovered_group_entry:
  assumes "g \<in> set (pd_groups (discover_managed_process_groups is_dir listing cur ident uid))"
  shows "\<exists>entries e. listing = Inr entries \<and> e \<in> set entries \<and> managed_entry (''BK_RESERVATION_ID='' @ ident) uid cur e = Some g"
proof -
  from assms obtain entries where l: "is_dir" "listing = Inr entries"
    by (auto simp: discover_managed_process_groups_def split: if_splits sum.splits)
  with assms have "g \<in> snd ` set (found_groups (''BK_RESERVATION_ID='' @ ident) uid cur entries)"
    by (simp add: discover_managed_process_groups_def Let_def)
  then obtain k where "(k, g) \<in> set (found_groups (''BK_RESERVATION_ID='' @ ident) uid cur entries)" by force
  from found_group_entry [OF this] l(2) show ?thesis by blast
qed

text \<open>
  C33: whom the recovery signals. Every process group it has signalled for a reservation is the group
  of a process that \<^verbatim>\<open>/proc\<close> shows as owned by the user and whose environment carries that
  reservation's marker; it is never group 0 or 1 nor the worker's own group, and the reservation is
  one of those the recovery set out to terminate.
\<close>

theorem signals_are_safe:
  assumes "(ident, gs) \<in> set (sg_signalled (discover_and_signal_groups
      (discover_managed_process_groups is_dir listing cur) killpg cur uid idents))" and "g \<in> set gs"
  shows "ident \<in> set idents \<and> 1 < pg_pgid g \<and> pg_pgid g \<noteq> cur \<and> killpg ident (pg_pgid g) = Delivered
    \<and> (\<exists>entries e ino ctime text environ. listing = Inr entries \<and> e \<in> set entries \<and> pe_metadata e = Some (uid, ino, ctime)
        \<and> pe_stat e = Some text \<and> proc_process_group text = Some (pg_pgid g) \<and> read_proc_environ e = Some environ
        \<and> ''BK_RESERVATION_ID='' @ ident \<in> set (split_on (char_of (0::nat)) environ))"
proof -
  let ?discover = "discover_managed_process_groups is_dir listing cur"
  let ?current = "fst (discover_current ?discover uid idents)"
  from assms(1) have "(ident, gs) \<in> set (sg_signalled (signal_groups killpg cur ?current))"
    by (simp add: discover_and_signal_groups_def Let_def split_def)
  from signal_groups_signalled [OF this] obtain groups where
    g: "(ident, groups) \<in> set ?current" "gs = filter (kill_succeeds (killpg ident) cur) groups" by blast
  from discover_current_groups [OF g(1)] g(2) assms(2) have
    d: "ident \<in> set idents" "g \<in> set (pd_groups (?discover ident uid))" "kill_succeeds (killpg ident) cur g" by auto
  from discovered_group_entry [OF d(2)] obtain entries e where
    e: "listing = Inr entries" "e \<in> set entries" "managed_entry (''BK_RESERVATION_ID='' @ ident) uid cur e = Some g" by blast
  from managed_entry_Some [OF e(3)] e(1,2) d(1,3) show ?thesis unfolding kill_succeeds_def by blast
qed


theorem signals_are_safe_witness:
  "sg_signalled (discover_and_signal_groups (sample_discoverer [sample_entry]) (\<lambda>_ _. Delivered) 7 1000 [''r1''])
     = [(''r1'', [\<lparr>pg_pgid = 42, pg_member_pid = 43, pg_member_start_id = ''5:6''\<rparr>])]
   \<and> 1 < pg_pgid \<lparr>pg_pgid = 42, pg_member_pid = 43, pg_member_start_id = ''5:6''\<rparr>
   \<and> proc_process_group ''43 (python) S 1 42'' = Some 42"
proof -
  let ?g = "\<lparr>pg_pgid = 42, pg_member_pid = 43, pg_member_start_id = ''5:6''\<rparr>"
  have s: "sg_signalled (discover_and_signal_groups (sample_discoverer [sample_entry]) (\<lambda>_ _. Delivered) 7 1000 [''r1'']) = [(''r1'', [?g])]"
    by code_simp
  have "1 < pg_pgid ?g \<and> (\<exists>text. pe_stat sample_entry = Some text \<and> proc_process_group text = Some (pg_pgid ?g))"
    using signals_are_safe [of "''r1''" "[?g]" True "Inr [sample_entry]" 7 "\<lambda>_ _. Delivered" 1000 "[''r1'']" ?g]
      s [unfolded sample_discoverer_def] by auto
  with s show ?thesis by (auto simp: sample_entry_def)
qed

end
