(* ===== verification/Gpu_Usage.thy ===== *)
theory Gpu_Usage
  imports Requests "HOL-Library.AList"
begin

text \<open>
  \<^verbatim>\<open>bk/gpu.py\<close> and \<^verbatim>\<open>bk/usage.py\<close>: the telemetry snapshot of a GPU and its processes,
  the device tokens a job is bound to, the classification of each process against the reservations
  of the moment (with the attribution of root processes of containers), and the live state of each
  GPU. The samplers that fill a snapshot (NVML, \<^verbatim>\<open>nvidia-smi\<close>, the simulation file) are not
  modelled: a snapshot is an input. The account database of the host is an argument.
\<close>


section \<open>Snapshots\<close>

record gpu_process_snapshot =
  gp_pid :: int
  gp_uid :: "int option"
  gp_username :: string
  gp_command :: string
  gp_gpu_memory_mb :: int
  gp_sm_utilization_percent :: "int option"
  gp_kind :: string
  gp_host_start_id :: string
  gp_host_uid :: "int option"
  gp_identity_source :: string
  gp_container_runtime :: string
  gp_container_id :: string

record gpu_snapshot =
  gs_index :: int
  gs_name :: string
  gs_memory_used_mb :: int
  gs_memory_total_mb :: int
  gs_utilization_percent :: "int option"
  gs_temperature_c :: "int option"
  gs_processes :: "gpu_process_snapshot list"
  gs_source :: string
  gs_process_telemetry_available :: "bool option"
  gs_process_utilization_available :: "bool option"
  gs_device_uuid :: string

text \<open>\<^verbatim>\<open>{item.index: item for item in snapshots}\<close>: the last snapshot of an index wins.\<close>

definition by_index :: "gpu_snapshot list \<Rightarrow> int \<rightharpoonup> gpu_snapshot" where
  "by_index snapshots = map_of (rev (map (\<lambda>s. (gs_index s, s)) snapshots))"

definition has_process_telemetry :: "gpu_snapshot \<Rightarrow> bool" where
  "has_process_telemetry device =
     (case gs_process_telemetry_available device of
        Some available \<Rightarrow> available
      | None \<Rightarrow> gs_source device \<in> {''nvml'', ''simulation''})"

definition has_process_utilization :: "gpu_snapshot \<Rightarrow> bool" where
  "has_process_utilization device =
     (case gs_process_utilization_available device of
        Some available \<Rightarrow> available
      | None \<Rightarrow> gs_source device \<in> {''nvml'', ''simulation''})"

definition MAX_CUDA_DEVICE_IDENTIFIER_BYTES :: nat where
  "MAX_CUDA_DEVICE_IDENTIFIER_BYTES = 256"

definition is_ascii :: "char \<Rightarrow> bool" where
  "is_ascii ch \<longleftrightarrow> (of_char ch :: nat) < 128"

definition ascii_alnum :: "char \<Rightarrow> bool" where
  "ascii_alnum ch \<longleftrightarrow> (let n = of_char ch :: nat in
     (48 \<le> n \<and> n \<le> 57) \<or> (65 \<le> n \<and> n \<le> 90) \<or> (97 \<le> n \<and> n \<le> 122))"

text \<open>\<^verbatim>\<open>_cuda_device_identifier\<close> of a text, which is what a snapshot carries.\<close>

definition cuda_device_identifier :: "string \<Rightarrow> (value_error, string) result" where
  "cuda_device_identifier txt =
     raise_if (take 4 txt \<noteq> ''GPU-'' \<and> take 4 txt \<noteq> ''MIG-'') (ValueError ''GPU UUID must start with GPU- or MIG-'')
     (raise_if (\<not> list_all is_ascii txt) (ValueError ''GPU UUID must be ASCII'')
     (raise_if (length txt > MAX_CUDA_DEVICE_IDENTIFIER_BYTES) (ValueError ''GPU UUID is too long'')
     (raise_if (list_ex (\<lambda>ch. \<not> (is_ascii ch \<and> (ascii_alnum ch \<or> ch \<in> set ''-_/.:''))) txt)
        (ValueError ''GPU UUID contains an unsafe character'')
        (Inr txt))))"

definition has_stable_device_identifier :: "gpu_snapshot \<Rightarrow> bool" where
  "has_stable_device_identifier device =
     (case cuda_device_identifier (gs_device_uuid device) of
        Inl _ \<Rightarrow> False
      | Inr text \<Rightarrow> text = gs_device_uuid device)"

fun stable_tokens :: "(int \<rightharpoonup> gpu_snapshot) \<Rightarrow> int list \<Rightarrow> int list \<Rightarrow> string list \<Rightarrow> string list" where
  "stable_tokens devices indices [] tokens = tokens"
| "stable_tokens devices indices (index # rest) tokens =
     (case devices index of
        None \<Rightarrow> map show_int indices
      | Some device \<Rightarrow>
          if \<not> has_stable_device_identifier device then map show_int indices
          else stable_tokens devices indices rest (tokens @ [gs_device_uuid device]))"

definition cuda_visible_device_tokens :: "int list \<Rightarrow> gpu_snapshot list \<Rightarrow> string list" where
  "cuda_visible_device_tokens selected_gpus devices = stable_tokens (by_index devices) selected_gpus selected_gpus []"


section \<open>Processes against reservations\<close>

definition USAGE_AUTHORIZED :: string where "USAGE_AUTHORIZED = ''ok''"
definition USAGE_WRONG_GPU :: string where "USAGE_WRONG_GPU = ''wrong-gpu''"
definition USAGE_UNRESERVED :: string where "USAGE_UNRESERVED = ''unreserved''"
definition USAGE_UNKNOWN :: string where "USAGE_UNKNOWN = ''unknown''"
definition USAGE_SYSTEM :: string where "USAGE_SYSTEM = ''system''"

lemmas usage_status_defs = USAGE_AUTHORIZED_def USAGE_WRONG_GPU_def USAGE_UNRESERVED_def
  USAGE_UNKNOWN_def USAGE_SYSTEM_def

definition CONTAINER_IDENTITY_INFERRED :: string where "CONTAINER_IDENTITY_INFERRED = ''container-reservation''"
definition CONTAINER_IDENTITY_AMBIGUOUS :: string where "CONTAINER_IDENTITY_AMBIGUOUS = ''container-ambiguous''"

definition SYSTEM_GPU_PROCESS_NAMES :: "string list" where
  "SYSTEM_GPU_PROCESS_NAMES = [''gnome-shell'', ''kwin_wayland'', ''kwin_x11'', ''nvidia-persistenced'',
     ''nvidia-powerd'', ''xorg'', ''xwayland'']"

record process_usage =
  pu_gpu :: int
  pu_process :: gpu_process_snapshot
  pu_status :: string
  pu_reservation_ids :: "string list"

definition is_violation :: "process_usage \<Rightarrow> bool" where
  "is_violation item \<longleftrightarrow> pu_status item \<in> {USAGE_WRONG_GPU, USAGE_UNRESERVED}"

text \<open>\<^verbatim>\<open>s.split(maxsplit=1)[0]\<close> of a stripped text and \<^verbatim>\<open>s.rsplit("/", 1)[-1]\<close>.\<close>

definition first_word :: "string \<Rightarrow> string" where
  "first_word s = takeWhile (\<lambda>c. \<not> py_isspace c) s"

definition base_name :: "string \<Rightarrow> string" where
  "base_name s = rev (takeWhile (\<lambda>c. c \<noteq> CHR ''/'') (rev s))"

definition is_system_process :: "gpu_process_snapshot \<Rightarrow> bool" where
  "is_system_process process =
     (let executable = first_word (py_strip (gp_command process));
          name = py_lower (base_name executable)
      in name \<in> set SYSTEM_GPU_PROCESS_NAMES)"

text \<open>\<^verbatim>\<open>str(reservation.get("username", uid))\<close>\<close>

definition username_or :: "int \<Rightarrow> reservation \<Rightarrow> string" where
  "username_or uid r =
     (case rs_username r of Absent \<Rightarrow> show_int uid | Null \<Rightarrow> ''None'' | Present name \<Rightarrow> name)"

definition host_uid_of :: "gpu_process_snapshot \<Rightarrow> int option" where
  "host_uid_of process = (case gp_host_uid process of None \<Rightarrow> gp_uid process | Some u \<Rightarrow> Some u)"

text \<open>
  The dictionary of candidates has a key for each user who may use the runtime and holds a
  reservation of the GPU now; with one key, its value is every such reservation.
\<close>

definition infer_container_owner ::
  "int \<Rightarrow> gpu_process_snapshot \<Rightarrow> reservation list \<Rightarrow> (string \<Rightarrow> int \<Rightarrow> bool) \<Rightarrow> process_usage option" where
  "infer_container_owner gpu process current container_uid_allowed =
     (let reservations = filter (\<lambda>r. gpu \<in> set (rs_gpus r)
            \<and> \<not> (rs_uid r \<le> 0 \<or> \<not> container_uid_allowed (gp_container_runtime process) (rs_uid r))) current;
          candidates = remdups (map rs_uid reservations)
      in if length candidates > 1
         then Some \<lparr>pu_gpu = gpu,
                pu_process = process\<lparr>gp_host_uid := host_uid_of process,
                  gp_identity_source := CONTAINER_IDENTITY_AMBIGUOUS\<rparr>,
                pu_status = USAGE_UNKNOWN, pu_reservation_ids = []\<rparr>
         else case candidates of
           [] \<Rightarrow> None
         | uid # _ \<Rightarrow>
             Some \<lparr>pu_gpu = gpu,
                pu_process = process\<lparr>gp_uid := Some uid, gp_username := username_or uid (hd reservations),
                  gp_host_uid := host_uid_of process, gp_identity_source := CONTAINER_IDENTITY_INFERRED\<rparr>,
                pu_status = USAGE_AUTHORIZED, pu_reservation_ids = map rs_id reservations\<rparr>)"

definition classify_process ::
  "int \<Rightarrow> gpu_process_snapshot \<Rightarrow> reservation list \<Rightarrow> (string \<Rightarrow> int \<Rightarrow> bool) \<Rightarrow> process_usage" where
  "classify_process gpu process current container_uid_allowed =
     (if is_system_process process
      then \<lparr>pu_gpu = gpu, pu_process = process, pu_status = USAGE_SYSTEM, pu_reservation_ids = []\<rparr>
      else case gp_uid process of
        None \<Rightarrow> \<lparr>pu_gpu = gpu, pu_process = process, pu_status = USAGE_UNKNOWN, pu_reservation_ids = []\<rparr>
      | Some uid \<Rightarrow>
          (let user_reservations = filter (\<lambda>r. rs_uid r = uid) current;
               matches = filter (\<lambda>r. gpu \<in> set (rs_gpus r)) user_reservations
           in if matches \<noteq> []
              then \<lparr>pu_gpu = gpu, pu_process = process, pu_status = USAGE_AUTHORIZED,
                    pu_reservation_ids = map rs_id matches\<rparr>
              else case (if uid = 0 \<and> gp_container_runtime process \<noteq> [] \<and> gp_container_id process \<noteq> []
                         then infer_container_owner gpu process current container_uid_allowed else None) of
                Some inferred \<Rightarrow> inferred
              | None \<Rightarrow>
                  (if user_reservations \<noteq> []
                   then \<lparr>pu_gpu = gpu, pu_process = process, pu_status = USAGE_WRONG_GPU,
                         pu_reservation_ids = map rs_id user_reservations\<rparr>
                   else \<lparr>pu_gpu = gpu, pu_process = process, pu_status = USAGE_UNRESERVED,
                         pu_reservation_ids = []\<rparr>)))"

text \<open>The reservations in force at an instant.\<close>

definition current_reservations :: "reservation list \<Rightarrow> datetime \<Rightarrow> reservation list" where
  "current_reservations reservations instant =
     filter (\<lambda>r. rs_status r = ''active'' \<and> rs_start_at r \<le> instant \<and> instant < rs_end_at r) reservations"

definition usage_rows ::
  "gpu_snapshot \<Rightarrow> reservation list \<Rightarrow> (string \<Rightarrow> int \<Rightarrow> bool) \<Rightarrow> process_usage list" where
  "usage_rows gpu current access_check =
     sort_key (\<lambda>item. (\<not> is_violation item, gp_username (pu_process item), gp_pid (pu_process item)))
       (map (\<lambda>process. classify_process (gs_index gpu) process current access_check) (gs_processes gpu))"

definition classify_process_usage ::
  "gpu_snapshot list \<Rightarrow> reservation list \<Rightarrow> datetime \<Rightarrow> (string \<Rightarrow> int \<Rightarrow> bool) \<Rightarrow> int \<rightharpoonup> process_usage list" where
  "classify_process_usage snapshots reservations instant access_check =
     (let current = current_reservations reservations instant
      in map_of (rev (map (\<lambda>gpu. (gs_index gpu, usage_rows gpu current access_check)) snapshots)))"


section \<open>Who may use a container runtime\<close>

record account =
  pw_name :: string
  pw_gid :: int

record unix_group =
  gr_gid :: int
  gr_mem :: "string list"

text \<open>
  The host as the check reads it: mode and group of the Docker socket, if it exists, and the
  account and group databases, which answer nothing for an unknown key or on an error.
\<close>

record host_accounts =
  ha_docker_socket :: "(int \<times> int) option"
  ha_getpwuid :: "int \<rightharpoonup> account"
  ha_getgrnam :: "string \<rightharpoonup> unix_group"
  ha_getgrgid :: "int \<rightharpoonup> unix_group"

text \<open>\<^verbatim>\<open>mode & stat.S_IWOTH\<close> and \<^verbatim>\<open>mode & stat.S_IWGRP\<close>: bits 1 and 4.\<close>

definition others_write :: "int \<Rightarrow> bool" where
  "others_write mode \<longleftrightarrow> mode div 2 mod 2 = 1"

definition group_write :: "int \<Rightarrow> bool" where
  "group_write mode \<longleftrightarrow> mode div 16 mod 2 = 1"

definition uid_in_named_groups :: "host_accounts \<Rightarrow> int \<Rightarrow> string list \<Rightarrow> bool" where
  "uid_in_named_groups host uid group_names =
     (if group_names = [] then False
      else case ha_getpwuid host uid of
        None \<Rightarrow> False
      | Some acct \<Rightarrow>
          list_ex (\<lambda>name. case ha_getgrnam host name of
              None \<Rightarrow> False
            | Some grp \<Rightarrow> pw_gid acct = gr_gid grp \<or> pw_name acct \<in> set (gr_mem grp)) group_names)"

definition docker_group_member :: "host_accounts \<Rightarrow> int \<Rightarrow> int \<Rightarrow> int \<Rightarrow> bool" where
  "docker_group_member host uid docker_gid mode =
     (if \<not> group_write mode then False
      else case ha_getpwuid host uid of
        None \<Rightarrow> False
      | Some acct \<Rightarrow>
          (if pw_gid acct = docker_gid then True
           else case ha_getgrgid host docker_gid of
             None \<Rightarrow> False
           | Some grp \<Rightarrow> pw_name acct \<in> set (gr_mem grp)))"

definition uid_can_access_docker_socket :: "host_accounts \<Rightarrow> int \<Rightarrow> bool" where
  "uid_can_access_docker_socket host uid =
     (case ha_docker_socket host of
        None \<Rightarrow>
          (case ha_getgrnam host ''docker'' of
             None \<Rightarrow> False
           | Some grp \<Rightarrow> docker_group_member host uid (gr_gid grp) 16)
      | Some (st_mode, st_gid) \<Rightarrow>
          (if others_write st_mode then True else docker_group_member host uid st_gid st_mode))"

text \<open>The answers are cached for a minute by monotonic clock.\<close>

type_synonym access_key = "string \<times> int \<times> string list"
type_synonym access_cache = "(access_key \<times> (timedelta \<times> bool)) list"

definition CONTAINER_ACCESS_CACHE_SECONDS :: timedelta where
  "CONTAINER_ACCESS_CACHE_SECONDS = seconds 60"

definition refresh_access ::
  "host_accounts \<Rightarrow> timedelta \<Rightarrow> access_key \<Rightarrow> access_cache \<Rightarrow> bool \<times> access_cache" where
  "refresh_access host now key cache =
     (case key of (_, uid, normalized_groups) \<Rightarrow>
        let allowed = uid_can_access_docker_socket host uid \<or> uid_in_named_groups host uid normalized_groups;
            updated = AList.update key (now + CONTAINER_ACCESS_CACHE_SECONDS, allowed) cache
        in (allowed, if length updated > 4096
              then filter (\<lambda>(_, expires, _). \<not> expires \<le> now) updated else updated))"

definition uid_can_use_container_runtime ::
  "host_accounts \<Rightarrow> timedelta \<Rightarrow> string \<Rightarrow> int \<Rightarrow> string list \<Rightarrow> access_cache \<Rightarrow> bool \<times> access_cache" where
  "uid_can_use_container_runtime host now runtime uid extra_groups cache =
     (if runtime \<noteq> ''docker'' \<or> uid \<le> 0 then (False, cache)
      else let key = (runtime, uid, sorted_set extra_groups)
           in case map_of cache key of
             Some (expires, answer) \<Rightarrow>
               (if expires > now then (answer, cache) else refresh_access host now key cache)
           | None \<Rightarrow> refresh_access host now key cache)"


section \<open>Live states\<close>

definition GPU_LIVE_IDLE :: string where "GPU_LIVE_IDLE = ''idle''"
definition GPU_LIVE_UNKNOWN :: string where "GPU_LIVE_UNKNOWN = ''unknown''"
definition GPU_LIVE_BUSY :: string where "GPU_LIVE_BUSY = ''busy''"
definition GPU_BUSY_UTILIZATION_PERCENT :: int where "GPU_BUSY_UTILIZATION_PERCENT = 10"
definition GPU_BUSY_MEMORY_MIN_MB :: int where "GPU_BUSY_MEMORY_MIN_MB = 1024"

lemmas gpu_live_defs = GPU_LIVE_IDLE_def GPU_LIVE_UNKNOWN_def GPU_LIVE_BUSY_def

text \<open>The memory percentage is the exact quotient that the code keeps as a double.\<close>

record gpu_live_state =
  lv_index :: int
  lv_status :: string
  lv_reason :: string
  lv_score :: int
  lv_utilization_percent :: "int option"
  lv_memory_percent :: rat
  lv_process_count :: nat

definition or_zero :: "int option \<Rightarrow> int" where
  "or_zero v = (case v of None \<Rightarrow> 0 | Some n \<Rightarrow> n)"

definition memory_percent :: "gpu_snapshot \<Rightarrow> rat" where
  "memory_percent gpu =
     (if gs_memory_total_mb gpu = 0 then 0
      else min 100 (max 0 (of_int (gs_memory_used_mb gpu) * 100 / of_int (gs_memory_total_mb gpu))))"

text \<open>\<^verbatim>\<open>process.username or (str(process.uid) if process.uid is not None else "unknown")\<close>\<close>

definition owner_of :: "gpu_process_snapshot \<Rightarrow> string" where
  "owner_of process =
     (if gp_username process \<noteq> [] then gp_username process
      else case gp_uid process of Some uid \<Rightarrow> show_int uid | None \<Rightarrow> ''unknown'')"

text \<open>
  \<^verbatim>\<open>max(1024, int(total * 0.10) if total else 1024)\<close>. The double 0.1 exceeds a tenth by a
  factor of one plus two to the minus 54, less than half a unit in the last place, so below two to
  the 50 the truncated product is the quotient by ten; a negative total gives 1024 either way.
\<close>

definition busy_memory_limit :: "gpu_snapshot \<Rightarrow> int" where
  "busy_memory_limit gpu =
     max GPU_BUSY_MEMORY_MIN_MB
       (if gs_memory_total_mb gpu \<noteq> 0 then gs_memory_total_mb gpu div 10 else GPU_BUSY_MEMORY_MIN_MB)"

definition gpu_live_state_of :: "int \<Rightarrow> gpu_snapshot option \<Rightarrow> gpu_live_state" where
  "gpu_live_state_of index device =
     (case device of
        None \<Rightarrow> \<lparr>lv_index = index, lv_status = GPU_LIVE_UNKNOWN, lv_reason = ''live state unavailable'',
                 lv_score = 0, lv_utilization_percent = None, lv_memory_percent = 0, lv_process_count = 0\<rparr>
      | Some gpu \<Rightarrow>
          if gs_source gpu = ''none''
          then \<lparr>lv_index = index, lv_status = GPU_LIVE_UNKNOWN, lv_reason = ''live state unavailable'',
                 lv_score = 0, lv_utilization_percent = None, lv_memory_percent = 0, lv_process_count = 0\<rparr>
          else let active_processes = filter (\<lambda>process. \<not> is_system_process process) (gs_processes gpu);
                   utilization = or_zero (gs_utilization_percent gpu)
               in if active_processes \<noteq> []
                  then let process = hd (sort_key (\<lambda>item. (- or_zero (gp_sm_utilization_percent item),
                             - gp_gpu_memory_mb item, gp_pid item)) active_processes)
                       in \<lparr>lv_index = index, lv_status = GPU_LIVE_BUSY,
                           lv_reason = ''user='' @ owner_of process @ '' pid='' @ show_int (gp_pid process),
                           lv_score = 100000 + int (length active_processes) * 10000 + utilization * 100
                             + gs_memory_used_mb gpu,
                           lv_utilization_percent = gs_utilization_percent gpu,
                           lv_memory_percent = memory_percent gpu, lv_process_count = length active_processes\<rparr>
                  else if utilization \<ge> GPU_BUSY_UTILIZATION_PERCENT
                  then \<lparr>lv_index = index, lv_status = GPU_LIVE_BUSY,
                        lv_reason = ''util='' @ show_int utilization @ ''%'',
                        lv_score = 50000 + utilization * 100 + gs_memory_used_mb gpu,
                        lv_utilization_percent = gs_utilization_percent gpu,
                        lv_memory_percent = memory_percent gpu, lv_process_count = 0\<rparr>
                  else if gs_memory_used_mb gpu \<ge> busy_memory_limit gpu
                  then \<lparr>lv_index = index, lv_status = GPU_LIVE_BUSY,
                        lv_reason = ''memory='' @ show_int (gs_memory_used_mb gpu) @ ''MiB'',
                        lv_score = 40000 + gs_memory_used_mb gpu,
                        lv_utilization_percent = gs_utilization_percent gpu,
                        lv_memory_percent = memory_percent gpu, lv_process_count = 0\<rparr>
                  else \<lparr>lv_index = index, lv_status = GPU_LIVE_IDLE, lv_reason = [],
                        lv_score = utilization * 100 + gs_memory_used_mb gpu,
                        lv_utilization_percent = gs_utilization_percent gpu,
                        lv_memory_percent = memory_percent gpu, lv_process_count = 0\<rparr>)"

text \<open>The dictionary of states, in the order of its keys.\<close>

definition assess_gpu_live_states :: "gpu_snapshot list \<Rightarrow> int \<Rightarrow> (int \<times> gpu_live_state) list" where
  "assess_gpu_live_states snapshots n =
     map (\<lambda>index. (index, gpu_live_state_of index (by_index snapshots index))) [0..n - 1]"

definition status_order :: "string \<Rightarrow> rat" where
  "status_order status =
     (if status = GPU_LIVE_IDLE then 0 else if status = GPU_LIVE_UNKNOWN then 1
      else if status = GPU_LIVE_BUSY then 2 else 1)"

definition gpu_selection_order :: "(int \<times> gpu_live_state) list \<Rightarrow> (int \<rightharpoonup> rat) option \<Rightarrow> int list" where
  "gpu_selection_order states scores =
     map lv_index (sort_key (\<lambda>item.
       ((case scores of
           Some m \<Rightarrow> (case m (lv_index item) of None \<Rightarrow> 0 | Some score \<Rightarrow> score)
         | None \<Rightarrow> status_order (lv_status item)),
        status_order (lv_status item), lv_score item, lv_index item))
       (map snd states))"

end
