(* ===== verification/Launch_Guard.thy ===== *)
theory Launch_Guard
  imports Gpu_Usage Worker
begin

text \<open>
  \<^verbatim>\<open>bk/launch_guard.py\<close>: whether the GPUs of a due job are safe to launch on now, judged on a
  telemetry snapshot, and \<^verbatim>\<open>_launch_guard_eligibility\<close> of \<^verbatim>\<open>bk/worker.py\<close>, which asks
  it for every due job before the worker claims. The lemmas give the guard's verdict in terms of
  the snapshot alone.
\<close>


section \<open>The guard\<close>

definition positive_int :: "int option \<Rightarrow> int option" where
  "positive_int v = (case v of None \<Rightarrow> None | Some parsed \<Rightarrow> if parsed > 0 then Some parsed else None)"

definition inferred_share_memory :: "config \<Rightarrow> reservation \<Rightarrow> gpu_snapshot \<Rightarrow> int option" where
  "inferred_share_memory c r device =
     (if gs_memory_total_mb device \<le> 0 then None
      else let usable = max 0 (gs_memory_total_mb device - shared_memory_reserve_mb c)
           in Some (inferred_share_memory_mb usable (max_shared_users c)
                      (reservation_share_units r (max_shared_users c))))"

definition refuse :: "string \<Rightarrow> string \<Rightarrow> launch_guard_decision" where
  "refuse reason key = \<lparr>ld_ready = False, ld_reason = reason, ld_key = key, ld_cuda_visible_devices = []\<rparr>"

definition gpu_key :: "int \<Rightarrow> string \<Rightarrow> string" where
  "gpu_key index what = ''gpu:'' @ show_int index @ '':'' @ what"

definition process_text :: "gpu_process_snapshot \<Rightarrow> string" where
  "process_text process = '' process user='' @ owner_of process @ '' pid='' @ show_int (gp_pid process)"

text \<open>The memory check of one GPU: the budget, or for a shared job without one the inferred share.\<close>

definition guard_memory :: "config \<Rightarrow> reservation \<Rightarrow> int \<Rightarrow> gpu_snapshot \<Rightarrow> launch_guard_decision option" where
  "guard_memory c r index device =
     (let expected_memory_mb = positive_int (rs_expected_memory_mb r);
          no_capacity = refuse (''GPU '' @ show_int index @ '' memory capacity is unavailable'')
            (gpu_key index ''memory-capacity'');
          required_memory_mb = (if rs_mode r \<noteq> MODE_EXCLUSIVE \<and> expected_memory_mb = None
            then inferred_share_memory c r device else expected_memory_mb)
      in case required_memory_mb of
           None \<Rightarrow> (if rs_mode r \<noteq> MODE_EXCLUSIVE then Some no_capacity else None)
         | Some required \<Rightarrow>
             (if gs_memory_total_mb device \<le> 0 then Some no_capacity
              else let available_mb = max 0 (gs_memory_total_mb device - gs_memory_used_mb device
                         - shared_memory_reserve_mb c)
                   in if available_mb < required
                      then Some (refuse (''GPU '' @ show_int index @ '' has '' @ show_int available_mb
                             @ ''MiB launch headroom; '' @ show_int required @ ''MiB is required'')
                             (gpu_key index ''vram''))
                      else None))"

text \<open>
  One turn of the loop over the reserved GPUs, the refusal it returns if any: first on the
  telemetry of the device, then on its processes, memory and activity.
\<close>

definition busy_reason :: "gpu_live_state \<Rightarrow> string" where
  "busy_reason state =
     (if lv_reason state \<noteq> [] then lv_reason state
      else ''activity is present but process ownership is unavailable'')"

definition guard_activity ::
  "config \<Rightarrow> reservation \<Rightarrow> int \<Rightarrow> gpu_snapshot \<Rightarrow> gpu_live_state \<Rightarrow> process_usage list
    \<Rightarrow> launch_guard_decision option" where
  "guard_activity c r index device state rows =
     (let unsafe = filter (\<lambda>item. pu_status item \<noteq> USAGE_AUTHORIZED) rows
      in if unsafe \<noteq> []
         then Some (refuse (''GPU '' @ show_int index @ '' has '' @ pu_status (hd unsafe)
                @ process_text (pu_process (hd unsafe)))
                (gpu_key index (''process:'' @ pu_status (hd unsafe))))
         else if rs_mode r = MODE_EXCLUSIVE \<and> rows \<noteq> []
         then Some (refuse (''exclusive GPU '' @ show_int index @ '' still has''
                @ process_text (pu_process (hd rows))) (gpu_key index ''exclusive-process''))
         else case guard_memory c r index device of
           Some refusal \<Rightarrow> Some refusal
         | None \<Rightarrow>
             (if lv_status state = GPU_LIVE_BUSY \<and> (rs_mode r = MODE_EXCLUSIVE \<or> rows = [])
              then Some (refuse (''GPU '' @ show_int index @ '' is busy: '' @ busy_reason state)
                     (gpu_key index ''busy''))
              else None))"

definition guard_gpu ::
  "config \<Rightarrow> reservation \<Rightarrow> (int \<rightharpoonup> gpu_snapshot) \<Rightarrow> (int \<rightharpoonup> gpu_live_state) \<Rightarrow> (int \<rightharpoonup> process_usage list)
    \<Rightarrow> int \<Rightarrow> launch_guard_decision option" where
  "guard_gpu c r devices live usage index =
     (let no_telemetry = Some (refuse (''GPU '' @ show_int index @ '' live telemetry is unavailable'')
            (gpu_key index ''telemetry''))
      in case (devices index, live index) of
        (Some device, Some state) \<Rightarrow>
          if gs_source device = ''none'' \<or> lv_status state = GPU_LIVE_UNKNOWN then no_telemetry
          else if \<not> has_process_telemetry device
          then Some (refuse (''GPU '' @ show_int index @ '' process telemetry is unavailable'')
                 (gpu_key index ''process-telemetry''))
          else if gs_source device = ''nvml'' \<and> \<not> has_stable_device_identifier device
          then Some (refuse (''GPU '' @ show_int index @ '' stable identifier is unavailable'')
                 (gpu_key index ''stable-identifier''))
          else guard_activity c r index device state (filter (\<lambda>item. pu_status item \<noteq> USAGE_SYSTEM)
                 (case usage index of None \<Rightarrow> [] | Some items \<Rightarrow> items))
      | _ \<Rightarrow> no_telemetry)"

definition assess_job_launch ::
  "config \<Rightarrow> reservation \<Rightarrow> gpu_snapshot list \<Rightarrow> reservation list \<Rightarrow> (string \<Rightarrow> int \<Rightarrow> bool) \<Rightarrow> datetime
    \<Rightarrow> launch_guard_decision" where
  "assess_job_launch c r snapshots active_reservations access_check checked_at =
     (let devices = by_index snapshots;
          live = map_of (assess_gpu_live_states snapshots (gpu_count c));
          usage = classify_process_usage snapshots active_reservations checked_at access_check;
          selected_gpus = rs_gpus r
      in if selected_gpus = [] then refuse ''reservation has no GPU assignment'' ''invalid-assignment''
         else case first_some (guard_gpu c r devices live usage) selected_gpus of
           Some refusal \<Rightarrow> refusal
         | None \<Rightarrow> \<lparr>ld_ready = True, ld_reason = [], ld_key = [],
                     ld_cuda_visible_devices = cuda_visible_device_tokens selected_gpus snapshots\<rparr>)"


section \<open>The guard in the worker's pass\<close>

record guard_pass =
  ep_eligible :: "string list"
  ep_waiting :: int
  ep_notices :: "string list"
  ep_launch_devices :: "string \<rightharpoonup> string list"

text \<open>
  The decisions, a dictionary over the identifiers of the due jobs, on the ledger as loaded;
  the notes are written by a transaction on the ledger as it is by then.
\<close>

definition launch_decisions ::
  "config \<Rightarrow> actor \<Rightarrow> datetime \<Rightarrow> gpu_snapshot list \<Rightarrow> (string \<Rightarrow> int \<Rightarrow> bool) \<Rightarrow> ledger
    \<Rightarrow> string \<rightharpoonup> launch_guard_decision" where
  "launch_decisions c actor now devices access_check l =
     map_of (rev (map (\<lambda>r. (rs_id r, assess_job_launch c r devices (list_active l now) access_check now))
       (due_pending_jobs l actor now)))"

definition launch_guard_eligibility ::
  "config \<Rightarrow> actor \<Rightarrow> datetime \<Rightarrow> (config \<Rightarrow> gpu_snapshot list) \<Rightarrow> (string \<Rightarrow> int \<Rightarrow> bool) \<Rightarrow> (nat \<Rightarrow> datetime)
    \<Rightarrow> ledger \<Rightarrow> ledger \<Rightarrow> guard_pass effect" where
  "launch_guard_eligibility c actor now snapshot_provider access_check log_clock loaded l =
     (let due_jobs = due_pending_jobs loaded actor now in
      if due_jobs = []
      then (l, \<lparr>ep_eligible = [], ep_waiting = 0, ep_notices = [], ep_launch_devices = Map.empty\<rparr>, [], False)
      else let decisions = launch_decisions c actor now (snapshot_provider c) access_check loaded;
               ids = remdups (map rs_id due_jobs);
               eligible = filter (\<lambda>i. case decisions i of None \<Rightarrow> False | Some d \<Rightarrow> ld_ready d) ids;
               (l', notices, logs, changed) = record_launch_guard_decisions actor decisions now log_clock l
           in (l', \<lparr>ep_eligible = eligible, ep_waiting = int (length ids) - int (length eligible),
                    ep_notices = notices,
                    ep_launch_devices = (\<lambda>i. case decisions i of
                        None \<Rightarrow> None
                      | Some d \<Rightarrow> if ld_ready d \<and> ld_cuda_visible_devices d \<noteq> []
                                   then Some (ld_cuda_visible_devices d) else None)\<rparr>,
               logs, changed))"


section \<open>What a clear GPU is\<close>

text \<open>
  The guard's promise without its intermediate tables: a process may compute on a GPU if its user
  holds the GPU now, or if it is the root process of a container and exactly one user who may use
  the runtime holds the GPU now.
\<close>

definition may_compute :: "(string \<Rightarrow> int \<Rightarrow> bool) \<Rightarrow> reservation list \<Rightarrow> int \<Rightarrow> gpu_process_snapshot \<Rightarrow> bool" where
  "may_compute access_check current g p =
     (case gp_uid p of
        None \<Rightarrow> False
      | Some u \<Rightarrow>
          (\<exists>x \<in> set current. rs_uid x = u \<and> g \<in> set (rs_gpus x))
          \<or> u = 0 \<and> gp_container_runtime p \<noteq> [] \<and> gp_container_id p \<noteq> []
            \<and> (\<exists>!v. \<exists>x \<in> set current. rs_uid x = v \<and> g \<in> set (rs_gpus x) \<and> 0 < v
                  \<and> access_check (gp_container_runtime p) v))"

definition user_processes :: "gpu_snapshot \<Rightarrow> gpu_process_snapshot list" where
  "user_processes d = filter (\<lambda>p. \<not> is_system_process p) (gs_processes d)"

definition quiet :: "gpu_snapshot \<Rightarrow> bool" where
  "quiet d \<longleftrightarrow> or_zero (gs_utilization_percent d) < GPU_BUSY_UTILIZATION_PERCENT
     \<and> gs_memory_used_mb d < busy_memory_limit d"

text \<open>The memory a launch needs: the budget, or the inferred share of a shared job without one.\<close>

definition launch_budget :: "config \<Rightarrow> reservation \<Rightarrow> gpu_snapshot \<Rightarrow> int option" where
  "launch_budget c r d =
     (case positive_int (rs_expected_memory_mb r) of
        Some m \<Rightarrow> Some m
      | None \<Rightarrow> if rs_mode r = MODE_EXCLUSIVE then None
                 else Some (inferred_share_memory_mb (max 0 (gs_memory_total_mb d - shared_memory_reserve_mb c))
                        (max_shared_users c) (reservation_share_units r (max_shared_users c))))"

definition launch_memory_fits :: "config \<Rightarrow> reservation \<Rightarrow> gpu_snapshot \<Rightarrow> bool" where
  "launch_memory_fits c r d =
     (case launch_budget c r d of
        None \<Rightarrow> True
      | Some m \<Rightarrow> 0 < gs_memory_total_mb d
          \<and> m + gs_memory_used_mb d + shared_memory_reserve_mb c \<le> gs_memory_total_mb d)"

definition observed :: "gpu_snapshot \<Rightarrow> bool" where
  "observed d \<longleftrightarrow> gs_source d \<noteq> ''none'' \<and> has_process_telemetry d
     \<and> (gs_source d = ''nvml'' \<longrightarrow> has_stable_device_identifier d)"

definition gpu_clear ::
  "config \<Rightarrow> reservation \<Rightarrow> gpu_snapshot list \<Rightarrow> reservation list \<Rightarrow> (string \<Rightarrow> int \<Rightarrow> bool) \<Rightarrow> int \<Rightarrow> bool" where
  "gpu_clear c r snapshots current access_check g \<longleftrightarrow>
     0 \<le> g \<and> g < gpu_count c \<and>
     (\<exists>d. by_index snapshots g = Some d \<and> observed d
       \<and> (\<forall>p \<in> set (user_processes d). may_compute access_check current g p)
       \<and> (rs_mode r = MODE_EXCLUSIVE \<longrightarrow> user_processes d = [])
       \<and> launch_memory_fits c r d
       \<and> (user_processes d = [] \<longrightarrow> quiet d))"

definition launch_clear ::
  "config \<Rightarrow> reservation \<Rightarrow> gpu_snapshot list \<Rightarrow> reservation list \<Rightarrow> (string \<Rightarrow> int \<Rightarrow> bool) \<Rightarrow> datetime \<Rightarrow> bool" where
  "launch_clear c r snapshots active access_check now \<longleftrightarrow>
     rs_gpus r \<noteq> []
     \<and> (\<forall>g \<in> set (rs_gpus r). gpu_clear c r snapshots (current_reservations active now) access_check g)"


section \<open>The tables of the guard\<close>

lemma map_of_index: "map_of (map (\<lambda>s. (k s, f s)) xs) i = map_option f (map_of (map (\<lambda>s. (k s, s)) xs) i)"
  by (induction xs) auto

lemma map_of_keyed: "map_of (map (\<lambda>s. (k s, s)) xs) i = Some s \<Longrightarrow> s \<in> set xs \<and> k s = i"
  by (induction xs) (auto split: if_splits)

lemma by_index_Some: "by_index snaps g = Some d \<Longrightarrow> d \<in> set snaps \<and> gs_index d = g"
  using map_of_keyed [of gs_index "rev snaps" g d] by (simp add: by_index_def rev_map)

lemma classify_usage_at:
  "classify_process_usage snaps rs now access g =
     map_option (\<lambda>d. usage_rows d (current_reservations rs now) access) (by_index snaps g)"
  using map_of_index [of gs_index "\<lambda>d. usage_rows d (current_reservations rs now) access" "rev snaps" g]
  by (simp add: classify_process_usage_def by_index_def rev_map)

lemma live_state_at:
  "map_of (assess_gpu_live_states snaps n) g =
     (if 0 \<le> g \<and> g < n then Some (gpu_live_state_of g (by_index snaps g)) else None)"
  by (auto simp: assess_gpu_live_states_def map_of_eq_None_iff image_image intro: map_of_is_SomeI
      simp: distinct_map comp_def map_of_map_restrict)

lemma live_unknown_iff:
  "lv_status (gpu_live_state_of g (Some d)) = GPU_LIVE_UNKNOWN \<longleftrightarrow> gs_source d = ''none''"
  by (simp add: gpu_live_state_of_def gpu_live_defs Let_def)

lemma live_busy_iff:
  "gs_source d \<noteq> ''none'' \<Longrightarrow>
     lv_status (gpu_live_state_of g (Some d)) = GPU_LIVE_BUSY \<longleftrightarrow> user_processes d \<noteq> [] \<or> \<not> quiet d"
  by (auto simp: gpu_live_state_of_def gpu_live_defs user_processes_def quiet_def Let_def not_le)

lemma remdups_single: "(\<exists>u. remdups xs = [u]) \<longleftrightarrow> (\<exists>!u. u \<in> set xs)"
proof
  assume "\<exists>u. remdups xs = [u]"
  then obtain u where "remdups xs = [u]" by blast
  then have "set xs = {u}" by (metis set_remdups list.set(1) list.set(2))
  then show "\<exists>!u. u \<in> set xs" by auto
next
  assume "\<exists>!u. u \<in> set xs"
  then obtain u where u: "set xs = {u}" by auto
  then have "set (remdups xs) = {u}" by simp
  moreover have "distinct (remdups xs)" by simp
  ultimately have "remdups xs = [u]"
    by (cases "remdups xs"; cases "tl (remdups xs)") auto
  then show "\<exists>u. remdups xs = [u]" by blast
qed

lemma infer_owner_authorized:
  "(case infer_container_owner g p current access of None \<Rightarrow> False | Some u \<Rightarrow> pu_status u = USAGE_AUTHORIZED) \<longleftrightarrow>
     (\<exists>!v. \<exists>x \<in> set current. rs_uid x = v \<and> g \<in> set (rs_gpus x) \<and> 0 < v \<and> access (gp_container_runtime p) v)"
    (is "?L \<longleftrightarrow> ?R")
proof -
  let ?ok = "\<lambda>r. g \<in> set (rs_gpus r) \<and> \<not> (rs_uid r \<le> 0 \<or> \<not> access (gp_container_runtime p) (rs_uid r))"
  let ?us = "map rs_uid (filter ?ok current)"
  have "?L \<longleftrightarrow> (\<exists>u. remdups ?us = [u])"
    by (cases "remdups ?us"; cases "tl (remdups ?us)")
       (auto simp: infer_container_owner_def Let_def usage_status_defs)
  also have "\<dots> \<longleftrightarrow> (\<exists>!u. u \<in> set ?us)" by (rule remdups_single)
  also have "\<dots> \<longleftrightarrow> ?R" by (rule arg_cong [where f = Ex1]) (auto simp: fun_eq_iff image_iff)
  finally show ?thesis .
qed

lemma infer_owner_status:
  "infer_container_owner g p current access = Some u \<Longrightarrow> pu_status u \<in> {USAGE_AUTHORIZED, USAGE_UNKNOWN}"
  by (auto simp: infer_container_owner_def Let_def split: if_splits list.splits)

lemma classify_system: "pu_status (classify_process g p current access) = USAGE_SYSTEM \<longleftrightarrow> is_system_process p"
  using infer_owner_status [of g p current access]
  by (auto simp: classify_process_def usage_status_defs Let_def split: option.splits)

lemma classify_authorized:
  assumes "\<not> is_system_process p"
  shows "pu_status (classify_process g p current access) = USAGE_AUTHORIZED \<longleftrightarrow> may_compute access current g p"
proof (cases "gp_uid p")
  case None
  with assms show ?thesis by (simp add: classify_process_def may_compute_def usage_status_defs)
next
  case (Some u)
  let ?mine = "\<exists>x \<in> set current. rs_uid x = u \<and> g \<in> set (rs_gpus x)"
  let ?inf = "infer_container_owner g p current access"
  have ms: "filter (\<lambda>r. g \<in> set (rs_gpus r)) (filter (\<lambda>r. rs_uid r = u) current) \<noteq> [] \<longleftrightarrow> ?mine"
    by (auto simp: filter_empty_conv)
  show ?thesis
  proof (cases ?mine)
    case True
    with ms Some assms show ?thesis by (simp add: classify_process_def may_compute_def Let_def del: filter_filter)
  next
    case False
    with ms have none: "filter (\<lambda>r. g \<in> set (rs_gpus r)) (filter (\<lambda>r. rs_uid r = u) current) = []" by blast
    have "pu_status (classify_process g p current access) = USAGE_AUTHORIZED \<longleftrightarrow>
        u = 0 \<and> gp_container_runtime p \<noteq> [] \<and> gp_container_id p \<noteq> []
        \<and> (case ?inf of None \<Rightarrow> False | Some q \<Rightarrow> pu_status q = USAGE_AUTHORIZED)"
      using Some assms none unfolding classify_process_def Let_def
      by (auto simp: usage_status_defs simp del: filter_filter split: option.splits if_splits)
    then show ?thesis unfolding infer_owner_authorized using False Some by (auto simp: may_compute_def)
  qed
qed

lemma set_usage_rows:
  "set (usage_rows d current access) = (\<lambda>p. classify_process (gs_index d) p current access) ` set (gs_processes d)"
  by (simp add: usage_rows_def)

lemma user_rows_empty:
  "filter (\<lambda>item. pu_status item \<noteq> USAGE_SYSTEM) (usage_rows d current access) = [] \<longleftrightarrow> user_processes d = []"
  by (auto simp: filter_empty_conv set_usage_rows classify_system user_processes_def)

lemma user_rows_safe:
  "(\<forall>item \<in> set (filter (\<lambda>item. pu_status item \<noteq> USAGE_SYSTEM) (usage_rows d current access)).
      pu_status item = USAGE_AUTHORIZED) \<longleftrightarrow>
    (\<forall>p \<in> set (user_processes d). may_compute access current (gs_index d) p)"
  using classify_authorized [where g = "gs_index d" and current = current and access = access]
  by (auto simp: set_usage_rows classify_system user_processes_def)

lemma guard_memory_None: "guard_memory c r index d = None \<longleftrightarrow> launch_memory_fits c r d"
proof -
  have one: "1 \<le> inferred_share_memory_mb a b e" for a b e by (simp add: inferred_share_memory_mb_def)
  show ?thesis
    using one [of "max 0 (gs_memory_total_mb d - shared_memory_reserve_mb c)" "max_shared_users c"
        "reservation_share_units r (max_shared_users c)"]
    by (auto simp: guard_memory_def launch_memory_fits_def launch_budget_def inferred_share_memory_def positive_int_def Let_def
        split: option.splits if_splits)
qed

lemma guard_activity_None:
  "guard_activity c r g d state rows = None \<longleftrightarrow>
     (\<forall>item \<in> set rows. pu_status item = USAGE_AUTHORIZED) \<and> (rs_mode r = MODE_EXCLUSIVE \<longrightarrow> rows = [])
     \<and> launch_memory_fits c r d
     \<and> \<not> (lv_status state = GPU_LIVE_BUSY \<and> (rs_mode r = MODE_EXCLUSIVE \<or> rows = []))"
  by (auto simp: guard_activity_def Let_def guard_memory_None [of c r g, symmetric] filter_empty_conv
      split: option.split)

lemma guard_gpu_None:
  "guard_gpu c r (by_index snaps) (map_of (assess_gpu_live_states snaps (gpu_count c)))
     (classify_process_usage snaps active now access) g = None \<longleftrightarrow>
   gpu_clear c r snaps (current_reservations active now) access g"
proof (cases "by_index snaps g")
  case None
  then show ?thesis by (simp add: guard_gpu_def gpu_clear_def Let_def)
next
  case (Some d)
  let ?rows = "filter (\<lambda>item. pu_status item \<noteq> USAGE_SYSTEM) (usage_rows d (current_reservations active now) access)"
  let ?state = "gpu_live_state_of g (Some d)"
  from by_index_Some [OF Some] have g: "gs_index d = g" by simp
  have "guard_gpu c r (by_index snaps) (map_of (assess_gpu_live_states snaps (gpu_count c)))
        (classify_process_usage snaps active now access) g = None \<longleftrightarrow>
      0 \<le> g \<and> g < gpu_count c \<and> observed d \<and> guard_activity c r g d ?state ?rows = None"
    by (auto simp: guard_gpu_def observed_def Some live_state_at classify_usage_at live_unknown_iff Let_def)
  also have "\<dots> \<longleftrightarrow> gpu_clear c r snaps (current_reservations active now) access g"
    unfolding guard_activity_None user_rows_empty user_rows_safe gpu_clear_def g
    using Some live_busy_iff [of d g] by (auto simp: observed_def)
  finally show ?thesis .
qed

lemma refuse_simps [simp]: "\<not> ld_ready (refuse why key)" "ld_cuda_visible_devices (refuse why key) = []"
  by (simp_all add: refuse_def)

lemma guard_refusal:
  "guard_memory c r g d = Some v \<Longrightarrow> \<exists>why key. v = refuse why key"
  "guard_activity c r g d state rows = Some v \<Longrightarrow> \<exists>why key. v = refuse why key"
  "guard_gpu c r devices live usage g = Some v \<Longrightarrow> \<exists>why key. v = refuse why key"
proof -
  show m: "\<exists>why key. v = refuse why key" if "guard_memory c r g d = Some v" for d
    using that by (auto simp: guard_memory_def Let_def split: if_splits option.splits)
  show a: "\<exists>why key. v = refuse why key" if "guard_activity c r g d state rows = Some v" for d state rows
    using that m [of d] by (auto simp: guard_activity_def Let_def split: if_splits option.splits)
  show "\<exists>why key. v = refuse why key" if "guard_gpu c r devices live usage g = Some v"
    using that by (auto simp: guard_gpu_def Let_def split: if_splits option.splits intro: a)
qed

lemma first_some_SomeD: "first_some f xs = Some y \<Longrightarrow> \<exists>x \<in> set xs. f x = Some y"
  by (induction xs) (auto split: option.splits)

text \<open>The tokens of a list of GPUs: each stable identifier, or every index.\<close>

lemma stable_tokens_cases:
  "stable_tokens devices all xs done =
     (if \<forall>i \<in> set xs. \<exists>d. devices i = Some d \<and> has_stable_device_identifier d
      then done @ map (\<lambda>i. gs_device_uuid (the (devices i))) xs else map show_int all)"
  by (induction xs arbitrary: "done") (auto split: option.splits)

definition device_token :: "gpu_snapshot list \<Rightarrow> int \<Rightarrow> string" where
  "device_token snaps g = gs_device_uuid (the (by_index snaps g))"

lemma device_tokens:
  "cuda_visible_device_tokens gpus snaps =
     (if \<forall>g \<in> set gpus. \<exists>d. by_index snaps g = Some d \<and> has_stable_device_identifier d
      then map (device_token snaps) gpus else map show_int gpus)"
  unfolding cuda_visible_device_tokens_def stable_tokens_cases device_token_def by (rule if_cong) auto

lemma device_tokens_length [simp]: "length (cuda_visible_device_tokens gpus snaps) = length gpus"
  by (simp add: device_tokens)


lemma launch_verdict:
  "ld_ready (assess_job_launch c r snaps active access now) = launch_clear c r snaps active access now
   \<and> ld_cuda_visible_devices (assess_job_launch c r snaps active access now) =
       (if launch_clear c r snaps active access now then cuda_visible_device_tokens (rs_gpus r) snaps else [])"
proof -
  let ?f = "guard_gpu c r (by_index snaps) (map_of (assess_gpu_live_states snaps (gpu_count c)))
     (classify_process_usage snaps active now access)"
  show ?thesis
  proof (cases "rs_gpus r = []")
    case True
    then show ?thesis by (simp add: assess_job_launch_def launch_clear_def refuse_def)
  next
    case False
    have clear: "launch_clear c r snaps active access now \<longleftrightarrow> first_some ?f (rs_gpus r) = None"
      using False by (simp add: launch_clear_def first_some_None guard_gpu_None)
    show ?thesis
    proof (cases "first_some ?f (rs_gpus r)")
      case None
      with clear False show ?thesis by (simp add: assess_job_launch_def)
    next
      case (Some d)
      from first_some_SomeD [OF Some] guard_refusal(3) obtain why key where "d = refuse why key" by blast
      with Some clear False show ?thesis by (simp add: assess_job_launch_def)
    qed
  qed
qed

section \<open>The verdict\<close>

text \<open>
  C10: the launch guard admits a job exactly when its reservation has GPUs and every one of them is
  clear: configured and in the snapshot with process telemetry (and under NVML a stable
  identifier), every process on it that is not of the display system belongs to a user who holds
  the GPU at this instant (or is a container root process attributable to exactly one such user),
  none at all if the job is exclusive, enough free memory beyond the reserve for the budget or the
  inferred share, and no unexplained utilisation or memory use when nobody is on it. The devices it
  hands over are then one token per reserved GPU.
\<close>

theorem launch_guard_exact:
  "ld_ready (assess_job_launch c r snaps active access now) = launch_clear c r snaps active access now
   \<and> ld_cuda_visible_devices (assess_job_launch c r snaps active access now) =
       (if launch_clear c r snaps active access now then cuda_visible_device_tokens (rs_gpus r) snaps else [])"
  by (rule launch_verdict)

end
