(* ===== verification/Guard_Claims.thy ===== *)
theory Guard_Claims
  imports Launch_Guard Job_Claims
begin

text \<open>
  The launch guard in the worker's pass: what the eligibility check and the claim that follows it
  guarantee together, although other clients write between the two, and the freshness of the
  cached answers on who may use a container runtime.
\<close>


section \<open>From the guard to the claim\<close>

lemma launch_decisions_ready:
  assumes "launch_decisions c actor now snaps access l i = Some d" and "ld_ready d"
  shows "\<exists>r \<in> set (due_pending_jobs l actor now). rs_id r = i \<and> launch_clear c r snaps (list_active l now) access now
    \<and> ld_cuda_visible_devices d = cuda_visible_device_tokens (rs_gpus r) snaps"
proof -
  let ?f = "\<lambda>r. assess_job_launch c r snaps (list_active l now) access now"
  from assms(1) obtain r where r: "r \<in> set (due_pending_jobs l actor now)" "rs_id r = i" "d = ?f r"
    by (auto simp: launch_decisions_def dest!: map_of_SomeD)
  with assms(2) launch_verdict [of c r snaps "list_active l now" access now] show ?thesis by auto
qed

lemma eligible_is_clear:
  assumes "launch_guard_eligibility c actor now provider access clock loaded l = (l', pass, logs, ch)"
    and "i \<in> set (ep_eligible pass)"
  shows "\<exists>r \<in> set (due_pending_jobs loaded actor now). rs_id r = i
    \<and> launch_clear c r (provider c) (list_active loaded now) access now
    \<and> ep_launch_devices pass i = Some (cuda_visible_device_tokens (rs_gpus r) (provider c))"
proof -
  let ?d = "launch_decisions c actor now (provider c) access loaded"
  from assms have i: "\<exists>d. ?d i = Some d \<and> ld_ready d"
    and devices: "ep_launch_devices pass i = (case ?d i of None \<Rightarrow> None
      | Some d \<Rightarrow> if ld_ready d \<and> ld_cuda_visible_devices d \<noteq> [] then Some (ld_cuda_visible_devices d) else None)"
    by (auto simp: launch_guard_eligibility_def Let_def split: if_splits prod.splits option.splits)
  from i obtain d where d: "?d i = Some d" "ld_ready d" by blast
  from launch_decisions_ready [OF this] obtain r where r: "r \<in> set (due_pending_jobs loaded actor now)" "rs_id r = i"
    "launch_clear c r (provider c) (list_active loaded now) access now"
    "ld_cuda_visible_devices d = cuda_visible_device_tokens (rs_gpus r) (provider c)" by blast
  then have "rs_gpus r \<noteq> []" by (simp add: launch_clear_def)
  then have "cuda_visible_device_tokens (rs_gpus r) (provider c) \<noteq> []"
    by (metis device_tokens_length length_0_conv)
  with r d devices show ?thesis by (intro bexI [of _ r]) auto
qed

lemma claimed_is_eligible:
  assumes "claim_due_jobs actor cc l = (l', claimed, logs, ch)" and "cc_eligible_ids cc = Some ids" and "r \<in> set claimed"
  shows "rs_id r \<in> set ids"
proof -
  let ?xs = "take (nat (cc_limit cc)) (filter (claimable actor cc) (by_start (lg_reservations l)))"
  have "rs_id r \<in> rs_id ` set ?xs"
    using claim_due_jobs_claimed [OF assms(1)] assms(3) claimed_from_ids [of cc 0 ?xs] by (metis image_eqI set_map)
  then show ?thesis using assms(2) by (auto simp: claimable_def dest: in_set_takeD)
qed

section \<open>Started reservations stay on their GPUs\<close>

text \<open>
  Every reservation with the identifier \<open>i\<close> holds the GPUs \<open>gs\<close> from the instant \<open>start\<close> on.
\<close>

definition holds_gpus :: "string \<Rightarrow> int list \<Rightarrow> datetime \<Rightarrow> reservation list \<Rightarrow> bool" where
  "holds_gpus i gs start rs \<longleftrightarrow> (\<forall>r \<in> set rs. rs_id r = i \<longrightarrow> rs_gpus r = gs \<and> rs_start_at r = start)"

lemma holds_gpus_same_bookings:
  assumes "list_all2 (same_booking now) rs rs'" and "holds_gpus i gs start rs"
  shows "holds_gpus i gs start rs'"
  unfolding holds_gpus_def
proof (intro ballI impI)
  fix r' assume "r' \<in> set rs'" "rs_id r' = i"
  with assms(1) obtain r where "r \<in> set rs" "same_booking now r r'"
    by (metis in_set_conv_nth list_all2_conv_all_nth)
  with assms(2) \<open>rs_id r' = i\<close> show "rs_gpus r' = gs \<and> rs_start_at r' = start"
    using same_booking_fields [of now r r'] by (auto simp: holds_gpus_def)
qed

lemma holds_gpus_maintain:
  "holds_gpus i gs start (lg_reservations l) \<Longrightarrow> holds_gpus i gs start (lg_reservations (fst (maintain_ledger l now d)))"
  by (auto simp: holds_gpus_def maintain_reservations expire_old_reservations_def expire_reservation_def)

lemma holds_gpus_expire:
  "holds_gpus i gs start (lg_reservations l) \<Longrightarrow> holds_gpus i gs start (lg_reservations (fst (expire_old_reservations l now)))"
  by (auto simp: holds_gpus_def expire_old_reservations_def expire_reservation_def)

lemma holds_gpus_replace:
  assumes "holds_gpus i gs start rs"
    and "rs_id r' = i \<Longrightarrow> rs_gpus r' = gs \<and> rs_start_at r' = start"
  shows "holds_gpus i gs start (replace_reservation ident r' rs)"
  using assms replace_set [of ident r' rs] by (auto simp: holds_gpus_def)

lemma holds_gpus_edit:
  assumes "edit_booking sha256 env c request l = Inr (l', res, logs, ch)"
    and holds: "holds_gpus i gs start (lg_reservations l)" and started: "start \<le> oe_now env"
  shows "holds_gpus i gs start (lg_reservations l')"
  using assms(1)
proof (rule edit_booking_Inr, goal_cases)
  case (1 op l1 b l2)
  have kept: "holds_gpus i gs start (lg_reservations l2)"
    unfolding 1(3) by (rule holds_gpus_maintain) (simp add: bind_ledger_policy_reservations [OF 1(2)] holds)
  from 1(4) show ?case
  proof (elim disjE conjE)
    assume owned: "edit_owned env c request op (edit_operation_signature sha256 request) l2 = Inr (l', res, logs, ch)"
    obtain r r' where r: "find_reservation l2 (er_reservation_id request) = Some r" "rs_id r' = rs_id r"
      "bres_reservation res = r'" "l' = l2\<lparr>lg_reservations := replace_reservation (rs_id r) r' (lg_reservations l2)\<rparr>"
      using owned by (rule edit_owned_effect) auto
    have "rs_gpus r' = gs \<and> rs_start_at r' = start" if "rs_id r' = i"
    proof -
      from kept find_reservation_mem [OF r(1)] that r(2) have held: "rs_gpus r = gs" "rs_start_at r = start"
        by (auto simp: holds_gpus_def)
      with owned started r(1) obtain capacities where
        "edit_started_reservation env c request op (edit_operation_signature sha256 request) capacities l2 r = Inr (l', res, logs, ch)"
        by (elim edit_owned_Inr) auto
      then obtain new_end where
        "commit_edit env request op (edit_operation_signature sha256 request) (reservation_edit_state r) l2
           (r\<lparr>rs_end_at := whole_second new_end\<rparr>) ''updated'' False ''updated future end of started reservation''
         = Inr (l', res, logs, ch)" by (rule edit_started_Inr)
      then show ?thesis by (rule commit_edit_Inr) (use r(3) held in auto)
    qed
    with kept show ?case unfolding r(4) by (simp add: holds_gpus_replace)
  qed (use kept in simp)
qed

lemma holds_gpus_add:
  assumes "add_booking sha256 env c request l = Inr (l', res, logs, ch)"
    and holds: "holds_gpus i gs start (lg_reservations l)" and "fresh_for env l" and "i \<in> ids_of l' \<longrightarrow> i \<in> ids_of l"
  shows "holds_gpus i gs start (lg_reservations l')"
  using assms(1)
proof (rule add_booking_Inr, goal_cases)
  case (1 ci l1 b l2 wanted excluded ord scores signature)
  have kept: "holds_gpus i gs start (lg_reservations l2)"
    unfolding 1(3) by (rule holds_gpus_maintain) (simp add: bind_ledger_policy_reservations [OF 1(2)] holds)
  from 1(7) show ?case
  proof (elim disjE conjE place_booking_Inr)
    fix s gpus
    assume res: "bres_reservation res = new_reservation env request (ci_op_id ci) gpus s
        (s + seconds (br_duration_seconds request)) (ci_memory ci) (ci_units ci) signature (ci_job ci)"
      and l': "l' = l2\<lparr>lg_reservations := lg_reservations l2 @ [bres_reservation res]\<rparr>"
    have "rs_id (bres_reservation res) = oe_uuid env" by (simp add: res new_reservation_def)
    moreover from this l' have "oe_uuid env \<in> ids_of l'" by (auto simp: ids_of_def)
    moreover have "oe_uuid env \<notin> ids_of l" using assms(3) by (auto simp: fresh_for_def ids_of_def)
    ultimately show ?case using kept assms(4) by (auto simp: holds_gpus_def l')
  qed (use kept in simp)
qed

lemma holds_gpus_admin_cancel:
  assumes "cancel_booking_as_admin sha256 env c ident actor raw l = Inr (l', r', logs, ch)"
    and holds: "holds_gpus i gs start (lg_reservations l)"
  shows "holds_gpus i gs start (lg_reservations l')"
  using assms(1)
proof (rule cancel_as_admin_Inr, goal_cases)
  case (1 reason l1 b l2 r notifications)
  have kept: "holds_gpus i gs start (lg_reservations l2)"
    unfolding 1(4) by (rule holds_gpus_maintain) (simp add: bind_ledger_policy_reservations [OF 1(3)] holds)
  then show ?case unfolding 1(16)
    by (simp, intro holds_gpus_replace)
       (use find_reservation_mem [OF 1(5)] 1(8,10,12) in \<open>auto simp: holds_gpus_def\<close>)
qed

lemma holds_gpus_cancel:
  assumes "cancel_booking sha256 env ident actor op l = Inr (l', r', logs, ch)"
    and holds: "holds_gpus i gs start (lg_reservations l)"
  shows "holds_gpus i gs start (lg_reservations l')"
  using assms(1)
proof (rule cancel_booking_Inr, goal_cases)
  case (1 op')
  let ?l = "fst (expire_old_reservations l (oe_now env))"
  note kept = holds_gpus_expire [OF holds, of "oe_now env"]
  from 1(2) show ?case
  proof (elim disjE conjE cancel_owned_Inr)
    fix r assume "find_reservation ?l ident = Some r"
        "r' = cancelled_reservation (oe_now env) (owner_cancellation env actor op' (cancel_signature sha256 ident)) r"
      and l': "l' = ?l\<lparr>lg_reservations := replace_reservation ident r' (lg_reservations ?l)\<rparr>"
    with kept find_reservation_mem show ?case unfolding l'
      by (simp, intro holds_gpus_replace) (auto simp: holds_gpus_def)
  qed (use kept in simp)
qed

lemma holds_gpus_write:
  assumes "write_step sha256 (l, T) (l', T')" and "holds_gpus i gs start (lg_reservations l)"
    and "start \<le> T" and "i \<in> ids_of l' \<longrightarrow> i \<in> ids_of l"
  shows "holds_gpus i gs start (lg_reservations l')"
  using assms
  by (auto elim!: write_step.cases simp: clocked_def
      intro: holds_gpus_add holds_gpus_edit holds_gpus_cancel holds_gpus_admin_cancel)

text \<open>In the system: the reservation has been seen, and its start has passed.\<close>

definition started_on :: "string \<Rightarrow> int list \<Rightarrow> datetime \<Rightarrow> system \<Rightarrow> bool" where
  "started_on i gs start s \<longleftrightarrow> i \<in> sy_idents s \<and> start \<le> sy_clock s \<and> holds_gpus i gs start (lg_reservations (sy_ledger s))"

lemma started_on_step:
  assumes "started_on i gs start s" and "system_step sha256 s s'"
  shows "started_on i gs start s'"
  using assms(2,1)
proof (induction rule: system_step.induct)
  case (client s l' T')
  then have "i \<in> ids_of l' \<longrightarrow> i \<in> ids_of (sy_ledger s)" by (auto simp: started_on_def)
  with client write_step_descends(2) [OF client(1)] holds_gpus_write [OF client(1)] show ?case
    by (simp add: started_on_def)
next
  case (claim actor cc s l' claimed logs ch T')
  from holds_gpus_same_bookings [OF all2_same_booking [OF claim_due_jobs_keeps(1) [OF claim(1)]]] claim show ?case
    by (simp add: started_on_def)
next
  case (guard actor decisions now clock s l' notices logs ch T')
  note keeps = guarding.run_sweep_keeps(1) [OF guard(1) [unfolded record_launch_guard_decisions_def] refl]
  from holds_gpus_same_bookings [OF all2_same_booking [OF keeps]] guard show ?case by (simp add: started_on_def)
next
  case (fail s t ident st actor message now ts l' u logs ch T')
  from mark_launch_failure_write [OF fail(3)] fail show ?case
    by (auto simp: started_on_def dest!: holder_write_keeps(1) all2_same_booking intro: holds_gpus_same_bookings)
next
  case (abort s t ident st actor now ts l' u logs ch T')
  from mark_aborted_claim_write [OF abort(3)] abort show ?case
    by (auto simp: started_on_def dest!: holder_write_keeps(1) all2_same_booking intro: holds_gpus_same_bookings)
next
  case (run s t ident actor pid now ts l' logs ch T')
  from mark_running_write [OF run(2)] run show ?case
    by (auto simp: started_on_def dest!: holder_write_keeps(1) all2_same_booking intro: holds_gpus_same_bookings)
next
  case (refuse s t ident actor pid now ts l' logs ch)
  from mark_running_write [OF refuse(2)] refuse show ?case by (auto simp: started_on_def)
next
  case (complete s t ident reason running actor exit_code w n now ts l' u logs ch T')
  from complete_job_write [OF complete(5)] complete show ?case
    by (auto simp: started_on_def dest!: holder_write_keeps(1) all2_same_booking intro: holds_gpus_same_bookings)
next
  case (recover actor now worker decisions clock s l' ids logs ch T')
  note keeps = recovering.run_sweep_keeps(1) [OF recover(1) [unfolded record_recovery_decisions_def] refl]
  from holds_gpus_same_bookings [OF all2_same_booking [OF keeps]] recover show ?case by (simp add: started_on_def)
next
  case (finish actor now worker wanted remaining signalled clock s l' ids' logs ch T')
  note keeps = finishing.run_sweep_keeps(1) [OF finish(1) [unfolded finish_recovery_def] refl]
  from holds_gpus_same_bookings [OF all2_same_booking [OF keeps]] finish show ?case by (simp add: started_on_def)
next
  case (retry actor ident accept now ts s l' r logs ch T')
  from holds_gpus_same_bookings [OF all2_same_booking [OF retry_job_keeps(1) [OF retry(1)]]] retry show ?case
    by (simp add: started_on_def)
qed (simp_all add: started_on_def)

interpretation started_run: preserved "system_step sha256" "started_on i gs start" for sha256 i gs start
  by unfold_locales (rule started_on_step)

text \<open>The reservation the claim returns is one of the ledger, with its booking.\<close>

lemma claimed_from_ledger:
  assumes "claim_due_jobs actor cc l = (l', claimed, logs, ch)" and "r' \<in> set claimed"
    and "holds_gpus (rs_id r') gs start (lg_reservations l)"
  shows "rs_gpus r' = gs"
proof -
  have "holds_gpus (rs_id r') gs start (lg_reservations l')"
    by (rule holds_gpus_same_bookings [OF all2_same_booking [OF claim_due_jobs_keeps(1) [OF assms(1)]] assms(3)])
  with claim_due_jobs_placed [OF assms(1)] assms(2) show ?thesis by (auto simp: holds_gpus_def)
qed

text \<open>
  C9: a worker with the live guard starts a job only on GPUs the guard has cleared. Start from a ledger that keeps
  its promise, and let the guard look at the ledger of some reachable state, with a clock reading that has
  passed there. Whatever clients, workers and recoveries do between this look and the claim, with readings of the clock from then on,
  every claimed reservation was due when the guard looked, its GPUs are those it had then, they were clear in the
  telemetry of that moment, and the launch binds one device token for each of the GPUs of the claimed reservation.
\<close>

theorem claims_are_guarded:
  assumes promise: "promise (l0, T0)" "(system_step sha256)\<^sup>*\<^sup>* (idle_system l0 T0) s"
    and look: "launch_guard_eligibility c actor now provider access clock (sy_ledger s) l1 = (l2, pass, logs, ch)" "now \<le> sy_clock s"
    and later: "(system_step sha256)\<^sup>*\<^sup>* s s'"
    and claim: "claim_due_jobs actor cc (sy_ledger s') = (l', claimed, logs', ch')" "cc_eligible_ids cc = Some (ep_eligible pass)"
    and r': "r' \<in> set claimed"
  shows "\<exists>r \<in> set (due_pending_jobs (sy_ledger s) actor now). rs_id r = rs_id r' \<and> rs_gpus r = rs_gpus r'
    \<and> launch_clear c r (provider c) (list_active (sy_ledger s) now) access now
    \<and> launch_devices (ep_launch_devices pass (rs_id r')) required (rs_gpus r')
        = Inr (cuda_visible_device_tokens (rs_gpus r') (provider c))"
proof -
  have ok: "system_ok s" by (rule system_run.run_preserves [OF promise(2) idle_system_ok [OF promise(1)]])
  from claimed_is_eligible [OF claim r'] have "rs_id r' \<in> set (ep_eligible pass)" .
  from eligible_is_clear [OF look(1) this] obtain r where r: "r \<in> set (due_pending_jobs (sy_ledger s) actor now)" "rs_id r = rs_id r'"
    "launch_clear c r (provider c) (list_active (sy_ledger s) now) access now"
    "ep_launch_devices pass (rs_id r') = Some (cuda_visible_device_tokens (rs_gpus r) (provider c))" by auto
  from r(1) have mem: "r \<in> set (lg_reservations (sy_ledger s))" and due: "rs_start_at r \<le> now"
    by (auto simp: due_pending_jobs_def)
  have "distinct (map rs_id (lg_reservations (sy_ledger s)))" using promise_distinct [OF system_okD(4) [OF ok]] .
  with mem have "holds_gpus (rs_id r) (rs_gpus r) (rs_start_at r) (lg_reservations (sy_ledger s))"
    by (auto simp: holds_gpus_def distinct_map dest: inj_onD)
  moreover have "rs_id r \<in> sy_idents s"
    using names_okD(1) [of s] ok mem by (auto simp: system_ok_def ids_of_def)
  ultimately have "started_on (rs_id r) (rs_gpus r) (rs_start_at r) s" using due look(2) by (simp add: started_on_def)
  from started_run.run_preserves [OF later this] have "holds_gpus (rs_id r') (rs_gpus r) (rs_start_at r) (lg_reservations (sy_ledger s'))"
    by (simp add: started_on_def r(2))
  from claimed_from_ledger [OF claim(1) r' this] r show ?thesis
    by (intro bexI [of _ r]) (simp_all add: launch_devices_def)
qed

text \<open>One idle simulated GPU per index, and the claim restricted to what it clears.\<close>

definition idle_gpu :: "int \<Rightarrow> gpu_snapshot" where
  "idle_gpu i = \<lparr>gs_index = i, gs_name = ''sim'', gs_memory_used_mb = 10, gs_memory_total_mb = 8000,
     gs_utilization_percent = Some 0, gs_temperature_c = None, gs_processes = [], gs_source = ''simulation'',
     gs_process_telemetry_available = None, gs_process_utilization_available = None,
     gs_device_uuid = ''GPU-'' @ show_int i\<rparr>"

definition guarded_claim :: claim_call where
  "guarded_claim = sample_claim\<lparr>cc_eligible_ids := Some [''r1'']\<rparr>"

lemma guarded_sample:
  "\<exists>l2 pass logs ch. launch_guard_eligibility sample_config sample_actor (hours 1) (\<lambda>_. [idle_gpu 0, idle_gpu 1])
      (\<lambda>_ _. False) (\<lambda>_. hours 1) job_ledger job_ledger = (l2, pass, logs, ch) \<and> ep_eligible pass = [''r1'']"
proof -
  have "ep_eligible (fst (snd (launch_guard_eligibility sample_config sample_actor (hours 1) (\<lambda>_. [idle_gpu 0, idle_gpu 1])
      (\<lambda>_ _. False) (\<lambda>_. hours 1) job_ledger job_ledger))) = [''r1'']" by code_simp
  then show ?thesis by (metis prod.collapse)
qed

lemma guarded_sample_claim:
  "\<exists>l' r' logs ch. claim_due_jobs sample_actor guarded_claim job_ledger = (l', [r'], logs, ch) \<and> rs_id r' = ''r1''"
proof -
  have "(let (l, out, logs, ch) = claim_due_jobs sample_actor guarded_claim job_ledger in map rs_id out = [''r1''])"
    by code_simp
  then show ?thesis by (auto split: prod.splits simp: Cons_eq_map_conv)
qed

theorem claims_are_guarded_witness:
  "\<exists>r \<in> set (due_pending_jobs job_ledger sample_actor (hours 1)). rs_id r = ''r1''
    \<and> launch_clear sample_config r [idle_gpu 0, idle_gpu 1] (list_active job_ledger (hours 1)) (\<lambda>_ _. False) (hours 1)"
proof -
  let ?s0 = "idle_system job_ledger 0"
  define s where "s = ?s0\<lparr>sy_ledger := job_ledger, sy_clock := hours 1, sy_idents := sy_idents ?s0 \<union> ids_of job_ledger\<rparr>"
  have "system_step plain_digest ?s0 s" unfolding s_def
    by (rule system_step.client) (auto simp: idle_system_def hours_def seconds_def us_per_second_def intro!: write_step.tick)
  then have run: "(system_step plain_digest)\<^sup>*\<^sup>* ?s0 s" by blast
  have s: "sy_ledger s = job_ledger" "sy_clock s = hours 1" by (simp_all add: s_def)
  obtain l2 pass logs ch where e: "launch_guard_eligibility sample_config sample_actor (hours 1)
      (\<lambda>_. [idle_gpu 0, idle_gpu 1]) (\<lambda>_ _. False) (\<lambda>_. hours 1) (sy_ledger s) job_ledger = (l2, pass, logs, ch)"
    "ep_eligible pass = [''r1'']" using guarded_sample unfolding s by blast
  obtain l' r' logs' ch' where c: "claim_due_jobs sample_actor guarded_claim (sy_ledger s) = (l', [r'], logs', ch')"
    "rs_id r' = ''r1''" using guarded_sample_claim unfolding s by blast
  have "cc_eligible_ids guarded_claim = Some (ep_eligible pass)" by (simp add: guarded_claim_def e)
  from claims_are_guarded [OF job_ledger_promise run e(1) _ rtranclp.rtrancl_refl c(1) this] c(2) show ?thesis
    by (auto simp: s)
qed


section \<open>Freshness of the access cache\<close>

definition host_allows :: "host_accounts \<Rightarrow> access_key \<Rightarrow> bool" where
  "host_allows host key = (case key of (_, uid, groups) \<Rightarrow>
     uid_can_access_docker_socket host uid \<or> uid_in_named_groups host uid groups)"

text \<open>Every entry of the cache is an answer of the host of an earlier moment, kept for a minute.\<close>

definition cache_fresh :: "(timedelta \<Rightarrow> host_accounts) \<Rightarrow> timedelta \<Rightarrow> access_cache \<Rightarrow> bool" where
  "cache_fresh host now cache \<longleftrightarrow> distinct (map fst cache) \<and>
     (\<forall>(key, expires, answer) \<in> set cache.
        \<exists>t \<le> now. expires = t + CONTAINER_ACCESS_CACHE_SECONDS \<and> answer = host_allows (host t) key)"

lemma cache_fresh_later: "cache_fresh host t cache \<Longrightarrow> t \<le> now \<Longrightarrow> cache_fresh host now cache"
  unfolding cache_fresh_def by (fastforce intro: order_trans)

lemma cache_fresh_filter: "cache_fresh host now cache \<Longrightarrow> cache_fresh host now (filter P cache)"
  unfolding cache_fresh_def by (auto simp: distinct_map_filter)

lemma update_mem: "distinct (map fst xs) \<Longrightarrow> x \<in> set (AList.update k v xs) \<Longrightarrow> x = (k, v) \<or> x \<in> set xs"
  by (induction xs) (auto split: if_splits)

lemma cache_fresh_update:
  assumes "cache_fresh host now cache"
  shows "cache_fresh host now
    (AList.update key (now + CONTAINER_ACCESS_CACHE_SECONDS, host_allows (host now) key) cache)"
  using assms unfolding cache_fresh_def by (auto simp: distinct_update dest!: update_mem)

lemma refresh_access_fresh:
  assumes "cache_fresh host now cache" and "refresh_access (host now) now key cache = (answer, cache')"
  shows "cache_fresh host now cache' \<and> answer = host_allows (host now) key"
  using assms(2) cache_fresh_update [OF assms(1), of key] cache_fresh_filter
  by (auto simp: refresh_access_def host_allows_def Let_def split: prod.splits if_splits)

text \<open>
  The cache of container access. Asked at any time, the check answers what the host's accounts
  said less than a minute before (for the Docker runtime and a user other than root, and no in every
  other case), and keeps the cache in a state in which the next question is answered as well.
\<close>

theorem container_access_fresh:
  assumes "cache_fresh host t cache" and "t \<le> now"
    and "uid_can_use_container_runtime (host now) now runtime uid groups cache = (answer, cache')"
  shows "cache_fresh host now cache'
    \<and> (\<exists>s. now - CONTAINER_ACCESS_CACHE_SECONDS < s \<and> s \<le> now
        \<and> answer = (runtime = ''docker'' \<and> 0 < uid \<and> host_allows (host s) (runtime, uid, sorted_set groups)))"
proof -
  let ?key = "(runtime, uid, sorted_set groups)"
  note fresh = cache_fresh_later [OF assms(1,2)]
  have minute: "now - CONTAINER_ACCESS_CACHE_SECONDS < now"
    by (simp add: CONTAINER_ACCESS_CACHE_SECONDS_def seconds_def us_per_second_def)
  consider (never) "runtime \<noteq> ''docker'' \<or> uid \<le> 0"
    | (hit) expires where "runtime = ''docker''" "0 < uid" "map_of cache ?key = Some (expires, answer)" "expires > now" "cache' = cache"
    | (miss) "runtime = ''docker''" "0 < uid" "refresh_access (host now) now ?key cache = (answer, cache')"
    using assms(3) unfolding uid_can_use_container_runtime_def
    by (auto simp: Let_def not_le split: if_splits option.splits)
  then show ?thesis
  proof cases
    case never
    with assms(3) fresh minute show ?thesis by (auto simp: uid_can_use_container_runtime_def intro!: exI [of _ now])
  next
    case hit
    with fresh obtain s where "s \<le> now" "expires = s + CONTAINER_ACCESS_CACHE_SECONDS" "answer = host_allows (host s) ?key"
      unfolding cache_fresh_def by (auto dest!: map_of_SomeD)
    with hit fresh show ?thesis by (auto intro!: exI [of _ s])
  next
    case miss
    with refresh_access_fresh [OF fresh miss(3)] minute show ?thesis by (auto intro!: exI [of _ now])
  qed
qed

definition sample_host :: host_accounts where
  "sample_host = \<lparr>ha_docker_socket = Some (432, 999),
     ha_getpwuid = [1000 \<mapsto> \<lparr>pw_name = ''ada'', pw_gid = 1000\<rparr>], ha_getgrnam = Map.empty,
     ha_getgrgid = [999 \<mapsto> \<lparr>gr_gid = 999, gr_mem = [''ada'']\<rparr>]\<rparr>"

theorem container_access_fresh_witness:
  "\<exists>cache'. uid_can_use_container_runtime sample_host 5 ''docker'' 1000 [] [] = (True, cache')
    \<and> cache_fresh (\<lambda>_. sample_host) 5 cache'"
proof -
  have "fst (uid_can_use_container_runtime sample_host 5 ''docker'' 1000 [] [])" by code_simp
  then obtain cache' where u: "uid_can_use_container_runtime sample_host 5 ''docker'' 1000 [] [] = (True, cache')"
    by (metis prod.collapse)
  have "cache_fresh (\<lambda>_. sample_host) 0 []" by (simp add: cache_fresh_def)
  from container_access_fresh [OF this, of 5 "''docker''" 1000 "[]"] u show ?thesis by auto
qed

end
