(* ===== verification/Broker.thy ===== *)
theory Broker
  imports Storage
begin

text \<open>
  \<^verbatim>\<open>bk/broker.py\<close>: the daemon through which unprivileged clients write the ledger. A client
  is known by the credentials the kernel reports for its socket; it sends a request as a framed JSON
  object, and the broker decodes it, gives it that identity, and runs the operation. The writes of
  job workers arrive as documents or patches made elsewhere, so the broker checks that they touch
  nothing but the mutable fields of the client's own jobs.

  Ledgers are raw JSON objects here, as the broker compares them. Arguments of the definitions: the
  digest of a document, the clock, and \<open>repr\<close>, Python's \<^verbatim>\<open>str\<close> of a value that is
  not a string. Where several fields offend, the code names one in hash order; the model names none.
  Socket calls and threads are not modelled; the metadata of files is an argument of its checks.
\<close>

definition BROKER_SCHEMA_VERSION :: string where "BROKER_SCHEMA_VERSION = ''gpubk.broker.v1''"
definition BROKER_MAX_FRAME_BYTES :: nat where "BROKER_MAX_FRAME_BYTES = 1024 * 1024"
definition BROKER_TRANSACTION_RETRIES :: nat where "BROKER_TRANSACTION_RETRIES = 8"
definition BROKER_MAX_JOB_CHANGES :: nat where "BROKER_MAX_JOB_CHANGES = 256"
definition BROKER_JOB_PATCH_OPERATION :: string where
  "BROKER_JOB_PATCH_OPERATION = ''ledger.commit-own-job-patch''"

definition JOB_BINDING_FIELDS :: "string list" where
  "JOB_BINDING_FIELDS = [''spec_id'', ''digest'', ''summary'', ''submitted_at'']"

definition JOB_MUTABLE_FIELDS :: "string list" where
  "JOB_MUTABLE_FIELDS =
     [''cancel_requested_at'', ''claim_token'', ''claimed_at'', ''exit_code'', ''finished_at'',
      ''launch_guard_key'', ''launch_guard_state'', ''log_rotated'', ''log_warning'', ''message'',
      ''recovered_at'', ''recovery_state'', ''recovery_worker_id'', ''runner_host'', ''runner_pid'',
      ''started_at'', ''status'', ''waiting_since'', ''worker_id'', ''worker_lease_id'']"

text \<open>A \<^verbatim>\<open>BookingError\<close> by its message, or an exception of the interpreter.\<close>

datatype broker_error = Refused string | PyTypeError | PyValueError | PyOverflowError


section \<open>Equality of documents\<close>

text \<open>
  Python's \<^verbatim>\<open>==\<close> on nested values: numbers by value, arrays in order, objects by key. (Inside
  a container a value is equal to itself first, so a non-finite number is compared by its text.)
\<close>

function (sequential) jeq :: "json \<Rightarrow> json \<Rightarrow> bool" where
  "jeq (JArr xs) (JArr ys) =
     (length xs = length ys \<and> list_all (\<lambda>(x, y). jeq x y) (zip xs ys))"
| "jeq (JObj xs) (JObj ys) =
     (length xs = length ys
      \<and> list_all (\<lambda>(k, v). case map_of ys k of None \<Rightarrow> False | Some w \<Rightarrow> jeq v w) xs)"
| "jeq a b = py_eq a b"
  by pat_completeness auto
termination
proof (relation "measure (\<lambda>(a, _). size a)", goal_cases)
  case (2 xs ys p x y)
  then have "x \<in> set xs" using set_zip_leftD by metis
  then show ?case by (simp add: size_list_estimation' less_Suc_eq_le)
next
  case (3 xs ys p k v w)
  then have "(k, v) \<in> set xs" by simp
  then have "size v \<le> size_list (size_prod (\<lambda>_. 0) size) xs"
    by (intro size_list_estimation' [of "(k, v)"]) auto
  then show ?case by simp
qed auto

definition jkeys :: "jobject \<Rightarrow> string set" where
  "jkeys d = fst ` set d"

fun is_jobject :: "json \<Rightarrow> bool" where
  "is_jobject (JObj _) = True"
| "is_jobject _ = False"


section \<open>Fields of requests\<close>

definition require_keys :: "jobject \<Rightarrow> string list \<Rightarrow> string list \<Rightarrow> (broker_error, unit) result" where
  "require_keys value allowed required =
     raise_if (\<exists>k \<in> jkeys value. k \<notin> set allowed) (Refused ''unknown field(s)'')
       (raise_if (\<exists>k \<in> set required. k \<notin> jkeys value) (Refused ''missing field(s)'') (Inr ()))"

definition string_field :: "json \<Rightarrow> (broker_error, string) result" where
  "string_field v =
     (case v of
        JStr s \<Rightarrow> raise_if (s = []) (Refused ''must be a non-empty string'') (Inr s)
      | _ \<Rightarrow> Inl (Refused ''must be a non-empty string''))"

definition optional_string :: "json \<Rightarrow> (broker_error, string option) result" where
  "optional_string v = (if v = JNull then Inr None else res_map Some (string_field v))"

definition integer :: "json \<Rightarrow> (broker_error, int) result" where
  "integer v = (case v of JInt n \<Rightarrow> Inr n | _ \<Rightarrow> Inl (Refused ''must be an integer''))"

definition optional_integer :: "json \<Rightarrow> (broker_error, int option) result" where
  "optional_integer v = (if v = JNull then Inr None else res_map Some (integer v))"

definition boolean :: "json \<Rightarrow> (broker_error, bool) result" where
  "boolean v = (case v of JBool b \<Rightarrow> Inr b | _ \<Rightarrow> Inl (Refused ''must be a boolean''))"

fun res_each :: "('a \<Rightarrow> ('e, 'b) result) \<Rightarrow> 'a list \<Rightarrow> ('e, 'b list) result" where
  "res_each f [] = Inr []"
| "res_each f (x # xs) = res_bind (f x) (\<lambda>y. res_map (\<lambda>ys. y # ys) (res_each f xs))"

definition optional_int_list :: "json \<Rightarrow> (broker_error, int list option) result" where
  "optional_int_list v =
     (case v of
        JNull \<Rightarrow> Inr None
      | JArr items \<Rightarrow> res_map Some (res_each integer items)
      | _ \<Rightarrow> Inl (Refused ''must be an integer array''))"

definition optional_string_list :: "json \<Rightarrow> (broker_error, string list option) result" where
  "optional_string_list v =
     (case v of
        JNull \<Rightarrow> Inr None
      | JArr items \<Rightarrow> res_map Some (res_each string_field items)
      | _ \<Rightarrow> Inl (Refused ''must be a string array''))"

text \<open>\<^verbatim>\<open>parse_iso\<close> raises \<^verbatim>\<open>ValueError\<close> on a text that is no timestamp.\<close>

definition iso_instant :: "string \<Rightarrow> (broker_error, datetime) result" where
  "iso_instant s = (case parse_iso s of None \<Rightarrow> Inl PyValueError | Some t \<Rightarrow> Inr t)"


section \<open>Booking requests on the wire\<close>

definition jopt :: "('a \<Rightarrow> json) \<Rightarrow> 'a option \<Rightarrow> json" where
  "jopt f v = (case v of None \<Rightarrow> JNull | Some x \<Rightarrow> f x)"

definition jints :: "int list \<Rightarrow> json" where "jints xs = JArr (map JInt xs)"
definition jstrs :: "string list \<Rightarrow> json" where "jstrs xs = JArr (map JStr xs)"

definition booking_request_payload :: "booking_request \<Rightarrow> jobject" where
  "booking_request_payload request =
     [(''count'', JInt (br_count request)),
      (''duration_seconds'', JInt (br_duration_seconds request)),
      (''start_at'', JStr (to_iso (br_start_at request))),
      (''mode'', JStr (br_mode request)),
      (''preferred_gpus'', jopt jints (br_preferred_gpus request)),
      (''op_id'', jopt JStr (br_op_id request)),
      (''allow_queue'', JBool (br_allow_queue request)),
      (''job_spec_id'', jopt JStr (br_job_spec_id request)),
      (''job_digest'', jopt JStr (br_job_digest request)),
      (''job_summary'', jopt JStr (br_job_summary request)),
      (''job_digest_aliases'', jopt jstrs (br_job_digest_aliases request)),
      (''expected_memory_mb'', jopt JInt (br_expected_memory_mb request)),
      (''share_units'', jopt JInt (br_share_units request))]
     @ (case br_excluded_gpus request of None \<Rightarrow> [] | Some gpus \<Rightarrow> [(''excluded_gpus'', jints gpus)])"

definition edit_request_payload :: "edit_request \<Rightarrow> jobject" where
  "edit_request_payload request =
     [(''reservation_id'', JStr (er_reservation_id request)),
      (''op_id'', jopt JStr (er_op_id request)),
      (''start_at'', jopt (\<lambda>t. JStr (to_iso t)) (er_start_at request)),
      (''duration_seconds'', jopt JInt (er_duration_seconds request)),
      (''mode'', jopt JStr (er_mode request)),
      (''preferred_gpus'', jopt jints (er_preferred_gpus request)),
      (''count'', jopt JInt (er_count request)),
      (''allow_queue'', JBool (er_allow_queue request)),
      (''expected_memory_mb'', jopt JInt (er_expected_memory_mb request)),
      (''update_expected_memory'', JBool (er_update_expected_memory request)),
      (''share_units'', jopt JInt (er_share_units request)),
      (''update_share_units'', JBool (er_update_share_units request))]
     @ (case er_excluded_gpus request of None \<Rightarrow> [] | Some gpus \<Rightarrow> [(''excluded_gpus'', jints gpus)])"

definition BOOKING_FIELDS :: "string list" where
  "BOOKING_FIELDS = [''count'', ''duration_seconds'', ''start_at'', ''mode'', ''preferred_gpus'',
     ''excluded_gpus'', ''op_id'', ''allow_queue'', ''job_spec_id'', ''job_digest'', ''job_summary'',
     ''job_digest_aliases'', ''expected_memory_mb'', ''share_units'']"

definition EDIT_FIELDS :: "string list" where
  "EDIT_FIELDS = [''reservation_id'', ''op_id'', ''start_at'', ''duration_seconds'', ''mode'',
     ''preferred_gpus'', ''excluded_gpus'', ''count'', ''allow_queue'', ''expected_memory_mb'',
     ''update_expected_memory'', ''share_units'', ''update_share_units'']"

text \<open>The actor of a decoded request is the one of the connection; the payload has no field for it.\<close>

definition decode_booking_request :: "jobject \<Rightarrow> actor \<Rightarrow> (broker_error, booking_request) result" where
  "decode_booking_request payload actor =
     res_bind (require_keys payload BOOKING_FIELDS [''count'', ''duration_seconds'', ''start_at'', ''mode'']) (\<lambda>_.
     res_bind (integer (jget payload ''count'')) (\<lambda>count.
     res_bind (integer (jget payload ''duration_seconds'')) (\<lambda>duration_seconds.
     res_bind (res_bind (string_field (jget payload ''start_at'')) iso_instant) (\<lambda>start_at.
     res_bind (string_field (jget payload ''mode'')) (\<lambda>mode.
     res_bind (optional_int_list (jget payload ''preferred_gpus'')) (\<lambda>preferred_gpus.
     res_bind (optional_int_list (jget payload ''excluded_gpus'')) (\<lambda>excluded_gpus.
     res_bind (optional_string (jget payload ''op_id'')) (\<lambda>op_id.
     res_bind (boolean (jget_default payload ''allow_queue'' (JBool False))) (\<lambda>allow_queue.
     res_bind (optional_string (jget payload ''job_spec_id'')) (\<lambda>job_spec_id.
     res_bind (optional_string (jget payload ''job_digest'')) (\<lambda>job_digest.
     res_bind (optional_string (jget payload ''job_summary'')) (\<lambda>job_summary.
     res_bind (optional_string_list (jget payload ''job_digest_aliases'')) (\<lambda>job_digest_aliases.
     res_bind (optional_integer (jget payload ''expected_memory_mb'')) (\<lambda>expected_memory_mb.
     res_bind (optional_integer (jget payload ''share_units'')) (\<lambda>share_units.
     Inr \<lparr>br_actor = actor, br_count = count, br_duration_seconds = duration_seconds, br_start_at = start_at,
          br_mode = mode, br_preferred_gpus = preferred_gpus, br_gpu_order = None, br_gpu_scores = None,
          br_op_id = op_id, br_allow_queue = allow_queue, br_job_spec_id = job_spec_id,
          br_job_digest = job_digest, br_job_summary = job_summary,
          br_job_digest_aliases = job_digest_aliases, br_expected_memory_mb = expected_memory_mb,
          br_gpu_memory_capacity_mb = None, br_share_units = share_units,
          br_excluded_gpus = excluded_gpus\<rparr>)))))))))))))))"

definition decode_edit_request :: "jobject \<Rightarrow> actor \<Rightarrow> (broker_error, edit_request) result" where
  "decode_edit_request payload actor =
     res_bind (require_keys payload EDIT_FIELDS [''reservation_id'']) (\<lambda>_.
     res_bind (string_field (jget payload ''reservation_id'')) (\<lambda>reservation_id.
     res_bind (optional_string (jget payload ''op_id'')) (\<lambda>op_id.
     res_bind (if jget payload ''start_at'' \<noteq> JNull
               then res_map Some (res_bind (string_field (jget payload ''start_at'')) iso_instant)
               else Inr None) (\<lambda>start_at.
     res_bind (optional_integer (jget payload ''duration_seconds'')) (\<lambda>duration_seconds.
     res_bind (optional_string (jget payload ''mode'')) (\<lambda>mode.
     res_bind (optional_int_list (jget payload ''preferred_gpus'')) (\<lambda>preferred_gpus.
     res_bind (optional_int_list (jget payload ''excluded_gpus'')) (\<lambda>excluded_gpus.
     res_bind (optional_integer (jget payload ''count'')) (\<lambda>count.
     res_bind (boolean (jget_default payload ''allow_queue'' (JBool False))) (\<lambda>allow_queue.
     res_bind (optional_integer (jget payload ''expected_memory_mb'')) (\<lambda>expected_memory_mb.
     res_bind (boolean (jget_default payload ''update_expected_memory'' (JBool False))) (\<lambda>update_expected_memory.
     res_bind (optional_integer (jget payload ''share_units'')) (\<lambda>share_units.
     res_bind (boolean (jget_default payload ''update_share_units'' (JBool False))) (\<lambda>update_share_units.
     Inr \<lparr>er_actor = actor, er_reservation_id = reservation_id, er_op_id = op_id, er_start_at = start_at,
          er_duration_seconds = duration_seconds, er_mode = mode, er_preferred_gpus = preferred_gpus,
          er_gpu_order = None, er_gpu_scores = None, er_count = count, er_allow_queue = allow_queue,
          er_expected_memory_mb = expected_memory_mb, er_update_expected_memory = update_expected_memory,
          er_gpu_memory_capacity_mb = None, er_share_units = share_units,
          er_update_share_units = update_share_units, er_excluded_gpus = excluded_gpus\<rparr>))))))))))))))"


section \<open>Changes a client may make to its own jobs\<close>

definition changed_key :: "jobject \<Rightarrow> jobject \<Rightarrow> (string \<Rightarrow> bool) \<Rightarrow> bool" where
  "changed_key before after watched \<longleftrightarrow>
     list_ex (\<lambda>k. watched k \<and> \<not> jeq (jget before k) (jget after k)) (map fst before @ map fst after)"

definition validate_status_change :: "datetime \<Rightarrow> jobject \<Rightarrow> jobject \<Rightarrow> (broker_error, unit) result" where
  "validate_status_change now before after =
     (let before_status = jget before ''status''; after_status = jget after ''status''
      in raise_if (\<not> jeq after_status before_status
             \<and> \<not> (jeq before_status (JStr ''active'') \<and> jeq after_status (JStr ''expired'')))
           (Refused ''job transaction may only expire its own active reservation'')
         (if jeq after_status (JStr ''expired'') \<and> \<not> jeq before_status (JStr ''expired'')
          then res_bind (string_field (jget before ''end_at'')) (\<lambda>text.
               res_bind (iso_instant text) (\<lambda>end_at.
               raise_if (end_at > now)
                 (Refused ''job transaction cannot expire a reservation before its end'') (Inr ())))
          else Inr ()))"

definition validate_job_fields :: "json \<Rightarrow> json \<Rightarrow> (broker_error, unit) result" where
  "validate_job_fields before_job after_job =
     (case (before_job, after_job) of
        (JObj old, JObj new) \<Rightarrow>
          raise_if (changed_key old new (\<lambda>k. k \<notin> set JOB_MUTABLE_FIELDS))
            (Refused ''job transaction cannot modify job field'') (Inr ())
      | _ \<Rightarrow>
          raise_if (\<not> jeq before_job after_job)
            (Refused ''job transaction cannot add or remove a scheduled job'') (Inr ()))"

definition validate_owned_reservation_job_change ::
  "datetime \<Rightarrow> jobject \<Rightarrow> jobject \<Rightarrow> (broker_error, unit) result" where
  "validate_owned_reservation_job_change now before after =
     raise_if (changed_key before after (\<lambda>k. k \<notin> {''status'', ''updated_at'', ''job''}))
       (Refused ''job transaction cannot modify reservation field'')
     (res_bind (validate_status_change now before after) (\<lambda>_.
      validate_job_fields (jget before ''job'') (jget after ''job'')))"

definition reservation_uid :: "jobject \<Rightarrow> (broker_error, int) result" where
  "reservation_uid r =
     (case py_int_json (jget_default r ''uid'' (JInt (- 1))) of
        Inl _ \<Rightarrow> Inl PyOverflowError
      | Inr None \<Rightarrow> Inl (case jget_default r ''uid'' (JInt (- 1)) of JStr _ \<Rightarrow> PyValueError
                      | JNonFinite _ \<Rightarrow> PyValueError | _ \<Rightarrow> PyTypeError)
      | Inr (Some n) \<Rightarrow> Inr n)"

definition py_text :: "(json \<Rightarrow> string) \<Rightarrow> json \<Rightarrow> string" where
  "py_text repr v = (case v of JStr s \<Rightarrow> s | _ \<Rightarrow> repr v)"

text \<open>
  The loop over the pairs of reservations; its result is the dictionary of the client's own ones,
  latest first.
\<close>

fun own_reservations ::
  "(json \<Rightarrow> string) \<Rightarrow> (nat \<Rightarrow> datetime) \<Rightarrow> actor \<Rightarrow> nat \<Rightarrow> (json \<times> json) list \<Rightarrow> (string \<times> jobject) list
    \<Rightarrow> (broker_error, (string \<times> jobject) list) result" where
  "own_reservations repr clock actor i [] owned = Inr owned"
| "own_reservations repr clock actor i ((JObj before, JObj after) # rest) owned =
     raise_if (\<not> jeq (jget before ''id'') (jget after ''id'')) (Refused ''job transaction cannot reorder reservations'')
     (res_bind (reservation_uid before) (\<lambda>uid.
        if uid \<noteq> actor_uid actor
        then raise_if (\<not> jeq (JObj after) (JObj before))
               (Refused ''job transaction cannot modify another UID's reservation'')
               (own_reservations repr clock actor (Suc i) rest owned)
        else res_bind (validate_owned_reservation_job_change (clock i) before after) (\<lambda>_.
               own_reservations repr clock actor (Suc i) rest
                 ((py_text repr (jget_default before ''id'' (JStr [])), after) # owned))))"
| "own_reservations repr clock actor i (_ # rest) owned =
     Inl (Refused ''job transaction contains an invalid reservation'')"

definition valid_job_action :: "string \<Rightarrow> bool" where
  "valid_job_action action \<longleftrightarrow> take 4 action = ''job-'' \<and> length action \<le> 64
     \<and> list_all (\<lambda>ch. ch \<in> set ''abcdefghijklmnopqrstuvwxyz-'') action"

text \<open>The audit event the broker writes instead of the one it was sent.\<close>

definition audit_event :: "actor \<Rightarrow> string \<Rightarrow> string \<Rightarrow> jobject \<Rightarrow> datetime \<Rightarrow> string \<Rightarrow> jobject" where
  "audit_event actor action reservation_id reservation now message =
     [(''ts'', JStr (to_iso now)),
      (''uid'', JInt (actor_uid actor)),
      (''username'', JStr (actor_username actor)),
      (''action'', JStr action),
      (''reservation_id'', JStr reservation_id),
      (''op_id'', jget reservation ''op_id''),
      (''gpus'', jget_default reservation ''gpus'' (JArr [])),
      (''mode'', jget reservation ''mode''),
      (''start_at'', jget reservation ''start_at''),
      (''end_at'', jget reservation ''end_at''),
      (''result'', (case jget reservation ''job'' of JObj job \<Rightarrow> jget job ''status'' | _ \<Rightarrow> JNull)),
      (''message'', JStr (take 1000 message))]"

definition sanitize_log ::
  "(json \<Rightarrow> string) \<Rightarrow> actor \<Rightarrow> (string \<times> jobject) list \<Rightarrow> datetime \<Rightarrow> json \<Rightarrow> (broker_error, json) result" where
  "sanitize_log repr actor owned now raw =
     (case raw of
        JObj item \<Rightarrow>
          (case jget item ''reservation_id'' of
             JStr reservation_id \<Rightarrow>
               (case map_of owned reservation_id of
                  None \<Rightarrow> Inl (Refused ''job transaction audit event must reference an owned reservation'')
                | Some reservation \<Rightarrow>
                    (case jget item ''action'' of
                       JStr action \<Rightarrow>
                         raise_if (\<not> valid_job_action action) (Refused ''job transaction audit action is invalid'')
                         (Inr (JObj (audit_event actor action reservation_id reservation now
                            (py_text repr (jget_default item ''message'' (JStr []))))))
                     | _ \<Rightarrow> Inl (Refused ''job transaction audit action is invalid'')))
           | _ \<Rightarrow> Inl (Refused ''job transaction audit event must reference an owned reservation''))
      | _ \<Rightarrow> Inl (Refused ''job transaction audit event must be an object''))"

definition ledger_fields_kept :: "jobject \<Rightarrow> jobject \<Rightarrow> (broker_error, unit) result" where
  "ledger_fields_kept current proposed =
     raise_if (jkeys current \<noteq> jkeys proposed) (Refused ''job transaction cannot add or remove ledger fields'')
       (raise_if (list_ex (\<lambda>k. k \<noteq> ''reservations'' \<and> \<not> jeq (jget proposed k) (jget current k)) (map fst current))
          (Refused ''job transaction cannot modify ledger field'') (Inr ()))"

definition paired_reservations :: "jobject \<Rightarrow> jobject \<Rightarrow> (broker_error, json list \<times> json list) result" where
  "paired_reservations current proposed =
     (case (jget current ''reservations'', jget proposed ''reservations'') of
        (JArr xs, JArr ys) \<Rightarrow>
          raise_if (length xs \<noteq> length ys) (Refused ''job transaction cannot add or remove reservations'') (Inr (xs, ys))
      | _ \<Rightarrow> Inl (Refused ''job transaction reservations must be lists''))"

definition validate_own_job_mutation ::
  "(json \<Rightarrow> string) \<Rightarrow> (nat \<Rightarrow> datetime) \<Rightarrow> (nat \<Rightarrow> datetime) \<Rightarrow> jobject \<Rightarrow> jobject \<Rightarrow> json list \<Rightarrow> actor
    \<Rightarrow> (broker_error, json list) result" where
  "validate_own_job_mutation repr clock log_clock current proposed logs actor =
     res_bind (ledger_fields_kept current proposed) (\<lambda>_.
     res_bind (paired_reservations current proposed) (\<lambda>(xs, ys).
     res_bind (own_reservations repr clock actor 0 (zip xs ys) []) (\<lambda>owned.
     res_each (\<lambda>(k, raw). sanitize_log repr actor owned (log_clock k) raw) (enumerate 0 logs))))"


section \<open>Committing\<close>

text \<open>A ledger mutation of the broker: the ledger, whether it was committed, the audit events, changed.\<close>

type_synonym broker_commit = "(broker_error, jobject \<times> bool \<times> json list \<times> bool) result"

record job_payload =
  jp_base_digest :: string
  jp_body :: json
  jp_logs :: "json list"
  jp_changed :: bool

text \<open>The checks both commit operations make on the payload; \<open>body\<close> is the ledger or the changes.\<close>

definition decode_job_payload :: "string \<Rightarrow> jobject \<Rightarrow> (broker_error, job_payload) result" where
  "decode_job_payload body payload =
     res_bind (require_keys payload [''base_digest'', body, ''logs'', ''changed''] [''base_digest'', body, ''logs'', ''changed'']) (\<lambda>_.
     res_bind (string_field (jget payload ''base_digest'')) (\<lambda>base_digest.
     res_bind (boolean (jget payload ''changed'')) (\<lambda>changed.
     case jget payload ''logs'' of
       JArr logs \<Rightarrow> Inr \<lparr>jp_base_digest = base_digest, jp_body = jget payload body, jp_logs = logs, jp_changed = changed\<rparr>
     | _ \<Rightarrow> Inl (Refused ''logs must be an array''))))"

text \<open>The common end of both mutators, on the proposed ledger.\<close>

definition accept_proposal ::
  "(json \<Rightarrow> string) \<Rightarrow> (nat \<Rightarrow> datetime) \<Rightarrow> (nat \<Rightarrow> datetime) \<Rightarrow> actor \<Rightarrow> json list \<Rightarrow> bool \<Rightarrow> jobject \<Rightarrow> jobject
    \<Rightarrow> broker_commit" where
  "accept_proposal repr clock log_clock actor logs changed current proposed =
     res_bind (validate_own_job_mutation repr clock log_clock current proposed logs actor) (\<lambda>sanitized_logs.
     let actual_changed = \<not> jeq (JObj proposed) (JObj current)
     in raise_if (changed \<noteq> actual_changed) (Refused ''changed flag does not match'')
          (Inr (proposed, True, sanitized_logs, actual_changed)))"

definition commit_own_job_transaction ::
  "(json \<Rightarrow> string) \<Rightarrow> (jobject \<Rightarrow> string) \<Rightarrow> (nat \<Rightarrow> datetime) \<Rightarrow> (nat \<Rightarrow> datetime) \<Rightarrow> jobject \<Rightarrow> actor \<Rightarrow> jobject
    \<Rightarrow> broker_commit" where
  "commit_own_job_transaction repr ledger_digest clock log_clock payload actor current =
     res_bind (decode_job_payload ''ledger'' payload) (\<lambda>p.
     case jp_body p of
       JObj proposed \<Rightarrow>
         raise_if (length (jp_logs p) > 256) (Refused ''job transaction contains too many audit events'')
         (if ledger_digest current \<noteq> jp_base_digest p then Inr (current, False, [], False)
          else accept_proposal repr clock log_clock actor (jp_logs p) (jp_changed p) current proposed)
     | _ \<Rightarrow> Inl (Refused ''job transaction ledger and logs are required''))"

text \<open>The loop over the changes of a patch.\<close>

fun apply_changes :: "nat \<Rightarrow> json list \<Rightarrow> int list \<Rightarrow> json list \<Rightarrow> (broker_error, json list) result" where
  "apply_changes n [] seen reservations = Inr reservations"
| "apply_changes n (JObj change # rest) seen reservations =
     res_bind (require_keys change [''index'', ''reservation''] [''index'', ''reservation'']) (\<lambda>_.
     res_bind (integer (jget change ''index'')) (\<lambda>index.
     raise_if (index < 0 \<or> index \<ge> int n) (Refused ''job patch index is out of range'')
     (raise_if (index \<in> set seen) (Refused ''job patch contains a duplicate index'')
     (raise_if (\<not> is_jobject (jget change ''reservation'')) (Refused ''job patch reservation must be an object'')
       (apply_changes n rest (index # seen) (reservations[nat index := jget change ''reservation'']))))))"
| "apply_changes n (_ # rest) seen reservations = Inl (Refused ''job patch change must be an object'')"

definition commit_own_job_patch ::
  "(json \<Rightarrow> string) \<Rightarrow> (jobject \<Rightarrow> string) \<Rightarrow> (nat \<Rightarrow> datetime) \<Rightarrow> (nat \<Rightarrow> datetime) \<Rightarrow> jobject \<Rightarrow> actor \<Rightarrow> jobject
    \<Rightarrow> broker_commit" where
  "commit_own_job_patch repr ledger_digest clock log_clock payload actor current =
     res_bind (decode_job_payload ''changes'' payload) (\<lambda>p.
     case jp_body p of
       JArr changes \<Rightarrow>
         raise_if (length changes > BROKER_MAX_JOB_CHANGES) (Refused ''job patch contains too many reservation changes'')
         (raise_if (length (jp_logs p) > BROKER_MAX_JOB_CHANGES) (Refused ''job patch contains too many audit events'')
         (if ledger_digest current \<noteq> jp_base_digest p then Inr (current, False, [], False)
          else case jget current ''reservations'' of
            JArr current_reservations \<Rightarrow>
              res_bind (apply_changes (length current_reservations) changes [] current_reservations) (\<lambda>rs.
              accept_proposal repr clock log_clock actor (jp_logs p) (jp_changed p) current
                (jset current ''reservations'' (JArr rs)))
          | _ \<Rightarrow> Inl (Refused ''job patch ledger reservations must be a list'')))
     | _ \<Rightarrow> Inl (Refused ''job patch changes and logs must be arrays''))"


section \<open>The client\<close>

fun change_loop :: "nat \<Rightarrow> (json \<times> json) list \<Rightarrow> (broker_error, json list) result" where
  "change_loop index [] = Inr []"
| "change_loop index ((JObj before, JObj after) # rest) =
     raise_if (\<not> jeq (jget before ''id'') (jget after ''id'')) (Refused ''job transaction cannot reorder reservations'')
     (res_map (\<lambda>changes. if \<not> jeq (JObj before) (JObj after)
          then JObj [(''index'', JInt (int index)), (''reservation'', JObj after)] # changes else changes)
        (change_loop (Suc index) rest))"
| "change_loop index (_ # rest) = Inl (Refused ''job transaction contains an invalid reservation'')"

definition job_transaction_changes :: "jobject \<Rightarrow> json \<Rightarrow> (broker_error, json list) result" where
  "job_transaction_changes current proposed =
     (case proposed of
        JObj doc \<Rightarrow>
          res_bind (ledger_fields_kept current doc) (\<lambda>_.
          res_bind (paired_reservations current doc) (\<lambda>(xs, ys).
          res_bind (change_loop 0 (zip xs ys)) (\<lambda>changes.
          raise_if (length changes > BROKER_MAX_JOB_CHANGES) (Refused ''job transaction contains too many reservation changes'')
            (Inr changes))))
      | _ \<Rightarrow> Inl (Refused ''ledger mutator returned an invalid ledger''))"

text \<open>
  A call of the broker changes the world and may fail. A client's transaction reads the ledger
  (\<open>read\<close>), runs the mutator on it, which is a function of that ledger, and sends what has
  changed (\<open>send\<close>).
\<close>

type_synonym ('w, 'a) remote = "'w \<Rightarrow> 'w \<times> (broker_error, 'a) result"

definition at_once :: "(broker_error, 'a) result \<Rightarrow> ('w, 'a) remote" where
  "at_once r w = (w, r)"

definition remote_bind :: "('w, 'a) remote \<Rightarrow> ('a \<Rightarrow> ('w, 'b) remote) \<Rightarrow> ('w, 'b) remote" where
  "remote_bind f g w = (case f w of (w, Inl e) \<Rightarrow> (w, Inl e) | (w, Inr x) \<Rightarrow> g x w)"

type_synonym 'r job_mutator = "jobject \<Rightarrow> (broker_error, json \<times> 'r \<times> json list \<times> bool) result"

definition patch_payload :: "(jobject \<Rightarrow> string) \<Rightarrow> jobject \<Rightarrow> json list \<Rightarrow> json list \<Rightarrow> bool \<Rightarrow> jobject" where
  "patch_payload ledger_digest current changes logs changed =
     [(''base_digest'', JStr (ledger_digest current)), (''changes'', JArr changes), (''logs'', JArr logs),
      (''changed'', JBool changed)]"

definition ledger_payload :: "string \<Rightarrow> json \<Rightarrow> json list \<Rightarrow> bool \<Rightarrow> jobject" where
  "ledger_payload base_digest new_ledger logs changed =
     [(''base_digest'', JStr base_digest), (''ledger'', new_ledger), (''logs'', JArr logs), (''changed'', JBool changed)]"

text \<open>The field \<^verbatim>\<open>committed\<close> of a response.\<close>

definition committed_flag :: "json \<Rightarrow> (broker_error, bool) result" where
  "committed_flag response =
     (case (case response of JObj d \<Rightarrow> jget d ''committed'' | _ \<Rightarrow> JNull) of
        JBool committed \<Rightarrow> Inr committed
      | _ \<Rightarrow> Inl (Refused ''broker returned an invalid transaction result''))"

fun patch_attempts ::
  "(jobject \<Rightarrow> string) \<Rightarrow> 'r job_mutator \<Rightarrow> ('w, jobject) remote \<Rightarrow> (jobject \<Rightarrow> ('w, json) remote) \<Rightarrow> nat \<Rightarrow> ('w, 'r) remote" where
  "patch_attempts ledger_digest mutator read send 0 = at_once (Inl (Refused ''ledger changed repeatedly; retry the operation''))"
| "patch_attempts ledger_digest mutator read send (Suc left) =
     remote_bind read (\<lambda>current.
     remote_bind (at_once (mutator current)) (\<lambda>(new_ledger, result, logs, changed).
     if \<not> changed \<and> logs = [] then at_once (Inr result)
     else remote_bind (at_once (job_transaction_changes current new_ledger)) (\<lambda>changes.
          remote_bind (send (patch_payload ledger_digest current changes logs changed)) (\<lambda>response.
          remote_bind (at_once (committed_flag response)) (\<lambda>committed.
          if committed then at_once (Inr result)
          else patch_attempts ledger_digest mutator read send left)))))"

definition patch_transaction ::
  "(jobject \<Rightarrow> string) \<Rightarrow> 'r job_mutator \<Rightarrow> ('w, jobject) remote \<Rightarrow> (jobject \<Rightarrow> ('w, json) remote) \<Rightarrow> ('w, 'r) remote" where
  "patch_transaction ledger_digest mutator read send =
     patch_attempts ledger_digest mutator read send BROKER_TRANSACTION_RETRIES"


text \<open>The older protocol sends the whole ledger, from a snapshot with its digest.\<close>

definition snapshot_parts :: "json \<Rightarrow> (broker_error, jobject \<times> string) result" where
  "snapshot_parts response =
     (case (case response of JObj d \<Rightarrow> jget d ''ledger'' | _ \<Rightarrow> JNull) of
        JObj current \<Rightarrow>
          (case (case response of JObj d \<Rightarrow> jget d ''digest'' | _ \<Rightarrow> JNull) of
             JStr base_digest \<Rightarrow> Inr (current, base_digest)
           | _ \<Rightarrow> Inl (Refused ''broker returned an invalid ledger digest''))
      | _ \<Rightarrow> Inl (Refused ''broker returned an invalid ledger snapshot''))"

fun legacy_attempts ::
  "'r job_mutator \<Rightarrow> ('w, json) remote \<Rightarrow> (jobject \<Rightarrow> ('w, json) remote) \<Rightarrow> nat \<Rightarrow> ('w, 'r) remote" where
  "legacy_attempts mutator snapshot send 0 = at_once (Inl (Refused ''ledger changed repeatedly; retry the operation''))"
| "legacy_attempts mutator snapshot send (Suc left) =
     remote_bind snapshot (\<lambda>response.
     remote_bind (at_once (snapshot_parts response)) (\<lambda>(current, base_digest).
     remote_bind (at_once (mutator current)) (\<lambda>(new_ledger, result, logs, changed).
     if \<not> changed \<and> logs = [] then at_once (Inr result)
     else remote_bind (send (ledger_payload base_digest new_ledger logs changed)) (\<lambda>response.
          remote_bind (at_once (committed_flag response)) (\<lambda>committed.
          if committed then at_once (Inr result)
          else legacy_attempts mutator snapshot send left)))))"

definition unsupported_patch :: broker_error where
  "unsupported_patch = Refused (''unsupported broker operation: '' @ BROKER_JOB_PATCH_OPERATION)"

definition broker_transaction ::
  "(jobject \<Rightarrow> string) \<Rightarrow> 'r job_mutator \<Rightarrow> ('w, jobject) remote \<Rightarrow> (jobject \<Rightarrow> ('w, json) remote)
    \<Rightarrow> ('w, json) remote \<Rightarrow> (jobject \<Rightarrow> ('w, json) remote) \<Rightarrow> ('w, 'r) remote" where
  "broker_transaction ledger_digest mutator read send_patch snapshot send_ledger w =
     (case patch_transaction ledger_digest mutator read send_patch w of
        (w, Inr result) \<Rightarrow> (w, Inr result)
      | (w, Inl e) \<Rightarrow>
          (if e = unsupported_patch
           then legacy_attempts mutator snapshot send_ledger BROKER_TRANSACTION_RETRIES w
           else (w, Inl e)))"

text \<open>What the client's calls send, and how they read a booking result.\<close>

definition cancel_payload :: "string \<Rightarrow> string option \<Rightarrow> jobject" where
  "cancel_payload reservation_id operation_id =
     (''reservation_id'', JStr reservation_id)
       # (case operation_id of None \<Rightarrow> [] | Some op \<Rightarrow> [(''op_id'', JStr op)])"

definition publish_payload :: "string \<Rightarrow> string \<Rightarrow> int \<Rightarrow> datetime option \<Rightarrow> jobject" where
  "publish_payload message level expires_in_seconds starts_at =
     [(''message'', JStr message), (''level'', JStr level), (''expires_in_seconds'', JInt expires_in_seconds)]
     @ (case starts_at of None \<Rightarrow> [] | Some t \<Rightarrow> [(''starts_at'', JStr (to_iso t))])"

definition edit_announcement_payload ::
  "string \<Rightarrow> string option \<Rightarrow> string option \<Rightarrow> int option \<Rightarrow> datetime option \<Rightarrow> datetime option \<Rightarrow> jobject" where
  "edit_announcement_payload token message level expires_in_seconds starts_at expires_at =
     [(''id'', JStr token)]
     @ (case message of None \<Rightarrow> [] | Some m \<Rightarrow> [(''message'', JStr m)])
     @ (case level of None \<Rightarrow> [] | Some v \<Rightarrow> [(''level'', JStr v)])
     @ (case expires_in_seconds of None \<Rightarrow> [] | Some n \<Rightarrow> [(''expires_in_seconds'', JInt n)])
     @ (case starts_at of None \<Rightarrow> [] | Some t \<Rightarrow> [(''starts_at'', JStr (to_iso t))])
     @ (case expires_at of None \<Rightarrow> [] | Some t \<Rightarrow> [(''expires_at'', JStr (to_iso t))])"

definition booking_result_payload :: "json \<Rightarrow> bool \<Rightarrow> string \<Rightarrow> bool \<Rightarrow> jobject" where
  "booking_result_payload reservation created message queued =
     [(''reservation'', reservation), (''created'', JBool created), (''message'', JStr message), (''queued'', JBool queued)]"

definition read_booking_result :: "json \<Rightarrow> (broker_error, jobject \<times> bool \<times> string \<times> bool) result" where
  "read_booking_result value =
     (case value of
        JObj d \<Rightarrow>
          (let fields = [''reservation'', ''created'', ''message'', ''queued'']
           in res_bind (require_keys d fields fields) (\<lambda>_.
              case jget d ''reservation'' of
                JObj reservation \<Rightarrow>
                  res_bind (boolean (jget d ''created'')) (\<lambda>created.
                  res_bind (string_field (jget d ''message'')) (\<lambda>message.
                  res_map (\<lambda>queued. (reservation, created, message, queued)) (boolean (jget d ''queued''))))
              | _ \<Rightarrow> Inl (Refused ''broker returned an invalid reservation'')))
      | _ \<Rightarrow> Inl (Refused ''broker returned an invalid booking result''))"


section \<open>Frames\<close>

text \<open>
  A message is its length in four bytes, most significant first, and the bytes of its JSON text
  (\<open>dumps\<close>, \<open>loads\<close>). The peer's bytes arrive in chunks: each \<^verbatim>\<open>recv\<close> of at most
  \<open>n\<close> bytes returns a non-empty prefix of what is left of the current chunk, and the empty string
  once the peer has closed.
\<close>

type_synonym bytes = "nat list"

definition pack_length :: "nat \<Rightarrow> bytes" where
  "pack_length n = [n div 16777216 mod 256, n div 65536 mod 256, n div 256 mod 256, n mod 256]"

definition unpack_length :: "bytes \<Rightarrow> nat" where
  "unpack_length header = foldl (\<lambda>acc b. acc * 256 + b) 0 header"

definition send_frame :: "(jobject \<Rightarrow> bytes) \<Rightarrow> jobject \<Rightarrow> (broker_error, bytes) result" where
  "send_frame dumps message =
     (let payload = dumps message
      in raise_if (length payload > BROKER_MAX_FRAME_BYTES) (Refused ''broker message exceeds 1 MiB'')
           (Inr (pack_length (length payload) @ payload)))"

fun recv :: "nat \<Rightarrow> bytes list \<Rightarrow> bytes \<times> bytes list" where
  "recv n [] = ([], [])"
| "recv n ([] # chunks) = recv n chunks"
| "recv n ((b # bs) # chunks) = (take n (b # bs), (drop n (b # bs)) # chunks)"

function receive_exact :: "nat \<Rightarrow> bytes \<Rightarrow> bytes list \<Rightarrow> (broker_error, bytes \<times> bytes list) result" where
  "receive_exact wanted got stream =
     (if length got < wanted
      then case recv (wanted - length got) stream of (chunk, stream') \<Rightarrow>
        (if chunk = [] then Inl (Refused ''broker connection closed before the frame completed'')
         else receive_exact wanted (got @ chunk) stream')
      else Inr (got, stream))"
  by pat_completeness auto
termination
  by (relation "measure (\<lambda>(wanted, got, _). wanted - length got)") (auto simp: diff_less_mono2)

definition receive_frame :: "(bytes \<Rightarrow> json option) \<Rightarrow> bytes list \<Rightarrow> (broker_error, jobject \<times> bytes list) result" where
  "receive_frame loads stream =
     res_bind (receive_exact 4 [] stream) (\<lambda>(header, stream).
     let n = unpack_length header
     in raise_if (n < 2 \<or> n > BROKER_MAX_FRAME_BYTES) (Refused ''invalid broker frame length'')
     (res_bind (receive_exact n [] stream) (\<lambda>(payload, stream).
       case loads payload of
         None \<Rightarrow> Inl (Refused ''broker message is not valid UTF-8 JSON'')
       | Some (JObj message) \<Rightarrow> Inr (message, stream)
       | Some _ \<Rightarrow> Inl (Refused ''broker message must be a JSON object''))))"


section \<open>Dispatch\<close>

text \<open>
  What a request asks for, decoded, with the identity of the connection on it. A cancellation and an
  announcement carry the actor beside their arguments.
\<close>

datatype broker_call =
    Ping
  | Snapshot
  | CommitOwnJob jobject actor
  | CommitOwnJobPatch jobject actor
  | AddBooking booking_request
  | EditBooking edit_request
  | CancelBooking string actor "string option"
  | AdminCancel string actor string
  | PublishAnnouncement actor string string int "datetime option"
  | ArchiveAnnouncement actor string
  | EditAnnouncement actor string "string option" "string option" "int option" "datetime option" "datetime option"

text \<open>\<^verbatim>\<open>parse_iso(raw) if isinstance(raw, str) else None\<close>\<close>

definition optional_instant :: "json \<Rightarrow> (broker_error, datetime option) result" where
  "optional_instant v = (case v of JStr s \<Rightarrow> res_map Some (iso_instant s) | _ \<Rightarrow> Inr None)"

text \<open>
  The broker's own placement advice, which replaces whatever a client could have sent: the order and
  scores of the GPUs and their memory capacities.
\<close>

record broker_advice =
  ba_order :: "int list"
  ba_scores :: "(int \<times> pyfloat) list"
  ba_memory_capacities_mb :: "(int \<times> int) list"

definition advised_booking :: "broker_advice \<Rightarrow> booking_request \<Rightarrow> booking_request" where
  "advised_booking advice request =
     request\<lparr>br_gpu_order := Some (ba_order advice), br_gpu_scores := Some (ba_scores advice),
       br_gpu_memory_capacity_mb := Some (ba_memory_capacities_mb advice)\<rparr>"

definition advised_edit :: "broker_advice \<Rightarrow> edit_request \<Rightarrow> edit_request" where
  "advised_edit advice request =
     request\<lparr>er_gpu_order := Some (ba_order advice), er_gpu_scores := Some (ba_scores advice),
       er_gpu_memory_capacity_mb := Some (ba_memory_capacities_mb advice)\<rparr>"

definition dispatch_announcement :: "string \<Rightarrow> jobject \<Rightarrow> actor \<Rightarrow> (broker_error, broker_call) result" where
  "dispatch_announcement operation payload actor =
     (if operation = ''announcement.publish''
      then res_bind (require_keys payload [''message'', ''level'', ''expires_in_seconds'', ''starts_at'']
             [''message'', ''level'', ''expires_in_seconds'']) (\<lambda>_.
           res_bind (string_field (jget payload ''message'')) (\<lambda>message.
           res_bind (string_field (jget payload ''level'')) (\<lambda>level.
           res_bind (integer (jget payload ''expires_in_seconds'')) (\<lambda>expiry.
           res_map (PublishAnnouncement actor message level expiry) (optional_instant (jget payload ''starts_at''))))))
      else if operation = ''announcement.archive'' \<or> operation = ''announcement.remove''
      then res_bind (require_keys payload [''id''] [''id'']) (\<lambda>_.
           res_map (ArchiveAnnouncement actor) (string_field (jget payload ''id'')))
      else if operation = ''announcement.edit''
      then res_bind (require_keys payload [''id'', ''message'', ''level'', ''expires_in_seconds'', ''starts_at'', ''expires_at'']
             [''id'']) (\<lambda>_.
           res_bind (string_field (jget payload ''id'')) (\<lambda>token.
           res_bind (optional_string (jget payload ''message'')) (\<lambda>message.
           res_bind (optional_string (jget payload ''level'')) (\<lambda>level.
           res_bind (optional_integer (jget payload ''expires_in_seconds'')) (\<lambda>expiry.
           res_bind (optional_instant (jget payload ''starts_at'')) (\<lambda>starts_at.
           res_map (EditAnnouncement actor token message level expiry starts_at)
             (optional_instant (jget payload ''expires_at''))))))))
      else Inl (Refused (''unsupported broker operation: '' @ operation)))"

definition dispatch_payload :: "broker_advice \<Rightarrow> string \<Rightarrow> jobject \<Rightarrow> actor \<Rightarrow> (broker_error, broker_call) result" where
  "dispatch_payload advice operation payload actor =
     (if operation = ''ping'' then res_map (\<lambda>_. Ping) (require_keys payload [] [])
      else if operation = ''ledger.snapshot'' then res_map (\<lambda>_. Snapshot) (require_keys payload [] [])
      else if operation = ''ledger.commit-own-job'' then Inr (CommitOwnJob payload actor)
      else if operation = BROKER_JOB_PATCH_OPERATION then Inr (CommitOwnJobPatch payload actor)
      else if operation = ''booking.add'' then res_map (\<lambda>r. AddBooking (advised_booking advice r)) (decode_booking_request payload actor)
      else if operation = ''booking.edit'' then res_map (\<lambda>r. EditBooking (advised_edit advice r)) (decode_edit_request payload actor)
      else if operation = ''booking.cancel''
      then res_bind (require_keys payload [''reservation_id'', ''op_id''] []) (\<lambda>_.
           res_bind (string_field (jget payload ''reservation_id'')) (\<lambda>reservation_id.
           res_map (CancelBooking reservation_id actor) (optional_string (jget payload ''op_id''))))
      else if operation = ''booking.admin-cancel''
      then res_bind (require_keys payload [''reservation_id'', ''reason''] [''reservation_id'', ''reason'']) (\<lambda>_.
           res_bind (string_field (jget payload ''reservation_id'')) (\<lambda>reservation_id.
           case jget payload ''reason'' of
             JStr reason \<Rightarrow> Inr (AdminCancel reservation_id actor reason)
           | _ \<Rightarrow> Inl (Refused ''administrator cancellation reason is required'')))
      else dispatch_announcement operation payload actor)"

text \<open>\<open>is_uuid\<close> is \<^verbatim>\<open>uuid.UUID(str(..))\<close> without an exception.\<close>

definition dispatch :: "(json \<Rightarrow> bool) \<Rightarrow> broker_advice \<Rightarrow> jobject \<Rightarrow> actor \<Rightarrow> (broker_error, broker_call) result" where
  "dispatch is_uuid advice request actor =
     (let fields = [''schema_version'', ''request_id'', ''operation'', ''payload'']
      in res_bind (require_keys request fields fields) (\<lambda>_.
         raise_if (\<not> jeq (jget request ''schema_version'') (JStr BROKER_SCHEMA_VERSION))
           (Refused ''unsupported broker protocol version'')
         (raise_if (\<not> is_uuid (jget request ''request_id'')) (Refused ''invalid broker request ID'')
         (case (jget request ''operation'', jget request ''payload'') of
            (JStr operation, JObj payload) \<Rightarrow> dispatch_payload advice operation payload actor
          | _ \<Rightarrow> Inl (Refused ''broker operation and payload are required'')))))"


section \<open>Answers\<close>

definition error_name :: "broker_error \<Rightarrow> string" where
  "error_name e = (case e of Refused _ \<Rightarrow> ''BookingError'' | PyTypeError \<Rightarrow> ''TypeError''
     | PyValueError \<Rightarrow> ''ValueError'' | PyOverflowError \<Rightarrow> ''OverflowError'')"

text \<open>
  \<^verbatim>\<open>_handle\<close>: the outcome of a request as a response; \<open>describe\<close> is the text of an exception.
  An \<^verbatim>\<open>OverflowError\<close> is not among the exceptions the handler turns into a response.
\<close>

definition respond :: "(broker_error \<Rightarrow> string) \<Rightarrow> json \<Rightarrow> (broker_error, json) result \<Rightarrow> jobject option" where
  "respond describe request_id outcome =
     (case outcome of
        Inr result \<Rightarrow> Some [(''schema_version'', JStr BROKER_SCHEMA_VERSION), (''request_id'', request_id),
            (''ok'', JBool True), (''result'', result)]
      | Inl PyOverflowError \<Rightarrow> None
      | Inl e \<Rightarrow> Some [(''schema_version'', JStr BROKER_SCHEMA_VERSION), (''request_id'', request_id),
            (''ok'', JBool False),
            (''error'', JObj [(''type'', JStr (error_name e)), (''message'', JStr (describe e))])])"

text \<open>The end of \<^verbatim>\<open>BrokerClient.call\<close>, on the response received.\<close>

definition read_response :: "(json \<Rightarrow> string) \<Rightarrow> string \<Rightarrow> jobject \<Rightarrow> (broker_error, json) result" where
  "read_response repr request_id response =
     raise_if (\<not> jeq (jget response ''schema_version'') (JStr BROKER_SCHEMA_VERSION))
       (Refused ''broker returned an unsupported protocol version'')
     (raise_if (\<not> jeq (jget response ''request_id'') (JStr request_id))
       (Refused ''broker response request ID does not match'')
     (if jget response ''ok'' = JBool True then Inr (jget response ''result'')
      else let message = (case jget response ''error'' of JObj e \<Rightarrow> jget e ''message'' | _ \<Rightarrow> JNull)
           in Inl (Refused (if message \<in> {JNull, JBool False, JInt 0, JFloat 0, JStr [], JArr [], JObj []}
                            then ''broker rejected the request'' else py_text repr message))))"


section \<open>Who is asking, and where\<close>

definition peer_credentials :: "int \<times> int \<times> int \<Rightarrow> (broker_error, int \<times> int \<times> int) result" where
  "peer_credentials raw =
     (case raw of (pid, uid, gid) \<Rightarrow>
        raise_if (pid \<le> 0 \<or> uid < 0 \<or> gid < 0) (Refused ''kernel returned invalid peer credentials'') (Inr (pid, uid, gid)))"

definition actor_for_uid :: "(int \<rightharpoonup> string) \<Rightarrow> int \<Rightarrow> actor" where
  "actor_for_uid pw_name uid =
     \<lparr>actor_uid = uid, actor_username = (case pw_name uid of None \<Rightarrow> show_int uid | Some name \<Rightarrow> name)\<rparr>"

text \<open>
  The start of \<^verbatim>\<open>_handle\<close>: the credentials the kernel reports for the connection give the actor,
  and the request received on it is dispatched for that actor.
\<close>

definition handle_call ::
  "(int \<rightharpoonup> string) \<Rightarrow> (json \<Rightarrow> bool) \<Rightarrow> broker_advice \<Rightarrow> int \<times> int \<times> int \<Rightarrow> (broker_error, jobject) result
    \<Rightarrow> (broker_error, broker_call) result" where
  "handle_call pw_name is_uuid advice credentials received =
     res_bind (peer_credentials credentials) (\<lambda>(pid, uid, gid).
     let actor = actor_for_uid pw_name uid
     in res_bind received (\<lambda>request. dispatch is_uuid advice request actor))"

datatype file_kind = Directory | Socket | OtherKind

record file_metadata =
  fm_kind :: file_kind
  fm_uid :: int
  fm_gid :: int
  fm_mode :: int

definition validate_service_storage :: "int \<Rightarrow> int \<Rightarrow> file_metadata option \<Rightarrow> (broker_error, unit) result" where
  "validate_service_storage broker_uid mode metadata =
     (case metadata of
        None \<Rightarrow> Inl (Refused ''broker data directory does not exist'')
      | Some m \<Rightarrow>
          raise_if (fm_kind m \<noteq> Directory) (Refused ''broker data path is not a directory'')
          (raise_if (fm_uid m \<noteq> broker_uid) (Refused ''broker data directory must be owned by service UID'')
          (raise_if (fm_mode m \<noteq> mode) (Refused ''broker data directory mode'') (Inr ()))))"

text \<open>\<^verbatim>\<open>mode & 0o022\<close>: bits 1 and 4.\<close>

definition validate_socket_parent :: "int \<Rightarrow> file_metadata option \<Rightarrow> (broker_error, unit) result" where
  "validate_socket_parent broker_uid metadata =
     (case metadata of
        None \<Rightarrow> Inl (Refused ''broker socket directory does not exist'')
      | Some m \<Rightarrow>
          raise_if (fm_kind m \<noteq> Directory) (Refused ''broker socket parent is not a real directory'')
          (raise_if (fm_uid m \<notin> {0, broker_uid}) (Refused ''broker socket directory has an untrusted owner'')
          (raise_if (fm_mode m div 2 mod 2 = 1 \<or> fm_mode m div 16 mod 2 = 1)
             (Refused ''broker socket directory must not be group/other writable'') (Inr ()))))"

definition validate_socket_leaf ::
  "int \<Rightarrow> int option \<Rightarrow> int \<Rightarrow> file_metadata option \<Rightarrow> (broker_error, unit) result" where
  "validate_socket_leaf expected_uid expected_gid expected_mode metadata =
     (case metadata of
        None \<Rightarrow> Inl (Refused ''GPUBK broker socket does not exist'')
      | Some m \<Rightarrow>
          raise_if (fm_kind m \<noteq> Socket) (Refused ''broker path is not a Unix socket'')
          (raise_if (fm_uid m \<noteq> expected_uid) (Refused ''broker socket must be owned by UID'')
          (raise_if (case expected_gid of None \<Rightarrow> False | Some gid \<Rightarrow> fm_gid m \<noteq> gid) (Refused ''broker socket must use GID'')
          (raise_if (fm_mode m \<noteq> expected_mode) (Refused ''broker socket mode'') (Inr ())))))"

end
