(* ===== verification/Broker_Claims.thy ===== *)
theory Broker_Claims
  imports Broker
begin

text \<open>
  What the broker guarantees: a client changes nothing but the mutable fields of its own jobs, a
  patch stands for the whole ledger it was computed from, a client's transaction takes effect at
  most once and on the ledger it was computed on, requests and frames survive the wire, and every
  operation runs under the identity the kernel reported.
\<close>


section \<open>Objects\<close>

lemma keys_override: "map fst (map (\<lambda>(a, b). if a = k then (a, v) else (a, b)) d) = map fst d"
  by (induction d) auto

lemma jkeys_jset: "k \<in> jkeys d \<Longrightarrow> jkeys (jset d k v) = jkeys d"
  unfolding jkeys_def jset_def set_map [symmetric] by (simp only: if_True keys_override)

lemma map_of_override:
  "map_of (map (\<lambda>(a, b). if a = k then (a, v) else (a, b)) d) k' =
     (if k' = k then map_option (\<lambda>_. v) (map_of d k) else map_of d k')"
  by (induction d) (auto split: prod.splits)

lemma map_of_jset: "map_of (jset d k v) k' = (if k' = k then Some v else map_of d k')"
proof (cases "map_of d k")
  case None
  then have "k \<notin> fst ` set d" by (simp add: map_of_eq_None_iff)
  with None show ?thesis by (simp add: jset_def map_add_def split: option.split)
next
  case (Some w)
  then have "k \<in> fst ` set d" using map_of_SomeD by force
  with Some show ?thesis by (simp add: jset_def map_of_override)
qed

lemma jget_jset [simp]: "jget (jset d k v) k' = (if k' = k then v else jget d k')"
  by (simp add: jget_def map_of_jset)

lemma jget_absent: "k \<notin> jkeys d \<Longrightarrow> jget d k = JNull"
  using map_of_eq_None_iff [of d k] by (simp add: jget_def jkeys_def)

lemma unchanged_key: "\<not> changed_key a b P \<Longrightarrow> P k \<Longrightarrow> jeq (jget a k) (jget b k)"
proof (cases "k \<in> jkeys a \<union> jkeys b")
  case True
  then show "\<not> changed_key a b P \<Longrightarrow> P k \<Longrightarrow> jeq (jget a k) (jget b k)"
    by (auto simp: changed_key_def jkeys_def list_ex_iff)
qed (simp add: jget_absent)


section \<open>Confinement\<close>

text \<open>
  What a client may do to a reservation of its own: keep every booking field, leave the status or
  expire an active reservation whose end has passed, and keep every field of the job but the
  mutable ones, neither adding nor removing the job.
\<close>

definition own_change :: "datetime \<Rightarrow> jobject \<Rightarrow> jobject \<Rightarrow> bool" where
  "own_change now before after \<longleftrightarrow>
     (\<forall>k. k \<notin> {''status'', ''updated_at'', ''job''} \<longrightarrow> jeq (jget before k) (jget after k))
     \<and> (jeq (jget after ''status'') (jget before ''status'')
        \<or> jget before ''status'' = JStr ''active'' \<and> jget after ''status'' = JStr ''expired''
          \<and> (\<exists>text end_at. jget before ''end_at'' = JStr text \<and> parse_iso text = Some end_at \<and> end_at \<le> now))
     \<and> (case (jget before ''job'', jget after ''job'') of
          (JObj old, JObj new) \<Rightarrow> \<forall>k. k \<notin> set JOB_MUTABLE_FIELDS \<longrightarrow> jeq (jget old k) (jget new k)
        | (old, new) \<Rightarrow> jeq old new)"

definition confined :: "actor \<Rightarrow> datetime \<Rightarrow> json \<Rightarrow> json \<Rightarrow> bool" where
  "confined actor now b a \<longleftrightarrow>
     (\<exists>before after. b = JObj before \<and> a = JObj after \<and> jeq (jget before ''id'') (jget after ''id'')
       \<and> (if reservation_uid before = Inr (actor_uid actor) then own_change now before after else jeq a b))"

lemma jeq_string: "jeq v (JStr s) \<longleftrightarrow> v = JStr s"
  by (cases v) (auto simp: py_eq_def)

lemma status_change:
  assumes "validate_status_change now before after = Inr u"
  shows "jeq (jget after ''status'') (jget before ''status'')
      \<or> jget before ''status'' = JStr ''active'' \<and> jget after ''status'' = JStr ''expired''
        \<and> (\<exists>text end_at. jget before ''end_at'' = JStr text \<and> parse_iso text = Some end_at \<and> end_at \<le> now)"
proof (cases "jeq (jget after ''status'') (jget before ''status'')")
  case False
  with assms show ?thesis
    by (auto simp: validate_status_change_def Let_def result_simps jeq_string string_field_def iso_instant_def not_less
        simp del: jeq.simps split: json.splits option.splits)
qed simp

lemma job_fields:
  assumes "validate_job_fields old new = Inr u"
  shows "case (old, new) of
      (JObj old, JObj new) \<Rightarrow> \<forall>k. k \<notin> set JOB_MUTABLE_FIELDS \<longrightarrow> jeq (jget old k) (jget new k)
    | (old, new) \<Rightarrow> jeq old new"
  using assms unchanged_key [of _ _ "\<lambda>k. k \<notin> set JOB_MUTABLE_FIELDS"]
  by (cases old; cases new) (simp_all add: validate_job_fields_def del: jeq.simps)

lemma owned_change:
  assumes "validate_owned_reservation_job_change now before after = Inr u"
  shows "own_change now before after"
proof -
  from assms have kept: "\<not> changed_key before after (\<lambda>k. k \<notin> {''status'', ''updated_at'', ''job''})"
    and ok: "\<exists>u. validate_status_change now before after = Inr u"
      "validate_job_fields (jget before ''job'') (jget after ''job'') = Inr u"
    by (auto simp: validate_owned_reservation_job_change_def result_simps)
  from ok(1) obtain u' where "validate_status_change now before after = Inr u'" by blast
  from status_change [OF this] job_fields [OF ok(2)] unchanged_key [OF kept] show ?thesis
    unfolding own_change_def by (intro conjI) simp_all
qed

lemma own_reservations_confined:
  assumes "own_reservations repr clock actor i pairs owned = Inr owned'"
  shows "(\<forall>k < length pairs. confined actor (clock (i + k)) (fst (pairs ! k)) (snd (pairs ! k)))
    \<and> (\<forall>(ident, r) \<in> set owned'. (ident, r) \<in> set owned \<or>
        (\<exists>before. (JObj before, JObj r) \<in> set pairs \<and> reservation_uid before = Inr (actor_uid actor)
           \<and> ident = py_text repr (jget_default before ''id'' (JStr []))))"
  using assms
proof (induction repr clock actor i pairs owned arbitrary: owned' rule: own_reservations.induct)
  case (2 repr clock actor i before after rest owned)
  let ?key = "py_text repr (jget_default before ''id'' (JStr []))"
  from 2 obtain uid where uid: "reservation_uid before = Inr uid"
    and ids: "jeq (jget before ''id'') (jget after ''id'')" by (auto simp: result_simps)
  have split: "\<forall>k < length ((JObj before, JObj after) # rest).
      confined actor (clock (i + k)) (fst (((JObj before, JObj after) # rest) ! k)) (snd (((JObj before, JObj after) # rest) ! k))"
    if "confined actor (clock i) (JObj before) (JObj after)"
      "\<forall>k < length rest. confined actor (clock (Suc i + k)) (fst (rest ! k)) (snd (rest ! k))"
    using that by (auto simp: less_Suc_eq_0_disj)
  show ?case
  proof (cases "uid = actor_uid actor")
    case False
    with 2(3) uid ids have rest: "own_reservations repr clock actor (Suc i) rest owned = Inr owned'"
      and same: "jeq (JObj after) (JObj before)" by (auto simp: result_simps)
    from same ids uid False have "confined actor (clock i) (JObj before) (JObj after)"
      by (auto simp: confined_def)
    with 2(1) [OF False rest] split show ?thesis by fastforce
  next
    case True
    with 2(3) uid ids obtain u where ok: "validate_owned_reservation_job_change (clock i) before after = Inr u"
      and rest: "own_reservations repr clock actor (Suc i) rest ((?key, after) # owned) = Inr owned'"
      by (auto simp: result_simps)
    from owned_change [OF ok] ids uid True have "confined actor (clock i) (JObj before) (JObj after)"
      by (auto simp: confined_def)
    moreover have "reservation_uid before = Inr (actor_uid actor)" using uid True by simp
    ultimately show ?thesis using 2(2) [OF _ rest] True split by fastforce
  qed
qed auto

text \<open>An audit event as the broker writes it: of the client, on a reservation of the client.\<close>

definition own_event :: "(json \<Rightarrow> string) \<Rightarrow> actor \<Rightarrow> json list \<Rightarrow> json \<Rightarrow> bool" where
  "own_event repr actor reservations e \<longleftrightarrow>
     (\<exists>item before. e = JObj item
       \<and> jget item ''uid'' = JInt (actor_uid actor) \<and> jget item ''username'' = JStr (actor_username actor)
       \<and> (\<exists>action. jget item ''action'' = JStr action \<and> valid_job_action action)
       \<and> JObj before \<in> set reservations \<and> reservation_uid before = Inr (actor_uid actor)
       \<and> jget item ''reservation_id'' = JStr (py_text repr (jget_default before ''id'' (JStr []))))"

lemma res_each_Inr:
  "res_each f xs = Inr ys \<Longrightarrow> length ys = length xs \<and> (\<forall>y \<in> set ys. \<exists>x \<in> set xs. f x = Inr y)"
proof (induction xs arbitrary: ys)
  case (Cons x xs)
  then obtain y zs where "f x = Inr y" "res_each f xs = Inr zs" "ys = y # zs"
    by (auto simp: result_simps res_map_def)
  with Cons.IH show ?case by auto
qed simp

lemma audit_event_fields:
  "jget (audit_event actor action ident r now message) ''uid'' = JInt (actor_uid actor)"
  "jget (audit_event actor action ident r now message) ''username'' = JStr (actor_username actor)"
  "jget (audit_event actor action ident r now message) ''action'' = JStr action"
  "jget (audit_event actor action ident r now message) ''reservation_id'' = JStr ident"
  by (simp_all add: audit_event_def jget_def)

lemma sanitized_event:
  assumes "sanitize_log repr actor owned now raw = Inr e"
    and "\<And>ident r. (ident, r) \<in> set owned \<Longrightarrow> \<exists>before. JObj before \<in> set reservations
      \<and> reservation_uid before = Inr (actor_uid actor) \<and> ident = py_text repr (jget_default before ''id'' (JStr []))"
  shows "own_event repr actor reservations e"
proof -
  from assms(1) obtain ident r action message where e: "e = JObj (audit_event actor action ident r now message)"
    "map_of owned ident = Some r" "valid_job_action action"
    by (auto simp: sanitize_log_def split: json.split_asm option.split_asm)
  from assms(2) [OF map_of_SomeD [OF e(2)]] e(1,3) show ?thesis
    unfolding own_event_def by (metis audit_event_fields)
qed

definition confined_commit ::
  "(json \<Rightarrow> string) \<Rightarrow> (nat \<Rightarrow> datetime) \<Rightarrow> actor \<Rightarrow> jobject \<Rightarrow> jobject \<Rightarrow> json list \<Rightarrow> bool" where
  "confined_commit repr clock actor current new logs \<longleftrightarrow>
     jkeys new = jkeys current
     \<and> (\<forall>k. k \<noteq> ''reservations'' \<longrightarrow> jeq (jget new k) (jget current k))
     \<and> (\<exists>xs ys. jget current ''reservations'' = JArr xs \<and> jget new ''reservations'' = JArr ys
          \<and> length ys = length xs \<and> (\<forall>i < length xs. confined actor (clock i) (xs ! i) (ys ! i))
          \<and> (\<forall>e \<in> set logs. own_event repr actor xs e))"

lemma paired_lists:
  "paired_reservations current proposed = Inr (xs, ys) \<Longrightarrow>
     jget current ''reservations'' = JArr xs \<and> jget proposed ''reservations'' = JArr ys \<and> length ys = length xs"
  by (cases "jget current ''reservations''"; cases "jget proposed ''reservations''")
     (simp_all add: paired_reservations_def)

lemma accepted_proposal:
  assumes "accept_proposal repr clock log_clock actor raw changed current proposed = Inr (new, c, logs, ch)"
  shows "new = proposed \<and> c \<and> ch = changed \<and> confined_commit repr clock actor current proposed logs"
proof -
  from assms have valid: "validate_own_job_mutation repr clock log_clock current proposed raw actor = Inr logs"
    and rest: "new = proposed" "c" "ch = changed"
    by (cases "validate_own_job_mutation repr clock log_clock current proposed raw actor";
        simp add: accept_proposal_def Let_def del: jeq.simps; blast)+
  obtain xs ys where fields: "ledger_fields_kept current proposed = Inr ()"
    and pair: "paired_reservations current proposed = Inr (xs, ys)"
    using valid unfolding validate_own_job_mutation_def res_bind_eq_Inr by auto
  obtain owned where owned: "own_reservations repr clock actor 0 (zip xs ys) [] = Inr owned"
    and each: "res_each (\<lambda>(k, r). sanitize_log repr actor owned (log_clock k) r) (enumerate 0 raw) = Inr logs"
    using valid unfolding validate_own_job_mutation_def fields pair res_bind_Inr prod.case res_bind_eq_Inr by blast
  from pair have rs: "jget current ''reservations'' = JArr xs" "jget proposed ''reservations'' = JArr ys" "length ys = length xs"
    using paired_lists by blast+
  note loop = own_reservations_confined [OF owned]
  have "own_event repr actor xs e" if e: "e \<in> set logs" for e
  proof -
    from res_each_Inr [OF each] e obtain k r where "sanitize_log repr actor owned (log_clock k) r = Inr e" by auto
    then show ?thesis by (rule sanitized_event) (use loop in \<open>fastforce dest: set_zip_leftD\<close>)
  qed
  moreover have "\<forall>i < length xs. confined actor (clock i) (xs ! i) (ys ! i)" using loop rs(3) by auto
  moreover from fields have keys: "jkeys proposed = jkeys current" by (simp add: ledger_fields_kept_def)
  moreover from fields have "list_all (\<lambda>k. k = ''reservations'' \<or> jeq (jget proposed k) (jget current k)) (map fst current)"
    by (simp add: ledger_fields_kept_def list_ex_iff list_all_iff del: jeq.simps)
  then have "jeq (jget proposed k) (jget current k)" if "k \<in> jkeys current" "k \<noteq> ''reservations''" for k
    using that by (auto simp: list_all_iff jkeys_def)
  then have "jeq (jget proposed k) (jget current k)" if "k \<noteq> ''reservations''" for k
    using that keys by (cases "k \<in> jkeys current") (auto simp: jget_absent)
  ultimately show ?thesis using rest rs unfolding confined_commit_def by blast
qed

text \<open>
  The interface of the two commit operations: a commit refuses, leaves the ledger as it is because
  the digest is stale, or accepts a proposal on the ledger it has.
\<close>

locale job_commit =
  fixes commit :: "jobject \<Rightarrow> actor \<Rightarrow> jobject \<Rightarrow> broker_commit"
    and repr :: "json \<Rightarrow> string" and clock log_clock :: "nat \<Rightarrow> datetime" and ledger_digest :: "jobject \<Rightarrow> string"
  assumes decided: "commit payload actor current = Inr (new, committed, logs, changed) \<Longrightarrow>
      jget payload ''base_digest'' \<noteq> JStr (ledger_digest current) \<and> new = current \<and> \<not> committed \<and> logs = [] \<and> \<not> changed
      \<or> jget payload ''base_digest'' = JStr (ledger_digest current)
        \<and> (\<exists>raw flag proposed. accept_proposal repr clock log_clock actor raw flag current proposed
            = Inr (new, committed, logs, changed))"
begin

lemma confines:
  assumes "commit payload actor current = Inr (new, committed, logs, changed)"
  shows "if committed then confined_commit repr clock actor current new logs
    else new = current \<and> logs = [] \<and> \<not> changed"
  using decided [OF assms] accepted_proposal by fastforce

lemma compares: "commit payload actor current = Inr (new, True, logs, changed) \<Longrightarrow>
    jget payload ''base_digest'' = JStr (ledger_digest current)"
  using decided by blast

end

lemma payload_digest: "decode_job_payload body payload = Inr p \<Longrightarrow> jget payload ''base_digest'' = JStr (jp_base_digest p)"
  by (cases "jget payload ''base_digest''"; cases "jget payload ''logs''")
     (auto simp: decode_job_payload_def string_field_def result_simps)

interpretation whole: job_commit "commit_own_job_transaction repr ledger_digest clock log_clock" repr clock log_clock ledger_digest
  for repr ledger_digest clock log_clock
proof
  fix payload actor current new committed logs changed
  assume commit: "commit_own_job_transaction repr ledger_digest clock log_clock payload actor current
      = Inr (new, committed, logs, changed)"
  then obtain p where p: "decode_job_payload ''ledger'' payload = Inr p"
    by (auto simp: commit_own_job_transaction_def result_simps)
  from commit p payload_digest [OF p] show "jget payload ''base_digest'' \<noteq> JStr (ledger_digest current) \<and> new = current \<and> \<not> committed \<and> logs = [] \<and> \<not> changed
      \<or> jget payload ''base_digest'' = JStr (ledger_digest current)
        \<and> (\<exists>raw flag proposed. accept_proposal repr clock log_clock actor raw flag current proposed
            = Inr (new, committed, logs, changed))"
    by (cases "jp_body p") (auto simp: commit_own_job_transaction_def split: if_splits)
qed

interpretation patch: job_commit "commit_own_job_patch repr ledger_digest clock log_clock" repr clock log_clock ledger_digest
  for repr ledger_digest clock log_clock
proof
  fix payload actor current new committed logs changed
  assume commit: "commit_own_job_patch repr ledger_digest clock log_clock payload actor current
      = Inr (new, committed, logs, changed)"
  then obtain p where p: "decode_job_payload ''changes'' payload = Inr p"
    by (auto simp: commit_own_job_patch_def result_simps)
  from commit p payload_digest [OF p] show "jget payload ''base_digest'' \<noteq> JStr (ledger_digest current) \<and> new = current \<and> \<not> committed \<and> logs = [] \<and> \<not> changed
      \<or> jget payload ''base_digest'' = JStr (ledger_digest current)
        \<and> (\<exists>raw flag proposed. accept_proposal repr clock log_clock actor raw flag current proposed
            = Inr (new, committed, logs, changed))"
    by (cases "jp_body p"; cases "jget current ''reservations''")
       (auto simp: commit_own_job_patch_def result_simps split: if_splits)
qed


section \<open>Patches\<close>

text \<open>The reservations a patch leaves: the proposed ones, except those that compare equal.\<close>

definition merged :: "json list \<Rightarrow> json list \<Rightarrow> json list" where
  "merged xs ys = map (\<lambda>(x, y). if jeq x y then x else y) (zip xs ys)"

lemma length_merged [simp]: "length xs = length ys \<Longrightarrow> length (merged xs ys) = length ys"
  by (simp add: merged_def)

lemma change_loop_applies:
  assumes "change_loop i (zip xs ys) = Inr changes" and "length xs = length ys" and "length front = i"
    and "i + length xs \<le> n" and "\<And>k. k \<in> set seen \<Longrightarrow> k < int i"
  shows "apply_changes n changes seen (front @ xs) = Inr (front @ merged xs ys)"
  using assms
proof (induction xs arbitrary: i ys changes front seen)
  case Nil
  then show ?case by (simp add: merged_def)
next
  case (Cons x xs)
  then obtain y ys' where ys: "ys = y # ys'" "length xs = length ys'" by (cases ys) auto
  from Cons.prems(1) ys obtain before after rest where o: "x = JObj before" "y = JObj after"
    and rest: "change_loop (Suc i) (zip xs ys') = Inr rest"
    and changes: "changes = (if \<not> jeq x y then JObj [(''index'', JInt (int i)), (''reservation'', y)] # rest else rest)"
    by (cases x; cases y) (auto simp: result_simps res_map_def simp del: jeq.simps)
  have req: "require_keys [(''index'', JInt (int i)), (''reservation'', y)] [''index'', ''reservation''] [''index'', ''reservation''] = Inr ()"
    by (simp add: require_keys_def jkeys_def)
  show ?case
  proof (cases "jeq x y")
    case True
    have "apply_changes n rest seen ((front @ [x]) @ xs) = Inr ((front @ [x]) @ merged xs ys')"
      using Cons.prems by (intro Cons.IH [OF rest ys(2)]) force+
    with True changes ys show ?thesis by (simp add: merged_def del: jeq.simps)
  next
    case False
    have "apply_changes n rest (int i # seen) ((front @ [y]) @ xs) = Inr ((front @ [y]) @ merged xs ys')"
      using Cons.prems by (intro Cons.IH [OF rest ys(2)]) force+
    moreover have "int i \<notin> set seen" using Cons.prems(5) by blast
    moreover have "(front @ x # xs)[i := y] = front @ y # xs" using Cons.prems(3) by (metis list_update_length)
    ultimately show ?thesis using False changes ys o Cons.prems(4) req
      by (simp add: merged_def integer_def jget_def del: jeq.simps)
  qed
qed

lemma changes_apply:
  assumes "job_transaction_changes current (JObj proposed) = Inr changes"
    and "jget current ''reservations'' = JArr xs" and "jget proposed ''reservations'' = JArr ys"
  shows "apply_changes (length xs) changes [] xs = Inr (merged xs ys) \<and> length xs = length ys
    \<and> length changes \<le> BROKER_MAX_JOB_CHANGES"
proof -
  from assms have "change_loop 0 (zip xs ys) = Inr changes" "length xs = length ys" "length changes \<le> BROKER_MAX_JOB_CHANGES"
    by (auto simp: job_transaction_changes_def paired_reservations_def result_simps)
  with change_loop_applies [of 0 xs ys changes "[]" "length xs" "[]"] show ?thesis by simp
qed


section \<open>The client's transaction\<close>

text \<open>
  The broker as a client meets it: its ledger, the number of calls so far, and what it has
  committed for this client, as pairs of the ledger before and after.
\<close>

record broker_world =
  bw_ledger :: jobject
  bw_calls :: nat
  bw_commits :: "(jobject \<times> jobject) list"

text \<open>
  What happens around the calls, by their number: what other clients make of the ledger before the
  call, whether the request reaches the broker and the answer the client, and the text of the
  error if they do not; the clocks of the broker; and whether it is recent enough to know patches.
\<close>

record broker_link =
  bl_others :: "nat \<Rightarrow> jobject \<Rightarrow> jobject"
  bl_delivered :: "nat \<Rightarrow> bool"
  bl_answered :: "nat \<Rightarrow> bool"
  bl_lost :: "nat \<Rightarrow> string"
  bl_describe :: "broker_error \<Rightarrow> string"
  bl_clock :: "nat \<Rightarrow> nat \<Rightarrow> datetime"
  bl_log_clock :: "nat \<Rightarrow> nat \<Rightarrow> datetime"
  bl_patches :: bool

definition arrive :: "broker_link \<Rightarrow> broker_world \<Rightarrow> broker_world" where
  "arrive bl w = w\<lparr>bw_ledger := bl_others bl (bw_calls w) (bw_ledger w), bw_calls := Suc (bw_calls w)\<rparr>"

definition read_call :: "broker_link \<Rightarrow> (jobject \<Rightarrow> 'a) \<Rightarrow> (broker_world, 'a) remote" where
  "read_call bl f w =
     (arrive bl w, if bl_delivered bl (bw_calls w) then Inr (f (bw_ledger (arrive bl w))) else Inl (Refused (bl_lost bl (bw_calls w))))"

definition commit_call ::
  "broker_link \<Rightarrow> (nat \<Rightarrow> jobject \<Rightarrow> jobject \<Rightarrow> broker_commit) \<Rightarrow> jobject \<Rightarrow> (broker_world, json) remote" where
  "commit_call bl serve payload w =
     (let n = bw_calls w; w = arrive bl w; lost = Inl (Refused (bl_lost bl n))
      in if \<not> bl_delivered bl n then (w, lost)
         else case serve n payload (bw_ledger w) of
                Inl e \<Rightarrow> (w, Inl (Refused (bl_describe bl e)))
              | Inr (new, committed, logs, changed) \<Rightarrow>
                  (w\<lparr>bw_ledger := new, bw_commits := bw_commits w @ (if committed then [(bw_ledger w, new)] else [])\<rparr>,
                   if bl_answered bl n then Inr (JObj [(''committed'', JBool committed)]) else lost))"

definition patch_call ::
  "(json \<Rightarrow> string) \<Rightarrow> (jobject \<Rightarrow> string) \<Rightarrow> broker_link \<Rightarrow> actor \<Rightarrow> jobject \<Rightarrow> (broker_world, json) remote" where
  "patch_call repr dg bl actor payload =
     (if bl_patches bl
      then commit_call bl (\<lambda>n p. commit_own_job_patch repr dg (bl_clock bl n) (bl_log_clock bl n) p actor) payload
      else (\<lambda>w. (arrive bl w, Inl unsupported_patch)))"

definition ledger_call ::
  "(json \<Rightarrow> string) \<Rightarrow> (jobject \<Rightarrow> string) \<Rightarrow> broker_link \<Rightarrow> actor \<Rightarrow> jobject \<Rightarrow> (broker_world, json) remote" where
  "ledger_call repr dg bl actor =
     commit_call bl (\<lambda>n p. commit_own_job_transaction repr dg (bl_clock bl n) (bl_log_clock bl n) p actor)"

definition snapshot_json :: "(jobject \<Rightarrow> string) \<Rightarrow> jobject \<Rightarrow> json" where
  "snapshot_json dg l = JObj [(''ledger'', JObj l), (''digest'', JStr (dg l))]"

text \<open>The transaction of a client on this broker.\<close>

definition client_transaction ::
  "(json \<Rightarrow> string) \<Rightarrow> (jobject \<Rightarrow> string) \<Rightarrow> broker_link \<Rightarrow> actor \<Rightarrow> 'r job_mutator \<Rightarrow> (broker_world, 'r) remote" where
  "client_transaction repr dg bl actor mutator =
     broker_transaction dg mutator (read_call bl (\<lambda>l. l)) (patch_call repr dg bl actor)
       (read_call bl (snapshot_json dg)) (ledger_call repr dg bl actor)"

lemma snapshot_parts_json [simp]: "snapshot_parts (snapshot_json dg l) = Inr (l, dg l)"
  by (simp add: snapshot_parts_def snapshot_json_def jget_def)

lemma committed_flag_answer [simp]: "committed_flag (JObj [(''committed'', JBool b)]) = Inr b"
  by (simp add: committed_flag_def jget_def)

lemma remote_bindE:
  assumes "remote_bind f g w = (w', r)"
  obtains (failed) e where "f w = (w', Inl e)" "r = Inl e" | (went_on) w1 x where "f w = (w1, Inr x)" "g x w1 = (w', r)"
  using assms by (auto simp: remote_bind_def split: prod.splits sum.splits)

lemma at_once_bind [simp]: "remote_bind (at_once (Inl e)) g = at_once (Inl e)" "remote_bind (at_once (Inr x)) g = g x"
  by (auto simp: remote_bind_def at_once_def)

text \<open>
  The effect of a commit on the ledger it was computed on: the proposed ledger, with every reservation
  that compares equal possibly left as it was.
\<close>

definition as_proposed :: "jobject \<Rightarrow> jobject \<Rightarrow> jobject \<Rightarrow> bool" where
  "as_proposed base proposed new \<longleftrightarrow>
     new = proposed
     \<or> (\<exists>xs ys. jget base ''reservations'' = JArr xs \<and> jget proposed ''reservations'' = JArr ys
          \<and> new = jset base ''reservations'' (JArr (merged xs ys)))"

text \<open>A commit is of a mutation the client ran, on the ledger it ran it on or one with the same digest.\<close>

definition own_commit :: "(jobject \<Rightarrow> string) \<Rightarrow> 'r job_mutator \<Rightarrow> jobject \<times> jobject \<Rightarrow> 'r \<Rightarrow> bool" where
  "own_commit dg mutator = (\<lambda>(base, new) result.
     \<exists>current proposed logs changed. mutator current = Inr (JObj proposed, result, logs, changed) \<and> dg base = dg current
       \<and> (base = current \<longrightarrow> as_proposed base proposed new))"

text \<open>The outcome of a transaction: nothing to commit, nothing committed, or one commit.\<close>

definition once :: "(jobject \<Rightarrow> string) \<Rightarrow> 'r job_mutator \<Rightarrow> broker_link \<Rightarrow> (jobject \<times> jobject) list \<Rightarrow> (broker_error, 'r) result \<Rightarrow> bool" where
  "once dg mutator bl cs r \<longleftrightarrow>
     (case cs of
        [] \<Rightarrow> (\<forall>result. r = Inr result \<longrightarrow> (\<exists>current new. mutator current = Inr (new, result, [], False)))
      | [c] \<Rightarrow> (\<exists>result. own_commit dg mutator c result
                 \<and> (r = Inr result \<or> (\<exists>n. r = Inl (Refused (bl_lost bl n)))))
      | _ \<Rightarrow> False)"

lemma commit_call_cases:
  assumes "commit_call bl serve payload w = (w', r)"
  obtains (idle) e where "bw_commits w' = bw_commits w" "bw_calls w' = Suc (bw_calls w)" "r = Inl e"
  | (stale) "bw_commits w' = bw_commits w" "bw_calls w' = Suc (bw_calls w)"
      "r = Inr (JObj [(''committed'', JBool False)])"
  | (committed) base new logs changed where "bw_commits w' = bw_commits w @ [(base, new)]" "bw_calls w' = Suc (bw_calls w)"
      "serve (bw_calls w) payload base = Inr (new, True, logs, changed)"
      "r = Inr (JObj [(''committed'', JBool True)]) \<or> r = Inl (Refused (bl_lost bl (bw_calls w)))"
  using assms that
  by (auto simp: commit_call_def Let_def arrive_def split: if_splits sum.splits prod.splits)

lemma read_call_cases:
  assumes "read_call bl f w = (w', r)"
  obtains l where "bw_commits w' = bw_commits w" "bw_calls w' = Suc (bw_calls w)" "r = Inr (f l) \<or> (\<exists>e. r = Inl e)"
  using assms that [of "bw_ledger (arrive bl w)"] by (auto simp: read_call_def arrive_def split: if_splits)

lemma patch_own_commit:
  assumes mut: "mutator current = Inr (new_ledger, result, logs, changed)"
    and ch: "job_transaction_changes current new_ledger = Inr changes"
    and com: "commit_own_job_patch repr dg clock log_clock (patch_payload dg current changes logs changed) actor base
        = Inr (new, True, logs', ch')"
  shows "own_commit dg mutator (base, new) result"
proof -
  obtain proposed where p: "new_ledger = JObj proposed" using ch by (cases new_ledger) (auto simp: job_transaction_changes_def)
  have digest: "dg base = dg current"
    using patch.compares [OF com] by (simp add: patch_payload_def jget_def)
  moreover have "as_proposed base proposed new" if base: "base = current"
  proof -
    from ch obtain xs ys where rs: "jget current ''reservations'' = JArr xs" "jget proposed ''reservations'' = JArr ys"
      unfolding p job_transaction_changes_def by (auto simp: result_simps dest!: paired_lists)
    note applied = changes_apply [OF ch [unfolded p] rs]
    obtain jp where jp: "decode_job_payload ''changes'' (patch_payload dg current changes logs changed) = Inr jp"
      using com unfolding commit_own_job_patch_def by (auto elim!: res_bindE)
    then have body: "jp_body jp = JArr changes"
      by (auto simp: decode_job_payload_def patch_payload_def jget_def result_simps)
    have "\<exists>raw flag. accept_proposal repr clock log_clock actor raw flag base (jset base ''reservations'' (JArr (merged xs ys)))
        = Inr (new, True, logs', ch')"
      using com unfolding commit_own_job_patch_def jp res_bind_Inr body json.case base rs(1) applied [THEN conjunct1]
      by (auto split: if_splits)
    with accepted_proposal rs base show ?thesis unfolding as_proposed_def by metis
  qed
  ultimately show ?thesis using mut p unfolding own_commit_def by auto
qed

lemma ledger_own_commit:
  assumes mut: "mutator current = Inr (new_ledger, result, logs, changed)"
    and com: "commit_own_job_transaction repr dg clock log_clock (ledger_payload (dg current) new_ledger logs changed) actor base
        = Inr (new, True, logs', ch')"
  shows "own_commit dg mutator (base, new) result"
proof -
  have "dg base = dg current" using whole.compares [OF com] by (simp add: ledger_payload_def jget_def)
  moreover obtain jp where jp: "decode_job_payload ''ledger'' (ledger_payload (dg current) new_ledger logs changed) = Inr jp"
    using com unfolding commit_own_job_transaction_def by (auto elim!: res_bindE)
  then have body: "jp_body jp = new_ledger"
    by (auto simp: decode_job_payload_def ledger_payload_def jget_def result_simps)
  obtain proposed where p: "new_ledger = JObj proposed"
    using com unfolding commit_own_job_transaction_def jp res_bind_Inr body by (cases new_ledger) auto
  moreover have "\<exists>raw flag. accept_proposal repr clock log_clock actor raw flag base proposed = Inr (new, True, logs', ch')"
    using com unfolding p commit_own_job_transaction_def jp [unfolded p] res_bind_Inr body [unfolded p] json.case
    by (auto split: if_splits elim!: raise_ifE)
  with accepted_proposal have "new = proposed" by blast
  ultimately show ?thesis using mut unfolding own_commit_def as_proposed_def by auto
qed

lemma once_idle: "once dg mutator bl [] (Inl e)"
  by (simp add: once_def)

lemma patch_attempts_once:
  assumes "patch_attempts dg mutator (read_call bl (\<lambda>l. l)) (patch_call repr dg bl actor) left w = (w', r)"
  shows "\<exists>cs. bw_commits w' = bw_commits w @ cs \<and> once dg mutator bl cs r \<and> bw_calls w' \<le> bw_calls w + 2 * left"
  using assms
proof (induction left arbitrary: w)
  case (Suc left)
  from Suc.prems [unfolded patch_attempts.simps] show ?case
  proof (cases rule: remote_bindE)
    case (failed e)
    from failed(1) show ?thesis by (rule read_call_cases) (use failed(2) once_idle in auto)
  next
    case (went_on w1 current)
    note rest = went_on(2)
    from went_on(1) obtain read: "bw_commits w1 = bw_commits w" "bw_calls w1 = Suc (bw_calls w)" by (rule read_call_cases)
    show ?thesis
    proof (cases "mutator current")
      case (Inl e)
      with rest read once_idle show ?thesis by (auto simp: at_once_def)
    next
      case (Inr m)
      obtain new_ledger result logs changed where m: "m = (new_ledger, result, logs, changed)" by (cases m)
      note mut = Inr [unfolded m]
      show ?thesis
      proof (cases "\<not> changed \<and> logs = []")
        case True
        with rest mut have "w' = w1" "r = Inr result" by (auto simp: at_once_def)
        with read mut True show ?thesis by (intro exI [of _ "[]"]) (auto simp: once_def)
      next
        case False
        show ?thesis
        proof (cases "job_transaction_changes current new_ledger")
          case (Inl e)
          with rest read mut False once_idle show ?thesis by (auto simp: at_once_def)
        next
          case (Inr changes)
          with rest mut False have "remote_bind (patch_call repr dg bl actor (patch_payload dg current changes logs changed)) (\<lambda>response.
              remote_bind (at_once (committed_flag response)) (\<lambda>committed. if committed then at_once (Inr result)
              else patch_attempts dg mutator (read_call bl (\<lambda>l. l)) (patch_call repr dg bl actor) left)) w1 = (w', r)"
            by auto
          then show ?thesis
          proof (cases rule: remote_bindE)
            case (failed e)
            show ?thesis
            proof (cases "bl_patches bl")
              case False
              with failed read once_idle show ?thesis by (auto simp: patch_call_def arrive_def)
            next
              case True
              with failed(1) have "commit_call bl (\<lambda>n p. commit_own_job_patch repr dg (bl_clock bl n) (bl_log_clock bl n) p actor)
                  (patch_payload dg current changes logs changed) w1 = (w', Inl e)" by (simp add: patch_call_def)
              then show ?thesis
              proof (cases rule: commit_call_cases)
                case idle
                with read failed once_idle show ?thesis by auto
              next
                case (committed base new logs' changed')
                from patch_own_commit [where mutator = mutator, OF mut Inr committed(3)] committed read failed(2) show ?thesis
                  by (intro exI [of _ "[(base, new)]"]) (auto simp: once_def)
              qed simp
            qed
          next
            case (went_on w2 response)
            then have "bl_patches bl" by (auto simp: patch_call_def split: if_splits)
            with went_on(1) have "commit_call bl (\<lambda>n p. commit_own_job_patch repr dg (bl_clock bl n) (bl_log_clock bl n) p actor)
                (patch_payload dg current changes logs changed) w1 = (w2, Inr response)" by (simp add: patch_call_def)
            then show ?thesis
            proof (cases rule: commit_call_cases)
              case stale
              with went_on(2) have "patch_attempts dg mutator (read_call bl (\<lambda>l. l)) (patch_call repr dg bl actor) left w2 = (w', r)" by simp
              from Suc.IH [OF this] stale read show ?thesis by auto
            next
              case (committed base new logs' changed')
              with went_on(2) have "w' = w2" "r = Inr result" by (auto simp: at_once_def)
              with patch_own_commit [where mutator = mutator, OF mut Inr committed(3)] committed read show ?thesis
                by (intro exI [of _ "[(base, new)]"]) (auto simp: once_def)
            qed simp
          qed
        qed
      qed
    qed
  qed
qed (auto simp: at_once_def once_def)

lemma legacy_attempts_once:
  assumes "legacy_attempts mutator (read_call bl (snapshot_json dg)) (ledger_call repr dg bl actor) left w = (w', r)"
  shows "\<exists>cs. bw_commits w' = bw_commits w @ cs \<and> once dg mutator bl cs r \<and> bw_calls w' \<le> bw_calls w + 2 * left"
  using assms
proof (induction left arbitrary: w)
  case (Suc left)
  from Suc.prems [unfolded legacy_attempts.simps] show ?case
  proof (cases rule: remote_bindE)
    case (failed e)
    from failed(1) show ?thesis by (rule read_call_cases) (use failed(2) once_idle in auto)
  next
    case (went_on w1 shot)
    note rest = went_on(2)
    from went_on(1) obtain current where read: "bw_commits w1 = bw_commits w" "bw_calls w1 = Suc (bw_calls w)"
      and shot: "shot = snapshot_json dg current" by (rule read_call_cases) auto
    show ?thesis
    proof (cases "mutator current")
      case (Inl e)
      with rest read shot once_idle show ?thesis by (auto simp: at_once_def)
    next
      case (Inr m)
      obtain new_ledger result logs changed where m: "m = (new_ledger, result, logs, changed)" by (cases m)
      note mut = Inr [unfolded m]
      show ?thesis
      proof (cases "\<not> changed \<and> logs = []")
        case True
        with rest mut shot have "w' = w1" "r = Inr result" by (auto simp: at_once_def)
        with read mut True show ?thesis by (intro exI [of _ "[]"]) (auto simp: once_def)
      next
        case False
        with rest mut shot have "remote_bind (ledger_call repr dg bl actor (ledger_payload (dg current) new_ledger logs changed)) (\<lambda>response.
            remote_bind (at_once (committed_flag response)) (\<lambda>committed. if committed then at_once (Inr result)
            else legacy_attempts mutator (read_call bl (snapshot_json dg)) (ledger_call repr dg bl actor) left)) w1 = (w', r)"
          by auto
        then show ?thesis
        proof (cases rule: remote_bindE)
          case (failed e)
          from failed(1) show ?thesis unfolding ledger_call_def
          proof (cases rule: commit_call_cases)
            case idle
            with read failed once_idle show ?thesis by auto
          next
            case (committed base new logs' changed')
            from ledger_own_commit [where mutator = mutator, OF mut committed(3)] committed read failed(2) show ?thesis
              by (intro exI [of _ "[(base, new)]"]) (auto simp: once_def)
          qed simp
        next
          case (went_on w2 response)
          from went_on(1) show ?thesis unfolding ledger_call_def
          proof (cases rule: commit_call_cases)
            case stale
            with went_on(2) have "legacy_attempts mutator (read_call bl (snapshot_json dg)) (ledger_call repr dg bl actor) left w2 = (w', r)"
              by simp
            from Suc.IH [OF this] stale read show ?thesis by auto
          next
            case (committed base new logs' changed')
            with went_on(2) have "w' = w2" "r = Inr result" by (auto simp: at_once_def)
            with ledger_own_commit [where mutator = mutator, OF mut committed(3)] committed read show ?thesis
              by (intro exI [of _ "[(base, new)]"]) (auto simp: once_def)
          qed simp
        qed
      qed
    qed
  qed
qed (auto simp: at_once_def once_def)

lemma jints_decoded: "optional_int_list (jopt jints v) = Inr v"
proof (cases v)
  case (Some xs)
  have "res_each integer (map JInt xs) = Inr xs" by (induction xs) (simp_all add: integer_def)
  with Some show ?thesis by (simp add: jopt_def jints_def optional_int_list_def)
qed (simp add: jopt_def optional_int_list_def)

lemma jstrs_decoded:
  assumes "case v of None \<Rightarrow> True | Some xs \<Rightarrow> [] \<notin> set xs"
  shows "optional_string_list (jopt jstrs v) = Inr v"
proof (cases v)
  case (Some xs)
  with assms have "[] \<notin> set xs" by simp
  then have "res_each string_field (map JStr xs) = Inr xs" by (induction xs) (auto simp: string_field_def)
  with Some show ?thesis by (simp add: jopt_def jstrs_def optional_string_list_def)
qed (simp add: jopt_def optional_string_list_def)

lemma field_decoded:
  "Some [] \<noteq> v \<Longrightarrow> optional_string (jopt JStr v) = Inr v"
  "optional_integer (jopt JInt n) = Inr n"
  "s \<noteq> [] \<Longrightarrow> string_field (JStr s) = Inr s" "integer (JInt m) = Inr m" "boolean (JBool b) = Inr b"
  "representable t \<Longrightarrow> iso_instant (to_iso t) = Inr (whole_second t)"
  by (cases v; cases n; simp add: jopt_def optional_string_def optional_integer_def string_field_def integer_def boolean_def
      iso_instant_def parse_iso_print)+

lemma to_iso_nonempty [simp]: "to_iso t \<noteq> []"
  by (simp add: to_iso_def Let_def split: prod.split)

text \<open>The fields of the two payloads, by name.\<close>

lemma booking_payload_fields:
  "jget (booking_request_payload r) ''count'' = JInt (br_count r)"
  "jget (booking_request_payload r) ''duration_seconds'' = JInt (br_duration_seconds r)"
  "jget (booking_request_payload r) ''start_at'' = JStr (to_iso (br_start_at r))"
  "jget (booking_request_payload r) ''mode'' = JStr (br_mode r)"
  "jget (booking_request_payload r) ''preferred_gpus'' = jopt jints (br_preferred_gpus r)"
  "jget (booking_request_payload r) ''excluded_gpus'' = jopt jints (br_excluded_gpus r)"
  "jget (booking_request_payload r) ''op_id'' = jopt JStr (br_op_id r)"
  "jget_default (booking_request_payload r) ''allow_queue'' d = JBool (br_allow_queue r)"
  "jget (booking_request_payload r) ''job_spec_id'' = jopt JStr (br_job_spec_id r)"
  "jget (booking_request_payload r) ''job_digest'' = jopt JStr (br_job_digest r)"
  "jget (booking_request_payload r) ''job_summary'' = jopt JStr (br_job_summary r)"
  "jget (booking_request_payload r) ''job_digest_aliases'' = jopt jstrs (br_job_digest_aliases r)"
  "jget (booking_request_payload r) ''expected_memory_mb'' = jopt JInt (br_expected_memory_mb r)"
  "jget (booking_request_payload r) ''share_units'' = jopt JInt (br_share_units r)"
  by (simp_all add: booking_request_payload_def jget_def jget_default_def jopt_def split: option.split)

lemma booking_payload_keys:
  "require_keys (booking_request_payload r) BOOKING_FIELDS [''count'', ''duration_seconds'', ''start_at'', ''mode''] = Inr ()"
  by (simp add: require_keys_def booking_request_payload_def jkeys_def BOOKING_FIELDS_def split: option.split)

lemma edit_payload_fields:
  "jget (edit_request_payload r) ''reservation_id'' = JStr (er_reservation_id r)"
  "jget (edit_request_payload r) ''op_id'' = jopt JStr (er_op_id r)"
  "jget (edit_request_payload r) ''start_at'' = jopt (\<lambda>t. JStr (to_iso t)) (er_start_at r)"
  "jget (edit_request_payload r) ''duration_seconds'' = jopt JInt (er_duration_seconds r)"
  "jget (edit_request_payload r) ''mode'' = jopt JStr (er_mode r)"
  "jget (edit_request_payload r) ''preferred_gpus'' = jopt jints (er_preferred_gpus r)"
  "jget (edit_request_payload r) ''excluded_gpus'' = jopt jints (er_excluded_gpus r)"
  "jget (edit_request_payload r) ''count'' = jopt JInt (er_count r)"
  "jget_default (edit_request_payload r) ''allow_queue'' d = JBool (er_allow_queue r)"
  "jget (edit_request_payload r) ''expected_memory_mb'' = jopt JInt (er_expected_memory_mb r)"
  "jget_default (edit_request_payload r) ''update_expected_memory'' d = JBool (er_update_expected_memory r)"
  "jget (edit_request_payload r) ''share_units'' = jopt JInt (er_share_units r)"
  "jget_default (edit_request_payload r) ''update_share_units'' d = JBool (er_update_share_units r)"
  by (simp_all add: edit_request_payload_def jget_def jget_default_def jopt_def split: option.split)

lemma edit_payload_keys: "require_keys (edit_request_payload r) EDIT_FIELDS [''reservation_id''] = Inr ()"
  by (simp add: require_keys_def edit_request_payload_def jkeys_def EDIT_FIELDS_def split: option.split)

lemma booking_request_decoded:
  assumes "representable (br_start_at r)" and "br_mode r \<noteq> []"
    and "Some [] \<notin> {br_op_id r, br_job_spec_id r, br_job_digest r, br_job_summary r}"
    and "case br_job_digest_aliases r of None \<Rightarrow> True | Some xs \<Rightarrow> [] \<notin> set xs"
  shows "decode_booking_request (booking_request_payload r) actor =
    Inr (r\<lparr>br_actor := actor, br_start_at := whole_second (br_start_at r), br_gpu_order := None,
           br_gpu_scores := None, br_gpu_memory_capacity_mb := None\<rparr>)"
  using assms by (cases r) (simp add: decode_booking_request_def booking_payload_keys booking_payload_fields field_decoded
      jints_decoded jstrs_decoded)

lemma edit_request_decoded:
  assumes "case er_start_at r of None \<Rightarrow> True | Some t \<Rightarrow> representable t" and "er_reservation_id r \<noteq> []"
    and "Some [] \<notin> {er_op_id r, er_mode r}"
  shows "decode_edit_request (edit_request_payload r) actor =
    Inr (r\<lparr>er_actor := actor, er_start_at := map_option whole_second (er_start_at r), er_gpu_order := None,
           er_gpu_scores := None, er_gpu_memory_capacity_mb := None\<rparr>)"
proof -
  have start: "(if jopt (\<lambda>t. JStr (to_iso t)) (er_start_at r) \<noteq> JNull
        then res_map Some (res_bind (string_field (jopt (\<lambda>t. JStr (to_iso t)) (er_start_at r))) iso_instant)
        else Inr None) = Inr (map_option whole_second (er_start_at r))"
    using assms(1) by (cases "er_start_at r") (simp_all add: jopt_def field_decoded)
  show ?thesis using assms(2,3)
    by (simp only: decode_edit_request_def edit_payload_keys edit_payload_fields res_bind_Inr start)
       (cases r; simp add: field_decoded jints_decoded)
qed


section \<open>Frames\<close>

lemma recv_prefix:
  assumes "recv n stream = (chunk, stream')" and "0 < n"
  shows "concat stream = chunk @ concat stream' \<and> length chunk \<le> n \<and> (chunk = [] \<longrightarrow> concat stream = [])"
  using assms
proof (induction n stream rule: recv.induct)
  case (3 n b bs chunks)
  then have "chunk = take n (b # bs)" "stream' = drop n (b # bs) # chunks" by auto
  moreover have "take n (b # bs) @ drop n (b # bs) @ concat chunks = (b # bs) @ concat chunks"
    by (metis append.assoc append_take_drop_id)
  ultimately show ?case using 3(2) by simp
qed (auto simp del: concat_eq_Nil_conv Nil_eq_concat_conv)

lemma receive_exact_takes:
  assumes "wanted \<le> length got + length (concat stream)" and "length got \<le> wanted"
  shows "\<exists>rest. receive_exact wanted got stream = Inr (got @ take (wanted - length got) (concat stream), rest)
    \<and> concat rest = drop (wanted - length got) (concat stream)"
  using assms
proof (induction wanted got stream rule: receive_exact.induct)
  case (1 wanted got stream)
  show ?case
  proof (cases "length got < wanted")
    case False
    with 1(3) show ?thesis by (subst receive_exact.simps) simp
  next
    case True
    obtain chunk stream' where r: "recv (wanted - length got) stream = (chunk, stream')" by fastforce
    from recv_prefix [OF r] True have p: "concat stream = chunk @ concat stream'" "length chunk \<le> wanted - length got"
      "chunk = [] \<longrightarrow> concat stream = []" by (auto simp del: concat_eq_Nil_conv Nil_eq_concat_conv)
    have ne: "chunk \<noteq> []"
    proof
      assume "chunk = []"
      with p(3) have "length (concat stream) = 0" by (simp only: list.size(3) simp_thms)
      with 1(2) True show False by linarith
    qed
    from p have len: "length chunk \<le> wanted - length got" and cat: "concat stream = chunk @ concat stream'" by auto
    have "\<exists>rest. receive_exact wanted (got @ chunk) stream' =
        Inr ((got @ chunk) @ take (wanted - length (got @ chunk)) (concat stream'), rest)
        \<and> concat rest = drop (wanted - length (got @ chunk)) (concat stream')"
      by (rule 1(1) [OF True r [symmetric] ne]) (use 1(2) cat len True in auto)
    moreover have "receive_exact wanted got stream = receive_exact wanted (got @ chunk) stream'"
      using True r ne by (subst receive_exact.simps) simp
    ultimately show ?thesis using cat len by (auto simp: diff_diff_left)
  qed
qed

lemma unpack_pack:
  assumes "n < 4294967296"
  shows "unpack_length (pack_length n) = n"
proof -
  have d: "n div 65536 = n div 256 div 256" "n div 16777216 = n div 256 div 256 div 256"
    using div_mult2_eq [of n 256 256] div_mult2_eq [of n 65536 256] by simp_all
  have m: "n div 256 * 256 + n mod 256 = n" "n div 256 div 256 * 256 + n div 256 mod 256 = n div 256"
    "n div 256 div 256 div 256 * 256 + n div 256 div 256 mod 256 = n div 256 div 256"
    by (rule div_mult_mod_eq)+
  from assms have "n div 16777216 mod 256 = n div 16777216" by simp
  then have "n div 256 div 256 div 256 mod 256 = n div 256 div 256 div 256" by (simp only: d)
  then show ?thesis by (simp only: unpack_length_def pack_length_def d foldl.simps mult_0 add_0 m)
qed


text \<open>The client reads the outcome the broker computed.\<close>

lemma answer_reaches_client:
  assumes "respond describe (JStr request_id) outcome = Some response"
    and "\<And>e. describe e \<noteq> []"
  shows "read_response repr request_id response =
    (case outcome of Inr result \<Rightarrow> Inr result | Inl e \<Rightarrow> Inl (Refused (describe e)))"
  using assms
  by (cases outcome)
     (auto simp: respond_def read_response_def jget_def py_eq_def py_text_def split: broker_error.splits)


section \<open>The properties\<close>

definition call_actor :: "broker_call \<Rightarrow> actor option" where
  "call_actor call =
     (case call of
        Ping \<Rightarrow> None
      | Snapshot \<Rightarrow> None
      | CommitOwnJob _ a \<Rightarrow> Some a
      | CommitOwnJobPatch _ a \<Rightarrow> Some a
      | AddBooking r \<Rightarrow> Some (br_actor r)
      | EditBooking r \<Rightarrow> Some (er_actor r)
      | CancelBooking _ a _ \<Rightarrow> Some a
      | AdminCancel _ a _ \<Rightarrow> Some a
      | PublishAnnouncement a _ _ _ _ \<Rightarrow> Some a
      | ArchiveAnnouncement a _ \<Rightarrow> Some a
      | EditAnnouncement a _ _ _ _ _ _ \<Rightarrow> Some a)"

lemma decoded_actor:
  "decode_booking_request payload actor = Inr r \<Longrightarrow> br_actor r = actor"
  "decode_edit_request payload actor = Inr e \<Longrightarrow> er_actor e = actor"
  unfolding decode_booking_request_def decode_edit_request_def by (auto simp: result_simps)

lemma announcement_actor:
  "dispatch_announcement operation payload actor = Inr call \<Longrightarrow>
     (\<exists>m l x t. call = PublishAnnouncement actor m l x t) \<or> (\<exists>t. call = ArchiveAnnouncement actor t)
     \<or> (\<exists>t m l x a b. call = EditAnnouncement actor t m l x a b)"
  by (auto simp: dispatch_announcement_def result_simps res_map_def split: if_split_asm)

text \<open>
  C27: nobody acts under another name through the broker. Whatever a client puts into a request, every
  operation that reads or writes for someone runs for the user the kernel reports as the connection's
  peer, under the name of the password database; and a booking or edit carries the broker's own
  placement advice, its order, scores and memory capacities.
\<close>

theorem broker_peer_identity:
  assumes "handle_call pw_name is_uuid advice (pid, uid, gid) received = Inr call"
  shows "(call_actor call = None \<longleftrightarrow> call \<in> {Ping, Snapshot})
    \<and> call_actor call \<in> {None, Some (actor_for_uid pw_name uid)}
    \<and> actor_uid (actor_for_uid pw_name uid) = uid
    \<and> (case call of
         AddBooking r \<Rightarrow> br_gpu_order r = Some (ba_order advice) \<and> br_gpu_scores r = Some (ba_scores advice)
           \<and> br_gpu_memory_capacity_mb r = Some (ba_memory_capacities_mb advice)
       | EditBooking r \<Rightarrow> er_gpu_order r = Some (ba_order advice) \<and> er_gpu_scores r = Some (ba_scores advice)
           \<and> er_gpu_memory_capacity_mb r = Some (ba_memory_capacities_mb advice)
       | _ \<Rightarrow> True)"
proof -
  define actor where "actor = actor_for_uid pw_name uid"
  from assms obtain request where "dispatch is_uuid advice request actor = Inr call"
    by (auto simp: handle_call_def actor_def Let_def result_simps peer_credentials_def split: if_split_asm)
  then obtain operation payload where d: "dispatch_payload advice operation payload actor = Inr call"
    by (cases "jget request ''operation''"; cases "jget request ''payload''")
       (auto simp: dispatch_def Let_def result_simps)
  have uid: "actor_uid (actor_for_uid pw_name uid) = uid" by (simp add: actor_for_uid_def)
  show ?thesis
  proof (cases "dispatch_announcement operation payload actor = Inr call")
    case True
    from announcement_actor [OF this] uid show ?thesis by (auto simp: call_actor_def actor_def)
  next
    case False
    with d uid show ?thesis
      by (cases "jget payload ''reason''")
         (auto simp: dispatch_payload_def result_simps res_map_def call_actor_def advised_booking_def advised_edit_def
           decoded_actor actor_def split: if_split_asm)
  qed
qed

definition sample_advice :: broker_advice where
  "sample_advice = \<lparr>ba_order = [1, 0], ba_scores = [], ba_memory_capacities_mb = []\<rparr>"

definition cancel_request :: jobject where
  "cancel_request = [(''schema_version'', JStr BROKER_SCHEMA_VERSION), (''request_id'', JStr ''q''),
     (''operation'', JStr ''booking.cancel''), (''payload'', JObj [(''reservation_id'', JStr ''r1'')])]"

theorem broker_peer_identity_witness:
  "\<exists>call. handle_call [1000 \<mapsto> ''ada''] (\<lambda>_. True) sample_advice (17, 1000, 100) (Inr cancel_request) = Inr call
    \<and> call_actor call = Some (actor_for_uid [1000 \<mapsto> ''ada''] 1000) \<and> actor_uid (actor_for_uid [1000 \<mapsto> ''ada''] 1000) = 1000"
proof -
  have c: "handle_call [1000 \<mapsto> ''ada''] (\<lambda>_. True) sample_advice (17, 1000, 100) (Inr cancel_request)
      = Inr (CancelBooking ''r1'' \<lparr>actor_uid = 1000, actor_username = ''ada''\<rparr> None)" by code_simp
  from broker_peer_identity [OF c] c show ?thesis by auto
qed

text \<open>
  C7: a job commit changes nothing but the client's own jobs. When the broker commits the ledger or
  the patch a client sent with one of the two job-commit operations, the client had read the ledger
  the broker has (by digest); every field beside the reservations is kept, no reservation is added,
  removed or moved, those of other users stay as they are, and of the client's own only the mutable
  fields of the job and the reservation's \<^verbatim>\<open>updated_at\<close> change, and an active reservation may become
  expired once its end has passed. Every audit event is of this client on its own reservation. Without
  a commit nothing changes.
\<close>

theorem broker_commit_confined:
  assumes "op = commit_own_job_patch repr ledger_digest clock log_clock
      \<or> op = commit_own_job_transaction repr ledger_digest clock log_clock"
    and "op payload actor current = Inr (new, committed, logs, changed)"
  shows "if committed
    then confined_commit repr clock actor current new logs \<and> jget payload ''base_digest'' = JStr (ledger_digest current)
    else new = current \<and> logs = [] \<and> \<not> changed"
  using assms patch.confines whole.confines patch.compares whole.compares by (metis (full_types))

definition sample_doc :: "string \<Rightarrow> jobject" where
  "sample_doc status = [(''version'', JInt 1), (''reservations'', JArr
     [JObj [(''id'', JStr ''r0''), (''uid'', JInt 7), (''status'', JStr ''active'')],
      JObj [(''id'', JStr ''r1''), (''uid'', JInt 1000), (''status'', JStr ''active''),
            (''job'', JObj [(''digest'', JStr ''d''), (''status'', JStr status)])]])]"

definition sample_patch :: jobject where
  "sample_patch = patch_payload (\<lambda>_. ''h'') (sample_doc ''claimed'')
     [JObj [(''index'', JInt 1), (''reservation'',
        JObj [(''id'', JStr ''r1''), (''uid'', JInt 1000), (''status'', JStr ''active''),
              (''job'', JObj [(''digest'', JStr ''d''), (''status'', JStr ''running'')])])]] [] True"

lemma sample_patch_commits:
  "commit_own_job_patch (\<lambda>_. []) (\<lambda>_. ''h'') (\<lambda>_. 0) (\<lambda>_. 0) sample_patch \<lparr>actor_uid = 1000, actor_username = ''ada''\<rparr>
     (sample_doc ''claimed'') = Inr (sample_doc ''running'', True, [], True)"
  by code_simp

theorem broker_commit_confined_witness:
  "confined_commit (\<lambda>_. []) (\<lambda>_. 0) \<lparr>actor_uid = 1000, actor_username = ''ada''\<rparr> (sample_doc ''claimed'') (sample_doc ''running'') []"
  using broker_commit_confined [OF disjI1, OF refl sample_patch_commits] by simp

text \<open>
  A patch stands for the whole ledger. What the broker commits for the changes a client computed
  between the ledger it read and the one it proposes is judged exactly as the proposed ledger sent
  whole would be, with every reservation that compares equal left as it was.
\<close>

theorem patch_stands_for_ledger:
  assumes "job_transaction_changes current (JObj proposed) = Inr changes" and "length logs \<le> 256"
    and "jget current ''reservations'' = JArr xs" and "jget proposed ''reservations'' = JArr ys"
    and "ledger_digest current \<noteq> []"
  shows "commit_own_job_patch repr ledger_digest clock log_clock
      (patch_payload ledger_digest current changes logs changed) actor current
    = accept_proposal repr clock log_clock actor logs changed current (jset current ''reservations'' (JArr (merged xs ys)))
  \<and> commit_own_job_transaction repr ledger_digest clock log_clock
      [(''base_digest'', JStr (ledger_digest current)), (''ledger'', JObj proposed), (''logs'', JArr logs), (''changed'', JBool changed)]
      actor current
    = accept_proposal repr clock log_clock actor logs changed current proposed
  \<and> (\<forall>i < length xs. merged xs ys ! i = (if jeq (xs ! i) (ys ! i) then xs ! i else ys ! i))"
proof -
  have decode: "decode_job_payload body [(''base_digest'', JStr d), (body, v), (''logs'', JArr logs), (''changed'', JBool changed)]
      = Inr \<lparr>jp_base_digest = d, jp_body = v, jp_logs = logs, jp_changed = changed\<rparr>"
    if "body \<in> {''changes'', ''ledger''}" "d \<noteq> []" for body d v
    using that by (auto simp: decode_job_payload_def require_keys_def jkeys_def jget_def string_field_def boolean_def)
  from changes_apply [OF assms(1,3,4)] have a: "apply_changes (length xs) changes [] xs = Inr (merged xs ys)"
    "length xs = length ys" "\<not> length changes > BROKER_MAX_JOB_CHANGES" by auto
  have few: "\<not> length logs > BROKER_MAX_JOB_CHANGES" "\<not> length logs > 256"
    using assms(2) by (simp_all add: BROKER_MAX_JOB_CHANGES_def)
  have "commit_own_job_patch repr ledger_digest clock log_clock
      (patch_payload ledger_digest current changes logs changed) actor current
    = accept_proposal repr clock log_clock actor logs changed current (jset current ''reservations'' (JArr (merged xs ys)))"
    using a few decode assms(3,5) by (simp add: commit_own_job_patch_def patch_payload_def)
  moreover have "commit_own_job_transaction repr ledger_digest clock log_clock
      [(''base_digest'', JStr (ledger_digest current)), (''ledger'', JObj proposed), (''logs'', JArr logs), (''changed'', JBool changed)]
      actor current
    = accept_proposal repr clock log_clock actor logs changed current proposed"
    using few decode assms(5) by (simp add: commit_own_job_transaction_def)
  ultimately show ?thesis using a(2) by (simp add: merged_def del: jeq.simps)
qed

theorem patch_stands_for_ledger_witness:
  "\<exists>changes. job_transaction_changes (sample_doc ''claimed'') (JObj (sample_doc ''running'')) = Inr changes
    \<and> commit_own_job_patch (\<lambda>_. []) (\<lambda>_. ''h'') (\<lambda>_. 0) (\<lambda>_. 0)
        (patch_payload (\<lambda>_. ''h'') (sample_doc ''claimed'') changes [] True) \<lparr>actor_uid = 1000, actor_username = ''ada''\<rparr> (sample_doc ''claimed'')
      = commit_own_job_transaction (\<lambda>_. []) (\<lambda>_. ''h'') (\<lambda>_. 0) (\<lambda>_. 0)
          [(''base_digest'', JStr ''h''), (''ledger'', JObj (sample_doc ''running'')), (''logs'', JArr []), (''changed'', JBool True)]
          \<lparr>actor_uid = 1000, actor_username = ''ada''\<rparr> (sample_doc ''claimed'')"
proof -
  define rs where "rs status = (case jget (sample_doc status) ''reservations'' of JArr xs \<Rightarrow> xs | _ \<Rightarrow> [])" for status
  have rs: "jget (sample_doc status) ''reservations'' = JArr (rs status)" for status
    by (simp add: rs_def sample_doc_def jget_def)
  have "(case job_transaction_changes (sample_doc ''claimed'') (JObj (sample_doc ''running'')) of Inl _ \<Rightarrow> False | Inr _ \<Rightarrow> True)"
    by code_simp
  then obtain changes where c: "job_transaction_changes (sample_doc ''claimed'') (JObj (sample_doc ''running'')) = Inr changes"
    by (auto split: sum.splits)
  have "jset (sample_doc ''claimed'') ''reservations'' (JArr (merged (rs ''claimed'') (rs ''running''))) = sample_doc ''running''"
    unfolding rs_def by code_simp
  with patch_stands_for_ledger [OF c, where logs = "[]" and ledger_digest = "\<lambda>_. ''h''"] rs c show ?thesis
    by (intro exI [of _ changes]) simp
qed

text \<open>
  C8: a client's transaction through the broker is committed at most once. The client reads the
  ledger, runs its mutation, sends the change as a patch, tries again while the broker answers that
  the ledger has changed, and falls back to the protocol of older brokers; other clients write
  before every call, and requests and answers get lost. Whatever happens, it makes at most 32
  calls and the broker has committed for it nothing or one change. A commit is of a mutation
  the client ran on the very ledger it is committed to, or on one with the same digest; in the first
  case the committed ledger is the proposed one. The client then returns the result of this mutation or an error of
  the connection; without a commit it returns only when its mutation had nothing to write. A lost answer
  is not reported in the words an old broker uses for an operation it does not know.
\<close>

theorem broker_transaction_once:
  assumes run: "client_transaction repr ledger_digest bl actor mutator w = (w', r)"
    and lost: "\<forall>n. Refused (bl_lost bl n) \<noteq> unsupported_patch"
  shows "\<exists>cs. bw_commits w' = bw_commits w @ cs \<and> length cs \<le> 1 \<and> bw_calls w' \<le> bw_calls w + 32
    \<and> (\<forall>(base, new) \<in> set cs. \<exists>current proposed result logs changed.
         mutator current = Inr (JObj proposed, result, logs, changed) \<and> ledger_digest base = ledger_digest current
         \<and> (base = current \<longrightarrow> as_proposed base proposed new)
         \<and> (r = Inr result \<or> (\<exists>n. r = Inl (Refused (bl_lost bl n)))))
    \<and> (\<forall>result. r = Inr result \<and> cs = [] \<longrightarrow> (\<exists>current new. mutator current = Inr (new, result, [], False)))"
proof -
  obtain w1 r1 where first: "patch_attempts ledger_digest mutator (read_call bl (\<lambda>l. l)) (patch_call repr ledger_digest bl actor)
      BROKER_TRANSACTION_RETRIES w = (w1, r1)" by fastforce
  from patch_attempts_once [OF first] obtain cs where
    cs: "bw_commits w1 = bw_commits w @ cs" "once ledger_digest mutator bl cs r1" "bw_calls w1 \<le> bw_calls w + 16"
    by (auto simp: BROKER_TRANSACTION_RETRIES_def)
  have "\<exists>cs. bw_commits w' = bw_commits w @ cs \<and> once ledger_digest mutator bl cs r \<and> bw_calls w' \<le> bw_calls w + 32"
  proof (cases "r1 = Inl unsupported_patch")
    case False
    with run first have "w' = w1" "r = r1"
      by (auto simp: client_transaction_def broker_transaction_def patch_transaction_def split: sum.splits if_splits)
    with cs show ?thesis by auto
  next
    case True
    have "\<not> (\<exists>n. unsupported_patch = Refused (bl_lost bl n))" using lost by metis
    with cs(2) True have "cs = []" by (auto simp: once_def split: list.splits)
    from True run first have "legacy_attempts mutator (read_call bl (snapshot_json ledger_digest)) (ledger_call repr ledger_digest bl actor)
        BROKER_TRANSACTION_RETRIES w1 = (w', r)"
      by (auto simp: client_transaction_def broker_transaction_def patch_transaction_def)
    from legacy_attempts_once [OF this] cs(1,3) \<open>cs = []\<close> show ?thesis by (auto simp: BROKER_TRANSACTION_RETRIES_def)
  qed
  then obtain ds where ds: "bw_commits w' = bw_commits w @ ds" "once ledger_digest mutator bl ds r" "bw_calls w' \<le> bw_calls w + 32"
    by blast
  then have "length ds \<le> 1" by (auto simp: once_def split: list.splits)
  with ds show ?thesis by (intro exI [of _ ds]) (fastforce simp: once_def own_commit_def split: list.splits)
qed

text \<open>
  Another client writes before the second call, so the first patch meets a changed ledger; the
  second one is committed, and its answer is lost.
\<close>

definition status_digest :: "jobject \<Rightarrow> string" where
  "status_digest d = (if d = sample_doc ''pending'' then ''p'' else ''c'')"

definition start_job :: "unit job_mutator" where
  "start_job _ = Inr (JObj (sample_doc ''running''), (), [], True)"

definition busy_link :: broker_link where
  "busy_link = \<lparr>bl_others = (\<lambda>n l. if n = 1 then sample_doc ''claimed'' else l), bl_delivered = (\<lambda>_. True),
     bl_answered = (\<lambda>n. n \<noteq> 3), bl_lost = (\<lambda>_. ''GPUBK broker is unavailable''), bl_describe = (\<lambda>_. []),
     bl_clock = (\<lambda>_ _. 0), bl_log_clock = (\<lambda>_ _. 0), bl_patches = True\<rparr>"

theorem broker_transaction_once_witness:
  "\<exists>w'. client_transaction (\<lambda>_. []) status_digest busy_link \<lparr>actor_uid = 1000, actor_username = ''ada''\<rparr> start_job
        \<lparr>bw_ledger = sample_doc ''pending'', bw_calls = 0, bw_commits = []\<rparr>
      = (w', Inl (Refused ''GPUBK broker is unavailable''))
     \<and> bw_commits w' = [(sample_doc ''claimed'', sample_doc ''running'')] \<and> bw_calls w' \<le> 32"
proof -
  let ?w = "\<lparr>bw_ledger = sample_doc ''pending'', bw_calls = 0, bw_commits = []\<rparr>"
  have "(case client_transaction (\<lambda>_. []) status_digest busy_link \<lparr>actor_uid = 1000, actor_username = ''ada''\<rparr> start_job ?w of
      (w', r) \<Rightarrow> r = Inl (Refused ''GPUBK broker is unavailable'')
        \<and> bw_commits w' = [(sample_doc ''claimed'', sample_doc ''running'')])" by code_simp
  then obtain w' where run: "client_transaction (\<lambda>_. []) status_digest busy_link \<lparr>actor_uid = 1000, actor_username = ''ada''\<rparr>
      start_job ?w = (w', Inl (Refused ''GPUBK broker is unavailable''))"
    and commits: "bw_commits w' = [(sample_doc ''claimed'', sample_doc ''running'')]"
    by (auto split: prod.splits)
  have "\<forall>n. Refused (bl_lost busy_link n) \<noteq> unsupported_patch" by (simp add: busy_link_def unsupported_patch_def)
  from broker_transaction_once [OF run this] commits run show ?thesis by auto
qed

text \<open>
  C37: requests survive the wire. The broker decodes what a client encodes for a booking or an edit to
  the same request, with the start at its whole second, the peer as the actor, and without the
  placement hints, which a client does not send.
\<close>

theorem requests_survive_wire:
  assumes "representable (br_start_at r)" and "br_mode r \<noteq> []"
    and "Some [] \<notin> {br_op_id r, br_job_spec_id r, br_job_digest r, br_job_summary r}"
    and "case br_job_digest_aliases r of None \<Rightarrow> True | Some xs \<Rightarrow> [] \<notin> set xs"
    and "case er_start_at e of None \<Rightarrow> True | Some t \<Rightarrow> representable t" and "er_reservation_id e \<noteq> []"
    and "Some [] \<notin> {er_op_id e, er_mode e}"
  shows "decode_booking_request (booking_request_payload r) actor =
      Inr (r\<lparr>br_actor := actor, br_start_at := whole_second (br_start_at r), br_gpu_order := None,
             br_gpu_scores := None, br_gpu_memory_capacity_mb := None\<rparr>)
    \<and> decode_edit_request (edit_request_payload e) actor =
      Inr (e\<lparr>er_actor := actor, er_start_at := map_option whole_second (er_start_at e), er_gpu_order := None,
             er_gpu_scores := None, er_gpu_memory_capacity_mb := None\<rparr>)"
  using booking_request_decoded [OF assms(1-4)] edit_request_decoded [OF assms(5-7)] by blast

definition wire_booking :: booking_request where
  "wire_booking = \<lparr>br_actor = \<lparr>actor_uid = 1000, actor_username = ''ada''\<rparr>, br_count = 1, br_duration_seconds = 3600,
     br_start_at = seconds 300, br_mode = ''shared'', br_preferred_gpus = Some [0], br_gpu_order = None, br_gpu_scores = None,
     br_op_id = Some ''op'', br_allow_queue = True, br_job_spec_id = None, br_job_digest = None, br_job_summary = None,
     br_job_digest_aliases = None, br_expected_memory_mb = Some 512, br_gpu_memory_capacity_mb = None,
     br_share_units = Some 1, br_excluded_gpus = Some [1]\<rparr>"

definition wire_edit :: edit_request where
  "wire_edit = \<lparr>er_actor = \<lparr>actor_uid = 1000, actor_username = ''ada''\<rparr>, er_reservation_id = ''r1'', er_op_id = None,
     er_start_at = Some (seconds 600), er_duration_seconds = Some 60, er_mode = None, er_preferred_gpus = None,
     er_gpu_order = None, er_gpu_scores = None, er_count = None, er_allow_queue = False, er_expected_memory_mb = None,
     er_update_expected_memory = False, er_gpu_memory_capacity_mb = None, er_share_units = None,
     er_update_share_units = False, er_excluded_gpus = None\<rparr>"

theorem requests_survive_wire_witness:
  "decode_booking_request (booking_request_payload wire_booking) \<lparr>actor_uid = 1000, actor_username = ''ada''\<rparr> = Inr wire_booking
   \<and> decode_edit_request (edit_request_payload wire_edit) \<lparr>actor_uid = 1000, actor_username = ''ada''\<rparr> = Inr wire_edit"
proof -
  have t: "representable (seconds 300)" "representable (seconds 600)" "whole_second (seconds 300) = seconds 300"
    "whole_second (seconds 600) = seconds 600" by code_simp+
  show ?thesis
    using requests_survive_wire [of wire_booking wire_edit "\<lparr>actor_uid = 1000, actor_username = ''ada''\<rparr>"] t
    by (simp add: wire_booking_def wire_edit_def)
qed

text \<open>
  C40: frames survive any fragmentation. A message of the broker protocol arrives as it was sent,
  however the transport cuts its bytes and those of the messages behind it, which stay to be read.
  The JSON printer and reader are arguments: the text of this message reads back to it.
\<close>

theorem frame_roundtrip:
  assumes "send_frame dumps message = Inr frame" and "loads (dumps message) = Some (JObj message)"
    and "2 \<le> length (dumps message)" and "concat chunks = frame @ behind"
  shows "\<exists>rest. receive_frame loads chunks = Inr (message, rest) \<and> concat rest = behind"
proof -
  let ?p = "dumps message"
  from assms(1) have len: "length ?p \<le> BROKER_MAX_FRAME_BYTES" and frame: "frame = pack_length (length ?p) @ ?p"
    by (auto simp: send_frame_def Let_def)
  have header: "length (pack_length (length ?p)) = 4" by (simp add: pack_length_def)
  with assms(4) frame obtain rest where h: "receive_exact 4 [] chunks = Inr (pack_length (length ?p), rest)"
    "concat rest = ?p @ behind"
    using receive_exact_takes [of 4 "[]" chunks] by auto
  obtain rest' where p: "receive_exact (length ?p) [] rest = Inr (?p, rest')" "concat rest' = behind"
    using receive_exact_takes [of "length ?p" "[]" rest] h(2) by auto
  have "unpack_length (pack_length (length ?p)) = length ?p"
    using len by (intro unpack_pack) (simp add: BROKER_MAX_FRAME_BYTES_def)
  with h p assms(2,3) len show ?thesis
    by (intro exI [of _ rest']) (simp add: receive_frame_def not_less)
qed

theorem frame_roundtrip_witness:
  "\<exists>rest. receive_frame (\<lambda>_. Some (JObj [])) [[0, 0], [0, 2, 123], [125, 7]] = Inr ([], rest) \<and> concat rest = [7]"
proof -
  have s: "send_frame (\<lambda>_. [123, 125]) [] = Inr [0, 0, 0, 2, 123, 125]"
    by (simp add: send_frame_def pack_length_def BROKER_MAX_FRAME_BYTES_def)
  show ?thesis by (rule frame_roundtrip [OF s]) simp_all
qed

end
