(* ===== verification/Announcements.thy ===== *)
theory Announcements
  imports Ledger_Schema
begin

text \<open>
  \<^verbatim>\<open>bk/announcements.py\<close>: the administrator's announcements, a list in the ledger document
  that only grows. The operations are the mutators run by the store's transaction, on the list alone
  (they leave the rest of the ledger as it is); the clock is read where the code reads it. Entries
  are typed: the ledger validator has accepted them when they are read. The redirection to the broker
  is in the theory of the broker.
\<close>

record announcement =
  an_id :: string
  an_level :: string
  an_message :: string
  an_created_at :: datetime
  an_starts_at :: datetime
  an_expires_at :: datetime
  an_actor_uid :: int
  an_actor_username :: string
  an_updated_at :: "datetime option"
  an_archived_at :: "datetime option"
  an_archived_by_uid :: "int option"
  an_archived_by_username :: "string option"

definition ANNOUNCEMENT_LEVELS :: "string list" where
  "ANNOUNCEMENT_LEVELS = [''info'', ''warning'', ''critical'']"

datatype announcement_error =
    NotAdministrator
  | InvalidLevel
  | InvalidMessageLength
  | InvalidMessageControl
  | ExpiryOutOfRange
  | ArchiveFull
  | AnnouncementNotFound
  | AmbiguousPrefix
  | ArchivedNotEditable
  | DeadlineBeforeStart
  | WindowTooLong

record announcement_log =
  al_timestamp :: datetime
  al_action :: string
  al_uid :: int
  al_username :: string
  al_announcement_id :: string
  al_announcement :: announcement
  al_result :: string

type_synonym announcement_mutation =
  "(announcement_error, announcement list \<times> announcement \<times> announcement_log list \<times> bool) result"


section \<open>What is shown\<close>

definition level_priority :: "string \<Rightarrow> int" where
  "level_priority level =
     (if level = ''critical'' then 0 else if level = ''warning'' then 1 else if level = ''info'' then 2 else 3)"

text \<open>Creation times are compared as their texts, which order like the instants.\<close>

definition active_announcements :: "announcement list \<Rightarrow> datetime \<Rightarrow> announcement list" where
  "active_announcements announcements now =
     (let current = whole_second now;
          visible = filter (\<lambda>item. an_archived_at item = None
            \<and> an_starts_at item \<le> current \<and> current < an_expires_at item) announcements
      in sort_key (\<lambda>item. (level_priority (an_level item), an_created_at item)) visible)"


section \<open>Checks\<close>

definition require_administrator :: "actor \<Rightarrow> (announcement_error, unit) result" where
  "require_administrator actor = raise_if (actor_uid actor \<noteq> 0) NotAdministrator (Inr ())"

definition announcement_level :: "string \<Rightarrow> (announcement_error, string) result" where
  "announcement_level value =
     (let normalized = py_lower (py_strip value)
      in raise_if (normalized \<notin> set ANNOUNCEMENT_LEVELS) InvalidLevel (Inr normalized))"

definition announcement_message :: "string \<Rightarrow> (announcement_error, string) result" where
  "announcement_message value =
     (let normalized = py_strip value
      in raise_if (\<not> (1 \<le> length normalized \<and> length normalized \<le> 1024)) InvalidMessageLength
           (raise_if (has_control_multiline normalized) InvalidMessageControl (Inr normalized)))"

definition expiry_in_range :: "int \<Rightarrow> bool" where
  "expiry_in_range n \<longleftrightarrow> 60 \<le> n \<and> n \<le> 365 * 86400"

definition announcement_audit :: "string \<Rightarrow> actor \<Rightarrow> announcement \<Rightarrow> datetime \<Rightarrow> announcement_log" where
  "announcement_audit action actor item now =
     \<lparr>al_timestamp = whole_second now, al_action = action, al_uid = actor_uid actor,
      al_username = actor_username actor, al_announcement_id = an_id item, al_announcement = item, al_result = ''ok''\<rparr>"


section \<open>Writes\<close>

text \<open>\<open>ident\<close> is the fresh identifier, \<open>now\<close> the clock of the call, \<open>log_now\<close> that of the audit event.\<close>

definition publish_announcement ::
  "actor \<Rightarrow> string \<Rightarrow> string \<Rightarrow> int \<Rightarrow> datetime option \<Rightarrow> string \<Rightarrow> datetime \<Rightarrow> datetime \<Rightarrow> announcement list
    \<Rightarrow> announcement_mutation" where
  "publish_announcement actor message level expires_in_seconds starts_at ident now log_now existing =
     res_bind (require_administrator actor) (\<lambda>_.
     res_bind (announcement_message message) (\<lambda>message.
     res_bind (announcement_level level) (\<lambda>level.
     raise_if (\<not> expiry_in_range expires_in_seconds) ExpiryOutOfRange
     (let starts = whole_second (case starts_at of None \<Rightarrow> now | Some t \<Rightarrow> t);
          expires = starts + seconds expires_in_seconds;
          announcement = \<lparr>an_id = ident, an_level = level, an_message = message,
            an_created_at = whole_second now, an_starts_at = starts, an_expires_at = expires,
            an_actor_uid = actor_uid actor, an_actor_username = actor_username actor,
            an_updated_at = None, an_archived_at = None, an_archived_by_uid = None, an_archived_by_username = None\<rparr>
      in raise_if (length existing \<ge> MAX_ANNOUNCEMENT_HISTORY) ArchiveFull
           (Inr (existing @ [announcement], announcement,
                 [announcement_audit ''announcement.publish'' actor announcement log_now], True))))))"

text \<open>The entry a prefix of its identifier names, by its place in the list.\<close>

definition prefix_matches :: "string \<Rightarrow> announcement list \<Rightarrow> nat list" where
  "prefix_matches token xs = filter (\<lambda>i. take (length token) (an_id (xs ! i)) = token) [0..<length xs]"

definition the_match :: "string \<Rightarrow> announcement list \<Rightarrow> (announcement_error, nat) result" where
  "the_match token xs =
     (case prefix_matches token xs of
        [] \<Rightarrow> Inl AnnouncementNotFound
      | i # rest \<Rightarrow> raise_if (rest \<noteq> []) AmbiguousPrefix (Inr i))"

definition archive_announcement ::
  "actor \<Rightarrow> string \<Rightarrow> datetime \<Rightarrow> datetime \<Rightarrow> announcement list \<Rightarrow> announcement_mutation" where
  "archive_announcement actor token now log_now xs =
     res_bind (require_administrator actor) (\<lambda>_.
     res_bind (the_match token xs) (\<lambda>i.
     let target = xs ! i
     in if an_archived_at target \<noteq> None then Inr (xs, target, [], False)
        else let target' = target\<lparr>an_archived_at := Some (whole_second now), an_archived_by_uid := Some (actor_uid actor),
                   an_archived_by_username := Some (actor_username actor)\<rparr>
             in Inr (xs[i := target'], target', [announcement_audit ''announcement.archive'' actor target' log_now], True)))"

record announcement_edit =
  ae_message :: "string option"
  ae_level :: "string option"
  ae_expires_in_seconds :: "int option"
  ae_starts_at :: "datetime option"
  ae_expires_at :: "datetime option"

definition optional_check :: "('a \<Rightarrow> ('e, 'a) result) \<Rightarrow> 'a option \<Rightarrow> ('e, 'a option) result" where
  "optional_check check v = (case v of None \<Rightarrow> Inr None | Some x \<Rightarrow> res_map Some (check x))"

definition or_else :: "'a option \<Rightarrow> 'a \<Rightarrow> 'a" where
  "or_else v d = (case v of None \<Rightarrow> d | Some x \<Rightarrow> x)"

text \<open>The edited window: an expiry relative to now wins over an absolute one.\<close>

definition edited_window :: "announcement_edit \<Rightarrow> datetime \<Rightarrow> announcement \<Rightarrow> announcement" where
  "edited_window ed now target =
     target\<lparr>an_starts_at := (case ae_starts_at ed of None \<Rightarrow> an_starts_at target | Some t \<Rightarrow> whole_second t),
       an_expires_at := (case ae_expires_in_seconds ed of
          Some n \<Rightarrow> whole_second (now + seconds n)
        | None \<Rightarrow> (case ae_expires_at ed of None \<Rightarrow> an_expires_at target | Some t \<Rightarrow> whole_second t))\<rparr>"

definition edit_announcement ::
  "actor \<Rightarrow> string \<Rightarrow> announcement_edit \<Rightarrow> datetime \<Rightarrow> datetime \<Rightarrow> datetime \<Rightarrow> announcement list
    \<Rightarrow> announcement_mutation" where
  "edit_announcement actor token ed now updated_now log_now xs =
     res_bind (require_administrator actor) (\<lambda>_.
     res_bind (optional_check announcement_message (ae_message ed)) (\<lambda>message.
     res_bind (optional_check announcement_level (ae_level ed)) (\<lambda>level.
     raise_if (\<not> (case ae_expires_in_seconds ed of None \<Rightarrow> True | Some n \<Rightarrow> expiry_in_range n)) ExpiryOutOfRange
     (res_bind (the_match token xs) (\<lambda>i.
      let target = xs ! i
      in raise_if (an_archived_at target \<noteq> None) ArchivedNotEditable
         (let edited = edited_window ed now (target\<lparr>an_message := or_else message (an_message target),
                an_level := or_else level (an_level target)\<rparr>)
          in raise_if (an_expires_at edited \<le> an_starts_at edited) DeadlineBeforeStart
             (raise_if (an_expires_at edited - an_starts_at edited > days 365) WindowTooLong
               (let edited = edited\<lparr>an_updated_at := Some (whole_second updated_now)\<rparr>
                in Inr (xs[i := edited], edited, [announcement_audit ''announcement.edit'' actor edited log_now], True)))))))))"


section \<open>The history\<close>

text \<open>What every entry satisfies, and what an operation may do to the list.\<close>

definition entry_ok :: "announcement \<Rightarrow> bool" where
  "entry_ok a \<longleftrightarrow> an_level a \<in> set ANNOUNCEMENT_LEVELS \<and> 1 \<le> length (an_message a) \<and> length (an_message a) \<le> 1024
     \<and> \<not> has_control_multiline (an_message a)
     \<and> an_starts_at a < an_expires_at a \<and> an_expires_at a - an_starts_at a \<le> days 365"

definition history_ok :: "announcement list \<Rightarrow> bool" where
  "history_ok xs \<longleftrightarrow> length xs \<le> MAX_ANNOUNCEMENT_HISTORY \<and> list_all entry_ok xs"

definition same_entry :: "announcement \<Rightarrow> announcement \<Rightarrow> bool" where
  "same_entry a b \<longleftrightarrow> an_id b = an_id a \<and> an_created_at b = an_created_at a
     \<and> an_actor_uid b = an_actor_uid a \<and> an_actor_username b = an_actor_username a
     \<and> (an_archived_at a \<noteq> None \<longrightarrow> b = a)"

definition extends :: "announcement list \<Rightarrow> announcement list \<Rightarrow> bool" where
  "extends xs ys \<longleftrightarrow> length xs \<le> length ys \<and> (\<forall>i < length xs. same_entry (xs ! i) (ys ! i))"

inductive announcement_step :: "announcement list \<Rightarrow> announcement list \<Rightarrow> bool" where
  publish: "publish_announcement actor message level n starts ident now log_now xs = Inr (ys, a, logs, ch) \<Longrightarrow> announcement_step xs ys"
| archive: "archive_announcement actor token now log_now xs = Inr (ys, a, logs, ch) \<Longrightarrow> announcement_step xs ys"
| edit: "edit_announcement actor token ed now updated log_now xs = Inr (ys, a, logs, ch) \<Longrightarrow> announcement_step xs ys"

lemma extends_refl [simp]: "extends xs xs"
  by (simp add: extends_def same_entry_def)

lemma same_entry_trans: "same_entry a b \<Longrightarrow> same_entry b c \<Longrightarrow> same_entry a c"
  by (auto simp: same_entry_def)

lemma extends_trans: "extends xs ys \<Longrightarrow> extends ys zs \<Longrightarrow> extends xs zs"
  unfolding extends_def by (meson le_trans less_le_trans same_entry_trans)

lemma extends_snoc: "extends xs (xs @ [a])"
  by (simp add: extends_def nth_append same_entry_def)

lemma extends_update: "same_entry (xs ! i) a \<Longrightarrow> extends xs (xs[i := a])"
proof -
  assume a: "same_entry (xs ! i) a"
  have "same_entry (xs ! k) (xs[i := a] ! k)" if "k < length xs" for k
    using a that by (cases "k = i") (simp_all add: same_entry_def)
  then show ?thesis by (simp add: extends_def)
qed

lemma the_match_bound: "the_match token xs = Inr i \<Longrightarrow> i < length xs"
proof -
  assume "the_match token xs = Inr i"
  then have "i \<in> set (prefix_matches token xs)" by (auto simp: the_match_def split: list.splits)
  then show ?thesis by (simp add: prefix_matches_def)
qed

lemma history_ok_snoc: "history_ok xs \<Longrightarrow> length xs < MAX_ANNOUNCEMENT_HISTORY \<Longrightarrow> entry_ok a \<Longrightarrow> history_ok (xs @ [a])"
  by (simp add: history_ok_def)

lemma history_ok_update: "history_ok xs \<Longrightarrow> entry_ok a \<Longrightarrow> history_ok (xs[i := a])"
  by (auto simp: history_ok_def list_all_iff dest: set_update_subset_insert [THEN subsetD])

lemma history_ok_nth: "history_ok xs \<Longrightarrow> i < length xs \<Longrightarrow> entry_ok (xs ! i)"
  by (simp add: history_ok_def list_all_length)

lemma checked_level: "announcement_level v = Inr l \<Longrightarrow> l \<in> set ANNOUNCEMENT_LEVELS"
  by (auto simp: announcement_level_def Let_def)

lemma checked_message:
  "announcement_message v = Inr m \<Longrightarrow> 1 \<le> length m \<and> length m \<le> 1024 \<and> \<not> has_control_multiline m"
  by (auto simp: announcement_message_def Let_def)

lemma expiry_window: "expiry_in_range n \<Longrightarrow> 0 < seconds n \<and> seconds n \<le> days 365"
  by (simp add: expiry_in_range_def days_def hours_def seconds_def us_per_second_def)

lemma publish_step:
  assumes "publish_announcement actor message level n starts ident now log_now xs = Inr (ys, a, logs, ch)"
  shows "actor_uid actor = 0 \<and> ys = xs @ [a] \<and> entry_ok a \<and> length xs < MAX_ANNOUNCEMENT_HISTORY"
proof -
  from assms obtain m l where m: "announcement_message message = Inr m" and l: "announcement_level level = Inr l"
    and n: "expiry_in_range n" by (auto simp: publish_announcement_def result_simps)
  from assms show ?thesis
    using checked_message [OF m] checked_level [OF l] expiry_window [OF n]
    by (auto simp: publish_announcement_def m l n require_administrator_def result_simps Let_def entry_ok_def not_le)
qed

lemma archive_step:
  assumes "archive_announcement actor token now log_now xs = Inr (ys, a, logs, ch)"
  shows "actor_uid actor = 0 \<and> (ys = xs \<or> (\<exists>i < length xs. an_archived_at (xs ! i) = None \<and> ys = xs[i := a]
    \<and> same_entry (xs ! i) a \<and> (entry_ok (xs ! i) \<longrightarrow> entry_ok a)))"
  using assms the_match_bound [of token xs]
  by (auto simp: archive_announcement_def require_administrator_def result_simps Let_def same_entry_def entry_ok_def
      split: if_splits)

lemma edit_step:
  assumes "edit_announcement actor token ed now updated log_now xs = Inr (ys, a, logs, ch)" and "history_ok xs"
  shows "actor_uid actor = 0 \<and> (\<exists>i < length xs. an_archived_at (xs ! i) = None \<and> ys = xs[i := a]
    \<and> same_entry (xs ! i) a \<and> entry_ok a)"
proof -
  from assms(1) obtain m l i where m: "optional_check announcement_message (ae_message ed) = Inr m"
    and l: "optional_check announcement_level (ae_level ed) = Inr l" and i: "the_match token xs = Inr i"
    by (auto simp: edit_announcement_def result_simps)
  let ?b = "edited_window ed now ((xs ! i)\<lparr>an_message := or_else m (an_message (xs ! i)), an_level := or_else l (an_level (xs ! i))\<rparr>)"
  from assms(1) have admin: "actor_uid actor = 0" and open': "an_archived_at (xs ! i) = None"
    and window: "an_starts_at ?b < an_expires_at ?b" "an_expires_at ?b - an_starts_at ?b \<le> days 365"
    and res: "ys = xs[i := a]" "a = ?b\<lparr>an_updated_at := Some (whole_second updated)\<rparr>"
    by (auto simp: edit_announcement_def m l i require_administrator_def result_simps Let_def)
  note old = history_ok_nth [OF assms(2) the_match_bound [OF i], unfolded entry_ok_def]
  have "an_message ?b = or_else m (an_message (xs ! i))" "an_level ?b = or_else l (an_level (xs ! i))"
    by (simp_all add: edited_window_def)
  moreover have "l = None \<or> (\<exists>v. l = Some v \<and> v \<in> set ANNOUNCEMENT_LEVELS)"
    using l checked_level by (auto simp: optional_check_def res_map_def result_simps split: option.splits)
  moreover have "m = None \<or> (\<exists>v. m = Some v \<and> 1 \<le> length v \<and> length v \<le> 1024 \<and> \<not> has_control_multiline v)"
    using m checked_message by (auto simp: optional_check_def res_map_def result_simps split: option.splits)
  ultimately have "entry_ok a" using old window unfolding res(2) entry_ok_def by (auto simp: or_else_def)
  moreover have "same_entry (xs ! i) a" using open' unfolding res(2) by (simp add: same_entry_def edited_window_def)
  ultimately show ?thesis using admin open' res(1) the_match_bound [OF i] by blast
qed

lemma announcement_step_extends:
  assumes "announcement_step xs ys" and "history_ok xs"
  shows "history_ok ys \<and> extends xs ys"
  using assms(1)
proof cases
  case publish
  from publish_step [OF this] assms(2) show ?thesis by (auto intro: history_ok_snoc extends_snoc)
next
  case archive
  from archive_step [OF this] history_ok_nth [OF assms(2)] assms(2) show ?thesis
    by (auto intro: history_ok_update extends_update)
next
  case edit
  from edit_step [OF this assms(2)] assms(2) show ?thesis by (auto intro: history_ok_update extends_update)
qed

text \<open>
  C28: the announcement history only grows. From a valid history, whatever sequence of publications,
  edits and archivals runs, every entry stays where it is with its identifier, author and creation
  time, an archived one stays exactly as it is, the list stays within its bound, and every entry has a
  known level, a clean message of at most 1024 characters and a window of at most a year that ends
  after it starts.
\<close>

theorem announcement_history_grows:
  assumes "announcement_step\<^sup>*\<^sup>* xs ys" and "history_ok xs"
  shows "history_ok ys \<and> extends xs ys"
  using assms
proof (induction rule: rtranclp_induct)
  case (step ys zs)
  then show ?case using announcement_step_extends [of ys zs] by (blast intro: extends_trans)
qed simp

definition root_actor :: actor where
  "root_actor = \<lparr>actor_uid = 0, actor_username = ''root''\<rparr>"

definition published_history :: "announcement list" where
  "published_history = (case publish_announcement root_actor '' Maintenance '' ''Warning'' 3600 None ''a1'' 5 6 [] of
     Inr (xs, _, _, _) \<Rightarrow> xs | Inl _ \<Rightarrow> [])"

theorem announcement_history_grows_witness:
  "length published_history = 1 \<and> history_ok published_history \<and> extends [] published_history"
proof -
  have len: "length published_history = 1" by code_simp
  then have "\<exists>a logs ch. publish_announcement root_actor '' Maintenance '' ''Warning'' 3600 None ''a1'' 5 6 [] = Inr (published_history, a, logs, ch)"
    unfolding published_history_def by (auto split: sum.splits prod.splits)
  then have "announcement_step [] published_history" by (blast intro: announcement_step.publish)
  then have "announcement_step\<^sup>*\<^sup>* [] published_history" by blast
  from announcement_history_grows [OF this] len show ?thesis by (simp add: history_ok_def)
qed

end
