(* ===== verification/Config_Load.thy ===== *)
theory Config_Load
  imports Config Timeparse "HOL-Library.AList" "HOL-Library.Word"
begin

unbundle bit_operations_syntax

text \<open>
  \<^verbatim>\<open>bk/config.py\<close>: loading a configuration. Raw values are JSON documents (a Python tuple
  is an array), the environment an association list of texts. \<^verbatim>\<open>loaded_config\<close> extends the
  scheduling record \<^verbatim>\<open>config\<close> by the remaining fields of the class; \<^verbatim>\<open>post_init\<close> is its
  constructor's check and \<^verbatim>\<open>load_config\<close> the loader, in the order the source evaluates the
  arguments. Reading texts as floats or JSON, \<^verbatim>\<open>shlex.split\<close> and the path functions that
  ask the operating system are the fields of \<^verbatim>\<open>runtime\<close>; the files are those of
  \<^verbatim>\<open>config_files\<close>. A float is the rational it denotes. Messages are kept without the key.
\<close>

datatype config_error =
    ConfigInvalid string
  | ConfigDenied string
  | ConfigMissing
  | ConfigOSError string
  | ConfigOverflow
  | ConfigNoHome

record runtime =
  float_of_text :: "string \<Rightarrow> pyfloat option"
  float_of_int :: "int \<Rightarrow> rat option"
  float_div :: "int \<Rightarrow> rat \<Rightarrow> rat"
  json_loads :: "string \<Rightarrow> json option"
  shlex_split :: "string \<Rightarrow> string list option"
  expanduser :: "string \<Rightarrow> string option"
  abspath :: "string \<Rightarrow> string"
  realpath :: "string \<Rightarrow> string"


section \<open>Constants\<close>

definition DEFAULT_PRIVATE_FILE_MODE :: int where "DEFAULT_PRIVATE_FILE_MODE = 384"
definition DEFAULT_PRIVATE_DIR_MODE :: int where "DEFAULT_PRIVATE_DIR_MODE = 448"
definition BROKER_FILE_MODE :: int where "BROKER_FILE_MODE = 420"
definition BROKER_DIR_MODE :: int where "BROKER_DIR_MODE = 493"
definition BROKER_ALL_SOCKET_MODE :: int where "BROKER_ALL_SOCKET_MODE = 438"
definition BROKER_GROUP_SOCKET_MODE :: int where "BROKER_GROUP_SOCKET_MODE = 432"
definition MAX_CONFIG_FILE_BYTES :: int where "MAX_CONFIG_FILE_BYTES = 1024 * 1024"
definition CONFIG_VERSION :: int where "CONFIG_VERSION = 1"
definition MAX_SHARED_UNITS :: int where "MAX_SHARED_UNITS = 10000"
definition MAX_QUEUE_SEARCH_HOURS :: int where "MAX_QUEUE_SEARCH_HOURS = 10 * 365 * 24"
definition MAX_BLACKOUT_REASON_LENGTH :: nat where "MAX_BLACKOUT_REASON_LENGTH = 512"
definition MAX_RETENTION_DAYS :: int where "MAX_RETENTION_DAYS = 100 * 365"
definition MAX_USAGE_LOAD_WINDOW_MINUTES :: int where "MAX_USAGE_LOAD_WINDOW_MINUTES = 365 * 24 * 60"
definition MAX_LOCK_TIMEOUT_SECONDS :: rat where "MAX_LOCK_TIMEOUT_SECONDS = 60 * 60"
definition MAX_BACKUP_KEEP :: int where "MAX_BACKUP_KEEP = 10000"
definition MAX_TIMELINE_HOURS :: int where "MAX_TIMELINE_HOURS = 365 * 24"
definition MAX_MEMORY_MB :: int where "MAX_MEMORY_MB = 16 * 1024 * 1024"
definition MAX_WORKER_POLL_SECONDS :: rat where "MAX_WORKER_POLL_SECONDS = 60 * 60"
definition DEFAULT_WORKER_MAX_PARALLEL :: int where "DEFAULT_WORKER_MAX_PARALLEL = 64"
definition MAX_WORKER_MAX_PARALLEL :: int where "MAX_WORKER_MAX_PARALLEL = 4096"
definition DEFAULT_WORKER_TERMINATION_GRACE_SECONDS :: rat where
  "DEFAULT_WORKER_TERMINATION_GRACE_SECONDS = 5"
definition MAX_WORKER_TERMINATION_GRACE_SECONDS :: rat where "MAX_WORKER_TERMINATION_GRACE_SECONDS = 60"
definition MAX_WORKER_CLAIM_TIMEOUT_SECONDS :: rat where "MAX_WORKER_CLAIM_TIMEOUT_SECONDS = 7 * 24 * 60 * 60"
definition MAX_WORKER_RECOVERY_GRACE_SECONDS :: rat where "MAX_WORKER_RECOVERY_GRACE_SECONDS = 24 * 60 * 60"
definition MAX_ALLOCATOR_TIMEOUT_SECONDS :: rat where "MAX_ALLOCATOR_TIMEOUT_SECONDS = 5 * 60"
definition MAX_ALLOCATOR_WEIGHT :: rat where "MAX_ALLOCATOR_WEIGHT = 1000000"
definition MAX_MONITOR_INTERVAL_SECONDS :: rat where "MAX_MONITOR_INTERVAL_SECONDS = 60 * 60"
definition MAX_MONITOR_ROLLUP_SECONDS :: int where "MAX_MONITOR_ROLLUP_SECONDS = 24 * 60 * 60"
definition MAX_TUI_REFRESH_SECONDS :: rat where "MAX_TUI_REFRESH_SECONDS = 60"

text \<open>The binary64 values of the literals \<^verbatim>\<open>0.2\<close>, \<^verbatim>\<open>0.1\<close> and \<^verbatim>\<open>1e-9\<close>.\<close>

definition MIN_MONITOR_INTERVAL_SECONDS :: rat where
  "MIN_MONITOR_INTERVAL_SECONDS = 3602879701896397 / 2 ^ 54"
definition MIN_TUI_REFRESH_SECONDS :: rat where
  "MIN_TUI_REFRESH_SECONDS = 3602879701896397 / 2 ^ 55"
definition MIN_WORKER_TERMINATION_GRACE_SECONDS :: rat where
  "MIN_WORKER_TERMINATION_GRACE_SECONDS = 3602879701896397 / 2 ^ 55"
definition CLOSE_TOLERANCE :: rat where
  "CLOSE_TOLERANCE = 4835703278458517 / 2 ^ 82"

definition S_ISGID :: int where "S_ISGID = 1024"
definition S_ISVTX :: int where "S_ISVTX = 512"

definition CONFIG_ENV_MAP :: "(string \<times> string) list" where
  "CONFIG_ENV_MAP =
     [(''gpu_count'', ''BK_GPU_COUNT''),
      (''slot_minutes'', ''BK_SLOT_MINUTES''),
      (''max_shared_users'', ''BK_MAX_SHARED_USERS''),
      (''queue_search_hours'', ''BK_QUEUE_SEARCH_HOURS''),
      (''booking_horizon_days'', ''BK_BOOKING_HORIZON_DAYS''),
      (''max_booking_duration_hours'', ''BK_MAX_BOOKING_DURATION_HOURS''),
      (''booking_blackouts'', ''BK_BOOKING_BLACKOUTS''),
      (''ledger_retention_days'', ''BK_LEDGER_RETENTION_DAYS''),
      (''usage_load_window_minutes'', ''BK_USAGE_LOAD_WINDOW_MINUTES''),
      (''usage_minute_retention_days'', ''BK_USAGE_MINUTE_RETENTION_DAYS''),
      (''usage_five_minute_retention_days'', ''BK_USAGE_FIVE_MINUTE_RETENTION_DAYS''),
      (''usage_ten_minute_retention_days'', ''BK_USAGE_TEN_MINUTE_RETENTION_DAYS''),
      (''usage_hourly_retention_days'', ''BK_USAGE_HOURLY_RETENTION_DAYS''),
      (''usage_daily_retention_days'', ''BK_USAGE_DAILY_RETENTION_DAYS''),
      (''usage_event_retention_days'', ''BK_USAGE_EVENT_RETENTION_DAYS''),
      (''lock_timeout_seconds'', ''BK_LOCK_TIMEOUT_SECONDS''),
      (''backup_keep'', ''BK_BACKUP_KEEP''),
      (''timeline_hours'', ''BK_TIMELINE_HOURS''),
      (''require_shared_memory'', ''BK_REQUIRE_SHARED_MEMORY''),
      (''shared_memory_reserve_mb'', ''BK_SHARED_MEMORY_RESERVE_MB''),
      (''job_log_retention_days'', ''BK_JOB_LOG_RETENTION_DAYS''),
      (''job_log_max_mb'', ''BK_JOB_LOG_MAX_MB''),
      (''job_log_total_max_mb'', ''BK_JOB_LOG_TOTAL_MAX_MB''),
      (''worker_poll_seconds'', ''BK_WORKER_POLL_SECONDS''),
      (''worker_max_parallel'', ''BK_WORKER_MAX_PARALLEL''),
      (''worker_termination_grace_seconds'', ''BK_WORKER_TERMINATION_GRACE_SECONDS''),
      (''worker_claim_timeout_seconds'', ''BK_WORKER_CLAIM_TIMEOUT_SECONDS''),
      (''worker_recovery_grace_seconds'', ''BK_WORKER_RECOVERY_GRACE_SECONDS''),
      (''worker_live_guard'', ''BK_WORKER_LIVE_GUARD''),
      (''monitor_interval_seconds'', ''BK_MONITOR_INTERVAL_SECONDS''),
      (''monitor_rollup_seconds'', ''BK_MONITOR_ROLLUP_SECONDS''),
      (''tui_refresh_seconds'', ''BK_TUI_REFRESH_SECONDS''),
      (''file_mode'', ''BK_FILE_MODE''),
      (''dir_mode'', ''BK_DIR_MODE''),
      (''disabled_gpus'', ''BK_DISABLED_GPUS''),
      (''gpu_priority'', ''BK_GPU_PRIORITY''),
      (''container_attribution_groups'', ''BK_CONTAINER_ATTRIBUTION_GROUPS'')]"

definition CONFIG_FILE_KEYS :: "string list" where
  "CONFIG_FILE_KEYS =
     [''config_version'', ''data_dir''] @ map fst CONFIG_ENV_MAP
     @ [''job_log_dir'', ''allocator_command'', ''allocator_timeout_seconds'', ''allocator_weight'',
        ''monitor_uid'', ''storage_gid'', ''broker_socket'', ''broker_uid'', ''broker_gid'',
        ''broker_socket_mode'']"


section \<open>Values\<close>

text \<open>\<^verbatim>\<open>int(value)\<close> after \<^verbatim>\<open>isinstance(value, (int, str))\<close> and no \<^verbatim>\<open>bool\<close>.\<close>

fun int_or_text :: "json \<Rightarrow> (config_error, int) result" where
  "int_or_text (JInt n) = Inr n"
| "int_or_text (JStr s) =
     (case py_int s of None \<Rightarrow> Inl (ConfigInvalid ''must be an integer'') | Some n \<Rightarrow> Inr n)"
| "int_or_text _ = Inl (ConfigInvalid ''must be an integer'')"

text \<open>\<^verbatim>\<open>int(value)\<close> of any value but a \<^verbatim>\<open>bool\<close>; an infinity raises \<^verbatim>\<open>OverflowError\<close>.\<close>

fun int_of_any :: "json \<Rightarrow> (config_error, int) result" where
  "int_of_any (JFloat q) = Inr (if q < 0 then - \<lfloor>- q\<rfloor> else \<lfloor>q\<rfloor>)"
| "int_of_any (JNonFinite s) =
     Inl (if s = ''NaN'' then ConfigInvalid ''must be an integer'' else ConfigOverflow)"
| "int_of_any v = int_or_text v"

text \<open>\<^verbatim>\<open>float(value)\<close>, refused when not finite, for a value that is no \<^verbatim>\<open>bool\<close>.\<close>

fun finite_float :: "runtime \<Rightarrow> json \<Rightarrow> (config_error, rat) result" where
  "finite_float rt (JFloat q) = Inr q"
| "finite_float rt (JNonFinite _) = Inl (ConfigInvalid ''must be finite'')"
| "finite_float rt (JInt n) =
     (case float_of_int rt n of None \<Rightarrow> Inl ConfigOverflow | Some q \<Rightarrow> Inr q)"
| "finite_float rt (JStr s) =
     (case float_of_text rt s of
        None \<Rightarrow> Inl (ConfigInvalid ''must be a number'')
      | Some NotFinite \<Rightarrow> Inl (ConfigInvalid ''must be finite'')
      | Some (Finite q) \<Rightarrow> Inr q)"
| "finite_float rt _ = Inl (ConfigInvalid ''must be a number'')"

definition int_value :: "(string \<times> json) list \<Rightarrow> string \<Rightarrow> int \<Rightarrow> int \<Rightarrow> (config_error, int) result" where
  "int_value raw key default_value maximum =
     res_bind (int_or_text (jget_default raw key (JInt default_value))) (\<lambda>parsed.
       raise_if (parsed < 1) (ConfigInvalid ''must be >= 1'')
       (raise_if (parsed > maximum) (ConfigInvalid ''must be <= maximum'') (Inr parsed)))"

definition nonnegative_int_value ::
  "(string \<times> json) list \<Rightarrow> string \<Rightarrow> int \<Rightarrow> int \<Rightarrow> (config_error, int) result" where
  "nonnegative_int_value raw key default_value maximum =
     res_bind (int_or_text (jget_default raw key (JInt default_value))) (\<lambda>parsed.
       raise_if (parsed < 0) (ConfigInvalid ''must be >= 0'')
       (raise_if (parsed > maximum) (ConfigInvalid ''must be <= maximum'') (Inr parsed)))"

definition float_value ::
  "runtime \<Rightarrow> (string \<times> json) list \<Rightarrow> string \<Rightarrow> rat \<Rightarrow> rat \<Rightarrow> (config_error, rat) result" where
  "float_value rt raw key default_value maximum =
     res_bind (finite_float rt (jget_default raw key (JFloat default_value))) (\<lambda>parsed.
       raise_if (parsed \<le> 0) (ConfigInvalid ''must be > 0'')
       (raise_if (parsed > maximum) (ConfigInvalid ''must be <= maximum'') (Inr parsed)))"

definition bool_value :: "(string \<times> json) list \<Rightarrow> string \<Rightarrow> bool \<Rightarrow> (config_error, bool) result" where
  "bool_value raw key default_value =
     (case jget_default raw key (JBool default_value) of
        JBool b \<Rightarrow> Inr b
      | JStr s \<Rightarrow>
          (let normalized = py_lower (py_strip s)
           in if normalized \<in> set [''1'', ''true'', ''yes'', ''on''] then Inr True
              else if normalized \<in> set [''0'', ''false'', ''no'', ''off''] then Inr False
              else Inl (ConfigInvalid ''must be a boolean''))
      | JInt n \<Rightarrow> (if n = 0 \<or> n = 1 then Inr (n = 1) else Inl (ConfigInvalid ''must be a boolean''))
      | _ \<Rightarrow> Inl (ConfigInvalid ''must be a boolean''))"

definition parse_mode :: "json \<Rightarrow> (config_error, int) result" where
  "parse_mode v =
     (case v of
        JInt n \<Rightarrow> Inr n
      | JStr s \<Rightarrow>
          (let normalized = py_lower (py_strip s);
               normalized = (if take 2 normalized = ''0o'' then drop 2 normalized else normalized)
           in case py_int_base 8 normalized of
                None \<Rightarrow> Inl (ConfigInvalid ''must be an octal mode'') | Some n \<Rightarrow> Inr n)
      | _ \<Rightarrow> Inl (ConfigInvalid ''must be an octal mode''))"

definition mode_value :: "(string \<times> json) list \<Rightarrow> string \<Rightarrow> int \<Rightarrow> bool \<Rightarrow> (config_error, int) result" where
  "mode_value raw key default_value directory =
     res_bind (parse_mode (jget_default raw key (JInt default_value))) (\<lambda>parsed.
       let allowed = (if directory then 4095 else 511)
       in raise_if (parsed < 0 \<or> parsed AND NOT allowed \<noteq> 0) (ConfigInvalid ''invalid mode'')
          (raise_if (\<not> directory \<and> parsed AND 73 \<noteq> 0)
             (ConfigInvalid ''file_mode must not contain executable bits'') (Inr parsed)))"

text \<open>\<^verbatim>\<open>validate_optional_uid\<close> and \<^verbatim>\<open>validate_optional_gid\<close>, equal but for the message.\<close>

definition validate_optional_uid :: "json \<Rightarrow> (config_error, int option) result" where
  "validate_optional_uid v =
     (if v = JNull then Inr None
      else res_bind (int_or_text v) (\<lambda>parsed.
        raise_if (parsed < 0 \<or> parsed > MAX_UID) (ConfigInvalid ''must be between 0 and MAX_UID'')
          (Inr (Some parsed))))"

definition validate_optional_gid :: "json \<Rightarrow> (config_error, int option) result" where
  "validate_optional_gid v =
     (if v = JNull then Inr None
      else res_bind (int_or_text v) (\<lambda>parsed.
        raise_if (parsed < 0 \<or> parsed > MAX_UID) (ConfigInvalid ''must be between 0 and MAX_UID'')
          (Inr (Some parsed))))"

text \<open>Texts that are JSON when they start with a bracket or brace, else items between commas.\<close>

definition comma_items :: "string \<Rightarrow> string list" where
  "comma_items text = filter (\<lambda>part. part \<noteq> []) (map py_strip (split_on (CHR '','') text))"

definition read_gpu_list :: "runtime \<Rightarrow> json \<Rightarrow> (config_error, json list) result" where
  "read_gpu_list rt v =
     (let expect_array = (\<lambda>p. case p of JArr xs \<Rightarrow> Inr xs | _ \<Rightarrow> Inl (ConfigInvalid ''must be an array of GPU IDs''))
      in case v of
        JNull \<Rightarrow> Inr []
      | JStr s \<Rightarrow>
          (let text = py_strip s
           in if text = [] then Inr []
              else if hd text = CHR ''['' then
                (case json_loads rt text of
                   None \<Rightarrow> Inl (ConfigInvalid ''must be comma-separated GPU IDs or a JSON array'')
                 | Some p \<Rightarrow> expect_array p)
              else Inr (map JStr (comma_items text)))
      | _ \<Rightarrow> expect_array v)"

text \<open>The number of an entry, \<^verbatim>\<open>bool\<close> refused.\<close>

fun gpu_number :: "json \<Rightarrow> (config_error, int) result" where
  "gpu_number (JBool _) = Inl (ConfigInvalid ''must contain integers'')"
| "gpu_number v = int_of_any v"

fun gpu_list_loop :: "int \<Rightarrow> int list \<Rightarrow> json list \<Rightarrow> (config_error, int list) result" where
  "gpu_list_loop n result [] = Inr (sort result)"
| "gpu_list_loop n result (raw_gpu # rest) =
     res_bind (gpu_number raw_gpu) (\<lambda>gpu.
       raise_if (gpu < 0 \<or> gpu \<ge> n) (ConfigInvalid ''GPU index out of range'')
       (raise_if (gpu \<in> set result) (ConfigInvalid ''duplicate GPU index'')
         (gpu_list_loop n (result @ [gpu]) rest)))"

definition validate_gpu_list_value :: "runtime \<Rightarrow> json \<Rightarrow> int \<Rightarrow> (config_error, int list) result" where
  "validate_gpu_list_value rt v n = res_bind (read_gpu_list rt v) (gpu_list_loop n [])"

text \<open>\<^verbatim>\<open>item.split(separator, 1)\<close> with the separator present.\<close>

definition split_once :: "char \<Rightarrow> string \<Rightarrow> string \<times> string" where
  "split_once c item = (takeWhile (\<lambda>x. x \<noteq> c) item, drop 1 (dropWhile (\<lambda>x. x \<noteq> c) item))"

definition priority_item :: "string \<Rightarrow> (config_error, json) result" where
  "priority_item raw =
     (let item = py_strip raw;
          separator = (if CHR ''='' \<in> set item then CHR ''='' else CHR '':'')
      in raise_if (item = [] \<or> separator \<notin> set item) (ConfigInvalid ''must look like 6=10,7=20'')
         (let (gpu, priority) = split_once separator item
          in Inr (JArr [JStr (py_strip gpu), JStr (py_strip priority)])))"

fun res_list :: "('a \<Rightarrow> ('e, 'b) result) \<Rightarrow> 'a list \<Rightarrow> ('e, 'b list) result" where
  "res_list f [] = Inr []"
| "res_list f (x # xs) = res_bind (f x) (\<lambda>y. res_map (\<lambda>ys. y # ys) (res_list f xs))"

definition priority_entries :: "json \<Rightarrow> (config_error, json list) result" where
  "priority_entries p =
     (case p of
        JObj items \<Rightarrow> Inr (map (\<lambda>(k, v). JArr [JStr k, v]) items)
      | JArr entries \<Rightarrow> Inr entries
      | _ \<Rightarrow> Inl (ConfigInvalid ''must map GPU IDs to integer priority levels''))"

definition read_gpu_priority :: "runtime \<Rightarrow> json \<Rightarrow> (config_error, json list) result" where
  "read_gpu_priority rt v =
     (case v of
        JNull \<Rightarrow> Inr []
      | JStr s \<Rightarrow>
          (let text = py_strip s
           in if text = [] then Inr []
              else if hd text = CHR ''{'' then
                (case json_loads rt text of
                   None \<Rightarrow> Inl (ConfigInvalid ''must look like 6=10,7=20 or a JSON object'')
                 | Some p \<Rightarrow> priority_entries p)
              else res_list priority_item (split_on (CHR '','') text))
      | _ \<Rightarrow> priority_entries v)"

definition is_bool :: "json \<Rightarrow> bool" where
  "is_bool v = (case v of JBool _ \<Rightarrow> True | _ \<Rightarrow> False)"

definition priority_pair :: "json \<Rightarrow> (config_error, int \<times> int) result" where
  "priority_pair entry =
     (case entry of
        JArr [raw_gpu, raw_priority] \<Rightarrow>
          raise_if (is_bool raw_gpu \<or> is_bool raw_priority) (ConfigInvalid ''must contain integers'')
          (res_bind (int_of_any raw_gpu) (\<lambda>gpu.
             res_map (\<lambda>priority. (gpu, priority)) (int_of_any raw_priority)))
      | _ \<Rightarrow> Inl (ConfigInvalid ''entries must be GPU/priority pairs''))"

fun gpu_priority_loop ::
  "int \<Rightarrow> int list \<Rightarrow> (int \<times> int) list \<Rightarrow> json list \<Rightarrow> (config_error, (int \<times> int) list) result"
where
  "gpu_priority_loop n seen result [] = Inr (sort result)"
| "gpu_priority_loop n seen result (entry # rest) =
     res_bind (priority_pair entry) (\<lambda>(gpu, priority).
       raise_if (gpu < 0 \<or> gpu \<ge> n) (ConfigInvalid ''gpu_priority GPU index out of range'')
       (raise_if (priority < 0 \<or> priority > MAX_GPU_PRIORITY) (ConfigInvalid ''GPU priority range'')
       (raise_if (gpu \<in> set seen) (ConfigInvalid ''gpu_priority contains duplicate GPU index'')
         (gpu_priority_loop n (gpu # seen)
           (if priority \<noteq> 0 then result @ [(gpu, priority)] else result) rest))))"

definition validate_gpu_priority_value ::
  "runtime \<Rightarrow> json \<Rightarrow> int \<Rightarrow> (config_error, (int \<times> int) list) result" where
  "validate_gpu_priority_value rt v n = res_bind (read_gpu_priority rt v) (gpu_priority_loop n [] [])"


section \<open>Blackout windows\<close>

text \<open>\<^verbatim>\<open>value.replace("Z", "+00:00")\<close>\<close>

definition replace_zulu :: "string \<Rightarrow> string" where
  "replace_zulu s = concat (map (\<lambda>c. if c = CHR ''Z'' then ''+00:00'' else [c]) s)"

text \<open>Whether a text \<^const>\<open>fromisoformat\<close> reads carries an offset.\<close>

definition has_timezone :: "string \<Rightarrow> bool" where
  "has_timezone s =
     (case parse_date s of
        Some (_, _ # clock) \<Rightarrow> (case parse_clock clock of Some (_, offset) \<Rightarrow> offset \<noteq> [] | None \<Rightarrow> False)
      | _ \<Rightarrow> False)"

text \<open>\<^verbatim>\<open>astimezone\<close> raises \<^verbatim>\<open>OverflowError\<close> when UTC leaves the years 1 to 9999.\<close>

fun blackout_timestamp :: "json \<Rightarrow> (config_error, datetime) result" where
  "blackout_timestamp (JStr value) =
     raise_if (value = [] \<or> length value > 64) (ConfigInvalid ''must be an ISO 8601 timestamp with a timezone'')
     (case fromisoformat (replace_zulu value) of
        None \<Rightarrow> Inl (ConfigInvalid ''must be an ISO 8601 timestamp'')
      | Some parsed \<Rightarrow>
          raise_if (\<not> has_timezone (replace_zulu value)) (ConfigInvalid ''must include a timezone'')
          (raise_if (\<not> representable parsed) ConfigOverflow (Inr (whole_second parsed))))"
| "blackout_timestamp _ = Inl (ConfigInvalid ''must be an ISO 8601 timestamp with a timezone'')"

definition blackout_fields :: "json \<Rightarrow> (config_error, json \<times> json \<times> json) result" where
  "blackout_fields item =
     (case item of
        JObj d \<Rightarrow> Inr (jget d ''start_at'', jget d ''end_at'',
                       jget_default d ''reason'' (JStr ''administrator maintenance''))
      | JArr [s, e, r] \<Rightarrow> Inr (s, e, r)
      | _ \<Rightarrow> Inl (ConfigInvalid ''must contain start_at, end_at, and reason''))"

definition blackout_window :: "json \<Rightarrow> (config_error, string \<times> string \<times> string) result" where
  "blackout_window item =
     res_bind (blackout_fields item) (\<lambda>(start_raw, end_raw, reason_raw).
     res_bind (blackout_timestamp start_raw) (\<lambda>start.
     res_bind (blackout_timestamp end_raw) (\<lambda>end.
     raise_if (start \<ge> end) (ConfigInvalid ''end_at must be after start_at'')
     (case reason_raw of
        JStr raw \<Rightarrow>
          (let reason = py_strip raw
           in raise_if (reason = [] \<or> length reason > MAX_BLACKOUT_REASON_LENGTH)
                (ConfigInvalid ''reason must contain 1-512 characters'')
              (raise_if (has_control reason) (ConfigInvalid ''reason contains control characters'')
                (Inr (to_iso start, to_iso end, reason))))
      | _ \<Rightarrow> Inl (ConfigInvalid ''reason must be text'')))))"

definition read_blackouts :: "runtime \<Rightarrow> json \<Rightarrow> (config_error, json list) result" where
  "read_blackouts rt v =
     (let expect_array = (\<lambda>p. case p of JArr xs \<Rightarrow> Inr xs | _ \<Rightarrow> Inl (ConfigInvalid ''must be an array''))
      in case v of
        JNull \<Rightarrow> Inr []
      | JStr s \<Rightarrow>
          (if s = [] then Inr []
           else case json_loads rt s of
                  None \<Rightarrow> Inl (ConfigInvalid ''must be a JSON array'') | Some p \<Rightarrow> expect_array p)
      | _ \<Rightarrow> expect_array v)"

definition validate_booking_blackouts ::
  "runtime \<Rightarrow> json \<Rightarrow> (config_error, (string \<times> string \<times> string) list) result" where
  "validate_booking_blackouts rt v =
     res_bind (read_blackouts rt v) (\<lambda>parsed.
       raise_if (length parsed > MAX_BOOKING_BLACKOUTS) (ConfigInvalid ''at most 512 windows'')
         (res_map sort (res_list blackout_window parsed)))"

text \<open>How the scheduler reads the stored texts, \<^verbatim>\<open>parse_iso(start_at)\<close>.\<close>

definition blackout_instants :: "string \<times> string \<times> string \<Rightarrow> (datetime \<times> datetime \<times> string) option" where
  "blackout_instants = (\<lambda>(s, e, reason).
     case (parse_iso s, parse_iso e) of (Some start, Some end) \<Rightarrow> Some (start, end, reason) | _ \<Rightarrow> None)"


section \<open>Timings, names, paths and commands\<close>

text \<open>\<^verbatim>\<open>round(x)\<close>, ties to even, and \<^verbatim>\<open>math.isclose\<close> with both tolerances.\<close>

definition round_half_even :: "rat \<Rightarrow> int" where
  "round_half_even q =
     (let n = \<lfloor>q\<rfloor>; frac = q - of_int n
      in if frac < 1 / 2 then n else if frac > 1 / 2 then n + 1 else if even n then n else n + 1)"

definition isclose :: "rat \<Rightarrow> rat \<Rightarrow> bool" where
  "isclose a b \<longleftrightarrow>
     \<bar>a - b\<bar> \<le> CLOSE_TOLERANCE * \<bar>b\<bar> \<or> \<bar>a - b\<bar> \<le> CLOSE_TOLERANCE * \<bar>a\<bar> \<or> \<bar>a - b\<bar> \<le> CLOSE_TOLERANCE"

definition validate_monitor_timing :: "runtime \<Rightarrow> json \<Rightarrow> json \<Rightarrow> (config_error, rat \<times> int) result" where
  "validate_monitor_timing rt interval_seconds rollup_seconds =
     res_bind (finite_float rt interval_seconds) (\<lambda>interval.
     raise_if (interval < MIN_MONITOR_INTERVAL_SECONDS) (ConfigInvalid ''monitor_interval_seconds must be >= 0.2'')
     (raise_if (interval > MAX_MONITOR_INTERVAL_SECONDS) (ConfigInvalid ''monitor_interval_seconds must be <= 3600'')
     (res_bind (int_or_text rollup_seconds) (\<lambda>rollup.
     raise_if (rollup < 1) (ConfigInvalid ''monitor_rollup_seconds must be >= 1'')
     (raise_if (rollup > MAX_MONITOR_ROLLUP_SECONDS) (ConfigInvalid ''monitor_rollup_seconds must be <= 86400'')
     (raise_if (of_int rollup < interval)
        (ConfigInvalid ''monitor_rollup_seconds must be >= monitor_interval_seconds'')
     (let samples_per_rollup = float_div rt rollup interval
      in raise_if (\<not> isclose samples_per_rollup (of_int (round_half_even samples_per_rollup)))
           (ConfigInvalid ''monitor_rollup_seconds must be an integer multiple of monitor_interval_seconds'')
           (Inr (interval, rollup)))))))))"

definition bounded_float :: "runtime \<Rightarrow> rat \<Rightarrow> rat \<Rightarrow> json \<Rightarrow> (config_error, rat) result" where
  "bounded_float rt minimum maximum v =
     res_bind (finite_float rt v) (\<lambda>parsed.
       raise_if (parsed < minimum) (ConfigInvalid ''must be >= minimum'')
       (raise_if (parsed > maximum) (ConfigInvalid ''must be <= maximum'') (Inr parsed)))"

definition validate_tui_refresh_seconds :: "runtime \<Rightarrow> json \<Rightarrow> (config_error, rat) result" where
  "validate_tui_refresh_seconds rt = bounded_float rt MIN_TUI_REFRESH_SECONDS MAX_TUI_REFRESH_SECONDS"

definition validate_worker_termination_grace_seconds :: "runtime \<Rightarrow> json \<Rightarrow> (config_error, rat) result" where
  "validate_worker_termination_grace_seconds rt =
     bounded_float rt MIN_WORKER_TERMINATION_GRACE_SECONDS MAX_WORKER_TERMINATION_GRACE_SECONDS"

definition validate_worker_max_parallel :: "json \<Rightarrow> (config_error, int) result" where
  "validate_worker_max_parallel v =
     (case v of
        JInt n \<Rightarrow> raise_if (n < 1) (ConfigInvalid ''worker_max_parallel must be >= 1'')
                   (raise_if (n > MAX_WORKER_MAX_PARALLEL) (ConfigInvalid ''worker_max_parallel must be <= 4096'')
                     (Inr n))
      | _ \<Rightarrow> Inl (ConfigInvalid ''worker_max_parallel must be an integer''))"

fun group_loop :: "string list \<Rightarrow> json list \<Rightarrow> (config_error, string list) result" where
  "group_loop result [] = Inr result"
| "group_loop result (JStr item # rest) =
     raise_if (item = [] \<or> length item > 128) (ConfigInvalid ''group names must be non-empty strings'')
     (raise_if (list_ex (\<lambda>c. py_isspace c \<or> c \<in> {CHR '':'', CHR ''/'', char_of (0::nat)}) item)
        (ConfigInvalid ''invalid container attribution group name'')
        (group_loop (if item \<in> set result then result else result @ [item]) rest))"
| "group_loop result (_ # rest) = Inl (ConfigInvalid ''group names must be non-empty strings'')"

definition group_names_value :: "runtime \<Rightarrow> json \<Rightarrow> (config_error, string list) result" where
  "group_names_value rt v =
     (let expect_list = (\<lambda>p. case p of
            JArr xs \<Rightarrow> group_loop [] xs | _ \<Rightarrow> Inl (ConfigInvalid ''must be a list of group names''))
      in case v of
        JNull \<Rightarrow> Inr []
      | JStr s \<Rightarrow>
          (if s = [] then Inr []
           else let text = py_strip s
                in if text \<noteq> [] \<and> hd text = CHR ''['' then
                     (case json_loads rt text of
                        None \<Rightarrow> Inl (ConfigInvalid ''must be a JSON array or comma-separated names'')
                      | Some p \<Rightarrow> expect_list p)
                   else group_loop [] (map JStr (comma_items text)))
      | _ \<Rightarrow> expect_list v)"

definition is_absolute :: "string \<Rightarrow> bool" where
  "is_absolute p \<longleftrightarrow> p \<noteq> [] \<and> hd p = CHR ''/''"

fun path_value :: "runtime \<Rightarrow> json \<Rightarrow> (config_error, string) result" where
  "path_value rt (JStr text) =
     raise_if (text = [] \<or> char_of (0::nat) \<in> set text \<or> length text > 4096)
       (ConfigInvalid ''must be a non-empty path of at most 4096 characters'')
       (case expanduser rt text of None \<Rightarrow> Inl ConfigNoHome | Some path \<Rightarrow> Inr path)"
| "path_value rt _ = Inl (ConfigInvalid ''must be a filesystem path'')"

text \<open>The unexpanded text has to be absolute here, the expanded path in the next.\<close>

definition absolute_path_value :: "runtime \<Rightarrow> json \<Rightarrow> (config_error, string) result" where
  "absolute_path_value rt v =
     res_bind (path_value rt v) (\<lambda>path.
       raise_if (\<not> (case v of JStr text \<Rightarrow> is_absolute text | _ \<Rightarrow> False))
         (ConfigInvalid ''must be an absolute filesystem path'') (Inr (abspath rt path)))"

definition absolute_user_path_value :: "runtime \<Rightarrow> json \<Rightarrow> (config_error, string) result" where
  "absolute_user_path_value rt v =
     res_bind (path_value rt v) (\<lambda>path.
       raise_if (\<not> is_absolute path) (ConfigInvalid ''must be an absolute filesystem path'')
         (Inr (abspath rt path)))"

definition path_join :: "string \<Rightarrow> string \<Rightarrow> string" where
  "path_join p q =
     (if p = ''.'' then q else if p \<noteq> [] \<and> last p = CHR ''/'' then p @ q else p @ ''/'' @ q)"

definition path_name :: "string \<Rightarrow> string" where
  "path_name p = rev (takeWhile (\<lambda>c. c \<noteq> CHR ''/'') (rev p))"

definition path_parent :: "string \<Rightarrow> string" where
  "path_parent p =
     (if CHR ''/'' \<notin> set p then ''.''
      else let d = rev (drop 1 (dropWhile (\<lambda>c. c \<noteq> CHR ''/'') (rev p))) in if d = [] then ''/'' else d)"

definition canonical_config_file :: "runtime \<Rightarrow> string \<Rightarrow> string" where
  "canonical_config_file rt path =
     (let absolute = abspath rt path in path_join (realpath rt (path_parent absolute)) (path_name absolute))"

text \<open>\<^verbatim>\<open>len(item.encode("utf-8"))\<close>, with code points below 256.\<close>

definition utf8_length :: "string \<Rightarrow> nat" where
  "utf8_length s = sum_list (map (\<lambda>c. if (of_char c :: nat) < 128 then 1 else 2) s)"

definition string_items :: "json list \<Rightarrow> string list option" where
  "string_items xs = those (map (\<lambda>v. case v of JStr s \<Rightarrow> Some s | _ \<Rightarrow> None) xs)"

text \<open>\<^verbatim>\<open>shlex.split\<close> raises \<^verbatim>\<open>ValueError\<close> on an unterminated quotation.\<close>

definition read_command :: "runtime \<Rightarrow> json \<Rightarrow> (config_error, string list) result" where
  "read_command rt v =
     (case v of
        JStr s \<Rightarrow> (case shlex_split rt s of
                      None \<Rightarrow> Inl (ConfigInvalid ''no closing quotation'') | Some argv \<Rightarrow> Inr argv)
      | JArr xs \<Rightarrow> (case string_items xs of
                      None \<Rightarrow> Inl (ConfigInvalid ''allocator_command must be a command string or string array'')
                    | Some argv \<Rightarrow> Inr argv)
      | _ \<Rightarrow> Inl (ConfigInvalid ''allocator_command must be a command string or string array''))"

definition command_value :: "runtime \<Rightarrow> json \<Rightarrow> (config_error, string list option) result" where
  "command_value rt v =
     (if v = JNull \<or> v = JStr [] then Inr None
      else res_bind (read_command rt v) (\<lambda>argv.
        raise_if (argv = [] \<or> hd argv = [] \<or> length argv > 64)
          (ConfigInvalid ''allocator_command must contain 1-64 arguments'')
        (raise_if (list_ex (\<lambda>item. char_of (0::nat) \<in> set item) argv)
          (ConfigInvalid ''allocator_command contains a NUL byte'')
        (raise_if (list_ex (\<lambda>item. utf8_length item > 4096) argv)
          (ConfigInvalid ''allocator_command arguments must not exceed 4096 bytes'')
        (raise_if (sum_list (map (\<lambda>item. utf8_length item + 1) argv) > 64 * 1024)
          (ConfigInvalid ''allocator_command must not exceed 64 KiB'') (Inr (Some argv)))))))"


section \<open>The configuration and its constructor\<close>

record loaded_config = config +
  data_dir :: string
  blackout_texts :: "(string \<times> string \<times> string) list"
  usage_load_window_minutes :: int
  usage_minute_retention_days :: int
  usage_five_minute_retention_days :: int
  usage_ten_minute_retention_days :: int
  usage_hourly_retention_days :: int
  usage_daily_retention_days :: int
  usage_event_retention_days :: int
  lock_timeout_seconds :: rat
  timeline_hours :: int
  job_log_dir :: "string option"
  job_log_retention_days :: int
  job_log_max_mb :: int
  job_log_total_max_mb :: int
  worker_poll_seconds :: rat
  worker_claim_timeout_seconds :: rat
  worker_recovery_grace_seconds :: rat
  worker_live_guard :: bool
  allocator_command :: "string list option"
  allocator_timeout_seconds :: rat
  allocator_weight :: rat
  config_file :: "string option"
  monitor_interval_seconds :: rat
  monitor_rollup_seconds :: int
  tui_refresh_seconds :: rat
  monitor_uid :: "int option"
  config_owner_uid :: "int option"
  worker_termination_grace_seconds :: rat
  broker_socket :: "string option"
  broker_uid :: "int option"
  broker_gid :: "int option"
  broker_socket_mode :: int
  container_attribution_groups :: "string list"

definition access_mode :: "loaded_config \<Rightarrow> string" where
  "access_mode c =
     (if broker_socket c \<noteq> None then (if broker_gid c \<noteq> None then ''group'' else ''all'')
      else if dir_mode c AND 2 \<noteq> 0 then ''all''
      else if dir_mode c AND 16 \<noteq> 0 then ''group''
      else ''private'')"

definition storage_transport :: "loaded_config \<Rightarrow> string" where
  "storage_transport c = (if broker_socket c \<noteq> None then ''broker'' else ''direct'')"

definition config_path :: "loaded_config \<Rightarrow> string" where
  "config_path c = (case config_file c of Some p \<Rightarrow> p | None \<Rightarrow> path_join (data_dir c) ''config.json'')"

text \<open>A value the loader has typed, handed to a check that takes any Python value.\<close>

definition jint_option :: "int option \<Rightarrow> json" where
  "jint_option v = (case v of None \<Rightarrow> JNull | Some n \<Rightarrow> JInt n)"

definition jpairs :: "(int \<times> int) list \<Rightarrow> json" where
  "jpairs xs = JArr (map (\<lambda>(g, p). JArr [JInt g, JInt p]) xs)"

definition jtriples :: "(string \<times> string \<times> string) list \<Rightarrow> json" where
  "jtriples xs = JArr (map (\<lambda>(s, e, r). JArr [JStr s, JStr e, JStr r]) xs)"

definition slot_minutes_value :: "json \<Rightarrow> (config_error, int) result" where
  "slot_minutes_value v = (case validate_slot_minutes v of Inl (ValueError m) \<Rightarrow> Inl (ConfigInvalid m) | Inr n \<Rightarrow> Inr n)"

definition check_broker :: "runtime \<Rightarrow> loaded_config \<Rightarrow> (config_error, loaded_config) result" where
  "check_broker rt c =
     (case broker_socket c of
        Some socket \<Rightarrow>
          (case expanduser rt socket of
             None \<Rightarrow> Inl ConfigNoHome
           | Some socket_path \<Rightarrow>
               raise_if (\<not> is_absolute socket_path) (ConfigInvalid ''broker_socket must be an absolute path'')
               (raise_if (broker_uid c = None) (ConfigInvalid ''broker_socket requires broker_uid'')
               (raise_if (file_mode c \<noteq> BROKER_FILE_MODE \<or> dir_mode c \<noteq> BROKER_DIR_MODE)
                  (ConfigInvalid ''broker storage must use file_mode 0644 and dir_mode 0755'')
               (raise_if (broker_socket_mode c \<noteq>
                    (if broker_gid c \<noteq> None then BROKER_GROUP_SOCKET_MODE else BROKER_ALL_SOCKET_MODE))
                  (ConfigInvalid ''broker_socket_mode must be 0660 with broker_gid or 0666 without it'')
               (raise_if (storage_gid c \<noteq> None) (ConfigInvalid ''broker storage must not use storage_gid'')
                 (Inr (c\<lparr>broker_socket := Some (abspath rt socket_path)\<rparr>)))))))
      | None \<Rightarrow>
          raise_if (broker_uid c \<noteq> None \<or> broker_gid c \<noteq> None)
            (ConfigInvalid ''broker_uid and broker_gid require broker_socket'') (Inr c))"

definition post_init :: "runtime \<Rightarrow> loaded_config \<Rightarrow> (config_error, loaded_config) result" where
  "post_init rt c =
     res_bind (group_names_value rt (JArr (map JStr (container_attribution_groups c)))) (\<lambda>groups.
     raise_if (booking_horizon_days c < 1 \<or> booking_horizon_days c > MAX_BOOKING_HORIZON_DAYS)
       (ConfigInvalid ''booking_horizon_days must be between 1 and 3650'')
     (raise_if (\<not> (1 \<le> max_booking_duration_hours c \<and> max_booking_duration_hours c \<le> MAX_BOOKING_DURATION_HOURS))
       (ConfigInvalid ''max_booking_duration_hours must be between 1 and 87600'')
     (res_bind (slot_minutes_value (JInt (slot_minutes c))) (\<lambda>slot.
     res_bind (validate_monitor_timing rt (JFloat (monitor_interval_seconds c)) (JInt (monitor_rollup_seconds c)))
       (\<lambda>(interval, rollup).
     res_bind (validate_tui_refresh_seconds rt (JFloat (tui_refresh_seconds c))) (\<lambda>tui.
     res_bind (validate_gpu_list_value rt (JArr (map JInt (disabled_gpus c))) (gpu_count c)) (\<lambda>disabled.
     res_bind (validate_gpu_priority_value rt (jpairs (gpu_priority c)) (gpu_count c)) (\<lambda>priority.
     res_bind (validate_booking_blackouts rt (jtriples (blackout_texts c))) (\<lambda>blackouts.
     res_bind (validate_optional_uid (jint_option (monitor_uid c))) (\<lambda>monitor.
     res_bind (validate_optional_gid (jint_option (storage_gid c))) (\<lambda>storage.
     raise_if (storage \<noteq> None \<and> dir_mode c AND S_ISGID = 0)
       (ConfigInvalid ''storage_gid requires a setgid dir_mode such as 2770'')
     (res_bind (validate_optional_uid (jint_option (config_owner_uid c))) (\<lambda>owner.
     res_bind (validate_optional_uid (jint_option (broker_uid c))) (\<lambda>uid.
     res_bind (validate_optional_gid (jint_option (broker_gid c))) (\<lambda>gid.
     res_bind (check_broker rt
         (c\<lparr>container_attribution_groups := groups, slot_minutes := slot, monitor_interval_seconds := interval,
            monitor_rollup_seconds := rollup, tui_refresh_seconds := tui, disabled_gpus := disabled,
            gpu_priority := priority, blackout_texts := blackouts,
            booking_blackouts := List.map_filter blackout_instants blackouts,
            monitor_uid := monitor, storage_gid := storage, config_owner_uid := owner,
            broker_uid := uid, broker_gid := gid\<rparr>)) (\<lambda>c.
     res_bind (validate_worker_max_parallel (JInt (worker_max_parallel c))) (\<lambda>parallel.
     res_bind (validate_worker_termination_grace_seconds rt (JFloat (worker_termination_grace_seconds c))) (\<lambda>grace.
       Inr (c\<lparr>worker_max_parallel := parallel, worker_termination_grace_seconds := grace\<rparr>)))))))))))))))))))"


section \<open>The configuration file\<close>

record stat_result =
  st_directory :: bool
  st_regular :: bool
  st_nlink :: nat
  st_uid :: int
  st_mode :: int
  st_size :: int

text \<open>
  \<open>cf_directories p\<close> are the directories from the root down to the real path of \<open>p\<close>, as they
  are opened one after the other (\<open>None\<close>: the open fails, as it does on a symbolic link);
  \<open>cf_file p\<close> is the opened file and the document in it (\<open>None\<close>: not JSON).
\<close>

record config_files =
  cf_uid :: int
  cf_home :: "string option"
  cf_lexists :: "string \<Rightarrow> bool"
  cf_directories :: "string \<Rightarrow> stat_result option list"
  cf_file :: "string \<Rightarrow> (stat_result \<times> json option) option"
  cf_detected_gpus :: int

definition validate_trusted_config_directory :: "int \<Rightarrow> stat_result \<Rightarrow> (config_error, unit) result" where
  "validate_trusted_config_directory uid metadata =
     raise_if (\<not> st_directory metadata) (ConfigOSError ''configuration path component is not a directory'')
     (raise_if (st_uid metadata \<noteq> 0 \<and> st_uid metadata \<noteq> uid)
        (ConfigDenied ''configuration directory must be owned by root or the user'')
     (raise_if (st_mode metadata AND 18 \<noteq> 0 \<and> st_mode metadata AND S_ISVTX = 0)
        (ConfigDenied ''configuration directory must not be writable by group or other users'') (Inr ())))"

fun open_trusted_config_parent :: "int \<Rightarrow> stat_result option list \<Rightarrow> (config_error, unit) result" where
  "open_trusted_config_parent uid [] = Inr ()"
| "open_trusted_config_parent uid (None # rest) = Inl (ConfigOSError ''open'')"
| "open_trusted_config_parent uid (Some metadata # rest) =
     res_bind (validate_trusted_config_directory uid metadata) (\<lambda>_. open_trusted_config_parent uid rest)"

definition validate_config_document :: "(string \<times> json) list \<Rightarrow> (config_error, unit) result" where
  "validate_config_document raw =
     (case jget_default raw ''config_version'' (JInt CONFIG_VERSION) of
        JInt version \<Rightarrow>
          raise_if (version \<noteq> CONFIG_VERSION) (ConfigInvalid ''unsupported config_version'')
          (raise_if (\<not> list_all (\<lambda>(k, _). k \<in> set CONFIG_FILE_KEYS) raw) (ConfigInvalid ''unknown config key'')
            (Inr ()))
      | _ \<Rightarrow> Inl (ConfigInvalid ''config_version must be the integer 1''))"

text \<open>\<^verbatim>\<open>open_existing_regular_at\<close> on a single component, as the loader calls it.\<close>

definition open_config_regular ::
  "string \<Rightarrow> (stat_result \<times> json option) option \<Rightarrow> (config_error, stat_result \<times> json option) result" where
  "open_config_regular name file =
     raise_if (name = [] \<or> name = ''.'' \<or> name = ''..'' \<or> CHR ''/'' \<in> set name)
       (ConfigInvalid ''name must be a single path component'')
     (case file of
        None \<Rightarrow> Inl (ConfigOSError ''open'')
      | Some (metadata, content) \<Rightarrow>
          raise_if (\<not> st_regular metadata) (ConfigOSError ''refusing non-regular file'')
          (raise_if (st_nlink metadata \<noteq> 1) (ConfigOSError ''refusing regular file with hard links'')
            (Inr (metadata, content))))"

definition config_object :: "json option \<Rightarrow> (config_error, (string \<times> json) list) result" where
  "config_object content =
     (case content of
        None \<Rightarrow> Inl (ConfigInvalid ''not a JSON document'')
      | Some (JObj raw) \<Rightarrow> res_map (\<lambda>_. raw) (validate_config_document raw)
      | Some _ \<Rightarrow> Inl (ConfigInvalid ''must contain a JSON object''))"

definition read_config_file ::
  "config_files \<Rightarrow> string \<Rightarrow> bool \<Rightarrow> (config_error, (string \<times> json) list \<times> int option) result" where
  "read_config_file fs path required =
     (if \<not> cf_lexists fs path then raise_if required ConfigMissing (Inr ([], None))
      else
        res_bind (open_trusted_config_parent (cf_uid fs) (cf_directories fs (path_parent path))) (\<lambda>_.
        res_bind (open_config_regular (path_name path) (cf_file fs path)) (\<lambda>(metadata, content).
        raise_if (st_uid metadata \<noteq> 0 \<and> st_uid metadata \<noteq> cf_uid fs)
          (ConfigDenied ''must be owned by root or the user'')
        (raise_if (st_mode metadata AND 18 \<noteq> 0)
          (ConfigDenied ''must not be writable by group or other users'')
        (raise_if (st_size metadata > MAX_CONFIG_FILE_BYTES)
          (ConfigInvalid ''exceeds the 1 MiB configuration limit'')
        (res_map (\<lambda>raw. (raw, Some (st_uid metadata))) (config_object content)))))))"


section \<open>Loading\<close>

type_synonym environment = "(string \<times> string) list"

definition MAX_USER_DIRECTORY_BYTES :: nat where "MAX_USER_DIRECTORY_BYTES = 4096"

definition environment_path :: "string \<Rightarrow> (config_error, string) result" where
  "environment_path raw =
     raise_if (raw = [] \<or> char_of (0::nat) \<in> set raw) (ConfigInvalid ''must be a non-empty filesystem path'')
     (raise_if (utf8_length raw > MAX_USER_DIRECTORY_BYTES) (ConfigInvalid ''must not exceed 4096 bytes'')
       (Inr raw))"

text \<open>A set and absolute value is taken, an empty or relative one ignored.\<close>

definition absolute_home :: "config_files \<Rightarrow> environment \<Rightarrow> (config_error, string) result" where
  "absolute_home fs env =
     (let account =
        (case cf_home fs of
           None \<Rightarrow> Inl (ConfigInvalid ''cannot determine an absolute user home directory'')
         | Some candidate \<Rightarrow>
             raise_if (\<not> is_absolute candidate) (ConfigInvalid ''account home directory must be absolute'')
               (Inr candidate))
      in case map_of env ''HOME'' of
           Some raw \<Rightarrow> (if is_absolute raw then environment_path raw else account)
         | None \<Rightarrow> account)"

definition xdg_user_directory ::
  "config_files \<Rightarrow> environment \<Rightarrow> string \<Rightarrow> string \<Rightarrow> (config_error, string) result" where
  "xdg_user_directory fs env variable home_relative_default =
     (let home = res_map (\<lambda>h. path_join h home_relative_default) (absolute_home fs env)
      in case map_of env variable of
           Some raw \<Rightarrow> (if is_absolute raw then environment_path raw else home)
         | None \<Rightarrow> home)"

definition default_data_dir :: "config_files \<Rightarrow> environment \<Rightarrow> (config_error, string) result" where
  "default_data_dir fs env =
     res_map (\<lambda>data_home. path_join data_home ''bk'')
       (xdg_user_directory fs env ''XDG_DATA_HOME'' ''.local/share'')"

definition bounded_detected_gpu_count :: "int \<Rightarrow> (config_error, int) result" where
  "bounded_detected_gpu_count n =
     raise_if (n < 1 \<or> n > MAX_GPU_COUNT) (ConfigInvalid ''detected gpu_count must be between 1 and 1024'') (Inr n)"

definition auto_gpu_count :: "config_files \<Rightarrow> int" where
  "auto_gpu_count fs = max 1 (cf_detected_gpus fs)"

definition SYSTEM_CONFIG_FILE :: string where "SYSTEM_CONFIG_FILE = ''/etc/gpubk/config.json''"
definition CONFIG_UPDATE_JOURNAL_NAME :: string where "CONFIG_UPDATE_JOURNAL_NAME = ''config-update.json''"

text \<open>\<^verbatim>\<open>raw[key] = os.environ[env_name]\<close> for every variable that is set.\<close>

definition apply_environment :: "environment \<Rightarrow> (string \<times> json) list \<Rightarrow> (string \<times> json) list" where
  "apply_environment env raw =
     fold (\<lambda>(key, env_name) raw.
             case map_of env env_name of None \<Rightarrow> raw | Some v \<Rightarrow> AList.update key (JStr v) raw)
       CONFIG_ENV_MAP raw"

text \<open>Where the configuration is read from, and whether the file is external.\<close>

definition locate_config ::
  "runtime \<Rightarrow> config_files \<Rightarrow> environment \<Rightarrow> (config_error, string \<times> string \<times> bool) result" where
  "locate_config rt fs env =
     res_bind (case map_of env ''BK_DATA_DIR'' of
                 Some v \<Rightarrow> path_value rt (JStr v) | None \<Rightarrow> default_data_dir fs env) (\<lambda>data_dir.
     let explicit_data_dir = (map_of env ''BK_DATA_DIR'' \<noteq> None);
         explicit_config_file = (map_of env ''BK_CONFIG_FILE'' \<noteq> None);
         system_config_file =
           (\<not> explicit_config_file \<and> \<not> explicit_data_dir \<and> cf_lexists fs SYSTEM_CONFIG_FILE)
     in res_bind (case map_of env ''BK_CONFIG_FILE'' of
                    Some v \<Rightarrow> res_map (canonical_config_file rt) (path_value rt (JStr v))
                  | None \<Rightarrow> Inr (if system_config_file then canonical_config_file rt SYSTEM_CONFIG_FILE
                                else path_join data_dir ''config.json'')) (\<lambda>config_file.
        let external_config = (explicit_config_file \<or> system_config_file)
        in raise_if (external_config \<and>
               cf_lexists fs (path_join (path_parent config_file) CONFIG_UPDATE_JOURNAL_NAME))
             (ConfigInvalid ''an interrupted administrator configuration update must be recovered'')
             (Inr (data_dir, config_file, external_config))))"

definition choose_data_dir ::
  "runtime \<Rightarrow> environment \<Rightarrow> string \<Rightarrow> bool \<Rightarrow> (string \<times> json) list \<Rightarrow> (config_error, string) result" where
  "choose_data_dir rt env located_dir external_config raw =
     (let explicit_data_dir = (map_of env ''BK_DATA_DIR'' \<noteq> None)
      in case map_of raw ''data_dir'' of
        Some v \<Rightarrow>
          raise_if (\<not> external_config) (ConfigInvalid ''data_dir is only allowed in BK_CONFIG_FILE'')
            (if explicit_data_dir then Inr located_dir else absolute_path_value rt v)
      | None \<Rightarrow>
          raise_if (external_config \<and> \<not> explicit_data_dir)
            (ConfigInvalid ''external or system configuration must define data_dir'') (Inr located_dir))"

definition choose_job_log_dir ::
  "runtime \<Rightarrow> config_files \<Rightarrow> environment \<Rightarrow> (string \<times> json) list \<Rightarrow> (config_error, string) result" where
  "choose_job_log_dir rt fs env raw =
     (let job_log_raw = (case map_of env ''BK_JOB_LOG_DIR'' of Some v \<Rightarrow> JStr v | None \<Rightarrow> jget raw ''job_log_dir'')
      in if job_log_raw \<noteq> JNull \<and> job_log_raw \<noteq> JStr [] then absolute_user_path_value rt job_log_raw
         else res_map (\<lambda>state_home. path_join (path_join state_home ''bk'') ''jobs'')
                (xdg_user_directory fs env ''XDG_STATE_HOME'' ''.local/state''))"

definition choose_broker_socket ::
  "runtime \<Rightarrow> bool \<Rightarrow> (string \<times> json) list \<Rightarrow> (config_error, string option) result" where
  "choose_broker_socket rt external_config raw =
     (if jget raw ''broker_socket'' = JNull then Inr None
      else raise_if (\<not> external_config) (ConfigInvalid ''broker_socket is only allowed in a trusted external file'')
             (res_map Some (absolute_path_value rt (jget raw ''broker_socket''))))"

definition choose_gpu_count :: "config_files \<Rightarrow> (string \<times> json) list \<Rightarrow> (config_error, int) result" where
  "choose_gpu_count fs raw =
     (if map_of raw ''gpu_count'' \<noteq> None then int_value raw ''gpu_count'' 1 MAX_GPU_COUNT
      else bounded_detected_gpu_count (auto_gpu_count fs))"

text \<open>\<^verbatim>\<open>{**raw, key: os.environ.get(env_name, raw.get(key, default))}\<close>\<close>

definition with_environment ::
  "environment \<Rightarrow> string \<Rightarrow> string \<Rightarrow> rat \<Rightarrow> (string \<times> json) list \<Rightarrow> (string \<times> json) list" where
  "with_environment env env_name key default_value raw =
     AList.update key (case map_of env env_name of
                         Some v \<Rightarrow> JStr v | None \<Rightarrow> jget_default raw key (JFloat default_value)) raw"

text \<open>The arguments of \<^verbatim>\<open>Config(...)\<close>, in three groups of the order they are evaluated in.\<close>

definition scheduling_values :: "runtime \<Rightarrow> int \<Rightarrow> (string \<times> json) list \<Rightarrow> (config_error, loaded_config \<Rightarrow> loaded_config) result" where
  "scheduling_values rt n raw =
     res_bind (slot_minutes_value (jget_default raw ''slot_minutes'' (JInt DEFAULT_SLOT_MINUTES))) (\<lambda>slot.
     res_bind (int_value raw ''max_shared_users'' 2 MAX_SHARED_UNITS) (\<lambda>users.
     res_bind (int_value raw ''queue_search_hours'' 168 MAX_QUEUE_SEARCH_HOURS) (\<lambda>queue.
     res_bind (int_value raw ''booking_horizon_days'' 30 MAX_BOOKING_HORIZON_DAYS) (\<lambda>horizon.
     res_bind (int_value raw ''max_booking_duration_hours'' (30 * 24) MAX_BOOKING_DURATION_HOURS) (\<lambda>duration.
     res_bind (validate_booking_blackouts rt (jget raw ''booking_blackouts'')) (\<lambda>blackouts.
     res_bind (nonnegative_int_value raw ''ledger_retention_days'' 90 MAX_RETENTION_DAYS) (\<lambda>retention.
     res_bind (int_value raw ''usage_load_window_minutes'' 120 MAX_USAGE_LOAD_WINDOW_MINUTES) (\<lambda>window.
     res_bind (nonnegative_int_value raw ''usage_minute_retention_days'' 30 MAX_RETENTION_DAYS) (\<lambda>minute.
     res_bind (nonnegative_int_value raw ''usage_five_minute_retention_days'' 365 MAX_RETENTION_DAYS) (\<lambda>five.
     res_bind (nonnegative_int_value raw ''usage_ten_minute_retention_days'' 1095 MAX_RETENTION_DAYS) (\<lambda>ten.
     res_bind (nonnegative_int_value raw ''usage_hourly_retention_days'' 1500 MAX_RETENTION_DAYS) (\<lambda>hourly.
     res_bind (nonnegative_int_value raw ''usage_daily_retention_days'' 0 MAX_RETENTION_DAYS) (\<lambda>daily.
     res_bind (nonnegative_int_value raw ''usage_event_retention_days'' 365 MAX_RETENTION_DAYS) (\<lambda>event.
     res_bind (float_value rt raw ''lock_timeout_seconds'' 10 MAX_LOCK_TIMEOUT_SECONDS) (\<lambda>lock.
     res_bind (int_value raw ''backup_keep'' 10 MAX_BACKUP_KEEP) (\<lambda>keep.
     res_bind (int_value raw ''timeline_hours'' 2 MAX_TIMELINE_HOURS) (\<lambda>timeline.
     res_bind (bool_value raw ''require_shared_memory'' False) (\<lambda>memory.
     res_bind (nonnegative_int_value raw ''shared_memory_reserve_mb'' 512 MAX_MEMORY_MB) (\<lambda>reserve.
       Inr (\<lambda>c. c\<lparr>gpu_count := n, slot_minutes := slot, max_shared_users := users, queue_search_hours := queue,
         booking_horizon_days := horizon, max_booking_duration_hours := duration, blackout_texts := blackouts,
         ledger_retention_days := retention, usage_load_window_minutes := window,
         usage_minute_retention_days := minute, usage_five_minute_retention_days := five,
         usage_ten_minute_retention_days := ten, usage_hourly_retention_days := hourly,
         usage_daily_retention_days := daily, usage_event_retention_days := event,
         lock_timeout_seconds := lock, backup_keep := keep, timeline_hours := timeline,
         require_shared_memory := memory, shared_memory_reserve_mb := reserve\<rparr>))))))))))))))))))))"

definition worker_values :: "runtime \<Rightarrow> (string \<times> json) list \<Rightarrow> (config_error, loaded_config \<Rightarrow> loaded_config) result" where
  "worker_values rt raw =
     res_bind (nonnegative_int_value raw ''job_log_retention_days'' 30 MAX_RETENTION_DAYS) (\<lambda>log_days.
     res_bind (nonnegative_int_value raw ''job_log_max_mb'' 64 MAX_MEMORY_MB) (\<lambda>log_mb.
     res_bind (nonnegative_int_value raw ''job_log_total_max_mb'' 4096 MAX_MEMORY_MB) (\<lambda>log_total.
     res_bind (float_value rt raw ''worker_poll_seconds'' 1 MAX_WORKER_POLL_SECONDS) (\<lambda>poll.
     res_bind (int_value raw ''worker_max_parallel'' DEFAULT_WORKER_MAX_PARALLEL MAX_WORKER_MAX_PARALLEL) (\<lambda>parallel.
     res_bind (float_value rt raw ''worker_termination_grace_seconds'' DEFAULT_WORKER_TERMINATION_GRACE_SECONDS
       MAX_WORKER_TERMINATION_GRACE_SECONDS) (\<lambda>grace.
     res_bind (float_value rt raw ''worker_claim_timeout_seconds'' 30 MAX_WORKER_CLAIM_TIMEOUT_SECONDS) (\<lambda>claim.
     res_bind (float_value rt raw ''worker_recovery_grace_seconds'' 5 MAX_WORKER_RECOVERY_GRACE_SECONDS) (\<lambda>recovery.
     res_bind (bool_value raw ''worker_live_guard'' True) (\<lambda>guard.
     res_bind (float_value rt raw ''monitor_interval_seconds'' 2 MAX_MONITOR_INTERVAL_SECONDS) (\<lambda>interval.
     res_bind (int_value raw ''monitor_rollup_seconds'' 60 MAX_MONITOR_ROLLUP_SECONDS) (\<lambda>rollup.
     res_bind (float_value rt raw ''tui_refresh_seconds'' 1 MAX_TUI_REFRESH_SECONDS) (\<lambda>tui.
       Inr (\<lambda>c. c\<lparr>job_log_retention_days := log_days, job_log_max_mb := log_mb, job_log_total_max_mb := log_total,
         worker_poll_seconds := poll, worker_max_parallel := parallel, worker_termination_grace_seconds := grace,
         worker_claim_timeout_seconds := claim, worker_recovery_grace_seconds := recovery,
         worker_live_guard := guard, monitor_interval_seconds := interval, monitor_rollup_seconds := rollup,
         tui_refresh_seconds := tui\<rparr>)))))))))))))"

definition access_values ::
  "runtime \<Rightarrow> environment \<Rightarrow> int \<Rightarrow> (string \<times> json) list \<Rightarrow> (config_error, loaded_config \<Rightarrow> loaded_config) result" where
  "access_values rt env n raw =
     res_bind (validate_optional_uid (jget raw ''monitor_uid'')) (\<lambda>monitor.
     res_bind (validate_optional_gid (jget raw ''storage_gid'')) (\<lambda>storage.
     res_bind (mode_value raw ''file_mode'' DEFAULT_PRIVATE_FILE_MODE False) (\<lambda>files.
     res_bind (mode_value raw ''dir_mode'' DEFAULT_PRIVATE_DIR_MODE True) (\<lambda>dirs.
     res_bind (float_value rt (with_environment env ''BK_ALLOCATOR_TIMEOUT_SECONDS'' ''allocator_timeout_seconds'' 3 raw)
       ''allocator_timeout_seconds'' 3 MAX_ALLOCATOR_TIMEOUT_SECONDS) (\<lambda>timeout.
     res_bind (float_value rt (with_environment env ''BK_ALLOCATOR_WEIGHT'' ''allocator_weight'' 5 raw)
       ''allocator_weight'' 5 MAX_ALLOCATOR_WEIGHT) (\<lambda>weight.
     res_bind (validate_optional_uid (jget raw ''broker_uid'')) (\<lambda>uid.
     res_bind (validate_optional_gid (jget raw ''broker_gid'')) (\<lambda>gid.
     res_bind (mode_value raw ''broker_socket_mode'' 384 False) (\<lambda>socket_mode.
     res_bind (validate_gpu_list_value rt (jget raw ''disabled_gpus'') n) (\<lambda>disabled.
     res_bind (validate_gpu_priority_value rt (jget raw ''gpu_priority'') n) (\<lambda>priority.
     res_bind (group_names_value rt (jget raw ''container_attribution_groups'')) (\<lambda>groups.
       Inr (\<lambda>c. c\<lparr>monitor_uid := monitor, storage_gid := storage, file_mode := files, dir_mode := dirs,
         allocator_timeout_seconds := timeout, allocator_weight := weight, broker_uid := uid, broker_gid := gid,
         broker_socket_mode := socket_mode, disabled_gpus := disabled, gpu_priority := priority,
         container_attribution_groups := groups\<rparr>)))))))))))))"

text \<open>The constructor's defaults; every field but the data directory is overwritten by the loader.\<close>

definition default_config :: loaded_config where
  "default_config =
     \<lparr>gpu_count = 1, max_shared_users = 2, queue_search_hours = 168, booking_horizon_days = 30,
      max_booking_duration_hours = 30 * 24, booking_blackouts = [], ledger_retention_days = 90,
      require_shared_memory = False, shared_memory_reserve_mb = 512, file_mode = DEFAULT_PRIVATE_FILE_MODE,
      dir_mode = DEFAULT_PRIVATE_DIR_MODE, slot_minutes = DEFAULT_SLOT_MINUTES, storage_gid = None,
      disabled_gpus = [], gpu_priority = [], worker_max_parallel = DEFAULT_WORKER_MAX_PARALLEL, backup_keep = 10,
      data_dir = [], blackout_texts = [], usage_load_window_minutes = 120, usage_minute_retention_days = 30,
      usage_five_minute_retention_days = 365, usage_ten_minute_retention_days = 1095,
      usage_hourly_retention_days = 1500, usage_daily_retention_days = 0, usage_event_retention_days = 365,
      lock_timeout_seconds = 10, timeline_hours = 2, job_log_dir = None, job_log_retention_days = 30,
      job_log_max_mb = 64, job_log_total_max_mb = 4096, worker_poll_seconds = 1,
      worker_claim_timeout_seconds = 30, worker_recovery_grace_seconds = 5, worker_live_guard = True,
      allocator_command = None, allocator_timeout_seconds = 3, allocator_weight = 5, config_file = None,
      monitor_interval_seconds = 2, monitor_rollup_seconds = 60, tui_refresh_seconds = 1, monitor_uid = None,
      config_owner_uid = None, worker_termination_grace_seconds = DEFAULT_WORKER_TERMINATION_GRACE_SECONDS,
      broker_socket = None, broker_uid = None, broker_gid = None, broker_socket_mode = 384,
      container_attribution_groups = []\<rparr>"

definition load_config :: "runtime \<Rightarrow> config_files \<Rightarrow> environment \<Rightarrow> (config_error, loaded_config) result" where
  "load_config rt fs env =
     res_bind (locate_config rt fs env) (\<lambda>(located_dir, file, external_config).
     res_bind (read_config_file fs file external_config) (\<lambda>(document, owner).
     res_bind (choose_data_dir rt env located_dir external_config document) (\<lambda>directory.
     let raw = apply_environment env document
     in res_bind (choose_job_log_dir rt fs env raw) (\<lambda>log_dir.
        res_bind (command_value rt (case map_of env ''BK_ALLOCATOR_COMMAND'' of
                    Some v \<Rightarrow> JStr v | None \<Rightarrow> jget raw ''allocator_command'')) (\<lambda>command.
        res_bind (choose_broker_socket rt external_config raw) (\<lambda>socket.
        res_bind (choose_gpu_count fs raw) (\<lambda>n.
        res_bind (scheduling_values rt n raw) (\<lambda>scheduling.
        res_bind (worker_values rt raw) (\<lambda>worker.
        res_bind (access_values rt env n raw) (\<lambda>access.
          post_init rt
            (access (worker (scheduling (default_config\<lparr>data_dir := directory,
               config_file := (if external_config then Some file else None), job_log_dir := Some log_dir,
               allocator_command := command, config_owner_uid := owner, broker_socket := socket\<rparr>))))))))))))))"

end
