(* ===== verification/Config_Claims.thy ===== *)
theory Config_Claims
  imports Config_Load
begin

text \<open>
  What a loaded configuration promises: every field is in the range the rest of the program
  assumes, the broker settings are consistent, and a file that decides them was trusted.
\<close>

section \<open>Single values\<close>

lemma int_value_ok: "int_value raw key d m = Inr v \<Longrightarrow> 1 \<le> v \<and> v \<le> m"
  by (auto simp: int_value_def result_simps)

lemma nonnegative_int_value_ok: "nonnegative_int_value raw key d m = Inr v \<Longrightarrow> 0 \<le> v \<and> v \<le> m"
  by (auto simp: nonnegative_int_value_def result_simps)

lemma float_value_ok: "float_value rt raw key d m = Inr v \<Longrightarrow> 0 < v \<and> v \<le> m"
  by (auto simp: float_value_def result_simps)

lemma mode_value_ok:
  "mode_value raw key d False = Inr v \<Longrightarrow> 0 \<le> v \<and> v AND NOT 511 = 0 \<and> v AND 73 = 0"
  "mode_value raw key d True = Inr v \<Longrightarrow> 0 \<le> v \<and> v AND NOT 4095 = 0"
  by (auto simp: mode_value_def result_simps Let_def)



lemma jint_option_value:
  "validate_optional_uid (jint_option v) = Inr r \<Longrightarrow> r = v"
  "validate_optional_gid (jint_option v) = Inr r \<Longrightarrow> r = v"
  by (cases v; auto simp: validate_optional_uid_def validate_optional_gid_def jint_option_def result_simps)+








section \<open>Blackout windows\<close>







section \<open>The constructor\<close>

definition broker_ok :: "loaded_config \<Rightarrow> bool" where
  "broker_ok c \<longleftrightarrow>
     (case broker_socket c of
        Some _ \<Rightarrow>
          broker_uid c \<noteq> None \<and> file_mode c = BROKER_FILE_MODE \<and> dir_mode c = BROKER_DIR_MODE
          \<and> storage_gid c = None
          \<and> broker_socket_mode c = (if broker_gid c = None then BROKER_ALL_SOCKET_MODE else BROKER_GROUP_SOCKET_MODE)
      | None \<Rightarrow> broker_uid c = None \<and> broker_gid c = None)"


lemma check_broker_ok:
  assumes "check_broker rt c = Inr c'"
  shows "broker_ok c' \<and> (\<exists>socket. c' = c\<lparr>broker_socket := socket\<rparr> \<and> (socket = None \<longleftrightarrow> broker_socket c = None))"
  using assms
  by (cases "broker_socket c") (auto simp: check_broker_def broker_ok_def result_simps split: option.splits if_splits)

lemma broker_ok_worker [simp]:
  "broker_ok (c\<lparr>worker_max_parallel := p, worker_termination_grace_seconds := g\<rparr>) = broker_ok c"
  by (auto simp: broker_ok_def split: option.splits)








text \<open>The fields the constructor takes as they are.\<close>

definition untouched :: "loaded_config \<Rightarrow> loaded_config \<Rightarrow> bool" where
  "untouched c c' \<longleftrightarrow>
     gpu_count c' = gpu_count c \<and> max_shared_users c' = max_shared_users c
     \<and> queue_search_hours c' = queue_search_hours c \<and> ledger_retention_days c' = ledger_retention_days c
     \<and> shared_memory_reserve_mb c' = shared_memory_reserve_mb c \<and> backup_keep c' = backup_keep c
     \<and> file_mode c' = file_mode c \<and> dir_mode c' = dir_mode c \<and> storage_gid c' = storage_gid c
     \<and> broker_uid c' = broker_uid c \<and> broker_gid c' = broker_gid c \<and> config_owner_uid c' = config_owner_uid c
     \<and> data_dir c' = data_dir c \<and> config_file c' = config_file c
     \<and> usage_load_window_minutes c' = usage_load_window_minutes c
     \<and> usage_minute_retention_days c' = usage_minute_retention_days c
     \<and> usage_five_minute_retention_days c' = usage_five_minute_retention_days c
     \<and> usage_ten_minute_retention_days c' = usage_ten_minute_retention_days c
     \<and> usage_hourly_retention_days c' = usage_hourly_retention_days c
     \<and> usage_daily_retention_days c' = usage_daily_retention_days c
     \<and> usage_event_retention_days c' = usage_event_retention_days c
     \<and> lock_timeout_seconds c' = lock_timeout_seconds c \<and> timeline_hours c' = timeline_hours c
     \<and> job_log_dir c' = job_log_dir c
     \<and> job_log_retention_days c' = job_log_retention_days c \<and> job_log_max_mb c' = job_log_max_mb c
     \<and> job_log_total_max_mb c' = job_log_total_max_mb c \<and> worker_poll_seconds c' = worker_poll_seconds c
     \<and> worker_claim_timeout_seconds c' = worker_claim_timeout_seconds c
     \<and> worker_recovery_grace_seconds c' = worker_recovery_grace_seconds c
     \<and> allocator_timeout_seconds c' = allocator_timeout_seconds c \<and> allocator_weight c' = allocator_weight c
     \<and> broker_socket_mode c' = broker_socket_mode c
     \<and> (broker_socket c' = None \<longleftrightarrow> broker_socket c = None)"

lemma untouched_trans: "untouched a b \<Longrightarrow> untouched b c \<Longrightarrow> untouched a c"
  by (simp add: untouched_def)

lemma check_broker_untouched: "check_broker rt c = Inr c' \<Longrightarrow> untouched c c'"
  by (drule check_broker_ok) (auto simp: untouched_def)

lemma post_init_untouched:
  assumes "post_init rt c = Inr c'"
  shows "untouched c c'"
  using assms unfolding post_init_def
proof (elim res_bind_pairE res_bindE raise_ifE, goal_cases)
  case (1 groups slot interval rollup tui disabled priority blackouts monitor storage owner uid gid c1 parallel grace)
  note same = jint_option_value(2) [OF 1(11)] jint_option_value(1) [OF 1(13)] jint_option_value(1) [OF 1(14)]
    jint_option_value(2) [OF 1(15)]
  have "c' = c1\<lparr>worker_max_parallel := parallel, worker_termination_grace_seconds := grace\<rparr>"
    using 1(19) by simp
  then have "untouched c1 c'" by (simp add: untouched_def)
  with check_broker_untouched [OF 1(16)] show ?case
    by (rule untouched_trans [OF untouched_trans, rotated]) (simp add: untouched_def same)
qed


section \<open>The loader\<close>

text \<open>The environment of a document: a variable of the map that is set replaces its key.\<close>

lemma fold_environment:
  assumes "distinct (map fst m)"
  shows "map_of (fold (\<lambda>(key, env_name) raw.
             case map_of env env_name of None \<Rightarrow> raw | Some v \<Rightarrow> AList.update key (JStr v) raw) m raw) k
     = (case map_of m k of
          None \<Rightarrow> map_of raw k
        | Some env_name \<Rightarrow> (case map_of env env_name of None \<Rightarrow> map_of raw k | Some v \<Rightarrow> Some (JStr v)))"
  using assms
proof (induction m arbitrary: raw)
  case (Cons x m)
  obtain key env_name where x: "x = (key, env_name)" by fastforce
  with Cons.prems have "map_of m key = None" "distinct (map fst m)" by (auto simp: map_of_eq_None_iff)
  with x Cons.IH show ?case by (auto simp: update_conv' split: option.split)
qed simp

lemma apply_environment_lookup:
  "map_of (apply_environment env raw) k =
     (case map_of CONFIG_ENV_MAP k of
        None \<Rightarrow> map_of raw k
      | Some env_name \<Rightarrow> (case map_of env env_name of None \<Rightarrow> map_of raw k | Some v \<Rightarrow> Some (JStr v)))"
  unfolding apply_environment_def by (rule fold_environment) (simp add: CONFIG_ENV_MAP_def)

definition ranges_ok :: "loaded_config \<Rightarrow> bool" where
  "ranges_ok c \<longleftrightarrow>
     1 \<le> max_shared_users c \<and> max_shared_users c \<le> MAX_SHARED_UNITS
     \<and> 1 \<le> queue_search_hours c \<and> queue_search_hours c \<le> MAX_QUEUE_SEARCH_HOURS
     \<and> 0 \<le> ledger_retention_days c \<and> ledger_retention_days c \<le> MAX_RETENTION_DAYS
     \<and> 0 \<le> shared_memory_reserve_mb c \<and> shared_memory_reserve_mb c \<le> MAX_MEMORY_MB
     \<and> 1 \<le> backup_keep c \<and> backup_keep c \<le> MAX_BACKUP_KEEP
     \<and> 1 \<le> usage_load_window_minutes c \<and> usage_load_window_minutes c \<le> MAX_USAGE_LOAD_WINDOW_MINUTES
     \<and> list_all (\<lambda>days. 0 \<le> days \<and> days \<le> MAX_RETENTION_DAYS)
         [usage_minute_retention_days c, usage_five_minute_retention_days c, usage_ten_minute_retention_days c,
          usage_hourly_retention_days c, usage_daily_retention_days c, usage_event_retention_days c]
     \<and> 0 < lock_timeout_seconds c \<and> lock_timeout_seconds c \<le> MAX_LOCK_TIMEOUT_SECONDS
     \<and> 1 \<le> timeline_hours c \<and> timeline_hours c \<le> MAX_TIMELINE_HOURS"

definition worker_ranges_ok :: "loaded_config \<Rightarrow> bool" where
  "worker_ranges_ok c \<longleftrightarrow>
     0 \<le> job_log_retention_days c \<and> job_log_retention_days c \<le> MAX_RETENTION_DAYS
     \<and> 0 \<le> job_log_max_mb c \<and> job_log_max_mb c \<le> MAX_MEMORY_MB
     \<and> 0 \<le> job_log_total_max_mb c \<and> job_log_total_max_mb c \<le> MAX_MEMORY_MB
     \<and> 0 < worker_poll_seconds c \<and> worker_poll_seconds c \<le> MAX_WORKER_POLL_SECONDS
     \<and> 0 < worker_claim_timeout_seconds c \<and> worker_claim_timeout_seconds c \<le> MAX_WORKER_CLAIM_TIMEOUT_SECONDS
     \<and> 0 < worker_recovery_grace_seconds c \<and> worker_recovery_grace_seconds c \<le> MAX_WORKER_RECOVERY_GRACE_SECONDS"

definition access_ranges_ok :: "loaded_config \<Rightarrow> bool" where
  "access_ranges_ok c \<longleftrightarrow>
     0 < allocator_timeout_seconds c \<and> allocator_timeout_seconds c \<le> MAX_ALLOCATOR_TIMEOUT_SECONDS
     \<and> 0 < allocator_weight c \<and> allocator_weight c \<le> MAX_ALLOCATOR_WEIGHT
     \<and> 0 \<le> broker_socket_mode c \<and> broker_socket_mode c AND NOT 511 = 0 \<and> broker_socket_mode c AND 73 = 0"

lemma scheduling_values_ok:
  assumes "scheduling_values rt n raw = Inr f"
  shows "ranges_ok (f c)" "gpu_count (f c) = n" "broker_socket (f c) = broker_socket c"
    "config_owner_uid (f c) = config_owner_uid c" "config_file (f c) = config_file c" "data_dir (f c) = data_dir c"
  using assms unfolding scheduling_values_def
  by (elim res_bindE; auto simp: ranges_ok_def dest!: int_value_ok nonnegative_int_value_ok float_value_ok)+

lemma worker_values_frame:
  assumes "worker_values rt raw = Inr f"
  shows "ranges_ok (f c) = ranges_ok c" "gpu_count (f c) = gpu_count c" "broker_socket (f c) = broker_socket c"
    "config_owner_uid (f c) = config_owner_uid c" "config_file (f c) = config_file c" "data_dir (f c) = data_dir c"
  using assms unfolding worker_values_def
  by (elim res_bindE; simp only: sum.inject; hypsubst; simp add: ranges_ok_def)+

lemma worker_values_ok:
  assumes "worker_values rt raw = Inr f"
  shows "worker_ranges_ok (f c)"
  using assms unfolding worker_values_def
proof (elim res_bindE, goal_cases)
  case (1 log_days log_mb log_total poll parallel grace claim recovery guard interval rollup tui)
  note bounds = 1(1,2,3) [THEN nonnegative_int_value_ok] 1(4,7,8) [THEN float_value_ok]
  from 1(13) [symmetric] bounds show ?case by (simp add: worker_ranges_ok_def)
qed

lemma access_values_ok:
  assumes "access_values rt env n raw = Inr f"
  shows "worker_ranges_ok (f c) = worker_ranges_ok c" "ranges_ok (f c) = ranges_ok c" "gpu_count (f c) = gpu_count c"
    "broker_socket (f c) = broker_socket c"
    "config_owner_uid (f c) = config_owner_uid c" "config_file (f c) = config_file c" "data_dir (f c) = data_dir c"
    "validate_optional_uid (jget raw ''broker_uid'') = Inr (broker_uid (f c))"
    "validate_optional_gid (jget raw ''broker_gid'') = Inr (broker_gid (f c))"
    "validate_optional_gid (jget raw ''storage_gid'') = Inr (storage_gid (f c))"
  using assms unfolding access_values_def
  by (elim res_bindE; simp only: sum.inject; hypsubst; simp add: ranges_ok_def worker_ranges_ok_def)+

lemma access_values_modes:
  assumes "access_values rt env n raw = Inr f"
  shows "access_ranges_ok (f c) \<and> 0 \<le> file_mode (f c) \<and> file_mode (f c) AND NOT 511 = 0 \<and> file_mode (f c) AND 73 = 0
    \<and> 0 \<le> dir_mode (f c) \<and> dir_mode (f c) AND NOT 4095 = 0"
  using assms unfolding access_values_def
proof (elim res_bindE, goal_cases)
  case (1 monitor storage files dirs timeout weight uid gid socket_mode disabled priority groups)
  note bounds = 1(3,9) [THEN mode_value_ok(1)] 1(4) [THEN mode_value_ok(2)] 1(5,6) [THEN float_value_ok]
  from 1(13) [symmetric] bounds show ?case by (simp add: access_ranges_ok_def)
qed



text \<open>The stages of a load that succeeds.\<close>

lemma load_config_stages:
  assumes "load_config rt fs env = Inr c"
  obtains dir path external document owner n raw given where
    "locate_config rt fs env = Inr (dir, path, external)"
    "read_config_file fs path external = Inr (document, owner)"
    "raw = apply_environment env document"
    "choose_broker_socket rt external raw = Inr (broker_socket given)"
    "choose_gpu_count fs raw = Inr n"
    "ranges_ok given" "worker_ranges_ok given" "access_ranges_ok given" "gpu_count given = n" "config_owner_uid given = owner"
    "0 \<le> file_mode given \<and> file_mode given AND NOT 511 = 0 \<and> file_mode given AND 73 = 0"
    "0 \<le> dir_mode given \<and> dir_mode given AND NOT 4095 = 0"
    "validate_optional_uid (jget raw ''broker_uid'') = Inr (broker_uid given)"
    "validate_optional_gid (jget raw ''broker_gid'') = Inr (broker_gid given)"
    "validate_optional_gid (jget raw ''storage_gid'') = Inr (storage_gid given)"
    "post_init rt given = Inr c"
proof -
  from assms obtain dir path external document owner directory log_dir command socket n scheduling worker access where
    stages: "locate_config rt fs env = Inr (dir, path, external)"
      "read_config_file fs path external = Inr (document, owner)"
      "choose_broker_socket rt external (apply_environment env document) = Inr socket"
      "choose_gpu_count fs (apply_environment env document) = Inr n"
      "scheduling_values rt n (apply_environment env document) = Inr scheduling"
      "worker_values rt (apply_environment env document) = Inr worker"
      "access_values rt env n (apply_environment env document) = Inr access"
    and init: "post_init rt (access (worker (scheduling (default_config\<lparr>data_dir := directory,
        config_file := (if external then Some path else None), job_log_dir := Some log_dir,
        allocator_command := command, config_owner_uid := owner, broker_socket := socket\<rparr>)))) = Inr c"
    unfolding load_config_def Let_def
    by (elim res_bindE res_bind_pairE) (auto elim!: res_bindE simp: Let_def split: prod.splits)
  from scheduling_values_ok [OF stages(5)] worker_values_frame [OF stages(6)] worker_values_ok [OF stages(6)]
    access_values_ok [OF stages(7)] access_values_modes [OF stages(7)] stages init
  show thesis by (intro that [OF stages(1,2) refl, where given = "access (worker (scheduling (default_config\<lparr>data_dir := directory,
        config_file := (if external then Some path else None), job_log_dir := Some log_dir,
        allocator_command := command, config_owner_uid := owner, broker_socket := socket\<rparr>)))" and n = n]) simp_all
qed


text \<open>A broker installation whose file lives in \<^verbatim>\<open>/etc\<close>, read by user 1000.\<close>

definition sample_runtime :: runtime where
  "sample_runtime =
     \<lparr>float_of_text = (\<lambda>s. map_option (\<lambda>n. Finite (of_int n)) (py_int s)), float_of_int = (\<lambda>n. Some (of_int n)),
      float_div = (\<lambda>n q. of_int n / q), json_loads = (\<lambda>_. None), shlex_split = (\<lambda>s. Some (py_split s)),
      expanduser = Some, abspath = (\<lambda>p. p), realpath = (\<lambda>p. p)\<rparr>"

definition root_entry :: "bool \<Rightarrow> int \<Rightarrow> stat_result" where
  "root_entry directory mode =
     \<lparr>st_directory = directory, st_regular = \<not> directory, st_nlink = 1, st_uid = 0, st_mode = mode, st_size = 200\<rparr>"

definition sample_document :: "(string \<times> json) list" where
  "sample_document =
     [(''data_dir'', JStr ''/srv''), (''gpu_count'', JInt 8), (''disabled_gpus'', JArr [JInt 7]),
      (''file_mode'', JInt 420), (''dir_mode'', JInt 493), (''broker_socket'', JStr ''/s''),
      (''broker_uid'', JInt 990), (''broker_socket_mode'', JInt 438)]"

definition sample_config_files :: config_files where
  "sample_config_files =
     \<lparr>cf_uid = 1000, cf_home = Some ''/home/ada'',
      cf_lexists = (\<lambda>p. p = ''/etc/gpubk/config.json''),
      cf_directories = (\<lambda>_. [Some (root_entry True 493), Some (root_entry True 493)]),
      cf_file = (\<lambda>_. Some (root_entry False 420, Some (JObj sample_document))),
      cf_detected_gpus = 4\<rparr>"

definition sample_environment :: environment where
  "sample_environment = [(''BK_SLOT_MINUTES'', ''15'')]"

lemma sample_loads:
  obtains c where "load_config sample_runtime sample_config_files sample_environment = Inr c"
    "slot_minutes c = 15" "enabled_gpus (config.truncate c) = [0, 1, 2, 3, 4, 5, 6]" "broker_uid c = Some 990"
proof -
  have "case load_config sample_runtime sample_config_files sample_environment of
      Inl _ \<Rightarrow> False
    | Inr c \<Rightarrow> slot_minutes c = 15 \<and> enabled_gpus (config.truncate c) = [0, 1, 2, 3, 4, 5, 6] \<and> broker_uid c = Some 990"
    by code_simp
  then show thesis
    by (cases "load_config sample_runtime sample_config_files sample_environment") (auto intro: that)
qed





section \<open>Trusted files\<close>

definition trusted_directory :: "int \<Rightarrow> stat_result option \<Rightarrow> bool" where
  "trusted_directory uid entry =
     (case entry of
        None \<Rightarrow> False
      | Some m \<Rightarrow> st_directory m \<and> (st_uid m = 0 \<or> st_uid m = uid)
                  \<and> (st_mode m AND 18 = 0 \<or> st_mode m AND S_ISVTX \<noteq> 0))"

definition trusted_file :: "int \<Rightarrow> stat_result \<Rightarrow> bool" where
  "trusted_file uid m \<longleftrightarrow>
     st_regular m \<and> st_nlink m = 1 \<and> (st_uid m = 0 \<or> st_uid m = uid) \<and> st_mode m AND 18 = 0
     \<and> st_size m \<le> MAX_CONFIG_FILE_BYTES"

lemma open_trusted_parent_ok:
  "open_trusted_config_parent uid ds = Inr u \<Longrightarrow> list_all (trusted_directory uid) ds"
proof (induction uid ds rule: open_trusted_config_parent.induct)
  case (3 uid m rest)
  then have "validate_trusted_config_directory uid m = Inr ()" "open_trusted_config_parent uid rest = Inr u"
    by (auto simp: result_simps)
  with "3.IH" show ?case
    by (auto simp: validate_trusted_config_directory_def trusted_directory_def)
qed simp_all

lemma validate_config_document_ok:
  "validate_config_document raw = Inr u \<Longrightarrow> fst ` set raw \<subseteq> set CONFIG_FILE_KEYS"
  by (cases "jget_default raw ''config_version'' (JInt CONFIG_VERSION)")
    (auto simp: validate_config_document_def list_all_iff simp del: set_map)

lemma config_object_ok:
  assumes "config_object content = Inr raw"
  shows "content = Some (JObj raw) \<and> fst ` set raw \<subseteq> set CONFIG_FILE_KEYS"
proof (cases content)
  case (Some v)
  with assms show ?thesis
    by (cases v) (auto simp: config_object_def result_simps res_map_def dest!: validate_config_document_ok)
qed (use assms in \<open>simp add: config_object_def\<close>)

lemma read_config_file_ok:
  assumes "read_config_file fs path required = Inr (document, owner)"
  shows "if cf_lexists fs path
    then list_all (trusted_directory (cf_uid fs)) (cf_directories fs (path_parent path))
         \<and> (\<exists>m. cf_file fs path = Some (m, Some (JObj document)) \<and> trusted_file (cf_uid fs) m \<and> owner = Some (st_uid m))
         \<and> fst ` set document \<subseteq> set CONFIG_FILE_KEYS
    else \<not> required \<and> document = [] \<and> owner = None"
proof (cases "cf_lexists fs path")
  case True
  with assms obtain m content where
    parent: "open_trusted_config_parent (cf_uid fs) (cf_directories fs (path_parent path)) = Inr ()"
    and m: "open_config_regular (path_name path) (cf_file fs path) = Inr (m, content)"
    and trusted: "st_uid m = 0 \<or> st_uid m = cf_uid fs" "st_mode m AND 18 = 0" "st_size m \<le> MAX_CONFIG_FILE_BYTES"
    and doc: "config_object content = Inr document" "owner = Some (st_uid m)"
    by (auto simp: read_config_file_def result_simps res_map_def not_less)
  from m have "cf_file fs path = Some (m, content)" "st_regular m" "st_nlink m = 1"
    by (auto simp: open_config_regular_def split: option.splits)
  with trusted doc config_object_ok [OF doc(1)] open_trusted_parent_ok [OF parent] True
  show ?thesis by (simp add: trusted_file_def)
next
  case False
  with assms show ?thesis by (auto simp: read_config_file_def)
qed

lemma jget_apply_environment:
  "map_of CONFIG_ENV_MAP k = None \<Longrightarrow> jget (apply_environment env raw) k = jget raw k"
  by (simp add: jget_def apply_environment_lookup)

lemma protected_keys:
  "map_of CONFIG_ENV_MAP ''broker_uid'' = None" "map_of CONFIG_ENV_MAP ''broker_gid'' = None"
  "map_of CONFIG_ENV_MAP ''storage_gid'' = None" "map_of CONFIG_ENV_MAP ''broker_socket'' = None"
  by (simp_all add: CONFIG_ENV_MAP_def)

lemma choose_broker_socket_external:
  "choose_broker_socket rt external raw = Inr (Some p) \<Longrightarrow> external \<and> jget raw ''broker_socket'' \<noteq> JNull"
  by (auto simp: choose_broker_socket_def result_simps split: if_splits)

lemma locate_config_no_journal:
  "locate_config rt fs env = Inr (dir, path, True) \<Longrightarrow>
   \<not> cf_lexists fs (path_join (path_parent path) CONFIG_UPDATE_JOURNAL_NAME)"
  by (auto simp: locate_config_def result_simps Let_def)

text \<open>
  C21: Only a trusted configuration decides who serves the ledger. When loading succeeds with a
  configuration file present, every directory down to it belongs to root or the user and is not
  writable by others (or is sticky), the file is a regular file with one link, of an accepted
  owner, closed to other writers and within the size limit, and it holds only known keys. The
  identities of the broker and the storage group come from that file whatever the environment
  says, a broker socket only from an explicit or system file, and no load from such a file
  succeeds while an interrupted administrator update is pending.
\<close>

theorem config_trusted:
  assumes "load_config rt fs env = Inr c"
  shows "\<exists>dir path external document.
    locate_config rt fs env = Inr (dir, path, external)
    \<and> (if cf_lexists fs path
       then list_all (trusted_directory (cf_uid fs)) (cf_directories fs (path_parent path))
            \<and> (\<exists>m. cf_file fs path = Some (m, Some (JObj document)) \<and> trusted_file (cf_uid fs) m
                    \<and> config_owner_uid c = Some (st_uid m))
            \<and> fst ` set document \<subseteq> set CONFIG_FILE_KEYS
       else \<not> external \<and> document = [])
    \<and> validate_optional_uid (jget document ''broker_uid'') = Inr (broker_uid c)
    \<and> validate_optional_gid (jget document ''broker_gid'') = Inr (broker_gid c)
    \<and> validate_optional_gid (jget document ''storage_gid'') = Inr (storage_gid c)
    \<and> (broker_socket c \<noteq> None \<longrightarrow> external \<and> jget document ''broker_socket'' \<noteq> JNull)
    \<and> (external \<longrightarrow> \<not> cf_lexists fs (path_join (path_parent path) CONFIG_UPDATE_JOURNAL_NAME))"
proof -
  from assms obtain dir path external document owner given where
    loc: "locate_config rt fs env = Inr (dir, path, external)"
    and doc: "read_config_file fs path external = Inr (document, owner)"
    and sock: "choose_broker_socket rt external (apply_environment env document) = Inr (broker_socket given)"
    and ids: "config_owner_uid given = owner"
      "validate_optional_uid (jget (apply_environment env document) ''broker_uid'') = Inr (broker_uid given)"
      "validate_optional_gid (jget (apply_environment env document) ''broker_gid'') = Inr (broker_gid given)"
      "validate_optional_gid (jget (apply_environment env document) ''storage_gid'') = Inr (storage_gid given)"
    and init: "post_init rt given = Inr c"
    by (rule load_config_stages) blast
  have same: "config_owner_uid c = owner" "broker_uid c = broker_uid given" "broker_gid c = broker_gid given"
    "storage_gid c = storage_gid given" "broker_socket c = None \<longleftrightarrow> broker_socket given = None"
    using post_init_untouched [OF init] ids(1) by (simp_all add: untouched_def)
  have "broker_socket c \<noteq> None \<longrightarrow> external \<and> jget document ''broker_socket'' \<noteq> JNull"
    using same(5) sock choose_broker_socket_external [of rt external "apply_environment env document"]
    by (auto simp: jget_apply_environment protected_keys)
  moreover have "external \<longrightarrow> \<not> cf_lexists fs (path_join (path_parent path) CONFIG_UPDATE_JOURNAL_NAME)"
    using loc locate_config_no_journal by (cases external) auto
  ultimately show ?thesis
    using loc read_config_file_ok [OF doc] ids same
    by (intro exI [of _ dir] exI [of _ path] exI [of _ external] exI [of _ document])
      (simp add: jget_apply_environment protected_keys split: if_splits)
qed

theorem config_trusted_witness:
  "\<exists>c. load_config sample_runtime sample_config_files sample_environment = Inr c
     \<and> broker_uid c = Some 990 \<and> config_owner_uid c = Some 0
     \<and> validate_optional_uid (jget sample_document ''broker_uid'') = Inr (broker_uid c)"
proof -
  obtain c where c: "load_config sample_runtime sample_config_files sample_environment = Inr c"
    "broker_uid c = Some 990"
    by (rule sample_loads)
  have loc: "locate_config sample_runtime sample_config_files sample_environment
      = Inr (''/home/ada/.local/share/bk'', ''/etc/gpubk/config.json'', True)"
    by code_simp
  have "cf_lexists sample_config_files ''/etc/gpubk/config.json''"
    "cf_file sample_config_files ''/etc/gpubk/config.json'' = Some (root_entry False 420, Some (JObj sample_document))"
    "st_uid (root_entry False 420) = 0"
    by (simp_all add: sample_config_files_def root_entry_def)
  with config_trusted [OF c(1)] loc have "config_owner_uid c = Some 0
    \<and> validate_optional_uid (jget sample_document ''broker_uid'') = Inr (broker_uid c)" by auto
  with c show ?thesis by blast
qed

end
