(* ===== verification/Job_Logs.thy ===== *)
theory Job_Logs
  imports Ledger_Ops Timeparse
begin

unbundle bit_operations_syntax

text \<open>
  \<^verbatim>\<open>bk/joblogs.py\<close>: the pump that drains the output of a job into two rolling segments, the
  tail shown to the user, and the cleanup of old logs. A file is its metadata and bytes; the two
  segments are the fields of the pump, the log directory a list of named files. Every call of the
  operating system may fail: the failing ones of a step are an argument. A write of a segment may also
  be short, as one to a nearly full disk: an unbuffered \<^verbatim>\<open>write\<close> reports how many bytes it took and raises
  nothing, and the pump does not look at the number. The worker lease and the thread around the drain loop are not modelled.
\<close>

section \<open>Files\<close>

record log_file =
  lf_regular :: bool
  lf_links :: nat
  lf_uid :: int
  lf_mode :: int
  lf_modified :: datetime
  lf_data :: "nat list"

definition MIB :: int where "MIB = 1024 * 1024"
definition LOG_READ_CHUNK_BYTES :: nat where "LOG_READ_CHUNK_BYTES = 64 * 1024"

definition job_log_file_issue :: "int \<Rightarrow> log_file \<Rightarrow> string option" where
  "job_log_file_issue uid f =
     (if \<not> lf_regular f then Some ''private job log is not a regular file''
      else if lf_uid f \<noteq> uid then Some ''private job log is not owned by the user''
      else if lf_mode f AND 63 \<noteq> 0 then Some ''private job log is accessible by group or other users''
      else None)"


section \<open>The pump\<close>

text \<open>The calls that can raise while a segment is rotated, opened or written, and the writes that take only some bytes.\<close>

datatype log_op =
    Unlink | Replace | SyncDirectory | OpenFile | Chmod | WriteHeader | WriteData | CloseFile | SyncFile
  | ShortWrite log_op nat

type_synonym log_faults = "log_op list"

record pump =
  pm_current :: "log_file option"
  pm_rotated :: "log_file option"
  pm_open :: bool
  pm_segment_bytes :: nat
  pm_rotation_count :: nat
  pm_error :: "string option"

record pump_setup =
  ps_uid :: int
  ps_max_bytes :: nat
  ps_header :: "nat list"
  ps_now :: datetime

definition segment_limit :: "pump_setup \<Rightarrow> nat" where
  "segment_limit s = ps_max_bytes s div 2"

definition first_error :: "string \<Rightarrow> pump \<Rightarrow> pump" where
  "first_error message p =
     p\<lparr>pm_error := (case pm_error p of None \<Rightarrow> Some message | Some e \<Rightarrow> Some e)\<rparr>"

definition close_log :: "log_faults \<Rightarrow> bool \<Rightarrow> pump \<Rightarrow> pump" where
  "close_log faults sync p =
     (if \<not> pm_open p then p
      else
        let p = p\<lparr>pm_open := False\<rparr>;
            p = (if sync \<and> SyncFile \<in> set faults then first_error ''job log sync failed'' p else p)
        in if CloseFile \<in> set faults then first_error ''job log close failed'' p else p)"

text \<open>A step of the pump and the message of the exception that ended it, if any.\<close>

type_synonym pump_step = "pump \<times> string option"

definition after_step :: "pump_step \<Rightarrow> (pump \<Rightarrow> pump_step) \<Rightarrow> pump_step" where
  "after_step r k = (case r of (p, Some e) \<Rightarrow> (p, Some e) | (p, None) \<Rightarrow> k p)"

definition drop_rotated :: "log_faults \<Rightarrow> int \<Rightarrow> pump \<Rightarrow> pump_step" where
  "drop_rotated faults uid p =
     (case pm_rotated p of
        None \<Rightarrow> (p, None)
      | Some f \<Rightarrow>
          (case job_log_file_issue uid f of
             Some issue \<Rightarrow> (p, Some issue)
           | None \<Rightarrow> if Unlink \<in> set faults then (p, Some ''unlink'') else (p\<lparr>pm_rotated := None\<rparr>, None)))"

definition move_current :: "log_faults \<Rightarrow> int \<Rightarrow> pump \<Rightarrow> pump_step" where
  "move_current faults uid p =
     (case pm_current p of
        None \<Rightarrow> (p, None)
      | Some f \<Rightarrow>
          (case job_log_file_issue uid f of
             Some issue \<Rightarrow> (p, Some issue)
           | None \<Rightarrow> if Replace \<in> set faults then (p, Some ''replace'')
                     else (p\<lparr>pm_rotated := Some f, pm_current := None\<rparr>, None)))"

definition rotate_file :: "log_faults \<Rightarrow> int \<Rightarrow> bool \<Rightarrow> pump \<Rightarrow> pump_step" where
  "rotate_file faults uid count_rotation p =
     after_step (drop_rotated faults uid (close_log faults False p)) (\<lambda>p.
     after_step (move_current faults uid p) (\<lambda>p.
       if SyncDirectory \<in> set faults then (p, Some ''fsync directory'')
       else (p\<lparr>pm_rotation_count := pm_rotation_count p + (if count_rotation then 1 else 0)\<rparr>, None)))"

text \<open>The bytes of \<open>data\<close> that reach the file.\<close>

definition taken_bytes :: "log_op \<Rightarrow> log_faults \<Rightarrow> nat list \<Rightarrow> nat list" where
  "taken_bytes what faults data =
     (case find (\<lambda>x. case x of ShortWrite w n \<Rightarrow> w = what | _ \<Rightarrow> False) faults of
        Some (ShortWrite w n) \<Rightarrow> take n data
      | _ \<Rightarrow> data)"

definition write_raw :: "log_op \<Rightarrow> log_faults \<Rightarrow> nat list \<Rightarrow> pump \<Rightarrow> pump_step" where
  "write_raw what faults data p =
     (if \<not> pm_open p then (p, None)
      else if what \<in> set faults then (p, Some ''write'')
      else (p\<lparr>pm_current := map_option (\<lambda>f. f\<lparr>lf_data := lf_data f @ taken_bytes what faults data\<rparr>) (pm_current p),
              pm_segment_bytes := pm_segment_bytes p + length data\<rparr>, None))"

text \<open>The file \<^verbatim>\<open>open_or_create_regular\<close> creates is regular, private and empty.\<close>

definition fresh_log :: "pump_setup \<Rightarrow> log_file" where
  "fresh_log s = \<lparr>lf_regular = True, lf_links = 1, lf_uid = ps_uid s, lf_mode = 384, lf_modified = ps_now s, lf_data = []\<rparr>"

definition open_segment :: "pump_setup \<Rightarrow> log_faults \<Rightarrow> pump \<Rightarrow> pump_step" where
  "open_segment s faults p =
     (if OpenFile \<in> set faults then (p, Some ''open'')
      else
        let f = (case pm_current p of None \<Rightarrow> fresh_log s | Some f \<Rightarrow> f);
            p = p\<lparr>pm_current := Some f\<rparr>
        in if \<not> lf_regular f then (p, Some ''refusing non-regular file'')
           else if lf_links f \<noteq> 1 then (p, Some ''refusing regular file with hard links'')
           else if lf_uid f \<noteq> ps_uid s then (p, Some ''job log is not owned by the user'')
           else if lf_mode f AND 63 \<noteq> 0 then (p, Some ''job log is accessible by group or other users'')
           else if Chmod \<in> set faults then (p, Some ''fchmod'')
           else if SyncDirectory \<in> set faults then (p\<lparr>pm_current := Some (f\<lparr>lf_mode := 384\<rparr>)\<rparr>, Some ''fsync directory'')
           else write_raw WriteHeader faults (ps_header s)
                  (p\<lparr>pm_current := Some (f\<lparr>lf_mode := 384\<rparr>), pm_open := True,
                     pm_segment_bytes := length (lf_data f)\<rparr>))"

definition write_output :: "pump_setup \<Rightarrow> log_faults \<Rightarrow> nat list \<Rightarrow> pump \<Rightarrow> pump_step" where
  "write_output s faults data p =
     (if \<not> pm_open p then (p, None)
      else
        after_step
          (if segment_limit s \<noteq> 0 \<and> pm_segment_bytes p + length data > segment_limit s
           then after_step (rotate_file faults (ps_uid s) True p) (open_segment s faults)
           else (p, None))
          (write_raw WriteData faults data))"

definition prepare_current_segment :: "pump_setup \<Rightarrow> log_faults \<Rightarrow> pump \<Rightarrow> pump_step" where
  "prepare_current_segment s faults p =
     after_step
       (case pm_current p of
          Some f \<Rightarrow>
            (if ps_max_bytes s = 0 then (p, None)
             else case job_log_file_issue (ps_uid s) f of
                    Some issue \<Rightarrow> (p, Some issue)
                  | None \<Rightarrow> if lf_data f \<noteq> [] then rotate_file faults (ps_uid s) False p else (p, None))
        | None \<Rightarrow> (p, None))
       (open_segment s faults)"

text \<open>The constructor, on what the two paths hold, in a directory that is private.\<close>

definition make_pump ::
  "pump_setup \<Rightarrow> log_faults \<Rightarrow> log_file option \<Rightarrow> log_file option \<Rightarrow> pump_step" where
  "make_pump s faults current rotated =
     (let p = \<lparr>pm_current = current, pm_rotated = rotated, pm_open = False, pm_segment_bytes = 0,
               pm_rotation_count = 0, pm_error = None\<rparr>
      in if segment_limit s \<noteq> 0 \<and> segment_limit s \<le> length (ps_header s) + LOG_READ_CHUNK_BYTES
         then (p, Some ''job log byte limit is too small for safe rotation'')
         else prepare_current_segment s faults p)"

text \<open>A control event is written before the drain thread starts, and refused after.\<close>

definition record_event :: "pump_setup \<Rightarrow> log_faults \<Rightarrow> bool \<Rightarrow> nat list \<Rightarrow> pump \<Rightarrow> pump_step" where
  "record_event s faults started payload p =
     (if started then (p, Some ''cannot write a control event after the log pump starts'')
      else write_output s faults payload p)"

text \<open>What one turn of the drain loop meets.\<close>

datatype drain_event =
    Waiting
  | Received "nat list" log_faults
  | StreamFailed log_faults
  | Stopped log_faults

definition drain_write :: "pump_setup \<Rightarrow> log_faults \<Rightarrow> nat list \<Rightarrow> pump \<Rightarrow> pump" where
  "drain_write s faults data p =
     (if \<not> pm_open p then p
      else case write_output s faults data p of
             (p, None) \<Rightarrow> p
           | (p, Some e) \<Rightarrow> close_log faults False (p\<lparr>pm_error := Some (''job log write failed: '' @ e)\<rparr>))"

fun drain :: "pump_setup \<Rightarrow> drain_event list \<Rightarrow> pump \<Rightarrow> pump" where
  "drain s [] p = p"
| "drain s (Waiting # es) p = drain s es p"
| "drain s (Received data faults # es) p =
     (if data = [] then close_log faults True p else drain s es (drain_write s faults data p))"
| "drain s (StreamFailed faults # es) p = close_log faults True (first_error ''job log drain failed'' p)"
| "drain s (Stopped faults # es) p = close_log faults True p"


section \<open>Reading the tail\<close>

definition read_tail_bytes :: "nat \<Rightarrow> nat list \<Rightarrow> nat list" where
  "read_tail_bytes max_bytes data = drop (length data - max_bytes) data"

text \<open>The loop over the paths, newest first; \<open>remaining\<close> is the byte budget left.\<close>

fun tail_chunks :: "nat \<Rightarrow> nat list list \<Rightarrow> nat list list" where
  "tail_chunks remaining [] = []"
| "tail_chunks remaining (f # fs) =
     (if remaining = 0 then []
      else let chunk = read_tail_bytes remaining f
           in chunk # tail_chunks (remaining - length chunk) fs)"

definition read_job_log_bytes :: "nat \<Rightarrow> pump \<Rightarrow> nat list" where
  "read_job_log_bytes max_chars p =
     (let paths = List.map_filter (map_option lf_data) [pm_rotated p, pm_current p]
      in concat (rev (tail_chunks (max_chars * 4) (rev paths))))"


section \<open>Names\<close>

text \<open>\<^verbatim>\<open>s.replace(old, "")\<close> for a text \<open>old\<close> that is not empty.\<close>

function remove_all :: "string \<Rightarrow> string \<Rightarrow> string" where
  "remove_all old s =
     (if old = [] \<or> s = [] then s
      else if take (length old) s = old then remove_all old (drop (length old) s)
      else hd s # remove_all old (tl s))"
  by auto
termination
proof (relation "measure (\<lambda>(old, s). length s)", goal_cases)
  case (2 old s)
  then have "0 < length old" "0 < length s" by auto
  then show ?case by simp
qed auto

declare remove_all.simps [simp del]

definition hex_char :: "nat \<Rightarrow> char" where
  "hex_char d = (if d < 10 then char_of (48 + d) else char_of (87 + d))"

text \<open>\<^verbatim>\<open>str(uuid.UUID(text))\<close>, \<open>None\<close> for a \<^verbatim>\<open>ValueError\<close>.\<close>

definition uuid_text :: "string \<Rightarrow> string option" where
  "uuid_text text =
     (let braces = (\<lambda>c. c = CHR ''{'' \<or> c = CHR ''}'');
          hex = remove_all ''uuid:'' (remove_all ''urn:'' text);
          hex = rev (dropWhile braces (rev (dropWhile braces hex)));
          hex = filter (\<lambda>c. c \<noteq> CHR ''-'') hex
      in if length hex \<noteq> 32 then None
         else case py_int_base 16 hex of
                None \<Rightarrow> None
              | Some n \<Rightarrow>
                  if n < 0 then None
                  else let d = map (\<lambda>i. hex_char (nat (n div 16 ^ (31 - i) mod 16))) [0..<32]
                       in Some (take 8 d @ ''-'' @ take 4 (drop 8 d) @ ''-'' @ take 4 (drop 12 d) @ ''-''
                                @ take 4 (drop 16 d) @ ''-'' @ drop 20 d))"

definition ends_with :: "string \<Rightarrow> string \<Rightarrow> bool" where
  "ends_with name tail \<longleftrightarrow> length tail \<le> length name \<and> drop (length name - length tail) name = tail"

definition reservation_id_from_log_filename :: "string \<Rightarrow> string option" where
  "reservation_id_from_log_filename name =
     (if ends_with name ''.log.1'' then uuid_text (take (length name - 6) name)
      else if ends_with name ''.log'' then uuid_text (take (length name - 4) name)
      else None)"

text \<open>The file name of a reservation's log; \<open>sha\<close> is SHA-256 in hexadecimal.\<close>

definition job_log_name :: "(string \<Rightarrow> string) \<Rightarrow> string \<Rightarrow> string" where
  "job_log_name sha reservation_id =
     (case uuid_text reservation_id of Some i \<Rightarrow> i | None \<Rightarrow> sha reservation_id) @ ''.log''"

definition rotated_job_log_name :: "string \<Rightarrow> string" where
  "rotated_job_log_name name = name @ ''.1''"


section \<open>Cleanup\<close>

datatype cleanup_error = CleanupRefused string | CleanupTypeError | CleanupOverflow

type_synonym log_directory = "(string \<times> log_file) list"

text \<open>
  Membership of a status in a set of texts; a list or an object raises \<^verbatim>\<open>TypeError\<close>.
  \<open>None\<close> stands for an instant that cannot be read.
\<close>

definition job_log_is_needed ::
  "(json \<Rightarrow> string) \<Rightarrow> (string \<times> json) list \<Rightarrow> (string \<times> json) list \<Rightarrow> datetime \<Rightarrow> (cleanup_error, bool) result" where
  "job_log_is_needed str_of reservation job now =
     (let status = jget job ''status''
      in case status of
        JArr _ \<Rightarrow> Inl CleanupTypeError
      | JObj _ \<Rightarrow> Inl CleanupTypeError
      | JStr st \<Rightarrow>
          if st \<in> set [JOB_PENDING, JOB_CLAIMED, JOB_RUNNING] then Inr True
          else if st \<notin> set [JOB_FAILED, JOB_INTERRUPTED, JOB_UNCERTAIN] then Inr False
          else if jget reservation ''status'' \<noteq> JStr STATUS_ACTIVE then Inr False
          else (case map_of reservation ''end_at'' of
                  None \<Rightarrow> Inr True
                | Some v \<Rightarrow> (case parse_iso (str_of v) of None \<Rightarrow> Inr True | Some end_at \<Rightarrow> Inr (end_at > now)))
      | _ \<Rightarrow> Inr False)"

type_synonym references = "(string \<times> bool) list"

text \<open>\<^verbatim>\<open>references[key] = value\<close>; looking up reads the newest entry.\<close>

definition reference_step ::
  "(json \<Rightarrow> string) \<Rightarrow> int \<Rightarrow> datetime \<Rightarrow> json \<Rightarrow> references \<times> string list \<Rightarrow>
   (cleanup_error, references \<times> string list) result" where
  "reference_step str_of uid now item acc =
     (let (references, warnings) = acc in
      case item of
        JObj reservation \<Rightarrow>
          (case jget reservation ''job'' of
             JObj job \<Rightarrow>
               (case uuid_text (str_of (jget_default reservation ''id'' (JStr []))) of
                  None \<Rightarrow> Inr acc
                | Some reservation_id \<Rightarrow>
                    (case py_int_json (jget_default reservation ''uid'' (JInt (-1))) of
                       Inl _ \<Rightarrow> Inl CleanupOverflow
                     | Inr None \<Rightarrow>
                         Inr ((reservation_id, True) # references,
                              warnings @ [take 8 reservation_id @ '' has an invalid UID''])
                     | Inr (Some reservation_uid) \<Rightarrow>
                         if reservation_uid \<noteq> uid then Inr acc
                         else res_map (\<lambda>needed. ((reservation_id,
                                  (map_of references reservation_id = Some True) \<or> needed) # references, warnings))
                                (job_log_is_needed str_of reservation job now)))
           | _ \<Rightarrow> Inr acc)
      | _ \<Rightarrow> Inr acc)"

text \<open>Iterating a text or an object yields texts, which are skipped.\<close>

definition job_log_references ::
  "(json \<Rightarrow> string) \<Rightarrow> (string \<times> json) list \<Rightarrow> int \<Rightarrow> datetime \<Rightarrow> (cleanup_error, references \<times> string list) result" where
  "job_log_references str_of ledger uid now =
     (case jget_default ledger ''reservations'' (JArr []) of
        JArr items \<Rightarrow> res_fold (reference_step str_of uid now) items ([], [])
      | JStr _ \<Rightarrow> Inr ([], [])
      | JObj _ \<Rightarrow> Inr ([], [])
      | _ \<Rightarrow> Inl CleanupTypeError)"

text \<open>\<^verbatim>\<open>groups.setdefault(id, []).append(path)\<close>\<close>

fun add_to_group :: "string \<Rightarrow> string \<Rightarrow> (string \<times> string list) list \<Rightarrow> (string \<times> string list) list" where
  "add_to_group i name [] = [(i, [name])]"
| "add_to_group i name ((j, names) # gs) =
     (if i = j then (j, names @ [name]) # gs else (j, names) # add_to_group i name gs)"

definition log_groups :: "log_directory \<Rightarrow> (string \<times> string list) list" where
  "log_groups dir =
     fold (\<lambda>(name, _) gs. case reservation_id_from_log_filename name of
                             None \<Rightarrow> gs | Some i \<Rightarrow> add_to_group i name gs) dir []"

record log_group =
  lg_id :: string
  lg_names :: "string list"
  lg_size :: nat
  lg_modified :: datetime
  lg_needed :: bool

definition group_files :: "log_directory \<Rightarrow> string list \<Rightarrow> log_file list" where
  "group_files dir names = List.map_filter (map_of dir) names"

definition group_issues :: "log_directory \<Rightarrow> int \<Rightarrow> string list \<Rightarrow> string list" where
  "group_issues dir uid names = List.map_filter (job_log_file_issue uid) (group_files dir names)"

definition safe_group :: "log_directory \<Rightarrow> references \<Rightarrow> string \<times> string list \<Rightarrow> log_group" where
  "safe_group dir references g =
     (let files = group_files dir (snd g)
      in \<lparr>lg_id = fst g, lg_names = snd g, lg_size = sum_list (map (length \<circ> lf_data) files),
          lg_modified = Max (set (map lf_modified files)),
          lg_needed = (map_of references (fst g) = Some True)\<rparr>)"

definition unsafe_size :: "log_directory \<Rightarrow> string list \<Rightarrow> nat" where
  "unsafe_size dir names = sum_list (map (length \<circ> lf_data) (filter lf_regular (group_files dir names)))"

record cleanup_faults =
  cf_unlink :: "string \<Rightarrow> bool"
  cf_sync :: "string list \<Rightarrow> bool"

text \<open>
  Removing a group checks its files again and stops at the first unlink that fails, with the
  earlier files gone; the sync of the directory may fail after the last. The result says
  whether all were removed.
\<close>

fun unlink_all :: "(string \<Rightarrow> bool) \<Rightarrow> string list \<Rightarrow> log_directory \<Rightarrow> log_directory \<times> bool" where
  "unlink_all fails [] dir = (dir, True)"
| "unlink_all fails (name # names) dir =
     (if fails name then (dir, False) else unlink_all fails names (filter (\<lambda>(n, _). n \<noteq> name) dir))"

definition remove_log_group ::
  "cleanup_faults \<Rightarrow> int \<Rightarrow> string list \<Rightarrow> log_directory \<Rightarrow> log_directory \<times> string option" where
  "remove_log_group fails uid names dir =
     (let existing = filter (\<lambda>name. map_of dir name \<noteq> None) names
      in case group_issues dir uid existing of
           issue # _ \<Rightarrow> (dir, Some issue)
         | [] \<Rightarrow> (case unlink_all (cf_unlink fails) existing dir of
                    (dir, False) \<Rightarrow> (dir, Some ''unlink'')
                  | (dir, True) \<Rightarrow>
                      (dir, if existing \<noteq> [] \<and> cf_sync fails existing then Some ''fsync directory'' else None)))"

text \<open>\<^verbatim>\<open>cs_groups\<close> are the groups not removed yet; \<^verbatim>\<open>cs_total\<close> is \<^verbatim>\<open>total_bytes\<close>,
  which is set before the quota is applied.\<close>

record cleanup_state =
  cs_dir :: log_directory
  cs_groups :: "log_group list"
  cs_removed :: nat
  cs_failed :: nat
  cs_bytes_removed :: nat
  cs_total :: nat
  cs_warnings :: "string list"

definition remove_step :: "cleanup_faults \<Rightarrow> int \<Rightarrow> log_group \<Rightarrow> cleanup_state \<Rightarrow> cleanup_state" where
  "remove_step fails uid g s =
     (case remove_log_group fails uid (lg_names g) (cs_dir s) of
        (dir, Some message) \<Rightarrow>
          s\<lparr>cs_dir := dir, cs_failed := cs_failed s + 1,
            cs_warnings := cs_warnings s @ [take 8 (lg_id g) @ '': '' @ message]\<rparr>
      | (dir, None) \<Rightarrow>
          s\<lparr>cs_dir := dir, cs_groups := filter (\<lambda>h. lg_id h \<noteq> lg_id g) (cs_groups s),
            cs_removed := cs_removed s + 1, cs_bytes_removed := cs_bytes_removed s + lg_size g,
            cs_total := cs_total s - lg_size g\<rparr>)"

definition retention_pass :: "cleanup_faults \<Rightarrow> int \<Rightarrow> datetime option \<Rightarrow> log_group list \<Rightarrow> cleanup_state \<Rightarrow> cleanup_state" where
  "retention_pass fails uid cutoff groups s =
     fold (\<lambda>g s. if lg_needed g \<or> cutoff = None then s
                 else if lg_modified g > the cutoff then s
                 else remove_step fails uid g s) groups s"

fun quota_pass :: "cleanup_faults \<Rightarrow> int \<Rightarrow> nat \<Rightarrow> log_group list \<Rightarrow> cleanup_state \<Rightarrow> cleanup_state" where
  "quota_pass fails uid quota [] s = s"
| "quota_pass fails uid quota (g # gs) s =
     (if cs_total s \<le> quota then s else quota_pass fails uid quota gs (remove_step fails uid g s))"

definition quota_candidates :: "log_group list \<Rightarrow> log_group list" where
  "quota_candidates groups =
     sort_key (\<lambda>g. (lg_modified g, lg_id g)) (filter (\<lambda>g. \<not> lg_needed g) groups)"

record cleanup_result =
  cr_removed :: nat
  cr_retained :: nat
  cr_failed :: nat
  cr_bytes_removed :: nat
  cr_bytes_retained :: nat
  cr_quota_excess :: nat
  cr_warnings :: "string list"

text \<open>
  \<open>retention_days\<close> and \<open>total_max_mb\<close> are the configuration's \<^verbatim>\<open>job_log_retention_days\<close>
  and \<^verbatim>\<open>job_log_total_max_mb\<close>; zero means no limit. The directory is one that exists and has
  passed \<^verbatim>\<open>validate_private_directory\<close>.
\<close>

definition unsafe_groups :: "log_directory \<Rightarrow> int \<Rightarrow> (string \<times> string list) list" where
  "unsafe_groups dir uid = filter (\<lambda>g. group_issues dir uid (snd g) \<noteq> []) (log_groups dir)"

definition safe_groups :: "log_directory \<Rightarrow> int \<Rightarrow> references \<Rightarrow> log_group list" where
  "safe_groups dir uid references =
     map (safe_group dir references) (filter (\<lambda>g. group_issues dir uid (snd g) = []) (log_groups dir))"

definition cleanup_start :: "log_directory \<Rightarrow> int \<Rightarrow> references \<Rightarrow> string list \<Rightarrow> cleanup_state" where
  "cleanup_start dir uid references reference_warnings =
     \<lparr>cs_dir = dir, cs_groups = safe_groups dir uid references, cs_removed = 0,
      cs_failed = length reference_warnings + length (unsafe_groups dir uid), cs_bytes_removed = 0, cs_total = 0,
      cs_warnings = reference_warnings
        @ map (\<lambda>g. take 8 (fst g) @ '': '' @ hd (group_issues dir uid (snd g))) (unsafe_groups dir uid)\<rparr>"

definition apply_retention :: "cleanup_faults \<Rightarrow> int \<Rightarrow> datetime \<Rightarrow> nat \<Rightarrow> cleanup_state \<Rightarrow> cleanup_state" where
  "apply_retention fails uid current retention_days s =
     (let cutoff = (if retention_days = 0 then None else Some (current - days (int retention_days)))
      in retention_pass fails uid cutoff (cs_groups s) s)"

definition apply_quota :: "cleanup_faults \<Rightarrow> int \<Rightarrow> nat \<Rightarrow> cleanup_state \<Rightarrow> cleanup_state" where
  "apply_quota fails uid quota s =
     (if quota \<noteq> 0 \<and> cs_total s > quota then quota_pass fails uid quota (quota_candidates (cs_groups s)) s else s)"

definition cleanup_job_logs ::
  "(json \<Rightarrow> string) \<Rightarrow> cleanup_faults \<Rightarrow> nat \<Rightarrow> nat \<Rightarrow> (string \<times> json) list \<Rightarrow> int \<Rightarrow> datetime \<Rightarrow> log_directory \<Rightarrow>
   (cleanup_error, log_directory \<times> cleanup_result) result" where
  "cleanup_job_logs str_of fails retention_days total_max_mb ledger uid current dir =
     res_bind (job_log_references str_of ledger uid current) (\<lambda>(references, reference_warnings).
     let unsafe_bytes = sum_list (map (\<lambda>g. unsafe_size dir (snd g)) (unsafe_groups dir uid));
         kept = apply_retention fails uid current retention_days (cleanup_start dir uid references reference_warnings);
         kept = kept\<lparr>cs_total := unsafe_bytes + sum_list (map lg_size (cs_groups kept))\<rparr>;
         quota = nat (int total_max_mb * MIB);
         final = apply_quota fails uid quota kept;
         excess = (if quota \<noteq> 0 then cs_total final - quota else 0)
     in Inr (cs_dir final,
             \<lparr>cr_removed = cs_removed final, cr_retained = length (cs_groups final) + length (unsafe_groups dir uid),
              cr_failed = cs_failed final, cr_bytes_removed = cs_bytes_removed final,
              cr_bytes_retained = cs_total final, cr_quota_excess = excess,
              cr_warnings = cs_warnings final
                @ (if excess \<noteq> 0 then [''private job logs exceed the configured quota''] else [])\<rparr>))"

end
