(* ===== verification/Log_Claims.thy ===== *)
theory Log_Claims
  imports Job_Logs
begin

text \<open>
  What the log pump keeps of a job's output and how much space it takes, and which logs the
  cleanup removes.
\<close>

section \<open>Size\<close>

definition fits_in :: "nat \<Rightarrow> log_file option \<Rightarrow> bool" where
  "fits_in n f \<longleftrightarrow> (case f of None \<Rightarrow> True | Some f \<Rightarrow> length (lf_data f) \<le> n)"

lemma fits_in_simps [simp]: "fits_in n None" "fits_in n (Some f) \<longleftrightarrow> length (lf_data f) \<le> n"
  by (simp_all add: fits_in_def)

text \<open>The segment being written fits; the rotated one fits or was there before.\<close>

definition bounded :: "pump_setup \<Rightarrow> log_file option \<Rightarrow> pump \<Rightarrow> bool" where
  "bounded s before p \<longleftrightarrow>
     fits_in (segment_limit s) (pm_current p)
     \<and> (pm_rotated p = before \<or> fits_in (segment_limit s) (pm_rotated p))
     \<and> (pm_open p \<longrightarrow> (\<exists>f. pm_current p = Some f \<and> length (lf_data f) \<le> pm_segment_bytes p))"

text \<open>The faults of a step with no short write among them.\<close>

definition whole_writes :: "log_faults \<Rightarrow> bool" where
  "whole_writes F \<longleftrightarrow> list_all (\<lambda>x. case x of ShortWrite w n \<Rightarrow> False | _ \<Rightarrow> True) F"

lemma taken_bytes_length: "length (taken_bytes what F data) \<le> length data"
  by (simp add: taken_bytes_def split: option.split log_op.split)

lemma taken_bytes_whole [simp]: "whole_writes F \<Longrightarrow> taken_bytes what F data = data"
proof -
  assume "whole_writes F"
  then have "find (\<lambda>x. case x of ShortWrite w n \<Rightarrow> w = what | _ \<Rightarrow> False) F = None"
    by (auto simp: whole_writes_def list_all_iff find_None_iff split: log_op.splits)
  then show ?thesis by (simp add: taken_bytes_def)
qed

lemma first_error_fields [simp]:
  "pm_current (first_error m p) = pm_current p" "pm_rotated (first_error m p) = pm_rotated p"
  "pm_open (first_error m p) = pm_open p" "pm_segment_bytes (first_error m p) = pm_segment_bytes p"
  "pm_rotation_count (first_error m p) = pm_rotation_count p" "pm_error (first_error m p) \<noteq> None"
  by (simp_all add: first_error_def split: option.split)

lemma close_log_fields [simp]:
  "pm_current (close_log F b p) = pm_current p" "pm_rotated (close_log F b p) = pm_rotated p"
  "pm_open (close_log F b p) = False" "pm_segment_bytes (close_log F b p) = pm_segment_bytes p"
  "pm_rotation_count (close_log F b p) = pm_rotation_count p"
  by (simp_all add: close_log_def Let_def)

lemma close_log_error: "pm_error (close_log F b p) = None \<Longrightarrow> pm_error p = None"
  by (auto simp: close_log_def Let_def first_error_def split: if_splits option.splits)

lemma close_log_keeps_error [simp]: "pm_error p = Some e \<Longrightarrow> pm_error (close_log F b p) = Some e"
  by (auto simp: close_log_def Let_def first_error_def)

lemma after_step_cases:
  assumes "after_step r k = (p, e)"
  obtains (failed) "r = (p, e)" "e \<noteq> None" | (went_on) q where "r = (q, None)" "k q = (p, e)"
  using assms by (cases r; cases "snd r") (auto simp: after_step_def)

lemma drop_rotated_fields:
  "drop_rotated F uid p = (q, e) \<Longrightarrow>
   pm_current q = pm_current p \<and> (pm_rotated q = pm_rotated p \<or> pm_rotated q = None) \<and> pm_open q = pm_open p
   \<and> pm_rotation_count q = pm_rotation_count p \<and> (e = None \<longrightarrow> pm_rotated q = None)"
  by (cases "pm_rotated p"; cases "job_log_file_issue uid (the (pm_rotated p))")
    (auto simp: drop_rotated_def dest: sym split: if_splits)

lemma move_current_fields:
  "move_current F uid p = (q, e) \<Longrightarrow>
   pm_open q = pm_open p \<and> pm_rotation_count q = pm_rotation_count p
   \<and> (if e = None \<and> pm_current p \<noteq> None then pm_rotated q = pm_current p \<and> pm_current q = None
      else pm_rotated q = pm_rotated p \<and> pm_current q = pm_current p)"
  by (cases "pm_current p"; cases "job_log_file_issue uid (the (pm_current p))")
    (auto simp: move_current_def dest: sym split: if_splits)

lemma rotate_file_success:
  assumes "rotate_file F uid b p = (q, None)"
  shows "(pm_current p \<noteq> None \<longrightarrow> pm_rotated q = pm_current p) \<and> pm_current q = None
         \<and> pm_rotation_count q = pm_rotation_count p + (if b then 1 else 0)"
proof -
  from assms obtain r t where steps: "drop_rotated F uid (close_log F False p) = (r, None)"
    "move_current F uid r = (t, None)" "q = t\<lparr>pm_rotation_count := pm_rotation_count t + (if b then 1 else 0)\<rparr>"
    unfolding rotate_file_def by (auto elim!: after_step_cases split: if_splits)
  with drop_rotated_fields [OF steps(1)] move_current_fields [OF steps(2)] show ?thesis
    by (auto split: if_splits)
qed

lemma rotate_file_bounded:
  assumes "rotate_file F uid b p = (q, e)" "bounded s before p"
  shows "bounded s before q \<and> \<not> pm_open q \<and> (e = None \<longrightarrow> pm_current q = None)"
  using assms(1) unfolding rotate_file_def
proof (cases rule: after_step_cases)
  case failed
  with assms(2) drop_rotated_fields [OF failed(1)] show ?thesis by (auto simp: bounded_def)
next
  case (went_on r)
  note first = drop_rotated_fields [OF went_on(1)]
  from went_on(2) show ?thesis
  proof (cases rule: after_step_cases)
    case failed
    with assms(2) first move_current_fields [OF failed(1)] show ?thesis by (auto simp: bounded_def)
  next
    case (went_on t)
    from assms(2) first move_current_fields [OF went_on(1)] went_on(2)
    show ?thesis by (auto simp: bounded_def split: if_splits)
  qed
qed

lemma write_raw_bounded:
  assumes "write_raw what F data p = (q, e)" "bounded s before p"
    "pm_open p \<Longrightarrow> pm_segment_bytes p + length data \<le> segment_limit s"
  shows "bounded s before q \<and> pm_rotated q = pm_rotated p"
proof -
  note taken = taken_bytes_length [of what F data]
  from assms taken show ?thesis
    by (auto simp: write_raw_def bounded_def split: if_splits intro: order_trans [OF add_mono [OF _ taken]])
qed

lemma open_segment_bounded:
  assumes "open_segment s F p = (q, e)" "bounded s before p" "\<not> pm_open p" "pm_current p = None"
    "length (ps_header s) \<le> segment_limit s"
  shows "bounded s before q"
  using assms taken_bytes_length [of WriteHeader F "ps_header s"]
  by (auto simp: open_segment_def Let_def bounded_def fresh_log_def write_raw_def split: if_splits)


lemma write_output_bounded:
  assumes "write_output s F data p = (q, e)" "bounded s before p" "segment_limit s \<noteq> 0"
    "length (ps_header s) + length data \<le> segment_limit s"
  shows "bounded s before q"
proof (cases "pm_open p")
  case True
  let ?full = "segment_limit s < pm_segment_bytes p + length data"
  from assms(1,3) True have "after_step (if ?full then after_step (rotate_file F (ps_uid s) True p) (open_segment s F) else (p, None))
      (write_raw WriteData F data) = (q, e)"
    by (simp add: write_output_def)
  then show ?thesis
  proof (cases rule: after_step_cases)
    case failed
    then have "after_step (rotate_file F (ps_uid s) True p) (open_segment s F) = (q, e)" by (auto split: if_splits)
    then show ?thesis
    proof (cases rule: after_step_cases)
      case failed
      then show ?thesis using rotate_file_bounded assms(2) by blast
    next
      case (went_on r)
      from rotate_file_bounded [OF went_on(1) assms(2)] open_segment_bounded [OF went_on(2)] assms(4)
      show ?thesis by simp
    qed
  next
    case (went_on r)
    show ?thesis
    proof (cases ?full)
      case False
      with went_on have "r = p" by simp
      with write_raw_bounded [OF went_on(2), of s before] assms(2) False show ?thesis by simp
    next
      case full: True
      with went_on(1) have "after_step (rotate_file F (ps_uid s) True p) (open_segment s F) = (r, None)" by simp
      then show ?thesis
      proof (cases rule: after_step_cases)
        case (went_on t)
        note rot = rotate_file_bounded [OF went_on(1) assms(2)]
        from rot went_on(2) have "pm_segment_bytes r = length (ps_header s)"
          by (auto simp: open_segment_def Let_def write_raw_def fresh_log_def split: if_splits)
        with rot open_segment_bounded [OF went_on(2)] assms(4) \<open>write_raw WriteData F data r = (q, e)\<close>
        show ?thesis using write_raw_bounded [of WriteData F data r q e s before] by simp
      qed simp
    qed
  qed
next
  case False
  with assms show ?thesis by (simp add: write_output_def)
qed


section \<open>Content\<close>

text \<open>
  The output so far, as the log holds it: what was dropped, the rotated segment and the current
  one, each after its header. Before the first rotation nothing is dropped and the rotated path is
  as it was before; a rotated segment is nearly full.
\<close>

definition holds_output :: "pump_setup \<Rightarrow> log_file option \<Rightarrow> nat list \<Rightarrow> pump \<Rightarrow> bool" where
  "holds_output s before out p \<longleftrightarrow>
     (\<exists>dropped old new f. out = dropped @ old @ new \<and> pm_current p = Some f \<and> lf_data f = ps_header s @ new
        \<and> (if pm_rotation_count p = 0 then dropped = [] \<and> old = [] \<and> pm_rotated p = before
           else (\<exists>g. pm_rotated p = Some g \<and> lf_data g = ps_header s @ old)
                \<and> segment_limit s < length (ps_header s) + length old + LOG_READ_CHUNK_BYTES
                \<and> (pm_rotation_count p = 1 \<longrightarrow> dropped = [])))"

lemma holds_output_close [simp]: "holds_output s before out (close_log F b p) = holds_output s before out p"
  by (simp add: holds_output_def)

lemma open_segment_success:
  assumes "open_segment s F p = (q, None)" "pm_current p = None" "whole_writes F"
  shows "\<exists>f. pm_current q = Some f \<and> lf_data f = ps_header s \<and> pm_rotated q = pm_rotated p \<and> pm_open q
    \<and> pm_rotation_count q = pm_rotation_count p \<and> pm_segment_bytes q = length (ps_header s)"
  using assms by (auto simp: open_segment_def Let_def write_raw_def fresh_log_def split: if_splits)

text \<open>Without short writes the pump knows the size of the segment it writes.\<close>

definition counted :: "pump \<Rightarrow> bool" where
  "counted p \<longleftrightarrow> (\<exists>f. pm_current p = Some f \<and> pm_segment_bytes p = length (lf_data f))"

lemma write_output_success:
  assumes "write_output s F data p = (q, None)" "pm_open p" "counted p" "pm_current p = Some f" "whole_writes F"
  shows "pm_open q \<and> counted q \<and> (\<exists>g. pm_current q = Some g
    \<and> (if segment_limit s \<noteq> 0 \<and> segment_limit s < pm_segment_bytes p + length data
       then lf_data g = ps_header s @ data \<and> pm_rotated q = Some f \<and> pm_rotation_count q = Suc (pm_rotation_count p)
       else lf_data g = lf_data f @ data \<and> pm_rotated q = pm_rotated p \<and> pm_rotation_count q = pm_rotation_count p))"
proof (cases "segment_limit s \<noteq> 0 \<and> segment_limit s < pm_segment_bytes p + length data")
  case True
  with assms(1,2) obtain r t where steps: "rotate_file F (ps_uid s) True p = (r, None)"
    "open_segment s F r = (t, None)" "write_raw WriteData F data t = (q, None)"
    by (auto simp: write_output_def elim!: after_step_cases)
  note rotate_file_success [OF steps(1)]
  with assms(4,5) open_segment_success [OF steps(2)] steps(3) True show ?thesis
    by (auto simp: write_raw_def counted_def split: if_splits)
next
  case False
  with assms(1,2) have "write_raw WriteData F data p = (q, None)"
    by (auto simp: write_output_def after_step_def)
  with assms(2-5) False show ?thesis by (auto simp: write_raw_def counted_def split: if_splits)
qed

lemma write_output_holds:
  assumes "write_output s F data p = (q, None)" "pm_open p" "counted p" "segment_limit s \<noteq> 0" "whole_writes F"
    and out: "holds_output s first out p" and len: "length data \<le> LOG_READ_CHUNK_BYTES"
  shows "pm_open q \<and> counted q \<and> holds_output s first (out @ data) q"
proof -
  from out obtain dropped old new f where o: "out = dropped @ old @ new" "pm_current p = Some f"
    "lf_data f = ps_header s @ new" and rest: "if pm_rotation_count p = 0 then dropped = [] \<and> old = [] \<and> pm_rotated p = first
           else (\<exists>g. pm_rotated p = Some g \<and> lf_data g = ps_header s @ old)
                \<and> segment_limit s < length (ps_header s) + length old + LOG_READ_CHUNK_BYTES
                \<and> (pm_rotation_count p = 1 \<longrightarrow> dropped = [])"
    unfolding holds_output_def by blast
  from assms(3) o have seg: "pm_segment_bytes p = length (ps_header s) + length new" by (simp add: counted_def)
  note w = write_output_success [OF assms(1-3) o(2) assms(5)]
  show ?thesis
  proof (cases "segment_limit s < pm_segment_bytes p + length data")
    case True
    with w assms(4) obtain g where g: "pm_open q" "counted q" "pm_current q = Some g" "lf_data g = ps_header s @ data"
      "pm_rotated q = Some f" "pm_rotation_count q = Suc (pm_rotation_count p)" by auto
    have "out @ data = (dropped @ old) @ new @ data" by (simp add: o)
    moreover have "segment_limit s < length (ps_header s) + length new + LOG_READ_CHUNK_BYTES"
      using True seg len by simp
    moreover have "pm_rotation_count q = 1 \<longrightarrow> dropped @ old = []" using g rest by simp
    ultimately show ?thesis using g o(3) unfolding holds_output_def
      by (intro conjI exI [of _ "dropped @ old"] exI [of _ new] exI [of _ data] exI [of _ g]) auto
  next
    case False
    with w obtain g where g: "pm_open q" "counted q" "pm_current q = Some g" "lf_data g = lf_data f @ data"
      "pm_rotated q = pm_rotated p" "pm_rotation_count q = pm_rotation_count p" by auto
    with rest o show ?thesis unfolding holds_output_def
      by (intro conjI exI [of _ dropped] exI [of _ old] exI [of _ "new @ data"] exI [of _ g]) auto
  qed
qed


section \<open>Draining\<close>

fun received :: "drain_event list \<Rightarrow> nat list" where
  "received [] = []"
| "received (Waiting # es) = received es"
| "received (Received data F # es) = (if data = [] then [] else data @ received es)"
| "received (StreamFailed F # es) = []"
| "received (Stopped F # es) = []"

fun chunk_ok :: "drain_event \<Rightarrow> bool" where
  "chunk_ok (Received data F) \<longleftrightarrow> length data \<le> LOG_READ_CHUNK_BYTES"
| "chunk_ok _ \<longleftrightarrow> True"

fun event_whole :: "drain_event \<Rightarrow> bool" where
  "event_whole (Received data F) \<longleftrightarrow> whole_writes F"
| "event_whole _ \<longleftrightarrow> True"

text \<open>\<open>whole\<close> tells that no write was short so far.\<close>

definition pump_inv :: "pump_setup \<Rightarrow> bool \<Rightarrow> log_file option \<Rightarrow> nat list \<Rightarrow> pump \<Rightarrow> bool" where
  "pump_inv s whole before out p \<longleftrightarrow>
     bounded s before p \<and> (whole \<and> pm_error p = None \<longrightarrow> pm_open p \<and> counted p \<and> holds_output s before out p)"

lemma bounded_close [simp]: "bounded s before p \<Longrightarrow> bounded s before (close_log F b p)"
  by (simp add: bounded_def)

lemma bounded_error [simp]: "bounded s before (p\<lparr>pm_error := e\<rparr>) = bounded s before p"
  by (simp add: bounded_def)

lemma bounded_first_error [simp]: "bounded s before (first_error m p) = bounded s before p"
  by (simp add: bounded_def)

lemma write_output_error_kept:
  "write_output s F data p = (q, e) \<Longrightarrow> pm_error q = None \<Longrightarrow> pm_error p = None"
  by (auto simp: write_output_def rotate_file_def drop_rotated_def move_current_def open_segment_def write_raw_def
      Let_def elim!: after_step_cases dest!: close_log_error split: if_splits option.splits)


lemma drain_write_inv:
  assumes "pump_inv s whole before out p" "segment_limit s \<noteq> 0" "length data \<le> LOG_READ_CHUNK_BYTES"
    "length (ps_header s) + LOG_READ_CHUNK_BYTES < segment_limit s"
  shows "pump_inv s (whole \<and> whole_writes F) before (out @ data) (drain_write s F data p)"
proof (cases "pm_open p")
  case True
  obtain q e where q: "write_output s F data p = (q, e)" by fastforce
  from assms(1) have b: "bounded s before p" by (simp add: pump_inv_def)
  have "bounded s before q" using write_output_bounded [OF q b assms(2)] assms(3,4) by simp
  then show ?thesis
  proof (cases e)
    case None
    with q have "whole \<and> whole_writes F \<and> pm_error q = None \<longrightarrow> pm_open q \<and> counted q \<and> holds_output s before (out @ data) q"
      using write_output_holds [OF _ True _ assms(2) _ _ assms(3)] write_output_error_kept [OF q] assms(1)
      by (auto simp: pump_inv_def)
    with \<open>bounded s before q\<close> q None True show ?thesis by (simp add: drain_write_def pump_inv_def)
  next
    case (Some m)
    with \<open>bounded s before q\<close> q True show ?thesis
      by (auto simp: drain_write_def pump_inv_def dest: close_log_error)
  qed
next
  case False
  with assms(1) show ?thesis by (auto simp: drain_write_def pump_inv_def)
qed

lemma drain_inv:
  assumes "pump_inv s whole before out p" "segment_limit s \<noteq> 0" "list_all chunk_ok es"
    "length (ps_header s) + LOG_READ_CHUNK_BYTES < segment_limit s"
  shows "bounded s before (drain s es p)
    \<and> (whole \<and> list_all event_whole es \<and> pm_error (drain s es p) = None \<longrightarrow> holds_output s before (out @ received es) (drain s es p))"
  using assms
proof (induction s es p arbitrary: whole out rule: drain.induct)
  case (3 s data F es p)
  show ?case
  proof (cases "data = []")
    case True
    with 3 show ?thesis by (auto simp: pump_inv_def dest: close_log_error)
  next
    case False
    with "3.prems" drain_write_inv [of s whole before out p data F]
    have "pump_inv s (whole \<and> whole_writes F) before (out @ data) (drain_write s F data p)" by simp
    from "3.IH" [OF False this] "3.prems" False show ?thesis by simp
  qed
next
  case (4 s F es p)
  then show ?case by (auto simp: pump_inv_def dest!: close_log_error)
next
  case (5 s F es p)
  then show ?case by (auto simp: pump_inv_def dest: close_log_error)
qed (auto simp: pump_inv_def)

lemma make_pump_inv:
  assumes "make_pump s F cur rot = (p, None)" "segment_limit s \<noteq> 0"
  shows "pump_inv s (whole_writes F) (pm_rotated p) [] p \<and> length (ps_header s) + LOG_READ_CHUNK_BYTES < segment_limit s"
proof -
  let ?p = "\<lparr>pm_current = cur, pm_rotated = rot, pm_open = False, pm_segment_bytes = 0,
               pm_rotation_count = 0, pm_error = None\<rparr>"
  from assms(2) have max: "ps_max_bytes s \<noteq> 0" by (auto simp: segment_limit_def)
  from assms(1,2) have room: "length (ps_header s) + LOG_READ_CHUNK_BYTES < segment_limit s"
    and prep: "prepare_current_segment s F ?p = (p, None)"
    by (auto simp: make_pump_def Let_def split: if_splits)
  from prep obtain q where q: "open_segment s F q = (p, None)" "pm_rotation_count q = 0"
    "pm_current q = None \<or> (\<exists>f. pm_current q = Some f \<and> lf_data f = [])"
  proof (cases "\<exists>f. cur = Some f \<and> lf_data f \<noteq> []")
    case True
    with prep max obtain q where "rotate_file F (ps_uid s) False ?p = (q, None)" "open_segment s F q = (p, None)"
      by (auto simp: prepare_current_segment_def elim!: after_step_cases split: option.splits)
    with rotate_file_success [of F "ps_uid s" False ?p q] show thesis by (intro that [of q]) auto
  next
    case False
    with prep max have "open_segment s F ?p = (p, None)"
      by (auto simp: prepare_current_segment_def elim!: after_step_cases split: option.splits)
    with False show thesis by (intro that [of ?p]) (cases cur, auto)
  qed
  then have "pm_open p \<and> pm_rotation_count p = 0 \<and> pm_segment_bytes p = length (ps_header s)
    \<and> (\<exists>f. pm_current p = Some f \<and> lf_data f = taken_bytes WriteHeader F (ps_header s))"
    by (auto simp: open_segment_def Let_def write_raw_def fresh_log_def split: if_splits)
  with room taken_bytes_length [of WriteHeader F "ps_header s"] show ?thesis
    by (auto simp: pump_inv_def bounded_def holds_output_def counted_def)
qed


text \<open>
  C22: the log of a job is bounded and holds the end of its output. Whatever the job prints, in
  chunks of any size the drain reads, and whatever calls of the operating system fail or write only a
  part, each segment the pump has written stays within half of the byte limit; a rotated segment that
  was there before stays as it is until it is replaced. As long as no error is recorded and no write was
  short, the rotated segment and the current one hold, after their headers, an uninterrupted end of the
  output: all of it up to the first rotation and still after it, and later at least the last half
  limit less one header and one read. (A short write loses output, and no error is recorded.)
\<close>

theorem job_log_bounded_suffix:
  assumes "make_pump s faults current rotated = (p, None)" "segment_limit s \<noteq> 0"
    and "list_all chunk_ok events" and "drain s events p = q"
  shows "fits_in (segment_limit s) (pm_current q)
    \<and> (pm_rotated q = pm_rotated p \<or> fits_in (segment_limit s) (pm_rotated q))
    \<and> (whole_writes faults \<and> list_all event_whole events \<and> pm_error q = None \<longrightarrow>
       (\<exists>dropped old new f.
          received events = dropped @ old @ new \<and> pm_current q = Some f \<and> lf_data f = ps_header s @ new
          \<and> (if pm_rotation_count q = 0 then dropped = [] \<and> old = [] \<and> pm_rotated q = pm_rotated p
             else (\<exists>g. pm_rotated q = Some g \<and> lf_data g = ps_header s @ old)
               \<and> segment_limit s < length (ps_header s) + length old + LOG_READ_CHUNK_BYTES
               \<and> (pm_rotation_count q = 1 \<longrightarrow> dropped = []))))"
proof -
  from make_pump_inv [OF assms(1,2)] have inv: "pump_inv s (whole_writes faults) (pm_rotated p) [] p"
    and room: "length (ps_header s) + LOG_READ_CHUNK_BYTES < segment_limit s" by simp_all
  from drain_inv [OF inv assms(2,3) room] assms(4) have "bounded s (pm_rotated p) q"
    and "whole_writes faults \<and> list_all event_whole events \<and> pm_error q = None \<longrightarrow> holds_output s (pm_rotated p) (received events) q"
    by simp_all
  then show ?thesis unfolding bounded_def holds_output_def by blast
qed

definition sample_setup :: pump_setup where
  "sample_setup = \<lparr>ps_uid = 1000, ps_max_bytes = 1024 * 1024, ps_header = [1, 2], ps_now = 0\<rparr>"

definition sample_events :: "drain_event list" where
  "sample_events = [Waiting, Received [7, 8] [], Received [] []]"

theorem job_log_bounded_suffix_witness:
  "\<exists>p q. make_pump sample_setup [] None None = (p, None) \<and> drain sample_setup sample_events p = q
     \<and> fits_in (segment_limit sample_setup) (pm_current q)
     \<and> (\<exists>dropped old new f. [7, 8] = dropped @ old @ new \<and> pm_current q = Some f \<and> lf_data f = [1, 2] @ new)"
proof -
  obtain p where p: "make_pump sample_setup [] None None = (p, None)" and e: "pm_error (drain sample_setup sample_events p) = None"
    by (simp add: make_pump_def sample_setup_def segment_limit_def LOG_READ_CHUNK_BYTES_def
        prepare_current_segment_def after_step_def open_segment_def fresh_log_def write_raw_def taken_bytes_def
        drain_write_def write_output_def close_log_def sample_events_def)
  have limit: "segment_limit sample_setup \<noteq> 0" by (simp add: segment_limit_def sample_setup_def)
  have ok: "list_all chunk_ok sample_events" "whole_writes []" "list_all event_whole sample_events"
    by (simp_all add: LOG_READ_CHUNK_BYTES_def whole_writes_def sample_events_def)
  have "received sample_events = [7, 8]" "ps_header sample_setup = [1, 2]"
    by (simp_all add: sample_setup_def sample_events_def)
  with job_log_bounded_suffix [OF p limit ok(1) refl] ok(2,3) e show ?thesis
    by (intro exI [of _ p] exI [of _ "drain sample_setup sample_events p"] conjI p refl) (simp_all only:, blast+)
qed

text \<open>
  A short write is not noticed: the job prints two bytes, one of them reaches the file, and the pump
  records no error.
\<close>

lemma short_write_unnoticed:
  "\<exists>p q. make_pump sample_setup [] None None = (p, None)
     \<and> drain sample_setup [Received [7, 8] [ShortWrite WriteData 1], Received [] []] p = q
     \<and> pm_error q = None \<and> map_option lf_data (pm_current q) = Some [1, 2, 7]"
  by (simp add: make_pump_def sample_setup_def segment_limit_def LOG_READ_CHUNK_BYTES_def
      prepare_current_segment_def after_step_def open_segment_def fresh_log_def write_raw_def taken_bytes_def
      drain_write_def write_output_def close_log_def)

text \<open>Control events, which are short, keep the bound as well.\<close>

lemma record_event_bounded:
  assumes "make_pump s faults current rotated = (p, None)" "segment_limit s \<noteq> 0"
    and "record_event s faults' started payload p = (q, e)" "length payload \<le> LOG_READ_CHUNK_BYTES"
  shows "bounded s (pm_rotated p) q"
  using make_pump_inv [OF assms(1,2)] write_output_bounded [of s faults' payload p q e "pm_rotated p"] assms(2-4)
  by (auto simp: record_event_def pump_inv_def split: if_splits)


section \<open>The tail shown to the user\<close>

text \<open>The bytes decoded for display are the last ones of the two segments together.\<close>

lemma read_job_log_bytes_suffix:
  fixes p n
  defines "all \<equiv> concat (List.map_filter (map_option lf_data) [pm_rotated p, pm_current p])"
  shows "read_job_log_bytes n p = drop (length all - n * 4) all"
  by (cases "pm_rotated p"; cases "pm_current p")
    (auto simp: all_def read_job_log_bytes_def read_tail_bytes_def List.map_filter_simps Let_def)


section \<open>Cleanup\<close>

text \<open>
  What the ledger needs: a reservation of the user whose job is not over, or that can be retried
  because its job failed while it is still active and not known to have ended.
\<close>

definition log_wanted :: "(json \<Rightarrow> string) \<Rightarrow> (string \<times> json) list \<Rightarrow> int \<Rightarrow> datetime \<Rightarrow> string \<Rightarrow> bool" where
  "log_wanted str_of ledger uid now i \<longleftrightarrow>
     (\<exists>items r job st. jget_default ledger ''reservations'' (JArr []) = JArr items \<and> JObj r \<in> set items
        \<and> jget r ''job'' = JObj job \<and> uuid_text (str_of (jget_default r ''id'' (JStr []))) = Some i
        \<and> py_int_json (jget_default r ''uid'' (JInt (-1))) = Inr (Some uid)
        \<and> jget job ''status'' = JStr st
        \<and> (st \<in> {JOB_PENDING, JOB_CLAIMED, JOB_RUNNING}
           \<or> st \<in> {JOB_FAILED, JOB_INTERRUPTED, JOB_UNCERTAIN} \<and> jget r ''status'' = JStr STATUS_ACTIVE
             \<and> (\<forall>v end_at. map_of r ''end_at'' = Some v \<and> parse_iso (str_of v) = Some end_at \<longrightarrow> now < end_at)))"

lemma job_log_is_needed_wanted:
  assumes "jget job ''status'' = JStr st"
    and "st \<in> {JOB_PENDING, JOB_CLAIMED, JOB_RUNNING}
         \<or> st \<in> {JOB_FAILED, JOB_INTERRUPTED, JOB_UNCERTAIN} \<and> jget r ''status'' = JStr STATUS_ACTIVE
           \<and> (\<forall>v end_at. map_of r ''end_at'' = Some v \<and> parse_iso (str_of v) = Some end_at \<longrightarrow> now < end_at)"
  shows "job_log_is_needed str_of r job now = Inr True"
proof (cases "st \<in> {JOB_PENDING, JOB_CLAIMED, JOB_RUNNING}")
  case True
  with assms(1) show ?thesis by (simp add: job_log_is_needed_def)
next
  case False
  with assms show ?thesis by (auto simp: job_log_is_needed_def split: option.split)
qed

lemma reference_step_keeps:
  assumes "reference_step str_of uid now item (refs, ws) = Inr (refs', ws')" "map_of refs i = Some True"
  shows "map_of refs' i = Some True"
  using assms
  by (cases item; cases "jget (case item of JObj r \<Rightarrow> r | _ \<Rightarrow> []) ''job''")
    (auto simp: reference_step_def Let_def res_map_def result_simps split: option.splits sum.splits if_splits)

lemma references_keep:
  "res_fold (reference_step str_of uid now) items (refs, ws) = Inr (refs', ws') \<Longrightarrow> map_of refs i = Some True \<Longrightarrow>
   map_of refs' i = Some True"
proof (induction items arbitrary: refs ws)
  case (Cons x items)
  then obtain r1 w1 where "reference_step str_of uid now x (refs, ws) = Inr (r1, w1)"
    "res_fold (reference_step str_of uid now) items (r1, w1) = Inr (refs', ws')"
    by (auto simp: result_simps)
  with Cons.IH Cons.prems(2) reference_step_keeps show ?case by metis
qed simp

lemma references_wanted:
  assumes "res_fold (reference_step str_of uid now) items (refs, ws) = Inr (refs', ws')"
    and "JObj r \<in> set items" "jget r ''job'' = JObj job"
    and "uuid_text (str_of (jget_default r ''id'' (JStr []))) = Some i"
    and "py_int_json (jget_default r ''uid'' (JInt (-1))) = Inr (Some uid)"
    and "job_log_is_needed str_of r job now = Inr True"
  shows "map_of refs' i = Some True"
  using assms(1,2)
proof (induction items arbitrary: refs ws)
  case (Cons x items)
  then obtain r1 w1 where step: "reference_step str_of uid now x (refs, ws) = Inr (r1, w1)"
    "res_fold (reference_step str_of uid now) items (r1, w1) = Inr (refs', ws')"
    by (auto simp: result_simps)
  show ?case
  proof (cases "x = JObj r")
    case True
    with step(1) assms(3-6) have "map_of r1 i = Some True" by (auto simp: reference_step_def)
    with step(2) show ?thesis by (rule references_keep)
  next
    case False
    with Cons step(2) show ?thesis by auto
  qed
qed simp

lemma job_log_references_wanted:
  "job_log_references str_of ledger uid now = Inr (refs, ws) \<Longrightarrow> log_wanted str_of ledger uid now i \<Longrightarrow>
   map_of refs i = Some True"
  unfolding job_log_references_def log_wanted_def
  by (elim exE conjE) (auto intro: references_wanted job_log_is_needed_wanted simp del: insert_iff)

lemma add_to_group_names:
  "(j, names) \<in> set (add_to_group i name gs) \<Longrightarrow> n \<in> set names \<Longrightarrow>
   (j = i \<and> n = name) \<or> (\<exists>ns. (j, ns) \<in> set gs \<and> n \<in> set ns)"
  by (induction i name gs rule: add_to_group.induct) (auto split: if_splits)

lemma log_groups_ids:
  "(i, names) \<in> set (log_groups dir) \<Longrightarrow> n \<in> set names \<Longrightarrow> reservation_id_from_log_filename n = Some i"
proof -
  have "(\<And>i names n. (i, names) \<in> set gs \<Longrightarrow> n \<in> set names \<Longrightarrow> reservation_id_from_log_filename n = Some i) \<Longrightarrow>
    (i, names) \<in> set (fold (\<lambda>(name, _) gs. case reservation_id_from_log_filename name of
       None \<Rightarrow> gs | Some i \<Rightarrow> add_to_group i name gs) dir gs) \<Longrightarrow> n \<in> set names \<Longrightarrow>
    reservation_id_from_log_filename n = Some i" for gs
  proof (induction dir arbitrary: gs)
    case (Cons x dir)
    obtain name f where x: "x = (name, f)" by fastforce
    let ?gs = "case reservation_id_from_log_filename name of None \<Rightarrow> gs | Some i \<Rightarrow> add_to_group i name gs"
    have "reservation_id_from_log_filename n' = Some j" if "(j, ns) \<in> set ?gs" "n' \<in> set ns" for j ns n'
      using that Cons.prems(1) by (auto split: option.splits dest!: add_to_group_names)
    with Cons.IH [of ?gs] Cons.prems(2,3) x show ?case by auto
  qed auto
  from this [of "[]"] show "(i, names) \<in> set (log_groups dir) \<Longrightarrow> n \<in> set names \<Longrightarrow> reservation_id_from_log_filename n = Some i"
    by (simp add: log_groups_def)
qed


lemma add_to_group_fst: "set (map fst (add_to_group i name gs)) = insert i (set (map fst gs))"
  by (induction i name gs rule: add_to_group.induct) auto

lemma add_to_group_distinct: "distinct (map fst gs) \<Longrightarrow> distinct (map fst (add_to_group i name gs))"
proof (induction i name gs rule: add_to_group.induct)
  case (2 i name j names gs)
  then show ?case using add_to_group_fst [of i name gs] by auto
qed simp

lemma add_to_group_has:
  "\<exists>ns. (i, ns) \<in> set (add_to_group i name gs) \<and> name \<in> set ns"
  "(j, ns) \<in> set gs \<Longrightarrow> \<exists>ns'. (j, ns') \<in> set (add_to_group i name gs) \<and> set ns \<subseteq> set ns'"
  by (induction i name gs rule: add_to_group.induct) auto

lemma log_groups_complete:
  "distinct (map fst (log_groups dir))
   \<and> ((name, f) \<in> set dir \<and> reservation_id_from_log_filename name = Some i \<longrightarrow>
      (\<exists>names. (i, names) \<in> set (log_groups dir) \<and> name \<in> set names))"
proof (induction dir rule: rev_induct)
  case (snoc x dir)
  obtain n g where x: "x = (n, g)" by fastforce
  show ?case
  proof (cases "reservation_id_from_log_filename n")
    case None
    with snoc x show ?thesis by (auto simp: log_groups_def)
  next
    case (Some j)
    then have "log_groups (dir @ [x]) = add_to_group j n (log_groups dir)" by (simp add: x log_groups_def)
    with snoc x Some add_to_group_distinct [of "log_groups dir" j n] add_to_group_has(1) [of j n "log_groups dir"]
      add_to_group_has(2) [of i _ "log_groups dir" j n]
    show ?thesis by (auto; blast)
  qed
qed (simp add: log_groups_def)

lemma unlink_all_effect:
  "unlink_all fails names dir = (dir', ok) \<Longrightarrow>
   set dir' \<subseteq> set dir \<and> (\<forall>x \<in> set dir. x \<notin> set dir' \<longrightarrow> fst x \<in> set names)
   \<and> (ok \<longrightarrow> (\<forall>x \<in> set dir'. fst x \<notin> set names)) \<and> (distinct (map fst dir) \<longrightarrow> distinct (map fst dir'))
   \<and> ((\<forall>n. \<not> fails n) \<longrightarrow> ok)"
proof (induction fails names dir rule: unlink_all.induct)
  case (2 fails name names dir)
  show ?case
  proof (cases "fails name")
    case True
    with 2 show ?thesis by auto
  next
    case False
    let ?d = "filter (\<lambda>(n, _). n \<noteq> name) dir"
    from False 2 have "unlink_all fails names ?d = (dir', ok)" by simp
    note ih = "2.IH" [OF False this]
    have sub: "set ?d \<subseteq> set dir" and named: "\<forall>x \<in> set ?d. fst x \<noteq> name" by auto
    have rest: "\<forall>x \<in> set ?d. x \<notin> set dir' \<longrightarrow> fst x \<in> set names" using ih by blast
    have "fst x \<in> set (name # names)" if "x \<in> set dir" "x \<notin> set dir'" for x
      using rest [rule_format, of x] that by (cases "fst x = name") (simp_all add: case_prod_unfold)
    moreover have "ok \<longrightarrow> (\<forall>x \<in> set dir'. fst x \<notin> set (name # names))" using ih named by auto
    moreover have "distinct (map fst dir) \<longrightarrow> distinct (map fst dir')" using ih by (simp add: distinct_map_filter)
    ultimately show ?thesis using ih sub by blast
  qed
qed auto

lemma remove_log_group_effect:
  assumes "remove_log_group F uid names dir = (dir', e)"
  shows "set dir' \<subseteq> set dir \<and> (\<forall>x \<in> set dir. x \<notin> set dir' \<longrightarrow> fst x \<in> set names)
    \<and> (e = None \<longrightarrow> (\<forall>x \<in> set dir'. fst x \<notin> set names)) \<and> (distinct (map fst dir) \<longrightarrow> distinct (map fst dir'))"
proof (cases "group_issues dir uid (filter (\<lambda>name. map_of dir name \<noteq> None) names)")
  case Nil
  with assms obtain ok where u: "unlink_all (cf_unlink F) (filter (\<lambda>name. map_of dir name \<noteq> None) names) dir = (dir', ok)"
    "e = None \<longrightarrow> ok"
    by (auto simp: remove_log_group_def Let_def split: prod.splits bool.splits if_splits)
  have "map_of dir n \<noteq> None" if "(n, f) \<in> set dir" for n f using weak_map_of_SomeI [OF that] by auto
  with unlink_all_effect [OF u(1)] u(2) show ?thesis by fastforce
next
  case (Cons issue rest)
  with assms show ?thesis by (auto simp: remove_log_group_def)
qed


text \<open>
  A stage of the cleanup: the directory has only lost files of groups that may go, and the groups
  still listed are the ones that were there, less those that are gone altogether.
\<close>

definition cleaning :: "log_directory \<Rightarrow> log_group list \<Rightarrow> cleanup_state \<Rightarrow> bool" where
  "cleaning dir safe s \<longleftrightarrow>
     set (cs_dir s) \<subseteq> set dir \<and> distinct (map fst (cs_dir s))
     \<and> (\<forall>x \<in> set dir. x \<notin> set (cs_dir s) \<longrightarrow> (\<exists>g \<in> set safe. \<not> lg_needed g \<and> fst x \<in> set (lg_names g)))
     \<and> set (cs_groups s) \<subseteq> set safe
     \<and> (\<forall>g \<in> set safe. g \<notin> set (cs_groups s) \<longrightarrow> (\<forall>x \<in> set (cs_dir s). fst x \<notin> set (lg_names g)))"

lemma remove_step_cleaning:
  assumes "cleaning dir safe s" "g \<in> set safe" "\<not> lg_needed g" "distinct (map lg_id safe)"
  shows "cleaning dir safe (remove_step F uid g s)"
proof -
  obtain d e where r: "remove_log_group F uid (lg_names g) (cs_dir s) = (d, e)" by fastforce
  note eff = remove_log_group_effect [OF r]
  have same: "h = g" if "h \<in> set safe" "lg_id h = lg_id g" for h
    using assms(2,4) that by (auto simp: distinct_map dest: inj_onD)
  have files: "set d \<subseteq> set dir" "distinct (map fst d)"
    "\<forall>x \<in> set dir. x \<notin> set d \<longrightarrow> (\<exists>g \<in> set safe. \<not> lg_needed g \<and> fst x \<in> set (lg_names g))"
    using assms(1-3) eff unfolding cleaning_def by blast+
  show ?thesis
  proof (cases e)
    case None
    have "\<forall>h \<in> set safe. h \<notin> set (filter (\<lambda>h. lg_id h \<noteq> lg_id g) (cs_groups s)) \<longrightarrow> (\<forall>x \<in> set d. fst x \<notin> set (lg_names h))"
    proof (intro ballI impI)
      fix h x assume h: "h \<in> set safe" "h \<notin> set (filter (\<lambda>h. lg_id h \<noteq> lg_id g) (cs_groups s))" and x: "x \<in> set d"
      show "fst x \<notin> set (lg_names h)"
      proof (cases "h = g")
        case True
        with eff None x show ?thesis by blast
      next
        case False
        with h same have "h \<notin> set (cs_groups s)" by auto
        with assms(1) h eff x show ?thesis unfolding cleaning_def by blast
      qed
    qed
    with None r files assms(1) show ?thesis by (auto simp: remove_step_def cleaning_def)
  next
    case (Some m)
    have "\<forall>h \<in> set safe. h \<notin> set (cs_groups s) \<longrightarrow> (\<forall>x \<in> set d. fst x \<notin> set (lg_names h))"
      using assms(1) eff unfolding cleaning_def by blast
    with Some r files assms(1) show ?thesis by (auto simp: remove_step_def cleaning_def)
  qed
qed

lemma retention_pass_cleaning:
  assumes "cleaning dir safe s" "set gs \<subseteq> set safe" "distinct (map lg_id safe)"
  shows "cleaning dir safe (retention_pass F uid cutoff gs s)"
  using assms
proof (induction gs arbitrary: s)
  case (Cons g gs)
  with remove_step_cleaning [of dir safe s g F uid] show ?case by (auto simp: retention_pass_def)
qed (simp add: retention_pass_def)

lemma quota_pass_cleaning:
  assumes "cleaning dir safe s" "set gs \<subseteq> {g \<in> set safe. \<not> lg_needed g}" "distinct (map lg_id safe)"
  shows "cleaning dir safe (quota_pass F uid quota gs s)"
  using assms
proof (induction F uid quota gs s rule: quota_pass.induct)
  case (2 F uid quota g gs s)
  with remove_step_cleaning [of dir safe s g F uid] show ?case by auto
qed simp

lemma cleaning_total [simp]: "cleaning dir safe (s\<lparr>cs_total := n\<rparr>) = cleaning dir safe s"
  by (simp add: cleaning_def)


lemma map_filter_Nil: "List.map_filter f xs = [] \<longleftrightarrow> (\<forall>x \<in> set xs. f x = None)"
  by (induction xs) (auto simp: List.map_filter_simps split: option.splits)

lemma group_issues_Nil:
  "group_issues dir uid names = [] \<longleftrightarrow>
   (\<forall>n \<in> set names. \<forall>f. map_of dir n = Some f \<longrightarrow> job_log_file_issue uid f = None)"
  by (auto simp: group_issues_def group_files_def map_filter_Nil set_map_filter)

definition faultless_cleanup :: "cleanup_faults \<Rightarrow> bool" where
  "faultless_cleanup F \<longleftrightarrow> (\<forall>n. \<not> cf_unlink F n) \<and> (\<forall>ns. \<not> cf_sync F ns)"

lemma remove_step_groups: "set (cs_groups (remove_step F uid g s)) \<subseteq> set (cs_groups s)"
  by (auto simp: remove_step_def split: prod.splits option.splits)

lemma remove_step_drops:
  assumes "faultless_cleanup F" "cleaning dir safe s" "distinct (map fst dir)" "group_issues dir uid (lg_names g) = []"
  shows "g \<notin> set (cs_groups (remove_step F uid g s))"
proof -
  let ?ex = "filter (\<lambda>name. map_of (cs_dir s) name \<noteq> None) (lg_names g)"
  have "map_of dir n = Some f" if "map_of (cs_dir s) n = Some f" for n f
    using that assms(2,3) by (auto simp: cleaning_def dest!: map_of_SomeD intro: map_of_is_SomeI)
  with assms(4) have "group_issues (cs_dir s) uid ?ex = []" by (auto simp: group_issues_Nil)
  moreover obtain d ok where "unlink_all (cf_unlink F) ?ex (cs_dir s) = (d, ok)" by fastforce
  moreover from this assms(1) have ok by (auto simp: faultless_cleanup_def dest: unlink_all_effect)
  ultimately have "remove_log_group F uid (lg_names g) (cs_dir s) = (d, None)"
    using assms(1) by (simp add: remove_log_group_def faultless_cleanup_def)
  then show ?thesis by (simp add: remove_step_def)
qed

lemma quota_pass_groups: "set (cs_groups (quota_pass F uid quota gs s)) \<subseteq> set (cs_groups s)"
proof (induction F uid quota gs s rule: quota_pass.induct)
  case (2 F uid quota g gs s)
  then show ?case using remove_step_groups [of F uid g s] by auto
qed simp

lemma quota_pass_exhausts:
  assumes "faultless_cleanup F" "cleaning dir safe s" "distinct (map fst dir)" "distinct (map lg_id safe)"
    and "set gs \<subseteq> {g \<in> set safe. \<not> lg_needed g}"
    and "\<forall>g \<in> set safe. group_issues dir uid (lg_names g) = []"
    and "quota < cs_total (quota_pass F uid quota gs s)"
  shows "set gs \<inter> set (cs_groups (quota_pass F uid quota gs s)) = {}"
  using assms
proof (induction F uid quota gs s rule: quota_pass.induct)
  case (2 F uid quota g gs s)
  then have over: "\<not> cs_total s \<le> quota" by (auto split: if_splits)
  from "2.prems" have g: "g \<in> set safe" "\<not> lg_needed g" by auto
  note rest = remove_step_cleaning [OF "2.prems"(2) g "2.prems"(4)]
  have "g \<notin> set (cs_groups (remove_step F uid g s))"
    using remove_step_drops [OF "2.prems"(1,2,3)] "2.prems"(6) g(1) by blast
  then have "g \<notin> set (cs_groups (quota_pass F uid quota gs (remove_step F uid g s)))"
    using quota_pass_groups [of F uid quota gs] by blast
  moreover have "set gs \<inter> set (cs_groups (quota_pass F uid quota gs (remove_step F uid g s))) = {}"
    using "2.IH" [OF over "2.prems"(1) rest "2.prems"(3,4)] "2.prems"(5-7) over by simp
  ultimately show ?case using over by auto
qed simp


lemma safe_group_fields [simp]:
  "lg_id (safe_group dir refs g) = fst g" "lg_names (safe_group dir refs g) = snd g"
  "lg_needed (safe_group dir refs g) = (map_of refs (fst g) = Some True)"
  by (simp_all add: safe_group_def Let_def)

text \<open>The stages of a cleanup, as one fact.\<close>

lemma cleanup_stages:
  assumes "cleanup_job_logs str_of F retention_days total_max_mb ledger uid now dir = Inr (dir', res)"
    and "distinct (map fst dir)"
  obtains refs ws final where
    "job_log_references str_of ledger uid now = Inr (refs, ws)"
    "cleaning dir (safe_groups dir uid refs) final" "cs_dir final = dir'"
    "0 < cr_quota_excess res \<and> faultless_cleanup F \<Longrightarrow> \<forall>g \<in> set (cs_groups final). lg_needed g"
proof -
  from assms(1) obtain refs ws where refs: "job_log_references str_of ledger uid now = Inr (refs, ws)"
    unfolding cleanup_job_logs_def by (elim res_bind_pairE) blast
  define safe where "safe = safe_groups dir uid refs"
  define after where "after = apply_retention F uid now retention_days (cleanup_start dir uid refs ws)"
  define kept where "kept = after\<lparr>cs_total := sum_list (map (\<lambda>g. unsafe_size dir (snd g)) (unsafe_groups dir uid))
    + sum_list (map lg_size (cs_groups after))\<rparr>"
  define quota where "quota = nat (int total_max_mb * MIB)"
  define final where "final = apply_quota F uid quota kept"
  from assms(1) have res: "cs_dir final = dir'"
    "cr_quota_excess res = (if quota \<noteq> 0 then cs_total final - quota else 0)"
    unfolding cleanup_job_logs_def refs res_bind_Inr prod.case Let_def
      after_def [symmetric] kept_def [symmetric] quota_def [symmetric] final_def [symmetric]
    by (auto simp del: MIB_def)
  have ids: "distinct (map lg_id safe)"
    using log_groups_complete [of dir] by (simp add: safe_def safe_groups_def comp_def distinct_map_filter)
  have clean: "\<forall>g \<in> set safe. group_issues dir uid (lg_names g) = []" by (auto simp: safe_def safe_groups_def)
  have "cleaning dir safe (cleanup_start dir uid refs ws)"
    using assms(2) by (auto simp: cleaning_def cleanup_start_def safe_def)
  then have kept: "cleaning dir safe kept"
    using ids by (simp add: kept_def after_def apply_retention_def Let_def retention_pass_cleaning cleanup_start_def safe_def)
  then have cand: "set (quota_candidates (cs_groups kept)) \<subseteq> {g \<in> set safe. \<not> lg_needed g}"
    unfolding cleaning_def quota_candidates_def set_sort set_filter by blast
  have fin: "cleaning dir safe final"
    using kept quota_pass_cleaning [OF kept cand ids] by (simp add: final_def apply_quota_def)
  have "lg_needed g" if "0 < cr_quota_excess res \<and> faultless_cleanup F" "g \<in> set (cs_groups final)" for g
  proof (rule ccontr)
    assume "\<not> lg_needed g"
    from that(1) res(2) have over: "quota \<noteq> 0" "quota < cs_total final" by (auto split: if_splits)
    then have f: "final = quota_pass F uid quota (quota_candidates (cs_groups kept)) kept"
      by (auto simp: final_def apply_quota_def split: if_splits)
    with that(2) have "g \<in> set (cs_groups kept)" using quota_pass_groups by blast
    with \<open>\<not> lg_needed g\<close> have "g \<in> set (quota_candidates (cs_groups kept))" by (simp add: quota_candidates_def)
    with quota_pass_exhausts [OF _ kept assms(2) ids cand clean, of F quota] that over f show False by blast
  qed
  then show thesis using refs fin [unfolded safe_def] res(1) by (intro that [of refs ws final]) blast+
qed

text \<open>
  C24: Cleaning up private job logs removes nothing that is needed. Only log files of the user are
  removed, private regular ones, and none of a reservation whose job is pending, claimed, running
  or can still be retried; files that are not logs, and logs that fail the checks, stay. When the
  logs still exceed the quota and no call of the operating system failed, every log left belongs to
  a reservation that is needed or has a file that failed the checks.
\<close>

theorem log_cleanup_safe:
  assumes "cleanup_job_logs str_of F retention_days total_max_mb ledger uid now dir = Inr (dir', res)"
    and "distinct (map fst dir)"
  shows "set dir' \<subseteq> set dir
    \<and> (\<forall>name f. (name, f) \<in> set dir \<and> (name, f) \<notin> set dir' \<longrightarrow>
         (\<exists>i. reservation_id_from_log_filename name = Some i \<and> \<not> log_wanted str_of ledger uid now i
              \<and> job_log_file_issue uid f = None))
    \<and> (faultless_cleanup F \<and> 0 < cr_quota_excess res \<longrightarrow>
        (\<forall>name f i. (name, f) \<in> set dir' \<and> reservation_id_from_log_filename name = Some i \<longrightarrow>
           (\<exists>refs ws. job_log_references str_of ledger uid now = Inr (refs, ws) \<and> map_of refs i = Some True)
           \<or> (\<exists>n g. (n, g) \<in> set dir \<and> reservation_id_from_log_filename n = Some i
                \<and> job_log_file_issue uid g \<noteq> None)))"
proof -
  obtain refs ws final where refs: "job_log_references str_of ledger uid now = Inr (refs, ws)"
    and fin: "cleaning dir (safe_groups dir uid refs) final" "cs_dir final = dir'"
    and quota: "0 < cr_quota_excess res \<and> faultless_cleanup F \<Longrightarrow> \<forall>g \<in> set (cs_groups final). lg_needed g"
    by (rule cleanup_stages [OF assms]) blast
  have gone: "\<exists>i. reservation_id_from_log_filename name = Some i \<and> \<not> log_wanted str_of ledger uid now i
      \<and> job_log_file_issue uid f = None" if x: "(name, f) \<in> set dir" "(name, f) \<notin> set dir'" for name f
  proof -
    from fin x obtain g where "g \<in> set (safe_groups dir uid refs)" "\<not> lg_needed g" "name \<in> set (lg_names g)"
      unfolding cleaning_def by force
    then obtain i names where g: "(i, names) \<in> set (log_groups dir)" "group_issues dir uid names = []"
      "map_of refs i \<noteq> Some True" "name \<in> set names" by (auto simp: safe_groups_def)
    moreover have "map_of dir name = Some f" using x(1) assms(2) by simp
    ultimately show ?thesis using log_groups_ids [OF g(1,4)] job_log_references_wanted [OF refs, of i]
      by (auto simp: group_issues_Nil)
  qed
  have left: "map_of refs i = Some True \<or> (\<exists>n g. (n, g) \<in> set dir \<and> reservation_id_from_log_filename n = Some i
      \<and> job_log_file_issue uid g \<noteq> None)"
    if q: "faultless_cleanup F \<and> 0 < cr_quota_excess res" and x: "(name, f) \<in> set dir'"
      "reservation_id_from_log_filename name = Some i" for name f i
  proof -
    have "(name, f) \<in> set dir" using fin x(1) by (auto simp: cleaning_def)
    with x(2) log_groups_complete obtain names where names: "(i, names) \<in> set (log_groups dir)" "name \<in> set names"
      by blast
    show ?thesis
    proof (cases "group_issues dir uid names = []")
      case True
      then have "safe_group dir refs (i, names) \<in> set (safe_groups dir uid refs)" using names by (auto simp: safe_groups_def)
      with fin x(1) names(2) have "safe_group dir refs (i, names) \<in> set (cs_groups final)"
        unfolding cleaning_def by force
      with quota q show ?thesis by fastforce
    next
      case False
      then obtain n g where "n \<in> set names" "map_of dir n = Some g" "job_log_file_issue uid g \<noteq> None"
        by (auto simp: group_issues_Nil)
      with log_groups_ids [OF names(1)] show ?thesis by (blast dest: map_of_SomeD)
    qed
  qed
  have "set dir' \<subseteq> set dir" using fin by (auto simp: cleaning_def)
  with gone left refs show ?thesis by blast
qed


definition sample_log :: "nat list \<Rightarrow> log_file" where
  "sample_log data = \<lparr>lf_regular = True, lf_links = 1, lf_uid = 1000, lf_mode = 384, lf_modified = 0, lf_data = data\<rparr>"

text \<open>An old log without a reservation goes, the log of a running job stays.\<close>

definition sample_logs :: log_directory where
  "sample_logs = [(''00000000-0000-0000-0000-000000000001.log'', sample_log [1]),
                  (''00000000-0000-0000-0000-000000000002.log'', sample_log [2])]"

definition sample_log_ledger :: "(string \<times> json) list" where
  "sample_log_ledger = [(''reservations'', JArr [JObj
     [(''id'', JStr ''00000000-0000-0000-0000-000000000002''), (''uid'', JInt 1000),
      (''job'', JObj [(''status'', JStr ''running'')])]])]"

definition plain_text :: "json \<Rightarrow> string" where
  "plain_text v = (case v of JStr s \<Rightarrow> s | _ \<Rightarrow> [])"

theorem log_cleanup_safe_witness:
  "\<exists>dir' res. cleanup_job_logs plain_text \<lparr>cf_unlink = \<lambda>_. False, cf_sync = \<lambda>_. False\<rparr> 30 0 sample_log_ledger 1000
       (days 365) sample_logs = Inr (dir', res)
     \<and> map fst dir' = [''00000000-0000-0000-0000-000000000002.log''] \<and> set dir' \<subseteq> set sample_logs"
proof -
  have "case cleanup_job_logs plain_text \<lparr>cf_unlink = \<lambda>_. False, cf_sync = \<lambda>_. False\<rparr> 30 0 sample_log_ledger 1000
      (days 365) sample_logs of Inl _ \<Rightarrow> False
    | Inr (dir', res) \<Rightarrow> map fst dir' = [''00000000-0000-0000-0000-000000000002.log'']"
    by code_simp
  then obtain dir' res where c: "cleanup_job_logs plain_text \<lparr>cf_unlink = \<lambda>_. False, cf_sync = \<lambda>_. False\<rparr> 30 0
      sample_log_ledger 1000 (days 365) sample_logs = Inr (dir', res)"
    "map fst dir' = [''00000000-0000-0000-0000-000000000002.log'']"
    by (auto split: sum.splits)
  have "distinct (map fst sample_logs)" by (simp add: sample_logs_def)
  from log_cleanup_safe [OF c(1) this] have "set dir' \<subseteq> set sample_logs" by (rule conjunct1)
  with c show ?thesis by (intro exI conjI)
qed

end
