(* ===== verification/Allocator.thy ===== *)
theory Allocator
  imports Placement Ledger_Ops Config_Load
begin

text \<open>
  \<^verbatim>\<open>bk/allocator.py\<close>: asking an external program for an order of the GPUs. The pipes of the
  program are a list of turns of the selector loop, each with the clock reading and what the ready
  streams did; the exit of the program, the JSON text functions, the decoders of bytes and the
  binary64 arithmetic of scores are arguments. Starting and killing the process are not modelled.
  The advice of \<^verbatim>\<open>advisor.py\<close> is its order, its scores, its JSON form and the index and total
  memory of each snapshot.
\<close>

definition ALLOCATOR_SCHEMA_VERSION :: string where "ALLOCATOR_SCHEMA_VERSION = ''bk.allocator.v1''"
definition MAX_ALLOCATOR_OUTPUT_BYTES :: nat where "MAX_ALLOCATOR_OUTPUT_BYTES = 64 * 1024"
definition MAX_ALLOCATOR_STDERR_BYTES :: nat where "MAX_ALLOCATOR_STDERR_BYTES = 8 * 1024"

record gpu_advice =
  ga_generated_at :: datetime
  ga_order :: "int list"
  ga_scores :: "(int \<times> rat) list"
  ga_dict :: json
  ga_memory_totals :: "(int \<times> int) list"

definition memory_capacities_mb :: "gpu_advice \<Rightarrow> (int \<times> int) list" where
  "memory_capacities_mb advice = filter (\<lambda>(_, mb). mb > 0) (ga_memory_totals advice)"

record allocator_decision =
  ad_order :: "int list"
  ad_scores :: "(int \<times> rat) list"
  ad_source :: string
  ad_reason :: string
  ad_warning :: string


section \<open>The pipes\<close>

text \<open>What one ready stream did in a turn; an empty chunk is the end of the stream.\<close>

datatype pipe_event =
    Wrote nat
  | BrokenPipe
  | WriteFailed
  | OutChunk "nat list"
  | ErrChunk "nat list"
  | WouldBlock
  | ReadFailed

record pipes =
  pp_stdin :: bool
  pp_stdout :: bool
  pp_stderr :: bool
  pp_offset :: nat
  pp_out :: "nat list"
  pp_err :: "nat list"

definition append_bounded_tail :: "nat list \<Rightarrow> nat list \<Rightarrow> nat \<Rightarrow> nat list" where
  "append_bounded_tail buffer chunk limit =
     (if length chunk \<ge> limit then drop (length chunk - limit) chunk
      else let overflow = length buffer + length chunk - limit in drop overflow buffer @ chunk)"

datatype allocator_error =
    AllocatorTimeout
  | AllocatorOSError
  | AllocatorUnicodeError
  | AllocatorJSONError
  | AllocatorRecursionError
  | AllocatorValueError string

definition pipe_step :: "nat \<Rightarrow> pipe_event \<Rightarrow> pipes \<Rightarrow> (allocator_error, pipes) result" where
  "pipe_step payload_bytes event p =
     (case event of
        Wrote n \<Rightarrow>
          (let offset = pp_offset p + n
           in Inr (p\<lparr>pp_offset := offset, pp_stdin := (if offset \<ge> payload_bytes then False else pp_stdin p)\<rparr>))
      | BrokenPipe \<Rightarrow> Inr (p\<lparr>pp_stdin := False\<rparr>)
      | WriteFailed \<Rightarrow> Inl AllocatorOSError
      | WouldBlock \<Rightarrow> Inr p
      | ReadFailed \<Rightarrow> Inl AllocatorOSError
      | OutChunk chunk \<Rightarrow>
          (if chunk = [] then Inr (p\<lparr>pp_stdout := False\<rparr>)
           else let keep = MAX_ALLOCATOR_OUTPUT_BYTES + 1 - length (pp_out p);
                    out = pp_out p @ take keep chunk
                in raise_if (length out > MAX_ALLOCATOR_OUTPUT_BYTES)
                     (AllocatorValueError ''allocator output exceeded 64 KiB'') (Inr (p\<lparr>pp_out := out\<rparr>)))
      | ErrChunk chunk \<Rightarrow>
          (if chunk = [] then Inr (p\<lparr>pp_stderr := False\<rparr>)
           else Inr (p\<lparr>pp_err := append_bounded_tail (pp_err p) chunk MAX_ALLOCATOR_STDERR_BYTES\<rparr>)))"

definition pipes_open :: "pipes \<Rightarrow> bool" where
  "pipes_open p \<longleftrightarrow> pp_stdin p \<or> pp_stdout p \<or> pp_stderr p"

text \<open>
  The loop, one turn after the other; \<open>None\<close> when the turns run out with a pipe open.
\<close>

fun pump_pipes ::
  "timedelta \<Rightarrow> nat \<Rightarrow> (timedelta \<times> pipe_event list) list \<Rightarrow> pipes \<Rightarrow> (allocator_error, pipes) result option" where
  "pump_pipes deadline payload_bytes turns p =
     (if \<not> pipes_open p then Some (Inr p)
      else case turns of
        [] \<Rightarrow> None
      | (now, events) # rest \<Rightarrow>
          if deadline - now \<le> 0 then Some (Inl AllocatorTimeout)
          else (case res_fold (pipe_step payload_bytes) events p of
                  Inl e \<Rightarrow> Some (Inl e)
                | Inr p \<Rightarrow> pump_pipes deadline payload_bytes rest p))"

declare pump_pipes.simps [simp del]

text \<open>
  After the pipes: the clock reading, and the exit code when the program ends within the time
  left (\<open>None\<close>: it does not).
\<close>

record allocator_run =
  ar_turns :: "(timedelta \<times> pipe_event list) list"
  ar_end_now :: timedelta
  ar_returncode :: "int option"

text \<open>
  What \<^verbatim>\<open>json.loads\<close> makes of a text: a value, an error of the format, or a \<^verbatim>\<open>RecursionError\<close> for a
  text that nests too deeply. The text of a value may nest too deeply as well (\<open>None\<close>).
\<close>

datatype loaded = Loaded json | NotJson | NestsTooDeep

record codecs =
  decode_strict :: "nat list \<Rightarrow> string option"
  decode_replace :: "nat list \<Rightarrow> string"
  cd_loads :: "string \<Rightarrow> loaded"
  cd_str :: "json \<Rightarrow> string option"
  cd_splitlines :: "string \<Rightarrow> string list"
  cd_exception_text :: "allocator_error \<Rightarrow> string"

definition open_pipes :: pipes where
  "open_pipes = \<lparr>pp_stdin = True, pp_stdout = True, pp_stderr = True, pp_offset = 0, pp_out = [], pp_err = []\<rparr>"

definition run_allocator_process ::
  "codecs \<Rightarrow> timedelta \<Rightarrow> nat \<Rightarrow> allocator_run \<Rightarrow> (allocator_error, int \<times> string \<times> string) result option" where
  "run_allocator_process cd deadline payload_bytes run =
     (case pump_pipes deadline payload_bytes (ar_turns run) open_pipes of
        None \<Rightarrow> None
      | Some (Inl e) \<Rightarrow> Some (Inl e)
      | Some (Inr p) \<Rightarrow>
          Some (raise_if (deadline - ar_end_now run \<le> 0) AllocatorTimeout
            (case ar_returncode run of
               None \<Rightarrow> Inl AllocatorTimeout
             | Some code \<Rightarrow>
                 (case decode_strict cd (pp_out p) of
                    None \<Rightarrow> Inl AllocatorUnicodeError
                  | Some out \<Rightarrow> Inr (code, out, decode_replace cd (pp_err p))))))"


section \<open>Request and response\<close>

definition payload_reservation :: "int \<Rightarrow> reservation \<Rightarrow> json" where
  "payload_reservation capacity r =
     JObj [(''uid'', JInt (rs_uid r)), (''gpus'', JArr (map JInt (rs_gpus r))), (''mode'', JStr (rs_mode r)),
       (''start_at'', JStr (to_iso (rs_start_at r))), (''end_at'', JStr (to_iso (rs_end_at r))),
       (''expected_memory_mb_per_gpu'', jint_option (rs_expected_memory_mb r)),
       (''share_units_per_gpu'',
         if rs_mode r = MODE_SHARED then JInt (reservation_share_units r capacity) else JNull)]"

record allocation_request =
  aq_count :: int
  aq_duration_seconds :: int
  aq_start_at :: datetime
  aq_mode :: string
  aq_expected_memory_mb :: "int option"
  aq_share_units :: int
  aq_excluded_gpus :: "int list option"

definition allocator_payload ::
  "config \<Rightarrow> rat \<Rightarrow> ledger \<Rightarrow> actor \<Rightarrow> gpu_advice \<Rightarrow> allocation_request \<Rightarrow> json" where
  "allocator_payload c weight l actor advice q =
     JObj [(''schema_version'', JStr ALLOCATOR_SCHEMA_VERSION),
       (''kind'', JStr ''allocation_request''),
       (''generated_at'', JStr (to_iso (ga_generated_at advice))),
       (''actor'', JObj [(''uid'', JInt (actor_uid actor))]),
       (''request'', JObj
         [(''count'', JInt (aq_count q)), (''duration_seconds'', JInt (aq_duration_seconds q)),
          (''start_at'', JStr (to_iso (aq_start_at q))), (''mode'', JStr (aq_mode q)),
          (''expected_memory_mb_per_gpu'', jint_option (aq_expected_memory_mb q)),
          (''share_units_per_gpu'', if aq_mode q = MODE_SHARED then JInt (aq_share_units q) else JNull),
          (''excluded_gpus'', JArr (map JInt (case aq_excluded_gpus q of None \<Rightarrow> [] | Some gs \<Rightarrow> gs)))]),
       (''policy'', JObj
         [(''gpu_count'', JInt (gpu_count c)), (''enabled_gpus'', JArr (map JInt (enabled_gpus c))),
          (''disabled_gpus'', JArr (map JInt (disabled_gpus c))),
          (''gpu_priority'', JObj (map (\<lambda>(g, p). (show_int g, JInt p)) (gpu_priority c))),
          (''granularity_minutes'', JInt (slot_minutes c)),
          (''max_shared_reservations_per_gpu'', JInt (max_shared_users c)),
          (''shared_capacity_units_per_gpu'', JInt (max_shared_users c)),
          (''shared_memory_reserve_mb'', JInt (shared_memory_reserve_mb c)),
          (''local_score_is_authoritative_for_safety'', JBool True),
          (''allocator_weight'', JFloat weight)]),
       (''builtin_advice'', ga_dict advice),
       (''reservations'', JArr (map (payload_reservation (max_shared_users c)) (list_active l (aq_start_at q)))),
       (''response_contract'', JObj
         [(''schema_version'', JStr ALLOCATOR_SCHEMA_VERSION),
          (''gpu_order'', JStr ''permutation of every configured GPU index''),
          (''eligibility'', JStr ''disabled and request-excluded GPUs are never selectable''),
          (''reason'', JStr ''optional privacy-safe text, max 500 chars'')])]"

definition integer_items :: "json list \<Rightarrow> int list option" where
  "integer_items xs = those (map (\<lambda>v. case v of JInt n \<Rightarrow> Some n | _ \<Rightarrow> None) xs)"

text \<open>\<^verbatim>\<open>any(ord(char) < 32 and char not in "\t" for char in reason)\<close>\<close>

definition has_control_but_tab :: "string \<Rightarrow> bool" where
  "has_control_but_tab s \<longleftrightarrow> has_control (filter (\<lambda>ch. ch \<noteq> CHR 0x09) s)"

definition validate_allocator_response :: "codecs \<Rightarrow> json \<Rightarrow> int \<Rightarrow> (allocator_error, int list \<times> string) result" where
  "validate_allocator_response cd response n =
     (case response of
        JObj d \<Rightarrow>
          raise_if (jget d ''schema_version'' \<noteq> JStr ALLOCATOR_SCHEMA_VERSION)
            (AllocatorValueError ''allocator schema version mismatch'')
          (case jget d ''gpu_order'' of
             JArr raw \<Rightarrow>
               (case integer_items raw of
                  None \<Rightarrow> Inl (AllocatorValueError ''gpu_order must be an integer array'')
                | Some raw_order \<Rightarrow>
                    raise_if (\<not> distinct raw_order \<or> sort raw_order \<noteq> [0..n - 1])
                      (AllocatorValueError ''gpu_order must be a permutation of configured GPUs'')
                    (case cd_str cd (jget_default d ''reason'' (JStr [])) of
                       None \<Rightarrow> Inl AllocatorRecursionError
                     | Some text \<Rightarrow>
                         (let reason = py_strip text
                          in raise_if (length reason > 500 \<or> has_control_but_tab reason)
                               (AllocatorValueError ''allocator reason is invalid'') (Inr (raw_order, reason)))))
           | _ \<Rightarrow> Inl (AllocatorValueError ''gpu_order must be an integer array''))
      | _ \<Rightarrow> Inl (AllocatorValueError ''allocator response must be a JSON object''))"

text \<open>The text of an exception: the module's own messages, and the texts of the library's.\<close>

definition error_detail :: "codecs \<Rightarrow> allocator_error \<Rightarrow> string" where
  "error_detail cd e = (case e of AllocatorValueError m \<Rightarrow> m | _ \<Rightarrow> cd_exception_text cd e)"

definition exit_message :: "codecs \<Rightarrow> int \<Rightarrow> string \<Rightarrow> string" where
  "exit_message cd code err =
     (let stripped = py_strip err;
          detail = (if stripped \<noteq> [] then take 200 (last (cd_splitlines cd stripped)) else ''no stderr'')
      in ''allocator exited '' @ show_int code @ '': '' @ detail)"

text \<open>The body of the \<^verbatim>\<open>try\<close>: the program has to exit with 0 and answer with a valid order.\<close>

definition allocator_answer ::
  "codecs \<Rightarrow> int \<Rightarrow> (allocator_error, int \<times> string \<times> string) result \<Rightarrow> (allocator_error, int list \<times> string) result" where
  "allocator_answer cd n outcome =
     res_bind outcome (\<lambda>(code, out, err).
       raise_if (code \<noteq> 0) (AllocatorValueError (exit_message cd code err))
       (case cd_loads cd out of
          NotJson \<Rightarrow> Inl AllocatorJSONError
        | NestsTooDeep \<Rightarrow> Inl AllocatorRecursionError
        | Loaded response \<Rightarrow> validate_allocator_response cd response n))"

text \<open>
  \<^verbatim>\<open>scores[gpu] = round(scores[gpu] + rank * weight, 3)\<close> along the order, with \<open>adjust\<close> for the
  arithmetic; \<open>None\<close> is a \<^verbatim>\<open>KeyError\<close>.
\<close>

fun adjust_scores ::
  "(rat \<Rightarrow> nat \<Rightarrow> rat \<Rightarrow> rat) \<Rightarrow> rat \<Rightarrow> nat \<Rightarrow> int list \<Rightarrow> (int \<times> rat) list \<Rightarrow> (int \<times> rat) list option" where
  "adjust_scores adjust weight rank [] scores = Some scores"
| "adjust_scores adjust weight rank (gpu # order) scores =
     (case map_of scores gpu of
        None \<Rightarrow> None
      | Some score \<Rightarrow>
          adjust_scores adjust weight (rank + 1) order (AList.update gpu (adjust score rank weight) scores))"

definition builtin_decision :: "gpu_advice \<Rightarrow> string \<Rightarrow> string \<Rightarrow> allocator_decision" where
  "builtin_decision advice source warning =
     \<lparr>ad_order = ga_order advice, ad_scores = ga_scores advice, ad_source = source, ad_reason = [],
      ad_warning = warning\<rparr>"

text \<open>
  \<open>command\<close> is the configuration's \<^verbatim>\<open>allocator_command\<close>. \<open>None\<close> is the program still running. The handler
  catches every error but the \<^verbatim>\<open>RecursionError\<close>; a \<^verbatim>\<open>KeyError\<close> comes from the scores, behind it.
\<close>

datatype uncaught = UncaughtKeyError | UncaughtRecursionError

definition apply_external_allocator ::
  "codecs \<Rightarrow> (rat \<Rightarrow> nat \<Rightarrow> rat \<Rightarrow> rat) \<Rightarrow> string list option \<Rightarrow> config \<Rightarrow> rat \<Rightarrow> gpu_advice \<Rightarrow> timedelta \<Rightarrow> nat \<Rightarrow>
   allocator_run \<Rightarrow> (uncaught, allocator_decision) result option" where
  "apply_external_allocator cd adjust command c weight advice deadline payload_bytes run =
     (if command = None \<or> command = Some [] then Some (Inr (builtin_decision advice ''builtin'' []))
      else case run_allocator_process cd deadline payload_bytes run of
             None \<Rightarrow> None
           | Some outcome \<Rightarrow>
               Some (case allocator_answer cd (gpu_count c) outcome of
                  Inl e \<Rightarrow>
                    (if e = AllocatorRecursionError then Inl UncaughtRecursionError
                     else Inr (builtin_decision advice ''builtin-fallback''
                                 (''external allocator ignored: '' @ error_detail cd e)))
                | Inr (order, reason) \<Rightarrow>
                    (case adjust_scores adjust weight 0 order (ga_scores advice) of
                       None \<Rightarrow> Inl UncaughtKeyError
                     | Some scores \<Rightarrow> Inr \<lparr>ad_order = order, ad_scores = scores, ad_source = ''external'',
                                            ad_reason = reason, ad_warning = []\<rparr>)))"

text \<open>\<^verbatim>\<open>service.py\<close>: a request for fixed GPUs asks nobody.\<close>

definition allocation_decision ::
  "codecs \<Rightarrow> (rat \<Rightarrow> nat \<Rightarrow> rat \<Rightarrow> rat) \<Rightarrow> string list option \<Rightarrow> config \<Rightarrow> rat \<Rightarrow> gpu_advice \<Rightarrow> timedelta \<Rightarrow> nat \<Rightarrow>
   allocator_run \<Rightarrow> int list option \<Rightarrow> (uncaught, allocator_decision) result option" where
  "allocation_decision cd adjust command c weight advice deadline payload_bytes run preferred_gpus =
     (if preferred_gpus \<noteq> None then Some (Inr (builtin_decision advice ''fixed-gpu'' []))
      else apply_external_allocator cd adjust command c weight advice deadline payload_bytes run)"

end
