(* ===== verification/Allocator_Claims.thy ===== *)
theory Allocator_Claims
  imports Allocator Samples
begin

text \<open>
  The decisions of \<^verbatim>\<open>allocator.py\<close>: whatever the external program writes, and however its pipes
  behave, the service gets an order of the configured GPUs, and gets it once the clock has passed
  the deadline.
\<close>

section \<open>What a run of the program wrote\<close>

definition turn_events :: "(timedelta \<times> pipe_event list) list \<Rightarrow> pipe_event list" where
  "turn_events turns = concat (map snd turns)"

definition bytes_out :: "pipe_event list \<Rightarrow> nat list" where
  "bytes_out events = concat (map (\<lambda>e. case e of OutChunk b \<Rightarrow> b | _ \<Rightarrow> []) events)"

definition bytes_err :: "pipe_event list \<Rightarrow> nat list" where
  "bytes_err events = concat (map (\<lambda>e. case e of ErrChunk b \<Rightarrow> b | _ \<Rightarrow> []) events)"

definition keep_last :: "nat \<Rightarrow> 'a list \<Rightarrow> 'a list" where
  "keep_last n xs = drop (length xs - n) xs"

lemma turn_events_simps [simp]:
  "turn_events [] = []" "turn_events (t # turns) = snd t @ turn_events turns"
  by (simp_all add: turn_events_def)

lemma bytes_append [simp]:
  "bytes_out [] = []" "bytes_out (xs @ ys) = bytes_out xs @ bytes_out ys"
  "bytes_err [] = []" "bytes_err (xs @ ys) = bytes_err xs @ bytes_err ys"
  by (simp_all add: bytes_out_def bytes_err_def)

lemma bytes_Cons:
  "bytes_out (e # es) = (case e of OutChunk b \<Rightarrow> b | _ \<Rightarrow> []) @ bytes_out es"
  "bytes_err (e # es) = (case e of ErrChunk b \<Rightarrow> b | _ \<Rightarrow> []) @ bytes_err es"
  by (simp_all add: bytes_out_def bytes_err_def)

lemma length_keep_last: "length (keep_last n xs) \<le> n"
  by (simp add: keep_last_def)

lemma keep_last_all [simp]: "length xs \<le> n \<Longrightarrow> keep_last n xs = xs"
  by (simp add: keep_last_def)

lemma keep_last_append: "keep_last n (keep_last n xs @ ys) = keep_last n (xs @ ys)"
  by (cases "length xs \<le> n") (simp_all add: keep_last_def drop_drop add.commute)

text \<open>Two branches of the code, one meaning: the last bytes of what came before and now.\<close>

lemma append_bounded_tail_eq: "append_bounded_tail buffer chunk limit = keep_last limit (buffer @ chunk)"
  by (simp add: append_bounded_tail_def keep_last_def Let_def)


section \<open>The pump\<close>

text \<open>After the events \<open>es\<close>: output kept whole and within its bound, the tail of the errors, and an
  ended output has been seen to end.\<close>

definition pumped :: "pipe_event list \<Rightarrow> pipes \<Rightarrow> bool" where
  "pumped es p \<longleftrightarrow> pp_out p = bytes_out es \<and> length (pp_out p) \<le> MAX_ALLOCATOR_OUTPUT_BYTES
     \<and> pp_err p = keep_last MAX_ALLOCATOR_STDERR_BYTES (bytes_err es)
     \<and> (pp_stdout p \<or> OutChunk [] \<in> set es)"

lemma pumped_open: "pumped [] open_pipes"
  by (simp add: pumped_def open_pipes_def)

lemma pipe_step_pumped:
  assumes "pumped es p" "pipe_step n e p = Inr p'"
  shows "pumped (es @ [e]) p'"
proof (cases e)
  case (OutChunk b)
  show ?thesis
  proof (cases "b = []")
    case False
    let ?keep = "MAX_ALLOCATOR_OUTPUT_BYTES + 1 - length (pp_out p)"
    have step: "length (pp_out p @ take ?keep b) \<le> MAX_ALLOCATOR_OUTPUT_BYTES"
        "p' = p\<lparr>pp_out := pp_out p @ take ?keep b\<rparr>"
      using assms(2) False by (auto simp: pipe_step_def OutChunk Let_def not_less elim!: raise_ifE)
    moreover from step(1) have "take ?keep b = b" by (cases "length b \<le> ?keep") auto
    ultimately show ?thesis using assms(1) False by (auto simp: pumped_def OutChunk bytes_Cons)
  qed (use assms in \<open>auto simp: pipe_step_def pumped_def OutChunk bytes_Cons\<close>)
qed (use assms in \<open>auto simp: pipe_step_def pumped_def bytes_Cons append_bounded_tail_eq keep_last_append
       Let_def split: if_splits\<close>)

lemma pipe_steps_pumped:
  "pumped es p \<Longrightarrow> res_fold (pipe_step n) events p = Inr p' \<Longrightarrow> pumped (es @ events) p'"
proof (induction events arbitrary: es p)
  case (Cons e events)
  from Cons.prems(2) obtain q where q: "pipe_step n e p = Inr q" "res_fold (pipe_step n) events q = Inr p'"
    by (auto elim!: res_bindE)
  from Cons.IH [OF pipe_step_pumped [OF Cons.prems(1) q(1)] q(2)] show ?case by simp
qed simp

lemma pump_pipes_Nil: "pump_pipes deadline n [] p = (if \<not> pipes_open p then Some (Inr p) else None)"
  by (simp add: pump_pipes.simps)

lemma pump_pipes_Cons:
  "pump_pipes deadline n ((now, events) # turns) p =
     (if \<not> pipes_open p then Some (Inr p)
      else if deadline \<le> now then Some (Inl AllocatorTimeout)
      else case res_fold (pipe_step n) events p of
             Inl e \<Rightarrow> Some (Inl e) | Inr q \<Rightarrow> pump_pipes deadline n turns q)"
  by (simp add: pump_pipes.simps [of deadline n "(now, events) # turns"])

lemma pump_pipes_pumped:
  "pumped es p \<Longrightarrow> pump_pipes deadline n turns p = Some (Inr p')
   \<Longrightarrow> \<exists>k. pumped (es @ turn_events (take k turns)) p' \<and> (\<forall>t \<in> set (take k turns). fst t < deadline)
        \<and> \<not> pipes_open p'"
proof (induction turns arbitrary: es p)
  case Nil
  then have "pumped (es @ turn_events (take 0 [])) p' \<and> \<not> pipes_open p'"
    by (auto simp: pump_pipes_Nil split: if_splits)
  then show ?case by (intro exI [of _ 0]) simp
next
  case (Cons t turns)
  obtain now events where t: "t = (now, events)" by (cases t)
  show ?case
  proof (cases "pipes_open p")
    case False
    with Cons.prems show ?thesis by (intro exI [of _ 0]) (simp add: t pump_pipes_Cons)
  next
    case True
    with Cons.prems(2) obtain q where q: "now < deadline" "res_fold (pipe_step n) events p = Inr q"
        "pump_pipes deadline n turns q = Some (Inr p')"
      by (auto simp: pump_pipes_Cons t split: if_splits sum.splits)
    from Cons.IH [OF pipe_steps_pumped [OF Cons.prems(1) q(2)] q(3)] obtain k where
      "pumped ((es @ events) @ turn_events (take k turns)) p'" "\<forall>t \<in> set (take k turns). fst t < deadline"
      "\<not> pipes_open p'" by blast
    with q(1) t show ?thesis by (intro exI [of _ "Suc k"]) simp
  qed
qed

lemma pump_pipes_returns:
  "\<exists>t \<in> set turns. deadline \<le> fst t \<Longrightarrow> \<exists>r. pump_pipes deadline n turns p = Some r"
proof (induction turns arbitrary: p)
  case (Cons t turns)
  then show ?case
    by (cases t) (auto simp: pump_pipes_Cons split: sum.split)
qed simp

lemma run_allocator_process_returns:
  assumes "\<exists>t \<in> set (ar_turns run). deadline \<le> fst t"
  shows "\<exists>r. run_allocator_process cd deadline n run = Some r"
proof -
  from pump_pipes_returns [OF assms] obtain r where "pump_pipes deadline n (ar_turns run) open_pipes = Some r"
    by blast
  then show ?thesis by (cases r) (simp_all add: run_allocator_process_def)
qed


section \<open>The answer\<close>

text \<open>
  A complete output in time: the program closed its output before the deadline, exited with
  status 0, and all it wrote, at most 64 KiB, is the text.
\<close>

definition completed :: "codecs \<Rightarrow> timedelta \<Rightarrow> allocator_run \<Rightarrow> string \<Rightarrow> bool" where
  "completed cd deadline run text \<longleftrightarrow>
     (\<exists>k. (\<forall>t \<in> set (take k (ar_turns run)). fst t < deadline) \<and> ar_end_now run < deadline
        \<and> ar_returncode run = Some 0 \<and> OutChunk [] \<in> set (turn_events (take k (ar_turns run)))
        \<and> length (bytes_out (turn_events (take k (ar_turns run)))) \<le> MAX_ALLOCATOR_OUTPUT_BYTES
        \<and> decode_strict cd (bytes_out (turn_events (take k (ar_turns run)))) = Some text)"

text \<open>The text is a response object of this version.\<close>

definition answered :: "codecs \<Rightarrow> timedelta \<Rightarrow> allocator_run \<Rightarrow> int list \<Rightarrow> bool" where
  "answered cd deadline run order \<longleftrightarrow>
     (\<exists>text d. completed cd deadline run text
        \<and> cd_loads cd text = Loaded (JObj d) \<and> jget d ''schema_version'' = JStr ALLOCATOR_SCHEMA_VERSION
        \<and> jget d ''gpu_order'' = JArr (map JInt order))"

text \<open>The text, or the reason in it, nests too deeply for Python.\<close>

definition too_deep :: "codecs \<Rightarrow> string \<Rightarrow> bool" where
  "too_deep cd text \<longleftrightarrow>
     cd_loads cd text = NestsTooDeep
     \<or> (\<exists>d. cd_loads cd text = Loaded (JObj d) \<and> cd_str cd (jget_default d ''reason'' (JStr [])) = None)"

lemma integer_items_eq: "integer_items xs = Some ns \<Longrightarrow> xs = map JInt ns"
proof (induction xs arbitrary: ns)
  case (Cons v xs)
  then show ?case
    by (cases v) (auto simp: integer_items_def split: option.splits)
qed (simp add: integer_items_def)

lemma validate_allocator_response_ok:
  assumes "validate_allocator_response cd response n = Inr (order, reason)"
  shows "\<exists>d. response = JObj d \<and> jget d ''schema_version'' = JStr ALLOCATOR_SCHEMA_VERSION
           \<and> jget d ''gpu_order'' = JArr (map JInt order)"
    and "distinct order" "set order = {0..<n}" "length reason \<le> 500" "\<not> has_control_but_tab reason"
proof -
  obtain d where d: "response = JObj d"
    using assms by (cases response) (auto simp: validate_allocator_response_def)
  obtain raw where raw: "jget d ''gpu_order'' = JArr raw"
    using assms by (cases "jget d ''gpu_order''") (auto simp: validate_allocator_response_def d elim!: raise_ifE)
  have checked: "jget d ''schema_version'' = JStr ALLOCATOR_SCHEMA_VERSION" "integer_items raw = Some order"
      "distinct order" "sort order = [0..n - 1]" "length reason \<le> 500" "\<not> has_control_but_tab reason"
    using assms
    by (auto simp: validate_allocator_response_def d raw Let_def not_less split: option.splits elim!: raise_ifE)
  from d raw checked(1) integer_items_eq [OF checked(2)]
  show "\<exists>d. response = JObj d \<and> jget d ''schema_version'' = JStr ALLOCATOR_SCHEMA_VERSION
           \<and> jget d ''gpu_order'' = JArr (map JInt order)" by blast
  have "set order = {0..n - 1}" using arg_cong [OF checked(4), of set] by simp
  also have "\<dots> = {0..<n}" by (rule set_eqI) auto
  finally show "set order = {0..<n}" .
  show "distinct order" by (fact checked)
  show "length reason \<le> 500" by (fact checked)
  show "\<not> has_control_but_tab reason" by (fact checked)
qed

lemma run_allocator_process_completed:
  assumes "run_allocator_process cd deadline n run = Some (Inr (0, body, err))"
  shows "completed cd deadline run body"
proof -
  from assms obtain p where p: "pump_pipes deadline n (ar_turns run) open_pipes = Some (Inr p)"
      "ar_end_now run < deadline" "ar_returncode run = Some 0" "decode_strict cd (pp_out p) = Some body"
    by (auto simp: run_allocator_process_def not_le split: option.splits sum.splits elim!: raise_ifE)
  from pump_pipes_pumped [OF pumped_open p(1)] obtain k where
    k: "pumped (turn_events (take k (ar_turns run))) p" "\<forall>t \<in> set (take k (ar_turns run)). fst t < deadline"
      "\<not> pipes_open p" by auto
  from k(1,3) have "pp_out p = bytes_out (turn_events (take k (ar_turns run)))"
      "length (pp_out p) \<le> MAX_ALLOCATOR_OUTPUT_BYTES" "OutChunk [] \<in> set (turn_events (take k (ar_turns run)))"
    by (auto simp: pumped_def pipes_open_def)
  with k(2) p show ?thesis unfolding completed_def by (intro exI [of _ k]) auto
qed

text \<open>The process itself raises no \<^verbatim>\<open>RecursionError\<close>.\<close>

lemma pump_pipes_error:
  "pump_pipes deadline n turns p = Some (Inl e) \<Longrightarrow> e \<noteq> AllocatorRecursionError"
proof (induction turns arbitrary: p)
  case (Cons t turns)
  have step: "pipe_step n ev q \<noteq> Inl AllocatorRecursionError" for ev q
    by (auto simp: pipe_step_def raise_if_def Let_def split: pipe_event.split)
  have "res_fold (pipe_step n) es q \<noteq> Inl AllocatorRecursionError" for es q
    by (induction es arbitrary: q) (auto simp: res_bind_def step split: sum.split)
  with Cons show ?case by (cases t) (auto simp: pump_pipes_Cons split: if_splits sum.splits)
qed (auto simp: pump_pipes_Nil split: if_splits)

lemma run_allocator_process_error:
  "run_allocator_process cd deadline n run = Some (Inl e) \<Longrightarrow> e \<noteq> AllocatorRecursionError"
  by (auto simp: run_allocator_process_def raise_if_def dest: pump_pipes_error split: option.splits sum.splits if_splits)

lemma allocator_answer_ok:
  assumes run: "run_allocator_process cd deadline n run = Some outcome"
    and answer: "allocator_answer cd m outcome = Inr (order, reason)"
  shows "answered cd deadline run order"
proof -
  from answer obtain body err response where out: "outcome = Inr (0, body, err)" "cd_loads cd body = Loaded response"
      "validate_allocator_response cd response m = Inr (order, reason)"
    by (simp add: allocator_answer_def) (elim res_bindE raise_ifE; fastforce split: loaded.splits elim!: raise_ifE)
  with validate_allocator_response_ok(1) [OF out(3)] run_allocator_process_completed [OF run [unfolded out(1)]] show ?thesis
    unfolding answered_def by auto
qed

lemma allocator_answer_too_deep:
  assumes run: "run_allocator_process cd deadline n run = Some outcome"
    and answer: "allocator_answer cd m outcome = Inl AllocatorRecursionError" and "outcome \<noteq> Inl AllocatorRecursionError"
  shows "\<exists>text. completed cd deadline run text \<and> too_deep cd text"
proof -
  from answer assms(3) obtain body err where out: "outcome = Inr (0, body, err)" "too_deep cd body"
    by (cases outcome)
       (auto simp: allocator_answer_def validate_allocator_response_def too_deep_def raise_if_def Let_def
         split: if_splits loaded.splits json.splits option.splits)
  with run_allocator_process_completed [OF run [unfolded out(1)]] show ?thesis by blast
qed


section \<open>The scores\<close>

text \<open>The GPUs of the order are adjusted by their rank, the scores of all others are kept.\<close>

lemma adjust_scores_total:
  "set order \<subseteq> dom (map_of scores) \<Longrightarrow> \<exists>scores'. adjust_scores adjust weight rank order scores = Some scores'"
proof (induction order arbitrary: rank scores)
  case (Cons gpu order)
  then obtain score where "map_of scores gpu = Some score" by auto
  moreover from Cons.prems have "set order \<subseteq> dom (map_of (AList.update gpu (adjust score rank weight) scores))"
    by (auto simp: update_conv')
  ultimately show ?case using Cons.IH by simp
qed simp

lemma adjust_scores_lookup:
  "adjust_scores adjust weight rank order scores = Some scores' \<Longrightarrow> distinct order \<Longrightarrow>
   map_of scores' gpu =
     (if gpu \<in> set order
      then map_option (\<lambda>s. adjust s (rank + length (takeWhile (\<lambda>g. g \<noteq> gpu) order)) weight) (map_of scores gpu)
      else map_of scores gpu)"
  by (induction order arbitrary: rank scores)
     (auto simp: update_conv' split: option.splits)


section \<open>The decision\<close>

lemma gpu_order_loop_enabled:
  "set gs \<subseteq> {0..<gpu_count c} \<Longrightarrow> distinct (result @ gs)
   \<Longrightarrow> gpu_order_loop c result gs =
     Inr (let chosen = result @ filter (\<lambda>g. g \<in> set (enabled_gpus c)) gs
          in chosen @ filter (\<lambda>g. g \<notin> set chosen) (enabled_gpus c))"
  by (induction gs arbitrary: result) (auto simp: Let_def validate_gpu_index_def intro!: filter_cong)

lemma normalize_permutation:
  assumes "distinct order" "set order = {0..<gpu_count c}"
  shows "normalize_gpu_order (Some order) c = Inr (filter (\<lambda>g. g \<in> set (enabled_gpus c)) order)"
proof -
  have "filter (\<lambda>g. g \<notin> set (filter (\<lambda>g. g \<in> set (enabled_gpus c)) order)) (enabled_gpus c) = []"
    using assms(2) by (auto simp: filter_empty_conv enabled_gpus_def)
  with assms gpu_order_loop_enabled [of order c "[]"] show ?thesis
    by (simp add: normalize_gpu_order_def Let_def)
qed

definition external_decision ::
  "codecs \<Rightarrow> (rat \<Rightarrow> nat \<Rightarrow> rat \<Rightarrow> rat) \<Rightarrow> config \<Rightarrow> rat \<Rightarrow> gpu_advice \<Rightarrow> timedelta \<Rightarrow> allocator_run \<Rightarrow>
   allocator_decision \<Rightarrow> bool" where
  "external_decision cd adjust c weight advice deadline run d \<longleftrightarrow>
     ad_source d = ''external'' \<and> answered cd deadline run (ad_order d)
     \<and> distinct (ad_order d) \<and> set (ad_order d) = {0..<gpu_count c}
     \<and> normalize_gpu_order (Some (ad_order d)) c = Inr (filter (\<lambda>g. g \<in> set (enabled_gpus c)) (ad_order d))
     \<and> length (ad_reason d) \<le> 500
     \<and> (\<forall>gpu \<in> set (ad_order d). map_of (ad_scores d) gpu =
          map_option (\<lambda>s. adjust s (length (takeWhile (\<lambda>g. g \<noteq> gpu) (ad_order d))) weight) (map_of (ga_scores advice) gpu))"

definition advised_decision :: "gpu_advice \<Rightarrow> allocator_decision \<Rightarrow> bool" where
  "advised_decision advice d \<longleftrightarrow>
     ad_order d = ga_order advice \<and> ad_scores d = ga_scores advice \<and> ad_source d \<noteq> ''external''"

lemma advised_builtin: "source \<noteq> ''external'' \<Longrightarrow> advised_decision advice (builtin_decision advice source w)"
  by (simp add: advised_decision_def builtin_decision_def)

text \<open>
  C25: an external allocator can only reorder. For every answer of the program, in any fragments and
  with any failure of its pipes, the allocation is settled as soon as the clock of the
  loop has passed the deadline. The decision is the built-in advice with its scores untouched; or the
  program closed its output in time, exited with 0 and everything it wrote, at most 64 KiB, is a response
  of this protocol version whose order is the decision's, a permutation of all configured GPUs that the
  placement takes as it is less the disabled GPUs, and each score is the advised one adjusted by
  the rank of its GPU. A request for fixed GPUs asks no program. There is no decision only when such an
  output nests too deeply for Python: its \<^verbatim>\<open>RecursionError\<close> is not caught.
\<close>

theorem allocator_only_reorders:
  assumes clock: "\<exists>t \<in> set (ar_turns run). deadline \<le> fst t"
    and scored: "{0..<gpu_count c} \<subseteq> dom (map_of (ga_scores advice))"
  shows "(\<exists>d. allocation_decision cd adjust command c weight advice deadline n run preferred = Some (Inr d)
      \<and> (advised_decision advice d
         \<or> preferred = None \<and> command \<noteq> None \<and> external_decision cd adjust c weight advice deadline run d))
    \<or> allocation_decision cd adjust command c weight advice deadline n run preferred = Some (Inl UncaughtRecursionError)
      \<and> preferred = None \<and> command \<noteq> None \<and> (\<exists>text. completed cd deadline run text \<and> too_deep cd text)"
proof (cases "preferred \<noteq> None \<or> command = None \<or> command = Some []")
  case True
  then show ?thesis
    by (auto simp: allocation_decision_def apply_external_allocator_def advised_builtin)
next
  case False
  from run_allocator_process_returns [OF clock] obtain outcome where
    run: "run_allocator_process cd deadline n run = Some outcome" by blast
  show ?thesis
  proof (cases "allocator_answer cd (gpu_count c) outcome")
    case (Inl e)
    have "\<exists>text. completed cd deadline run text \<and> too_deep cd text" if "e = AllocatorRecursionError"
      using allocator_answer_too_deep [OF run] Inl that run_allocator_process_error run by blast
    with Inl False run show ?thesis
      by (auto simp: allocation_decision_def apply_external_allocator_def advised_builtin)
  next
    case (Inr answer)
    obtain order reason where answer: "answer = (order, reason)" by (cases answer)
    from Inr answer obtain response where "validate_allocator_response cd response (gpu_count c) = Inr (order, reason)"
      by (auto simp: allocator_answer_def split: loaded.splits elim!: res_bindE raise_ifE)
    note ok = validate_allocator_response_ok(2-4) [OF this]
    from scored ok(2) adjust_scores_total [of order "ga_scores advice" adjust weight 0] obtain scores where
      scores: "adjust_scores adjust weight 0 order (ga_scores advice) = Some scores" by auto
    let ?d = "\<lparr>ad_order = order, ad_scores = scores, ad_source = ''external'', ad_reason = reason, ad_warning = []\<rparr>"
    have "external_decision cd adjust c weight advice deadline run ?d"
      using allocator_answer_ok [OF run, of _ order reason] Inr answer ok normalize_permutation [OF ok(1,2)]
        adjust_scores_lookup [OF scores ok(1)]
      by (simp add: external_decision_def)
    with False run Inr answer scores show ?thesis
      by (auto simp: allocation_decision_def apply_external_allocator_def)
  qed
qed

text \<open>
  Two GPUs. The program writes its answer in two pieces and ends; the bytes stand for a text the
  JSON functions read as the order 1, 0.
\<close>

definition sample_response :: json where
  "sample_response = JObj [(''schema_version'', JStr ''bk.allocator.v1''), (''gpu_order'', JArr [JInt 1, JInt 0])]"

definition sample_codecs :: codecs where
  "sample_codecs =
     \<lparr>decode_strict = \<lambda>bs. if bs = [1, 2] then Some ''answer'' else None, decode_replace = \<lambda>_. [],
      cd_loads = \<lambda>s. if s = ''answer'' then Loaded sample_response else NotJson, cd_str = \<lambda>_. Some [],
      cd_splitlines = \<lambda>s. [s], cd_exception_text = \<lambda>_. []\<rparr>"

definition advice0 :: gpu_advice where
  "advice0 = \<lparr>ga_generated_at = 0, ga_order = [0, 1], ga_scores = [(0, 1), (1, 2)], ga_dict = JNull, ga_memory_totals = []\<rparr>"

definition answer_run :: allocator_run where
  "answer_run = \<lparr>ar_turns = [(1, [Wrote 4, OutChunk [1]]), (2, [OutChunk [2]]),
     (3, [OutChunk [], ErrChunk []]), (9, [])], ar_end_now = 4, ar_returncode = Some 0\<rparr>"

lemma sample_external:
  "allocation_decision sample_codecs (\<lambda>s rank w. s + of_nat rank * w) (Some [''rank'']) (sample_config\<lparr>gpu_count := 2\<rparr>)
      10 advice0 5 4 answer_run None =
   Some (Inr \<lparr>ad_order = [1, 0], ad_scores = [(0, 11), (1, 2)], ad_source = ''external'', ad_reason = [], ad_warning = []\<rparr>)"
  by (simp add: allocation_decision_def apply_external_allocator_def run_allocator_process_def pump_pipes_Cons
        pump_pipes_Nil pipes_open_def open_pipes_def pipe_step_def append_bounded_tail_def answer_run_def
        sample_codecs_def allocator_answer_def validate_allocator_response_def sample_response_def
        integer_items_def advice0_def jget_def jget_default_def ALLOCATOR_SCHEMA_VERSION_def
        MAX_ALLOCATOR_OUTPUT_BYTES_def MAX_ALLOCATOR_STDERR_BYTES_def has_control_but_tab_def has_control_def
        py_strip_def upto.simps)

theorem allocator_only_reorders_witness:
  "\<exists>d. allocation_decision sample_codecs (\<lambda>s rank w. s + of_nat rank * w) (Some [''rank'']) (sample_config\<lparr>gpu_count := 2\<rparr>)
      10 advice0 5 4 answer_run None = Some (Inr d)
    \<and> external_decision sample_codecs (\<lambda>s rank w. s + of_nat rank * w) (sample_config\<lparr>gpu_count := 2\<rparr>) 10 advice0 5 answer_run d"
proof -
  have clock: "\<exists>t \<in> set (ar_turns answer_run). 5 \<le> fst t" by (simp add: answer_run_def)
  have scored: "{0..<gpu_count (sample_config\<lparr>gpu_count := 2\<rparr>)} \<subseteq> dom (map_of (ga_scores advice0))"
    by (auto simp: advice0_def)
  from allocator_only_reorders [OF clock scored, of sample_codecs "\<lambda>s rank w. s + of_nat rank * w" "Some [''rank'']" 10 4 None]
  show ?thesis by (auto simp: sample_external advised_decision_def)
qed

end
