(* ===== verification/Presets.thy ===== *)
theory Presets
  imports Timeparse Models Requests Config_Load
begin

text \<open>
  \<^verbatim>\<open>bk/presets.py\<close>: the named booking profiles a user keeps in a private file, and the profile
  learned from the bookings of the past. Documents are JSON as it is read and written; the file is
  its metadata and document. The JSON text of a signature, the text \<^verbatim>\<open>str\<close> gives to values that
  are not strings, and the bytes of a document are arguments. The lock around a write makes it one step.
\<close>

definition PRESET_SCHEMA_VERSION :: string where "PRESET_SCHEMA_VERSION = ''gpubk.presets.v1''"
definition MAX_PRESETS :: nat where "MAX_PRESETS = 128"
definition MAX_HISTORY_RECORDS :: nat where "MAX_HISTORY_RECORDS = 100"
definition SUGGESTION_THRESHOLD :: nat where "SUGGESTION_THRESHOLD = 3"

datatype preset_error =
    PresetInvalid string
  | PresetTypeError
  | PresetOverflow
  | PresetOSError

record profile =
  pf_mode :: string
  pf_count :: int
  pf_duration_seconds :: int
  pf_expected_memory_mb :: "int option"
  pf_share_units :: "int option"
  pf_preferred_gpus :: "int list option"
  pf_excluded_gpus :: "int list"

record preset =
  pr_name :: string
  pr_profile :: profile
  pr_created_at :: "string option"
  pr_updated_at :: "string option"


section \<open>Validation\<close>

fun truthy :: "json \<Rightarrow> bool" where
  "truthy JNull = False"
| "truthy (JBool b) = b"
| "truthy (JInt n) = (n \<noteq> 0)"
| "truthy (JFloat x) = (x \<noteq> 0)"
| "truthy (JNonFinite _) = True"
| "truthy (JStr s) = (s \<noteq> [])"
| "truthy (JArr xs) = (xs \<noteq> [])"
| "truthy (JObj d) = (d \<noteq> [])"

fun preset_int :: "int \<Rightarrow> json \<Rightarrow> (preset_error, int) result" where
  "preset_int maximum (JInt n) = raise_if (n < 1 \<or> n > maximum) (PresetInvalid ''out of range'') (Inr n)"
| "preset_int maximum _ = Inl (PresetInvalid ''out of range'')"

fun gpu_indexes :: "json list \<Rightarrow> (preset_error, int list) result" where
  "gpu_indexes [] = Inr []"
| "gpu_indexes (JInt n # rest) =
     raise_if (n < 0 \<or> n \<ge> 1024) (PresetInvalid ''must contain GPU indexes'')
       (res_map (\<lambda>ns. n # ns) (gpu_indexes rest))"
| "gpu_indexes (_ # rest) = Inl (PresetInvalid ''must contain GPU indexes'')"

definition preset_gpus :: "json list \<Rightarrow> (preset_error, int list) result" where
  "preset_gpus raw =
     res_bind (gpu_indexes raw) (\<lambda>gpus.
       raise_if (\<not> distinct gpus) (PresetInvalid ''contains duplicates'') (Inr (sort gpus)))"

definition preset_gpu_list :: "bool \<Rightarrow> json \<Rightarrow> (preset_error, int list option) result" where
  "preset_gpu_list allow_none v =
     (case v of
        JNull \<Rightarrow> Inr (if allow_none then None else Some [])
      | JArr raw \<Rightarrow> res_map Some (preset_gpus raw)
      | _ \<Rightarrow> Inl (PresetInvalid ''must be an array''))"

text \<open>Membership in a set of strings hashes the value, which raises for lists and objects.\<close>

definition profile_mode :: "json \<Rightarrow> (preset_error, string) result" where
  "profile_mode v =
     (case v of
        JStr s \<Rightarrow> raise_if (s \<noteq> MODE_SHARED \<and> s \<noteq> MODE_EXCLUSIVE) (PresetInvalid ''mode'') (Inr s)
      | JArr _ \<Rightarrow> Inl PresetTypeError
      | JObj _ \<Rightarrow> Inl PresetTypeError
      | _ \<Rightarrow> Inl (PresetInvalid ''mode''))"

definition profile_memory :: "json \<Rightarrow> (preset_error, int option) result" where
  "profile_memory v =
     (if v = JNull then Inr None else res_map Some (preset_int (16 * 1024 * 1024) v))"

definition profile_share :: "string \<Rightarrow> json \<Rightarrow> (preset_error, int option) result" where
  "profile_share mode v =
     (if mode = MODE_SHARED then res_map Some (preset_int 10000 (if truthy v then v else JInt 1))
      else raise_if (v \<noteq> JNull) (PresetInvalid ''exclusive presets cannot set share_units'') (Inr None))"

definition check_preset_gpus :: "int \<Rightarrow> int list option \<Rightarrow> int list \<Rightarrow> 'a \<Rightarrow> (preset_error, 'a) result" where
  "check_preset_gpus cnt preferred excluded value =
     (case preferred of
        None \<Rightarrow> Inr value
      | Some gpus \<Rightarrow>
          raise_if (int (length gpus) \<noteq> cnt) (PresetInvalid ''preferred_gpus must match count'')
          (raise_if (set gpus \<inter> set excluded \<noteq> {}) (PresetInvalid ''both preferred and excluded'') (Inr value)))"

definition validate_profile :: "json \<Rightarrow> (preset_error, profile) result" where
  "validate_profile v =
     (case v of
        JObj d \<Rightarrow>
          res_bind (profile_mode (jget_default d ''mode'' (JStr MODE_SHARED))) (\<lambda>mode.
          res_bind (preset_int 1024 (jget d ''count'')) (\<lambda>cnt.
          res_bind (preset_int (10 * 365 * 86400) (jget d ''duration_seconds'')) (\<lambda>duration.
          res_bind (profile_memory (jget d ''expected_memory_mb'')) (\<lambda>memory.
          res_bind (profile_share mode (jget d ''share_units'')) (\<lambda>share.
          res_bind (preset_gpu_list True (jget d ''preferred_gpus'')) (\<lambda>preferred.
          res_bind (preset_gpu_list False (jget d ''excluded_gpus'')) (\<lambda>raw_excluded.
          (let excluded = (case raw_excluded of None \<Rightarrow> [] | Some gpus \<Rightarrow> gpus)
           in check_preset_gpus cnt preferred excluded
                \<lparr>pf_mode = mode, pf_count = cnt, pf_duration_seconds = duration, pf_expected_memory_mb = memory,
                 pf_share_units = share, pf_preferred_gpus = preferred, pf_excluded_gpus = excluded\<rparr>))))))))
      | _ \<Rightarrow> Inl (PresetInvalid ''preset profile must be an object''))"

definition name_char :: "char \<Rightarrow> bool" where
  "name_char ch \<longleftrightarrow>
     (let n = (of_char ch :: nat) in (65 \<le> n \<and> n \<le> 90) \<or> (97 \<le> n \<and> n \<le> 122) \<or> (48 \<le> n \<and> n \<le> 57))"

text \<open>\<^verbatim>\<open>[A-Za-z0-9][A-Za-z0-9._-]{0,31}\<close>\<close>

fun preset_name_ok :: "string \<Rightarrow> bool" where
  "preset_name_ok [] = False"
| "preset_name_ok (ch # rest) \<longleftrightarrow>
     name_char ch \<and> length rest \<le> 31 \<and> list_all (\<lambda>ch. name_char ch \<or> ch \<in> set ''._-'') rest"

definition validate_preset_name :: "json \<Rightarrow> (preset_error, string) result" where
  "validate_preset_name v =
     (case v of
        JStr s \<Rightarrow> raise_if (\<not> preset_name_ok s) (PresetInvalid ''preset name'') (Inr s)
      | _ \<Rightarrow> Inl (PresetInvalid ''preset name''))"

text \<open>\<^verbatim>\<open>astimezone\<close> raises for an instant outside the years 1 to 9999.\<close>

definition preset_stamp :: "(json \<Rightarrow> string) \<Rightarrow> json \<Rightarrow> (preset_error, string option) result" where
  "preset_stamp str_of raw =
     (if raw = JNull then Inr None
      else case parse_iso (case raw of JStr s \<Rightarrow> s | _ \<Rightarrow> str_of raw) of
             None \<Rightarrow> Inl (PresetInvalid ''timestamp'')
           | Some t \<Rightarrow> raise_if (\<not> representable t) PresetOverflow (Inr (Some (to_iso t))))"

definition validate_preset :: "(json \<Rightarrow> string) \<Rightarrow> json \<Rightarrow> (preset_error, preset) result" where
  "validate_preset str_of v =
     (case v of
        JObj d \<Rightarrow>
          res_bind (validate_preset_name (jget d ''name'')) (\<lambda>name.
          res_bind (validate_profile v) (\<lambda>profile.
          res_bind (preset_stamp str_of (jget d ''created_at'')) (\<lambda>created.
          res_bind (preset_stamp str_of (jget d ''updated_at'')) (\<lambda>updated.
            Inr \<lparr>pr_name = name, pr_profile = profile, pr_created_at = created, pr_updated_at = updated\<rparr>))))
      | _ \<Rightarrow> Inl (PresetInvalid ''preset must be an object''))"

fun validate_presets :: "(json \<Rightarrow> string) \<Rightarrow> json list \<Rightarrow> (preset_error, preset list) result" where
  "validate_presets str_of [] = Inr []"
| "validate_presets str_of (v # rest) =
     res_bind (validate_preset str_of v) (\<lambda>p. res_map (\<lambda>ps. p # ps) (validate_presets str_of rest))"

definition validate_preset_document :: "(json \<Rightarrow> string) \<Rightarrow> json \<Rightarrow> (preset_error, preset list) result" where
  "validate_preset_document str_of v =
     (case v of
        JObj d \<Rightarrow>
          raise_if (jget d ''schema_version'' \<noteq> JStr PRESET_SCHEMA_VERSION) (PresetInvalid ''unsupported preset file schema'')
          (case jget d ''presets'' of
             JArr raw \<Rightarrow>
               raise_if (length raw > MAX_PRESETS) (PresetInvalid ''invalid preset list'')
               (res_bind (validate_presets str_of raw) (\<lambda>presets.
                  raise_if (\<not> distinct (map pr_name presets)) (PresetInvalid ''preset names must be unique'')
                    (Inr presets)))
           | _ \<Rightarrow> Inl (PresetInvalid ''invalid preset list''))
      | _ \<Rightarrow> Inl (PresetInvalid ''unsupported preset file schema''))"


section \<open>The dictionaries the code passes on and writes\<close>

definition gpu_list_json :: "int list \<Rightarrow> json" where
  "gpu_list_json gpus = JArr (map JInt gpus)"

definition profile_items :: "profile \<Rightarrow> (string \<times> json) list" where
  "profile_items p =
     [(''mode'', JStr (pf_mode p)), (''count'', JInt (pf_count p)),
      (''duration_seconds'', JInt (pf_duration_seconds p)),
      (''expected_memory_mb'', jint_option (pf_expected_memory_mb p)),
      (''share_units'', jint_option (pf_share_units p)),
      (''preferred_gpus'', case pf_preferred_gpus p of None \<Rightarrow> JNull | Some gpus \<Rightarrow> gpu_list_json gpus),
      (''excluded_gpus'', gpu_list_json (pf_excluded_gpus p))]"

definition profile_json :: "profile \<Rightarrow> json" where
  "profile_json p = JObj (profile_items p)"

definition stamp_item :: "string \<Rightarrow> string option \<Rightarrow> (string \<times> json) list" where
  "stamp_item key stamp = (case stamp of None \<Rightarrow> [] | Some s \<Rightarrow> [(key, JStr s)])"

definition preset_json :: "preset \<Rightarrow> json" where
  "preset_json p =
     JObj ((''name'', JStr (pr_name p)) # profile_items (pr_profile p)
           @ stamp_item ''created_at'' (pr_created_at p) @ stamp_item ''updated_at'' (pr_updated_at p))"

definition preset_document :: "preset list \<Rightarrow> json" where
  "preset_document presets =
     JObj [(''schema_version'', JStr PRESET_SCHEMA_VERSION), (''presets'', JArr (map preset_json presets))]"


section \<open>The file\<close>

text \<open>
  \<open>None\<close> is a path that does not exist (or a link to nothing); \<open>pt_content\<close> is \<open>None\<close> when the
  bytes are not JSON text.
\<close>

record preset_file =
  pt_symlink :: bool
  pt_stat :: stat_result
  pt_content :: "json option"

record preset_dir =
  pd_symlink :: bool
  pd_mkdir :: bool
  pd_directory :: bool
  pd_uid :: int

text \<open>When a call of the write fails: before the new file is in its place, or after.\<close>

datatype write_fault = NoFault | FailsBefore | FailsAfter

record preset_env =
  pe_euid :: int
  pe_dir :: preset_dir
  pe_now :: datetime
  pe_fault :: write_fault
  pe_str :: "json \<Rightarrow> string"
  pe_bytes :: "json \<Rightarrow> int"

definition load_preset_document :: "preset_env \<Rightarrow> preset_file option \<Rightarrow> (preset_error, preset list) result" where
  "load_preset_document env target =
     (case target of
        None \<Rightarrow> Inr []
      | Some f \<Rightarrow>
          raise_if (pt_symlink f \<or> \<not> st_regular (pt_stat f)) (PresetInvalid ''not a regular file'')
          (raise_if (st_uid (pt_stat f) \<noteq> pe_euid env) (PresetInvalid ''not owned by the current UID'')
          (raise_if (st_nlink (pt_stat f) \<noteq> 1) (PresetInvalid ''must not have hard links'')
          (raise_if (st_mode (pt_stat f) AND 63 \<noteq> 0) (PresetInvalid ''permissions must be 0600 or stricter'')
          (raise_if (st_size (pt_stat f) > 1024 * 1024) (PresetInvalid ''preset file exceeds 1 MiB'')
          (case pt_content f of
             None \<Rightarrow> Inl (PresetInvalid ''not JSON'')
           | Some v \<Rightarrow> validate_preset_document (pe_str env) v))))))"

definition prepare_directory :: "preset_env \<Rightarrow> (preset_error, unit) result" where
  "prepare_directory env =
     raise_if (pd_symlink (pe_dir env)) (PresetInvalid ''preset directory must not be a symlink'')
     (raise_if (\<not> pd_mkdir (pe_dir env)) PresetOSError
     (raise_if (\<not> pd_directory (pe_dir env)) (PresetInvalid ''preset directory is not a regular directory'')
     (raise_if (pd_uid (pe_dir env) \<noteq> pe_euid env) (PresetInvalid ''preset directory is not owned by the current UID'')
       (Inr ()))))"

definition written_file :: "preset_env \<Rightarrow> json \<Rightarrow> preset_file" where
  "written_file env doc =
     \<lparr>pt_symlink = False,
      pt_stat = \<lparr>st_directory = False, st_regular = True, st_nlink = 1, st_uid = pe_euid env, st_mode = 384,
                 st_size = pe_bytes env doc\<rparr>,
      pt_content = Some doc\<rparr>"

text \<open>The file after the write, and what the write raised.\<close>

definition write_document ::
  "preset_env \<Rightarrow> preset list \<Rightarrow> preset_file option \<Rightarrow> preset_file option \<times> (preset_error, unit) result" where
  "write_document env presets target =
     (case res_bind (validate_preset_document (pe_str env) (preset_document presets)) (\<lambda>validated.
             res_bind (prepare_directory env) (\<lambda>_.
             raise_if (case target of None \<Rightarrow> False | Some f \<Rightarrow> pt_symlink f)
               (PresetInvalid ''preset file must not be a symlink'') (Inr validated))) of
        Inl e \<Rightarrow> (target, Inl e)
      | Inr validated \<Rightarrow>
          (let new = Some (written_file env (preset_document validated))
           in case pe_fault env of
                NoFault \<Rightarrow> (new, Inr ())
              | FailsBefore \<Rightarrow> (target, Inl PresetOSError)
              | FailsAfter \<Rightarrow> (new, Inl PresetOSError)))"

definition find_preset :: "string \<Rightarrow> preset list \<Rightarrow> preset option" where
  "find_preset name presets = find (\<lambda>p. pr_name p = name) presets"

text \<open>A preset of the same name is replaced, and keeps the time it was created.\<close>

definition stamped_preset :: "preset_env \<Rightarrow> preset list \<Rightarrow> preset \<Rightarrow> preset" where
  "stamped_preset env presets normalized =
     (let now = to_iso (pe_now env)
      in normalized\<lparr>
        pr_created_at := Some (case find_preset (pr_name normalized) presets of
            None \<Rightarrow> now
          | Some previous \<Rightarrow> (case pr_created_at previous of None \<Rightarrow> now | Some t \<Rightarrow> t)),
        pr_updated_at := Some now\<rparr>)"

definition saved_presets :: "preset list \<Rightarrow> preset \<Rightarrow> preset list" where
  "saved_presets presets p =
     sort_key pr_name (filter (\<lambda>item. pr_name item \<noteq> pr_name p) presets @ [p])"

definition save_preset ::
  "preset_env \<Rightarrow> json \<Rightarrow> preset_file option \<Rightarrow> preset_file option \<times> (preset_error, preset) result" where
  "save_preset env value target =
     (case res_bind (prepare_directory env) (\<lambda>_.
             res_bind (load_preset_document env target) (\<lambda>presets.
             res_bind (validate_preset (pe_str env) value) (\<lambda>normalized.
             raise_if (length (filter (\<lambda>item. pr_name item \<noteq> pr_name normalized) presets) \<ge> MAX_PRESETS)
               (PresetInvalid ''at most 128 presets may be stored'')
               (Inr (presets, stamped_preset env presets normalized))))) of
        Inl e \<Rightarrow> (target, Inl e)
      | Inr (presets, p) \<Rightarrow>
          (case write_document env (saved_presets presets p) target of
             (target', written) \<Rightarrow> (target', res_map (\<lambda>_. p) written)))"

definition delete_preset ::
  "preset_env \<Rightarrow> json \<Rightarrow> preset_file option \<Rightarrow> preset_file option \<times> (preset_error, bool) result" where
  "delete_preset env value target =
     (case res_bind (validate_preset_name value) (\<lambda>name.
             res_bind (prepare_directory env) (\<lambda>_.
             res_map (\<lambda>presets. (presets, filter (\<lambda>item. pr_name item \<noteq> name) presets))
               (load_preset_document env target))) of
        Inl e \<Rightarrow> (target, Inl e)
      | Inr (presets, remaining) \<Rightarrow>
          (if length remaining = length presets then (target, Inr False)
           else case write_document env remaining target of
                  (target', written) \<Rightarrow> (target', res_map (\<lambda>_. True) written)))"

definition get_preset :: "preset_env \<Rightarrow> json \<Rightarrow> preset_file option \<Rightarrow> (preset_error, preset) result" where
  "get_preset env value target =
     res_bind (validate_preset_name value) (\<lambda>name.
     res_bind (load_preset_document env target) (\<lambda>presets.
       case find_preset name presets of
         None \<Rightarrow> Inl (PresetInvalid ''preset not found'')
       | Some p \<Rightarrow> Inr p))"


section \<open>The learned profile\<close>

definition profile_signature :: "(json \<Rightarrow> string) \<Rightarrow> json \<Rightarrow> (preset_error, string) result" where
  "profile_signature dumps v = res_map (\<lambda>p. dumps (profile_json p)) (validate_profile v)"

definition learned_profile_signature :: "(json \<Rightarrow> string) \<Rightarrow> json \<Rightarrow> (preset_error, string) result" where
  "learned_profile_signature dumps v =
     res_bind (validate_profile v) (\<lambda>normalized.
       profile_signature dumps (profile_json (normalized\<lparr>pf_preferred_gpus := None, pf_excluded_gpus := []\<rparr>)))"

definition profile_from_reservation :: "reservation \<Rightarrow> (preset_error, profile) result" where
  "profile_from_reservation r =
     validate_profile (JObj
       [(''mode'', JStr (rs_mode r)), (''count'', JInt (int (length (rs_gpus r)))),
        (''duration_seconds'', JInt ((rs_end_at r - rs_start_at r) div us_per_second)),
        (''expected_memory_mb'', jint_option (rs_expected_memory_mb r)),
        (''share_units'',
          if rs_mode r = MODE_SHARED then (case rs_share_units r of None \<Rightarrow> JInt 1 | Some v \<Rightarrow> v) else JNull),
        (''preferred_gpus'', JNull), (''excluded_gpus'', JArr [])])"

text \<open>The bookings of the user that have a profile, the newest first, ties in ledger order.\<close>

definition profile_records :: "ledger \<Rightarrow> int \<Rightarrow> (datetime \<times> profile) list" where
  "profile_records l uid =
     (let records = List.map_filter
            (\<lambda>r. if rs_uid r \<noteq> uid then None
                 else case profile_from_reservation r of
                        Inl _ \<Rightarrow> None
                      | Inr p \<Rightarrow> Some (case rs_created_at r of None \<Rightarrow> rs_start_at r | Some t \<Rightarrow> t, p))
            (lg_reservations l)
      in take MAX_HISTORY_RECORDS (sort_key (\<lambda>(created, _). - created) records))"

text \<open>\<^verbatim>\<open>max(.., key=..)\<close>: the first of the greatest.\<close>

fun max_by :: "('a \<Rightarrow> 'k::linorder) \<Rightarrow> 'a \<Rightarrow> 'a list \<Rightarrow> 'a" where
  "max_by key best [] = best"
| "max_by key best (x # xs) = max_by key (if key x > key best then x else best) xs"

definition index_of :: "'a \<Rightarrow> 'a list \<Rightarrow> nat" where
  "index_of x xs = length (takeWhile (\<lambda>y. y \<noteq> x) xs)"

text \<open>\<^verbatim>\<open>Counter(signatures).items()\<close>, in the order of first occurrence.\<close>

definition counter_items :: "'a list \<Rightarrow> ('a \<times> nat) list" where
  "counter_items xs = map (\<lambda>x. (x, count_list xs x)) (rev (remdups (rev xs)))"

definition winning :: "'a list \<Rightarrow> ('a \<times> nat) option" where
  "winning signatures =
     (case counter_items signatures of
        [] \<Rightarrow> None
      | first # rest \<Rightarrow>
          Some (max_by (\<lambda>(s, n). (int n, - int (index_of s signatures))) first rest))"

record learned =
  ln_profile :: profile
  ln_observations :: nat
  ln_signature :: string

text \<open>The profiles are validated already, so their signature is the text of their own fields.\<close>

definition learned_profile :: "(json \<Rightarrow> string) \<Rightarrow> ledger \<Rightarrow> int \<Rightarrow> learned option" where
  "learned_profile dumps l uid =
     (let records = profile_records l uid;
          signature = (\<lambda>p. dumps (profile_json p));
          signatures = map (\<lambda>(_, p). signature p) records
      in case winning signatures of
           None \<Rightarrow> None
         | Some (winner, n) \<Rightarrow>
             if n < SUGGESTION_THRESHOLD then None
             else map_option (\<lambda>(_, p). \<lparr>ln_profile = p, ln_observations = n, ln_signature = winner\<rparr>)
                    (find (\<lambda>(_, p). signature p = winner) records))"

definition suggested_name :: "profile \<Rightarrow> string" where
  "suggested_name p =
     (let mode = (if pf_mode p = MODE_EXCLUSIVE then ''x'' else ''s'');
          minutes = pf_duration_seconds p div 60;
          duration = (if minutes mod 60 = 0 then show_int (minutes div 60) @ ''h'' else show_int minutes @ ''m'')
      in take 32 (mode @ show_int (pf_count p) @ ''x-'' @ duration))"

fun preset_signatures :: "(json \<Rightarrow> string) \<Rightarrow> preset list \<Rightarrow> (preset_error, string list) result" where
  "preset_signatures dumps [] = Inr []"
| "preset_signatures dumps (p # rest) =
     res_bind (learned_profile_signature dumps (preset_json p)) (\<lambda>s.
       res_map (\<lambda>ss. s # ss) (preset_signatures dumps rest))"

definition preset_suggestion ::
  "(json \<Rightarrow> string) \<Rightarrow> ledger \<Rightarrow> int \<Rightarrow> preset list \<Rightarrow> (preset_error, (learned \<times> string) option) result" where
  "preset_suggestion dumps l uid presets =
     (case learned_profile dumps l uid of
        None \<Rightarrow> Inr None
      | Some learnt \<Rightarrow>
          res_map (\<lambda>signatures.
            if ln_signature learnt \<in> set signatures then None
            else Some (learnt, suggested_name (ln_profile learnt)))
          (preset_signatures dumps presets))"

definition suggestion_json :: "learned \<times> string \<Rightarrow> json" where
  "suggestion_json s =
     (case s of (learnt, name) \<Rightarrow>
        JObj (profile_items (ln_profile learnt)
              @ [(''observations'', JInt (int (ln_observations learnt))), (''signature'', JStr (ln_signature learnt)),
                 (''name'', JStr name)]))"

end
