(* ===== verification/Preset_Claims.thy ===== *)
theory Preset_Claims
  imports Presets Samples
begin

text \<open>
  Presets as a map from names to validated profiles: the file the operations leave reads back as
  that map, and a saved suggestion is settled.
\<close>

section \<open>Valid profiles\<close>

definition gpus_ok :: "int list \<Rightarrow> bool" where
  "gpus_ok gpus \<longleftrightarrow> sorted gpus \<and> distinct gpus \<and> (\<forall>g \<in> set gpus. 0 \<le> g \<and> g < 1024)"

definition valid_profile :: "profile \<Rightarrow> bool" where
  "valid_profile p \<longleftrightarrow>
     (pf_mode p = MODE_SHARED \<or> pf_mode p = MODE_EXCLUSIVE) \<and> 1 \<le> pf_count p \<and> pf_count p \<le> 1024
     \<and> 1 \<le> pf_duration_seconds p \<and> pf_duration_seconds p \<le> 315360000
     \<and> (\<forall>m. pf_expected_memory_mb p = Some m \<longrightarrow> 1 \<le> m \<and> m \<le> 16777216)
     \<and> (pf_share_units p = None \<longleftrightarrow> pf_mode p = MODE_EXCLUSIVE)
     \<and> (\<forall>s. pf_share_units p = Some s \<longrightarrow> 1 \<le> s \<and> s \<le> 10000)
     \<and> gpus_ok (pf_excluded_gpus p)
     \<and> (\<forall>gpus. pf_preferred_gpus p = Some gpus \<longrightarrow>
          gpus_ok gpus \<and> int (length gpus) = pf_count p \<and> set gpus \<inter> set (pf_excluded_gpus p) = {})"

definition valid_stamp :: "string option \<Rightarrow> bool" where
  "valid_stamp stamp \<longleftrightarrow> (\<forall>s. stamp = Some s \<longrightarrow> (\<exists>t. representable t \<and> s = to_iso t))"

definition valid_preset :: "preset \<Rightarrow> bool" where
  "valid_preset p \<longleftrightarrow> preset_name_ok (pr_name p) \<and> valid_profile (pr_profile p)
     \<and> valid_stamp (pr_created_at p) \<and> valid_stamp (pr_updated_at p)"

lemma preset_int_ok: "preset_int maximum v = Inr n \<longleftrightarrow> v = JInt n \<and> 1 \<le> n \<and> n \<le> maximum"
  by (cases v) (auto simp: not_less)

lemma gpu_indexes_ok: "gpu_indexes raw = Inr gpus \<longleftrightarrow> raw = map JInt gpus \<and> (\<forall>g \<in> set gpus. 0 \<le> g \<and> g < 1024)"
  by (induction raw arbitrary: gpus rule: gpu_indexes.induct) (auto simp: res_map_eq_Inr Cons_eq_map_conv not_less not_le)

lemma preset_gpus_ok: "preset_gpus raw = Inr gpus \<Longrightarrow> gpus_ok gpus"
  by (auto simp: preset_gpus_def gpus_ok_def gpu_indexes_ok elim!: res_bindE)

lemma preset_gpus_print: "gpus_ok gpus \<Longrightarrow> preset_gpus (map JInt gpus) = Inr gpus"
  using gpu_indexes_ok [of "map JInt gpus" gpus]
  by (simp add: preset_gpus_def gpus_ok_def sorted_sort_id)

lemma preset_gpu_list_ok:
  "preset_gpu_list allow_none v = Inr r \<Longrightarrow> (\<forall>gpus. r = Some gpus \<longrightarrow> gpus_ok gpus)"
  by (cases v) (auto simp: preset_gpu_list_def res_map_eq_Inr gpus_ok_def split: if_splits dest!: preset_gpus_ok)

lemma profile_mode_ok:
  "profile_mode v = Inr mode \<longleftrightarrow> v = JStr mode \<and> (mode = MODE_SHARED \<or> mode = MODE_EXCLUSIVE)"
  by (cases v) (auto simp: profile_mode_def)

lemma profile_memory_ok:
  "profile_memory v = Inr memory \<longleftrightarrow>
     v = jint_option memory \<and> (\<forall>m. memory = Some m \<longrightarrow> 1 \<le> m \<and> m \<le> 16777216)"
  by (cases memory) (auto simp: profile_memory_def jint_option_def res_map_eq_Inr preset_int_ok)

lemma profile_share_ok:
  "profile_share mode v = Inr share \<Longrightarrow>
     (share = None \<longleftrightarrow> mode \<noteq> MODE_SHARED) \<and> (\<forall>s. share = Some s \<longrightarrow> 1 \<le> s \<and> s \<le> 10000)"
  by (auto simp: profile_share_def res_map_eq_Inr preset_int_ok split: if_splits)

lemma profile_share_print:
  "(share = None \<longleftrightarrow> mode \<noteq> MODE_SHARED) \<Longrightarrow> (\<forall>s. share = Some s \<longrightarrow> 1 \<le> s \<and> s \<le> 10000)
   \<Longrightarrow> profile_share mode (jint_option share) = Inr share"
  by (cases share) (auto simp: profile_share_def jint_option_def res_map_eq_Inr preset_int_ok)

lemma check_preset_gpus_ok:
  "check_preset_gpus cnt preferred excluded value = Inr value' \<longleftrightarrow>
     value' = value \<and> (\<forall>gpus. preferred = Some gpus \<longrightarrow> int (length gpus) = cnt \<and> set gpus \<inter> set excluded = {})"
  by (cases preferred) (auto simp: check_preset_gpus_def)

lemma validate_profile_valid:
  assumes "validate_profile v = Inr p"
  shows "valid_profile p"
proof -
  obtain d where v: "v = JObj d" using assms by (cases v) (auto simp: validate_profile_def)
  from assms obtain mode cnt duration memory share preferred raw where steps:
      "profile_mode (jget_default d ''mode'' (JStr MODE_SHARED)) = Inr mode"
      "preset_int 1024 (jget d ''count'') = Inr cnt"
      "preset_int (10 * 365 * 86400) (jget d ''duration_seconds'') = Inr duration"
      "profile_memory (jget d ''expected_memory_mb'') = Inr memory"
      "profile_share mode (jget d ''share_units'') = Inr share"
      "preset_gpu_list True (jget d ''preferred_gpus'') = Inr preferred"
      "preset_gpu_list False (jget d ''excluded_gpus'') = Inr raw"
      "check_preset_gpus cnt preferred (case raw of None \<Rightarrow> [] | Some gpus \<Rightarrow> gpus)
         \<lparr>pf_mode = mode, pf_count = cnt, pf_duration_seconds = duration, pf_expected_memory_mb = memory,
          pf_share_units = share, pf_preferred_gpus = preferred,
          pf_excluded_gpus = (case raw of None \<Rightarrow> [] | Some gpus \<Rightarrow> gpus)\<rparr> = Inr p"
    unfolding validate_profile_def v json.case Let_def by (elim res_bindE) blast
  show ?thesis
    using steps(1-4) profile_share_ok [OF steps(5)] preset_gpu_list_ok [OF steps(6)] preset_gpu_list_ok [OF steps(7)]
      steps(8)
    by (auto simp: valid_profile_def preset_int_ok profile_mode_ok profile_memory_ok check_preset_gpus_ok gpus_ok_def
        split: option.splits)
qed

text \<open>A dictionary that has the fields of a valid profile, among others, is read as that profile.\<close>

lemma validate_profile_print:
  assumes valid: "valid_profile p" and items: "\<And>k. k \<in> fst ` set (profile_items p) \<Longrightarrow> map_of d k = map_of (profile_items p) k"
  shows "validate_profile (JObj d) = Inr p"
proof -
  have fields: "jget_default d ''mode'' (JStr MODE_SHARED) = JStr (pf_mode p)" "jget d ''count'' = JInt (pf_count p)"
    "jget d ''duration_seconds'' = JInt (pf_duration_seconds p)"
    "jget d ''expected_memory_mb'' = jint_option (pf_expected_memory_mb p)"
    "jget d ''share_units'' = jint_option (pf_share_units p)"
    "jget d ''preferred_gpus'' = (case pf_preferred_gpus p of None \<Rightarrow> JNull | Some gpus \<Rightarrow> gpu_list_json gpus)"
    "jget d ''excluded_gpus'' = gpu_list_json (pf_excluded_gpus p)"
    by (simp_all add: jget_def jget_default_def items profile_items_def)
  have steps: "profile_mode (JStr (pf_mode p)) = Inr (pf_mode p)" "preset_int 1024 (JInt (pf_count p)) = Inr (pf_count p)"
    "preset_int 315360000 (JInt (pf_duration_seconds p)) = Inr (pf_duration_seconds p)"
    "profile_memory (jint_option (pf_expected_memory_mb p)) = Inr (pf_expected_memory_mb p)"
    "profile_share (pf_mode p) (jint_option (pf_share_units p)) = Inr (pf_share_units p)"
    "preset_gpu_list True (case pf_preferred_gpus p of None \<Rightarrow> JNull | Some gpus \<Rightarrow> gpu_list_json gpus)
       = Inr (pf_preferred_gpus p)"
    "preset_gpu_list False (gpu_list_json (pf_excluded_gpus p)) = Inr (Some (pf_excluded_gpus p))"
    using valid
    by (auto simp: valid_profile_def profile_mode_ok preset_int_ok profile_memory_ok preset_gpu_list_def gpu_list_json_def
        preset_gpus_print profile_share_print split: option.split)
  have "check_preset_gpus (pf_count p) (pf_preferred_gpus p) (pf_excluded_gpus p)
     \<lparr>pf_mode = pf_mode p, pf_count = pf_count p, pf_duration_seconds = pf_duration_seconds p,
      pf_expected_memory_mb = pf_expected_memory_mb p, pf_share_units = pf_share_units p,
      pf_preferred_gpus = pf_preferred_gpus p, pf_excluded_gpus = pf_excluded_gpus p\<rparr> = Inr p"
    using valid by (auto simp: check_preset_gpus_ok valid_profile_def)
  then show ?thesis by (simp add: validate_profile_def fields steps Let_def del: preset_int.simps)
qed

lemma validate_profile_json: "valid_profile p \<Longrightarrow> validate_profile (profile_json p) = Inr p"
  unfolding profile_json_def by (rule validate_profile_print) simp_all

lemma preset_stamp_valid: "preset_stamp str_of v = Inr stamp \<Longrightarrow> valid_stamp stamp"
  by (auto simp: preset_stamp_def valid_stamp_def split: if_splits option.splits)

lemma preset_stamp_print:
  "valid_stamp stamp \<Longrightarrow> preset_stamp str_of (case stamp of None \<Rightarrow> JNull | Some s \<Rightarrow> JStr s) = Inr stamp"
  by (cases stamp) (auto simp: preset_stamp_def valid_stamp_def parse_iso_print to_iso_whole representable_whole)

lemma validate_preset_valid:
  assumes "validate_preset str_of v = Inr p"
  shows "valid_preset p"
proof -
  obtain d where v: "v = JObj d" using assms by (cases v) (auto simp: validate_preset_def)
  from assms obtain name profile created updated where steps:
      "validate_preset_name (jget d ''name'') = Inr name" "validate_profile v = Inr profile"
      "preset_stamp str_of (jget d ''created_at'') = Inr created" "preset_stamp str_of (jget d ''updated_at'') = Inr updated"
      "p = \<lparr>pr_name = name, pr_profile = profile, pr_created_at = created, pr_updated_at = updated\<rparr>"
    unfolding validate_preset_def v json.case by (elim res_bindE) blast
  from steps(1) have "preset_name_ok name"
    by (cases "jget d ''name''") (auto simp: validate_preset_name_def)
  with steps validate_profile_valid [OF steps(2)] show ?thesis
    by (auto simp: valid_preset_def intro: preset_stamp_valid)
qed

lemma validate_preset_json:
  assumes "valid_preset p"
  shows "validate_preset str_of (preset_json p) = Inr p"
proof -
  let ?d = "(''name'', JStr (pr_name p)) # profile_items (pr_profile p)
           @ stamp_item ''created_at'' (pr_created_at p) @ stamp_item ''updated_at'' (pr_updated_at p)"
  have "validate_profile (JObj ?d) = Inr (pr_profile p)"
    using assms by (intro validate_profile_print) (auto simp: valid_preset_def profile_items_def)
  moreover have "jget ?d ''name'' = JStr (pr_name p)"
      "jget ?d ''created_at'' = (case pr_created_at p of None \<Rightarrow> JNull | Some s \<Rightarrow> JStr s)"
      "jget ?d ''updated_at'' = (case pr_updated_at p of None \<Rightarrow> JNull | Some s \<Rightarrow> JStr s)"
    by (auto simp: jget_def profile_items_def stamp_item_def split: option.split)
  ultimately show ?thesis
    using assms by (simp add: validate_preset_def preset_json_def validate_preset_name_def valid_preset_def preset_stamp_print)
qed


section \<open>Documents\<close>

definition valid_presets :: "preset list \<Rightarrow> bool" where
  "valid_presets presets \<longleftrightarrow> length presets \<le> MAX_PRESETS \<and> distinct (map pr_name presets) \<and> list_all valid_preset presets"

lemma validate_presets_length:
  "validate_presets str_of raw = Inr presets \<Longrightarrow> length presets = length raw \<and> list_all valid_preset presets"
  by (induction raw arbitrary: presets) (auto simp: res_map_eq_Inr validate_preset_valid elim!: res_bindE)

lemma validate_presets_print:
  "list_all valid_preset presets \<Longrightarrow> validate_presets str_of (map preset_json presets) = Inr presets"
  by (induction presets) (simp_all add: validate_preset_json)

lemma validate_document_valid:
  assumes "validate_preset_document str_of v = Inr presets"
  shows "valid_presets presets"
proof -
  obtain d where v: "v = JObj d" using assms by (cases v) (auto simp: validate_preset_document_def)
  obtain raw where raw: "jget d ''presets'' = JArr raw"
    using assms by (cases "jget d ''presets''") (auto simp: validate_preset_document_def v)
  from assms show ?thesis
    by (auto simp: validate_preset_document_def v raw valid_presets_def not_less
        dest!: validate_presets_length elim!: res_bindE)
qed

lemma validate_document_print:
  "valid_presets presets \<Longrightarrow> validate_preset_document str_of (preset_document presets) = Inr presets"
  by (simp add: validate_preset_document_def preset_document_def jget_def valid_presets_def validate_presets_print not_less)

lemma load_valid: "load_preset_document env target = Inr presets \<Longrightarrow> valid_presets presets"
  by (auto simp: load_preset_document_def valid_presets_def split: option.splits dest!: validate_document_valid)

lemma load_not_symlink:
  "load_preset_document env target = Inr presets \<Longrightarrow> \<not> (case target of None \<Rightarrow> False | Some f \<Rightarrow> pt_symlink f)"
  by (auto simp: load_preset_document_def split: option.splits)

lemma load_written:
  assumes "valid_presets presets"
  shows "load_preset_document env (Some (written_file env (preset_document presets))) =
    (if pe_bytes env (preset_document presets) > 1048576 then Inl (PresetInvalid ''preset file exceeds 1 MiB'') else Inr presets)"
proof -
  have "(384 :: int) AND 63 = 0" by code_simp
  with assms show ?thesis by (simp add: load_preset_document_def written_file_def validate_document_print)
qed

lemma write_document_ok:
  assumes "valid_presets presets" "write_document env presets target = (target', r)"
  shows "r = Inr () \<Longrightarrow> target' = Some (written_file env (preset_document presets))"
    and "r = Inl e \<Longrightarrow> pe_fault env \<noteq> FailsAfter \<Longrightarrow> target' = target"
  using assms
  by (auto simp: write_document_def validate_document_print Let_def split: sum.splits write_fault.splits elim!: res_bindE)


section \<open>Presets as a map\<close>

text \<open>
  A table of named entries: an entry put under its name is found there, one dropped is not,
  and other names are not touched.
\<close>

locale named_table =
  fixes lookup :: "'name \<Rightarrow> 'table \<Rightarrow> 'entry option"
    and put :: "'table \<Rightarrow> 'entry \<Rightarrow> 'table"
    and drop_name :: "'name \<Rightarrow> 'table \<Rightarrow> 'table"
    and name_of :: "'entry \<Rightarrow> 'name"
  assumes lookup_put: "lookup n (put t e) = (if n = name_of e then Some e else lookup n t)"
    and lookup_drop: "lookup n (drop_name m t) = (if n = m then None else lookup n t)"
begin

definition as_map :: "'table \<Rightarrow> 'name \<rightharpoonup> 'entry" where
  "as_map t = (\<lambda>n. lookup n t)"

lemma as_map_put: "as_map (put t e) = (as_map t)(name_of e \<mapsto> e)"
  by (auto simp: as_map_def lookup_put)

lemma as_map_drop: "as_map (drop_name m t) = (as_map t)(m := None)"
  by (auto simp: as_map_def lookup_drop)

lemma last_put_wins: "name_of e = name_of e' \<Longrightarrow> as_map (put (put t e) e') = as_map (put t e')"
  by (simp add: as_map_put)

lemma drop_put: "as_map (drop_name (name_of e) (put t e)) = as_map (drop_name (name_of e) t)"
  by (simp add: as_map_put as_map_drop)

end

lemma find_filter_name:
  "find_preset n (filter (\<lambda>p. pr_name p \<noteq> m) presets) = (if n = m then None else find_preset n presets)"
  by (induction presets) (auto simp: find_preset_def)

text \<open>Sorting by name does not change what is found: the sort is stable.\<close>

lemma find_as_filter: "find P xs = (case filter P xs of [] \<Rightarrow> None | x # _ \<Rightarrow> Some x)"
  by (induction xs) auto

lemma find_sort_name: "find_preset n (sort_key pr_name presets) = find_preset n presets"
  unfolding find_preset_def find_as_filter using sort_key_stable [of pr_name n presets] by (simp add: eq_commute)

lemma find_saved: "find_preset n (saved_presets presets p) = (if n = pr_name p then Some p else find_preset n presets)"
proof -
  have "find_preset n (xs @ [p]) = (case find_preset n xs of None \<Rightarrow> if pr_name p = n then Some p else None | Some q \<Rightarrow> Some q)"
    for xs by (induction xs) (auto simp: find_preset_def)
  then show ?thesis by (auto simp: saved_presets_def find_sort_name find_filter_name split: option.split)
qed

interpretation presets: named_table find_preset saved_presets "\<lambda>m. filter (\<lambda>p. pr_name p \<noteq> m)" pr_name
  by unfold_locales (simp_all add: find_saved find_filter_name)

lemma valid_presets_filter: "valid_presets presets \<Longrightarrow> valid_presets (filter P presets)"
  by (auto simp: valid_presets_def distinct_map_filter list_all_iff intro: le_trans [OF length_filter_le])

lemma valid_presets_save:
  assumes "valid_presets presets" "valid_preset p" "length (filter (\<lambda>q. pr_name q \<noteq> pr_name p) presets) < MAX_PRESETS"
  shows "valid_presets (saved_presets presets p)"
proof -
  let ?others = "filter (\<lambda>q. pr_name q \<noteq> pr_name p) presets"
  have "distinct (map pr_name (?others @ [p]))" using assms(1) by (auto simp: valid_presets_def distinct_map_filter)
  then have "distinct (map pr_name (sort_key pr_name (?others @ [p])))"
    by (simp add: distinct_map inj_on_def) blast
  with assms show ?thesis by (auto simp: valid_presets_def saved_presets_def list_all_iff)
qed

lemma valid_stamped:
  assumes "valid_presets presets" "valid_preset p" "representable (pe_now env)"
  shows "valid_preset (stamped_preset env presets p)"
proof -
  have "valid_preset q" if "find_preset n presets = Some q" for q n
    using that assms(1) by (auto simp: find_preset_def find_Some_iff valid_presets_def list_all_length)
  with assms(2,3) show ?thesis
    by (fastforce simp: stamped_preset_def valid_preset_def valid_stamp_def Let_def split: option.splits)
qed



section \<open>The operations\<close>

lemma save_preset_effect:
  assumes loaded: "load_preset_document env target = Inr presets" and now: "representable (pe_now env)"
    and save: "save_preset env v target = (target', r)"
  shows "case r of
      Inr p \<Rightarrow> valid_preset p \<and> valid_presets (saved_presets presets p)
        \<and> target' = Some (written_file env (preset_document (saved_presets presets p)))
    | Inl e \<Rightarrow> pe_fault env \<noteq> FailsAfter \<longrightarrow> target' = target"
proof (cases "prepare_directory env")
  case (Inl e)
  with save show ?thesis by (auto simp: save_preset_def)
next
  case dir: (Inr u)
  show ?thesis
  proof (cases "validate_preset (pe_str env) v")
    case (Inl e)
    with dir loaded save show ?thesis by (auto simp: save_preset_def split: sum.split)
  next
    case (Inr q)
    let ?p = "stamped_preset env presets q"
    have name: "pr_name ?p = pr_name q" by (simp add: stamped_preset_def Let_def)
    have p: "valid_preset ?p"
      using valid_stamped [OF load_valid [OF loaded] validate_preset_valid [OF Inr] now] .
    show ?thesis
    proof (cases "length (filter (\<lambda>item. pr_name item \<noteq> pr_name q) presets) \<ge> MAX_PRESETS")
      case True
      with dir loaded Inr save show ?thesis by (auto simp: save_preset_def)
    next
      case False
      obtain t w where written: "write_document env (saved_presets presets ?p) target = (t, w)" by fastforce
      have valid: "valid_presets (saved_presets presets ?p)"
        using valid_presets_save [OF load_valid [OF loaded] p] False name by simp
      from written dir loaded Inr False save have "r = res_map (\<lambda>_. ?p) w" "target' = t"
        by (auto simp: save_preset_def)
      with write_document_ok [OF valid written] p valid show ?thesis by (cases w) auto
    qed
  qed
qed

lemma delete_preset_effect:
  assumes loaded: "load_preset_document env target = Inr presets"
    and delete: "delete_preset env (JStr name) target = (target', r)"
  shows "case r of
      Inr True \<Rightarrow> find_preset name presets \<noteq> None
        \<and> target' = Some (written_file env (preset_document (filter (\<lambda>p. pr_name p \<noteq> name) presets)))
    | Inr False \<Rightarrow> find_preset name presets = None \<and> target' = target
    | Inl e \<Rightarrow> pe_fault env \<noteq> FailsAfter \<longrightarrow> target' = target"
proof -
  let ?rest = "filter (\<lambda>p. pr_name p \<noteq> name) presets"
  obtain t w where written: "write_document env ?rest target = (t, w)" by fastforce
  note ok = write_document_ok [OF valid_presets_filter [OF load_valid [OF loaded]] written]
  have "length ?rest = length presets \<longleftrightarrow> find_preset name presets = None"
    unfolding find_preset_def find_None_iff
    by (metis (mono_tags, lifting) filter_True length_filter_less less_irrefl)
  with loaded delete written ok show ?thesis
    by (cases w) (auto simp: delete_preset_def validate_preset_name_def split: sum.splits if_splits elim!: res_bindE)
qed

text \<open>
  A written file for the map \<open>m\<close>: the document of presets that make up the map, which is loaded as these presets
  unless the file is larger than 1 MiB.
\<close>

definition holds_map :: "preset_env \<Rightarrow> preset_file option \<Rightarrow> (string \<rightharpoonup> preset) \<Rightarrow> bool" where
  "holds_map env target m \<longleftrightarrow>
     (\<exists>presets. target = Some (written_file env (preset_document presets)) \<and> (\<lambda>n. find_preset n presets) = m
        \<and> load_preset_document env target =
            (if pe_bytes env (preset_document presets) > 1048576 then Inl (PresetInvalid ''preset file exceeds 1 MiB'')
             else Inr presets))"

lemma written_holds_map:
  "valid_presets presets \<Longrightarrow> holds_map env (Some (written_file env (preset_document presets))) (presets.as_map presets)"
  by (auto simp: holds_map_def presets.as_map_def load_written intro!: exI [of _ presets])

text \<open>
  C26: the preset file is a map from names to presets. From a file that loads, a successful save writes the
  document of the map with the saved preset under its name; a successful deletion reports whether the name was there, and
  writes the document of the map without it, or leaves the file when it was not. A written document is loaded as the
  presets it was written for, unless its file is larger than 1 MiB: neither operation looks at the size,
  and the loader refuses such a file. An operation that raises leaves the file as it was, unless the failure comes after the new
  file took its place, when the directory is synchronized.
\<close>

theorem presets_refine_map:
  assumes loaded: "load_preset_document env target = Inr presets" and now: "representable (pe_now env)"
    and save: "save_preset env v target = (saved, r)" and delete: "delete_preset env (JStr name) target = (deleted, found)"
  shows "(\<forall>p. r = Inr p \<longrightarrow> holds_map env saved ((\<lambda>n. find_preset n presets)(pr_name p \<mapsto> p)))
    \<and> (\<forall>b. found = Inr b \<longrightarrow> b = (find_preset name presets \<noteq> None)
          \<and> (if b then holds_map env deleted ((\<lambda>n. find_preset n presets)(name := None)) else deleted = target))
    \<and> (pe_fault env \<noteq> FailsAfter \<longrightarrow> (isl r \<longrightarrow> saved = target) \<and> (isl found \<longrightarrow> deleted = target))"
proof -
  note effect = save_preset_effect [OF loaded now save] delete_preset_effect [OF loaded delete]
  note rest = valid_presets_filter [OF load_valid [OF loaded], of "\<lambda>p. pr_name p \<noteq> name"]
  have "holds_map env saved ((\<lambda>n. find_preset n presets)(pr_name p \<mapsto> p))" if "r = Inr p" for p
    using effect(1) that written_holds_map [of "saved_presets presets p" env]
    by (simp add: presets.as_map_put) (simp add: presets.as_map_def)
  moreover have "b = (find_preset name presets \<noteq> None)
      \<and> (if b then holds_map env deleted ((\<lambda>n. find_preset n presets)(name := None)) else deleted = target)" if "found = Inr b" for b
    using effect(2) that written_holds_map [OF rest, of env] presets.as_map_drop [of name presets]
    by (cases b) (auto simp: presets.as_map_def)
  moreover have "pe_fault env \<noteq> FailsAfter \<longrightarrow> (isl r \<longrightarrow> saved = target) \<and> (isl found \<longrightarrow> deleted = target)"
    using effect by (cases r; cases found) (auto split: bool.splits)
  ultimately show ?thesis by blast
qed


section \<open>The learned profile\<close>

lemma max_by_greatest:
  "max_by key best xs \<in> set (best # xs) \<and> (\<forall>x \<in> set (best # xs). key x \<le> key (max_by key best xs))"
proof (induction xs arbitrary: best)
  case (Cons x xs)
  show ?case
    using Cons.IH [of "if key best < key x then x else best"] by (auto split: if_splits)
qed simp

text \<open>The winner occurs most often.\<close>

lemma winning_most:
  assumes "winning signatures = Some (w, n)"
  shows "w \<in> set signatures" "n = count_list signatures w" "count_list signatures s \<le> n"
proof -
  let ?key = "\<lambda>(s, n). (int n, - int (index_of s signatures))"
  obtain first rest where items: "counter_items signatures = first # rest" "max_by ?key first rest = (w, n)"
    using assms by (auto simp: winning_def split: list.splits)
  have set_items: "set (counter_items signatures) = (\<lambda>x. (x, count_list signatures x)) ` set signatures"
    by (simp add: counter_items_def)
  from max_by_greatest [of ?key first rest] items
  have greatest: "(w, n) \<in> set (counter_items signatures)"
    "\<forall>x \<in> set (counter_items signatures). ?key x \<le> ?key (w, n)" by simp_all
  from greatest(1) set_items show "w \<in> set signatures" "n = count_list signatures w" by auto
  show "count_list signatures s \<le> n"
  proof (cases "s \<in> set signatures")
    case True
    with greatest(2) set_items show ?thesis by force
  qed (simp add: count_list_0_iff)
qed

lemma profile_from_reservation_open:
  "profile_from_reservation r = Inr p \<Longrightarrow> pf_preferred_gpus p = None \<and> pf_excluded_gpus p = []"
  unfolding profile_from_reservation_def validate_profile_def json.case Let_def
  by (elim res_bindE) (auto simp: check_preset_gpus_ok jget_def preset_gpu_list_def preset_gpus_def)

lemma profile_records_ok:
  assumes "(created, p) \<in> set (profile_records l uid)"
  obtains r where "r \<in> set (lg_reservations l)" "rs_uid r = uid" "profile_from_reservation r = Inr p"
    "valid_profile p" "pf_preferred_gpus p = None" "pf_excluded_gpus p = []"
proof -
  from assms obtain r where r: "r \<in> set (lg_reservations l)"
      "(if rs_uid r \<noteq> uid then None
        else case profile_from_reservation r of
               Inl _ \<Rightarrow> None
             | Inr p \<Rightarrow> Some (case rs_created_at r of None \<Rightarrow> rs_start_at r | Some t \<Rightarrow> t, p)) = Some (created, p)"
    by (auto simp: profile_records_def Let_def set_map_filter dest!: in_set_takeD)
  then have "rs_uid r = uid" "profile_from_reservation r = Inr p" by (auto split: if_splits sum.splits)
  with r(1) profile_from_reservation_open show ?thesis
    using validate_profile_valid that unfolding profile_from_reservation_def by blast
qed

lemma learned_profile_ok:
  assumes "learned_profile dumps l uid = Some learnt"
  shows "SUGGESTION_THRESHOLD \<le> ln_observations learnt" "ln_signature learnt = dumps (profile_json (ln_profile learnt))"
    and "length (filter (\<lambda>(_, q). dumps (profile_json q) = s) (profile_records l uid)) \<le> ln_observations learnt"
    and "length (filter (\<lambda>(_, q). dumps (profile_json q) = ln_signature learnt) (profile_records l uid)) = ln_observations learnt"
    and "valid_profile (ln_profile learnt)" "pf_preferred_gpus (ln_profile learnt) = None" "pf_excluded_gpus (ln_profile learnt) = []"
proof -
  let ?sigs = "map (\<lambda>(_, p). dumps (profile_json p)) (profile_records l uid)"
  obtain w n created p where won: "winning ?sigs = Some (w, n)" "\<not> n < SUGGESTION_THRESHOLD"
      "find (\<lambda>(_, p). dumps (profile_json p) = w) (profile_records l uid) = Some (created, p)"
      "learnt = \<lparr>ln_profile = p, ln_observations = n, ln_signature = w\<rparr>"
    using assms by (auto simp: learned_profile_def Let_def split: option.splits prod.splits if_splits)
  have count: "length (filter (\<lambda>(_, q). dumps (profile_json q) = s) xs) = count_list (map (\<lambda>(_, p). dumps (profile_json p)) xs) s"
    for s xs by (induction xs) auto
  have p: "(created, p) \<in> set (profile_records l uid)" "dumps (profile_json p) = w"
    using won(3) by (auto simp: find_Some_iff) (metis nth_mem)
  show "SUGGESTION_THRESHOLD \<le> ln_observations learnt" "ln_signature learnt = dumps (profile_json (ln_profile learnt))"
    "length (filter (\<lambda>(_, q). dumps (profile_json q) = s) (profile_records l uid)) \<le> ln_observations learnt"
    "length (filter (\<lambda>(_, q). dumps (profile_json q) = ln_signature learnt) (profile_records l uid)) = ln_observations learnt"
    using won(2,4) p(2) winning_most [OF won(1)] unfolding count by simp_all
  from p(1) show "valid_profile (ln_profile learnt)" "pf_preferred_gpus (ln_profile learnt) = None"
    "pf_excluded_gpus (ln_profile learnt) = []"
    using won(4) by (auto elim!: profile_records_ok)
qed

lemma preset_signature_of:
  assumes "valid_preset p"
  shows "learned_profile_signature dumps (preset_json p)
    = Inr (dumps (profile_json ((pr_profile p)\<lparr>pf_preferred_gpus := None, pf_excluded_gpus := []\<rparr>)))"
proof -
  have "validate_profile (preset_json p) = Inr (pr_profile p)"
    unfolding preset_json_def using assms
    by (intro validate_profile_print) (auto simp: valid_preset_def profile_items_def)
  moreover have "valid_profile ((pr_profile p)\<lparr>pf_preferred_gpus := None, pf_excluded_gpus := []\<rparr>)"
    using assms by (simp add: valid_preset_def valid_profile_def gpus_ok_def)
  ultimately show ?thesis
    by (simp add: learned_profile_signature_def profile_signature_def validate_profile_json)
qed

lemma preset_signatures_of:
  "list_all valid_preset presets \<Longrightarrow> preset_signatures dumps presets
    = Inr (map (\<lambda>p. dumps (profile_json ((pr_profile p)\<lparr>pf_preferred_gpus := None, pf_excluded_gpus := []\<rparr>))) presets)"
  by (induction presets) (simp_all add: preset_signature_of)

lemma name_char_digit: "is_digit ch \<Longrightarrow> name_char ch"
  by (simp add: is_digit_def name_char_def Let_def)

lemma suggested_name_ok:
  assumes "valid_profile p"
  shows "preset_name_ok (suggested_name p)"
proof -
  have digits: "list_all name_char (show_int n)" if "0 \<le> n" for n
    using that show_nat_digits [of "nat n"] by (auto simp: show_int_def list_all_iff name_char_digit)
  have "name_char (CHR ''x'')" "name_char (CHR ''s'')" "name_char (CHR ''h'')" "name_char (CHR ''m'')" by code_simp+
  note letters = this
  define mode where "mode = (if pf_mode p = MODE_EXCLUSIVE then CHR ''x'' else CHR ''s'')"
  define duration where "duration = (let minutes = pf_duration_seconds p div 60 in
    if minutes mod 60 = 0 then show_int (minutes div 60) @ ''h'' else show_int minutes @ ''m'')"
  define tail where "tail = take 31 (show_int (pf_count p) @ ''x-'' @ duration)"
  have name: "suggested_name p = mode # tail"
    by (simp add: suggested_name_def mode_def duration_def tail_def Let_def)
  have "0 \<le> pf_count p" "0 \<le> pf_duration_seconds p div 60" "0 \<le> pf_duration_seconds p div 60 div 60"
    using assms by (simp_all add: valid_profile_def pos_imp_zdiv_nonneg_iff)
  from digits [OF this(1)] digits [OF this(2)] digits [OF this(3)]
  have "list_all name_char (show_int (pf_count p))" "list_all name_char duration"
    using letters by (simp_all add: duration_def Let_def)
  then have "list_all (\<lambda>ch. name_char ch \<or> ch \<in> set ''._-'') (show_int (pf_count p) @ ''x-'' @ duration)"
    using letters by (auto simp: list_all_iff)
  then have "list_all (\<lambda>ch. name_char ch \<or> ch \<in> set ''._-'') tail"
    unfolding tail_def list_all_iff by (meson in_set_takeD)
  moreover have "name_char mode" using letters by (simp add: mode_def)
  moreover have "length tail \<le> 31" by (simp add: tail_def)
  ultimately show ?thesis unfolding name by simp
qed

lemma suggestion_accepted:
  assumes "valid_profile (ln_profile learnt)"
  shows "validate_preset str_of (suggestion_json (learnt, suggested_name (ln_profile learnt)))
    = Inr \<lparr>pr_name = suggested_name (ln_profile learnt), pr_profile = ln_profile learnt, pr_created_at = None, pr_updated_at = None\<rparr>"
proof -
  let ?d = "profile_items (ln_profile learnt)
      @ [(''observations'', JInt (int (ln_observations learnt))), (''signature'', JStr (ln_signature learnt)),
         (''name'', JStr (suggested_name (ln_profile learnt)))]"
  have "validate_profile (JObj ?d) = Inr (ln_profile learnt)"
    using assms by (intro validate_profile_print) (auto simp: profile_items_def)
  moreover have "jget ?d ''name'' = JStr (suggested_name (ln_profile learnt))" "jget ?d ''created_at'' = JNull"
      "jget ?d ''updated_at'' = JNull"
    by (simp_all add: jget_def profile_items_def)
  ultimately show ?thesis
    by (simp add: validate_preset_def suggestion_json_def validate_preset_name_def suggested_name_ok [OF assms] preset_stamp_def)
qed

text \<open>
  A suggestion is the user's habit, can be saved as it is offered, and is then settled. A suggested profile is the
  one most frequent among the hundred newest bookings of the user that have a profile, and was
  seen at least three times. Saving it under the suggested name succeeds unless the file is full; the saved preset has
  exactly the suggested profile, and with the presets the file then holds nothing is suggested for the same
  ledger. A file over 1 MiB is not loaded.
\<close>

theorem saved_suggestion_settles:
  assumes suggested: "preset_suggestion dumps l uid presets = Inr (Some (learnt, name))"
    and loaded: "load_preset_document env target = Inr presets" and room: "length presets < MAX_PRESETS"
    and dir: "prepare_directory env = Inr ()" and env: "pe_fault env = NoFault" "representable (pe_now env)"
  shows "3 \<le> ln_observations learnt
    \<and> length (filter (\<lambda>(_, q). dumps (profile_json q) = ln_signature learnt) (profile_records l uid)) = ln_observations learnt
    \<and> (\<forall>s. length (filter (\<lambda>(_, q). dumps (profile_json q) = s) (profile_records l uid)) \<le> ln_observations learnt)
    \<and> (\<exists>target' p presets'. save_preset env (suggestion_json (learnt, name)) target = (target', Inr p)
        \<and> pr_name p = name \<and> pr_profile p = ln_profile learnt
        \<and> target' = Some (written_file env (preset_document presets'))
        \<and> (pe_bytes env (preset_document presets') \<le> 1048576 \<longrightarrow> load_preset_document env target' = Inr presets')
        \<and> preset_suggestion dumps l uid presets' = Inr None)"
proof -
  from suggested have learnt: "learned_profile dumps l uid = Some learnt" "name = suggested_name (ln_profile learnt)"
    by (auto simp: preset_suggestion_def res_map_eq_Inr split: option.splits if_splits)
  note ok = learned_profile_ok [OF learnt(1)]
  let ?q = "\<lparr>pr_name = name, pr_profile = ln_profile learnt, pr_created_at = None, pr_updated_at = None\<rparr>"
  let ?p = "stamped_preset env presets ?q"
  have q: "validate_preset (pe_str env) (suggestion_json (learnt, name)) = Inr ?q"
    using suggestion_accepted [OF ok(5)] learnt(2) by simp
  have fields: "pr_name ?p = name" "pr_profile ?p = ln_profile learnt" by (simp_all add: stamped_preset_def Let_def)
  have few: "length (filter (\<lambda>item. pr_name item \<noteq> name) presets) < MAX_PRESETS"
    using room by (meson le_less_trans length_filter_le)
  have p: "valid_preset ?p" using valid_stamped [OF load_valid [OF loaded] validate_preset_valid [OF q] env(2)] .
  have valid: "valid_presets (saved_presets presets ?p)"
    using valid_presets_save [OF load_valid [OF loaded] p] few fields by simp
  let ?t = "Some (written_file env (preset_document (saved_presets presets ?p)))"
  have "write_document env (saved_presets presets ?p) target = (?t, Inr ())"
    using load_not_symlink [OF loaded] by (simp add: write_document_def validate_document_print [OF valid] dir env(1) Let_def)
  with few have save: "save_preset env (suggestion_json (learnt, name)) target = (?t, Inr ?p)"
    by (simp add: save_preset_def dir loaded q not_le)
  have "?p \<in> set (saved_presets presets ?p)" by (simp add: saved_presets_def)
  moreover have "(pr_profile ?p)\<lparr>pf_preferred_gpus := None, pf_excluded_gpus := []\<rparr> = ln_profile learnt"
    using fields(2) ok(6,7) by simp
  ultimately have "preset_suggestion dumps l uid (saved_presets presets ?p) = Inr None"
    using valid learnt(1) ok(2) by (force simp: preset_suggestion_def valid_presets_def preset_signatures_of)
  moreover have "pe_bytes env (preset_document (saved_presets presets ?p)) \<le> 1048576
      \<longrightarrow> load_preset_document env ?t = Inr (saved_presets presets ?p)"
    using load_written [OF valid, of env] by simp
  ultimately show ?thesis using save fields ok(1,3,4)
    unfolding SUGGESTION_THRESHOLD_def by blast
qed


section \<open>Witnesses\<close>

text \<open>Some hundred bytes for each preset.\<close>

definition document_bytes :: "json \<Rightarrow> int" where
  "document_bytes v =
     (case v of
        JObj d \<Rightarrow> (case jget d ''presets'' of JArr ps \<Rightarrow> 60 + 400 * int (length ps) | _ \<Rightarrow> 60)
      | _ \<Rightarrow> 60)"

definition preset_env0 :: preset_env where
  "preset_env0 = \<lparr>pe_euid = 1000, pe_dir = \<lparr>pd_symlink = False, pd_mkdir = True, pd_directory = True, pd_uid = 1000\<rparr>,
     pe_now = days 20000, pe_fault = NoFault, pe_str = (\<lambda>_. []), pe_bytes = document_bytes\<rparr>"

definition sample_value :: json where
  "sample_value = JObj [(''name'', JStr ''train''), (''count'', JInt 2), (''duration_seconds'', JInt 7200)]"

lemma preset_env0_now: "representable (pe_now preset_env0)"
  by code_simp

theorem presets_refine_map_witness:
  "\<exists>f p presets. save_preset preset_env0 sample_value None = (Some f, Inr p) \<and> load_preset_document preset_env0 (Some f) = Inr presets
     \<and> find_preset ''train'' presets = Some p \<and> find_preset ''test'' presets = None"
proof -
  obtain f p where save: "save_preset preset_env0 sample_value None = (Some f, Inr p)" and f: "\<not> isl (load_preset_document preset_env0 (Some f))"
      "pr_name p = ''train''"
  proof -
    have "case save_preset preset_env0 sample_value None of
        (Some f, Inr p) \<Rightarrow> \<not> isl (load_preset_document preset_env0 (Some f)) \<and> pr_name p = ''train'' | _ \<Rightarrow> False" by code_simp
    then show ?thesis using that by (auto split: prod.splits option.splits sum.splits)
  qed
  have "load_preset_document preset_env0 None = Inr []" "delete_preset preset_env0 (JStr ''test'') None = (None, Inr False)"
    by code_simp+
  from presets_refine_map [OF this(1) preset_env0_now save this(2)]
  obtain presets where "load_preset_document preset_env0 (Some f) = Inr presets"
      and map: "(\<lambda>n. find_preset n presets) = (\<lambda>n. find_preset n [])(pr_name p \<mapsto> p)"
    using f(1) by (auto simp: holds_map_def split: if_split_asm)
  moreover from fun_cong [OF map, of "''train''"] fun_cong [OF map, of "''test''"] f(2)
  have "find_preset ''train'' presets = Some p" "find_preset ''test'' presets = None" by (simp_all add: find_preset_def)
  ultimately show ?thesis using save by blast
qed

text \<open>Three bookings of one GPU for two hours.\<close>

definition habit :: ledger where
  "habit = sample_ledger (map (\<lambda>i. sample_reservation [i] MODE_SHARED [0] (days 20000) (days 20000 + hours 2)) ''abc'')"

definition sample_dumps :: "json \<Rightarrow> string" where
  "sample_dumps v = (case v of JObj d \<Rightarrow> if jget d ''expected_memory_mb'' = JNull then ''any'' else ''memory'' | _ \<Rightarrow> [])"

theorem saved_suggestion_settles_witness:
  "\<exists>learnt target' p presets'. preset_suggestion sample_dumps habit 1000 [] = Inr (Some (learnt, ''s1x-2h''))
     \<and> save_preset preset_env0 (suggestion_json (learnt, ''s1x-2h'')) None = (target', Inr p)
     \<and> target' = Some (written_file preset_env0 (preset_document presets'))
     \<and> preset_suggestion sample_dumps habit 1000 presets' = Inr None"
proof -
  obtain learnt where suggested: "preset_suggestion sample_dumps habit 1000 [] = Inr (Some (learnt, ''s1x-2h''))"
  proof -
    have "case preset_suggestion sample_dumps habit 1000 [] of Inr (Some (_, name)) \<Rightarrow> name = ''s1x-2h'' | _ \<Rightarrow> False"
      by code_simp
    then show ?thesis using that by (auto split: prod.splits option.splits sum.splits)
  qed
  have "load_preset_document preset_env0 None = Inr []" "prepare_directory preset_env0 = Inr ()" "pe_fault preset_env0 = NoFault"
    "length ([] :: preset list) < MAX_PRESETS" by code_simp+
  then show ?thesis
    using saved_suggestion_settles [OF suggested, of preset_env0 None] suggested preset_env0_now by blast
qed

text \<open>
  The suggested name is made of mode, count and duration only, and the names in use are not
  consulted: here the suggestion carries the name of a stored preset with another profile, which saving it replaces.
\<close>

definition other_preset :: preset where
  "other_preset = \<lparr>pr_name = ''s1x-2h'', pr_profile = \<lparr>pf_mode = MODE_SHARED, pf_count = 1, pf_duration_seconds = 7200,
     pf_expected_memory_mb = Some 8000, pf_share_units = Some 1, pf_preferred_gpus = None, pf_excluded_gpus = []\<rparr>,
     pr_created_at = None, pr_updated_at = None\<rparr>"

lemma suggestion_replaces_preset:
  "case preset_suggestion sample_dumps habit 1000 [other_preset] of
     Inr (Some (learnt, name)) \<Rightarrow>
       find_preset name [other_preset] = Some other_preset \<and> pr_profile other_preset \<noteq> ln_profile learnt
       \<and> (case save_preset preset_env0 (suggestion_json (learnt, name))
                  (Some (written_file preset_env0 (preset_document [other_preset]))) of
            (target', Inr p) \<Rightarrow> load_preset_document preset_env0 target' = Inr [p] \<and> pr_profile p = ln_profile learnt
          | _ \<Rightarrow> False)
   | _ \<Rightarrow> False"
  by code_simp

end
