(* ===== verification/Job_Specs.thy ===== *)
theory Job_Specs
  imports Job_Logs Config_Load "HOL-Library.AList"
begin

text \<open>
  The private job specifications of \<^verbatim>\<open>bk/worker.py\<close>: the command of a booking is kept in a
  file of its owner, the shared ledger holds its identifier and digest only. Files are their
  metadata and JSON content, the directory a list of named files; the ledger is raw JSON, as the cleanup reads it.
  JSON text, SHA-256 and \<^verbatim>\<open>str\<close> of values that are not strings are arguments, and so are the
  failures of the operating system. An instant is exact, where the age of a file is a float in
  the code. Messages and warnings are given by their fixed part.
\<close>

definition JOB_SPEC_VERSION :: int where "JOB_SPEC_VERSION = 2"
definition LEGACY_JOB_SPEC_VERSION :: int where "LEGACY_JOB_SPEC_VERSION = 1"
definition MAX_JOB_PATH_BYTES :: int where "MAX_JOB_PATH_BYTES = 32 * 1024"

datatype spec_error =
    SpecRefused string
  | SpecOSError
  | SpecValueError
  | SpecTypeError
  | SpecOverflow

record digests =
  dg_dumps :: "json \<Rightarrow> string"
  dg_sha256 :: "string \<Rightarrow> string"
  dg_str :: "json \<Rightarrow> string"


section \<open>Submissions\<close>

definition spec_argv :: "json \<Rightarrow> (spec_error, string list) result" where
  "spec_argv raw_argv =
     (case raw_argv of
        JArr raw \<Rightarrow>
          (case string_items raw of
             None \<Rightarrow> Inl (SpecRefused ''invalid job argv'')
           | Some argv \<Rightarrow>
               raise_if (argv = []) (SpecRefused ''invalid job argv'')
               (raise_if (length argv > 256 \<or> (\<exists>item \<in> set argv. CHR 0x00 \<in> set item)) (SpecRefused ''invalid job argv'')
               (raise_if (hd argv = [] \<or> int (sum_list (map utf8_length argv)) > 64 * 1024) (SpecRefused ''invalid job argv'')
                 (Inr argv))))
      | _ \<Rightarrow> Inl (SpecRefused ''invalid job argv''))"

definition spec_cwd :: "(string \<Rightarrow> bool) \<Rightarrow> bool \<Rightarrow> json \<Rightarrow> (spec_error, string) result" where
  "spec_cwd is_dir require_working_directory v =
     (case v of
        JStr cwd \<Rightarrow>
          raise_if (take 1 cwd \<noteq> ''/'' \<or> CHR 0x00 \<in> set cwd) (SpecRefused ''job working directory must be absolute'')
          (raise_if (int (utf8_length cwd) > 4096) (SpecRefused ''invalid job working directory'')
          (raise_if (require_working_directory \<and> \<not> is_dir cwd) (SpecRefused ''job working directory does not exist'')
            (Inr cwd)))
      | _ \<Rightarrow> Inl (SpecRefused ''job working directory must be absolute''))"

definition validate_submission_payload ::
  "(string \<Rightarrow> bool) \<Rightarrow> bool \<Rightarrow> json \<Rightarrow> json \<Rightarrow> (spec_error, string list \<times> string) result" where
  "validate_submission_payload is_dir require_working_directory raw_argv cwd =
     res_bind (spec_argv raw_argv) (\<lambda>argv.
       res_map (\<lambda>cwd. (argv, cwd)) (spec_cwd is_dir require_working_directory cwd))"

definition validate_job_environment :: "json \<Rightarrow> (spec_error, string) result" where
  "validate_job_environment raw =
     (case raw of
        JObj d \<Rightarrow>
          raise_if (set (map fst d) \<noteq> {''PATH''}) (SpecRefused ''job environment must contain only PATH'')
          (case jget d ''PATH'' of
             JStr path \<Rightarrow>
               raise_if (int (utf8_length path) > MAX_JOB_PATH_BYTES) (SpecRefused ''job PATH must not exceed 32768 bytes'')
               (raise_if (has_control path \<or> CHR 0x7F \<in> set path) (SpecRefused ''job PATH contains a control character'')
                 (Inr path))
           | _ \<Rightarrow> Inl (SpecRefused ''job PATH must be text''))
      | _ \<Rightarrow> Inl (SpecRefused ''job environment must contain only PATH''))"

definition environment_json :: "string \<Rightarrow> json" where
  "environment_json path = JObj [(''PATH'', JStr path)]"

text \<open>\<open>defpath\<close> is \<^verbatim>\<open>os.defpath\<close>.\<close>

definition capture_job_environment :: "string \<Rightarrow> (string \<rightharpoonup> string) \<Rightarrow> (spec_error, string) result" where
  "capture_job_environment defpath source =
     validate_job_environment (environment_json (case source ''PATH'' of None \<Rightarrow> defpath | Some path \<Rightarrow> path))"

definition signed_payload :: "(string \<times> json) list \<Rightarrow> json" where
  "signed_payload payload =
     JObj ([(''version'', jget payload ''version''), (''uid'', jget payload ''uid''), (''argv'', jget payload ''argv''),
            (''cwd'', jget payload ''cwd'')]
           @ (if jget payload ''version'' = JInt JOB_SPEC_VERSION then [(''environment'', jget payload ''environment'')] else []))"

definition job_spec_digest :: "digests \<Rightarrow> (string \<times> json) list \<Rightarrow> string" where
  "job_spec_digest dg payload = dg_sha256 dg (dg_dumps dg (signed_payload payload))"

text \<open>\<^verbatim>\<open>Path(text).name\<close>\<close>

definition final_component :: "string \<Rightarrow> string" where
  "final_component s =
     (case filter (\<lambda>part. part \<noteq> [] \<and> part \<noteq> ''.'') (split_on (CHR ''/'') s) of [] \<Rightarrow> [] | parts \<Rightarrow> last parts)"

definition starts_with :: "string \<Rightarrow> string \<Rightarrow> bool" where
  "starts_with text prefix \<longleftrightarrow> take (length prefix) text = prefix"

text \<open>The visible part of a command line and the number of arguments it shows.\<close>

definition summary_detail :: "string \<Rightarrow> string list \<Rightarrow> string \<times> nat" where
  "summary_detail executable argv =
     (if starts_with (py_lower executable) ''python'' \<and> length argv > 1
      then if argv ! 1 = ''-m'' \<and> length argv > 2 then ('' -m '' @ argv ! 2, 3)
           else if argv ! 1 = ''-c'' then ('' -c'', 2)
           else if \<not> starts_with (argv ! 1) ''-'' then ('' '' @ final_component (argv ! 1), 2)
           else ([], 1)
      else ([], 1))"

definition job_command_summary :: "string list \<Rightarrow> string" where
  "job_command_summary argv =
     (let name = final_component (hd argv);
          executable = (if name \<noteq> [] then name else hd argv);
          (detail, consumed) = summary_detail executable argv;
          hidden_count = length argv - consumed;
          tail = (if hidden_count \<noteq> 0 then '' (+'' @ show_nat hidden_count @ '' args)'' else [])
      in take 200 (executable @ detail @ tail))"

record submission_identity =
  si_digest :: string
  si_summary :: string
  si_legacy_digests :: "string list"

definition argv_json :: "string list \<Rightarrow> json" where
  "argv_json argv = JArr (map JStr argv)"

definition job_submission_components ::
  "digests \<Rightarrow> (string \<Rightarrow> bool) \<Rightarrow> string \<Rightarrow> int \<Rightarrow> actor \<Rightarrow> json \<Rightarrow> json \<Rightarrow> bool \<Rightarrow> (string \<rightharpoonup> string) \<Rightarrow>
   (spec_error, string list \<times> string \<times> string \<times> submission_identity) result" where
  "job_submission_components dg is_dir defpath getuid actor command_argv working_directory require_working_directory source =
     raise_if (actor_uid actor \<noteq> getuid) (SpecRefused ''job spec actor must match the current process UID'')
     (res_bind (validate_submission_payload is_dir require_working_directory command_argv working_directory) (\<lambda>(argv, cwd).
      res_bind (capture_job_environment defpath source) (\<lambda>environment.
      (let legacy_digest = job_spec_digest dg [(''version'', JInt LEGACY_JOB_SPEC_VERSION), (''uid'', JInt (actor_uid actor)),
             (''argv'', argv_json argv), (''cwd'', JStr cwd)];
           digest = job_spec_digest dg [(''version'', JInt JOB_SPEC_VERSION), (''uid'', JInt (actor_uid actor)),
             (''argv'', argv_json argv), (''cwd'', JStr cwd), (''environment'', environment_json environment)]
       in Inr (argv, cwd, environment,
               \<lparr>si_digest = digest, si_summary = job_command_summary argv,
                si_legacy_digests = (if legacy_digest \<noteq> digest then [legacy_digest] else [])\<rparr>)))))"

text \<open>A new submission needs its directory; the fingerprint of a repeated one does not.\<close>

definition validate_job_submission ::
  "digests \<Rightarrow> (string \<Rightarrow> bool) \<Rightarrow> string \<Rightarrow> int \<Rightarrow> actor \<Rightarrow> json \<Rightarrow> json \<Rightarrow> (string \<rightharpoonup> string) \<Rightarrow>
   (spec_error, submission_identity) result" where
  "validate_job_submission dg is_dir defpath getuid actor command_argv working_directory source =
     res_map (\<lambda>(_, _, _, identity). identity)
       (job_submission_components dg is_dir defpath getuid actor command_argv working_directory True source)"

definition job_submission_identity ::
  "digests \<Rightarrow> (string \<Rightarrow> bool) \<Rightarrow> string \<Rightarrow> int \<Rightarrow> actor \<Rightarrow> json \<Rightarrow> json \<Rightarrow> (string \<rightharpoonup> string) \<Rightarrow>
   (spec_error, submission_identity) result" where
  "job_submission_identity dg is_dir defpath getuid actor command_argv working_directory source =
     res_map (\<lambda>(_, _, _, identity). identity)
       (job_submission_components dg is_dir defpath getuid actor command_argv working_directory False source)"


section \<open>The private directory\<close>

record private_dir =
  dr_directory :: bool
  dr_uid :: int
  dr_mode :: int

record spec_file =
  sf_regular :: bool
  sf_links :: nat
  sf_uid :: int
  sf_mode :: int
  sf_size :: int
  sf_modified :: datetime
  sf_content :: "json option"

type_synonym spec_directory = "(string \<times> spec_file) list"

text \<open>\<open>None\<close> is a directory that is not there.\<close>

record spec_store =
  ss_root :: "private_dir option"
  ss_specs :: "private_dir option"
  ss_files :: spec_directory

definition open_private_directory :: "bool \<Rightarrow> int \<Rightarrow> private_dir \<Rightarrow> (spec_error, private_dir) result" where
  "open_private_directory repair_mode uid d =
     raise_if (\<not> dr_directory d) (SpecRefused ''private job path is not a directory'')
     (raise_if (dr_uid d \<noteq> uid) (SpecRefused ''private job directory is not owned'')
     (let d = (if repair_mode then d\<lparr>dr_mode := 448\<rparr> else d)
      in raise_if (dr_mode d AND 63 \<noteq> 0) (SpecRefused ''private job directory must not be accessible'') (Inr d)))"

text \<open>To read or remove: no root or no directory for the specifications is not an error.\<close>

definition find_spec_directory :: "int \<Rightarrow> spec_store \<Rightarrow> (spec_error, bool) result" where
  "find_spec_directory uid s =
     (case ss_root s of
        None \<Rightarrow> Inr False
      | Some base_dir \<Rightarrow>
          res_bind (open_private_directory False uid base_dir) (\<lambda>_.
            case ss_specs s of
              None \<Rightarrow> Inr False
            | Some specs \<Rightarrow> res_map (\<lambda>_. True) (open_private_directory False uid specs)))"

text \<open>
  To write: \<open>base_dir\<close> is the root as \<^verbatim>\<open>ensure_job_log_dir\<close> leaves it. A missing directory is made,
  the permissions of one that is there are repaired.
\<close>

definition create_spec_directory ::
  "(spec_error, private_dir) result \<Rightarrow> int \<Rightarrow> spec_store \<Rightarrow> spec_store \<times> (spec_error, unit) result" where
  "create_spec_directory base_dir uid s =
     (case res_bind base_dir (open_private_directory False uid) of
        Inl e \<Rightarrow> (s, Inl e)
      | Inr base_dir \<Rightarrow>
          (let specs = (case ss_specs s of None \<Rightarrow> \<lparr>dr_directory = True, dr_uid = uid, dr_mode = 448\<rparr> | Some d \<Rightarrow> d);
               s = s\<lparr>ss_root := Some base_dir, ss_specs := Some specs\<rparr>
           in case open_private_directory True uid specs of
                Inl e \<Rightarrow> (s, Inl e)
              | Inr specs \<Rightarrow> (s\<lparr>ss_specs := Some specs\<rparr>, Inr ())))"


section \<open>Writing a specification\<close>

text \<open>
  The open fails; or a later call does, and the unlink that takes the file back may fail too.
\<close>

datatype prepare_fault = PrepareRuns | OpenFails | WriteFails bool

record spec_env =
  sv_getuid :: int
  sv_is_dir :: "string \<Rightarrow> bool"
  sv_defpath :: string
  sv_root :: "(spec_error, private_dir) result"
  sv_uuid :: string
  sv_now :: datetime
  sv_fault :: prepare_fault
  sv_bytes :: "json \<Rightarrow> int"

record spec_reference =
  sr_spec_id :: string
  sr_digest :: string
  sr_summary :: string

definition spec_file_name :: "string \<Rightarrow> string" where
  "spec_file_name spec_id = spec_id @ ''.json''"

definition job_spec_path :: "string \<Rightarrow> (spec_error, string) result" where
  "job_spec_path spec_id =
     (case uuid_text spec_id of None \<Rightarrow> Inl (SpecRefused ''invalid job spec ID'') | Some normalized \<Rightarrow> Inr (spec_file_name normalized))"

definition spec_payload :: "spec_env \<Rightarrow> actor \<Rightarrow> string list \<Rightarrow> string \<Rightarrow> string \<Rightarrow> string \<Rightarrow> (string \<times> json) list" where
  "spec_payload env actor argv cwd environment digest =
     [(''version'', JInt JOB_SPEC_VERSION), (''spec_id'', JStr (sv_uuid env)), (''uid'', JInt (actor_uid actor)),
      (''argv'', argv_json argv), (''cwd'', JStr cwd), (''environment'', environment_json environment),
      (''created_at'', JStr (to_iso (sv_now env))), (''digest'', JStr digest)]"

definition fresh_spec_file :: "spec_env \<Rightarrow> json option \<Rightarrow> spec_file" where
  "fresh_spec_file env content =
     \<lparr>sf_regular = True, sf_links = 1, sf_uid = sv_getuid env, sf_mode = 384,
      sf_size = (case content of None \<Rightarrow> 0 | Some v \<Rightarrow> sv_bytes env v), sf_modified = sv_now env, sf_content = content\<rparr>"

definition write_spec :: "spec_env \<Rightarrow> string \<Rightarrow> json \<Rightarrow> spec_directory \<Rightarrow> spec_directory \<times> (spec_error, unit) result" where
  "write_spec env name payload files =
     (if sv_fault env = OpenFails \<or> map_of files name \<noteq> None then (files, Inl SpecOSError)
      else case sv_fault env of
             WriteFails unlink_fails \<Rightarrow>
               (if unlink_fails then (name, fresh_spec_file env None) # files else files, Inl SpecOSError)
           | _ \<Rightarrow> ((name, fresh_spec_file env (Some payload)) # files, Inr ()))"

definition prepare_job_spec ::
  "digests \<Rightarrow> spec_env \<Rightarrow> actor \<Rightarrow> json \<Rightarrow> json \<Rightarrow> (string \<rightharpoonup> string) \<Rightarrow> spec_store \<Rightarrow>
   spec_store \<times> (spec_error, spec_reference) result" where
  "prepare_job_spec dg env actor command_argv working_directory source s =
     (case res_bind (job_submission_components dg (sv_is_dir env) (sv_defpath env) (sv_getuid env) actor command_argv
                       working_directory True source) (\<lambda>c.
             res_map (\<lambda>name. (c, name)) (job_spec_path (sv_uuid env))) of
        Inl e \<Rightarrow> (s, Inl e)
      | Inr ((argv, cwd, environment, identity), name) \<Rightarrow>
          (case create_spec_directory (sv_root env) (actor_uid actor) s of
             (s, Inl e) \<Rightarrow> (s, Inl e)
           | (s, Inr _) \<Rightarrow>
               (case write_spec env name (JObj (spec_payload env actor argv cwd environment (si_digest identity))) (ss_files s) of
                  (files, written) \<Rightarrow>
                    (s\<lparr>ss_files := files\<rparr>,
                     res_map (\<lambda>_. \<lparr>sr_spec_id = sv_uuid env, sr_digest = si_digest identity, sr_summary = si_summary identity\<rparr>)
                       written))))"


section \<open>Reading it back\<close>

definition spec_version_ok :: "(string \<times> json) list \<Rightarrow> bool" where
  "spec_version_ok payload \<longleftrightarrow>
     jget payload ''version'' \<in> {JInt LEGACY_JOB_SPEC_VERSION, JInt JOB_SPEC_VERSION}"

definition check_spec_identity :: "int \<Rightarrow> string \<Rightarrow> json \<Rightarrow> (spec_error, (string \<times> json) list) result" where
  "check_spec_identity uid spec_id v =
     (case v of
        JObj payload \<Rightarrow>
          raise_if (\<not> spec_version_ok payload) (SpecRefused ''invalid private job spec'')
          (case py_int_json (jget_default payload ''uid'' (JInt (- 1))) of
             Inl _ \<Rightarrow> Inl SpecOverflow
           | Inr None \<Rightarrow> Inl SpecValueError
           | Inr (Some n) \<Rightarrow>
               raise_if (n \<noteq> uid \<or> jget payload ''spec_id'' \<noteq> JStr spec_id) (SpecRefused ''private job spec identity mismatch'')
                 (Inr payload))
      | _ \<Rightarrow> Inl (SpecRefused ''invalid private job spec''))"

definition read_job_spec :: "int \<Rightarrow> string \<Rightarrow> spec_store \<Rightarrow> (spec_error, (string \<times> json) list) result" where
  "read_job_spec uid spec_id s =
     res_bind (job_spec_path spec_id) (\<lambda>name.
     res_bind (find_spec_directory uid s) (\<lambda>present.
     raise_if (\<not> present) (SpecRefused ''private job spec directory is missing'')
     (case map_of (ss_files s) name of
        None \<Rightarrow> Inl SpecOSError
      | Some f \<Rightarrow>
          raise_if (\<not> sf_regular f \<or> sf_links f \<noteq> 1) SpecOSError
          (raise_if (sf_uid f \<noteq> uid) (SpecRefused ''job spec is not owned by the reservation UID'')
          (raise_if (sf_mode f AND 63 \<noteq> 0) (SpecRefused ''job spec must not be accessible by group or other users'')
          (raise_if (sf_size f > 128 * 1024) (SpecRefused ''job spec is too large'')
          (case sf_content f of
             None \<Rightarrow> Inl SpecValueError
           | Some v \<Rightarrow> check_spec_identity uid spec_id v)))))))"

text \<open>\<^verbatim>\<open>hmac.compare_digest\<close> takes ASCII texts only.\<close>

definition compare_digest :: "string \<Rightarrow> string \<Rightarrow> (spec_error, bool) result" where
  "compare_digest a b =
     raise_if (\<exists>ch \<in> set (a @ b). (of_char ch :: nat) \<ge> 128) SpecTypeError (Inr (a = b))"

definition spec_command ::
  "(string \<Rightarrow> bool) \<Rightarrow> (string \<times> json) list \<Rightarrow> (spec_error, string list \<times> string \<times> string option) result" where
  "spec_command is_dir payload =
     res_bind (validate_submission_payload is_dir True (jget payload ''argv'') (jget payload ''cwd'')) (\<lambda>(argv, cwd).
       if jget payload ''version'' = JInt JOB_SPEC_VERSION
       then res_map (\<lambda>path. (argv, cwd, Some path)) (validate_job_environment (jget payload ''environment''))
       else Inr (argv, cwd, None))"

text \<open>
  \<open>job\<close> is the job of the shared ledger. Without an identifier it holds the command itself, as
  early ledgers did. \<open>None\<close> is the empty environment.
\<close>

definition validated_job_payload ::
  "digests \<Rightarrow> (string \<Rightarrow> bool) \<Rightarrow> int \<Rightarrow> (string \<times> json) list \<Rightarrow> spec_store \<Rightarrow>
   (spec_error, string list \<times> string \<times> string option) result" where
  "validated_job_payload dg is_dir uid job s =
     (if jget job ''spec_id'' \<noteq> JNull
      then res_bind (read_job_spec uid (dg_str dg (jget job ''spec_id'')) s) (\<lambda>payload.
           (let expected_digest = dg_str dg (jget_default job ''digest'' (JStr []));
                actual_digest = job_spec_digest dg payload
            in res_bind (compare_digest expected_digest actual_digest) (\<lambda>same.
               raise_if (\<not> same) (SpecRefused ''private job spec digest does not match the shared ledger'')
               (res_bind (compare_digest (dg_str dg (jget_default payload ''digest'' (JStr []))) actual_digest) (\<lambda>same.
               raise_if (\<not> same) (SpecRefused ''private job spec is internally inconsistent'')
                 (spec_command is_dir payload))))))
      else res_map (\<lambda>(argv, cwd). (argv, cwd, None))
             (validate_submission_payload is_dir True (jget job ''argv'') (jget job ''cwd'')))"


section \<open>Removing files\<close>

text \<open>The files whose calls fail, and whether the directory cannot be listed.\<close>

record spec_faults =
  fx_stat :: "string \<Rightarrow> bool"
  fx_unlink :: "string \<Rightarrow> bool"
  fx_sync :: "string \<Rightarrow> bool"
  fx_list :: bool

definition SPEC_MISSING :: string where "SPEC_MISSING = ''referenced private job spec is missing''"

definition spec_file_issue :: "int \<Rightarrow> spec_file \<Rightarrow> string option" where
  "spec_file_issue uid f =
     (if \<not> sf_regular f then Some ''private job spec is not a regular file''
      else if sf_links f \<noteq> 1 then Some ''private job spec has hard links''
      else if sf_uid f \<noteq> uid then Some ''private job spec is not owned by UID''
      else if sf_mode f AND 63 \<noteq> 0 then Some ''private job spec is accessible by group or other users''
      else None)"

definition job_spec_metadata_at :: "spec_faults \<Rightarrow> int \<Rightarrow> string \<Rightarrow> spec_directory \<Rightarrow> (string, spec_file) result" where
  "job_spec_metadata_at fx uid name files =
     (if fx_stat fx name then Inl ''cannot inspect private job spec''
      else case map_of files name of
             None \<Rightarrow> Inl SPEC_MISSING
           | Some f \<Rightarrow> (case spec_file_issue uid f of None \<Rightarrow> Inr f | Some issue \<Rightarrow> Inl issue))"

datatype removal = Removed | Missing | RemovalFailed string

definition remove_job_spec_at :: "spec_faults \<Rightarrow> int \<Rightarrow> string \<Rightarrow> spec_directory \<Rightarrow> spec_directory \<times> removal" where
  "remove_job_spec_at fx uid name files =
     (case job_spec_metadata_at fx uid name files of
        Inl issue \<Rightarrow> (files, if issue = SPEC_MISSING then Missing else RemovalFailed issue)
      | Inr _ \<Rightarrow>
          (if fx_unlink fx name then (files, RemovalFailed ''unlink'')
           else (filter (\<lambda>(n, _). n \<noteq> name) files, if fx_sync fx name then RemovalFailed ''fsync'' else Removed)))"

definition delete_job_spec :: "spec_faults \<Rightarrow> int \<Rightarrow> string \<Rightarrow> spec_store \<Rightarrow> spec_store \<times> (spec_error, bool) result" where
  "delete_job_spec fx getuid spec_id s =
     (case res_bind (job_spec_path spec_id) (\<lambda>name. res_map (\<lambda>present. (name, present)) (find_spec_directory getuid s)) of
        Inl e \<Rightarrow> (s, Inl e)
      | Inr (name, present) \<Rightarrow>
          (if \<not> present then (s, Inr False)
           else case remove_job_spec_at fx getuid name (ss_files s) of
                  (files, RemovalFailed _) \<Rightarrow> (s\<lparr>ss_files := files\<rparr>, Inl (SpecRefused ''cannot safely delete private job spec''))
                | (files, Removed) \<Rightarrow> (s\<lparr>ss_files := files\<rparr>, Inr True)
                | (files, Missing) \<Rightarrow> (s\<lparr>ss_files := files\<rparr>, Inr False)))"


section \<open>Cleanup\<close>

text \<open>The decision on the job as the ledger holds it; an unknown status keeps the file.\<close>

definition stored_spec_is_needed ::
  "(json \<Rightarrow> string) \<Rightarrow> (string \<times> json) list \<Rightarrow> (string \<times> json) list \<Rightarrow> datetime \<Rightarrow> (spec_error, bool) result" where
  "stored_spec_is_needed str_of reservation job now =
     (case jget job ''status'' of
        JArr _ \<Rightarrow> Inl SpecTypeError
      | JObj _ \<Rightarrow> Inl SpecTypeError
      | JStr st \<Rightarrow>
          Inr (if st \<in> set [JOB_CLAIMED, JOB_RUNNING] then True
               else if st \<notin> set [JOB_PENDING, JOB_SUCCEEDED, JOB_FAILED, JOB_CANCELLED, JOB_MISSED, JOB_TIMED_OUT,
                                 JOB_INTERRUPTED, JOB_UNCERTAIN] then True
               else if st \<in> set [JOB_SUCCEEDED, JOB_CANCELLED, JOB_MISSED, JOB_TIMED_OUT] then False
               else if jget reservation ''status'' \<noteq> JStr STATUS_ACTIVE then False
               else case map_of reservation ''end_at'' of
                      None \<Rightarrow> True
                    | Some v \<Rightarrow> (case parse_iso (str_of v) of None \<Rightarrow> True | Some end_at \<Rightarrow> end_at > now))
      | _ \<Rightarrow> Inr True)"

record spec_scan =
  sn_references :: "(string \<times> bool) list"
  sn_failed :: nat
  sn_warnings :: "string list"

definition scan_issue :: "string \<Rightarrow> spec_scan \<Rightarrow> spec_scan" where
  "scan_issue warning acc = acc\<lparr>sn_failed := sn_failed acc + 1, sn_warnings := sn_warnings acc @ [warning]\<rparr>"

text \<open>\<^verbatim>\<open>int(uid)\<close>, with a value for what cannot be read.\<close>

definition stored_uid :: "(string \<times> json) list \<Rightarrow> (spec_error, int option) result" where
  "stored_uid reservation =
     (case py_int_json (jget_default reservation ''uid'' (JInt (- 1))) of Inl _ \<Rightarrow> Inl SpecOverflow | Inr v \<Rightarrow> Inr v)"

definition spec_reference_step ::
  "(json \<Rightarrow> string) \<Rightarrow> int \<Rightarrow> datetime \<Rightarrow> json \<Rightarrow> spec_scan \<Rightarrow> (spec_error, spec_scan) result" where
  "spec_reference_step str_of uid now item acc =
     (case item of
        JObj reservation \<Rightarrow>
          (case jget reservation ''job'' of
             JObj job \<Rightarrow>
               (if jget job ''spec_id'' = JNull then Inr acc
                else case uuid_text (str_of (jget job ''spec_id'')) of
                  None \<Rightarrow>
                    res_map (\<lambda>found.
                      if (case found of None \<Rightarrow> uid | Some n \<Rightarrow> n) = uid
                      then scan_issue ''reservation has an invalid private job spec ID'' acc else acc) (stored_uid reservation)
                | Some spec_id \<Rightarrow>
                    res_bind (stored_uid reservation) (\<lambda>found.
                      case found of
                        None \<Rightarrow>
                          Inr (scan_issue ''reservation has an invalid UID''
                                 (acc\<lparr>sn_references := AList.update spec_id True (sn_references acc)\<rparr>))
                      | Some reservation_uid \<Rightarrow>
                          if reservation_uid \<noteq> uid then Inr acc
                          else res_map (\<lambda>needed.
                                 acc\<lparr>sn_references := AList.update spec_id
                                   (map_of (sn_references acc) spec_id = Some True \<or> needed) (sn_references acc)\<rparr>)
                               (stored_spec_is_needed str_of reservation job now)))
           | _ \<Rightarrow> Inr acc)
      | _ \<Rightarrow> Inr acc)"

definition spec_references ::
  "(json \<Rightarrow> string) \<Rightarrow> int \<Rightarrow> datetime \<Rightarrow> (string \<times> json) list \<Rightarrow> (spec_error, spec_scan) result" where
  "spec_references str_of uid now ledger =
     (let start = \<lparr>sn_references = [], sn_failed = 0, sn_warnings = []\<rparr>
      in case jget_default ledger ''reservations'' (JArr []) of
           JArr items \<Rightarrow> res_fold (spec_reference_step str_of uid now) items start
         | JStr _ \<Rightarrow> Inr start
         | JObj _ \<Rightarrow> Inr start
         | _ \<Rightarrow> Inl SpecTypeError)"

record spec_cleanup =
  sp_files :: spec_directory
  sp_removed :: nat
  sp_retained :: nat
  sp_deferred :: nat
  sp_failed :: nat
  sp_warnings :: "string list"

definition cleanup_issue :: "string \<Rightarrow> spec_cleanup \<Rightarrow> spec_cleanup" where
  "cleanup_issue warning s = s\<lparr>sp_failed := sp_failed s + 1, sp_warnings := sp_warnings s @ [warning]\<rparr>"

definition cleanup_remove :: "spec_faults \<Rightarrow> int \<Rightarrow> string \<Rightarrow> spec_cleanup \<Rightarrow> spec_cleanup" where
  "cleanup_remove fx uid name s =
     (case remove_job_spec_at fx uid name (sp_files s) of
        (files, Removed) \<Rightarrow> s\<lparr>sp_files := files, sp_removed := sp_removed s + 1\<rparr>
      | (files, Missing) \<Rightarrow> s\<lparr>sp_files := files\<rparr>
      | (files, RemovalFailed message) \<Rightarrow> cleanup_issue message (s\<lparr>sp_files := files\<rparr>))"

definition referenced_step :: "spec_faults \<Rightarrow> int \<Rightarrow> string \<times> bool \<Rightarrow> spec_cleanup \<Rightarrow> spec_cleanup" where
  "referenced_step fx uid reference s =
     (case reference of (spec_id, needed) \<Rightarrow>
        if needed
        then let s = s\<lparr>sp_retained := sp_retained s + 1\<rparr>
             in (case job_spec_metadata_at fx uid (spec_file_name spec_id) (sp_files s) of
                   Inl issue \<Rightarrow> cleanup_issue issue s | Inr _ \<Rightarrow> s)
        else cleanup_remove fx uid (spec_file_name spec_id) s)"

definition spec_id_from_filename :: "string \<Rightarrow> string option" where
  "spec_id_from_filename name =
     (if ends_with name ''.json'' then uuid_text (take (length name - 5) name) else None)"

definition orphan_step ::
  "spec_faults \<Rightarrow> int \<Rightarrow> datetime \<Rightarrow> int \<Rightarrow> (string \<times> bool) list \<Rightarrow> string \<Rightarrow> spec_cleanup \<Rightarrow> spec_cleanup" where
  "orphan_step fx uid now orphan_grace_seconds references name s =
     (case spec_id_from_filename name of
        None \<Rightarrow> s
      | Some spec_id \<Rightarrow>
          if map_of references spec_id \<noteq> None then s
          else case job_spec_metadata_at fx uid name (sp_files s) of
                 Inl issue \<Rightarrow> cleanup_issue issue s
               | Inr f \<Rightarrow>
                   if now - sf_modified f < seconds orphan_grace_seconds then s\<lparr>sp_deferred := sp_deferred s + 1\<rparr>
                   else cleanup_remove fx uid name s)"

definition cleanup_spec_files ::
  "spec_faults \<Rightarrow> int \<Rightarrow> datetime \<Rightarrow> int \<Rightarrow> spec_scan \<Rightarrow> spec_directory \<Rightarrow> spec_cleanup" where
  "cleanup_spec_files fx uid now orphan_grace_seconds found files =
     (let s = fold (referenced_step fx uid) (sn_references found)
                \<lparr>sp_files = files, sp_removed = 0, sp_retained = 0, sp_deferred = 0, sp_failed = sn_failed found,
                 sp_warnings = sn_warnings found\<rparr>
      in if fx_list fx then cleanup_issue ''cannot scan private job specs'' s
         else fold (orphan_step fx uid now orphan_grace_seconds (sn_references found)) (map fst (sp_files s)) s)"

definition cleanup_job_specs ::
  "(json \<Rightarrow> string) \<Rightarrow> spec_faults \<Rightarrow> int \<Rightarrow> actor \<Rightarrow> datetime \<Rightarrow> int \<Rightarrow> (string \<times> json) list \<Rightarrow> spec_store \<Rightarrow>
   (spec_error, spec_cleanup) result" where
  "cleanup_job_specs str_of fx getuid actor now orphan_grace_seconds ledger s =
     raise_if (actor_uid actor \<noteq> getuid) (SpecRefused ''job spec cleanup actor must match the current process UID'')
     (raise_if (orphan_grace_seconds < 0) SpecValueError
     (res_bind (find_spec_directory (actor_uid actor) s) (\<lambda>present.
        if \<not> present
        then Inr \<lparr>sp_files = ss_files s, sp_removed = 0, sp_retained = 0, sp_deferred = 0, sp_failed = 0, sp_warnings = []\<rparr>
        else res_map (\<lambda>found. cleanup_spec_files fx (actor_uid actor) now orphan_grace_seconds found (ss_files s))
               (spec_references str_of (actor_uid actor) now ledger))))"

end
