(* ===== verification/Spec_Claims.thy ===== *)
theory Spec_Claims
  imports Job_Specs Samples
begin

text \<open>
  The properties of the private job specifications: what is launched is what was submitted, and
  the cleanup keeps every specification a job may still need.
\<close>

section \<open>Canonical identifiers\<close>

text \<open>The printed form of an identifier is read as itself.\<close>

fun hexes :: "nat \<Rightarrow> int \<Rightarrow> string" where
  "hexes 0 n = []"
| "hexes (Suc k) n = hex_char (nat (n div 16 ^ k mod 16)) # hexes k n"

lemma map_hexes: "map (\<lambda>i. hex_char (nat (n div 16 ^ (k - 1 - i) mod 16))) [0..<k] = hexes k n"
proof (induction k)
  case (Suc k)
  have "[0..<Suc k] = 0 # map Suc [0..<k]" by (simp add: map_Suc_upt upt_conv_Cons del: upt_Suc)
  then have "map (\<lambda>i. hex_char (nat (n div 16 ^ (Suc k - 1 - i) mod 16))) [0..<Suc k]
    = hex_char (nat (n div 16 ^ k mod 16)) # map (\<lambda>i. hex_char (nat (n div 16 ^ (k - 1 - i) mod 16))) [0..<k]"
    by (simp del: upt_Suc)
  with Suc.IH show ?case by simp
qed simp

lemma length_hexes [simp]: "length (hexes k n) = k"
  by (induction k) simp_all

text \<open>What the parser needs to know of a hexadecimal digit.\<close>

definition hex_digit_ok :: "nat \<Rightarrow> bool" where
  "hex_digit_ok d \<longleftrightarrow> base_digit (hex_char d) = int d \<and> hex_char d \<notin> set ''_-+{}uxX'' \<and> \<not> py_isspace (hex_char d)"

lemma hex_digit: "d < 16 \<Longrightarrow> hex_digit_ok d"
proof -
  have "list_all hex_digit_ok [0..<16]" by code_simp
  then show "d < 16 \<Longrightarrow> hex_digit_ok d" by (simp add: list_all_iff)
qed

lemma hexes_ok: "ch \<in> set (hexes k n) \<Longrightarrow> ch \<notin> set ''_-+{}uxX'' \<and> \<not> py_isspace ch"
proof (induction k)
  case (Suc k)
  have "hex_digit_ok (nat (n div 16 ^ k mod 16))" by (rule hex_digit) (simp add: nat_less_iff)
  with Suc show ?case by (auto simp: hex_digit_ok_def)
qed simp

lemma base_digits_hexes:
  "0 < k \<or> prev \<Longrightarrow> base_digits 16 prev acc (hexes k n) = Some (acc * 16 ^ k + n mod 16 ^ k)"
proof (induction k arbitrary: prev acc)
  case (Suc k)
  let ?q = "n div 16 ^ k mod 16"
  have "hex_digit_ok (nat ?q)" by (rule hex_digit) (simp add: nat_less_iff)
  then have d: "base_digit (hex_char (nat ?q)) = ?q" "hex_char (nat ?q) \<noteq> CHR ''_''" by (auto simp: hex_digit_ok_def)
  have "n mod 16 ^ Suc k = 16 ^ k * ?q + n mod 16 ^ k"
    using zmod_zmult2_eq [of 16 n "16 ^ k"] by (simp add: mult.commute)
  with d Suc.IH [of True] show ?case by (simp add: algebra_simps)
qed simp

lemma hexes_mod: "k \<le> m \<Longrightarrow> hexes k (n mod 16 ^ m) = hexes k n"
proof (induction k)
  case (Suc k)
  then obtain j where m: "m = k + Suc j" by (metis Suc_le_eq less_imp_Suc_add add_Suc_right)
  have "n mod (16 ^ k * 16 ^ Suc j) div 16 ^ k = n div 16 ^ k mod 16 ^ Suc j"
    by (simp add: zmod_zmult2_eq)
  then have "n mod 16 ^ m div 16 ^ k mod 16 = n div 16 ^ k mod 16 ^ Suc j mod 16"
    unfolding m power_add by simp
  also have "\<dots> = n div 16 ^ k mod 16" by (rule mod_mod_cancel) simp
  finally show ?case using Suc by simp
qed simp

lemma remove_all_absent: "old = c # cs \<Longrightarrow> c \<notin> set s \<Longrightarrow> remove_all old s = s"
proof (induction s)
  case (Cons x xs)
  then show ?case by (subst remove_all.simps) auto
qed (subst remove_all.simps, simp)

definition uuid_dashes :: "string \<Rightarrow> string" where
  "uuid_dashes d = take 8 d @ ''-'' @ take 4 (drop 8 d) @ ''-'' @ take 4 (drop 12 d) @ ''-'' @ take 4 (drop 16 d) @ ''-'' @ drop 20 d"

lemma filter_uuid_dashes: "CHR ''-'' \<notin> set d \<Longrightarrow> filter (\<lambda>c. c \<noteq> CHR ''-'') (uuid_dashes d) = d"
proof -
  assume "CHR ''-'' \<notin> set d"
  then have keep: "filter (\<lambda>c. c \<noteq> CHR ''-'') (take a (drop b d)) = take a (drop b d)"
      "filter (\<lambda>c. c \<noteq> CHR ''-'') (drop b d) = drop b d" "filter (\<lambda>c. c \<noteq> CHR ''-'') (take b d) = take b d" for a b
    by (auto simp: filter_id_conv dest!: in_set_takeD in_set_dropD)
  have "take 4 (drop 16 d) @ drop 20 d = drop 16 d" "take 4 (drop 12 d) @ drop 16 d = drop 12 d"
    "take 4 (drop 8 d) @ drop 12 d = drop 8 d"
    using append_take_drop_id [of 4 "drop 16 d"] append_take_drop_id [of 4 "drop 12 d"] append_take_drop_id [of 4 "drop 8 d"]
    by simp_all
  then show ?thesis by (simp add: uuid_dashes_def keep)
qed

lemma set_uuid_dashes: "set (uuid_dashes d) \<subseteq> insert (CHR ''-'') (set d)"
  by (auto simp: uuid_dashes_def dest!: in_set_takeD in_set_dropD)

lemma py_int_base_hexes: "0 < k \<Longrightarrow> py_int_base 16 (hexes k n) = Some (n mod 16 ^ k)"
proof -
  assume k: "0 < k"
  note ok = hexes_ok [of _ k n]
  have "dropWhile py_isspace xs = xs" if "set xs \<subseteq> set (hexes k n)" for xs
    using that ok by (cases xs) auto
  then have solid: "py_strip (hexes k n) = hexes k n" by (simp add: py_strip_def)
  obtain c cs where c: "hexes k n = c # cs" using k by (cases k) auto
  have "CHR ''x'' \<notin> set (c # cs)" "CHR ''X'' \<notin> set (c # cs)" using ok unfolding c by auto
  then have "take 2 (c # cs) \<notin> {''0x'', ''0X''}" by (cases cs) auto
  then have "base_body 16 (c # cs) = Some (n mod 16 ^ k)"
    using base_digits_hexes [of k False 0 n] k unfolding base_body_def c [symmetric] by simp
  with ok [of c] show ?thesis unfolding py_int_base_def solid unfolding c by simp
qed

lemma uuid_text_eq:
  "uuid_text s = (let braces = (\<lambda>c. c = CHR ''{'' \<or> c = CHR ''}'');
       hex = remove_all ''uuid:'' (remove_all ''urn:'' s);
       hex = filter (\<lambda>c. c \<noteq> CHR ''-'') (rev (dropWhile braces (rev (dropWhile braces hex))))
     in if length hex \<noteq> 32 then None
        else case py_int_base 16 hex of None \<Rightarrow> None | Some n \<Rightarrow> if n < 0 then None else Some (uuid_dashes (hexes 32 n)))"
proof -
  have digits: "map (\<lambda>i. hex_char (nat (n div 16 ^ (31 - i) mod 16))) [0..<32] = hexes 32 n" for n
    using map_hexes [of n 32] by simp
  show ?thesis unfolding uuid_text_def Let_def digits uuid_dashes_def ..
qed

lemma uuid_text_hexes: "uuid_text (uuid_dashes (hexes 32 n)) = Some (uuid_dashes (hexes 32 n))"
proof -
  let ?d = "hexes 32 n"
  let ?brace = "\<lambda>c. c = CHR ''{'' \<or> c = CHR ''}''"
  have absent: "c \<notin> set (uuid_dashes ?d)" if "c \<in> set ''_+{}uxX''" for c
    using that set_uuid_dashes [of ?d] hexes_ok [of c 32 n] by auto
  have "remove_all ''uuid:'' (remove_all ''urn:'' (uuid_dashes ?d)) = uuid_dashes ?d"
    using absent by (simp add: remove_all_absent)
  moreover have "dropWhile ?brace xs = xs" if "set xs \<subseteq> set (uuid_dashes ?d)" for xs
    using that absent by (cases xs) auto
  ultimately have hex: "filter (\<lambda>c. c \<noteq> CHR ''-'') (rev (dropWhile ?brace (rev (dropWhile ?brace
      (remove_all ''uuid:'' (remove_all ''urn:'' (uuid_dashes ?d))))))) = ?d"
    using filter_uuid_dashes [of ?d] hexes_ok [of "CHR ''-''" 32 n] by fastforce
  obtain m where "py_int_base 16 ?d = Some m" "0 \<le> m" "hexes 32 m = ?d"
    using py_int_base_hexes [of 32 n] hexes_mod [of 32 32 n] pos_mod_sign [of "16 ^ 32" n] by fastforce
  then show ?thesis unfolding uuid_text_eq Let_def hex by simp
qed

lemma uuid_text_canonical: "uuid_text s = Some i \<Longrightarrow> uuid_text i = Some i"
  unfolding uuid_text_eq [of s] Let_def by (auto simp: uuid_text_hexes split: if_splits option.splits)

lemma spec_id_from_name: "uuid_text s = Some i \<Longrightarrow> spec_id_from_filename (spec_file_name i) = Some i"
  by (simp add: spec_id_from_filename_def spec_file_name_def ends_with_def uuid_text_canonical)



section \<open>What is launched is what was submitted\<close>

lemma string_items_eq: "string_items xs = Some ss \<longleftrightarrow> xs = map JStr ss"
proof (induction xs arbitrary: ss)
  case (Cons v xs)
  then show ?case by (cases v) (auto simp: string_items_def split: option.splits)
qed (auto simp: string_items_def)

lemma spec_argv_ok: "spec_argv v = Inr argv \<Longrightarrow> v = argv_json argv"
  by (cases v) (auto simp: spec_argv_def argv_json_def string_items_eq split: option.splits)

lemma spec_cwd_ok: "spec_cwd is_dir required v = Inr cwd \<Longrightarrow> v = JStr cwd"
  by (cases v) (auto simp: spec_cwd_def)

lemma validate_submission_ok:
  "validate_submission_payload is_dir required a c = Inr (argv, cwd) \<Longrightarrow> a = argv_json argv \<and> c = JStr cwd"
  by (cases "spec_cwd is_dir required c")
     (auto simp: validate_submission_payload_def dest: spec_argv_ok spec_cwd_ok elim!: res_bindE)

lemma validate_environment_ok:
  "validate_job_environment (environment_json path) = Inr path' \<Longrightarrow> path' = path"
  by (auto simp: validate_job_environment_def environment_json_def jget_def)

text \<open>The accepted submission, and what its digest signs.\<close>

definition submitted :: "int \<Rightarrow> string list \<Rightarrow> string \<Rightarrow> string \<Rightarrow> (string \<times> json) list" where
  "submitted uid argv cwd path =
     [(''version'', JInt JOB_SPEC_VERSION), (''uid'', JInt uid), (''argv'', argv_json argv), (''cwd'', JStr cwd),
      (''environment'', environment_json path)]"

lemma components_ok:
  assumes "job_submission_components dg is_dir defpath getuid actor a c required source = Inr (argv, cwd, path, identity)"
  shows "actor_uid actor = getuid" "a = argv_json argv" "c = JStr cwd"
    "validate_submission_payload is_dir required (argv_json argv) (JStr cwd) = Inr (argv, cwd)"
    "validate_job_environment (environment_json path) = Inr path"
    "si_digest identity = job_spec_digest dg (submitted getuid argv cwd path)"
    "path = (case source ''PATH'' of None \<Rightarrow> defpath | Some p \<Rightarrow> p)"
proof -
  from assms obtain payload where uid: "actor_uid actor = getuid"
      and payload: "validate_submission_payload is_dir required a c = Inr (argv, cwd)"
      and env: "capture_job_environment defpath source = Inr path"
      and identity: "si_digest identity = job_spec_digest dg (submitted getuid argv cwd path)"
    unfolding job_submission_components_def
    by (auto simp: Let_def submitted_def elim!: res_bindE)
  show "actor_uid actor = getuid" by (fact uid)
  from validate_submission_ok [OF payload] show a: "a = argv_json argv" "c = JStr cwd" by simp_all
  with payload show "validate_submission_payload is_dir required (argv_json argv) (JStr cwd) = Inr (argv, cwd)" by simp
  from env show "validate_job_environment (environment_json path) = Inr path"
    unfolding capture_job_environment_def by (metis validate_environment_ok)
  show "si_digest identity = job_spec_digest dg (submitted getuid argv cwd path)" by (fact identity)
  from validate_environment_ok [OF env [unfolded capture_job_environment_def]]
  show "path = (case source ''PATH'' of None \<Rightarrow> defpath | Some p \<Rightarrow> p)" .
qed

lemma signed_equal:
  assumes "signed_payload payload = signed_payload (submitted uid argv cwd path)"
  shows "jget payload ''version'' = JInt JOB_SPEC_VERSION" "jget payload ''argv'' = argv_json argv"
    "jget payload ''cwd'' = JStr cwd" "jget payload ''environment'' = environment_json path"
  using assms by (auto simp: signed_payload_def submitted_def jget_def split: if_splits)

lemma spec_command_signed:
  assumes "signed_payload payload = signed_payload (submitted uid argv cwd path)" "spec_command is_dir payload = Inr r"
  shows "r = (argv, cwd, Some path)"
proof -
  from assms(2) obtain a c p where "validate_submission_payload is_dir True (argv_json argv) (JStr cwd) = Inr (a, c)"
      "validate_job_environment (environment_json path) = Inr p" "r = (a, c, Some p)"
    unfolding spec_command_def signed_equal [OF assms(1)]
    by (cases "validate_job_environment (environment_json path)") (auto elim!: res_bindE)
  moreover from this(1) have "a = argv" "c = cwd"
    using validate_submission_ok [of is_dir True "argv_json argv" "JStr cwd" a c]
    by (auto simp: argv_json_def inj_map_eq_map inj_def)
  ultimately show ?thesis using validate_environment_ok by blast
qed

lemma digest_checked:
  assumes "validated_job_payload dg is_dir uid job later = Inr r" "jget job ''spec_id'' = JStr spec_id"
    and "dg_str dg (jget_default job ''digest'' (JStr [])) = digest"
  obtains payload where "read_job_spec uid (dg_str dg (JStr spec_id)) later = Inr payload"
    "job_spec_digest dg payload = digest" "spec_command is_dir payload = Inr r"
  using assms unfolding validated_job_payload_def
  by (auto simp: Let_def compare_digest_def elim!: res_bindE)

text \<open>A specification just written is found in its directory.\<close>

lemma prepare_ok:
  assumes prepared: "prepare_job_spec dg env actor command_argv working_directory source s = (s', Inr ref)"
  obtains argv cwd path identity name where
    "job_submission_components dg (sv_is_dir env) (sv_defpath env) (sv_getuid env) actor command_argv working_directory True source
       = Inr (argv, cwd, path, identity)"
    "job_spec_path (sv_uuid env) = Inr name" "sr_spec_id ref = sv_uuid env" "sr_digest ref = si_digest identity"
    "map_of (ss_files s') name
       = Some (fresh_spec_file env (Some (JObj (spec_payload env actor argv cwd path (si_digest identity)))))"
    "find_spec_directory (actor_uid actor) s' = Inr True"
proof -
  obtain argv cwd path identity name t files where
    comp: "job_submission_components dg (sv_is_dir env) (sv_defpath env) (sv_getuid env) actor command_argv working_directory True source
       = Inr (argv, cwd, path, identity)" and name: "job_spec_path (sv_uuid env) = Inr name"
    and dir: "create_spec_directory (sv_root env) (actor_uid actor) s = (t, Inr ())"
    and written: "write_spec env name (JObj (spec_payload env actor argv cwd path (si_digest identity))) (ss_files t) = (files, Inr ())"
    and result: "s' = t\<lparr>ss_files := files\<rparr>" "sr_spec_id ref = sv_uuid env" "sr_digest ref = si_digest identity"
    using prepared
    by (auto simp: prepare_job_spec_def res_map_eq_Inr split: sum.splits prod.splits elim!: res_bindE)
  have "map_of files name
       = Some (fresh_spec_file env (Some (JObj (spec_payload env actor argv cwd path (si_digest identity)))))"
    using written by (auto simp: write_spec_def split: if_splits prepare_fault.splits)
  moreover have "find_spec_directory (actor_uid actor) s' = Inr True"
  proof -
    have "(448 :: int) AND 63 = 0" by code_simp
    with dir show ?thesis
      by (auto simp: create_spec_directory_def find_spec_directory_def open_private_directory_def result(1) Let_def
          split: sum.splits option.splits elim!: res_bindE)
  qed
  ultimately show ?thesis using that [OF comp name result(2,3)] result(1) by simp
qed

lemma compare_digest_same: "list_all (\<lambda>ch. (of_char ch :: nat) < 128) a \<Longrightarrow> compare_digest a a = Inr True"
  by (auto simp: compare_digest_def list_all_iff)

text \<open>
  What the checks before a launch make of a specification as it was written: the submission, or a
  refusal of a file over 128 KiB, whose size the submission does not check.
\<close>

definition launch_outcome ::
  "digests \<Rightarrow> spec_env \<Rightarrow> actor \<Rightarrow> string list \<Rightarrow> string \<Rightarrow> string \<Rightarrow> (spec_error, string list \<times> string \<times> string option) result" where
  "launch_outcome dg env actor argv cwd path =
     (if sv_bytes env (JObj (spec_payload env actor argv cwd path
           (job_spec_digest dg (submitted (actor_uid actor) argv cwd path)))) > 131072
      then Inl (SpecRefused ''job spec is too large'')
      else Inr (argv, cwd, Some path))"

lemma written_spec_accepted:
  assumes components: "job_submission_components dg (sv_is_dir env) (sv_defpath env) (sv_getuid env) actor command_argv
        working_directory True source = Inr (argv, cwd, path, identity)"
    and prepared: "prepare_job_spec dg env actor command_argv working_directory source s = (s', Inr ref)"
    and job: "jget job ''spec_id'' = JStr (sr_spec_id ref)" "jget_default job ''digest'' (JStr []) = JStr (sr_digest ref)"
    and texts: "\<And>s. dg_str dg (JStr s) = s" "list_all (\<lambda>ch. (of_char ch :: nat) < 128) (sr_digest ref)"
  shows "validated_job_payload dg (sv_is_dir env) (actor_uid actor) job s' = launch_outcome dg env actor argv cwd path"
proof -
  note ok = components_ok [OF components]
  let ?p = "spec_payload env actor argv cwd path (si_digest identity)"
  obtain name where name: "job_spec_path (sv_uuid env) = Inr name" and ref: "sr_spec_id ref = sv_uuid env" "sr_digest ref = si_digest identity"
    and stored: "map_of (ss_files s') name = Some (fresh_spec_file env (Some (JObj ?p)))"
    and dir: "find_spec_directory (actor_uid actor) s' = Inr True"
    using prepare_ok [OF prepared] components by auto
  have "(384 :: int) AND 63 = 0" by code_simp
  then have read: "read_job_spec (actor_uid actor) (sr_spec_id ref) s' =
      (if sv_bytes env (JObj ?p) > 131072 then Inl (SpecRefused ''job spec is too large'') else Inr ?p)"
    using name stored dir ref(1) ok(1)
    by (simp add: read_job_spec_def fresh_spec_file_def check_spec_identity_def spec_version_ok_def spec_payload_def jget_def
        jget_default_def not_less)
  have "signed_payload ?p = signed_payload (submitted (sv_getuid env) argv cwd path)"
    using ok(1) by (simp add: signed_payload_def submitted_def spec_payload_def jget_def)
  then have digest: "job_spec_digest dg ?p = sr_digest ref" using ok(6) ref(2) by (simp add: job_spec_digest_def)
  have fields: "jget_default ?p ''digest'' (JStr []) = JStr (sr_digest ref)" "jget ?p ''argv'' = argv_json argv" "jget ?p ''cwd'' = JStr cwd"
      "jget ?p ''version'' = JInt JOB_SPEC_VERSION" "jget ?p ''environment'' = environment_json path"
    using ref(2) by (simp_all add: spec_payload_def jget_def jget_default_def)
  have "spec_command (sv_is_dir env) ?p = Inr (argv, cwd, Some path)"
    using ok(4,5) by (simp add: spec_command_def fields)
  with read digest have "validated_job_payload dg (sv_is_dir env) (actor_uid actor) job s' =
      (if sv_bytes env (JObj ?p) > 131072 then Inl (SpecRefused ''job spec is too large'') else Inr (argv, cwd, Some path))"
    by (simp add: validated_job_payload_def job texts fields compare_digest_same Let_def)
  moreover have "si_digest identity = job_spec_digest dg (submitted (actor_uid actor) argv cwd path)"
    using ok(1,6) by simp
  ultimately show ?thesis by (simp only: launch_outcome_def)
qed

text \<open>
  C5: a worker runs what was submitted. For a specification the submission has written, take a job that
  carries its identifier and digest. Right after the submission the specification is read back as the submitted
  arguments and directory with the search path of the submitter's environment, unless the written file is larger
  than 128 KiB, which a launch refuses. And whatever has become of the private files since, of the payload in them and
  of the directories, a payload that passes the checks before a launch is that submission, or the file
  read holds another signed content with the same digest, a collision of the hash.
\<close>

theorem launched_as_submitted:
  assumes components: "job_submission_components dg (sv_is_dir env) (sv_defpath env) (sv_getuid env) actor command_argv
        working_directory True source = Inr (argv, cwd, path, identity)"
    and prepared: "prepare_job_spec dg env actor command_argv working_directory source s = (s', Inr ref)"
    and job: "jget job ''spec_id'' = JStr (sr_spec_id ref)" "jget_default job ''digest'' (JStr []) = JStr (sr_digest ref)"
    and texts: "\<forall>s. dg_str dg (JStr s) = s" "list_all (\<lambda>ch. (of_char ch :: nat) < 128) (sr_digest ref)"
  shows "command_argv = argv_json argv \<and> working_directory = JStr cwd
    \<and> path = (case source ''PATH'' of None \<Rightarrow> sv_defpath env | Some p \<Rightarrow> p)
    \<and> validated_job_payload dg (sv_is_dir env) (actor_uid actor) job s' =
        (if sv_bytes env (JObj (spec_payload env actor argv cwd path
              (job_spec_digest dg (submitted (actor_uid actor) argv cwd path)))) > 131072
         then Inl (SpecRefused ''job spec is too large'')
         else Inr (argv, cwd, Some path))
    \<and> (\<forall>is_dir uid later result. validated_job_payload dg is_dir uid job later = Inr result
          \<longrightarrow> result = (argv, cwd, Some path)
            \<or> (\<exists>payload. read_job_spec uid (sr_spec_id ref) later = Inr payload
                 \<and> job_spec_digest dg payload = job_spec_digest dg (submitted (actor_uid actor) argv cwd path)
                 \<and> signed_payload payload \<noteq> signed_payload (submitted (actor_uid actor) argv cwd path)))"
proof -
  note ok = components_ok [OF components]
  have digest: "sr_digest ref = job_spec_digest dg (submitted (actor_uid actor) argv cwd path)"
    using prepare_ok [OF prepared] components ok(1,6) by auto
  have "result = (argv, cwd, Some path)
      \<or> (\<exists>payload. read_job_spec uid (sr_spec_id ref) later = Inr payload \<and> job_spec_digest dg payload = sr_digest ref
           \<and> signed_payload payload \<noteq> signed_payload (submitted (actor_uid actor) argv cwd path))"
    if "validated_job_payload dg is_dir uid job later = Inr result" for is_dir uid later result
  proof -
    from that job texts(1) obtain payload where "read_job_spec uid (sr_spec_id ref) later = Inr payload"
        "job_spec_digest dg payload = sr_digest ref" "spec_command is_dir payload = Inr result"
      by (elim digest_checked) auto
    with spec_command_signed show ?thesis by blast
  qed
  moreover have "validated_job_payload dg (sv_is_dir env) (actor_uid actor) job s' = launch_outcome dg env actor argv cwd path"
    using written_spec_accepted [OF components prepared job _ texts(2)] texts(1) by blast
  ultimately show ?thesis using ok(2,3,7) unfolding digest launch_outcome_def by blast
qed

text \<open>The size of a text whose strings need no escapes, as the sample environment counts it.\<close>

fun text_bytes :: "json \<Rightarrow> int" where
  "text_bytes (JStr s) = int (utf8_length s) + 2"
| "text_bytes (JInt n) = int (length (show_int n))"
| "text_bytes (JArr xs) = 2 + sum_list (map (\<lambda>v. text_bytes v + 2) xs)"
| "text_bytes (JObj d) = 2 + sum_list (map (\<lambda>m. int (utf8_length (fst m)) + text_bytes (snd m) + 6) d)"
| "text_bytes _ = 5"

definition spec_env0 :: spec_env where
  "spec_env0 = \<lparr>sv_getuid = 1000, sv_is_dir = (\<lambda>_. True), sv_defpath = ''/bin'',
     sv_root = Inr \<lparr>dr_directory = True, dr_uid = 1000, dr_mode = 448\<rparr>,
     sv_uuid = ''00000000-0000-0000-0000-00000000002a'', sv_now = days 20000, sv_fault = PrepareRuns, sv_bytes = text_bytes\<rparr>"

text \<open>A digest that tells the sample submission from everything else.\<close>

definition digests0 :: digests where
  "digests0 = \<lparr>dg_dumps = (\<lambda>v. if v = signed_payload (submitted 1000 [''train'', ''-v''] ''/home'' ''/bin'') then ''a1'' else ''b2''),
     dg_sha256 = (\<lambda>s. s), dg_str = (\<lambda>v. case v of JStr s \<Rightarrow> s | _ \<Rightarrow> [])\<rparr>"

definition spec_store0 :: spec_store where
  "spec_store0 = \<lparr>ss_root = None, ss_specs = None, ss_files = []\<rparr>"

definition job0 :: "(string \<times> json) list" where
  "job0 = [(''spec_id'', JStr ''00000000-0000-0000-0000-00000000002a''), (''digest'', JStr ''a1'')]"

theorem launched_as_submitted_witness:
  "\<exists>s'. prepare_job_spec digests0 spec_env0 sample_actor (argv_json [''train'', ''-v'']) (JStr ''/home'') Map.empty spec_store0
        = (s', Inr \<lparr>sr_spec_id = ''00000000-0000-0000-0000-00000000002a'', sr_digest = ''a1'', sr_summary = ''train (+1 args)''\<rparr>)
     \<and> validated_job_payload digests0 (sv_is_dir spec_env0) (actor_uid sample_actor) job0 s' = Inr ([''train'', ''-v''], ''/home'', Some ''/bin'')"
proof -
  let ?ref = "\<lparr>sr_spec_id = ''00000000-0000-0000-0000-00000000002a'', sr_digest = ''a1'', sr_summary = ''train (+1 args)''\<rparr>"
  have "snd (prepare_job_spec digests0 spec_env0 sample_actor (argv_json [''train'', ''-v'']) (JStr ''/home'') Map.empty spec_store0) = Inr ?ref"
    by code_simp
  then obtain s' where prepared: "prepare_job_spec digests0 spec_env0 sample_actor (argv_json [''train'', ''-v'']) (JStr ''/home'')
      Map.empty spec_store0 = (s', Inr ?ref)" by (metis prod.collapse)
  have "job_submission_components digests0 (sv_is_dir spec_env0) (sv_defpath spec_env0) (sv_getuid spec_env0) sample_actor
      (argv_json [''train'', ''-v'']) (JStr ''/home'') True Map.empty = Inr ([''train'', ''-v''], ''/home'', ''/bin'',
        \<lparr>si_digest = ''a1'', si_summary = ''train (+1 args)'', si_legacy_digests = [''b2'']\<rparr>)"
    by code_simp
  note launched_as_submitted [OF this prepared, of job0]
  moreover have "\<not> sv_bytes spec_env0 (JObj (spec_payload spec_env0 sample_actor [''train'', ''-v''] ''/home'' ''/bin''
      (job_spec_digest digests0 (submitted (actor_uid sample_actor) [''train'', ''-v''] ''/home'' ''/bin'')))) > 131072"
    by code_simp
  ultimately show ?thesis using prepared
    by (simp add: job0_def jget_def jget_default_def digests0_def [THEN arg_cong [of _ _ dg_str]])
qed


section \<open>The cleanup\<close>

text \<open>A reservation of the ledger whose job has the specification \<open>i\<close>.\<close>

definition refers_to :: "(json \<Rightarrow> string) \<Rightarrow> json \<Rightarrow> string \<Rightarrow> (string \<times> json) list \<Rightarrow> (string \<times> json) list \<Rightarrow> bool" where
  "refers_to str_of item i r job \<longleftrightarrow> item = JObj r \<and> jget r ''job'' = JObj job \<and> jget job ''spec_id'' \<noteq> JNull
     \<and> uuid_text (str_of (jget job ''spec_id'')) = Some i"

text \<open>
  Its command may still be started: it is claimed or running or in a state the program does not
  know; or it waits or may be retried, in an active reservation that is not known to have ended.
\<close>

definition may_run :: "(json \<Rightarrow> string) \<Rightarrow> datetime \<Rightarrow> (string \<times> json) list \<Rightarrow> (string \<times> json) list \<Rightarrow> bool" where
  "may_run str_of now r job \<longleftrightarrow>
     jget job ''status'' \<notin> JStr ` {JOB_PENDING, JOB_SUCCEEDED, JOB_FAILED, JOB_CANCELLED, JOB_MISSED, JOB_TIMED_OUT,
                                JOB_INTERRUPTED, JOB_UNCERTAIN}
     \<or> jget job ''status'' \<in> JStr ` {JOB_PENDING, JOB_FAILED, JOB_INTERRUPTED, JOB_UNCERTAIN}
       \<and> jget r ''status'' = JStr STATUS_ACTIVE
       \<and> (\<forall>v t. map_of r ''end_at'' = Some v \<and> parse_iso (str_of v) = Some t \<longrightarrow> now < t)"

text \<open>A reservation with an unreadable owner keeps its specification too.\<close>

definition item_wants :: "(json \<Rightarrow> string) \<Rightarrow> int \<Rightarrow> datetime \<Rightarrow> string \<Rightarrow> json \<Rightarrow> bool" where
  "item_wants str_of uid now i item \<longleftrightarrow> (\<exists>r job. refers_to str_of item i r job
     \<and> (stored_uid r = Inr None \<or> stored_uid r = Inr (Some uid) \<and> may_run str_of now r job))"

definition item_mentions :: "(json \<Rightarrow> string) \<Rightarrow> int \<Rightarrow> string \<Rightarrow> json \<Rightarrow> bool" where
  "item_mentions str_of uid i item \<longleftrightarrow> (\<exists>r job. refers_to str_of item i r job \<and> stored_uid r = Inr (Some uid))"

lemma stored_spec_is_needed_iff:
  assumes needed: "stored_spec_is_needed str_of r job now = Inr b"
  shows "b \<longleftrightarrow> may_run str_of now r job"
proof (cases "jget job ''status''")
  case (JStr st)
  define live where "live = {JOB_CLAIMED, JOB_RUNNING}"
  define waiting where "waiting = {JOB_PENDING, JOB_FAILED, JOB_INTERRUPTED, JOB_UNCERTAIN}"
  define final where "final = {JOB_SUCCEEDED, JOB_CANCELLED, JOB_MISSED, JOB_TIMED_OUT}"
  have known: "set [JOB_PENDING, JOB_SUCCEEDED, JOB_FAILED, JOB_CANCELLED, JOB_MISSED, JOB_TIMED_OUT, JOB_INTERRUPTED, JOB_UNCERTAIN]
      = waiting \<union> final" by (auto simp: waiting_def final_def)
  have sets: "set [JOB_CLAIMED, JOB_RUNNING] = live" "set [JOB_SUCCEEDED, JOB_CANCELLED, JOB_MISSED, JOB_TIMED_OUT] = final"
    by (simp_all add: live_def final_def)
  have apart: "live \<inter> waiting = {}" "live \<inter> final = {}" "waiting \<inter> final = {}"
    by (simp_all add: live_def waiting_def final_def job_status_defs)
  define open_end where "open_end \<longleftrightarrow> (case map_of r ''end_at'' of None \<Rightarrow> True
      | Some v \<Rightarrow> (case parse_iso (str_of v) of None \<Rightarrow> True | Some end_at \<Rightarrow> end_at > now))"
  have "b = (if st \<in> live then True else if st \<notin> waiting \<union> final then True else if st \<in> final then False
      else if jget r ''status'' \<noteq> JStr STATUS_ACTIVE then False else open_end)"
    using needed unfolding stored_spec_is_needed_def JStr json.case known sets open_end_def [symmetric] sum.inject
    by (rule sym)
  moreover have "may_run str_of now r job \<longleftrightarrow> st \<notin> waiting \<union> final \<or> st \<in> waiting \<and> jget r ''status'' = JStr STATUS_ACTIVE
      \<and> (\<forall>v t. map_of r ''end_at'' = Some v \<and> parse_iso (str_of v) = Some t \<longrightarrow> now < t)"
    unfolding may_run_def JStr waiting_def [symmetric] using known by (auto simp: image_iff)
  moreover have "open_end \<longleftrightarrow> (\<forall>v t. map_of r ''end_at'' = Some v \<and> parse_iso (str_of v) = Some t \<longrightarrow> now < t)"
    by (auto simp: open_end_def split: option.split)
  ultimately show ?thesis using apart by auto
qed (use needed in \<open>auto simp: stored_spec_is_needed_def may_run_def\<close>)

lemma no_reference:
  assumes step: "spec_reference_step str_of uid now item acc = Inr acc'" and none: "\<nexists>r job j. refers_to str_of item j r job"
  shows "sn_references acc' = sn_references acc"
proof (cases "\<exists>r job. item = JObj r \<and> jget r ''job'' = JObj job \<and> jget job ''spec_id'' \<noteq> JNull")
  case True
  then obtain r job where item: "item = JObj r" "jget r ''job'' = JObj job" "jget job ''spec_id'' \<noteq> JNull" by blast
  with none have "uuid_text (str_of (jget job ''spec_id'')) = None" by (auto simp: refers_to_def)
  with step item show ?thesis
    by (auto simp: spec_reference_step_def scan_issue_def res_map_eq_Inr split: if_splits)
next
  case False
  have "acc' = acc"
  proof (cases item)
    case (JObj r)
    with False step show ?thesis
      by (cases "jget r ''job''") (auto simp: spec_reference_step_def)
  qed (use step in \<open>auto simp: spec_reference_step_def\<close>)
  then show ?thesis by simp
qed

lemma spec_reference_step_ok:
  assumes "spec_reference_step str_of uid now item acc = Inr acc'"
  shows "map_of (sn_references acc') i = Some True \<longleftrightarrow>
           map_of (sn_references acc) i = Some True \<or> item_wants str_of uid now i item"
    and "map_of (sn_references acc') i \<noteq> None \<longleftrightarrow>
           map_of (sn_references acc) i \<noteq> None \<or> item_wants str_of uid now i item \<or> item_mentions str_of uid i item"
proof -
  have "(map_of (sn_references acc') i = Some True \<longleftrightarrow>
           map_of (sn_references acc) i = Some True \<or> item_wants str_of uid now i item)
    \<and> (map_of (sn_references acc') i \<noteq> None \<longleftrightarrow>
           map_of (sn_references acc) i \<noteq> None \<or> item_wants str_of uid now i item \<or> item_mentions str_of uid i item)"
  proof (cases "\<exists>r job j. refers_to str_of item j r job")
    case False
    with no_reference [OF assms] have "sn_references acc' = sn_references acc" by blast
    with False show ?thesis by (auto simp: item_wants_def item_mentions_def)
  next
    case True
    then obtain r job j where ref: "refers_to str_of item j r job" by blast
    then have only: "refers_to str_of item k r' job' \<longleftrightarrow> k = j \<and> r' = r \<and> job' = job" for k r' job'
      by (auto simp: refers_to_def)
    show ?thesis
    proof (cases "stored_uid r = Inr (Some uid)")
      case own: True
      with assms ref obtain b where "stored_spec_is_needed str_of r job now = Inr b"
          "sn_references acc' = AList.update j (map_of (sn_references acc) j = Some True \<or> b) (sn_references acc)"
        by (auto simp: spec_reference_step_def refers_to_def res_map_eq_Inr split: if_splits)
      with own stored_spec_is_needed_iff show ?thesis
        by (auto simp: item_wants_def item_mentions_def only update_conv')
    next
      case other: False
      show ?thesis
      proof (cases "stored_uid r = Inr None")
        case True
        with assms ref have "sn_references acc' = AList.update j True (sn_references acc)"
          by (auto simp: spec_reference_step_def refers_to_def scan_issue_def)
        with True show ?thesis by (auto simp: item_wants_def item_mentions_def only update_conv')
      next
        case False
        with assms ref other have "acc' = acc"
          by (auto simp: spec_reference_step_def refers_to_def split: if_splits option.splits elim!: res_bindE)
        with False other show ?thesis by (auto simp: item_wants_def item_mentions_def only)
      qed
    qed
  qed
  then show "map_of (sn_references acc') i = Some True \<longleftrightarrow>
           map_of (sn_references acc) i = Some True \<or> item_wants str_of uid now i item"
    and "map_of (sn_references acc') i \<noteq> None \<longleftrightarrow>
           map_of (sn_references acc) i \<noteq> None \<or> item_wants str_of uid now i item \<or> item_mentions str_of uid i item"
    by blast+
qed

lemma spec_reference_fold:
  "res_fold (spec_reference_step str_of uid now) items acc = Inr acc' \<Longrightarrow>
   (map_of (sn_references acc') i = Some True \<longleftrightarrow>
      map_of (sn_references acc) i = Some True \<or> (\<exists>item \<in> set items. item_wants str_of uid now i item))
   \<and> (map_of (sn_references acc') i \<noteq> None \<longleftrightarrow>
      map_of (sn_references acc) i \<noteq> None
      \<or> (\<exists>item \<in> set items. item_wants str_of uid now i item \<or> item_mentions str_of uid i item))"
proof (induction items arbitrary: acc)
  case (Cons item items)
  then obtain mid where "spec_reference_step str_of uid now item acc = Inr mid"
      "res_fold (spec_reference_step str_of uid now) items mid = Inr acc'" by (auto elim!: res_bindE)
  with Cons.IH [OF this(2)] spec_reference_step_ok [OF this(1), of i] show ?case by auto
qed simp

lemma spec_reference_step_distinct:
  assumes step: "spec_reference_step str_of uid now item acc = Inr acc'" and "distinct (map fst (sn_references acc))"
  shows "distinct (map fst (sn_references acc'))"
proof (cases "\<exists>r job j. refers_to str_of item j r job")
  case True
  then obtain r job j where "refers_to str_of item j r job" by blast
  with assms show ?thesis
    by (auto simp: spec_reference_step_def refers_to_def scan_issue_def res_map_eq_Inr distinct_update
        split: if_splits option.splits elim!: res_bindE)
qed (use no_reference [OF step] assms in auto)

lemma spec_references_distinct:
  assumes "res_fold (spec_reference_step str_of uid now) items \<lparr>sn_references = [], sn_failed = 0, sn_warnings = []\<rparr> = Inr found"
  shows "distinct (map fst (sn_references found))"
proof -
  have "res_fold (spec_reference_step str_of uid now) items acc = Inr found \<Longrightarrow> distinct (map fst (sn_references acc))
    \<Longrightarrow> distinct (map fst (sn_references found))" for acc
    by (induction items arbitrary: acc) (auto elim!: res_bindE dest: spec_reference_step_distinct)
  from this [OF assms] show ?thesis by simp
qed

text \<open>
  What both loops keep: the files left are some of the files there were, and every other one is
  covered by \<open>reason\<close>.
\<close>

definition swept :: "(string \<Rightarrow> spec_file \<Rightarrow> bool) \<Rightarrow> spec_directory \<Rightarrow> spec_cleanup \<Rightarrow> bool" where
  "swept reason files s \<longleftrightarrow> (\<exists>keep. sp_files s = filter keep files)
     \<and> (\<forall>(name, f) \<in> set files - set (sp_files s). reason name f)"

lemma swept_start: "sp_files s = files \<Longrightarrow> swept reason files s"
  by (auto simp: swept_def intro: exI [of _ "\<lambda>_. True"])

lemma swept_fields [simp]:
  "swept reason files (s\<lparr>sp_removed := a\<rparr>) = swept reason files s"
  "swept reason files (s\<lparr>sp_retained := a\<rparr>) = swept reason files s"
  "swept reason files (s\<lparr>sp_deferred := a\<rparr>) = swept reason files s"
  "swept reason files (cleanup_issue w s) = swept reason files s"
  by (simp_all add: swept_def cleanup_issue_def)

definition is_private :: "int \<Rightarrow> spec_file \<Rightarrow> bool" where
  "is_private uid f \<longleftrightarrow> sf_regular f \<and> sf_links f = 1 \<and> sf_uid f = uid \<and> sf_mode f AND 63 = 0"

lemma metadata_ok:
  "job_spec_metadata_at fx uid name files = Inr f \<Longrightarrow> map_of files name = Some f \<and> is_private uid f"
  by (auto simp: job_spec_metadata_at_def spec_file_issue_def is_private_def split: if_splits option.splits)

lemma cleanup_remove_swept:
  assumes swept: "swept reason files s" and names: "distinct (map fst files)"
    and reason: "\<And>f. map_of (sp_files s) name = Some f \<Longrightarrow> is_private uid f \<Longrightarrow> reason name f"
  shows "swept reason files (cleanup_remove fx uid name s)"
proof (cases "job_spec_metadata_at fx uid name (sp_files s)")
  case (Inl issue)
  with swept show ?thesis by (simp add: cleanup_remove_def remove_job_spec_at_def)
next
  case (Inr f)
  note f = metadata_ok [OF Inr]
  from swept obtain keep where keep: "sp_files s = filter keep files" by (auto simp: swept_def)
  have "f' = f" if "(name, f') \<in> set (sp_files s)" for f'
    using that f names keep by (metis distinct_map_filter eq_key_imp_eq_value map_of_SomeD)
  then have "swept reason files (s\<lparr>sp_files := filter (\<lambda>(n, _). n \<noteq> name) (sp_files s)\<rparr>)"
    using swept keep reason f by (auto simp: swept_def)
  with Inr swept show ?thesis by (auto simp: cleanup_remove_def remove_job_spec_at_def)
qed

lemma swept_fold:
  assumes "swept reason files s" "\<And>x s. x \<in> set xs \<Longrightarrow> swept reason files s \<Longrightarrow> swept reason files (step x s)"
  shows "swept reason files (fold step xs s)"
  using assms by (induction xs arbitrary: s) simp_all

text \<open>The files the cleanup may remove.\<close>

definition disposable :: "(json \<Rightarrow> string) \<Rightarrow> int \<Rightarrow> datetime \<Rightarrow> int \<Rightarrow> json list \<Rightarrow> string \<Rightarrow> spec_file \<Rightarrow> bool" where
  "disposable str_of uid now grace items name f \<longleftrightarrow> is_private uid f
     \<and> (\<exists>i. spec_id_from_filename name = Some i \<and> (\<forall>item \<in> set items. \<not> item_wants str_of uid now i item)
        \<and> ((\<exists>item \<in> set items. item_mentions str_of uid i item) \<or> seconds grace \<le> now - sf_modified f))"

lemma cleanup_files_swept:
  assumes found: "res_fold (spec_reference_step str_of uid now) items \<lparr>sn_references = [], sn_failed = 0, sn_warnings = []\<rparr> = Inr found"
    and names: "distinct (map fst files)"
  shows "swept (disposable str_of uid now grace items) files (cleanup_spec_files fx uid now grace found files)"
proof -
  let ?reason = "disposable str_of uid now grace items"
  have wants: "map_of (sn_references found) i = Some True \<longleftrightarrow> (\<exists>item \<in> set items. item_wants str_of uid now i item)"
    and refs: "map_of (sn_references found) i \<noteq> None \<longleftrightarrow>
      (\<exists>item \<in> set items. item_wants str_of uid now i item \<or> item_mentions str_of uid i item)" for i
    using spec_reference_fold [OF found, of i] by simp_all
  have referenced: "swept ?reason files (referenced_step fx uid x s)"
    if x: "x \<in> set (sn_references found)" and s: "swept ?reason files s" for x s
  proof -
    obtain i b where ib: "x = (i, b)" by (cases x)
    show ?thesis
    proof (cases b)
      case True
      with s show ?thesis by (auto simp: referenced_step_def ib Let_def split: sum.split)
    next
      case False
      have "\<not> (\<exists>item \<in> set items. item_wants str_of uid now i item) \<and> (\<exists>item \<in> set items. item_mentions str_of uid i item)"
        using wants [of i] refs [of i] map_of_is_SomeI [OF spec_references_distinct [OF found] x [unfolded ib]] False by auto
      moreover from this have "spec_id_from_filename (spec_file_name i) = Some i"
        by (auto simp: item_mentions_def refers_to_def intro: spec_id_from_name)
      ultimately show ?thesis
        using cleanup_remove_swept [OF s names] False by (auto simp: referenced_step_def ib disposable_def)
    qed
  qed
  have orphan: "swept ?reason files (orphan_step fx uid now grace (sn_references found) name s)"
    if s: "swept ?reason files s" for name s
  proof (cases "spec_id_from_filename name")
    case (Some i)
    show ?thesis
    proof (cases "map_of (sn_references found) i \<noteq> None")
      case False
      with refs have unref: "\<forall>item \<in> set items. \<not> item_wants str_of uid now i item" by blast
      show ?thesis
      proof (cases "job_spec_metadata_at fx uid name (sp_files s)")
        case (Inr f)
        note f = metadata_ok [OF Inr]
        have "?reason name f" if "\<not> now - sf_modified f < seconds grace"
          using that f unref Some by (auto simp: disposable_def)
        with cleanup_remove_swept [OF s names, of name uid fx] f s False Some Inr show ?thesis
          by (auto simp: orphan_step_def)
      qed (use s False Some in \<open>simp add: orphan_step_def\<close>)
    qed (use s Some in \<open>simp add: orphan_step_def\<close>)
  qed (use s in \<open>simp add: orphan_step_def\<close>)
  have "swept ?reason files \<lparr>sp_files = files, sp_removed = 0, sp_retained = 0, sp_deferred = 0, sp_failed = sn_failed found,
      sp_warnings = sn_warnings found\<rparr>" by (rule swept_start) simp
  from swept_fold [OF this, of "sn_references found" "referenced_step fx uid", OF referenced] show ?thesis
    unfolding cleanup_spec_files_def Let_def by (auto intro!: swept_fold orphan)
qed

lemma swept_subset: "swept reason files s \<Longrightarrow> set (sp_files s) \<subseteq> set files"
  by (auto simp: swept_def)

text \<open>
  C23: the cleanup of the specifications of a user removes no command that may still have to be started. Whatever calls of the
  operating system fail, a file it removes is a private file of the user, named by an identifier that no
  reservation needs: none with an unreadable owner has it, and none of the user whose job is claimed, running, in an unknown
  state, or waiting or open to a retry in an active reservation that has not ended; and a reservation of the user refers to it, or
  the file has reached the age of an orphan. So the file of every specification that is needed stays.
\<close>

theorem spec_cleanup_safe:
  assumes cleaned: "cleanup_job_specs str_of fx getuid actor now grace ledger s = Inr res"
    and items: "jget_default ledger ''reservations'' (JArr []) = JArr items" and names: "distinct (map fst (ss_files s))"
  shows "set (sp_files res) \<subseteq> set (ss_files s)
    \<and> (\<forall>(name, f) \<in> set (ss_files s) - set (sp_files res). disposable str_of (actor_uid actor) now grace items name f)
    \<and> (\<forall>i f item. (spec_file_name i, f) \<in> set (ss_files s) \<and> item \<in> set items
          \<and> item_wants str_of (actor_uid actor) now i item \<longrightarrow> (spec_file_name i, f) \<in> set (sp_files res))"
proof -
  have swept: "swept (disposable str_of (actor_uid actor) now grace items) (ss_files s) res"
  proof (cases "find_spec_directory (actor_uid actor) s = Inr True")
    case True
    with cleaned items show ?thesis
      by (auto simp: cleanup_job_specs_def spec_references_def Let_def res_map_eq_Inr intro: cleanup_files_swept [OF _ names])
  next
    case False
    with cleaned have "sp_files res = ss_files s"
      unfolding cleanup_job_specs_def by (cases "find_spec_directory (actor_uid actor) s") (auto split: if_splits)
    then show ?thesis by (rule swept_start)
  qed
  have "(spec_file_name i, f) \<in> set (sp_files res)"
    if "(spec_file_name i, f) \<in> set (ss_files s)" "item \<in> set items" "item_wants str_of (actor_uid actor) now i item" for i f item
  proof -
    from that(3) have "spec_id_from_filename (spec_file_name i) = Some i"
      by (auto simp: item_wants_def refers_to_def intro: spec_id_from_name)
    with that(2,3) have "\<not> disposable str_of (actor_uid actor) now grace items (spec_file_name i) f"
      by (auto simp: disposable_def)
    with that(1) swept show ?thesis unfolding swept_def by blast
  qed
  with swept show ?thesis using swept_subset [OF swept] unfolding swept_def by blast
qed

text \<open>One specification of a running job, one of a job that has succeeded.\<close>

definition spec_id0 :: "char \<Rightarrow> string" where
  "spec_id0 ch = ''00000000-0000-0000-0000-00000000000'' @ [ch]"

definition spec_ledger0 :: "(string \<times> json) list" where
  "spec_ledger0 = [(''reservations'', JArr (map (\<lambda>(ch, st). JObj [(''uid'', JInt 1000), (''status'', JStr STATUS_ACTIVE),
      (''job'', JObj [(''spec_id'', JStr (spec_id0 ch)), (''status'', JStr st)])])
      [(CHR ''1'', JOB_RUNNING), (CHR ''2'', JOB_SUCCEEDED)]))]"

definition spec_files0 :: spec_store where
  "spec_files0 = \<lparr>ss_root = Some \<lparr>dr_directory = True, dr_uid = 1000, dr_mode = 448\<rparr>,
     ss_specs = Some \<lparr>dr_directory = True, dr_uid = 1000, dr_mode = 448\<rparr>,
     ss_files = map (\<lambda>ch. (spec_file_name (spec_id0 ch), fresh_spec_file spec_env0 None)) ''12''\<rparr>"

definition no_spec_faults :: spec_faults where
  "no_spec_faults = \<lparr>fx_stat = (\<lambda>_. False), fx_unlink = (\<lambda>_. False), fx_sync = (\<lambda>_. False), fx_list = False\<rparr>"

theorem spec_cleanup_safe_witness:
  "\<exists>res. cleanup_job_specs (dg_str digests0) no_spec_faults 1000 sample_actor (days 20000) 86400 spec_ledger0 spec_files0 = Inr res
     \<and> map fst (sp_files res) = [spec_file_name (spec_id0 (CHR ''1''))] \<and> set (sp_files res) \<subseteq> set (ss_files spec_files0)"
proof -
  have "case cleanup_job_specs (dg_str digests0) no_spec_faults 1000 sample_actor (days 20000) 86400 spec_ledger0 spec_files0 of
      Inr res \<Rightarrow> map fst (sp_files res) = [spec_file_name (spec_id0 (CHR ''1''))] | Inl _ \<Rightarrow> False" by code_simp
  then obtain res where res: "cleanup_job_specs (dg_str digests0) no_spec_faults 1000 sample_actor (days 20000) 86400
      spec_ledger0 spec_files0 = Inr res" "map fst (sp_files res) = [spec_file_name (spec_id0 (CHR ''1''))]"
    by (auto split: sum.splits)
  have "distinct (map fst (ss_files spec_files0))" by code_simp
  from spec_cleanup_safe [OF res(1) _ this] res show ?thesis
    by (auto simp: spec_ledger0_def jget_default_def)
qed

end
