(* ===== verification/Service.thy ===== *)
theory Service
  imports Booking Allocator Job_Specs
begin

text \<open>
  The writes of \<^verbatim>\<open>bk/service.py\<close>, which put the other parts together: a submission checks the
  request, looks for a replay, asks the allocator, writes the private specification of a command
  and books; a specification no reservation refers to is taken back. The state is the shared
  ledger and the private specifications of the user; what other clients commit between the first look at the ledger
  and the write is an argument, and so are the outcome of the write and the advice: the one built
  from telemetry, and the one built from none that accompanies a replay. A message is kept by its first words. Worker status, warnings, interrupts during the cleanup of a
  specification and display forms are not modelled.
\<close>

datatype submit_error =
    SubmitRefused booking_error
  | SubmitMessage string
  | SubmitSpec spec_error
  | SubmitKeyError
  | SubmitRecursionError
  | SubmitStorage

definition lift_booking :: "(booking_error, 'a) result \<Rightarrow> (submit_error, 'a) result" where
  "lift_booking r = (case r of Inl e \<Rightarrow> Inl (SubmitRefused e) | Inr x \<Rightarrow> Inr x)"

definition lift_spec :: "(spec_error, 'a) result \<Rightarrow> (submit_error, 'a) result" where
  "lift_spec r = (case r of Inl e \<Rightarrow> Inl (SubmitSpec e) | Inr x \<Rightarrow> Inr x)"


section \<open>The request\<close>

record submission =
  sm_count :: int
  sm_duration_seconds :: int
  sm_start_at :: datetime
  sm_mode :: string
  sm_preferred_gpus :: "int list option"
  sm_excluded_gpus :: "int list option"
  sm_expected_memory_mb :: "int option"
  sm_share_units :: "int option"
  sm_allow_queue :: bool
  sm_operation_id :: "string option"
  sm_command_argv :: "string list option"
  sm_working_directory :: "string option"

definition service_share_units :: "int option \<Rightarrow> int \<Rightarrow> (submit_error, int) result" where
  "service_share_units share_units capacity =
     (case normalize_share_units (map_option JInt share_units) capacity of
        Inl _ \<Rightarrow> Inl (SubmitMessage ''share slots'') | Inr units \<Rightarrow> Inr units)"

text \<open>
  The memory a shared request is given when the policy asks for one and the user named none: the share of the
  smallest candidate GPU. \<open>built\<close> is the advice made when none is at hand.
\<close>

definition resolve_auto_memory_budget ::
  "config \<Rightarrow> string \<Rightarrow> int option \<Rightarrow> int option \<Rightarrow> int list option \<Rightarrow> int list option \<Rightarrow> gpu_advice option \<Rightarrow> gpu_advice \<Rightarrow>
   (submit_error, int option \<times> gpu_advice option) result" where
  "resolve_auto_memory_budget c mode expected_memory_mb share_units preferred_gpus excluded_gpus advice built =
     (if mode \<noteq> MODE_SHARED \<or> expected_memory_mb \<noteq> None \<or> \<not> require_shared_memory c
      then Inr (expected_memory_mb, advice)
      else res_bind (service_share_units share_units (max_shared_users c)) (\<lambda>units.
        let gpu_advice = (case advice of None \<Rightarrow> built | Some a \<Rightarrow> a);
            excluded = (case excluded_gpus of None \<Rightarrow> [] | Some gpus \<Rightarrow> gpus);
            candidates = (case preferred_gpus of
                            Some gpus \<Rightarrow> gpus
                          | None \<Rightarrow> filter (\<lambda>gpu. gpu \<notin> set excluded) (enabled_gpus c));
            capacity = (\<lambda>gpu. case map_of (memory_capacities_mb gpu_advice) gpu of None \<Rightarrow> 0 | Some mb \<Rightarrow> mb);
            missing = filter (\<lambda>gpu. capacity gpu \<le> 0) candidates
        in raise_if (candidates = [] \<or> missing \<noteq> [])
             (SubmitMessage ''automatic expected VRAM requires GPU memory telemetry'')
           (let usable = Min (set (map (\<lambda>gpu. max 0 (capacity gpu - shared_memory_reserve_mb c)) candidates))
            in raise_if (usable \<le> 0) (SubmitMessage ''automatic expected VRAM has no usable memory'')
               (Inr (Some (inferred_share_memory_mb usable (max_shared_users c) units), Some gpu_advice)))))"

definition validate_recommendation_request ::
  "config \<Rightarrow> int \<Rightarrow> int \<Rightarrow> datetime \<Rightarrow> string \<Rightarrow> int option \<Rightarrow> bool \<Rightarrow> int option \<Rightarrow> (submit_error, int) result" where
  "validate_recommendation_request c count' duration_seconds start_at mode expected_memory_mb allow_queue share_units =
     raise_if (mode \<noteq> MODE_SHARED \<and> mode \<noteq> MODE_EXCLUSIVE) (SubmitMessage ''unsupported booking mode'')
     (raise_if (count' < 1 \<or> count' > gpu_count c) (SubmitMessage ''GPU count'')
     (raise_if (duration_seconds \<le> 0 \<or> duration_seconds mod (slot_minutes c * 60) \<noteq> 0) (SubmitMessage ''duration'')
     (raise_if (case expected_memory_mb of None \<Rightarrow> False | Some mb \<Rightarrow> mb \<le> 0) (SubmitMessage ''expected GPU memory must be positive'')
     (raise_if (mode = MODE_SHARED \<and> require_shared_memory c \<and> expected_memory_mb = None)
        (SubmitMessage ''shared reservations require an explicit or automatic VRAM budget'')
     (res_bind
        (if mode = MODE_EXCLUSIVE
         then raise_if (share_units \<noteq> None) (SubmitMessage ''shared slots apply only to shared reservations'') (Inr (max_shared_users c))
         else service_share_units share_units (max_shared_users c)) (\<lambda>normalized_share_units.
      raise_if (\<not> allow_queue \<and> \<not> is_slot_aligned start_at (slot_minutes c)) (SubmitMessage ''exact start time must align'')
        (Inr normalized_share_units)))))))"


section \<open>Surroundings\<close>

text \<open>
  How the write ends: it returns, or it raises, with the new ledger in place or not.
\<close>

datatype write_outcome = WriteReturns | WriteRaises bool

text \<open>The call of an external allocator.\<close>

record alloc_env =
  al_codecs :: codecs
  al_adjust :: "rat \<Rightarrow> nat \<Rightarrow> rat \<Rightarrow> rat"
  al_command :: "string list option"
  al_weight :: rat
  al_deadline :: timedelta
  al_payload_bytes :: nat
  al_run :: allocator_run

record service_env =
  sx_generated_at :: datetime
  sx_replay_now :: datetime
  sx_built_advice :: gpu_advice
  sx_blank_advice :: gpu_advice
  sx_getcwd :: string
  sx_environ :: "string \<rightharpoonup> string"
  sx_digests :: digests
  sx_spec :: spec_env
  sx_spec_faults :: spec_faults
  sx_sha256 :: "string \<Rightarrow> string"
  sx_op :: op_env
  sx_load_fails :: bool
  sx_between :: "ledger \<Rightarrow> ledger"
  sx_outcome :: write_outcome
  sx_reload_fails :: bool
  sx_alloc :: alloc_env

definition submission_decision :: "alloc_env \<Rightarrow> config \<Rightarrow> gpu_advice \<Rightarrow> int list option \<Rightarrow> (uncaught, allocator_decision) result option" where
  "submission_decision a c advice preferred_gpus =
     allocation_decision (al_codecs a) (al_adjust a) (al_command a) c (al_weight a) advice (al_deadline a) (al_payload_bytes a)
       (al_run a) preferred_gpus"

record booking_submission =
  bs_result :: booking_result
  bs_advice :: gpu_advice
  bs_allocator :: allocator_decision
  bs_share_capacity_units :: int

definition replayed_submission :: "config \<Rightarrow> booking_result \<Rightarrow> gpu_advice \<Rightarrow> booking_submission" where
  "replayed_submission c result replay_advice =
     (let selected = rs_gpus (bres_reservation result)
      in \<lparr>bs_result = result, bs_advice = replay_advice,
          bs_allocator = \<lparr>ad_order = selected @ filter (\<lambda>gpu. gpu \<notin> set selected) [0..gpu_count c - 1],
            ad_scores = ga_scores replay_advice, ad_source = ''idempotent-replay'',
            ad_reason = ''committed allocation reused without rerunning allocation'', ad_warning = []\<rparr>,
          bs_share_capacity_units = max_shared_users c\<rparr>)"

definition refers_spec :: "string \<Rightarrow> ledger \<Rightarrow> bool" where
  "refers_spec spec_id l \<longleftrightarrow>
     (\<exists>r \<in> set (lg_reservations l). case rs_job r of None \<Rightarrow> False | Some job \<Rightarrow> jb_spec_id job = Some spec_id)"

text \<open>
  When the ledger cannot be read the file is kept; so it is when its deletion fails, which is not reported as an error.
\<close>

definition cleanup_unreferenced_job_spec :: "service_env \<Rightarrow> string \<Rightarrow> ledger \<Rightarrow> spec_store \<Rightarrow> spec_store" where
  "cleanup_unreferenced_job_spec env spec_id l s =
     (if sx_reload_fails env \<or> refers_spec spec_id l then s
      else fst (delete_job_spec (sx_spec_faults env) (sv_getuid (sx_spec env)) spec_id s))"


section \<open>Submitting a booking\<close>

definition create_request ::
  "actor \<Rightarrow> submission \<Rightarrow> datetime \<Rightarrow> int option \<Rightarrow> int \<Rightarrow> submission_identity option \<Rightarrow> booking_request" where
  "create_request actor sm start memory units identity =
     \<lparr>br_actor = actor, br_count = sm_count sm, br_duration_seconds = sm_duration_seconds sm, br_start_at = start,
      br_mode = sm_mode sm, br_preferred_gpus = sm_preferred_gpus sm, br_gpu_order = None, br_gpu_scores = None,
      br_op_id = sm_operation_id sm, br_allow_queue = sm_allow_queue sm, br_job_spec_id = None,
      br_job_digest = map_option si_digest identity, br_job_summary = map_option si_summary identity,
      br_job_digest_aliases = map_option si_legacy_digests identity, br_expected_memory_mb = memory,
      br_gpu_memory_capacity_mb = None, br_share_units = (if sm_mode sm = MODE_SHARED then Some units else None),
      br_excluded_gpus = sm_excluded_gpus sm\<rparr>"

definition placed_request ::
  "booking_request \<Rightarrow> allocator_decision \<Rightarrow> gpu_advice \<Rightarrow> spec_reference option \<Rightarrow> booking_request" where
  "placed_request request decision advice ref =
     request\<lparr>br_gpu_order := Some (ad_order decision),
       br_gpu_scores := Some (map (\<lambda>(gpu, score). (gpu, Finite score)) (ad_scores decision)),
       br_job_spec_id := map_option sr_spec_id ref, br_job_digest := map_option sr_digest ref,
       br_job_summary := map_option sr_summary ref,
       br_gpu_memory_capacity_mb := Some (memory_capacities_mb advice)\<rparr>"

text \<open>What is settled before anything is written.\<close>

record prepared =
  pp_request :: booking_request
  pp_directory :: string
  pp_advice :: "gpu_advice option"

definition prepare_submission ::
  "service_env \<Rightarrow> config \<Rightarrow> actor \<Rightarrow> gpu_advice option \<Rightarrow> submission \<Rightarrow> (submit_error, prepared) result" where
  "prepare_submission env c actor advice sm =
     (let start = (if sm_allow_queue sm then normalize_queue_start (sm_start_at sm) (sx_generated_at env) (slot_minutes c)
                   else sm_start_at sm);
          directory = (case sm_working_directory sm of None \<Rightarrow> sx_getcwd env | Some d \<Rightarrow> d)
      in res_bind (resolve_auto_memory_budget c (sm_mode sm) (sm_expected_memory_mb sm) (sm_share_units sm) (sm_preferred_gpus sm)
                     (sm_excluded_gpus sm) advice (sx_built_advice env)) (\<lambda>(memory, prepared_advice).
         res_bind (validate_recommendation_request c (sm_count sm) (sm_duration_seconds sm) start (sm_mode sm) memory
                     (sm_allow_queue sm) (sm_share_units sm)) (\<lambda>units.
         res_bind (case sm_command_argv sm of
                     None \<Rightarrow> Inr None
                   | Some argv \<Rightarrow>
                       lift_spec (res_map Some (job_submission_identity (sx_digests env) (sv_is_dir (sx_spec env))
                         (sv_defpath (sx_spec env)) (sv_getuid (sx_spec env)) actor (argv_json argv) (JStr directory)
                         (sx_environ env)))) (\<lambda>identity.
           Inr \<lparr>pp_request = create_request actor sm start memory units identity, pp_directory = directory,
                pp_advice = prepared_advice\<rparr>))))"

text \<open>
  The specification is written first; when the booking fails, is a replay or names another
  specification, it is taken back, unless the ledger refers to it after all.
\<close>

definition book_with_spec ::
  "service_env \<Rightarrow> config \<Rightarrow> actor \<Rightarrow> prepared \<Rightarrow> submission \<Rightarrow> gpu_advice \<Rightarrow> allocator_decision \<Rightarrow> ledger \<Rightarrow> spec_store \<Rightarrow>
   ledger \<times> spec_store \<times> (submit_error, booking_submission) result" where
  "book_with_spec env c actor p sm advice decision l s =
     (case (case sm_command_argv sm of
              None \<Rightarrow> (s, Inr None)
            | Some argv \<Rightarrow>
                (case prepare_job_spec (sx_digests env) (sx_spec env) actor (argv_json argv) (JStr (pp_directory p)) (sx_environ env) s of
                   (s, r) \<Rightarrow> (s, res_map Some r))) of
        (s, Inl e) \<Rightarrow> (l, s, Inl (SubmitSpec e))
      | (s, Inr ref) \<Rightarrow>
          (let take_back = (\<lambda>l s. case ref of None \<Rightarrow> s | Some x \<Rightarrow> cleanup_unreferenced_job_spec env (sr_spec_id x) l s)
           in case add_booking (sx_sha256 env) (sx_op env) c (placed_request (pp_request p) decision advice ref) l of
                Inl e \<Rightarrow> (l, take_back l s, Inl (SubmitRefused e))
              | Inr (l', result, _, _) \<Rightarrow>
                  (case sx_outcome env of
                     WriteRaises committed \<Rightarrow>
                       (let l = (if committed then l' else l) in (l, take_back l s, Inl SubmitStorage))
                   | WriteReturns \<Rightarrow>
                       (let kept = (bres_created result
                              \<and> (case rs_job (bres_reservation result) of None \<Rightarrow> None | Some job \<Rightarrow> jb_spec_id job)
                                = map_option sr_spec_id ref)
                        in (l', if ref \<noteq> None \<and> \<not> kept then take_back l' s else s,
                            Inr \<lparr>bs_result = result, bs_advice = advice, bs_allocator = decision,
                                 bs_share_capacity_units = max_shared_users c\<rparr>)))))"

text \<open>\<open>None\<close>: an external allocator is still running.\<close>

definition submit_booking ::
  "service_env \<Rightarrow> config \<Rightarrow> actor \<Rightarrow> gpu_advice option \<Rightarrow> submission \<Rightarrow> ledger \<Rightarrow> spec_store \<Rightarrow>
   (ledger \<times> spec_store \<times> (submit_error, booking_submission) result) option" where
  "submit_booking env c actor advice sm l s =
     (case res_bind (prepare_submission env c actor advice sm) (\<lambda>p.
             raise_if (sx_load_fails env) SubmitStorage (res_bind (lift_booking (validate_ledger_policy l c)) (\<lambda>_.
             res_map (\<lambda>replay. (p, replay))
               (lift_booking (find_applied_create (sx_sha256 env) (sx_replay_now env) l c (pp_request p)))))) of
        Inl e \<Rightarrow> Some (l, s, Inl e)
      | Inr (p, Some result) \<Rightarrow>
          Some (l, s, Inr (replayed_submission c result (case advice of None \<Rightarrow> sx_blank_advice env | Some a \<Rightarrow> a)))
      | Inr (p, None) \<Rightarrow>
          (case (case sm_command_argv sm of
                   None \<Rightarrow> Inr ()
                 | Some argv \<Rightarrow>
                     lift_spec (res_map (\<lambda>_. ()) (validate_job_submission (sx_digests env) (sv_is_dir (sx_spec env))
                       (sv_defpath (sx_spec env)) (sv_getuid (sx_spec env)) actor (argv_json argv) (JStr (pp_directory p))
                       (sx_environ env)))) of
             Inl e \<Rightarrow> Some (l, s, Inl e)
           | Inr _ \<Rightarrow>
               (let gpu_advice = (case pp_advice p of None \<Rightarrow> sx_built_advice env | Some a \<Rightarrow> a)
                in case submission_decision (sx_alloc env) c gpu_advice (sm_preferred_gpus sm) of
                     None \<Rightarrow> None
                   | Some (Inl UncaughtKeyError) \<Rightarrow> Some (l, s, Inl SubmitKeyError)
                   | Some (Inl UncaughtRecursionError) \<Rightarrow> Some (l, s, Inl SubmitRecursionError)
                   | Some (Inr decision) \<Rightarrow>
                       Some (book_with_spec env c actor p sm gpu_advice decision (sx_between env l) s))))"

end
