(* ===== verification/Service_Claims.thy ===== *)
theory Service_Claims
  imports Service Spec_Claims Allocator_Claims Scenarios Preservation
begin

text \<open>
  What a submission leaves behind: a booked command has its specification, an unbooked one
  leaves none.
\<close>

section \<open>Specifications in the ledger\<close>

definition spec_of :: "reservation \<Rightarrow> string option" where
  "spec_of r = (case rs_job r of None \<Rightarrow> None | Some job \<Rightarrow> jb_spec_id job)"

lemma refers_spec_iff: "refers_spec i l \<longleftrightarrow> (\<exists>r \<in> set (lg_reservations l). spec_of r = Some i)"
  by (auto simp: refers_spec_def spec_of_def split: option.splits)

lemma expire_spec_of: "spec_of (expire_reservation now r) = spec_of r"
  by (cases "rs_job r") (auto simp: spec_of_def expire_reservation_def expire_job_def)

lemma maintain_refers: "refers_spec i (fst (maintain_ledger l now days')) \<Longrightarrow> refers_spec i l"
  by (auto simp: refers_spec_iff maintain_ledger_def expire_old_reservations_def expire_spec_of Let_def split: if_splits)

lemma hex_lower_char: "is_hex_lower ch \<Longrightarrow> py_lower_char ch = ch \<and> (of_char ch :: nat) < 128"
  by (auto simp: py_lower_char_def is_hex_lower_def is_digit_def less_eq_char_def Let_def)

lemma digest_plain: "is_digest d \<Longrightarrow> py_lower d = d \<and> list_all (\<lambda>ch. (of_char ch :: nat) < 128) d"
  by (auto simp: is_digest_def list_all_iff py_lower_def hex_lower_char intro: map_idI)

text \<open>A booking enters the specification it was given, under the digest it was given, or none.\<close>

lemma intent_job:
  assumes "create_intent_of c request = Inr ci" "br_job_spec_id request = Some i" "br_job_digest request = Some d"
    "br_job_summary request = Some sm" "normalize_uuid i = Some i" "is_digest d"
  shows "\<exists>m. ci_job ci = Some m \<and> jm_spec_id m = Some i \<and> jm_digest m = d"
proof -
  from assms obtain meta where "normalize_job_metadata (Some i) (Some d) (Some sm) = Inr meta" "ci_job ci = meta"
    unfolding create_intent_of_def by (auto elim!: res_bindE)
  with assms(5) digest_plain [OF assms(6)] show ?thesis
    by (auto simp: normalize_job_metadata_def normalize_job_intent_def res_map_eq_Inr Let_def)
qed

lemma add_booking_spec:
  assumes add: "add_booking sha256 env c request l = Inr (l', res, logs, ch)"
    and spec: "br_job_spec_id request = Some i" "br_job_digest request = Some d" "br_job_summary request = Some sm"
    and uuid: "normalize_uuid i = Some i" and digest: "is_digest d" and fresh: "\<not> refers_spec i l"
  shows "(bres_created res \<longrightarrow> bres_reservation res \<in> set (lg_reservations l')
          \<and> (\<exists>job. rs_job (bres_reservation res) = Some job \<and> jb_spec_id job = Some i \<and> jb_digest job = Some d))
    \<and> (\<forall>r \<in> set (lg_reservations l'). spec_of r = Some i \<longrightarrow> bres_created res \<and> r = bres_reservation res)"
  using add
proof (rule add_booking_Inr, goal_cases)
  case (1 ci l1 b lm start excluded ord scores signature)
  have kept: "\<not> refers_spec i lm"
  proof
    assume "refers_spec i lm"
    then have "refers_spec i l1" unfolding 1(3) by (rule maintain_refers)
    with fresh bind_ledger_policy_reservations [OF 1(2)] show False by (simp add: refers_spec_iff)
  qed
  from 1(7) show ?case
  proof
    assume "l' = lm \<and> \<not> bres_created res \<and> logs = []"
    with kept show ?thesis by (auto simp: refers_spec_iff)
  next
    assume "place_booking env c request ci signature lm start (normalize_preferred_gpus (br_preferred_gpus request))
       excluded ord scores = Inr (l', res, logs, ch)"
    then show ?thesis
    proof (rule place_booking_Inr, goal_cases)
      case (1 t gpus)
      obtain m where "ci_job ci = Some m" "jm_spec_id m = Some i" "jm_digest m = d"
        using intent_job [OF \<open>create_intent_of c request = Inr ci\<close> spec uuid digest] by blast
      with 1(2,3,6) kept show ?case
        by (auto simp: refers_spec_iff new_reservation_def new_job_def)
    qed
  qed
qed

lemma applied_create_not_created:
  "find_applied_create sha256 now l c request = Inr (Some res) \<Longrightarrow> \<not> bres_created res"
  unfolding find_applied_create_def replay_create_def
  by (auto simp: Let_def res_map_eq_Inr split: option.splits prod.splits if_splits elim!: res_bindE raise_ifE)


section \<open>Specifications in the directory\<close>

text \<open>Only the file of the new specification is touched.\<close>

lemma prepare_other_files:
  assumes "prepare_job_spec dg env actor a d source s = (s', r)" "uuid_text (sv_uuid env) = Some (sv_uuid env)"
    and "name \<noteq> spec_file_name (sv_uuid env)"
  shows "map_of (ss_files s') name = map_of (ss_files s) name"
proof -
  have dir: "ss_files (fst (create_spec_directory base uid t)) = ss_files t" for base uid t
    by (auto simp: create_spec_directory_def Let_def split: sum.splits)
  have written: "map_of (fst (write_spec env (spec_file_name (sv_uuid env)) p files)) name = map_of files name" for p files
    using assms(3) by (auto simp: write_spec_def split: prepare_fault.splits)
  show ?thesis
  proof (cases "job_submission_components dg (sv_is_dir env) (sv_defpath env) (sv_getuid env) actor a d True source")
    case (Inl e)
    with assms(1) show ?thesis by (auto simp: prepare_job_spec_def)
  next
    case (Inr comp)
    obtain argv cwd path identity where comp: "comp = (argv, cwd, path, identity)" by (cases comp)
    obtain t q where t: "create_spec_directory (sv_root env) (actor_uid actor) s = (t, q)" by fastforce
    obtain files w where w: "write_spec env (spec_file_name (sv_uuid env))
        (JObj (spec_payload env actor argv cwd path (si_digest identity))) (ss_files t) = (files, w)" by fastforce
    from t dir [of "sv_root env" "actor_uid actor" s] have "ss_files t = ss_files s" by simp
    with Inr comp t w written [of "JObj (spec_payload env actor argv cwd path (si_digest identity))" "ss_files t"] assms(1,2)
    show ?thesis by (cases q) (auto simp: prepare_job_spec_def job_spec_path_def)
  qed
qed

lemma delete_other_files:
  assumes "delete_job_spec fx uid i s = (s', r)" "uuid_text i = Some i" "name \<noteq> spec_file_name i"
  shows "map_of (ss_files s') name = map_of (ss_files s) name"
proof -
  have "map_of (filter (\<lambda>(n, _). n \<noteq> spec_file_name i) files) name = map_of files name" for files :: spec_directory
    using assms(3) by (induction files) auto
  then have removed: "map_of (fst (remove_job_spec_at fx uid (spec_file_name i) files)) name = map_of files name" for files
    by (auto simp: remove_job_spec_at_def split: sum.splits)
  show ?thesis
  proof (cases "find_spec_directory uid s")
    case (Inl e)
    with assms(1,2) show ?thesis by (auto simp: delete_job_spec_def job_spec_path_def)
  next
    case (Inr present)
    obtain files q where q: "remove_job_spec_at fx uid (spec_file_name i) (ss_files s) = (files, q)" by fastforce
    with Inr assms(1,2) removed [of "ss_files s"] show ?thesis
      by (cases q) (auto simp: delete_job_spec_def job_spec_path_def split: if_splits)
  qed
qed

text \<open>No call of a deletion fails.\<close>

definition deletions_work :: "service_env \<Rightarrow> bool" where
  "deletions_work env \<longleftrightarrow> \<not> sx_reload_fails env
     \<and> (\<forall>name. \<not> fx_stat (sx_spec_faults env) name \<and> \<not> fx_unlink (sx_spec_faults env) name)"

lemma delete_fresh:
  assumes "uuid_text i = Some i" "find_spec_directory uid s = Inr True"
    and "map_of (ss_files s) (spec_file_name i) = Some (fresh_spec_file env content)" "sv_getuid env = uid"
    and "\<forall>name. \<not> fx_stat fx name \<and> \<not> fx_unlink fx name"
  shows "map_of (ss_files (fst (delete_job_spec fx uid i s))) (spec_file_name i) = None"
proof -
  have "(384 :: int) AND 63 = 0" by code_simp
  then have "spec_file_issue uid (fresh_spec_file env content) = None"
    using assms(4) by (simp add: spec_file_issue_def fresh_spec_file_def)
  with assms show ?thesis
    by (auto simp: delete_job_spec_def job_spec_path_def remove_job_spec_at_def job_spec_metadata_at_def map_of_eq_None_iff)
qed


section \<open>A submission\<close>

text \<open>The job of a reservation as the worker reads it.\<close>

definition job_reference :: "job \<Rightarrow> (string \<times> json) list" where
  "job_reference job =
     [(''spec_id'', case jb_spec_id job of None \<Rightarrow> JNull | Some i \<Rightarrow> JStr i),
      (''digest'', case jb_digest job of None \<Rightarrow> JNull | Some d \<Rightarrow> JStr d)]"

text \<open>The directory a submission is made in and the search path its command runs with.\<close>

definition submitted_directory :: "service_env \<Rightarrow> submission \<Rightarrow> string" where
  "submitted_directory env sm = (case sm_working_directory sm of None \<Rightarrow> sx_getcwd env | Some d \<Rightarrow> d)"

definition submitted_path :: "service_env \<Rightarrow> string" where
  "submitted_path env = (case sx_environ env ''PATH'' of None \<Rightarrow> sv_defpath (sx_spec env) | Some p \<Rightarrow> p)"

text \<open>
  The state after a submission of \<open>argv\<close> in the directory \<open>cwd\<close>: files other than that of the new specification are
  as they were; a launch of a reservation with the new specification reads the command, directory and search
  path, or refuses a file over 128 KiB; and if there is no such reservation the file is gone, when the deletions
  work and the unlink after a failed write did not fail.
\<close>

definition settled :: "service_env \<Rightarrow> actor \<Rightarrow> string list \<Rightarrow> string \<Rightarrow> spec_store \<Rightarrow> ledger \<Rightarrow> spec_store \<Rightarrow> bool" where
  "settled env actor argv cwd s l' s' \<longleftrightarrow> (let i = sv_uuid (sx_spec env) in
     (\<forall>name. name \<noteq> spec_file_name i \<longrightarrow> map_of (ss_files s') name = map_of (ss_files s) name)
     \<and> (\<forall>r job. r \<in> set (lg_reservations l') \<and> rs_job r = Some job \<and> jb_spec_id job = Some i
          \<longrightarrow> validated_job_payload (sx_digests env) (sv_is_dir (sx_spec env)) (actor_uid actor) (job_reference job) s'
                = launch_outcome (sx_digests env) (sx_spec env) actor argv cwd (submitted_path env))
     \<and> (\<not> refers_spec i l' \<and> deletions_work env \<and> sv_fault (sx_spec env) \<noteq> WriteFails True
          \<longrightarrow> map_of (ss_files s') (spec_file_name i) = None))"

lemma settled_unreferred:
  assumes "\<not> refers_spec (sv_uuid (sx_spec env)) l'"
    and "\<And>name. name \<noteq> spec_file_name (sv_uuid (sx_spec env)) \<Longrightarrow> map_of (ss_files s') name = map_of (ss_files s) name"
    and "deletions_work env \<Longrightarrow> sv_fault (sx_spec env) \<noteq> WriteFails True
        \<Longrightarrow> map_of (ss_files s') (spec_file_name (sv_uuid (sx_spec env))) = None"
  shows "settled env actor argv cwd s l' s'"
proof -
  have "\<not> (r \<in> set (lg_reservations l') \<and> rs_job r = Some job \<and> jb_spec_id job = Some (sv_uuid (sx_spec env)))" for r job
    using assms(1) unfolding refers_spec_iff spec_of_def by force
  with assms(2,3) show ?thesis unfolding settled_def Let_def by blast
qed

lemma prepare_failed_files:
  assumes "prepare_job_spec dg env actor a d source s = (s', Inl e)" "uuid_text (sv_uuid env) = Some (sv_uuid env)"
    and "sv_fault env \<noteq> WriteFails True" "map_of (ss_files s) (spec_file_name (sv_uuid env)) = None"
  shows "map_of (ss_files s') (spec_file_name (sv_uuid env)) = None"
proof -
  have dir: "ss_files (fst (create_spec_directory base uid t)) = ss_files t" for base uid t
    by (auto simp: create_spec_directory_def Let_def split: sum.splits)
  show ?thesis
  proof (cases "job_submission_components dg (sv_is_dir env) (sv_defpath env) (sv_getuid env) actor a d True source")
    case (Inl e)
    with assms show ?thesis by (auto simp: prepare_job_spec_def)
  next
    case (Inr comp)
    obtain argv cwd path identity where comp: "comp = (argv, cwd, path, identity)" by (cases comp)
    obtain t q where t: "create_spec_directory (sv_root env) (actor_uid actor) s = (t, q)" by fastforce
    from t dir [of "sv_root env" "actor_uid actor" s] have "ss_files t = ss_files s" by simp
    with Inr comp t assms show ?thesis
      by (cases q) (auto simp: prepare_job_spec_def job_spec_path_def write_spec_def split: if_splits prepare_fault.splits)
  qed
qed

lemma book_with_spec_settled:
  assumes booked: "book_with_spec env c actor p sm advice decision l s = (l', s', res)"
    and command: "sm_command_argv sm = Some argv"
    and uuid: "uuid_text (sv_uuid (sx_spec env)) = Some (sv_uuid (sx_spec env))"
      "normalize_uuid (sv_uuid (sx_spec env)) = Some (sv_uuid (sx_spec env))"
    and fresh: "\<not> refers_spec (sv_uuid (sx_spec env)) l" "map_of (ss_files s) (spec_file_name (sv_uuid (sx_spec env))) = None"
    and digest: "\<forall>x. is_digest (dg_sha256 (sx_digests env) x)" and texts: "\<forall>x. dg_str (sx_digests env) (JStr x) = x"
  shows "settled env actor argv (pp_directory p) s l' s'
    \<and> (\<forall>sub. res = Inr sub \<and> bres_created (bs_result sub) \<longrightarrow>
         bres_reservation (bs_result sub) \<in> set (lg_reservations l')
         \<and> spec_of (bres_reservation (bs_result sub)) = Some (sv_uuid (sx_spec env)))"
proof -
  let ?i = "sv_uuid (sx_spec env)"
  obtain s1 q where prep: "prepare_job_spec (sx_digests env) (sx_spec env) actor (argv_json argv) (JStr (pp_directory p)) (sx_environ env) s = (s1, q)"
    by fastforce
  note others = prepare_other_files [OF prep uuid(1)]
  show ?thesis
  proof (cases q)
    case (Inl e)
    with booked prep command have out: "l' = l" "s' = s1" "res = Inl (SubmitSpec e)" by (auto simp: book_with_spec_def)
    have "settled env actor argv (pp_directory p) s l s1"
      by (rule settled_unreferred) (use others fresh prepare_failed_files [OF prep [unfolded Inl] uuid(1)] in auto)
    with out show ?thesis by simp
  next
    case (Inr ref)
    obtain a cwd path identity where
      comp: "job_submission_components (sx_digests env) (sv_is_dir (sx_spec env)) (sv_defpath (sx_spec env)) (sv_getuid (sx_spec env))
          actor (argv_json argv) (JStr (pp_directory p)) True (sx_environ env) = Inr (a, cwd, path, identity)"
      and ref: "sr_spec_id ref = ?i" "sr_digest ref = si_digest identity"
      and stored: "map_of (ss_files s1) (spec_file_name ?i)
         = Some (fresh_spec_file (sx_spec env) (Some (JObj (spec_payload (sx_spec env) actor a cwd path (si_digest identity)))))"
      and dir: "find_spec_directory (actor_uid actor) s1 = Inr True"
    proof (rule prepare_ok [OF prep [unfolded Inr]], goal_cases)
      case (1 argv' cwd path identity name)
      from 1(3) uuid(1) have "name = spec_file_name ?i" by (simp add: job_spec_path_def)
      with 1 show ?case by blast
    qed
    have a: "a = argv" "cwd = pp_directory p" "path = submitted_path env"
      using components_ok(2,3,7) [OF comp] by (auto simp: argv_json_def inj_map_eq_map inj_def submitted_path_def)
    note getuid = components_ok(1) [OF comp]
    have d: "is_digest (sr_digest ref)" using digest ref(2) components_ok(6) [OF comp] by (simp add: job_spec_digest_def)
    have launch: "validated_job_payload (sx_digests env) (sv_is_dir (sx_spec env)) (actor_uid actor) (job_reference job) s1
        = launch_outcome (sx_digests env) (sx_spec env) actor argv (pp_directory p) (submitted_path env)" if "jb_spec_id job = Some ?i" "jb_digest job = Some (sr_digest ref)" for job
      using written_spec_accepted [OF comp prep [unfolded Inr], of "job_reference job"] that ref(1) texts digest_plain [OF d] a
      by (simp add: job_reference_def jget_def jget_default_def)
    have unbooked: "settled env actor argv (pp_directory p) s l2 (cleanup_unreferenced_job_spec env ?i l2 s1)" if "\<not> refers_spec ?i l2" for l2
    proof -
      obtain s2 w where del: "delete_job_spec (sx_spec_faults env) (sv_getuid (sx_spec env)) ?i s1 = (s2, w)" by fastforce
      have "map_of (ss_files s2) (spec_file_name ?i) = None" if "deletions_work env"
        using delete_fresh [OF uuid(1) dir [unfolded getuid] stored refl, of "sx_spec_faults env"] that del
        by (simp add: deletions_work_def)
      with that delete_other_files [OF del uuid(1)] others del show ?thesis
        by (intro settled_unreferred) (auto simp: cleanup_unreferenced_job_spec_def deletions_work_def)
    qed
    let ?req = "placed_request (pp_request p) decision advice (Some ref)"
    show ?thesis
    proof (cases "add_booking (sx_sha256 env) (sx_op env) c ?req l")
      case (Inl e)
      with booked prep command Inr ref(1) have "l' = l" "s' = cleanup_unreferenced_job_spec env ?i l s1" "res = Inl (SubmitRefused e)"
        by (auto simp: book_with_spec_def Let_def)
      with unbooked fresh(1) show ?thesis by simp
    next
      case added: (Inr out)
      obtain la result logs ch where out: "out = (la, result, logs, ch)" by (cases out)
      note spec = add_booking_spec [OF added [unfolded out], of ?i "sr_digest ref" "sr_summary ref"]
      have eff: "(bres_created result \<longrightarrow> bres_reservation result \<in> set (lg_reservations la)
          \<and> (\<exists>job. rs_job (bres_reservation result) = Some job \<and> jb_spec_id job = Some ?i \<and> jb_digest job = Some (sr_digest ref)))
        \<and> (\<forall>r \<in> set (lg_reservations la). spec_of r = Some ?i \<longrightarrow> bres_created result \<and> r = bres_reservation result)"
        by (rule spec) (use ref(1) uuid(2) d fresh(1) in \<open>simp_all add: placed_request_def\<close>)
      have kept: "settled env actor argv (pp_directory p) s la s1" if "refers_spec ?i la"
        using others launch eff that
        by (auto simp: settled_def Let_def spec_of_def)
      have taken_back: "settled env actor argv (pp_directory p) s la (cleanup_unreferenced_job_spec env ?i la s1)"
        using unbooked [of la] kept by (cases "refers_spec ?i la") (auto simp: cleanup_unreferenced_job_spec_def)
      have created: "refers_spec ?i la \<and> spec_of (bres_reservation result) = Some ?i" if new: "bres_created result"
      proof -
        from eff new obtain job where "rs_job (bres_reservation result) = Some job" "jb_spec_id job = Some ?i" by blast
        then have "spec_of (bres_reservation result) = Some ?i" by (simp add: spec_of_def)
        moreover from eff new have "bres_reservation result \<in> set (lg_reservations la)" by blast
        ultimately show ?thesis unfolding refers_spec_iff by blast
      qed
      note run = booked [unfolded book_with_spec_def] command prep Inr added out ref(1)
      show ?thesis
      proof (cases "sx_outcome env")
        case (WriteRaises committed)
        with run have "l' = (if committed then la else l)" "s' = cleanup_unreferenced_job_spec env ?i l' s1" "res = Inl SubmitStorage"
          by (auto simp: Let_def)
        with taken_back unbooked [OF fresh(1)] show ?thesis by simp
      next
        case WriteReturns
        with run have "l' = la" "res = Inr \<lparr>bs_result = result, bs_advice = advice, bs_allocator = decision, bs_share_capacity_units = max_shared_users c\<rparr>"
            "s' = (if bres_created result \<and> spec_of (bres_reservation result) = Some ?i then s1
                   else cleanup_unreferenced_job_spec env ?i la s1)"
          by (auto simp: Let_def spec_of_def)
        with taken_back kept created eff show ?thesis by auto
      qed
    qed
  qed
qed

lemma prepare_submission_directory:
  "prepare_submission env c actor advice sm = Inr p \<Longrightarrow> pp_directory p = submitted_directory env sm"
  unfolding prepare_submission_def submitted_directory_def Let_def by (auto elim!: res_bindE)

text \<open>
  C6: a submission and its private command file agree, whatever fails. Submit a booking with a command, let other clients write
  between the look at the ledger and the write, let the writing of the file fail, the booking be refused or turn out a
  replay, or the write raise with or without having taken effect. Then, for a specification identifier that
  is in use nowhere, no other private file has changed. For a reservation that carries the new specification, the checks of a
  launch read the submitted command, directory and search path; only a file over 128 KiB is refused, although it
  was booked. If no reservation carries the specification, its file is gone, provided the calls of the deletion work
  and a failed write could be taken back. A submission that reports a created reservation has it in
  the ledger with its specification.
\<close>

theorem submission_settled:
  assumes submit: "submit_booking env c actor advice sm l s = Some (l', s', res)"
    and command: "sm_command_argv sm = Some argv"
    and uuid: "uuid_text (sv_uuid (sx_spec env)) = Some (sv_uuid (sx_spec env))"
      "normalize_uuid (sv_uuid (sx_spec env)) = Some (sv_uuid (sx_spec env))"
    and fresh: "\<not> refers_spec (sv_uuid (sx_spec env)) l" "\<not> refers_spec (sv_uuid (sx_spec env)) (sx_between env l)"
      "map_of (ss_files s) (spec_file_name (sv_uuid (sx_spec env))) = None"
    and digest: "\<forall>x. is_digest (dg_sha256 (sx_digests env) x)" and texts: "\<forall>x. dg_str (sx_digests env) (JStr x) = x"
  shows "settled env actor argv (submitted_directory env sm) s l' s'
    \<and> (\<forall>sub. res = Inr sub \<and> bres_created (bs_result sub) \<longrightarrow>
         bres_reservation (bs_result sub) \<in> set (lg_reservations l')
         \<and> spec_of (bres_reservation (bs_result sub)) = Some (sv_uuid (sx_spec env)))"
proof (cases "\<exists>p decision advice. pp_directory p = submitted_directory env sm
    \<and> book_with_spec env c actor p sm advice decision (sx_between env l) s = (l', s', res)")
  case True
  then obtain p decision advice where p: "pp_directory p = submitted_directory env sm"
    "book_with_spec env c actor p sm advice decision (sx_between env l) s = (l', s', res)" by blast
  from book_with_spec_settled [OF p(2) command uuid fresh(2,3) digest texts] p(1) show ?thesis by simp
next
  case False
  with submit have early: "l' = l \<and> s' = s" and "\<And>sub. res = Inr sub \<Longrightarrow> \<not> bres_created (bs_result sub)"
    by (auto simp: submit_booking_def Let_def replayed_submission_def lift_booking_def res_map_eq_Inr
        split: sum.splits option.splits prod.splits uncaught.splits elim!: res_bindE
        dest!: applied_create_not_created prepare_submission_directory)
  moreover have "settled env actor argv (submitted_directory env sm) s l s" by (rule settled_unreferred) (use fresh in auto)
  ultimately show ?thesis by blast
qed

text \<open>A command on one GPU, submitted by the sample user with nothing failing.\<close>

definition service_env0 :: service_env where
  "service_env0 = \<lparr>sx_generated_at = hours 1, sx_replay_now = hours 1, sx_built_advice = advice0, sx_blank_advice = advice0,
     sx_getcwd = ''/home'', sx_environ = Map.empty,
     sx_digests = \<lparr>dg_dumps = (\<lambda>_. []), dg_sha256 = (\<lambda>_. replicate 64 CHR ''a''), dg_str = (\<lambda>v. case v of JStr s \<Rightarrow> s | _ \<Rightarrow> [])\<rparr>,
     sx_spec = spec_env0, sx_spec_faults = \<lparr>fx_stat = (\<lambda>_. False), fx_unlink = (\<lambda>_. False), fx_sync = (\<lambda>_. False), fx_list = False\<rparr>,
     sx_sha256 = (\<lambda>_. replicate 64 CHR ''a''), sx_op = sample_env (hours 1) ''r1'', sx_load_fails = False, sx_between = (\<lambda>l. l),
     sx_outcome = WriteReturns, sx_reload_fails = False,
     sx_alloc = \<lparr>al_codecs = sample_codecs, al_adjust = (\<lambda>s rank w. s), al_command = None, al_weight = 0, al_deadline = 0,
       al_payload_bytes = 0, al_run = answer_run\<rparr>\<rparr>"

definition submission0 :: submission where
  "submission0 = \<lparr>sm_count = 1, sm_duration_seconds = 3600, sm_start_at = hours 1, sm_mode = MODE_SHARED, sm_preferred_gpus = None,
     sm_excluded_gpus = None, sm_expected_memory_mb = None, sm_share_units = None, sm_allow_queue = True, sm_operation_id = None,
     sm_command_argv = Some [''train'', ''-v''], sm_working_directory = None\<rparr>"

theorem submission_settled_witness:
  "\<exists>l' s' sub. submit_booking service_env0 sample_config sample_actor None submission0 (sample_ledger []) spec_store0 = Some (l', s', Inr sub)
     \<and> bres_created (bs_result sub) \<and> settled service_env0 sample_actor [''train'', ''-v''] ''/home'' spec_store0 l' s'
     \<and> bres_reservation (bs_result sub) \<in> set (lg_reservations l')
     \<and> spec_of (bres_reservation (bs_result sub)) = Some (sv_uuid spec_env0)
     \<and> launch_outcome (sx_digests service_env0) spec_env0 sample_actor [''train'', ''-v''] ''/home'' (submitted_path service_env0)
       = Inr ([''train'', ''-v''], ''/home'', Some ''/bin'')"
proof -
  have outcome: "launch_outcome (sx_digests service_env0) spec_env0 sample_actor [''train'', ''-v''] ''/home'' (submitted_path service_env0)
      = Inr ([''train'', ''-v''], ''/home'', Some ''/bin'')" by code_simp
  have "case submit_booking service_env0 sample_config sample_actor None submission0 (sample_ledger []) spec_store0 of
      Some (_, _, Inr sub) \<Rightarrow> bres_created (bs_result sub) | _ \<Rightarrow> False"
    by code_simp
  then obtain l' s' r where "submit_booking service_env0 sample_config sample_actor None submission0 (sample_ledger []) spec_store0
      = Some (l', s', r)" "case r of Inr sub \<Rightarrow> bres_created (bs_result sub) | _ \<Rightarrow> False"
    by (auto split: option.splits)
  then obtain sub where run: "submit_booking service_env0 sample_config sample_actor None submission0 (sample_ledger []) spec_store0
      = Some (l', s', Inr sub)" and created: "bres_created (bs_result sub)"
    by (cases r) auto
  have "uuid_text (sv_uuid spec_env0) = Some (sv_uuid spec_env0)" "normalize_uuid (sv_uuid spec_env0) = Some (sv_uuid spec_env0)"
      "\<not> refers_spec (sv_uuid spec_env0) (sample_ledger [])" "is_digest (replicate 64 CHR ''a'')"
      "map_of (ss_files spec_store0) (spec_file_name (sv_uuid spec_env0)) = None"
    by code_simp+
  moreover have "submitted_directory service_env0 submission0 = ''/home''" by code_simp
  ultimately have "settled service_env0 sample_actor [''train'', ''-v''] ''/home'' spec_store0 l' s'
     \<and> bres_reservation (bs_result sub) \<in> set (lg_reservations l')
     \<and> spec_of (bres_reservation (bs_result sub)) = Some (sv_uuid spec_env0)"
    using submission_settled [OF run, of "[''train'', ''-v'']"] created
    by (simp add: service_env0_def [THEN arg_cong [of _ _ sx_spec]] service_env0_def [THEN arg_cong [of _ _ sx_digests]]
        service_env0_def [THEN arg_cong [of _ _ sx_between]] submission0_def)
  with run created outcome show ?thesis by blast
qed

end
