(* ===== verification/Spec2Isabelle.thy ===== *)
theory Spec2Isabelle
  imports Violations Occupancy Recovery Job_Claims Recovery_Claims Guard_Claims Broker_Claims Announcements Config_Claims Log_Claims Allocator_Claims Preset_Claims Spec_Claims Service_Claims
begin

text \<open>
  \<^bold>\<open>GPUBK\<close>, a reservation system for the GPUs of one host (\<^verbatim>\<open>src/src/bk\<close>).
  Every user runs the same program on a shared directory: a ledger of reservations
  (\<^verbatim>\<open>ledger.json\<close>), a transaction journal, an audit log and backups. A write loads the ledger
  under a file lock, binds or checks the scheduling policy, expires what has ended, changes the
  reservations, and commits ledger and audit events through the journal.

  \<^bold>\<open>Theories and sources.\<close>
  \<^item> \<open>Prelude\<close>, \<open>Pytext\<close>: results of fallible code, JSON values, Python's list and text
    operations.
  \<^item> \<open>Granularity\<close>, \<open>Models\<close>, \<open>Config\<close>, \<open>Sharing\<close>, \<open>Policy\<close>, \<open>Timeparse\<close>,
    \<open>Schedule_Index\<close>, \<open>Ledger_Schema\<close>: the modules \<^verbatim>\<open>granularity.py\<close>,
    \<^verbatim>\<open>models.py\<close>, \<^verbatim>\<open>config.py\<close>, \<^verbatim>\<open>sharing.py\<close>, \<^verbatim>\<open>policy.py\<close>,
    \<^verbatim>\<open>timeparse.py\<close>, \<^verbatim>\<open>schedule_index.py\<close>, \<^verbatim>\<open>ledger_schema.py\<close>, one
    definition per function, with the function's name.
  \<^item> \<open>Availability\<close>, \<open>Placement\<close>, \<open>Requests\<close>, \<open>Ledger_Ops\<close>, \<open>Booking\<close>,
    \<open>Violations\<close>, \<open>Occupancy\<close>: \<^verbatim>\<open>scheduler.py\<close>, in the order availability of one
    GPU, choice of GPUs and slots, normalisation and signatures of requests, ledger lookups and
    maintenance, the four writes, the consistency check, the figures shown for a reservation.
  \<^item> \<open>Storage\<close>, \<open>Recovery\<close>: \<^verbatim>\<open>LedgerStore\<close> of \<^verbatim>\<open>storage.py\<close> over the files of
    the data directory (and the line level of \<^verbatim>\<open>jsonl.py\<close>), with every write of a transaction
    allowed to fail, and what recovery makes of it.
  \<^item> \<open>Worker\<close>, \<open>Job_Recovery\<close>: \<^verbatim>\<open>worker.py\<close> (claims, launches, supervision,
    completions and retries of jobs) and \<^verbatim>\<open>job_recovery.py\<close> (what a starting worker does about
    jobs another one left behind).
  \<^item> \<open>Job_Lifecycle\<close>, \<open>Job_System\<close>, \<open>Job_Safety\<close>, \<open>Job_Refinement\<close>: the loops of the
    worker over the ledger, the step relation of clients, workers and recoveries together, its
    invariant, and the contract of one job that it implements.
  \<^item> \<open>Job_Claims\<close>, \<open>Recovery_Claims\<close>: the properties of worker and recovery.
  \<^item> \<open>Gpu_Usage\<close>, \<open>Launch_Guard\<close>, \<open>Guard_Claims\<close>: \<^verbatim>\<open>gpu.py\<close> and
    \<^verbatim>\<open>usage.py\<close> (telemetry snapshots, whose process is whose, live states),
    \<^verbatim>\<open>launch_guard.py\<close> with the worker's pass over due jobs, and what guard and claim give together.
  \<^item> \<open>Broker\<close>, \<open>Broker_Claims\<close>: \<^verbatim>\<open>broker.py\<close>, the daemon that writes for clients
    known by their socket credentials, on raw JSON ledgers.
  \<^item> \<open>Announcements\<close>: \<^verbatim>\<open>announcements.py\<close>.
  \<^item> \<open>Config_Load\<close>, \<open>Config_Claims\<close>: the constructor and the loader of \<^verbatim>\<open>config.py\<close>
    (with \<^verbatim>\<open>userdirs.py\<close>): raw values, environment, trusted files.
  \<^item> \<open>Job_Logs\<close>, \<open>Log_Claims\<close>: \<^verbatim>\<open>joblogs.py\<close>, the two-segment log of a job's
    output and the cleanup of old logs.
  \<^item> \<open>Allocator\<close>, \<open>Allocator_Claims\<close>: \<^verbatim>\<open>allocator.py\<close>, asking an external
    program for an order of the GPUs.
  \<^item> \<open>Presets\<close>, \<open>Preset_Claims\<close>: \<^verbatim>\<open>presets.py\<close>, named booking profiles and
    the one learned from past bookings.
  \<^item> \<open>Job_Specs\<close>, \<open>Spec_Claims\<close>: the private specification files of \<^verbatim>\<open>worker.py\<close>.
  \<^item> \<open>Service\<close>, \<open>Service_Claims\<close>: the submission of a booking in \<^verbatim>\<open>service.py\<close>, which puts
    scheduler, allocator and specifications together.
  \<^item> \<open>Safety\<close>, \<open>Preservation\<close>, \<open>Replay\<close>, \<open>Reachable\<close>: the abstract promise of the
    ledger and its proof for every write, idempotence, and every history of writes.
  \<^item> \<open>Samples\<close>, \<open>Scenarios\<close>: concrete data the kernel evaluates for the witnesses.

  \<^bold>\<open>State and operations.\<close> An instant is an \<open>int\<close> of microseconds, a ledger a record with
  the reservations in order, the stored policy as raw JSON and the last transaction. A write is the
  \<^verbatim>\<open>mutate\<close> function of its source: it returns an error (one constructor per \<^verbatim>\<open>raise\<close>)
  or the new ledger, a result, audit events and whether the ledger changed. Clock readings and fresh
  identifiers of a call are the fields of its environment, in the order the code reads them;
  SHA-256, the encoder of audit lines and the clock inside a search are parameters.

  \<^bold>\<open>Interfaces.\<close> \<open>span_lookup\<close> (an index answers interval queries; interpreted on the sorted,
  grouped, binary-searched index), \<open>interval_sweep\<close> (checking the pieces between boundary points
  is checking every instant; interpreted for spans and for reservations), \<open>preserved\<close> (an
  invariant along any run; interpreted for the writes and the promise; for
  the whole system and its invariant, for the GPUs of a started reservation and for the policy), \<open>job_commit\<close> (a commit leaves the ledger or accepts a
  checked proposal; interpreted for both commit operations of the broker), \<open>named_table\<close> (entries found under
  their names; interpreted for the presets), \<open>sweeping\<close> (a relation every visit of a loop over the ledger
  respects; interpreted for the claiming, guard and two recovery loops), \<open>simulation\<close>, which
  extends \<open>preserved\<close> (runs refine an abstract automaton; interpreted for the contract of a job).

  \<^bold>\<open>What is shown.\<close> Availability is decided instant by instant; the queued search misses no
  slot boundary of its window; every write keeps the ledger well formed and no GPU oversold, hence so
  does every history of writes of clients that need not share a configuration; created and edited
  reservations are what was asked for; only owners and root change reservations; repeated
  requests change nothing; the consistency check decides the promise; the index, the peaks and
  the headroom agree with their definitions; a committed transaction survives any failure and a
  refused one leaves no trace; an unreadable ledger comes back from the newest backup; timestamps and
  durations are read as they were written; accepted ledgers are well formed.
  With workers added, still no GPU is oversold; a command is started once per submission and once
  per explicit retry, whatever workers crash or come back late; every job follows its contract;
  claims take the first due jobs and pass none over; the recovery ends, touches only abandoned
  jobs of its user and signals only processes of theirs that carry the reservation. The launch
  guard's verdict is decided GPU by GPU, and a claimed job is launched on GPUs the guard has cleared, as long as the
  writes in between read the clock after the guard. Writes that check the policy have the same one. Through the
  broker a client acts under its own identity, a job commit changes only its own jobs, and a job transaction is
  committed at most once, on a ledger with the digest of the one it was computed on, whatever calls and answers get lost; requests and
  frames survive the wire. Announcements are never lost. A loaded configuration satisfies what the scheduler assumes,
  has every number and mode in its range, and comes from trusted files. A job log is bounded, and without errors and short
  writes it holds the end of the output; the cleanup removes no log that is needed. An external allocator can only reorder the GPUs, and
  not delay a request beyond its deadline; an answer nested too deeply raises. The preset file is a map up to its limit of
  1 MiB. What a worker starts is what was submitted, up to the limit of 128 KiB and collisions of the digest, and no specification is
  removed while it is needed.

  \<^bold>\<open>Bounds.\<close> No fuel is used: the loops are structural, or terminate by the length of their
  input; the one that waits on a clock is a partial function, shown to return once the clock gets
  there. Texts are lists of characters below 256.

  \<^bold>\<open>Not modelled.\<close> The file lock (one transaction runs at a time), file modes and owners, the
  friendly start grammar, the terminal and command-line interfaces, administration, cluster federation and usage accounting
  (process, network and database effects). Of the worker, the main
  loop and the
  operating system's processes; their answers are arguments of the operations that use them. Of telemetry, the samplers and the
  floating-point load history; of the broker, sockets and threads.
\<close>


section \<open>The sample history keeps the promise\<close>

lemma sample_history_wf: "ledger_wf sample_config (lg_reservations sample_history)"
  by code_simp

lemma sample_history_safe: "ledger_safe (max_shared_users sample_config) (hours 1) (lg_reservations sample_history)"
proof -
  have "find_policy_violations sample_history (max_shared_users sample_config) (hours 1) = []" by code_simp
  moreover have "list_all span_ok (lg_reservations sample_history)" by (rule ledger_wf_span_ok [OF sample_history_wf])
  moreover have "0 \<le> max_shared_users sample_config" by code_simp
  ultimately show ?thesis using find_policy_violations_nil by blast
qed

lemma sample_env_fields [simp]:
  "oe_now (sample_env t ident) = t" "sc_now (oe_search (sample_env t ident)) = t" "oe_uuid (sample_env t ident) = ident"
  by (simp_all add: sample_env_def sample_clock_def)

lemma sample_fresh: "fresh_for (sample_env (hours 1) ''r2'') sample_history"
  by (simp add: fresh_for_def sample_history_def sample_reservation_def)


section \<open>Every history of writes\<close>

text \<open>
  C1: no GPU is ever oversold. Start from an empty ledger and let any clients, each with its own
  configuration file and clock, create, edit, cancel and administratively cancel reservations, and
  any workers claim, launch, supervise, complete, lose, recover and retry jobs, in any order. In every
  ledger reached, for every configuration that agrees with the stored policy, at every instant from
  then on, a GPU held exclusively has one holder and the shared slots held on a GPU stay within
  its capacity.
\<close>

theorem no_gpu_oversold:
  assumes run: "(system_step sha256)\<^sup>*\<^sup>* (idle_system l0 T0) s"
    and start: "lg_policy l0 = JNull" "lg_reservations l0 = []"
    and c: "config_ok c" "validate_ledger_policy (sy_ledger s) c = Inr ()" and "sy_clock s \<le> t"
  shows "gpu_safe (max_shared_users c) (holders (lg_reservations (sy_ledger s)) g t)"
proof -
  have "promise (l0, T0)" by (simp add: promise_def start)
  then have "promise (sy_ledger s, sy_clock s)"
    by (rule system_okD(4) [OF system_run.run_preserves [OF run idle_system_ok]])
  from promise_for_policy [OF this c] show ?thesis using \<open>sy_clock s \<le> t\<close> by (rule ledger_safeD)
qed

theorem no_gpu_oversold_witness:
  "\<exists>s. (system_step plain_digest)\<^sup>*\<^sup>* (idle_system (sample_ledger []) 0) s \<and> sy_clock s = hours 1 \<and> lg_policy (sy_ledger s) \<noteq> JNull
    \<and> gpu_safe (max_shared_users sample_config) (holders (lg_reservations (sy_ledger s)) 0 (hours 1))"
proof -
  let ?env = "sample_env (hours 1) ''r2''" and ?s0 = "idle_system (sample_ledger []) 0"
  obtain l' res logs ch where add: "add_booking plain_digest ?env sample_config (sample_request (hours 1))
      (sample_ledger []) = Inr (l', res, logs, ch)" and bound: "lg_policy l' \<noteq> JNull"
    using sample_first_add by blast
  have "clocked 0 ?env (hours 1)" "fresh_for ?env (sample_ledger [])"
    by (simp_all add: clocked_def fresh_for_def hours_def seconds_def us_per_second_def)
  with add have w: "write_step plain_digest (sample_ledger [], 0) (l', hours 1)"
    by (intro write_step.add [OF _ sample_config_ok])
  define s where "s = ?s0\<lparr>sy_ledger := l', sy_clock := hours 1, sy_idents := sy_idents ?s0 \<union> ids_of l'\<rparr>"
  have "system_step plain_digest ?s0 s"
    unfolding s_def by (rule system_step.client) (use w in \<open>simp_all add: idle_system_def ids_of_def\<close>)
  then have run: "(system_step plain_digest)\<^sup>*\<^sup>* ?s0 s" by blast
  have s: "sy_ledger s = l'" "sy_clock s = hours 1" by (simp_all add: s_def)
  have "validate_ledger_policy (sy_ledger s) sample_config = Inr ()" unfolding s by (rule add_booking_validated [OF add])
  from no_gpu_oversold [OF run _ _ sample_config_ok this] have
    "gpu_safe (max_shared_users sample_config) (holders (lg_reservations (sy_ledger s)) 0 (hours 1))"
    by (simp add: sample_ledger_def s)
  with run bound s show ?thesis by blast
qed


section \<open>Single writes\<close>

text \<open>
  C12: a create keeps the ledger well formed (distinct identifiers, aligned positive intervals,
  known modes, GPUs in range) and keeps the promise on every GPU at every instant.
\<close>

theorem add_booking_safe:
  assumes "add_booking sha256 env c request l = Inr (l', res, logs, ch)" and "config_ok c"
    and "ledger_wf c (lg_reservations l)" and "fresh_for env l" and "oe_now env \<le> sc_now (oe_search env)"
    and "ledger_safe (max_shared_users c) (sc_now (oe_search env)) (lg_reservations l)"
  shows "ledger_wf c (lg_reservations l') \<and> ledger_safe (max_shared_users c) (sc_now (oe_search env)) (lg_reservations l')"
  using add_booking_keeps [OF assms(1-5)] assms(6) by blast

theorem add_booking_safe_witness:
  "\<exists>l' res logs ch. add_booking plain_digest (sample_env (hours 1) ''r2'') sample_config (sample_request (hours 1))
      sample_history = Inr (l', res, logs, ch)
    \<and> ledger_wf sample_config (lg_reservations l')
    \<and> ledger_safe (max_shared_users sample_config) (hours 1) (lg_reservations l')"
proof -
  obtain l' res logs ch where add: "add_booking plain_digest (sample_env (hours 1) ''r2'') sample_config
      (sample_request (hours 1)) sample_history = Inr (l', res, logs, ch)"
    using sample_add_created by blast
  from add_booking_safe [OF this sample_config_ok sample_history_wf sample_fresh] sample_history_safe add
  show ?thesis by auto
qed

text \<open>
  C13: an edit, of a future reservation or of a started one, keeps the ledger well formed and keeps
  the promise on every GPU at every instant.
\<close>

theorem edit_booking_safe:
  assumes "edit_booking sha256 env c request l = Inr (l', res, logs, ch)" and "config_ok c"
    and "ledger_wf c (lg_reservations l)" and "oe_now env \<le> sc_now (oe_search env)"
    and "ledger_safe (max_shared_users c) (sc_now (oe_search env)) (lg_reservations l)"
  shows "ledger_wf c (lg_reservations l') \<and> ledger_safe (max_shared_users c) (sc_now (oe_search env)) (lg_reservations l')"
  using edit_booking_keeps [OF assms(1-4)] assms(5) by blast

theorem edit_booking_safe_witness:
  "\<exists>l' res logs ch. edit_booking plain_digest (sample_env (hours 1) ''r2'') sample_config (sample_edit ''r1'' 10800)
      sample_history = Inr (l', res, logs, ch)
    \<and> ledger_wf sample_config (lg_reservations l')
    \<and> ledger_safe (max_shared_users sample_config) (hours 1) (lg_reservations l')"
proof -
  obtain l' res logs ch where edit: "edit_booking plain_digest (sample_env (hours 1) ''r2'') sample_config
      (sample_edit ''r1'' 10800) sample_history = Inr (l', res, logs, ch)"
    using sample_edit_created by blast
  from edit_booking_safe [OF this sample_config_ok sample_history_wf] sample_history_safe edit
  show ?thesis by auto
qed

text \<open>
  C18: a cancellation by the owner touches one reservation: it belongs to the actor, was active,
  and becomes cancelled with the cancellation on record; every other reservation is as expiry leaves
  it, in the same order; one audit event is written. A repeated operation changes nothing but expiry.
\<close>

theorem cancel_booking_effect:
  assumes "cancel_booking sha256 env ident actor operation_id l = Inr (l', r', logs, ch)"
    and "distinct (map rs_id (lg_reservations l))"
  shows "lg_reservations l' = map (expire_reservation (oe_now env)) (lg_reservations l) \<and> logs = []
    \<or> (\<exists>xs r ys. map (expire_reservation (oe_now env)) (lg_reservations l) = xs @ r # ys
        \<and> lg_reservations l' = xs @ r' # ys \<and> rs_id r = ident \<and> rs_uid r = actor_uid actor
        \<and> rs_status r = STATUS_ACTIVE \<and> oe_now env < rs_end_at r
        \<and> rs_status r' = STATUS_CANCELLED \<and> reservation_edit_state r' = reservation_edit_state r
        \<and> (\<exists>operation. rs_cancel_operation r' = Some operation \<and> co_actor_uid operation = actor_uid actor)
        \<and> (\<exists>item. logs = [item] \<and> li_reservation_id item = ident \<and> li_action item = ''cancel''))"
  using assms(1)
proof (rule cancel_booking_Inr, goal_cases)
  case (1 op)
  let ?l = "fst (expire_old_reservations l (oe_now env))"
  have l: "lg_reservations ?l = map (expire_reservation (oe_now env)) (lg_reservations l)"
    by (simp add: expire_old_reservations_def)
  from 1(2) show ?case
  proof
    assume "cancel_owned env actor op (cancel_signature sha256 ident) ident ?l = Inr (l', r', logs, ch)"
    then show ?thesis
    proof (rule cancel_owned_Inr, goal_cases)
      case (1 r)
      have "distinct (map rs_id (lg_reservations ?l))" using assms(2) by (simp add: l comp_def)
      from find_reservation_split [OF 1(1) this] obtain xs ys where
        s: "lg_reservations ?l = xs @ r # ys" "rs_id r = ident"
          "replace_reservation ident r' (lg_reservations ?l) = xs @ r' # ys" by metis
      have "oe_now env < rs_end_at r" by (rule expire_old_live [of r l]) (use s(1) 1(2) in simp_all)
      moreover have "reservation_edit_state r' = reservation_edit_state r"
        unfolding 1(4) by (simp add: reservation_edit_state_def cancelled_reservation_def)
      moreover have "\<exists>operation. rs_cancel_operation r' = Some operation \<and> co_actor_uid operation = actor_uid actor"
        unfolding 1(4) by (simp add: owner_cancellation_def)
      moreover have "\<exists>item. logs = [item] \<and> li_reservation_id item = ident \<and> li_action item = ''cancel''"
        unfolding 1(6) 1(4) using s(2) by (simp add: make_log_item_def)
      moreover have "rs_status r' = STATUS_CANCELLED" unfolding 1(4) by simp
      ultimately show ?case using s 1 l by auto
    qed
  qed (auto simp: l)
qed

theorem cancel_booking_effect_witness:
  "\<exists>l' r' logs ch. cancel_booking plain_digest (sample_env (hours 1) ''r2'') ''r1'' sample_actor (Some ''op-3'')
      sample_history = Inr (l', r', logs, ch) \<and> lg_reservations l' = [r'] \<and> rs_status r' = STATUS_CANCELLED"
proof -
  let ?w = "cancel_booking plain_digest (sample_env (hours 1) ''r2'') ''r1'' sample_actor (Some ''op-3'') sample_history"
  obtain l' r' logs ch where run: "?w = Inr (l', r', logs, ch)"
    using sample_cancel_runs by (cases ?w) auto
  have "(case ?w of Inr (_, _, logs, _) \<Rightarrow> logs \<noteq> [] | _ \<Rightarrow> False)" by code_simp
  then have "logs \<noteq> []" by (simp add: run)
  moreover have "length (map (expire_reservation (hours 1)) (lg_reservations sample_history)) = 1"
    by (simp add: sample_history_def)
  ultimately show ?thesis
    using cancel_booking_effect [OF run] run by (auto simp: sample_history_def Cons_eq_append_conv)
qed

text \<open>
  C19: an administrative cancellation that succeeds was requested by root with a reason of 1 to 512
  characters and no control characters; it cancels the one active reservation it names, whoever owns
  it, tells the owner (the newest notification carries the reason and the administrator, the history
  stays within 128), and audits the event under the owner with the administrator as actor. Every
  other reservation is as maintenance leaves it.
\<close>

theorem admin_cancel_effect:
  assumes "cancel_booking_as_admin sha256 env c ident actor raw l0 = Inr (l', r', logs, ch)"
    and "distinct (map rs_id (lg_reservations l0))"
  shows "actor_uid actor = 0 \<and> (\<exists>l1 b reason xs r ys. bind_ledger_policy l0 c = Inr (l1, b)
    \<and> 1 \<le> length reason \<and> length reason \<le> 512 \<and> \<not> has_control reason
    \<and> lg_reservations (fst (maintain_ledger l1 (oe_now env) (ledger_retention_days c))) = xs @ r # ys
    \<and> lg_reservations l' = xs @ r' # ys \<and> rs_id r = ident \<and> rs_status r = STATUS_ACTIVE
    \<and> rs_uid r' = rs_uid r \<and> rs_status r' = STATUS_CANCELLED
    \<and> (\<exists>old new. rs_notifications r' = Present (old @ [new]) \<and> length (old @ [new]) \<le> MAX_NOTIFICATIONS_PER_RESERVATION
        \<and> nt_reason new = reason \<and> nt_actor_uid new = 0)
    \<and> (\<exists>item. logs = [item] \<and> li_uid item = rs_uid r \<and> li_actor item = Some actor \<and> li_message item = reason))"
  using assms(1)
proof (rule cancel_as_admin_Inr, goal_cases)
  case (1 reason l1 b l r notifications)
  have reason: "1 \<le> length reason" "length reason \<le> 512" "\<not> has_control reason"
    using 1(2) by (auto simp: admin_cancellation_reason_def Let_def Suc_le_eq)
  have "lg_reservations l1 = lg_reservations l0" by (rule bind_ledger_policy_reservations [OF 1(3)])
  then have "distinct (map rs_id (lg_reservations l))"
    using assms(2) by (simp add: 1(4) maintain_reservations expire_old_reservations_def distinct_map_filter comp_def)
  from find_reservation_split [OF 1(5) this] obtain xs ys where
    s: "lg_reservations l = xs @ r # ys" "rs_id r = ident" "replace_reservation ident r' (lg_reservations l) = xs @ r' # ys"
    by metis
  have note': "length (last_n 127 notifications @ [admin_notification env actor reason r]) \<le> MAX_NOTIFICATIONS_PER_RESERVATION"
    "nt_reason (admin_notification env actor reason r) = reason" "nt_actor_uid (admin_notification env actor reason r) = 0"
    using 1(1) by (simp_all add: last_n_def MAX_NOTIFICATIONS_PER_RESERVATION_def admin_notification_def)
  have split: "lg_reservations (fst (maintain_ledger l1 (oe_now env) (ledger_retention_days c))) = xs @ r # ys"
    "lg_reservations l' = xs @ r' # ys" using s 1(4,16) by simp_all
  from 1(17) obtain item where
    item: "logs = [item]" "li_uid item = rs_uid r" "li_actor item = Some actor" "li_message item = reason" by blast
  show ?case
    by (intro conjI exI) (rule 1 reason split s(2) note' item)+
qed

theorem admin_cancel_effect_witness:
  "\<exists>l' r' logs ch. cancel_booking_as_admin plain_digest (sample_env (hours 1) ''r2'') sample_config ''r1'' sample_admin
      ''maintenance'' sample_history = Inr (l', r', logs, ch) \<and> actor_uid sample_admin = 0 \<and> rs_status r' = STATUS_CANCELLED"
proof -
  let ?w = "cancel_booking_as_admin plain_digest (sample_env (hours 1) ''r2'') sample_config ''r1'' sample_admin
    ''maintenance'' sample_history"
  obtain l' r' logs ch where run: "?w = Inr (l', r', logs, ch)" using sample_admin_runs by (cases ?w) auto
  from admin_cancel_effect [OF this] run show ?thesis by (auto simp: sample_history_def)
qed

text \<open>
  Who may write. Without root an administrative cancellation raises before anything is read;
  a cancellation or an edit of an active reservation by anyone but its owner raises a permission
  error, so the transaction commits nothing.
\<close>

theorem others_are_refused:
  "(actor_uid actor \<noteq> 0 \<longrightarrow> cancel_booking_as_admin sha256 env c ident actor raw l = Inl AdminRequired)
   \<and> (find_reservation l ident = Some r \<and> rs_status r = STATUS_ACTIVE \<and> rs_uid r \<noteq> actor_uid actor \<longrightarrow>
      cancel_owned env actor op signature ident l = Inl PermissionDenied)
   \<and> (find_reservation l (er_reservation_id request) = Some r \<and> rs_status r = STATUS_ACTIVE
      \<and> rs_uid r \<noteq> actor_uid (er_actor request) \<longrightarrow> edit_owned env c request op signature l = Inl PermissionDenied)"
  by (simp add: cancel_booking_as_admin_def cancel_owned_def edit_owned_def)

theorem others_are_refused_witness:
  "cancel_booking_as_admin plain_digest (sample_env (hours 1) ''r2'') sample_config ''r1'' sample_actor ''x'' sample_history
     = Inl AdminRequired
   \<and> cancel_owned (sample_env (hours 1) ''r2'') sample_admin None ''s'' ''r1'' sample_history = Inl PermissionDenied"
  using others_are_refused [of sample_actor plain_digest "sample_env (hours 1) ''r2''" sample_config "''r1''" "''x''" sample_history]
    others_are_refused [of sample_admin plain_digest "sample_env (hours 1) ''r2''" sample_config "''r1''" "''x''" sample_history
      "sample_reservation ''r1'' MODE_SHARED [0] 0 (hours 2)" None "''s''"]
  by (simp add: sample_actor_def sample_admin_def sample_history_def find_reservation_def sample_reservation_def)

text \<open>
  C15: what a created reservation looks like. It is the only change besides maintenance, appended
  last; it holds the number of distinct GPUs asked for, none of them disabled or excluded, exactly the
  preferred ones when the request names them; it starts and ends on slot boundaries, lasts exactly the
  duration asked for, starts where asked unless the request may queue, and breaks no time policy at the
  instant of the search.
\<close>

theorem add_booking_effect:
  assumes add: "add_booking sha256 env c request l0 = Inr (l', res, logs, ch)" and created: "bres_created res"
    and c: "config_ok c"
  shows "\<exists>l1 b. bind_ledger_policy l0 c = Inr (l1, b) \<and> (let r = bres_reservation res in
    lg_reservations l' = lg_reservations (fst (maintain_ledger l1 (oe_now env) (ledger_retention_days c))) @ [r]
    \<and> rs_uid r = actor_uid (br_actor request) \<and> rs_status r = STATUS_ACTIVE \<and> rs_mode r = br_mode request
    \<and> int (length (rs_gpus r)) = br_count request \<and> distinct (rs_gpus r)
    \<and> set (rs_gpus r) \<inter> set (disabled_gpus c) = {}
    \<and> set (rs_gpus r) \<inter> (case br_excluded_gpus request of None \<Rightarrow> {} | Some gpus \<Rightarrow> set gpus) = {}
    \<and> (case br_preferred_gpus request of Some gpus \<Rightarrow> rs_gpus r = sorted_set gpus
         | None \<Rightarrow> set (rs_gpus r) \<subseteq> set (enabled_gpus c))
    \<and> rs_end_at r = rs_start_at r + seconds (br_duration_seconds request)
    \<and> is_slot_aligned (rs_start_at r) (slot_minutes c) \<and> is_slot_aligned (rs_end_at r) (slot_minutes c)
    \<and> (\<not> br_allow_queue request \<longrightarrow> rs_start_at r = whole_second (br_start_at request))
    \<and> booking_policy_conflict c (rs_start_at r) (rs_end_at r) (sc_now (oe_search env)) = None
    \<and> (\<exists>item. logs = [item] \<and> li_action item = ''add'' \<and> li_reservation_id item = rs_id r))"
  using add
proof (rule add_booking_Inr, goal_cases)
  case (1 ci l1 b l start excluded ord scores signature)
  let ?pref = "normalize_preferred_gpus (br_preferred_gpus request)"
  let ?r = "bres_reservation res"
  from 1(7) created have placed: "place_booking env c request ci signature l start ?pref excluded ord scores = Inr (l', res, logs, ch)"
    by blast
  from placed show ?case
  proof (rule place_booking_Inr, goal_cases)
    case (1 s gpus)
    note slot = 1(1) and res = 1(2)
    note ci = \<open>create_intent_of c request = Inr ci\<close> and m = config_ok_slot_pos [OF c]
    have start: "is_slot_aligned start (slot_minutes c)"
      by (rule normalize_start_aligned [OF \<open>normalize_start _ _ _ _ = Inr start\<close> m])
    note pr = placed_reservation [OF slot ci c start \<open>validate_gpu_scope _ _ _ _ = Inr ()\<close> normalize_preferred_distinct res]
    note cnt = create_intent_Inr(2) [OF ci]
    note g = earliest_slot_gpus [OF slot cnt]
    have fields: "rs_uid ?r = actor_uid (br_actor request)" "rs_status ?r = STATUS_ACTIVE" "rs_mode ?r = br_mode request" "rs_gpus ?r = gpus"
      by (simp_all add: res new_reservation_def)
    have wf: "distinct (rs_gpus ?r)" "is_slot_aligned (rs_start_at ?r) (slot_minutes c)" "is_slot_aligned (rs_end_at ?r) (slot_minutes c)"
      using pr(1) by (simp_all add: reservation_wf_def span_ok_def)
    have pref: "case br_preferred_gpus request of Some gpus \<Rightarrow> rs_gpus ?r = sorted_set gpus
        | None \<Rightarrow> set (rs_gpus ?r) \<subseteq> set (enabled_gpus c)"
      using g(5) fields(4) by (cases "br_preferred_gpus request") (simp_all add: normalize_preferred_gpus_def)
    have excl: "set gpus \<inter> (case br_excluded_gpus request of None \<Rightarrow> {} | Some gpus \<Rightarrow> set gpus) = {}"
      using gpus_at_start_sound(1) [OF conjunct1 [OF earliest_slot_placed [OF slot]] g(1)]
        normalize_excluded_set [OF \<open>normalize_excluded_gpus _ _ = Inr excluded\<close>] by auto
    have exact: "start = whole_second (br_start_at request)" if "\<not> br_allow_queue request"
      using that \<open>normalize_start _ _ _ _ = Inr start\<close> by (auto simp: normalize_start_def Let_def res_bind_eq_Inr)
    have conflict: "booking_policy_conflict c (rs_start_at ?r) (rs_end_at ?r) (sc_now (oe_search env)) = None"
      using earliest_slot_placed [OF slot] pr(2,3) by simp
    have log: "\<exists>item. logs = [item] \<and> li_action item = ''add'' \<and> li_reservation_id item = rs_id ?r"
      using 1(9) by (simp add: make_log_item_def)
    have "lg_reservations l' = lg_reservations (fst (maintain_ledger l1 (oe_now env) (ledger_retention_days c))) @ [?r]"
      using 1(6) \<open>l = fst _\<close> by simp
    with \<open>bind_ledger_policy l0 c = Inr (l1, b)\<close> fields g(2,4) wf pref excl pr(2,3) exact 1(5) conflict log
    show ?case by (intro exI [of _ l1] exI [of _ b]) (auto simp: Let_def)
  qed
qed

theorem add_booking_effect_witness:
  "\<exists>l' res logs ch. add_booking plain_digest (sample_env (hours 1) ''r2'') sample_config (sample_request (hours 1))
      sample_history = Inr (l', res, logs, ch) \<and> bres_created res
    \<and> length (rs_gpus (bres_reservation res)) = 1 \<and> is_slot_aligned (rs_start_at (bres_reservation res)) 5"
proof -
  obtain l' res logs ch where add: "add_booking plain_digest (sample_env (hours 1) ''r2'') sample_config
      (sample_request (hours 1)) sample_history = Inr (l', res, logs, ch)" "bres_created res"
    using sample_add_created by blast
  from add_booking_effect [OF this sample_config_ok] add show ?thesis
    by (auto simp: Let_def sample_request_def sample_config_def)
qed

text \<open>
  a started reservation is immutable but for its end. An accepted edit of a reservation that has
  started leaves its GPUs, mode, start, memory and slots alone, ends it after the current instant,
  and records the state before and after in its history, which stays within its limit.
\<close>

theorem edit_started_effect:
  assumes "edit_started_reservation env c request op signature capacities l r = Inr (l', res, logs, ch)"
    and "config_ok c" and "ledger_wf c (lg_reservations l)" and "r \<in> set (lg_reservations l)"
  shows "let r' = bres_reservation res in
    reservation_edit_state r' = (reservation_edit_state r)\<lparr>es_end_at := rs_end_at r'\<rparr> \<and> oe_now env < rs_end_at r'
    \<and> is_slot_aligned (rs_end_at r') (slot_minutes c) \<and> rs_status r' = rs_status r \<and> rs_job r' = rs_job r
    \<and> (\<exists>h e. edit_history r = Inr h \<and> edit_history r' = Inr (h @ [e])
        \<and> length (h @ [e]) \<le> MAX_EDIT_OPERATIONS_PER_RESERVATION
        \<and> eo_before e = reservation_edit_state r \<and> eo_after e = reservation_edit_state r')"
  using assms(1)
proof (rule edit_started_Inr, goal_cases)
  case (1 n new_end)
  note m = config_ok_slot_pos [OF assms(2)]
  have "is_slot_aligned (rs_start_at r) (slot_minutes c)"
    using ledger_wf_member [OF assms(3,4)] by (simp add: reservation_wf_def)
  then have al: "is_slot_aligned new_end (slot_minutes c)"
    unfolding 1(5) by (rule aligned_add [OF m _ granularity_dvd [OF 1(4)]])
  from 1(9) show ?case
  proof (rule commit_edit_Inr, goal_cases)
    case (1 r')
    then show ?case
      using al \<open>oe_now env < new_end\<close>
      by (auto simp: Let_def reservation_edit_state_def whole_second_aligned [OF m al] edit_history_def Suc_le_eq)
  qed
qed

theorem edit_started_effect_witness:
  "\<exists>l' res logs ch. edit_started_reservation (sample_env (hours 1) ''r2'') sample_config (sample_edit ''r1'' 10800)
      (Some ''op-2'') ''s'' Map.empty sample_bound (sample_reservation ''r1'' MODE_SHARED [0] 0 (hours 2)) = Inr (l', res, logs, ch)
    \<and> rs_gpus (bres_reservation res) = [0] \<and> hours 1 < rs_end_at (bres_reservation res)"
proof -
  let ?r = "sample_reservation ''r1'' MODE_SHARED [0] 0 (hours 2)"
  obtain l' res logs ch where edit: "edit_started_reservation (sample_env (hours 1) ''r2'') sample_config
      (sample_edit ''r1'' 10800) (Some ''op-2'') ''s'' Map.empty sample_bound ?r = Inr (l', res, logs, ch)"
    using sample_edit_started by blast
  have l: "lg_reservations sample_bound = lg_reservations sample_history" by (simp add: sample_bound_def bound_ledger_def)
  have "ledger_wf sample_config (lg_reservations sample_bound)" unfolding l by (rule sample_history_wf)
  moreover have "?r \<in> set (lg_reservations sample_bound)" by (simp add: l sample_history_def)
  ultimately show ?thesis
    using edit_started_effect [OF edit sample_config_ok] edit
    by (auto simp: Let_def reservation_edit_state_def sample_reservation_def)
qed


section \<open>Repeated requests\<close>

text \<open>
  C17: a create is idempotent. When a request with an operation identifier has created a reservation,
  sending the same request again, at any later time before retention drops the reservation, creates
  nothing: it returns the reservation already made, writes no audit event, and leaves the ledger as
  maintenance leaves it.
\<close>

theorem create_replayed:
  assumes "add_booking sha256 env c request l0 = Inr (l1, res, logs, ch)" and "bres_created res"
    and "br_op_id request \<noteq> None" and "oe_now env \<le> oe_now env'"
    and "ledger_retention_days c \<le> 0
      \<or> oe_now env' - days (ledger_retention_days c) < rs_end_at (bres_reservation res)"
  shows "\<exists>res' ch'. add_booking sha256 env' c request l1 =
      Inr (fst (maintain_ledger l1 (oe_now env') (ledger_retention_days c)), res', [], ch')
    \<and> \<not> bres_created res' \<and> bres_message res' = ''operation already applied''
    \<and> bres_reservation res' = expire_reservation (oe_now env') (bres_reservation res)"
  using assms by (rule add_booking_again)

theorem create_replayed_witness:
  "\<exists>l1 res logs ch l2 res' ch'. add_booking plain_digest (sample_env (hours 1) ''r2'') sample_config (sample_request (hours 1))
      sample_history = Inr (l1, res, logs, ch)
    \<and> add_booking plain_digest (sample_env (hours 5) ''r3'') sample_config (sample_request (hours 1)) l1 = Inr (l2, res', [], ch')
    \<and> \<not> bres_created res' \<and> bres_reservation res' = expire_reservation (hours 5) (bres_reservation res)"
proof -
  obtain l' res logs ch where add: "add_booking plain_digest (sample_env (hours 1) ''r2'') sample_config
      (sample_request (hours 1)) sample_history = Inr (l', res, logs, ch)" "bres_created res"
      "rs_end_at (bres_reservation res) = hours 2"
    using sample_add_created by blast
  have "hours 1 \<le> hours 5" "hours 5 - days (ledger_retention_days sample_config) < hours 2" by code_simp+
  then show ?thesis
    using create_replayed [OF add(1,2), of "sample_env (hours 5) ''r3''"] add by (auto simp: sample_request_def)
qed

text \<open>
  C39: an applied edit is not applied again. Repeat an edit that was applied under an operation identifier, at any later or
  earlier reading of the clock, on the ledger it left, before retention removes the reservation: the repetition succeeds, reports the reservation of the
  first edit (expired if its end has passed) as not newly made, writes no audit event, and leaves the ledger as maintenance alone
  would.
\<close>

theorem edit_replayed:
  assumes "edit_booking sha256 env c request l0 = Inr (l1, res, logs, ch)" and "bres_created res"
    and "er_op_id request = Some op" and "distinct (map rs_id (lg_reservations l0))"
    and "ledger_retention_days c \<le> 0
      \<or> oe_now env' - days (ledger_retention_days c) < rs_end_at (bres_reservation res)"
  shows "\<exists>res' ch'. edit_booking sha256 env' c request l1 =
      Inr (fst (maintain_ledger l1 (oe_now env') (ledger_retention_days c)), res', [], ch')
    \<and> \<not> bres_created res' \<and> bres_reservation res' = expire_reservation (oe_now env') (bres_reservation res)"
  using assms by (rule edit_booking_again)

theorem edit_replayed_witness:
  "\<exists>l1 res logs ch l2 res' ch'. edit_booking plain_digest (sample_env (hours 1) ''r2'') sample_config (sample_edit ''r1'' 10800)
      sample_history = Inr (l1, res, logs, ch)
    \<and> edit_booking plain_digest (sample_env (hours 5) ''r3'') sample_config (sample_edit ''r1'' 10800) l1 = Inr (l2, res', [], ch')
    \<and> \<not> bres_created res' \<and> bres_reservation res' = expire_reservation (hours 5) (bres_reservation res)"
proof -
  obtain l' res logs ch where edit: "edit_booking plain_digest (sample_env (hours 1) ''r2'') sample_config
      (sample_edit ''r1'' 10800) sample_history = Inr (l', res, logs, ch)" "bres_created res"
      "rs_end_at (bres_reservation res) = hours 3"
    using sample_edit_created by blast
  have "hours 5 - days (ledger_retention_days sample_config) < hours 3" by code_simp
  then show ?thesis
    using edit_replayed [OF edit(1,2), of "''op-2''" "sample_env (hours 5) ''r3''"] edit
    by (auto simp: sample_edit_def sample_history_def)
qed

text \<open>
  A cancellation is idempotent: repeating it under the same operation identifier returns the
  reservation the first one cancelled and writes no further audit event.
\<close>

theorem cancel_replayed:
  assumes "cancel_booking sha256 env ident actor (Some op) l0 = Inr (l1, r1, logs, ch)"
    and "logs \<noteq> []" and "distinct (map rs_id (lg_reservations l0))"
  shows "\<exists>ch'. cancel_booking sha256 env' ident actor (Some op) l1 =
    Inr (fst (expire_old_reservations l1 (oe_now env')), r1, [], ch')"
  using assms by (rule cancel_booking_again)

theorem cancel_replayed_witness:
  "\<exists>l1 r1 logs ch l2 ch'. cancel_booking plain_digest (sample_env (hours 1) ''r2'') ''r1'' sample_actor (Some ''op-3'')
      sample_history = Inr (l1, r1, logs, ch)
    \<and> cancel_booking plain_digest (sample_env (hours 5) ''r3'') ''r1'' sample_actor (Some ''op-3'') l1 = Inr (l2, r1, [], ch')"
proof -
  let ?w = "cancel_booking plain_digest (sample_env (hours 1) ''r2'') ''r1'' sample_actor (Some ''op-3'') sample_history"
  obtain l' r' logs ch where run: "?w = Inr (l', r', logs, ch)" using sample_cancel_runs by (cases ?w) auto
  have "(case ?w of Inr (_, _, logs, _) \<Rightarrow> logs \<noteq> [] | _ \<Rightarrow> False)" by code_simp
  then have "logs \<noteq> []" by (simp add: run)
  then show ?thesis
    using cancel_replayed [OF run, of "sample_env (hours 5) ''r3''"] run by (auto simp: sample_history_def)
qed


section \<open>The journalled store\<close>

text \<open>
  C2: a transaction is atomic under failures. Run any mutator on a store whose journal is empty,
  and let any of the writes of the transaction fail, before or after it took effect, the append to
  the audit log with or without its rollback, leaving any prefix of the batch and a torn line. If
  the transaction reports an error nothing on disk has changed. If it reports success, the
  next recovery leaves no journal, the new ledger (when it changed) stamped with the transaction, and
  the old audit log followed by every event of the transaction exactly once.
\<close>

theorem transaction_atomic:
  assumes disk: "dk_journal dk = None" "load_unlocked (st_modes st) dk = Inr cur"
    and mutated: "mutator cur = Inr (new, result, logs, changed)" "changed \<or> logs \<noteq> []"
    and events: "events = map JObj (prepare_logs (te_id te) (te_events te) logs)"
    and fresh: "\<not> py_eq (jget (document cur) ''last_transaction_id'') (JStr (te_id te))"
      "set (List.map_filter event_id_of events) \<inter> set (List.map_filter event_id_of (rev (reversed_lines dk))) = {}"
    and torn: "torn_ok (line_bytes (st_encode st)) events (ft_append ft)"
    and run: "transaction st ft te mutator dk = (dk', r)"
  shows "case r of
      Inl _ \<Rightarrow> dk' = dk
    | Inr res \<Rightarrow> res = result \<and> (\<exists>dk2. recover_journal st no_faults stamp dk' = (dk2, None)
        \<and> dk_journal dk2 = None
        \<and> (changed \<longrightarrow> dk_ledger dk2 = Some (Document (JObj (jset (document new) ''last_transaction_id'' (JStr (te_id te))))))
        \<and> rev (reversed_lines dk2) = rev (reversed_lines dk) @ events)"
proof -
  let ?j = "make_journal (te_id te) (stamp_transaction changed (te_id te) new)
    (prepare_logs (te_id te) (te_events te) logs) (te_created_at te)"
  have j: "journal_id ?j = JStr (te_id te)" "journal_logs ?j = events"
    "journal_ledger ?j = (if changed then JObj (jset (document new) ''last_transaction_id'' (JStr (te_id te))) else JNull)"
    by (simp_all add: make_journal_def journal_id_def journal_logs_def journal_ledger_def stamp_transaction_def jget_def events)
  have commit: "commit st ft te ?j dk result = (dk', r)"
    using run disk mutated by (auto simp: transaction_def recover_journal_def)
  have "\<not> py_eq (jget (document cur) ''last_transaction_id'') (journal_id ?j)" using fresh(1) j(1) by simp
  from commit_atomic [OF disk(2) refl this _ _ commit, of stamp] fresh(2) torn j show ?thesis
    by (auto simp: done_with_def split: sum.splits)
qed

definition sample_store :: store where
  "sample_store = \<lparr>st_encode = (\<lambda>_. Some ''line''), st_modes = (''0600'', ''0700''), st_backup_keep = 3\<rparr>"

definition sample_disk :: disk where
  "sample_disk = \<lparr>dk_ledger = None, dk_journal = None, dk_log = [], dk_tail = Clean, dk_backups = []\<rparr>"

definition sample_tx :: tx_env where
  "sample_tx = \<lparr>te_id = ''t1'', te_events = [''e1'', ''e2''], te_recovery_stamp = ''b0'', te_stamp = ''b1'', te_created_at = ''c''\<rparr>"

definition sample_mutator :: "json \<Rightarrow> (booking_error, json \<times> nat \<times> jobject list \<times> bool) result" where
  "sample_mutator l = Inr (l, 7, [[(''action'', JStr ''add'')], [(''action'', JStr ''edit'')]], True)"

text \<open>The append tears inside the second event.\<close>

definition sample_faults :: faults where
  "sample_faults = no_faults\<lparr>ft_append := AppendTorn 1 (Fragment 2)\<rparr>"

theorem transaction_atomic_witness:
  "\<exists>dk' dk2. transaction sample_store sample_faults sample_tx sample_mutator sample_disk = (dk', Inr 7)
    \<and> dk_tail dk' = Fragment 2
    \<and> recover_journal sample_store no_faults ''b2'' dk' = (dk2, None) \<and> length (rev (reversed_lines dk2)) = 2"
proof -
  let ?t = "transaction sample_store sample_faults sample_tx sample_mutator sample_disk"
  let ?events = "map JObj (prepare_logs (te_id sample_tx) (te_events sample_tx) [[(''action'', JStr ''add'')], [(''action'', JStr ''edit'')]])"
  have t: "?t = (fst ?t, Inr 7)" "dk_tail (fst ?t) = Fragment 2" by code_simp+
  have mutated: "sample_mutator empty_ledger = Inr (empty_ledger, 7, [[(''action'', JStr ''add'')], [(''action'', JStr ''edit'')]], True)"
    by (simp add: sample_mutator_def)
  have "dk_journal sample_disk = None" "load_unlocked (st_modes sample_store) sample_disk = Inr empty_ledger"
    "\<not> py_eq (jget (document empty_ledger) ''last_transaction_id'') (JStr (te_id sample_tx))"
    "set (List.map_filter event_id_of ?events) \<inter> set (List.map_filter event_id_of (rev (reversed_lines sample_disk))) = {}"
    "torn_ok (line_bytes (st_encode sample_store)) ?events (ft_append sample_faults)"
    by code_simp+
  from transaction_atomic [OF this(1,2) mutated _ refl this(3-5) t(1), of "''b2''"]
  obtain dk2 where dk2: "recover_journal sample_store no_faults ''b2'' (fst ?t) = (dk2, None)"
    "rev (reversed_lines dk2) = rev (reversed_lines sample_disk) @ ?events" by auto
  have "length (rev (reversed_lines sample_disk) @ ?events) = 2" by code_simp
  with dk2 have "length (rev (reversed_lines dk2)) = 2" by simp
  with t dk2(1) show ?thesis by blast
qed

text \<open>
  A mutator that raises, or that reports no change and no event, leaves the disk as it was, and
  its error or result is passed on.
\<close>

theorem transaction_without_effect:
  assumes "dk_journal dk = None" and "load_unlocked (st_modes st) dk = Inr cur"
  shows "(mutator cur = Inl e \<longrightarrow> transaction st ft te mutator dk = (dk, Inl (Mutator e)))
    \<and> (mutator cur = Inr (new, result, [], False) \<longrightarrow> transaction st ft te mutator dk = (dk, Inr result))"
  using assms by (simp add: transaction_def recover_journal_def)

theorem transaction_without_effect_witness:
  "transaction sample_store sample_faults sample_tx (\<lambda>_. Inl ReservationNotFound :: (_, json \<times> nat \<times> jobject list \<times> bool) result) sample_disk
     = (sample_disk, Inl (Mutator ReservationNotFound))"
  using transaction_without_effect [of sample_disk sample_store empty_ledger
      "\<lambda>_. Inl ReservationNotFound :: (_, json \<times> nat \<times> jobject list \<times> bool) result" ReservationNotFound sample_faults sample_tx]
  by (simp add: sample_disk_def load_unlocked_def)

text \<open>
  C38: backups. With at least one backup to keep and stamps that grow, a commit's backup is the
  newest, the directory stays within its limit, and a ledger file that can no longer be read is
  replaced by that backup.
\<close>

theorem backup_restores:
  assumes "0 < st_backup_keep st" and "\<And>n f. (n, f) \<in> set (dk_backups dk) \<Longrightarrow> n < stamp"
    and "validate_ledger_document v = Inr ()" and "validate_storage_modes (st_modes st) v = Inr ()"
    and "dk_ledger dk' = Some Unreadable" and "dk_backups dk' = dk_backups (write_backup st WriteOk stamp v dk)"
  shows "load_unlocked (st_modes st) dk' = Inr v \<and> length (dk_backups dk') \<le> st_backup_keep st"
  using lost_ledger_restored [OF assms] write_backup_newest(2) [OF assms(1,2)] assms(6) by simp

theorem backup_restores_witness:
  "\<exists>dk'. dk_ledger dk' = Some Unreadable \<and> load_unlocked (st_modes sample_store) dk' = Inr empty_ledger
    \<and> length (dk_backups dk') \<le> 3"
proof -
  let ?dk = "write_backup sample_store WriteOk ''b1'' empty_ledger sample_disk"
  have "0 < st_backup_keep sample_store" "validate_ledger_document empty_ledger = Inr ()"
    "validate_storage_modes (st_modes sample_store) empty_ledger = Inr ()" "st_backup_keep sample_store = 3" by code_simp+
  then show ?thesis
    using backup_restores [of sample_store sample_disk "''b1''" empty_ledger "?dk\<lparr>dk_ledger := Some Unreadable\<rparr>"]
    by (intro exI [of _ "?dk\<lparr>dk_ledger := Some Unreadable\<rparr>"]) (simp add: sample_disk_def)
qed

text \<open>
  A ledger whose only reservation has a list or an object as its mode. The membership test raises \<^verbatim>\<open>TypeError\<close>, which
  loading does not catch, so a valid backup is not used. Stated for a document of a version and one
  reservation with an acceptable identifier, the user 0 and no user name.
\<close>

lemma unhashable_mode_not_restored:
  assumes "v = JArr xs \<or> v = JObj d"
    and "jget res ''id'' = JStr ident" "ident \<noteq> []" "length ident \<le> MAX_RESERVATION_ID_LENGTH" "\<not> has_control ident"
    and "jget res ''uid'' = JInt 0" "jget res ''username'' = JNull" "jget res ''mode'' = v"
    and "dk_ledger dk = Some (Document (JObj [(''version'', JInt 1), (''reservations'', JArr [JObj res])]))"
  shows "load_unlocked modes dk = Inl RaisedTypeError"
proof (rule type_error_not_restored [OF assms(9)])
  have "member_of MODES msg v = Inl SchemaTypeError" for msg using assms(1) by auto
  with assms(2-8) have "validate_reservation (JObj res) ([], []) = Inl SchemaTypeError"
    by (simp add: validate_reservation_def uid_range_def MAX_UID_def when_present_def)
  then show "validate_ledger_document (JObj [(''version'', JInt 1), (''reservations'', JArr [JObj res])]) = Inl SchemaTypeError"
    by (simp add: validate_ledger_document_def jget_def jget_default_def when_present_def validate_announcements_def)
qed

lemma unhashable_mode_sample:
  "load_unlocked (st_modes sample_store)
     (sample_disk\<lparr>dk_ledger := Some (Document (JObj [(''version'', JInt 1), (''reservations'',
        JArr [JObj [(''id'', JStr ''r1''), (''uid'', JInt 0), (''mode'', JArr [])]])])),
        dk_backups := [(''b1'', Document empty_ledger)]\<rparr>) = Inl RaisedTypeError"
  by (rule unhashable_mode_not_restored [where v = "JArr []" and xs = "[]" and ident = "''r1''"
        and res = "[(''id'', JStr ''r1''), (''uid'', JInt 0), (''mode'', JArr [])]"])
    (simp_all add: jget_def MAX_RESERVATION_ID_LENGTH_def has_control_def)


section \<open>The shared policy\<close>

text \<open>The writes that bind and check the policy; a cancellation by the owner does not.\<close>

definition policy_write :: "(string \<Rightarrow> string) \<Rightarrow> op_env \<Rightarrow> config \<Rightarrow> ledger \<Rightarrow> ledger \<Rightarrow> bool" where
  "policy_write sha256 env c l l' \<longleftrightarrow>
     (\<exists>request res logs ch. add_booking sha256 env c request l = Inr (l', res, logs, ch))
     \<or> (\<exists>request res logs ch. edit_booking sha256 env c request l = Inr (l', res, logs, ch))
     \<or> (\<exists>ident actor reason r logs ch. cancel_booking_as_admin sha256 env c ident actor reason l = Inr (l', r, logs, ch))"

lemma policy_writeI:
  "add_booking sha256 env c request l = Inr (l', res, logs, ch) \<Longrightarrow> policy_write sha256 env c l l'"
  "edit_booking sha256 env c request' l = Inr (l', res, logs, ch) \<Longrightarrow> policy_write sha256 env c l l'"
  "cancel_booking_as_admin sha256 env c ident actor reason l = Inr (l', r, logs, ch) \<Longrightarrow> policy_write sha256 env c l l'"
  unfolding policy_write_def by blast+

lemma policy_write_binds:
  "policy_write sha256 env c l l' \<Longrightarrow> \<exists>lb b. bind_ledger_policy l c = Inr (lb, b) \<and> lg_policy l' = lg_policy lb"
  by (auto simp: policy_write_def dest: add_booking_policy edit_booking_policy cancel_as_admin_policy)

text \<open>The ledger's policy admits only configurations with the view \<open>v\<close>.\<close>

definition pins_view :: "int \<times> int \<times> int \<times> bool \<times> int \<Rightarrow> ledger \<Rightarrow> bool" where
  "pins_view v l \<longleftrightarrow> lg_policy l \<noteq> JNull \<and> (\<forall>d. validate_ledger_policy l d = Inr () \<longrightarrow> policy_view d = v)"

lemma mismatches_storage_gid:
  assumes "map_of cur STORAGE_GID_POLICY_KEY = None" "policy_mismatches (cur @ [(STORAGE_GID_POLICY_KEY, v)]) d = []"
  shows "policy_mismatches cur d = []"
  using assms by (auto simp: policy_mismatches_def filter_empty_conv jget_def map_add_def split: option.splits if_splits)

lemma pins_view_bind:
  assumes "pins_view v l" "bind_ledger_policy l c = Inr (l', b)"
  shows "pins_view v l'"
proof (cases "lg_policy l' = lg_policy l")
  case True
  with assms(1) show ?thesis by (simp add: pins_view_def validate_ledger_policy_def)
next
  case False
  with assms obtain cur g where cur: "lg_policy l = JObj cur" "map_of cur STORAGE_GID_POLICY_KEY = None"
      "lg_policy l' = JObj (cur @ [(STORAGE_GID_POLICY_KEY, JInt g)])"
    by (auto simp: pins_view_def bind_ledger_policy_def res_bind_eq_Inr split: json.splits option.splits if_splits)
  with assms(1) mismatches_storage_gid [OF cur(2)] show ?thesis
    by (auto simp: pins_view_def validate_ledger_policy_def Let_def)
qed

lemma pins_view_write:
  assumes "write_step sha256 (l, T) (l', T')" "pins_view v l"
  shows "pins_view v l'"
proof -
  have same: "pins_view v l1 = pins_view v l2" if "lg_policy l1 = lg_policy l2" for l1 l2
    using that by (simp add: pins_view_def validate_ledger_policy_def)
  from assms(1) have "(\<exists>env c. policy_write sha256 env c l l') \<or> lg_policy l' = lg_policy l"
    by (cases rule: write_step.cases) (auto dest: cancel_booking_policy policy_writeI)
  then consider (checked) env c where "policy_write sha256 env c l l'" | (kept) "lg_policy l' = lg_policy l" by blast
  then show ?thesis
  proof cases
    case checked
    then obtain lb b where "bind_ledger_policy l c = Inr (lb, b)" "lg_policy l' = lg_policy lb"
      using policy_write_binds by blast
    with pins_view_bind [OF assms(2)] same show ?thesis by blast
  qed (use same assms(2) in blast)
qed

lemma pins_view_step:
  assumes "pins_view v (sy_ledger s)" and "system_step sha256 s s'"
  shows "pins_view v (sy_ledger s')"
proof -
  have same: "pins_view v l'" if "pins_view v l" "lg_policy l' = lg_policy l" for l l'
    using that by (simp add: pins_view_def validate_ledger_policy_def)
  have holder: "pins_view v l'" if "pins_view v l" "l' = l \<or> holder_write actor ident t now P l l'" for l l' actor ident t now P
    using that same holder_write_keeps(2) by blast
  show ?thesis using assms(2,1)
  proof (induction rule: system_step.induct)
    case (client s l' T')
    from pins_view_write [OF client(1)] client show ?case by simp
  next
    case (claim actor cc s l' claimed logs ch T')
    from same claim claim_due_jobs_keeps(2) [OF claim(1)] show ?case by simp
  next
    case (guard actor decisions now clock s l' notices logs ch T')
    from same guard guarding.run_sweep_keeps(3) [OF guard(1) [unfolded record_launch_guard_decisions_def] refl] show ?case by simp
  next
    case (fail s t ident st actor message now ts l' u logs ch T')
    from holder [OF _ mark_launch_failure_write [OF fail(3)]] fail show ?case by simp
  next
    case (abort s t ident st actor now ts l' u logs ch T')
    from holder [OF _ mark_aborted_claim_write [OF abort(3)]] abort show ?case by simp
  next
    case (run s t ident actor pid now ts l' logs ch T')
    from holder [OF run(5) disjI2] mark_running_write [OF run(2)] show ?case by simp
  next
    case (refuse s t ident actor pid now ts l' logs ch)
    from mark_running_write [OF refuse(2)] refuse show ?case by simp
  next
    case (complete s t ident reason running actor exit_code w n now ts l' u logs ch T')
    from holder [OF _ complete_job_write [OF complete(5)]] complete show ?case by simp
  next
    case (recover actor now worker decisions clock s l' ids logs ch T')
    from same recover recovering.run_sweep_keeps(3) [OF recover(1) [unfolded record_recovery_decisions_def] refl] show ?case by simp
  next
    case (finish actor now worker wanted remaining signalled clock s l' ids' logs ch T')
    from same finish finishing.run_sweep_keeps(3) [OF finish(1) [unfolded finish_recovery_def] refl] show ?case by simp
  next
    case (retry actor ident accept now ts s l' r logs ch T')
    from same retry retry_job_keeps(2) [OF retry(1)] show ?case by simp
  qed simp_all
qed

interpretation policy_run: preserved "system_step sha256" "\<lambda>s. pins_view v (sy_ledger s)" for sha256 v
  by unfold_locales (rule pins_view_step)

text \<open>
  C34: the policy pins every write that checks it. A create, an edit or an administrator's cancellation that succeeds
  leaves a policy its configuration agrees with, and binding again changes nothing. When later, after any steps of
  clients, workers and recoveries, a create, an edit or an administrator's cancellation of another configuration
  succeeds, the two configurations have the same GPUs, shared capacity, slot length and memory rules. (An owner's cancellation
  and the writes of workers do not check the policy and do not change it.)
\<close>

theorem writers_agree:
  assumes "policy_write sha256 env c l (sy_ledger s)"
    and "(system_step sha256)\<^sup>*\<^sup>* s s'"
    and "policy_write sha256 env' c' (sy_ledger s') l'"
  shows "policy_view c = policy_view c' \<and> validate_ledger_policy (sy_ledger s) c = Inr ()
    \<and> bind_ledger_policy (sy_ledger s) c = Inr (sy_ledger s, False)"
proof -
  let ?l = "sy_ledger s"
  from policy_write_binds [OF assms(1)] obtain lb b where b: "bind_ledger_policy l c = Inr (lb, b)" "lg_policy ?l = lg_policy lb" by blast
  have set: "lg_policy ?l \<noteq> JNull" using bind_policy_not_null [OF b(1)] b(2) by simp
  have valid: "validate_ledger_policy ?l c = Inr ()"
    using bind_policy_again [OF b(1)] b(2) by (simp add: validate_ledger_policy_def)
  then have "pins_view (policy_view c) ?l" unfolding pins_view_def using set validate_policy_agree [OF _ valid set] by blast
  from policy_run.run_preserves [OF assms(2) this] have pins: "pins_view (policy_view c) (sy_ledger s')" .
  from policy_write_binds [OF assms(3)] obtain lb' b' where "bind_ledger_policy (sy_ledger s') c' = Inr (lb', b')" by blast
  from bind_policy_not_null [OF this] pins have "policy_view c' = policy_view c" by (simp add: pins_view_def)
  with valid bind_policy_again [OF b(1)] b(2) show ?thesis by simp
qed

text \<open>
  Two administrators with different search windows cancel two reservations, one after the other.
\<close>

definition two_bookings :: ledger where
  "two_bookings = sample_ledger [sample_reservation ''r1'' MODE_SHARED [0] 0 (hours 2), sample_reservation ''r3'' MODE_SHARED [1] 0 (hours 2)]"

definition narrow_config :: config where
  "narrow_config = sample_config\<lparr>queue_search_hours := 24, ledger_retention_days := 7\<rparr>"

theorem writers_agree_witness:
  "\<exists>s s' l'. policy_write plain_digest (sample_env (hours 1) ''o1'') sample_config two_bookings (sy_ledger s)
    \<and> (system_step plain_digest)\<^sup>*\<^sup>* s s' \<and> policy_write plain_digest (sample_env (hours 1) ''o2'') narrow_config (sy_ledger s') l'
    \<and> sample_config \<noteq> narrow_config \<and> policy_view sample_config = policy_view narrow_config
    \<and> bind_ledger_policy (sy_ledger s) sample_config = Inr (sy_ledger s, False)"
proof -
  let ?cancel = "\<lambda>env c ident l. cancel_booking_as_admin plain_digest env c ident sample_admin ''maintenance'' l"
  let ?e = "sample_env (hours 1)"
  have "case ?cancel (?e ''o1'') sample_config ''r1'' two_bookings of
      Inl _ \<Rightarrow> False
    | Inr (l, _) \<Rightarrow> (case ?cancel (?e ''o2'') narrow_config ''r3'' l of Inl _ \<Rightarrow> False | Inr _ \<Rightarrow> True)"
    by code_simp
  then obtain l r logs ch l' r' logs' ch' where first: "?cancel (?e ''o1'') sample_config ''r1'' two_bookings = Inr (l, r, logs, ch)"
    and second: "?cancel (?e ''o2'') narrow_config ''r3'' l = Inr (l', r', logs', ch')"
    by (auto split: sum.splits prod.splits)
  let ?s = "idle_system l (hours 1)"
  have s: "sy_ledger ?s = l" by (simp add: idle_system_def)
  have "system_step plain_digest ?s (?s\<lparr>sy_ledger := l, sy_clock := hours 1, sy_idents := sy_idents ?s \<union> ids_of l\<rparr>)"
    by (rule system_step.client) (auto simp: idle_system_def intro!: write_step.tick)
  then have run: "(system_step plain_digest)\<^sup>*\<^sup>* ?s (?s\<lparr>sy_ledger := l, sy_clock := hours 1, sy_idents := sy_idents ?s \<union> ids_of l\<rparr>)"
    by blast
  have differ: "sample_config \<noteq> narrow_config"
  proof
    assume "sample_config = narrow_config"
    from arg_cong [OF this, of queue_search_hours] show False by (simp add: narrow_config_def sample_config_def)
  qed
  have writes: "policy_write plain_digest (?e ''o1'') sample_config two_bookings (sy_ledger ?s)"
    "policy_write plain_digest (?e ''o2'') narrow_config
       (sy_ledger (?s\<lparr>sy_ledger := l, sy_clock := hours 1, sy_idents := sy_idents ?s \<union> ids_of l\<rparr>)) l'"
    using policy_writeI(3) [OF first] policy_writeI(3) [OF second] by (simp_all add: s)
  from writers_agree [OF writes(1) run writes(2)] writes run differ show ?thesis by blast
qed


section \<open>Malformed histories\<close>

text \<open>
  A reservation whose stored edit history is null. The validator accepts the document; but the search for an operation
  identifier that reaches this reservation, which has no such create operation and no cancellation, raises for its owner, and
  so does an edit of it.
\<close>

lemma null_history_blocks:
  assumes "lg_reservations l = xs @ r # ys" and "rs_edit_operations r = Null"
    and "applied_loop (rs_uid r) op xs = Inr None" and "rs_op_id r \<noteq> Some op" and "rs_cancel_operation r = None"
  shows "find_applied l (rs_uid r) op = Inl InvalidEditHistory
    \<and> append_edit_history r actor now op signature before = Inl InvalidEditHistory"
  using assms
  by (simp add: find_applied_def applied_loop_append applied_in_def applied_edit_def edit_history_def append_edit_history_def)

lemma null_history_accepted:
  "find_applied (sample_ledger [(sample_reservation ''r1'' MODE_SHARED [0] 0 (hours 2))\<lparr>rs_edit_operations := Null\<rparr>]) 1000 ''op-9''
     = Inl InvalidEditHistory
   \<and> validate_ledger_document (JObj [(''version'', JInt 1), (''reservations'', JArr [JObj [(''id'', JStr ''r1''), (''uid'', JInt 1000),
        (''mode'', JStr ''shared''), (''status'', JStr ''active''), (''gpus'', JArr [JInt 0]), (''start_at'', JStr ''2025-01-01T00:00:00Z''),
        (''end_at'', JStr ''2025-01-01T01:00:00Z''), (''edit_operations'', JNull)]])]) = Inr ()"
proof -
  let ?r = "(sample_reservation ''r1'' MODE_SHARED [0] 0 (hours 2))\<lparr>rs_edit_operations := Null\<rparr>"
  have "validate_ledger_document (JObj [(''version'', JInt 1), (''reservations'', JArr [JObj [(''id'', JStr ''r1''), (''uid'', JInt 1000),
        (''mode'', JStr ''shared''), (''status'', JStr ''active''), (''gpus'', JArr [JInt 0]), (''start_at'', JStr ''2025-01-01T00:00:00Z''),
        (''end_at'', JStr ''2025-01-01T01:00:00Z''), (''edit_operations'', JNull)]])]) = Inr ()" by code_simp
  then show ?thesis
    using null_history_blocks [of "sample_ledger [?r]" "[]" ?r "[]" "''op-9''" sample_actor 0 "''s''" "reservation_edit_state ?r"]
    by (simp add: sample_reservation_def)
qed

end
